(* ===== verification/Prelude.thy ===== *)
theory Prelude
  imports Main "HOL-Library.Word" "HOL-Library.Char_ord" "HOL-Library.List_Lexorder"
    "HOL-Library.Multiset"
begin

text \<open>
  What the components share: names for Go's machine types, errors as values, the error
  monad in which fallible Go code is written, decimal and hexadecimal text (Go's verbs
  \<open>%d\<close>, \<open>%x\<close>, \<open>%t\<close>), big-endian integers, and the lemmas on lists, options and
  words that the component proofs use.
\<close>

section \<open>Machine types\<close>

text \<open>
  Go strings and byte slices are sequences of bytes: both are \<^typ>\<open>string\<close> here, a
  \<^typ>\<open>char\<close> being one byte. Unsigned integers keep their width. A \<open>Timestamp\<close>
  (int64 seconds) is only compared and printed, never computed with, and is an \<^typ>\<open>int\<close>.
\<close>

type_synonym bytes = string
type_synonym u8 = "8 word"
type_synonym u16 = "16 word"
type_synonym u32 = "32 word"
type_synonym u64 = "64 word"
type_synonym timestamp = int

named_theorems go_simps \<open>defining equations of small helpers, unfolded by the component proofs\<close>
named_theorems wf_intros \<open>well-formedness is kept by an operation\<close>


section \<open>Errors\<close>

text \<open>
  A Go \<open>error\<close> value. The sentinels of \<open>provision/interface.go\<close>,
  \<open>gridtypes/deployment.go\<close>, \<open>provision/storage/storage.go\<close>, of bbolt, of \<open>os\<close>, of
  \<open>storage/filesystem/btrfs.go\<close>, of \<open>pkg/storage.go\<close>, of \<open>pkg/zinit\<close> and of
  \<open>gateway/gateway.go\<close> that the code compares with \<open>errors.Is\<close> are constructors; \<open>Errorf\<close> is a formatted message;
  \<open>Wrap\<close> is \<open>errors.Wrap\<close>; \<open>Response\<close> is the \<open>*response\<close> of
  \<open>provision/provisiner.go\<close>, an error that carries a result state; \<open>Panic\<close> is a Go
  panic, which no \<open>errors.Is\<close> ever matches.
\<close>

datatype err =
    ErrWorkloadNotFound
  | ErrDeploymentExists
  | ErrWorkloadExists
  | ErrDeploymentConflict
  | ErrDeploymentNotExists
  | ErrWorkloadNotExist
  | ErrNoActionNeeded
  | ErrDeploymentUpgradeValidationError
  | ErrInvalidVersion
  | ErrTransactionNotExist
  | ErrInvalidWorkloadType
  | ErrBucketExists
  | ErrBucketNotFound
  | ErrNotExist
  | ErrExist
  | ErrDeviceNotMounted
  | ErrNotEnoughSpace
  | ErrUnknownService
  | ErrAlreadyMonitored
  | ErrNotSupported
  | ErrTwinIDMismatch
  | ErrContractNotReserved
  | ErrInvalidContractState
  | Errorf string
  | Wrap string err
  | Response string "err option"
  | Panic string
  | Safe err

text \<open>
  \<open>Safe\<close> is the \<open>safeError\<close> of \<open>primitives/zdb/zdb.go\<close>: it hides identifiers in the text of an
  error. The expression \<open>([0-9a-f]{8})\b-[0-9a-f]{4}-[0-9a-f]{4}-[0-9a-f]{4}-\b[0-9a-f]{12}\<close>
  matches 36 characters, \<open>uuid_shape\<close>; of a match the first group is kept.
\<close>

definition is_hex :: "char \<Rightarrow> bool" where
  "is_hex c \<longleftrightarrow> c \<in> set ''0123456789abcdef''"

definition uuid_shape :: "(char \<Rightarrow> bool) list" where
  "uuid_shape = replicate 8 is_hex @ concat (replicate 3 ((\<lambda>c. c = CHR ''-'') # replicate 4 is_hex))
     @ (\<lambda>c. c = CHR ''-'') # replicate 12 is_hex"

definition uuid_prefix :: "string \<Rightarrow> bool" where
  "uuid_prefix s \<longleftrightarrow> 36 \<le> length s \<and> list_all2 (\<lambda>p c. p c) uuid_shape (take 36 s)"

fun maskUUID :: "string \<Rightarrow> string" where
  "maskUUID [] = []"
| "maskUUID (c # cs) = (if uuid_prefix (c # cs) then take 8 (c # cs) @ ''-***'' @ maskUUID (drop 35 cs) else c # maskUUID cs)"

fun err_is :: "err \<Rightarrow> err \<Rightarrow> bool" where
  "err_is (Wrap m e) t = (Wrap m e = t \<or> err_is e t)"
| "err_is (Response s (Some e)) t = (Response s (Some e) = t \<or> err_is e t)"
| "err_is (Safe e) t = (Safe e = t \<or> err_is e t)"
| "err_is e t = (e = t)"

text \<open>\<open>errors.As(err, &resp)\<close>: the state of the first response in the chain of causes.\<close>

fun err_as_response :: "err \<Rightarrow> string option" where
  "err_as_response (Response s _) = Some s"
| "err_as_response (Wrap _ e) = err_as_response e"
| "err_as_response (Safe e) = err_as_response e"
| "err_as_response _ = None"

fun err_text :: "err \<Rightarrow> string" where
  "err_text ErrWorkloadNotFound = ''workload not found''"
| "err_text ErrDeploymentExists = ''exists''"
| "err_text ErrWorkloadExists = ''exists''"
| "err_text ErrDeploymentConflict = ''conflict''"
| "err_text ErrDeploymentNotExists = ''deployment does not exist''"
| "err_text ErrWorkloadNotExist = ''workload does not exist''"
| "err_text ErrNoActionNeeded = ''no action needed''"
| "err_text ErrDeploymentUpgradeValidationError = ''upgrade validation error''"
| "err_text ErrInvalidVersion = ''invalid version''"
| "err_text ErrTransactionNotExist = ''no transaction found''"
| "err_text ErrInvalidWorkloadType = ''invalid workload type''"
| "err_text ErrBucketExists = ''bucket already exists''"
| "err_text ErrBucketNotFound = ''bucket not found''"
| "err_text ErrNotExist = ''file does not exist''"
| "err_text ErrExist = ''file already exists''"
| "err_text ErrDeviceNotMounted = ''device is not mounted''"
| "err_text ErrNotEnoughSpace = ''not enough space left in pools of this type ssd''"
| "err_text ErrUnknownService = ''unknown service''"
| "err_text ErrAlreadyMonitored = ''already monitored''"
| "err_text ErrNotSupported = ''operation not supported''"
| "err_text ErrTwinIDMismatch = ''twin id mismatch''"
| "err_text ErrContractNotReserved = ''a name contract with the given name must be reserved first''"
| "err_text ErrInvalidContractState = ''the name contract must be in Created or GracePeriod state''"
| "err_text (Errorf m) = m"
| "err_text (Wrap m e) = m @ '': '' @ err_text e"
| "err_text (Response _ None) = []"
| "err_text (Response _ (Some e)) = err_text e"
| "err_text (Panic m) = m"
| "err_text (Safe e) = maskUUID (err_text e)"

type_synonym 'a result = "err + 'a"

abbreviation Ok :: "'a \<Rightarrow> 'a result" where "Ok \<equiv> Inr"
abbreviation Err :: "err \<Rightarrow> 'a result" where "Err \<equiv> Inl"

text \<open>\<open>x, err := m; if err != nil { return err }\<close>, then the rest.\<close>

definition rbind :: "'a result \<Rightarrow> ('a \<Rightarrow> 'b result) \<Rightarrow> 'b result" where
  "rbind m f = (case m of Inl e \<Rightarrow> Inl e | Inr x \<Rightarrow> f x)"

text \<open>\<open>if bad { return err }\<close>, then the rest.\<close>

definition fail_if :: "bool \<Rightarrow> err \<Rightarrow> unit result" where
  "fail_if bad e = (if bad then Err e else Ok ())"

definition rwrap :: "string \<Rightarrow> 'a result \<Rightarrow> 'a result" where
  "rwrap msg m = (case m of Inl e \<Rightarrow> Inl (Wrap msg e) | Inr x \<Rightarrow> Inr x)"

definition rmap :: "('a \<Rightarrow> 'b) \<Rightarrow> 'a result \<Rightarrow> 'b result" where
  "rmap f m = (case m of Inl e \<Rightarrow> Inl e | Inr x \<Rightarrow> Inr (f x))"

definition is_ok :: "'a result \<Rightarrow> bool" where
  "is_ok m = (case m of Inl _ \<Rightarrow> False | Inr _ \<Rightarrow> True)"

text \<open>A \<open>for\<close> loop over a slice whose body updates a state and may return early.\<close>

fun rfold :: "('x \<Rightarrow> 's \<Rightarrow> 's result) \<Rightarrow> 'x list \<Rightarrow> 's \<Rightarrow> 's result" where
  "rfold f [] s = Ok s"
| "rfold f (x # xs) s = rbind (f x s) (rfold f xs)"

text \<open>A \<open>for\<close> loop that only checks.\<close>

fun rcheck :: "('x \<Rightarrow> unit result) \<Rightarrow> 'x list \<Rightarrow> unit result" where
  "rcheck f [] = Ok ()"
| "rcheck f (x # xs) = rbind (f x) (\<lambda>_. rcheck f xs)"

text \<open>A \<open>for\<close> loop that writes to a hash: the texts written, one after the other.\<close>

fun rconcat :: "('x \<Rightarrow> string result) \<Rightarrow> 'x list \<Rightarrow> string result" where
  "rconcat f [] = Ok []"
| "rconcat f (x # xs) = rbind (f x) (\<lambda>t. rbind (rconcat f xs) (\<lambda>ts. Ok (t @ ts)))"

text \<open>A \<open>for\<close> loop that appends one element per step.\<close>

fun rlist :: "('x \<Rightarrow> 'y result) \<Rightarrow> 'x list \<Rightarrow> 'y list result" where
  "rlist f [] = Ok []"
| "rlist f (x # xs) = rbind (f x) (\<lambda>y. rbind (rlist f xs) (\<lambda>ys. Ok (y # ys)))"

lemma rbind_simps [simp]: "rbind (Ok x) f = f x" "rbind (Err e) f = Err e"
  by (simp_all add: rbind_def)

lemma rbind_Ok_iff: "rbind m f = Ok y \<longleftrightarrow> (\<exists>x. m = Ok x \<and> f x = Ok y)"
  by (cases m) simp_all

lemma rbind_Err_iff: "rbind m f = Err e \<longleftrightarrow> m = Err e \<or> (\<exists>x. m = Ok x \<and> f x = Err e)"
  by (cases m) simp_all

lemma rbind_assoc: "rbind (rbind m f) g = rbind m (\<lambda>x. rbind (f x) g)"
  by (cases m) simp_all

lemma fail_if_simps [simp]: "fail_if True e = Err e" "fail_if False e = Ok ()"
  by (simp_all add: fail_if_def)

lemma fail_if_Ok_iff [simp]: "fail_if b e = Ok u \<longleftrightarrow> \<not> b"
  by (simp add: fail_if_def)

lemma fail_if_Err_iff [simp]: "fail_if b e = Err e' \<longleftrightarrow> b \<and> e' = e"
  by (auto simp: fail_if_def)

lemma rwrap_simps [simp]: "rwrap m (Ok x) = Ok x" "rwrap m (Err e) = Err (Wrap m e)"
  by (simp_all add: rwrap_def)

lemma rwrap_Ok_iff [simp]: "rwrap m r = Ok x \<longleftrightarrow> r = Ok x"
  by (cases r) simp_all

lemma rmap_simps [simp]: "rmap f (Ok x) = Ok (f x)" "rmap f (Err e) = Err e"
  by (simp_all add: rmap_def)

lemma rmap_Ok_iff: "rmap f r = Ok y \<longleftrightarrow> (\<exists>x. r = Ok x \<and> y = f x)"
  by (cases r) auto

lemma is_ok_simps [simp]: "is_ok (Ok x)" "\<not> is_ok (Err e)"
  by (simp_all add: is_ok_def)

lemma is_ok_iff: "is_ok m \<longleftrightarrow> (\<exists>x. m = Ok x)"
  by (cases m) simp_all

lemma rcheck_Ok_iff: "rcheck f xs = Ok u \<longleftrightarrow> (\<forall>x \<in> set xs. f x = Ok ())"
  by (induction xs) (auto simp: rbind_Ok_iff)

lemma rconcat_Ok_map:
  "(\<And>x. x \<in> set xs \<Longrightarrow> f x = Ok (g x)) \<Longrightarrow> rconcat f xs = Ok (concat (map g xs))"
  by (induction xs) simp_all

lemma rlist_Ok_map:
  "(\<And>x. x \<in> set xs \<Longrightarrow> f x = Ok (g x)) \<Longrightarrow> rlist f xs = Ok (map g xs)"
  by (induction xs) simp_all

lemma rlist_Ok_iff: "rlist f xs = Ok ys \<longleftrightarrow> list_all2 (\<lambda>x y. f x = Ok y) xs ys"
  by (induction xs arbitrary: ys) (auto simp: rbind_Ok_iff list_all2_Cons1)

lemma rfold_append: "rfold f (xs @ ys) s = rbind (rfold f xs s) (rfold f ys)"
proof (induction xs arbitrary: s)
  case (Cons x xs)
  then show ?case by (cases "f x s") simp_all
qed simp

lemma rfold_invariant:
  assumes step: "\<And>x s s'. x \<in> set xs \<Longrightarrow> P s \<Longrightarrow> f x s = Ok s' \<Longrightarrow> P s'"
    and "P s" and "rfold f xs s = Ok s'"
  shows "P s'"
  using assms
proof (induction xs arbitrary: s)
  case (Cons x xs)
  from Cons.prems(3) obtain s1 where s1: "f x s = Ok s1" and rest: "rfold f xs s1 = Ok s'"
    by (auto simp: rbind_Ok_iff)
  from Cons.prems(1)[of x] Cons.prems(2) s1 have "P s1" by simp
  with Cons.IH[of s1] Cons.prems(1) rest show ?case by (meson list.set_intros(2))
qed simp

lemmas result_iffs = rbind_Ok_iff rbind_Err_iff rmap_Ok_iff


subsection \<open>Programs that need not return\<close>

text \<open>
  Code that changes the world outside the process and may wait for ever: from a world to the
  world and the result it returns with, or \<^const>\<open>None\<close> when it does not return. \<open>iread\<close> and
  \<open>iact\<close> call what only reads the world and what changes it; \<open>itry\<close> goes on with the result,
  error or not; \<open>ibind\<close> is \<open>if err != nil { return err }\<close>.
\<close>

type_synonym ('w, 'a) io = "'w \<Rightarrow> ('w \<times> 'a result) option"

definition iret :: "'a result \<Rightarrow> ('w, 'a) io" where
  "iret r w = Some (w, r)"

definition iread :: "('w \<Rightarrow> 'a result) \<Rightarrow> ('w, 'a) io" where
  "iread f w = Some (w, f w)"

definition iact :: "('w \<Rightarrow> 'w \<times> 'a result) \<Rightarrow> ('w, 'a) io" where
  "iact f w = Some (f w)"

definition itry :: "('w, 'a) io \<Rightarrow> ('a result \<Rightarrow> ('w, 'b) io) \<Rightarrow> ('w, 'b) io" where
  "itry m k w = (case m w of None \<Rightarrow> None | Some (w, r) \<Rightarrow> k r w)"

definition ibind :: "('w, 'a) io \<Rightarrow> ('a \<Rightarrow> ('w, 'b) io) \<Rightarrow> ('w, 'b) io" where
  "ibind m k = itry m (\<lambda>r. case r of Inl e \<Rightarrow> iret (Err e) | Inr x \<Rightarrow> k x)"

definition iwrap :: "string \<Rightarrow> ('w, 'a) io \<Rightarrow> ('w, 'a) io" where
  "iwrap msg m = itry m (\<lambda>r. iret (rwrap msg r))"

lemmas io_defs = iret_def iread_def iact_def itry_def ibind_def iwrap_def

lemma ibind_Ok_iff:
  "ibind m k w = Some (w', Ok y) \<longleftrightarrow> (\<exists>w1 x. m w = Some (w1, Ok x) \<and> k x w1 = Some (w', Ok y))"
  by (auto simp: io_defs split: option.splits sum.splits)

lemma ibind_Err_iff:
  "ibind m k w = Some (w', Err e) \<longleftrightarrow>
     m w = Some (w', Err e) \<or> (\<exists>w1 x. m w = Some (w1, Ok x) \<and> k x w1 = Some (w', Err e))"
  by (auto simp: io_defs split: option.splits sum.splits)

lemma itry_Some_iff: "itry m k w = Some p \<longleftrightarrow> (\<exists>w1 r. m w = Some (w1, r) \<and> k r w1 = Some p)"
  by (auto simp: itry_def split: option.splits)

lemma iwrap_Ok_iff [simp]: "iwrap msg m w = Some (w', Ok x) \<longleftrightarrow> m w = Some (w', Ok x)"
  by (auto simp: io_defs rwrap_def split: option.splits sum.splits)

lemma iret_Some_iff [simp]: "iret r w = Some (w', r') \<longleftrightarrow> w' = w \<and> r = r'"
  by (auto simp: iret_def)

lemma iread_Some_iff [simp]: "iread f w = Some (w', r') \<longleftrightarrow> w' = w \<and> f w = r'"
  by (auto simp: iread_def)

lemma iact_Some_iff [simp]: "iact f w = Some p \<longleftrightarrow> f w = p"
  by (auto simp: iact_def)

text \<open>A relation between the worlds before and after that every call keeps.\<close>

definition ikeeps :: "('w \<Rightarrow> 'w \<Rightarrow> bool) \<Rightarrow> ('w, 'a) io \<Rightarrow> bool" where
  "ikeeps R m \<longleftrightarrow> (\<forall>w w' r. m w = Some (w', r) \<longrightarrow> R w w')"

text \<open>A program that always returns.\<close>

definition ireturns :: "('w, 'a) io \<Rightarrow> bool" where
  "ireturns m \<longleftrightarrow> (\<forall>w. m w \<noteq> None)"

named_theorems io_intros \<open>what holds of a program of smaller programs\<close>

lemma ikeepsD: "ikeeps R m \<Longrightarrow> m w = Some (w', r) \<Longrightarrow> R w w'"
  by (simp add: ikeeps_def)

lemma ikeeps_itry [io_intros]:
  "transp R \<Longrightarrow> ikeeps R m \<Longrightarrow> (\<And>r. ikeeps R (k r)) \<Longrightarrow> ikeeps R (itry m k)"
  unfolding ikeeps_def itry_Some_iff by (blast dest: transpD)

lemma ikeeps_iret [io_intros]: "reflp R \<Longrightarrow> ikeeps R (iret r)"
  by (auto simp: ikeeps_def dest: reflpD)

lemma ikeeps_iread [io_intros]: "reflp R \<Longrightarrow> ikeeps R (iread f)"
  by (auto simp: ikeeps_def dest: reflpD)

lemma ikeeps_iact [io_intros]: "(\<And>w. R w (fst (f w))) \<Longrightarrow> ikeeps R (iact f)"
  by (auto simp: ikeeps_def iact_def) (metis fst_conv)

lemma ikeeps_ibind [io_intros]:
  "reflp R \<Longrightarrow> transp R \<Longrightarrow> ikeeps R m \<Longrightarrow> (\<And>x. ikeeps R (k x)) \<Longrightarrow> ikeeps R (ibind m k)"
  unfolding ibind_def by (intro ikeeps_itry) (auto intro: ikeeps_iret split: sum.splits)

lemma ikeeps_iwrap [io_intros]: "reflp R \<Longrightarrow> transp R \<Longrightarrow> ikeeps R m \<Longrightarrow> ikeeps R (iwrap msg m)"
  unfolding iwrap_def by (intro ikeeps_itry ikeeps_iret)

lemma ikeeps_if [io_intros]:
  "(b \<Longrightarrow> ikeeps R m) \<Longrightarrow> (\<not> b \<Longrightarrow> ikeeps R n) \<Longrightarrow> ikeeps R (if b then m else n)"
  by simp

lemma ikeeps_case [io_intros]:
  "(\<And>e. r = Err e \<Longrightarrow> ikeeps R (f e)) \<Longrightarrow> (\<And>x. r = Ok x \<Longrightarrow> ikeeps R (g x)) \<Longrightarrow> ikeeps R (case r of Inl e \<Rightarrow> f e | Inr x \<Rightarrow> g x)"
  by (cases r) simp_all

lemma ireturns_if [io_intros]: "ireturns m \<Longrightarrow> ireturns n \<Longrightarrow> ireturns (if b then m else n)"
  by simp

lemma ireturns_case [io_intros]:
  "(\<And>e. ireturns (f e)) \<Longrightarrow> (\<And>x. ireturns (g x)) \<Longrightarrow> ireturns (case r of Inl e \<Rightarrow> f e | Inr x \<Rightarrow> g x)"
  by (cases r) simp_all

lemma ireturns_simps [io_intros]: "ireturns (iret r)" "ireturns (iread f)" "ireturns (iact g)"
  by (simp_all add: ireturns_def io_defs)

lemma ireturns_itry [io_intros]: "ireturns m \<Longrightarrow> (\<And>r. ireturns (k r)) \<Longrightarrow> ireturns (itry m k)"
  by (auto simp: ireturns_def itry_def split: option.splits)

lemma ireturns_ibind [io_intros]: "ireturns m \<Longrightarrow> (\<And>x. ireturns (k x)) \<Longrightarrow> ireturns (ibind m k)"
  unfolding ibind_def by (rule ireturns_itry) (auto intro: ireturns_simps split: sum.splits)

lemma ireturns_iwrap [io_intros]: "ireturns m \<Longrightarrow> ireturns (iwrap msg m)"
  unfolding iwrap_def by (intro ireturns_itry ireturns_simps)


section \<open>Text\<close>

subsection \<open>Decimal\<close>

definition digit_char :: "nat \<Rightarrow> char" where
  "digit_char d = char_of (48 + d)"

definition is_digit :: "char \<Rightarrow> bool" where
  "is_digit c \<longleftrightarrow> 48 \<le> (of_char c :: nat) \<and> (of_char c :: nat) \<le> 57"

definition digit_val :: "char \<Rightarrow> nat" where
  "digit_val c = of_char c - 48"

text \<open>\<open>%d\<close> of an unsigned integer.\<close>

fun dec :: "nat \<Rightarrow> string" where
  "dec n = (if n < 10 then [digit_char n] else dec (n div 10) @ [digit_char (n mod 10)])"

declare dec.simps [simp del]

definition dec_int :: "int \<Rightarrow> string" where
  "dec_int i = (if i < 0 then CHR ''-'' # dec (nat (- i)) else dec (nat i))"

definition undec :: "string \<Rightarrow> nat" where
  "undec s = foldl (\<lambda>n c. 10 * n + digit_val c) 0 s"

text \<open>\<open>%t\<close> of a bool.\<close>

definition show_bool :: "bool \<Rightarrow> string" where
  "show_bool b = (if b then ''true'' else ''false'')"

text \<open>A text between single quotes, as Go's \<open>'%s'\<close>.\<close>

definition squote :: "string \<Rightarrow> string" where
  "squote s = CHR 0x27 # s @ [CHR 0x27]"

lemma of_char_digit_char: "d < 10 \<Longrightarrow> of_char (digit_char d) = (48 + d :: nat)"
  by (simp add: digit_char_def)

lemma is_digit_digit_char: "d < 10 \<Longrightarrow> is_digit (digit_char d)"
  by (simp add: is_digit_def of_char_digit_char)

lemma digit_val_digit_char: "d < 10 \<Longrightarrow> digit_val (digit_char d) = d"
  by (simp add: digit_val_def of_char_digit_char)

lemma dec_nonempty [simp]: "dec n \<noteq> []"
  by (subst dec.simps) simp

lemma dec_digits: "c \<in> set (dec n) \<Longrightarrow> is_digit c"
proof (induction n rule: dec.induct)
  case (1 n)
  show ?case
  proof (cases "n < 10")
    case True
    with "1.prems" show ?thesis by (subst (asm) dec.simps) (simp add: is_digit_digit_char)
  next
    case False
    with "1.prems" have "c \<in> set (dec (n div 10)) \<or> c = digit_char (n mod 10)"
      by (subst (asm) dec.simps) auto
    with "1.IH"[OF False] show ?thesis by (auto simp: is_digit_digit_char)
  qed
qed

lemma undec_dec [simp]: "undec (dec n) = n"
proof (induction n rule: dec.induct)
  case (1 n)
  show ?case
  proof (cases "n < 10")
    case True
    then show ?thesis by (subst dec.simps) (simp add: undec_def digit_val_digit_char)
  next
    case False
    with "1.IH" have "undec (dec (n div 10)) = n div 10" by simp
    with False show ?thesis
      by (subst dec.simps) (simp add: undec_def digit_val_digit_char)
  qed
qed

lemma dec_inject [simp]: "dec m = dec n \<longleftrightarrow> m = n"
  by (metis undec_dec)

lemma takeWhile_dec: "\<not> is_digit c \<Longrightarrow> takeWhile is_digit (dec n @ c # rest) = dec n"
  by (metis dec_digits takeWhile.simps(2) takeWhile_append2 append_Nil2)

lemma dropWhile_dec: "\<not> is_digit c \<Longrightarrow> dropWhile is_digit (dec n @ c # rest) = c # rest"
  by (metis dec_digits dropWhile.simps(2) dropWhile_append2)


subsection \<open>Hexadecimal\<close>

definition hex_digit :: "nat \<Rightarrow> char" where
  "hex_digit d = (if d < 10 then char_of (48 + d) else char_of (87 + d))"

definition hex_val :: "char \<Rightarrow> nat option" where
  "hex_val c = (let n = (of_char c :: nat) in
     if 48 \<le> n \<and> n \<le> 57 then Some (n - 48)
     else if 97 \<le> n \<and> n \<le> 102 then Some (n - 87)
     else if 65 \<le> n \<and> n \<le> 70 then Some (n - 55)
     else None)"

text \<open>\<open>hex.EncodeToString\<close>, which is also the verb \<open>%x\<close> of a byte slice.\<close>

fun hex_encode :: "bytes \<Rightarrow> string" where
  "hex_encode [] = []"
| "hex_encode (c # cs) =
     hex_digit (of_char c div 16) # hex_digit (of_char c mod 16) # hex_encode cs"

text \<open>\<open>hex.DecodeString\<close>: fails on an odd length and on a byte that is no hexadecimal digit.\<close>

fun hex_decode :: "string \<Rightarrow> bytes result" where
  "hex_decode [] = Ok []"
| "hex_decode [c] =
     (case hex_val c of
        None \<Rightarrow> Err (Errorf (''encoding/hex: invalid byte: '' @ [c]))
      | Some _ \<Rightarrow> Err (Errorf ''encoding/hex: odd length hex string''))"
| "hex_decode (c # d # cs) =
     (case (hex_val c, hex_val d) of
        (Some h, Some l) \<Rightarrow> rbind (hex_decode cs) (\<lambda>bs. Ok (char_of (16 * h + l) # bs))
      | (None, _) \<Rightarrow> Err (Errorf (''encoding/hex: invalid byte: '' @ [c]))
      | (_, None) \<Rightarrow> Err (Errorf (''encoding/hex: invalid byte: '' @ [d])))"

lemma hex_val_hex_digit: "d < 16 \<Longrightarrow> hex_val (hex_digit d) = Some d"
  by (auto simp: hex_val_def hex_digit_def Let_def)

lemma hex_decode_encode [simp]: "hex_decode (hex_encode bs) = Ok bs"
proof (induction bs)
  case (Cons c cs)
  have "of_char c < (256 :: nat)" by (rule nat_of_char_less_256)
  then have "(of_char c :: nat) div 16 < 16" and "(of_char c :: nat) mod 16 < 16" by linarith+
  with Cons show ?case by (simp add: hex_val_hex_digit)
qed simp

lemma hex_encode_inject: "hex_encode a = hex_encode b \<longleftrightarrow> a = b"
  by (metis hex_decode_encode sum.inject(2))

lemma length_hex_encode: "length (hex_encode bs) = 2 * length bs"
  by (induction bs) simp_all


section \<open>Words\<close>

lemma unat32_less: "unat (w :: u32) < 2 ^ 32"
proof -
  have "(unsigned w :: nat) < 2 ^ LENGTH(32)" by (rule unsigned_less)
  then show ?thesis by simp
qed

lemma unat64_less: "unat (w :: u64) < 2 ^ 64"
proof -
  have "(unsigned w :: nat) < 2 ^ LENGTH(64)" by (rule unsigned_less)
  then show ?thesis by simp
qed

end
