(* ===== verification/GridTypes.thy ===== *)
theory GridTypes
  imports Prelude
begin

text \<open>
  The grid's data model: \<open>pkg/gridtypes/common.go\<close>, \<open>id.go\<close>, \<open>workload.go\<close> and the
  structures of \<open>deployment.go\<close>. Names and workload identifiers with their text form,
  capacities (64 bit, wrapping), result states, workloads and deployments, and the
  lookups of a deployment (\<open>Get\<close>, \<open>GetType\<close>, \<open>ByType\<close>, \<open>GetShareables\<close>).
\<close>

section \<open>Units and capacity (common.go, workload.go)\<close>

type_synonym Unit = u64

definition Kilobyte :: Unit where "Kilobyte = 1024"
definition Megabyte :: Unit where "Megabyte = 1024 * Kilobyte"
definition Gigabyte :: Unit where "Gigabyte = 1024 * Megabyte"
definition Terabyte :: Unit where "Terabyte = 1024 * Gigabyte"

lemmas unit_defs = Kilobyte_def Megabyte_def Gigabyte_def Terabyte_def

definition UnitMax :: "Unit \<Rightarrow> Unit \<Rightarrow> Unit" where
  "UnitMax u v = (if u > v then u else v)"

definition UnitMin :: "Unit \<Rightarrow> Unit \<Rightarrow> Unit" where
  "UnitMin u v = (if u < v then u else v)"

record Capacity =
  CRU :: u64
  SRU :: Unit
  HRU :: Unit
  MRU :: Unit
  IPV4U :: u64

definition noCapacity :: Capacity where
  "noCapacity = \<lparr>CRU = 0, SRU = 0, HRU = 0, MRU = 0, IPV4U = 0\<rparr>"

definition Capacity_Zero :: "Capacity \<Rightarrow> bool" where
  "Capacity_Zero c \<longleftrightarrow> CRU c = 0 \<and> SRU c = 0 \<and> HRU c = 0 \<and> MRU c = 0 \<and> IPV4U c = 0"

definition Capacity_Add :: "Capacity \<Rightarrow> Capacity \<Rightarrow> Capacity" where
  "Capacity_Add c z = \<lparr>CRU = CRU c + CRU z, SRU = SRU c + SRU z, HRU = HRU c + HRU z,
     MRU = MRU c + MRU z, IPV4U = IPV4U c + IPV4U z\<rparr>"

lemma Capacity_Zero_iff: "Capacity_Zero c \<longleftrightarrow> c = noCapacity"
  by (cases c) (auto simp: Capacity_Zero_def noCapacity_def)

lemma Capacity_Add_assoc: "Capacity_Add (Capacity_Add a b) c = Capacity_Add a (Capacity_Add b c)"
  by (simp add: Capacity_Add_def algebra_simps)

lemma Capacity_Add_commute: "Capacity_Add a b = Capacity_Add b a"
  by (simp add: Capacity_Add_def algebra_simps)

lemma Capacity_Add_zero [simp]: "Capacity_Add noCapacity c = c" "Capacity_Add c noCapacity = c"
  by (simp_all add: Capacity_Add_def noCapacity_def)


section \<open>Names and identifiers (id.go)\<close>

type_synonym Name = string
type_synonym WorkloadType = string
type_synonym WorkloadID = string

text \<open>The character class \<open>[a-zA-Z0-9_]\<close>.\<close>

definition name_char :: "char \<Rightarrow> bool" where
  "name_char c \<longleftrightarrow> (let n = (of_char c :: nat) in
     97 \<le> n \<and> n \<le> 122 \<or> 65 \<le> n \<and> n \<le> 90 \<or> 48 \<le> n \<and> n \<le> 57 \<or> n = 95)"

definition nameMatch :: "string \<Rightarrow> bool" where
  "nameMatch s \<longleftrightarrow> s \<noteq> [] \<and> list_all name_char s"

definition reservedNames :: "Name list" where
  "reservedNames = [''ygg'']"

definition Name_IsEmpty :: "Name \<Rightarrow> bool" where
  "Name_IsEmpty n \<longleftrightarrow> length n = 0"

definition IsValidName :: "Name \<Rightarrow> unit result" where
  "IsValidName n =
     (if length n = 0 then Err (Errorf ''name cannot be empty'')
      else if length n > 36 then Err (Errorf ''name cannot exceed 36 characters'')
      else if \<not> nameMatch n then Err (Errorf ''unsupported character in workload name'')
      else if n \<in> set reservedNames then
        Err (Errorf (''invalid name '' @ squote n @ '' is reserved''))
      else Ok ())"

definition NewUncheckedWorkloadID :: "u32 \<Rightarrow> u64 \<Rightarrow> Name \<Rightarrow> WorkloadID" where
  "NewUncheckedWorkloadID twin deployment name =
     dec (unat twin) @ ''-'' @ dec (unat deployment) @ ''-'' @ name"

definition NewWorkloadID :: "u32 \<Rightarrow> u64 \<Rightarrow> Name \<Rightarrow> WorkloadID result" where
  "NewWorkloadID twin deployment name =
     rbind (IsValidName name) (\<lambda>_. Ok (NewUncheckedWorkloadID twin deployment name))"

text \<open>
  \<open>fmt.Sscanf(id, "%d-%d-%s", &twin, &deployment, &name)\<close>. Every verb skips blanks
  first (a newline is an error), \<open>%d\<close> into an unsigned integer takes the longest run of
  digits and fails when there is none or when the value does not fit, \<open>-\<close> must match,
  \<open>%s\<close> takes what precedes the next blank and fails at the end of the input.
\<close>

definition is_blank :: "char \<Rightarrow> bool" where
  "is_blank c \<longleftrightarrow> (of_char c :: nat) \<in> {9, 11, 12, 13, 32}"

definition is_newline :: "char \<Rightarrow> bool" where
  "is_newline c \<longleftrightarrow> (of_char c :: nat) = 10"

definition skipSpace :: "string \<Rightarrow> string result" where
  "skipSpace s = (case dropWhile is_blank s of
       [] \<Rightarrow> Ok []
     | c # cs \<Rightarrow> if is_newline c then Err (Errorf ''unexpected newline'') else Ok (c # cs))"

definition scanUint :: "nat \<Rightarrow> string \<Rightarrow> (nat \<times> string) result" where
  "scanUint bits s = rbind (skipSpace s) (\<lambda>s.
     if s = [] then Err (Errorf ''unexpected EOF'')
     else let tok = takeWhile is_digit s; n = undec tok in
       if tok = [] then Err (Errorf ''expected integer'')
       else if 2 ^ bits \<le> int n then Err (Errorf (''unsigned integer overflow on token '' @ tok))
       else Ok (n, dropWhile is_digit s))"

definition scanLit :: "char \<Rightarrow> string \<Rightarrow> string result" where
  "scanLit c s = (case s of
       [] \<Rightarrow> Err (Errorf ''unexpected EOF'')
     | d # ds \<Rightarrow> if d = c then Ok ds else Err (Errorf ''input does not match format''))"

definition scanWord :: "string \<Rightarrow> string result" where
  "scanWord s = rbind (skipSpace s) (\<lambda>s.
     if s = [] then Err (Errorf ''unexpected EOF'')
     else Ok (takeWhile (\<lambda>c. \<not> is_blank c \<and> \<not> is_newline c) s))"

definition WorkloadID_Parts :: "WorkloadID \<Rightarrow> (u32 \<times> u64 \<times> Name) result" where
  "WorkloadID_Parts i =
     rbind (scanUint 32 i) (\<lambda>(twin, s).
     rbind (scanLit CHR ''-'' s) (\<lambda>s.
     rbind (scanUint 64 s) (\<lambda>(deployment, s).
     rbind (scanLit CHR ''-'' s) (\<lambda>s.
     rbind (scanWord s) (\<lambda>name.
       Ok (word_of_nat twin, word_of_nat deployment, name))))))"

text \<open>\<open>ToPath\<close>: panics on the empty identifier, else replaces every \<open>-\<close> by \<open>/\<close>.\<close>

definition WorkloadID_ToPath :: "WorkloadID \<Rightarrow> string result" where
  "WorkloadID_ToPath i =
     (if length i = 0 then Err (Panic ''id is not set'')
      else Ok (map (\<lambda>c. if c = CHR ''-'' then CHR ''/'' else c) i))"

text \<open>
  \<open>Unique\<close>: the hash (\<open>crypto/md5\<close>) and the base-58 text (a third-party package) are
  parameters.
\<close>

definition WorkloadID_Unique ::
    "(bytes \<Rightarrow> bytes) \<Rightarrow> (bytes \<Rightarrow> string) \<Rightarrow> WorkloadID \<Rightarrow> string \<Rightarrow> string" where
  "WorkloadID_Unique md5 base58 i n =
     (let b = base58 (md5 (i @ '':'' @ n)) in if length b > 13 then take 13 b else b)"


subsection \<open>Facts about names\<close>

lemma name_char_not_blank:
  "name_char c \<Longrightarrow> \<not> is_blank c \<and> \<not> is_newline c \<and> c \<noteq> CHR ''-'' \<and> c \<noteq> CHR ''/''"
  by (auto simp: name_char_def is_blank_def is_newline_def Let_def)

lemma valid_name_iff:
  "IsValidName n = Ok u \<longleftrightarrow>
     n \<noteq> [] \<and> length n \<le> 36 \<and> list_all name_char n \<and> n \<notin> set reservedNames"
  by (auto simp: IsValidName_def nameMatch_def)

lemma valid_name_chars: "IsValidName n = Ok u \<Longrightarrow> c \<in> set n \<Longrightarrow> name_char c"
  by (simp add: valid_name_iff list_all_iff)

lemma skipSpace_nonblank:
  "\<not> is_blank c \<Longrightarrow> \<not> is_newline c \<Longrightarrow> skipSpace (c # cs) = Ok (c # cs)"
  by (simp add: skipSpace_def)

lemma digit_not_blank: "is_digit c \<Longrightarrow> \<not> is_blank c \<and> \<not> is_newline c"
  by (auto simp: is_digit_def is_blank_def is_newline_def)

lemma dash_not_digit [simp]: "\<not> is_digit CHR ''-''"
  by (simp add: is_digit_def)

lemma skipSpace_dec: "skipSpace (dec n @ rest) = Ok (dec n @ rest)"
proof -
  obtain c cs where "dec n = c # cs" by (cases "dec n") simp_all
  moreover from this have "is_digit c" using dec_digits[of c n] by simp
  ultimately show ?thesis by (simp add: skipSpace_nonblank digit_not_blank)
qed

lemma scanUint_dec:
  "n < 2 ^ bits \<Longrightarrow> \<not> is_digit c \<Longrightarrow> scanUint bits (dec n @ c # rest) = Ok (n, c # rest)"
  by (simp add: scanUint_def skipSpace_dec takeWhile_dec dropWhile_dec)

lemma scanWord_name:
  assumes "n \<noteq> []" and "\<And>c. c \<in> set n \<Longrightarrow> name_char c"
  shows "scanWord n = Ok n"
proof -
  have nb: "\<And>c. c \<in> set n \<Longrightarrow> \<not> is_blank c \<and> \<not> is_newline c"
    using assms(2) name_char_not_blank by blast
  then have "takeWhile (\<lambda>c. \<not> is_blank c \<and> \<not> is_newline c) n = n" by simp
  moreover have "skipSpace n = Ok n"
    using assms(1) nb by (cases n) (simp_all add: skipSpace_nonblank)
  ultimately show ?thesis using assms(1) by (simp add: scanWord_def)
qed

lemma Parts_unchecked:
  assumes "n \<noteq> []" and "\<And>c. c \<in> set n \<Longrightarrow> name_char c"
  shows "WorkloadID_Parts (NewUncheckedWorkloadID t d n) = Ok (t, d, n)"
proof -
  note t = unat32_less[of t] and d = unat64_less[of d]
  have "scanUint 32 (dec (unat t) @ CHR ''-'' # dec (unat d) @ CHR ''-'' # n)
      = Ok (unat t, CHR ''-'' # dec (unat d) @ CHR ''-'' # n)"
    using t by (rule scanUint_dec) simp
  moreover have "scanUint 64 (dec (unat d) @ CHR ''-'' # n) = Ok (unat d, CHR ''-'' # n)"
    using d by (rule scanUint_dec) simp
  ultimately show ?thesis
    by (simp add: NewUncheckedWorkloadID_def WorkloadID_Parts_def scanLit_def scanWord_name[OF assms])
qed

lemma Parts_valid:
  "IsValidName n = Ok u \<Longrightarrow> WorkloadID_Parts (NewUncheckedWorkloadID t d n) = Ok (t, d, n)"
  by (rule Parts_unchecked) (auto simp: valid_name_iff list_all_iff)

lemma NewWorkloadID_Ok_iff:
  "NewWorkloadID t d n = Ok i \<longleftrightarrow>
     IsValidName n = Ok () \<and> i = NewUncheckedWorkloadID t d n"
  by (auto simp: NewWorkloadID_def rbind_Ok_iff)

lemma NewWorkloadID_inject:
  assumes "NewWorkloadID t d n = Ok i" and "NewWorkloadID t' d' n' = Ok i"
  shows "t = t' \<and> d = d' \<and> n = n'"
proof -
  from assms have "WorkloadID_Parts i = Ok (t, d, n)" and "WorkloadID_Parts i = Ok (t', d', n')"
    by (metis NewWorkloadID_Ok_iff Parts_valid)+
  then show ?thesis by simp
qed


section \<open>Results (workload.go)\<close>

type_synonym ResultState = string

definition StateInit :: ResultState where "StateInit = ''init''"
definition StateUnChanged :: ResultState where "StateUnChanged = ''unchanged''"
definition StateError :: ResultState where "StateError = ''error''"
definition StateOk :: ResultState where "StateOk = ''ok''"
definition StateDeleted :: ResultState where "StateDeleted = ''deleted''"
definition StatePaused :: ResultState where "StatePaused = ''paused''"

lemmas state_defs [go_simps] =
  StateInit_def StateUnChanged_def StateError_def StateOk_def StateDeleted_def StatePaused_def

definition validStates :: "ResultState list" where
  "validStates = [StateInit, StateUnChanged, StateError, StateOk, StateDeleted, StatePaused]"

fun IsAny :: "ResultState \<Rightarrow> ResultState list \<Rightarrow> bool" where
  "IsAny s [] = False"
| "IsAny s (x # xs) = (if s = x then True else IsAny s xs)"

definition IsOkay :: "ResultState \<Rightarrow> bool" where
  "IsOkay s = IsAny s [StateOk, StatePaused]"

lemma IsAny_iff [simp]: "IsAny s xs \<longleftrightarrow> s \<in> set xs"
  by (induction xs) auto

record Result =
  Created :: timestamp
  State :: ResultState
  Error :: string
  Data :: bytes

definition noResult :: Result where
  "noResult = \<lparr>Created = 0, State = [], Error = [], Data = []\<rparr>"

definition Result_Valid :: "Result \<Rightarrow> unit result" where
  "Result_Valid r =
     (if Created r = 0 then Err (Errorf ''created time must be set'')
      else if \<not> IsAny (State r) validStates then Err (Errorf ''invalid result state'')
      else Ok ())"

definition Result_IsNil :: "Result \<Rightarrow> bool" where
  "Result_IsNil r \<longleftrightarrow>
     State r = [] \<and> Created r = 0 \<and> (length (Data r) = 0 \<or> Data r = ''null'')"

definition Result_Bytes :: "Result \<Rightarrow> bytes" where
  "Result_Bytes r = State r @ Error r @ Data r"

lemma Result_Valid_iff:
  "Result_Valid r = Ok u \<longleftrightarrow> Created r \<noteq> 0 \<and> State r \<in> set validStates"
  by (simp add: Result_Valid_def)

lemma Result_Valid_not_nil: "Result_Valid r = Ok u \<Longrightarrow> \<not> Result_IsNil r"
  by (simp add: Result_Valid_iff Result_IsNil_def)


section \<open>Workloads (workload.go)\<close>

record Workload =
  wl_Version :: u32
  wl_Name :: Name
  wl_Type :: WorkloadType
  wl_Data :: bytes
  wl_Metadata :: string
  wl_Description :: string
  wl_Result :: Result

definition WithResults :: "Workload \<Rightarrow> Result \<Rightarrow> Workload" where
  "WithResults w r = w\<lparr>wl_Result := r\<rparr>"

definition IsResult :: "Workload \<Rightarrow> ResultState \<Rightarrow> bool" where
  "IsResult w s \<longleftrightarrow> \<not> Result_IsNil (wl_Result w) \<and> State (wl_Result w) = s"

lemma WithResults_fields [simp]:
  "wl_Version (WithResults w r) = wl_Version w" "wl_Name (WithResults w r) = wl_Name w"
  "wl_Type (WithResults w r) = wl_Type w" "wl_Data (WithResults w r) = wl_Data w"
  "wl_Result (WithResults w r) = r" "wl_Metadata (WithResults w r) = wl_Metadata w"
  "wl_Description (WithResults w r) = wl_Description w"
  by (simp_all add: WithResults_def)

text \<open>
  The registry of workload types: \<open>workloadTypes\<close> and \<open>sharableWorkloadTypes\<close>, filled by
  \<open>init\<close> functions. Registering a type twice panics. (The Go value registered with a type
  is the structure its data decodes into; here the type name alone selects the decoder.)
\<close>

record Registry =
  workloadTypes :: "WorkloadType list"
  sharableWorkloadTypes :: "WorkloadType list"

definition emptyRegistry :: Registry where
  "emptyRegistry = \<lparr>workloadTypes = [], sharableWorkloadTypes = []\<rparr>"

definition RegisterType :: "WorkloadType \<Rightarrow> Registry \<Rightarrow> Registry result" where
  "RegisterType t g =
     (if t \<in> set (workloadTypes g) then Err (Panic ''type already registered'')
      else Ok (g\<lparr>workloadTypes := workloadTypes g @ [t]\<rparr>))"

definition RegisterSharableType :: "WorkloadType \<Rightarrow> Registry \<Rightarrow> Registry result" where
  "RegisterSharableType t g = rbind (RegisterType t g) (\<lambda>g.
     Ok (g\<lparr>sharableWorkloadTypes := sharableWorkloadTypes g @ [t]\<rparr>))"

definition IsSharable :: "Registry \<Rightarrow> WorkloadType \<Rightarrow> bool" where
  "IsSharable g t \<longleftrightarrow> t \<in> set (sharableWorkloadTypes g)"

definition WorkloadType_Valid :: "Registry \<Rightarrow> WorkloadType \<Rightarrow> unit result" where
  "WorkloadType_Valid g t =
     (if t \<notin> set (workloadTypes g) then Err (Errorf (''invalid reservation type '' @ squote t))
      else Ok ())"

text \<open>\<open>Types\<close> lists the registered types in the order of a Go map iteration, which the
  language leaves open: \<open>ord\<close> is that order.\<close>

definition Types :: "(WorkloadType list \<Rightarrow> WorkloadType list) \<Rightarrow> Registry \<Rightarrow> WorkloadType list" where
  "Types ord g = ord (workloadTypes g)"


section \<open>Deployments (deployment.go)\<close>

record SignatureRequest =
  srq_TwinID :: u32
  srq_Required :: bool
  srq_Weight :: u64

record Signature =
  sig_TwinID :: u32
  sig_Signature :: string
  sig_SignatureType :: string

definition noSignature :: Signature where
  "noSignature = \<lparr>sig_TwinID = 0, sig_Signature = [], sig_SignatureType = []\<rparr>"

record SignatureRequirement =
  Requests :: "SignatureRequest list"
  WeightRequired :: u64
  Signatures :: "Signature list"
  SignatureStyle :: string

definition noRequirement :: SignatureRequirement where
  "noRequirement = \<lparr>Requests = [], WeightRequired = 0, Signatures = [], SignatureStyle = []\<rparr>"

record Deployment =
  dl_Version :: u32
  dl_TwinID :: u32
  dl_ContractID :: u64
  dl_Metadata :: string
  dl_Description :: string
  dl_Expiration :: timestamp
  dl_SignatureRequirement :: SignatureRequirement
  dl_Workloads :: "Workload list"

record WorkloadWithID =
  wi_Workload :: Workload
  wi_ID :: WorkloadID

definition Deployment_IsActive :: "Deployment \<Rightarrow> bool" where
  "Deployment_IsActive d =
     list_ex (\<lambda>wl. \<not> IsAny (State (wl_Result wl)) [StateDeleted, StateError]) (dl_Workloads d)"

definition Deployment_SetError :: "err \<Rightarrow> Deployment \<Rightarrow> Deployment" where
  "Deployment_SetError e d = d\<lparr>dl_Workloads := map (\<lambda>wl.
     wl\<lparr>wl_Result := (wl_Result wl)\<lparr>State := StateError, Error := err_text e\<rparr>\<rparr>) (dl_Workloads d)\<rparr>"

definition Deployment_Get :: "Deployment \<Rightarrow> Name \<Rightarrow> WorkloadWithID result" where
  "Deployment_Get d name = rbind (IsValidName name) (\<lambda>_.
     case find (\<lambda>wl. wl_Name wl = name) (dl_Workloads d) of
       Some wl \<Rightarrow> Ok \<lparr>wi_Workload = wl,
         wi_ID = (case NewWorkloadID (dl_TwinID d) (dl_ContractID d) name of Inr i \<Rightarrow> i | Inl _ \<Rightarrow> [])\<rparr>
     | None \<Rightarrow> Err (Wrap (''no workload with name '' @ squote name) ErrWorkloadNotFound))"

definition Deployment_GetType :: "Deployment \<Rightarrow> Name \<Rightarrow> WorkloadType \<Rightarrow> WorkloadWithID result" where
  "Deployment_GetType d name typ = rbind (Deployment_Get d name) (\<lambda>wl.
     if wl_Type (wi_Workload wl) \<noteq> typ
     then Err (Errorf (''workload '' @ squote name @ '' of wrong type''))
     else Ok wl)"

text \<open>
  The loop of \<open>ByType\<close> and \<open>GetShareables\<close>: the workloads that pass a test, with their
  identifiers; one whose name gives no identifier is skipped with a warning.
\<close>

fun collectWorkloads ::
    "u32 \<Rightarrow> u64 \<Rightarrow> (Workload \<Rightarrow> bool) \<Rightarrow> Workload list \<Rightarrow> WorkloadWithID list" where
  "collectWorkloads twin contract p [] = []"
| "collectWorkloads twin contract p (wl # wls) =
     (if p wl then
        (case NewWorkloadID twin contract (wl_Name wl) of
           Inl _ \<Rightarrow> collectWorkloads twin contract p wls
         | Inr i \<Rightarrow> \<lparr>wi_Workload = wl, wi_ID = i\<rparr> # collectWorkloads twin contract p wls)
      else collectWorkloads twin contract p wls)"

definition Deployment_ByType :: "Deployment \<Rightarrow> WorkloadType list \<Rightarrow> WorkloadWithID list" where
  "Deployment_ByType d typ =
     collectWorkloads (dl_TwinID d) (dl_ContractID d) (\<lambda>wl. wl_Type wl \<in> set typ) (dl_Workloads d)"

definition Deployment_GetShareables :: "Registry \<Rightarrow> Deployment \<Rightarrow> WorkloadWithID list" where
  "Deployment_GetShareables g d =
     collectWorkloads (dl_TwinID d) (dl_ContractID d) (\<lambda>wl. IsSharable g (wl_Type wl)) (dl_Workloads d)"


subsection \<open>Facts about the lookups\<close>

text \<open>An identified workload: its identifier is the one made of its own name.\<close>

definition identified :: "u32 \<Rightarrow> u64 \<Rightarrow> WorkloadWithID \<Rightarrow> bool" where
  "identified t d w \<longleftrightarrow>
     IsValidName (wl_Name (wi_Workload w)) = Ok () \<and>
     wi_ID w = NewUncheckedWorkloadID t d (wl_Name (wi_Workload w))"

lemma identified_Parts:
  "identified t d w \<Longrightarrow> WorkloadID_Parts (wi_ID w) = Ok (t, d, wl_Name (wi_Workload w))"
  by (simp add: identified_def Parts_valid)

lemma collectWorkloads_identified:
  "w \<in> set (collectWorkloads t d p wls) \<Longrightarrow>
     identified t d w \<and> p (wi_Workload w) \<and> wi_Workload w \<in> set wls"
  by (induction wls)
     (auto simp: identified_def NewWorkloadID_Ok_iff split: if_splits sum.splits)

lemma collectWorkloads_map:
  "(\<And>wl. wl \<in> set wls \<Longrightarrow> IsValidName (wl_Name wl) = Ok ()) \<Longrightarrow>
     map wi_Workload (collectWorkloads t d p wls) = filter p wls"
  by (induction wls) (auto simp: NewWorkloadID_def)

lemma ByType_identified:
  "w \<in> set (Deployment_ByType d typ) \<Longrightarrow>
     identified (dl_TwinID d) (dl_ContractID d) w \<and> wl_Type (wi_Workload w) \<in> set typ
     \<and> wi_Workload w \<in> set (dl_Workloads d)"
  unfolding Deployment_ByType_def by (rule collectWorkloads_identified)

lemma IsActive_iff:
  "Deployment_IsActive d \<longleftrightarrow>
     (\<exists>wl \<in> set (dl_Workloads d). State (wl_Result wl) \<noteq> StateDeleted \<and> State (wl_Result wl) \<noteq> StateError)"
  by (auto simp: Deployment_IsActive_def list_ex_iff)

lemma SetError_not_active: "\<not> Deployment_IsActive (Deployment_SetError e d)"
  by (auto simp: IsActive_iff Deployment_SetError_def)


subsection \<open>Claims\<close>

text \<open>A checked workload identifier determines its parts. \<open>Parts\<close> of the identifier that
  \<open>NewWorkloadID\<close> builds returns the twin, the contract and the name it was built from, so
  two workloads never share an identifier; its path form has the parts as its directories.\<close>

lemma workload_id_roundtrip:
  assumes "NewWorkloadID t d n = Ok i"
  shows "WorkloadID_Parts i = Ok (t, d, n) \<and>
    (\<forall>t' d' n'. NewWorkloadID t' d' n' = Ok i \<longleftrightarrow> t' = t \<and> d' = d \<and> n' = n) \<and>
    WorkloadID_ToPath i = Ok (dec (unat t) @ ''/'' @ dec (unat d) @ ''/'' @ n)"
proof -
  have digits: "map (\<lambda>c. if c = CHR ''-'' then CHR ''/'' else c) (dec k) = dec k" for k
    by (rule map_idI) (metis dec_digits dash_not_digit)
  from assms have v: "IsValidName n = Ok ()" and i: "i = NewUncheckedWorkloadID t d n"
    by (simp_all add: NewWorkloadID_Ok_iff)
  have "map (\<lambda>c. if c = CHR ''-'' then CHR ''/'' else c) n = n"
    by (rule map_idI) (metis valid_name_chars[OF v] name_char_not_blank)
  with v i digits have "WorkloadID_ToPath i = Ok (dec (unat t) @ ''/'' @ dec (unat d) @ ''/'' @ n)"
    by (simp add: WorkloadID_ToPath_def NewUncheckedWorkloadID_def)
  with assms i Parts_valid[OF v] NewWorkloadID_inject show ?thesis by blast
qed

lemma workload_id_roundtrip_witness:
  "WorkloadID_Parts (NewUncheckedWorkloadID 7 9 ''web'') = Ok (7, 9, ''web'')"
  using workload_id_roundtrip[of 7 9 "''web''" "NewUncheckedWorkloadID 7 9 ''web''"]
  by (simp add: NewWorkloadID_def IsValidName_def nameMatch_def name_char_def reservedNames_def)

end
