(* ===== verification/Bolt.thy ===== *)
theory Bolt
  imports GridTypes "HOL-Library.AList" "HOL-Library.Sublist"
begin

text \<open>
  The database under \<open>pkg/provision/storage\<close>: bbolt, a third-party key-value store of
  nested buckets. Its transaction is an abstract type; the operations that the storage
  calls are a record \<open>Bolt\<close> of functions, an argument of the storage operations. What bbolt
  documents is stated once, as operations on a plain map (\<open>Db\<close>); the locale \<open>bolt\<close> says that
  a record of operations behaves like that map. An executable association-list database
  satisfies it. The theory also holds the big-endian keys of the storage
  (\<open>u32\<close>, \<open>l32\<close>, \<open>u64\<close>, \<open>l64\<close> of \<open>storage.go\<close>), their round trip and their order.
\<close>

section \<open>Big-endian keys\<close>

fun beBytes :: "nat \<Rightarrow> nat \<Rightarrow> bytes" where
  "beBytes 0 n = []"
| "beBytes (Suc w) n = beBytes w (n div 256) @ [char_of (n mod 256)]"

definition beValue :: "bytes \<Rightarrow> nat" where
  "beValue bs = foldl (\<lambda>n c. 256 * n + of_char c) 0 bs"

text \<open>\<open>BigEndian.PutUint32\<close>, \<open>BigEndian.Uint32\<close> and their 64 bit forms. Reading a slice that
  is too short panics; what follows the first bytes is ignored.\<close>

definition Storage_u32 :: "u32 \<Rightarrow> bytes" where
  "Storage_u32 u = beBytes 4 (unat u)"

definition Storage_l32 :: "bytes \<Rightarrow> u32 result" where
  "Storage_l32 v = (if length v < 4 then Err (Panic ''index out of range'')
     else Ok (word_of_nat (beValue (take 4 v))))"

definition Storage_u64 :: "u64 \<Rightarrow> bytes" where
  "Storage_u64 u = beBytes 8 (unat u)"

definition Storage_l64 :: "bytes \<Rightarrow> u64 result" where
  "Storage_l64 v = (if length v < 8 then Err (Panic ''index out of range'')
     else Ok (word_of_nat (beValue (take 8 v))))"

lemma length_beBytes [simp]: "length (beBytes w n) = w"
  by (induction w arbitrary: n) simp_all

lemma beValue_snoc: "beValue (bs @ [c]) = 256 * beValue bs + of_char c"
  by (simp add: beValue_def)

lemma beValue_beBytes: "n < 256 ^ w \<Longrightarrow> beValue (beBytes w n) = n"
proof (induction w arbitrary: n)
  case 0
  then show ?case by (simp add: beValue_def)
next
  case (Suc w)
  then have "n div 256 < 256 ^ w" by (simp add: less_mult_imp_div_less)
  with Suc.IH have "beValue (beBytes w (n div 256)) = n div 256" by simp
  then show ?case by (simp add: beValue_snoc)
qed

lemma snoc_less_iff:
  assumes "length xs = length ys"
  shows "xs @ [x] < ys @ [y] \<longleftrightarrow> xs < ys \<or> xs = ys \<and> x < (y :: 'a :: linorder)"
  using assms by (induction xs ys rule: list_induct2) auto

lemma digits_less:
  fixes a b r r' :: nat
  assumes "r < 256" and "r' < 256"
  shows "256 * a + r < 256 * b + r' \<longleftrightarrow> a < b \<or> a = b \<and> r < r'"
  using assms by (cases a b rule: linorder_cases) auto

lemma beBytes_less_iff:
  "m < 256 ^ w \<Longrightarrow> n < 256 ^ w \<Longrightarrow> beBytes w m < beBytes w n \<longleftrightarrow> m < n"
proof (induction w arbitrary: m n)
  case (Suc w)
  then have d: "m div 256 < 256 ^ w" "n div 256 < 256 ^ w" by (simp_all add: less_mult_imp_div_less)
  then have eq: "beBytes w (m div 256) = beBytes w (n div 256) \<longleftrightarrow> m div 256 = n div 256"
    by (metis beValue_beBytes)
  have chr: "char_of (m mod 256) < (char_of (n mod 256) :: char) \<longleftrightarrow> m mod 256 < n mod 256"
    by (simp add: less_char_def)
  have "m < n \<longleftrightarrow> m div 256 < n div 256 \<or> m div 256 = n div 256 \<and> m mod 256 < n mod 256"
    using digits_less[of "m mod 256" "n mod 256" "m div 256" "n div 256"] by simp
  with Suc.IH[OF d] eq chr show ?case by (simp add: snoc_less_iff)
qed simp

lemma length_u32 [simp]: "length (Storage_u32 u) = 4"
  and length_u64 [simp]: "length (Storage_u64 v) = 8"
  by (simp_all add: Storage_u32_def Storage_u64_def)

lemma keys_nonempty [simp]: "Storage_u32 u \<noteq> []" "Storage_u64 v \<noteq> []"
  using length_u32[of u] length_u64[of v] by (metis list.size(3) zero_neq_numeral)+

lemma l32_u32 [simp]: "Storage_l32 (Storage_u32 u) = Ok u"
  using unat32_less[of u] by (simp add: Storage_l32_def) (simp add: Storage_u32_def beValue_beBytes)

lemma l64_u64 [simp]: "Storage_l64 (Storage_u64 u) = Ok u"
  using unat64_less[of u] by (simp add: Storage_l64_def) (simp add: Storage_u64_def beValue_beBytes)

lemma u32_inject [simp]: "Storage_u32 a = Storage_u32 b \<longleftrightarrow> a = b"
  by (metis l32_u32 sum.inject(2))

lemma u64_inject [simp]: "Storage_u64 a = Storage_u64 b \<longleftrightarrow> a = b"
  by (metis l64_u64 sum.inject(2))

lemma u32_less_iff: "Storage_u32 a < Storage_u32 b \<longleftrightarrow> a < b"
  using unat32_less[of a] unat32_less[of b]
  by (simp add: Storage_u32_def beBytes_less_iff word_less_nat_alt)

lemma u64_less_iff: "Storage_u64 a < Storage_u64 b \<longleftrightarrow> a < b"
  using unat64_less[of a] unat64_less[of b]
  by (simp add: Storage_u64_def beBytes_less_iff word_less_nat_alt)

section \<open>The database\<close>

text \<open>
  Keys and values are byte strings. A bucket is addressed by the list of its keys from the
  root, which always exists. A bucket has a sequence number.
\<close>

type_synonym Value = bytes
type_synonym path = "bytes list"

record 'tx Bolt =
  boltBucket :: "path \<Rightarrow> 'tx \<Rightarrow> bool"
  boltCreateBucket :: "path \<Rightarrow> bytes \<Rightarrow> 'tx \<Rightarrow> 'tx result"
  boltCreateBucketIfNotExists :: "path \<Rightarrow> bytes \<Rightarrow> 'tx \<Rightarrow> 'tx result"
  boltDeleteBucket :: "path \<Rightarrow> bytes \<Rightarrow> 'tx \<Rightarrow> 'tx result"
  boltGet :: "path \<Rightarrow> bytes \<Rightarrow> 'tx \<Rightarrow> Value option"
  boltPut :: "path \<Rightarrow> bytes \<Rightarrow> Value \<Rightarrow> 'tx \<Rightarrow> 'tx result"
  boltDelete :: "path \<Rightarrow> bytes \<Rightarrow> 'tx \<Rightarrow> 'tx result"
  boltNextSequence :: "path \<Rightarrow> 'tx \<Rightarrow> ('tx \<times> u64) result"
  boltCursor :: "path \<Rightarrow> 'tx \<Rightarrow> (bytes \<times> Value option) list"

subsection \<open>What bbolt documents, on a plain map\<close>

record Db =
  db_buckets :: "path \<Rightarrow> u64 option"
  db_vals :: "path \<Rightarrow> bytes \<Rightarrow> Value option"

definition emptyDb :: Db where
  "emptyDb = \<lparr>db_buckets = (\<lambda>_. None), db_vals = (\<lambda>_ _. None)\<rparr>"

definition dbBucket :: "path \<Rightarrow> Db \<Rightarrow> bool" where
  "dbBucket p d \<longleftrightarrow> p = [] \<or> db_buckets d p \<noteq> None"

text \<open>Calling a method of a bucket that was not found is a nil dereference.\<close>

definition nilBucket :: err where "nilBucket = Panic ''nil pointer dereference''"
definition incompatible :: err where "incompatible = Errorf ''incompatible value''"

definition dbCreateBucket :: "path \<Rightarrow> bytes \<Rightarrow> Db \<Rightarrow> Db result" where
  "dbCreateBucket p k d =
     (if \<not> dbBucket p d then Err nilBucket
      else if k = [] then Err (Errorf ''bucket name required'')
      else if dbBucket (p @ [k]) d then Err ErrBucketExists
      else if db_vals d p k \<noteq> None then Err incompatible
      else Ok (d\<lparr>db_buckets := (db_buckets d)(p @ [k] \<mapsto> 0)\<rparr>))"

definition dbCreateBucketIfNotExists :: "path \<Rightarrow> bytes \<Rightarrow> Db \<Rightarrow> Db result" where
  "dbCreateBucketIfNotExists p k d =
     (case dbCreateBucket p k d of
        Inl e \<Rightarrow> if e = ErrBucketExists then Ok d else Err e
      | Inr d' \<Rightarrow> Ok d')"

definition dbDeleteBucket :: "path \<Rightarrow> bytes \<Rightarrow> Db \<Rightarrow> Db result" where
  "dbDeleteBucket p k d =
     (if \<not> dbBucket p d then Err nilBucket
      else if \<not> dbBucket (p @ [k]) d then
        Err (if db_vals d p k \<noteq> None then incompatible else ErrBucketNotFound)
      else Ok \<lparr>db_buckets = (\<lambda>q. if prefix (p @ [k]) q then None else db_buckets d q),
               db_vals = (\<lambda>q. if prefix (p @ [k]) q then (\<lambda>_. None) else db_vals d q)\<rparr>)"

definition dbGet :: "path \<Rightarrow> bytes \<Rightarrow> Db \<Rightarrow> Value option" where
  "dbGet p k d = db_vals d p k"

definition dbPut :: "path \<Rightarrow> bytes \<Rightarrow> Value \<Rightarrow> Db \<Rightarrow> Db result" where
  "dbPut p k v d =
     (if \<not> dbBucket p d then Err nilBucket
      else if k = [] then Err (Errorf ''key required'')
      else if length k > 32768 then Err (Errorf ''key too large'')
      else if dbBucket (p @ [k]) d then Err incompatible
      else Ok (d\<lparr>db_vals := (db_vals d)(p := (db_vals d p)(k \<mapsto> v))\<rparr>))"

definition dbDelete :: "path \<Rightarrow> bytes \<Rightarrow> Db \<Rightarrow> Db result" where
  "dbDelete p k d =
     (if \<not> dbBucket p d then Err nilBucket
      else if dbBucket (p @ [k]) d then Err incompatible
      else Ok (d\<lparr>db_vals := (db_vals d)(p := (db_vals d p)(k := None))\<rparr>))"

definition dbNextSequence :: "path \<Rightarrow> Db \<Rightarrow> (Db \<times> u64) result" where
  "dbNextSequence p d =
     (case db_buckets d p of
        None \<Rightarrow> Err nilBucket
      | Some n \<Rightarrow> Ok (d\<lparr>db_buckets := (db_buckets d)(p \<mapsto> n + 1)\<rparr>, n + 1))"

definition dbKeys :: "path \<Rightarrow> Db \<Rightarrow> bytes set" where
  "dbKeys p d = {k. db_buckets d (p @ [k]) \<noteq> None \<or> db_vals d p k \<noteq> None}"

text \<open>The pairs a cursor visits from \<open>First\<close> on, in byte order; the value of a bucket is nil.\<close>

definition dbCursor :: "path \<Rightarrow> Db \<Rightarrow> (bytes \<times> Value option) list" where
  "dbCursor p d = map (\<lambda>k. (k, if db_buckets d (p @ [k]) \<noteq> None then None else db_vals d p k))
     (sorted_list_of_set (dbKeys p d))"

definition db :: "Db Bolt" where
  "db = \<lparr>boltBucket = dbBucket, boltCreateBucket = dbCreateBucket,
     boltCreateBucketIfNotExists = dbCreateBucketIfNotExists, boltDeleteBucket = dbDeleteBucket,
     boltGet = dbGet, boltPut = dbPut, boltDelete = dbDelete, boltNextSequence = dbNextSequence,
     boltCursor = dbCursor\<rparr>"

definition finiteDb :: "Db \<Rightarrow> bool" where
  "finiteDb d \<longleftrightarrow> finite (dom (db_buckets d)) \<and> (\<forall>p. finite (dom (db_vals d p)))"

lemma db_simps [simp]:
  "boltBucket db = dbBucket" "boltCreateBucket db = dbCreateBucket"
  "boltCreateBucketIfNotExists db = dbCreateBucketIfNotExists" "boltDeleteBucket db = dbDeleteBucket"
  "boltGet db = dbGet" "boltPut db = dbPut" "boltDelete db = dbDelete"
  "boltNextSequence db = dbNextSequence" "boltCursor db = dbCursor"
  by (simp_all add: db_def)

lemma finite_dbKeys: "finiteDb d \<Longrightarrow> finite (dbKeys p d)"
proof -
  assume "finiteDb d"
  then have "finite ((\<lambda>k. p @ [k]) -` dom (db_buckets d))" and "finite (dom (db_vals d p))"
    by (auto simp: finiteDb_def intro!: finite_vimageI injI)
  moreover have "dbKeys p d = (\<lambda>k. p @ [k]) -` dom (db_buckets d) \<union> dom (db_vals d p)"
    by (auto simp: dbKeys_def)
  ultimately show ?thesis by simp
qed

lemma set_dbCursor:
  "finiteDb d \<Longrightarrow> (k, v) \<in> set (dbCursor p d) \<longleftrightarrow>
     k \<in> dbKeys p d \<and> v = (if db_buckets d (p @ [k]) \<noteq> None then None else db_vals d p k)"
  by (auto simp: dbCursor_def finite_dbKeys)

lemma sorted_dbCursor: "sorted (map fst (dbCursor p d))" "distinct (map fst (dbCursor p d))"
  by (simp_all add: dbCursor_def comp_def)

subsection \<open>The interface\<close>

locale bolt =
  fixes B :: "'tx Bolt" and \<alpha> :: "'tx \<Rightarrow> Db"
  assumes finite_db: "finiteDb (\<alpha> s)"
    and bucket: "boltBucket B p s = dbBucket p (\<alpha> s)"
    and get: "boltGet B p k s = dbGet p k (\<alpha> s)"
    and cursor: "boltCursor B p s = dbCursor p (\<alpha> s)"
    and createBucket: "rmap \<alpha> (boltCreateBucket B p k s) = dbCreateBucket p k (\<alpha> s)"
    and createBucketIfNotExists:
      "rmap \<alpha> (boltCreateBucketIfNotExists B p k s) = dbCreateBucketIfNotExists p k (\<alpha> s)"
    and deleteBucket: "rmap \<alpha> (boltDeleteBucket B p k s) = dbDeleteBucket p k (\<alpha> s)"
    and put: "rmap \<alpha> (boltPut B p k v s) = dbPut p k v (\<alpha> s)"
    and delete: "rmap \<alpha> (boltDelete B p k s) = dbDelete p k (\<alpha> s)"
    and nextSequence:
      "rmap (\<lambda>(s, n). (\<alpha> s, n)) (boltNextSequence B p s) = dbNextSequence p (\<alpha> s)"
begin

lemmas reads = bucket get cursor

lemmas writes = createBucket createBucketIfNotExists deleteBucket put delete

end

text \<open>Composition: a computation on transactions that follows the map step by step.\<close>

lemma rmap_rbind:
  assumes "rmap f m = m'" and "\<And>x. rmap g (h x) = h' (f x)"
  shows "rmap g (rbind m h) = rbind m' h'"
  using assms by (cases m) auto

lemma rmap_rbind_same:
  assumes "\<And>x. rmap g (h x) = h' x"
  shows "rmap g (rbind m h) = rbind m h'"
  using assms by (cases m) auto

lemma rmap_rwrap: "rmap f (rwrap msg m) = rwrap msg (rmap f m)"
  by (cases m) simp_all

lemma rmap_if: "rmap f (if c then a else b) = (if c then rmap f a else rmap f b)"
  by simp

lemma rmap_rfold:
  assumes "\<And>x s. rmap f (h x s) = h' x (f s)"
  shows "rmap f (rfold h xs s) = rfold h' xs (f s)"
proof (induction xs arbitrary: s)
  case (Cons x xs)
  with assms show ?case by (auto intro!: rmap_rbind)
qed simp

subsection \<open>An executable database\<close>

record Mem =
  mem_buckets :: "(path \<times> u64) list"
  mem_vals :: "((path \<times> bytes) \<times> Value) list"

definition emptyMem :: Mem where
  "emptyMem = \<lparr>mem_buckets = [], mem_vals = []\<rparr>"

definition memDb :: "Mem \<Rightarrow> Db" where
  "memDb m = \<lparr>db_buckets = map_of (mem_buckets m), db_vals = (\<lambda>p k. map_of (mem_vals m) (p, k))\<rparr>"

definition memCreateBucket :: "path \<Rightarrow> bytes \<Rightarrow> Mem \<Rightarrow> Mem result" where
  "memCreateBucket p k m =
     (if \<not> dbBucket p (memDb m) then Err nilBucket
      else if k = [] then Err (Errorf ''bucket name required'')
      else if dbBucket (p @ [k]) (memDb m) then Err ErrBucketExists
      else if map_of (mem_vals m) (p, k) \<noteq> None then Err incompatible
      else Ok (m\<lparr>mem_buckets := (p @ [k], 0) # mem_buckets m\<rparr>))"

definition memDeleteBucket :: "path \<Rightarrow> bytes \<Rightarrow> Mem \<Rightarrow> Mem result" where
  "memDeleteBucket p k m =
     (if \<not> dbBucket p (memDb m) then Err nilBucket
      else if \<not> dbBucket (p @ [k]) (memDb m) then
        Err (if map_of (mem_vals m) (p, k) \<noteq> None then incompatible else ErrBucketNotFound)
      else Ok \<lparr>mem_buckets = filter (\<lambda>e. \<not> prefix (p @ [k]) (fst e)) (mem_buckets m),
               mem_vals = filter (\<lambda>e. \<not> prefix (p @ [k]) (fst (fst e))) (mem_vals m)\<rparr>)"

definition memPut :: "path \<Rightarrow> bytes \<Rightarrow> Value \<Rightarrow> Mem \<Rightarrow> Mem result" where
  "memPut p k v m =
     (if \<not> dbBucket p (memDb m) then Err nilBucket
      else if k = [] then Err (Errorf ''key required'')
      else if length k > 32768 then Err (Errorf ''key too large'')
      else if dbBucket (p @ [k]) (memDb m) then Err incompatible
      else Ok (m\<lparr>mem_vals := AList.update (p, k) v (mem_vals m)\<rparr>))"

definition memDelete :: "path \<Rightarrow> bytes \<Rightarrow> Mem \<Rightarrow> Mem result" where
  "memDelete p k m =
     (if \<not> dbBucket p (memDb m) then Err nilBucket
      else if dbBucket (p @ [k]) (memDb m) then Err incompatible
      else Ok (m\<lparr>mem_vals := AList.delete (p, k) (mem_vals m)\<rparr>))"

definition memNextSequence :: "path \<Rightarrow> Mem \<Rightarrow> (Mem \<times> u64) result" where
  "memNextSequence p m =
     (case map_of (mem_buckets m) p of
        None \<Rightarrow> Err nilBucket
      | Some n \<Rightarrow> Ok (m\<lparr>mem_buckets := AList.update p (n + 1) (mem_buckets m)\<rparr>, n + 1))"

definition memKeys :: "path \<Rightarrow> Mem \<Rightarrow> bytes list" where
  "memKeys p m = map last (filter (\<lambda>q. q \<noteq> [] \<and> butlast q = p) (map fst (mem_buckets m)))
     @ map snd (filter (\<lambda>(q, _). q = p) (map fst (mem_vals m)))"

definition memCursor :: "path \<Rightarrow> Mem \<Rightarrow> (bytes \<times> Value option) list" where
  "memCursor p m = map (\<lambda>k. (k, if map_of (mem_buckets m) (p @ [k]) \<noteq> None then None
       else map_of (mem_vals m) (p, k))) (sort (remdups (memKeys p m)))"

definition mem :: "Mem Bolt" where
  "mem = \<lparr>boltBucket = (\<lambda>p m. dbBucket p (memDb m)), boltCreateBucket = memCreateBucket,
     boltCreateBucketIfNotExists = (\<lambda>p k m. case memCreateBucket p k m of
        Inl e \<Rightarrow> if e = ErrBucketExists then Ok m else Err e | Inr m' \<Rightarrow> Ok m'),
     boltDeleteBucket = memDeleteBucket,
     boltGet = (\<lambda>p k m. map_of (mem_vals m) (p, k)),
     boltPut = memPut, boltDelete = memDelete, boltNextSequence = memNextSequence,
     boltCursor = memCursor\<rparr>"

lemma set_memKeys: "set (memKeys p m) = dbKeys p (memDb m)"
proof -
  have "k \<in> last ` set (filter (\<lambda>q. q \<noteq> [] \<and> butlast q = p) (map fst (mem_buckets m))) \<longleftrightarrow>
      p @ [k] \<in> fst ` set (mem_buckets m)" for k
  proof
    assume "p @ [k] \<in> fst ` set (mem_buckets m)"
    then show "k \<in> last ` set (filter (\<lambda>q. q \<noteq> [] \<and> butlast q = p) (map fst (mem_buckets m)))"
      by (intro image_eqI[of _ _ "p @ [k]"]) simp_all
  qed (force simp: snoc_eq_iff_butlast)
  moreover have "k \<in> snd ` set (filter (\<lambda>(q, _). q = p) (map fst (mem_vals m))) \<longleftrightarrow>
      (p, k) \<in> fst ` set (mem_vals m)" for k by force
  ultimately have "k \<in> set (memKeys p m) \<longleftrightarrow>
      p @ [k] \<in> fst ` set (mem_buckets m) \<or> (p, k) \<in> fst ` set (mem_vals m)" for k
    unfolding memKeys_def set_append set_map Un_iff by simp
  then show ?thesis by (simp add: set_eq_iff dbKeys_def memDb_def map_of_eq_None_iff del: not_None_eq)
qed

lemma memCursor: "memCursor p m = dbCursor p (memDb m)"
proof -
  have "sort (remdups (memKeys p m)) = sorted_list_of_set (dbKeys p (memDb m))"
    by (metis set_memKeys sorted_list_of_set_sort_remdups)
  then show ?thesis by (simp add: memCursor_def dbCursor_def memDb_def)
qed

lemma memCreateBucket: "rmap memDb (memCreateBucket p k m) = dbCreateBucket p k (memDb m)"
  by (simp add: memCreateBucket_def dbCreateBucket_def memDb_def)

lemma map_of_filter_key:
  "map_of (filter (\<lambda>e. P (fst e)) xs) k = (if P k then map_of xs k else None)"
  by (induction xs) auto

interpretation mem: bolt mem memDb
proof
  fix m p k v
  show "finiteDb (memDb m)"
  proof -
    have "dom (\<lambda>k. map_of (mem_vals m) (p, k)) \<subseteq> snd ` fst ` set (mem_vals m)" for p
      by (force simp: dom_def dest: map_of_SomeD)
    then have "finite (dom (\<lambda>k. map_of (mem_vals m) (p, k)))" for p
      by (rule finite_subset) simp
    then show ?thesis
      by (simp add: finiteDb_def memDb_def finite_dom_map_of)
  qed
  show "boltBucket mem p m = dbBucket p (memDb m)" by (simp add: mem_def)
  show "boltGet mem p k m = dbGet p k (memDb m)" by (simp add: mem_def dbGet_def memDb_def)
  show "boltCursor mem p m = dbCursor p (memDb m)" by (simp add: mem_def memCursor)
  show "rmap memDb (boltCreateBucket mem p k m) = dbCreateBucket p k (memDb m)"
    by (simp add: mem_def memCreateBucket)
  show "rmap memDb (boltCreateBucketIfNotExists mem p k m) = dbCreateBucketIfNotExists p k (memDb m)"
    by (cases "memCreateBucket p k m")
       (simp_all add: mem_def dbCreateBucketIfNotExists_def flip: memCreateBucket)
  show "rmap memDb (boltDeleteBucket mem p k m) = dbDeleteBucket p k (memDb m)"
    by (auto simp: mem_def memDeleteBucket_def dbDeleteBucket_def memDb_def fun_eq_iff
        map_of_filter_key[where P = "\<lambda>q. \<not> prefix (p @ [k]) q"]
        map_of_filter_key[where P = "\<lambda>q. \<not> prefix (p @ [k]) (fst q)"])
  show "rmap memDb (boltPut mem p k v m) = dbPut p k v (memDb m)"
    by (auto simp: mem_def memPut_def dbPut_def memDb_def fun_eq_iff update_conv')
  show "rmap memDb (boltDelete mem p k m) = dbDelete p k (memDb m)"
    by (auto simp: mem_def memDelete_def dbDelete_def memDb_def fun_eq_iff delete_conv')
  show "rmap (\<lambda>(s, n). (memDb s, n)) (boltNextSequence mem p m) = dbNextSequence p (memDb m)"
    by (auto simp: mem_def memNextSequence_def dbNextSequence_def memDb_def update_conv'
        split: option.split)
qed

end
