(* ===== verification/Paths.thy ===== *)
theory Paths
  imports Prelude
begin

text \<open>
  Slash separated paths: what the node uses of Go's \<open>path/filepath\<close> and \<open>strings\<close> packages, and
  when joining a name to a directory stays in that directory.
\<close>

section \<open>Splitting and joining\<close>

text \<open>\<open>strings.Split(s, sep)\<close> for a separator of one byte, and \<open>strings.Join\<close>.\<close>

fun splitOn :: "char \<Rightarrow> string \<Rightarrow> string list" where
  "splitOn sep [] = [[]]"
| "splitOn sep (c # cs) = (if c = sep then [] # splitOn sep cs
     else case splitOn sep cs of [] \<Rightarrow> [[c]] | x # xs \<Rightarrow> (c # x) # xs)"

fun joinWith :: "string \<Rightarrow> string list \<Rightarrow> string" where
  "joinWith sep [] = []"
| "joinWith sep [x] = x"
| "joinWith sep (x # y # xs) = x @ sep @ joinWith sep (y # xs)"

definition slash :: char where "slash = CHR ''/''"

lemma split_nonempty [simp]: "splitOn sep s \<noteq> []"
  by (induction s) (auto split: list.split)

lemma split_append: "sep \<notin> set x \<Longrightarrow> splitOn sep (x @ sep # y) = x # splitOn sep y"
  by (induction x) auto

lemma split_one: "sep \<notin> set x \<Longrightarrow> splitOn sep x = [x]"
  by (induction x) auto

lemma split_join:
  "xs \<noteq> [] \<Longrightarrow> \<forall>x \<in> set xs. sep \<notin> set x \<Longrightarrow> splitOn sep (joinWith [sep] xs) = xs"
  by (induction "[sep]" xs rule: joinWith.induct) (auto simp: split_append split_one)

lemma split_parts: "x \<in> set (splitOn sep s) \<Longrightarrow> sep \<notin> set x"
  by (induction s arbitrary: x) (auto split: list.splits if_splits)

lemma join_split: "joinWith [sep] (splitOn sep s) = s"
proof (induction s)
  case (Cons c cs)
  then show ?case by (cases "splitOn sep cs") (auto split: list.splits, (metis append_Cons joinWith.simps(2,3) list.exhaust append_Nil)+)
qed simp

lemma joinWith_append:
  "xs \<noteq> [] \<Longrightarrow> ys \<noteq> [] \<Longrightarrow> joinWith sep (xs @ ys) = joinWith sep xs @ sep @ joinWith sep ys"
proof (induction sep xs rule: joinWith.induct)
  case (2 sep x)
  then show ?case by (cases ys) auto
qed auto

text \<open>\<open>strings.TrimSpace\<close> (for ASCII white space) and \<open>strings.HasPrefix\<close>.\<close>

definition is_space :: "char \<Rightarrow> bool" where
  "is_space c \<longleftrightarrow> (of_char c :: nat) \<in> {9, 10, 11, 12, 13, 32}"

definition TrimSpace :: "string \<Rightarrow> string" where
  "TrimSpace s = rev (dropWhile is_space (rev (dropWhile is_space s)))"

definition HasPrefix :: "string \<Rightarrow> string \<Rightarrow> bool" where
  "HasPrefix s prefix \<longleftrightarrow> take (length prefix) s = prefix"

definition HasSuffix :: "string \<Rightarrow> string \<Rightarrow> bool" where
  "HasSuffix s suffix \<longleftrightarrow> length suffix \<le> length s \<and> drop (length s - length suffix) s = suffix"

definition TrimPrefix :: "string \<Rightarrow> string \<Rightarrow> string" where
  "TrimPrefix s prefix = (if HasPrefix s prefix then drop (length prefix) s else s)"

definition TrimSuffix :: "string \<Rightarrow> string \<Rightarrow> string" where
  "TrimSuffix s suffix = (if HasSuffix s suffix then take (length s - length suffix) s else s)"

lemma HasSuffix_append [simp]: "HasSuffix (s @ t) t"
  by (simp add: HasSuffix_def)

lemma HasPrefix_append [simp]: "HasPrefix (s @ t) s"
  by (simp add: HasPrefix_def)

lemma TrimPrefix_append [simp]: "TrimPrefix (s @ t) s = t"
  by (simp add: TrimPrefix_def)

lemma TrimSuffix_append [simp]: "TrimSuffix (s @ t) t = s"
  by (simp add: TrimSuffix_def)

lemma HasPrefix_iff: "HasPrefix s p \<longleftrightarrow> (\<exists>t. s = p @ t)"
  by (metis HasPrefix_append HasPrefix_def append_take_drop_id)

lemma HasSuffix_iff: "HasSuffix s p \<longleftrightarrow> (\<exists>t. s = t @ p)"
  by (metis HasSuffix_append HasSuffix_def append_take_drop_id)

text \<open>\<open>strings.ToLower\<close> for ASCII, one character.\<close>

definition toLower :: "char \<Rightarrow> char" where
  "toLower c = (let n = of_char c :: nat in if 65 \<le> n \<and> n \<le> 90 then char_of (n + 32) else c)"

lemma toLower_idem [simp]: "toLower (toLower c) = toLower c"
  by (simp add: toLower_def Let_def)

text \<open>The class \<open>\w\<close> of regular expressions.\<close>

definition is_word :: "char \<Rightarrow> bool" where
  "is_word c \<longleftrightarrow> (let n = of_char c :: nat in 48 \<le> n \<and> n \<le> 57 \<or> 65 \<le> n \<and> n \<le> 90 \<or> 97 \<le> n \<and> n \<le> 122 \<or> n = 95)"

text \<open>\<open>strings.Contains\<close>.\<close>

fun Contains :: "string \<Rightarrow> string \<Rightarrow> bool" where
  "Contains [] sub = (sub = [])"
| "Contains (c # cs) sub = (HasPrefix (c # cs) sub \<or> Contains cs sub)"

text \<open>\<open>strings.Split\<close> for a longer separator.\<close>

function splitString :: "string \<Rightarrow> string \<Rightarrow> string \<Rightarrow> string list" where
  "splitString sep acc s = (case s of
     [] \<Rightarrow> [rev acc]
   | c # cs \<Rightarrow> if sep \<noteq> [] \<and> HasPrefix s sep then rev acc # splitString sep [] (drop (length sep) s)
       else splitString sep (c # acc) cs)"
  by pat_completeness auto
termination by (relation "measure (\<lambda>(sep, acc, s). length s)") auto

declare splitString.simps [simp del]

section \<open>filepath\<close>

text \<open>
  \<open>Clean\<close>: the elements between the separators, without empty elements and \<open>.\<close>, and with every
  \<open>..\<close> removed together with the element before it; at the root \<open>..\<close> is dropped. The elements
  kept so far are accumulated in reverse.
\<close>

fun cleanParts :: "bool \<Rightarrow> string list \<Rightarrow> string list \<Rightarrow> string list" where
  "cleanParts rooted out [] = rev out"
| "cleanParts rooted out (p # ps) =
     (if p = [] \<or> p = ''.'' then cleanParts rooted out ps
      else if p = ''..'' then
        (case out of
           [] \<Rightarrow> cleanParts rooted (if rooted then [] else [''..'']) ps
         | q # qs \<Rightarrow> if q = ''..'' then cleanParts rooted (''..'' # out) ps else cleanParts rooted qs ps)
      else cleanParts rooted (p # out) ps)"

definition Clean :: "string \<Rightarrow> string" where
  "Clean path = (if path = [] then ''.''
     else let rooted = (hd path = slash); ps = cleanParts rooted [] (splitOn slash path) in
       if rooted then slash # joinWith [slash] ps
       else if ps = [] then ''.'' else joinWith [slash] ps)"

definition Join :: "string list \<Rightarrow> string" where
  "Join elem = (let es = dropWhile (\<lambda>e. e = []) elem in if es = [] then [] else Clean (joinWith [slash] es))"

text \<open>\<open>Dir\<close> cleans what comes up to the last separator, \<open>Base\<close> is what comes after it.\<close>

definition Dir :: "string \<Rightarrow> string" where
  "Dir path = Clean (rev (dropWhile (\<lambda>c. c \<noteq> slash) (rev path)))"

definition Base :: "string \<Rightarrow> string" where
  "Base path = (if path = [] then ''.''
     else let p = rev (dropWhile (\<lambda>c. c = slash) (rev path)) in
       if p = [] then [slash] else rev (takeWhile (\<lambda>c. c \<noteq> slash) (rev p)))"

section \<open>Clean absolute paths\<close>

definition element :: "string \<Rightarrow> bool" where
  "element n \<longleftrightarrow> n \<noteq> [] \<and> n \<noteq> ''.'' \<and> n \<noteq> ''..'' \<and> slash \<notin> set n"

definition abspath :: "string list \<Rightarrow> string" where
  "abspath ps = slash # joinWith [slash] ps"

lemma cleanParts_elements:
  "\<forall>p \<in> set ps. element p \<Longrightarrow> cleanParts rooted out ps = rev out @ ps"
  by (induction ps arbitrary: out) (auto simp: element_def)

lemma cleanParts_rooted:
  "\<forall>p \<in> set out. element p \<Longrightarrow> \<forall>p \<in> set ps. slash \<notin> set p \<Longrightarrow> \<forall>p \<in> set (cleanParts True out ps). element p"
proof (induction ps arbitrary: out)
  case (Cons p ps)
  then have ps: "\<forall>p \<in> set ps. slash \<notin> set p" by simp
  show ?case
  proof (cases "p = [] \<or> p = ''.'' \<or> p = ''..''")
    case True
    have "\<forall>q \<in> set (tl out). element q" "\<And>q qs. out = q # qs \<Longrightarrow> q \<noteq> ''..''" using Cons.prems(1) by (cases out; auto simp: element_def)+
    with True Cons.IH[OF _ ps, of out] Cons.IH[OF _ ps, of "tl out"] Cons.prems(1) show ?thesis by (cases out) auto
  next
    case False
    then have "element p" using Cons.prems(2) by (simp add: element_def)
    with False Cons.IH[OF _ ps, of "p # out"] Cons.prems(1) show ?thesis by simp
  qed
qed simp

lemma cleanParts_skip:
  "\<forall>p \<in> set ps. element p \<Longrightarrow> cleanParts rooted out (ps @ qs) = cleanParts rooted (rev ps @ out) qs"
  by (induction ps arbitrary: out) (auto simp: element_def)

lemma split_abspath:
  "\<forall>p \<in> set ps. element p \<Longrightarrow> splitOn slash (abspath ps) = [] # (if ps = [] then [[]] else ps)"
  using split_join[of ps slash] by (auto simp: abspath_def element_def)

lemma Clean_abspath: "\<forall>p \<in> set ps. element p \<Longrightarrow> Clean (abspath ps) = abspath ps"
  by (simp add: Clean_def split_abspath cleanParts_elements) (simp add: abspath_def)

lemma Clean_rooted: "p \<noteq> [] \<Longrightarrow> hd p = slash \<Longrightarrow> \<exists>ps. Clean p = abspath ps \<and> (\<forall>q \<in> set ps. element q)"
  using cleanParts_rooted[of "[]" "splitOn slash p"] split_parts by (auto simp: Clean_def abspath_def Let_def)

lemma element_no_slash: "\<forall>p \<in> set ps. element p \<Longrightarrow> p \<in> set ps \<Longrightarrow> slash \<notin> set p"
  by (simp add: element_def)

lemma dropWhile_rev_element: "slash \<notin> set n \<Longrightarrow> dropWhile (\<lambda>c. c \<noteq> slash) (rev n @ slash # r) = slash # r"
  by (induction n rule: rev_induct) auto

lemma takeWhile_rev_element: "slash \<notin> set n \<Longrightarrow> takeWhile (\<lambda>c. c \<noteq> slash) (rev n @ slash # r) = rev n"
  by (induction n rule: rev_induct) auto

lemma Dir_abspath:
  assumes "\<forall>p \<in> set ps. element p" and "element n"
  shows "Dir (abspath (ps @ [n])) = abspath ps"
proof (cases "ps = []")
  case True
  then have "Dir (abspath (ps @ [n])) = Clean [slash]"
    using dropWhile_rev_element[of n "[]"] assms(2) by (simp add: Dir_def abspath_def element_def)
  also have "\<dots> = abspath ps" using True by (simp add: Clean_def abspath_def)
  finally show ?thesis .
next
  case False
  have "abspath (ps @ [n]) = abspath ps @ slash # n"
    using False by (simp add: abspath_def joinWith_append)
  then have "Dir (abspath (ps @ [n])) = Clean (abspath ps @ [slash])"
    using dropWhile_rev_element[of n "rev (abspath ps)"] assms(2) by (simp add: Dir_def element_def)
  moreover have "splitOn slash (abspath ps @ [slash]) = [] # ps @ [[]]"
  proof -
    have "abspath ps @ [slash] = joinWith [slash] ([] # ps @ [[]])"
      using False joinWith_append[of ps "[[]]" "[slash]"] by (cases ps) (simp_all add: abspath_def)
    moreover have "\<forall>x \<in> set ([] # ps @ [[]]). slash \<notin> set x" using assms(1) by (auto simp: element_def)
    ultimately show ?thesis using split_join[of "[] # ps @ [[]]" slash] by simp
  qed
  moreover have "cleanParts True [] ([] # ps @ [[]]) = ps"
    using cleanParts_skip[OF assms(1), of True "[]" "[[]]"] by simp
  ultimately show ?thesis by (simp add: Clean_def) (simp add: abspath_def)
qed

lemma Base_abspath:
  assumes "element n"
  shows "Base (abspath (ps @ [n])) = n"
proof -
  have "\<exists>r. abspath (ps @ [n]) = r @ slash # n"
  proof (cases "ps = []")
    case False
    then have "abspath (ps @ [n]) = (slash # joinWith [slash] ps) @ slash # n" by (simp add: abspath_def joinWith_append)
    then show ?thesis by blast
  qed (simp add: abspath_def)
  then obtain r where r: "abspath (ps @ [n]) = r @ slash # n" by blast
  have ne: "n \<noteq> []" "slash \<notin> set n" using assms by (simp_all add: element_def)
  then have "last n \<noteq> slash" by (metis last_in_set)
  with ne have "dropWhile (\<lambda>c. c = slash) (rev n @ slash # rev r) = rev n @ slash # rev r"
    by (cases n rule: rev_cases) auto
  with r ne takeWhile_rev_element[of n "rev r"] show ?thesis by (auto simp: Base_def)
qed

lemma Join_element:
  assumes "\<forall>p \<in> set ps. element p" and "element n"
  shows "Join [abspath ps, n] = abspath (ps @ [n])"
proof -
  have "joinWith [slash] [abspath ps, n] = abspath (if ps = [] then [[], n] else ps @ [n])"
    by (auto simp: abspath_def joinWith_append)
  moreover have "Clean (abspath [[], n]) = abspath [n]"
  proof -
    have "abspath [[], n] = joinWith [slash] [[], [], n]" by (simp add: abspath_def)
    then have "splitOn slash (abspath [[], n]) = [[], [], n]"
      using split_join[of "[[], [], n]" slash] assms(2) by (simp add: element_def)
    then show ?thesis using assms(2) by (simp add: Clean_def element_def) (simp add: abspath_def)
  qed
  ultimately show ?thesis
    using Clean_abspath[of "ps @ [n]"] assms by (auto simp: Join_def abspath_def)
qed

lemma abspath_inject:
  assumes "\<forall>p \<in> set ps. element p" and "\<forall>p \<in> set qs. element p"
  shows "abspath ps = abspath qs \<longleftrightarrow> ps = qs"
proof
  assume "abspath ps = abspath qs"
  then have "(if ps = [] then [[]] else ps) = (if qs = [] then [[]] else qs)"
    using split_abspath[OF assms(1)] split_abspath[OF assms(2)] by simp
  moreover have "[] \<notin> set ps" "[] \<notin> set qs" using assms(1,2) by (auto simp: element_def)
  ultimately show "ps = qs" by (metis list.set_intros(1))
qed simp

end
