(* ===== verification/ZosTypes.thy ===== *)
theory ZosTypes
  imports GridTypes Paths
begin

text \<open>
  The workload types of \<open>pkg/gridtypes/zos\<close>: for every registered type its structure, the
  \<open>Valid\<close> check, the \<open>Challenge\<close> text that is hashed and signed, and the \<open>Capacity\<close> it
  uses. Addresses print as Go's \<open>net\<close> package prints them. The functions of the standard
  library that parse text from users (JSON, URLs, addresses) and of the cryptographic
  packages are fields of the record \<open>Lib\<close>, an argument of the definitions that use them.
\<close>

section \<open>Workload types and the registry (types.go)\<close>

definition ZMountType :: WorkloadType where "ZMountType = ''zmount''"
definition NetworkType :: WorkloadType where "NetworkType = ''network''"
definition NetworkLightType :: WorkloadType where "NetworkLightType = ''network-light''"
definition ZDBType :: WorkloadType where "ZDBType = ''zdb''"
definition ZMachineType :: WorkloadType where "ZMachineType = ''zmachine''"
definition ZMachineLightType :: WorkloadType where "ZMachineLightType = ''zmachine-light''"
definition VolumeType :: WorkloadType where "VolumeType = ''volume''"
definition PublicIPv4Type :: WorkloadType where "PublicIPv4Type = ''ipv4''"
definition PublicIPType :: WorkloadType where "PublicIPType = ''ip''"
definition GatewayNameProxyType :: WorkloadType where "GatewayNameProxyType = ''gateway-name-proxy''"
definition GatewayFQDNProxyType :: WorkloadType where "GatewayFQDNProxyType = ''gateway-fqdn-proxy''"
definition QuantumSafeFSType :: WorkloadType where "QuantumSafeFSType = ''qsfs''"
definition ZLogsType :: WorkloadType where "ZLogsType = ''zlogs''"

lemmas type_defs [go_simps] = ZMountType_def NetworkType_def NetworkLightType_def ZDBType_def
  ZMachineType_def ZMachineLightType_def VolumeType_def PublicIPv4Type_def PublicIPType_def
  GatewayNameProxyType_def GatewayFQDNProxyType_def QuantumSafeFSType_def ZLogsType_def

definition zos_init :: "Registry \<Rightarrow> Registry result" where
  "zos_init g =
     rbind (RegisterType ZMachineLightType g) (\<lambda>g.
     rbind (RegisterSharableType NetworkLightType g) (\<lambda>g.
     rbind (RegisterType ZMachineType g) (\<lambda>g.
     rbind (RegisterSharableType NetworkType g) (\<lambda>g.
     rbind (RegisterType ZMountType g) (\<lambda>g.
     rbind (RegisterType VolumeType g) (\<lambda>g.
     rbind (RegisterType ZDBType g) (\<lambda>g.
     rbind (RegisterType PublicIPv4Type g) (\<lambda>g.
     rbind (RegisterType PublicIPType g) (\<lambda>g.
     rbind (RegisterType GatewayNameProxyType g) (\<lambda>g.
     rbind (RegisterType GatewayFQDNProxyType g) (\<lambda>g.
     rbind (RegisterType QuantumSafeFSType g) (\<lambda>g.
            RegisterType ZLogsType g))))))))))))"

definition SSDDevice :: string where "SSDDevice = ''ssd''"
definition HDDDevice :: string where "HDDDevice = ''hdd''"

definition DeviceType_Valid :: "string \<Rightarrow> unit result" where
  "DeviceType_Valid d =
     (if d \<noteq> SSDDevice \<and> d \<noteq> HDDDevice then Err (Errorf ''invalid device type'') else Ok ())"


section \<open>Addresses (Go's net package)\<close>

text \<open>\<open>net.IP\<close> is a byte slice, \<open>[]\<close> standing for \<open>nil\<close>; likewise \<open>net.IPMask\<close>.\<close>

definition To4 :: "bytes \<Rightarrow> bytes option" where
  "To4 ip =
     (if length ip = 4 then Some ip
      else if length ip = 16 \<and> take 10 ip = replicate 10 (char_of (0::nat))
              \<and> take 2 (drop 10 ip) = replicate 2 (char_of (255::nat)) then Some (drop 12 ip)
      else None)"

definition To16 :: "bytes \<Rightarrow> bytes option" where
  "To16 ip =
     (if length ip = 4 then
        Some (replicate 10 (char_of (0::nat)) @ replicate 2 (char_of (255::nat)) @ ip)
      else if length ip = 16 then Some ip
      else None)"

fun dotted :: "bytes \<Rightarrow> string" where
  "dotted [] = []"
| "dotted [c] = dec (of_char c)"
| "dotted (c # cs) = dec (of_char c) @ ''.'' @ dotted cs"

text \<open>The eight 16-bit groups of an IPv6 address, and a group in hexadecimal without zeros
  in front.\<close>

fun groups16 :: "bytes \<Rightarrow> nat list" where
  "groups16 (a # b # cs) = (256 * of_char a + of_char b) # groups16 cs"
| "groups16 _ = []"

fun hexnum :: "nat \<Rightarrow> string" where
  "hexnum n = (if n < 16 then [hex_digit n] else hexnum (n div 16) @ [hex_digit (n mod 16)])"

declare hexnum.simps [simp del]

definition zero_run :: "nat list \<Rightarrow> nat \<Rightarrow> nat" where
  "zero_run gs i = length (takeWhile (\<lambda>g. g = 0) (drop i gs))"

text \<open>The leftmost longest run of at least two zero groups: where it starts and ends.\<close>

definition zero_span :: "nat list \<Rightarrow> (nat \<times> nat) option" where
  "zero_span gs = foldl (\<lambda>best i.
       let l = zero_run gs i; cur = (case best of None \<Rightarrow> 0 | Some (s, e) \<Rightarrow> e - s) in
       if 2 \<le> l \<and> cur < l then Some (i, i + l) else best) None [0..<length gs]"

fun colons :: "nat list \<Rightarrow> string" where
  "colons [] = []"
| "colons [g] = hexnum g"
| "colons (g # gs) = hexnum g @ '':'' @ colons gs"

definition show_ip6 :: "nat list \<Rightarrow> string" where
  "show_ip6 gs = (case zero_span gs of
       None \<Rightarrow> colons gs
     | Some (s, e) \<Rightarrow> colons (take s gs) @ ''::'' @ colons (drop e gs))"

definition IP_String :: "bytes \<Rightarrow> string" where
  "IP_String ip =
     (if length ip = 0 then ''<nil>''
      else if length ip \<noteq> 4 \<and> length ip \<noteq> 16 then ''?'' @ hex_encode ip
      else (case To4 ip of Some p4 \<Rightarrow> dotted p4 | None \<Rightarrow> show_ip6 (groups16 ip)))"

definition IP_Equal :: "bytes \<Rightarrow> bytes \<Rightarrow> bool" where
  "IP_Equal a b \<longleftrightarrow>
     (if length a = length b then a = b
      else if length a = 4 \<and> length b = 16 \<or> length a = 16 \<and> length b = 4 then To16 a = To16 b
      else False)"

definition IP_IsLoopback :: "bytes \<Rightarrow> bool" where
  "IP_IsLoopback ip = (case To4 ip of
       Some p4 \<Rightarrow> (of_char (p4 ! 0) :: nat) = 127
     | None \<Rightarrow> IP_Equal ip (replicate 15 (char_of (0::nat)) @ [char_of (1::nat)]))"

record IPNet =
  net_IP :: bytes
  net_Mask :: bytes

definition IPNet_Nil :: "IPNet \<Rightarrow> bool" where
  "IPNet_Nil i \<longleftrightarrow> net_IP i = [] \<and> net_Mask i = []"

text \<open>The leading one bits of a byte, and whether the rest is zero.\<close>

definition byte_prefix :: "nat \<Rightarrow> nat option" where
  "byte_prefix v = find (\<lambda>k. v = 256 - 2 ^ (8 - k)) [0..<9]"

fun simpleMaskLength :: "bytes \<Rightarrow> nat option" where
  "simpleMaskLength [] = Some 0"
| "simpleMaskLength (c # cs) =
     (if (of_char c :: nat) = 255 then map_option (\<lambda>n. 8 + n) (simpleMaskLength cs)
      else if list_all (\<lambda>d. (of_char d :: nat) = 0) cs then byte_prefix (of_char c) else None)"

definition networkNumberAndMask :: "IPNet \<Rightarrow> (bytes \<times> bytes) option" where
  "networkNumberAndMask n =
     (let ip = (case To4 (net_IP n) of Some p \<Rightarrow> p | None \<Rightarrow> net_IP n); m = net_Mask n in
      if length ip \<noteq> 4 \<and> length ip \<noteq> 16 then None
      else if length m = 4 then (if length ip \<noteq> 4 then None else Some (ip, m))
      else if length m = 16 then Some (ip, if length ip = 4 then drop 12 m else m)
      else None)"

definition IPNet_String :: "IPNet \<Rightarrow> string" where
  "IPNet_String n = (case networkNumberAndMask n of
       None \<Rightarrow> ''<nil>''
     | Some (ip, m) \<Rightarrow> (case simpleMaskLength m of
          None \<Rightarrow> IP_String ip @ ''/'' @ hex_encode m
        | Some l \<Rightarrow> IP_String ip @ ''/'' @ dec l))"


section \<open>Structures\<close>

subsection \<open>Networks (network.go, network\_light.go)\<close>

definition MyceliumKeyLen :: nat where "MyceliumKeyLen = 32"

record Mycelium =
  my_Key :: bytes
  my_Peers :: "string list"

record Peer =
  peer_Subnet :: IPNet
  peer_WGPublicKey :: string
  peer_AllowedIPs :: "IPNet list"
  peer_Endpoint :: string

record Network =
  nw_NetworkIPRange :: IPNet
  nw_Subnet :: IPNet
  nw_WGPrivateKey :: string
  nw_WGListenPort :: u16
  nw_Peers :: "Peer list"
  nw_Mycelium :: "Mycelium option"

record NetworkLight =
  nl_Subnet :: IPNet
  nl_Mycelium :: Mycelium
  nl_NetworkIPRange :: IPNet
  nl_WGPrivateKey :: string
  nl_WGListenPort :: u16
  nl_Peers :: "Peer list"

definition Mycelium_Challenge :: "Mycelium \<Rightarrow> string" where
  "Mycelium_Challenge c = hex_encode (my_Key c) @ concat (my_Peers c)"

definition Mycelium_Valid :: "Mycelium \<Rightarrow> unit result" where
  "Mycelium_Valid c =
     (if length (my_Key c) \<noteq> MyceliumKeyLen then
        Err (Errorf (''invalid mycelium key length, expected '' @ dec MyceliumKeyLen))
      else if length (my_Peers c) \<noteq> 0 then
        Err (Errorf ''user defined peers list is not supported right now'')
      else Ok ())"

definition Peer_Valid :: "Peer \<Rightarrow> unit result" where
  "Peer_Valid p =
     (if IPNet_Nil (peer_Subnet p) then Err (Errorf ''peer wireguard subnet cannot empty'')
      else if length (peer_AllowedIPs p) \<le> 0 then
        Err (Errorf ''peer wireguard allowedIPs cannot empty'')
      else if peer_WGPublicKey p = [] then Err (Errorf ''peer wireguard public key cannot empty'')
      else Ok ())"

definition Peer_Challenge :: "Peer \<Rightarrow> string" where
  "Peer_Challenge p = peer_WGPublicKey p @ peer_Endpoint p @ IPNet_String (peer_Subnet p)
     @ concat (map IPNet_String (peer_AllowedIPs p))"

definition Network_Valid :: "Network \<Rightarrow> unit result" where
  "Network_Valid n =
     (if IPNet_Nil (nw_NetworkIPRange n) then Err (Errorf ''network IP range cannot be empty'')
      else if length (net_IP (nw_Subnet n)) = 0 then
        Err (Errorf ''network resource subnet cannot empty'')
      else if nw_WGPrivateKey n = [] then
        Err (Errorf ''network resource wireguard private key cannot empty'')
      else rbind (rcheck Peer_Valid (nw_Peers n)) (\<lambda>_.
        case nw_Mycelium n of None \<Rightarrow> Ok () | Some m \<Rightarrow> Mycelium_Valid m))"

definition Network_Challenge :: "Network \<Rightarrow> string" where
  "Network_Challenge n =
     IPNet_String (nw_NetworkIPRange n) @ IPNet_String (nw_Subnet n) @ nw_WGPrivateKey n
     @ dec (unat (nw_WGListenPort n)) @ concat (map Peer_Challenge (nw_Peers n))
     @ (case nw_Mycelium n of None \<Rightarrow> [] | Some m \<Rightarrow> Mycelium_Challenge m)"

definition Network_Capacity :: "Network \<Rightarrow> Capacity" where
  "Network_Capacity n = noCapacity"

definition NetworkLight_Valid :: "NetworkLight \<Rightarrow> unit result" where
  "NetworkLight_Valid n =
     (if length (net_IP (nl_Subnet n)) = 0 then
        Err (Errorf ''network resource subnet cannot empty'')
      else Mycelium_Valid (nl_Mycelium n))"

definition NetworkLight_Challenge :: "NetworkLight \<Rightarrow> string" where
  "NetworkLight_Challenge n =
     IPNet_String (nl_NetworkIPRange n) @ IPNet_String (nl_Subnet n) @ nl_WGPrivateKey n
     @ dec (unat (nl_WGListenPort n)) @ concat (map Peer_Challenge (nl_Peers n))
     @ Mycelium_Challenge (nl_Mycelium n)"

definition NetworkLight_Capacity :: "NetworkLight \<Rightarrow> Capacity" where
  "NetworkLight_Capacity n = noCapacity"

text \<open>\<open>NetworkID\<close>: a network is named by its twin and its name; hash and base-58 text are
  parameters as in \<^const>\<open>WorkloadID_Unique\<close>.\<close>

definition NetworkID :: "(bytes \<Rightarrow> bytes) \<Rightarrow> (bytes \<Rightarrow> string) \<Rightarrow> u32 \<Rightarrow> Name \<Rightarrow> string" where
  "NetworkID md5 base58 twin network =
     (let b = base58 (md5 (dec (unat twin) @ '':'' @ network))
      in if length b > 13 then take 13 b else b)"

definition NetworkIDFromWorkloadID ::
    "(bytes \<Rightarrow> bytes) \<Rightarrow> (bytes \<Rightarrow> string) \<Rightarrow> WorkloadID \<Rightarrow> string result" where
  "NetworkIDFromWorkloadID md5 base58 wl =
     rbind (WorkloadID_Parts wl) (\<lambda>(twin, _, name). Ok (NetworkID md5 base58 twin name))"


subsection \<open>Storage: zmount, volume, zdb (zmount.go, volume.go, zdb.go)\<close>

record ZMount = zm_Size :: Unit
record Volume = vol_Size :: Unit

record ZDB =
  zdb_Size :: Unit
  zdb_Mode :: string
  zdb_Password :: string
  zdb_Public :: bool

definition ZMount_Valid :: "ZMount \<Rightarrow> unit result" where
  "ZMount_Valid v = (if zm_Size v = 0 then Err (Errorf ''invalid size'') else Ok ())"

definition ZMount_Capacity :: "ZMount \<Rightarrow> Capacity" where
  "ZMount_Capacity v = noCapacity\<lparr>SRU := zm_Size v\<rparr>"

definition ZMount_Challenge :: "ZMount \<Rightarrow> string" where
  "ZMount_Challenge v = dec (unat (zm_Size v))"

definition Volume_Valid :: "Volume \<Rightarrow> unit result" where
  "Volume_Valid v = (if vol_Size v = 0 then Err (Errorf ''invalid size'') else Ok ())"

definition Volume_Capacity :: "Volume \<Rightarrow> Capacity" where
  "Volume_Capacity v = noCapacity\<lparr>SRU := vol_Size v\<rparr>"

definition Volume_Challenge :: "Volume \<Rightarrow> string" where
  "Volume_Challenge v = dec (unat (vol_Size v))"

definition ZDBMode_Valid :: "string \<Rightarrow> unit result" where
  "ZDBMode_Valid m =
     (if m \<noteq> ''user'' \<and> m \<noteq> ''seq'' then Err (Errorf ''invalid zdb mode'') else Ok ())"

definition ZDB_Valid :: "ZDB \<Rightarrow> unit result" where
  "ZDB_Valid z =
     (if zdb_Size z = 0 then Err (Errorf ''invalid size'')
      else (case ZDBMode_Valid (zdb_Mode z) of
          Inl _ \<Rightarrow> Err (Errorf ''invalid mode'') | Inr _ \<Rightarrow> Ok ()))"

definition ZDB_Challenge :: "ZDB \<Rightarrow> string" where
  "ZDB_Challenge z = dec (unat (zdb_Size z)) @ zdb_Mode z @ zdb_Password z @ show_bool (zdb_Public z)"

definition ZDB_Capacity :: "ZDB \<Rightarrow> Capacity" where
  "ZDB_Capacity z = noCapacity\<lparr>HRU := zdb_Size z\<rparr>"


subsection \<open>Public addresses (ipv4.go)\<close>

record PublicIP =
  pip_V4 :: bool
  pip_V6 :: bool

definition PublicIP4_Capacity :: Capacity where
  "PublicIP4_Capacity = noCapacity\<lparr>IPV4U := 1\<rparr>"

definition PublicIP_Valid :: "PublicIP \<Rightarrow> unit result" where
  "PublicIP_Valid p =
     (if \<not> pip_V4 p \<and> \<not> pip_V6 p then Err (Errorf ''public ip workload with no selections'')
      else Ok ())"

definition PublicIP_Challenge :: "PublicIP \<Rightarrow> string" where
  "PublicIP_Challenge p = show_bool (pip_V4 p) @ show_bool (pip_V6 p)"

definition PublicIP_Capacity :: "PublicIP \<Rightarrow> Capacity" where
  "PublicIP_Capacity p = noCapacity\<lparr>IPV4U := (if pip_V4 p then 1 else 0)\<rparr>"

record PublicIPResult =
  pir_IP :: IPNet
  pir_IPv6 :: IPNet
  pir_Gateway :: bytes

definition HasIPv4 :: "PublicIPResult \<Rightarrow> bool" where
  "HasIPv4 p \<longleftrightarrow> To4 (net_IP (pir_IP p)) \<noteq> None"

definition HasIPv6 :: "PublicIPResult \<Rightarrow> bool" where
  "HasIPv6 p \<longleftrightarrow> To16 (net_IP (pir_IPv6 p)) \<noteq> None"


subsection \<open>Quantum safe file system (qsfs.go)\<close>

record Encryption =
  enc_Algorithm :: string
  enc_Key :: bytes

record ZdbBackend =
  zb_Address :: string
  zb_Namespace :: string
  zb_Password :: string

record QuantumSafeConfig =
  qc_Prefix :: string
  qc_Encryption :: Encryption
  qc_Backends :: "ZdbBackend list"

record QuantumSafeMeta =
  qm_Type :: string
  qm_Config :: QuantumSafeConfig

record QuantumSafeFSConfig =
  qf_MinimalShards :: u32
  qf_ExpectedShards :: u32
  qf_RedundantGroups :: u32
  qf_RedundantNodes :: u32
  qf_MaxZDBDataDirSize :: u32
  qf_Encryption :: Encryption
  qf_Meta :: QuantumSafeMeta
  qf_Groups :: "ZdbBackend list list"
  qf_Compression :: string

record QuantumSafeFS =
  qs_Cache :: Unit
  qs_Config :: QuantumSafeFSConfig

definition EncryptionKey_Valid :: "bytes \<Rightarrow> unit result" where
  "EncryptionKey_Valid k =
     (if length k \<noteq> 32 then Err (Errorf (''crypto/aes: invalid key size '' @ dec (length k)))
      else Ok ())"

definition EncryptionKey_MarshalText :: "bytes \<Rightarrow> string" where
  "EncryptionKey_MarshalText k = hex_encode k"

definition EncryptionKey_UnmarshalText :: "string \<Rightarrow> bytes result" where
  "EncryptionKey_UnmarshalText d = hex_decode d"

definition Encryption_Challenge :: "Encryption \<Rightarrow> string" where
  "Encryption_Challenge c = enc_Algorithm c @ hex_encode (enc_Key c)"

definition ZdbBackend_Challenge :: "ZdbBackend \<Rightarrow> string" where
  "ZdbBackend_Challenge z = zb_Address z @ zb_Namespace z @ zb_Password z"

definition QuantumSafeConfig_Challenge :: "QuantumSafeConfig \<Rightarrow> string" where
  "QuantumSafeConfig_Challenge m = qc_Prefix m @ Encryption_Challenge (qc_Encryption m)
     @ concat (map ZdbBackend_Challenge (qc_Backends m))"

definition QuantumSafeMeta_Challenge :: "QuantumSafeMeta \<Rightarrow> string" where
  "QuantumSafeMeta_Challenge m = qm_Type m @ QuantumSafeConfig_Challenge (qm_Config m)"

definition ZdbGroup_Challenge :: "ZdbBackend list \<Rightarrow> string" where
  "ZdbGroup_Challenge z = concat (map ZdbBackend_Challenge z)"

definition QuantumSafeFSConfig_Challenge :: "QuantumSafeFSConfig \<Rightarrow> string" where
  "QuantumSafeFSConfig_Challenge c =
     dec (unat (qf_MinimalShards c)) @ dec (unat (qf_ExpectedShards c))
     @ dec (unat (qf_RedundantGroups c)) @ dec (unat (qf_RedundantNodes c))
     @ dec (unat (qf_MaxZDBDataDirSize c)) @ Encryption_Challenge (qf_Encryption c)
     @ QuantumSafeMeta_Challenge (qf_Meta c) @ concat (map ZdbGroup_Challenge (qf_Groups c))
     @ qf_Compression c"

definition QuantumSafeFS_Valid :: "QuantumSafeFS \<Rightarrow> unit result" where
  "QuantumSafeFS_Valid q =
     (if qf_MinimalShards (qs_Config q) > qf_ExpectedShards (qs_Config q) then
        Err (Errorf ''minimal shards can't be greater than expected shards'')
      else Ok ())"

definition QuantumSafeFS_Challenge :: "QuantumSafeFS \<Rightarrow> string" where
  "QuantumSafeFS_Challenge q =
     dec (unat (qs_Cache q)) @ QuantumSafeFSConfig_Challenge (qs_Config q)"

definition QuantumSafeFS_Capacity :: "QuantumSafeFS \<Rightarrow> Capacity" where
  "QuantumSafeFS_Capacity q = noCapacity\<lparr>CRU := 1, MRU := 1 * Gigabyte, SRU := qs_Cache q\<rparr>"


subsection \<open>Virtual machines (zmachine.go, zmachine\_light.go, zmachine\_utils.go)\<close>

definition MyceliumIPSeedLen :: nat where "MyceliumIPSeedLen = 6"

record MachineInterface =
  mi_Network :: Name
  mi_IP :: bytes

record MyceliumIP =
  mip_Network :: Name
  mip_Seed :: bytes

record MachineCapacity =
  mc_CPU :: u8
  mc_Memory :: Unit

record MachineMount =
  mm_Name :: Name
  mm_Mountpoint :: string

record MachineNetwork =
  mn_PublicIP :: Name
  mn_Planetary :: bool
  mn_Mycelium :: "MyceliumIP option"
  mn_Interfaces :: "MachineInterface list"

record MachineNetworkLight =
  mnl_Mycelium :: "MyceliumIP option"
  mnl_Interfaces :: "MachineInterface list"

text \<open>\<open>Env\<close> is a Go map: an association list with distinct keys, in any order.\<close>

record ZMachine =
  vm_FList :: string
  vm_Network :: MachineNetwork
  vm_Size :: Unit
  vm_ComputeCapacity :: MachineCapacity
  vm_Mounts :: "MachineMount list"
  vm_Entrypoint :: string
  vm_Env :: "(string \<times> string) list"
  vm_Corex :: bool
  vm_GPU :: "string list"

record ZMachineLight =
  vml_FList :: string
  vml_Network :: MachineNetworkLight
  vml_Size :: Unit
  vml_ComputeCapacity :: MachineCapacity
  vml_Mounts :: "MachineMount list"
  vml_Entrypoint :: string
  vml_Env :: "(string \<times> string) list"
  vml_Corex :: bool
  vml_GPU :: "string list"

definition MyceliumIP_Challenge :: "MyceliumIP \<Rightarrow> string" where
  "MyceliumIP_Challenge c = mip_Network c @ hex_encode (mip_Seed c)"

definition MachineCapacity_String :: "MachineCapacity \<Rightarrow> string" where
  "MachineCapacity_String c =
     ''cpu('' @ dec (unat (mc_CPU c)) @ '')+mem('' @ dec (unat (mc_Memory c)) @ '')''"

definition MachineCapacity_Challenge :: "MachineCapacity \<Rightarrow> string" where
  "MachineCapacity_Challenge c = dec (unat (mc_CPU c)) @ dec (unat (mc_Memory c))"

definition MachineMount_Challenge :: "MachineMount \<Rightarrow> string" where
  "MachineMount_Challenge m = mm_Name m @ mm_Mountpoint m"

definition interfaces_Challenge :: "MachineInterface list \<Rightarrow> string" where
  "interfaces_Challenge infs = concat (map (\<lambda>ifc. mi_Network ifc @ IP_String (mi_IP ifc)) infs)"

definition MachineNetwork_Challenge :: "MachineNetwork \<Rightarrow> string" where
  "MachineNetwork_Challenge n =
     mn_PublicIP n @ show_bool (mn_Planetary n) @ interfaces_Challenge (mn_Interfaces n)
     @ (case mn_Mycelium n of None \<Rightarrow> [] | Some m \<Rightarrow> MyceliumIP_Challenge m)"

definition MachineNetworkLight_Challenge :: "MachineNetworkLight \<Rightarrow> string" where
  "MachineNetworkLight_Challenge n = interfaces_Challenge (mnl_Interfaces n)
     @ (case mnl_Mycelium n of None \<Rightarrow> [] | Some m \<Rightarrow> MyceliumIP_Challenge m)"

definition GPU_Parts :: "string \<Rightarrow> (string \<times> string \<times> string) result" where
  "GPU_Parts g = (case splitOn CHR ''/'' g of
       [a, b, c] \<Rightarrow> Ok (a, b, c)
     | _ \<Rightarrow> Err (Errorf (''invalid GPU id format '' @ squote g)))"

text \<open>\<open>MinRootSize\<close> and \<open>RootSize\<close>, the same code in both machine types; products wrap at
  64 bits.\<close>

definition minRootSize :: "MachineCapacity \<Rightarrow> Unit" where
  "minRootSize c =
     (let cu = ucast (mc_CPU c) * mc_Memory c div (8 * Gigabyte)
      in if cu = 0 then 500 * Megabyte else 2 * Gigabyte)"

definition ZMachine_MinRootSize :: "ZMachine \<Rightarrow> Unit" where
  "ZMachine_MinRootSize m = minRootSize (vm_ComputeCapacity m)"

definition ZMachine_RootSize :: "ZMachine \<Rightarrow> Unit" where
  "ZMachine_RootSize m =
     (let mn = ZMachine_MinRootSize m in if vm_Size m > mn then vm_Size m else mn)"

definition ZMachineLight_MinRootSize :: "ZMachineLight \<Rightarrow> Unit" where
  "ZMachineLight_MinRootSize m = minRootSize (vml_ComputeCapacity m)"

definition ZMachineLight_RootSize :: "ZMachineLight \<Rightarrow> Unit" where
  "ZMachineLight_RootSize m =
     (let mn = ZMachineLight_MinRootSize m in if vml_Size m > mn then vml_Size m else mn)"

definition ZMachine_Capacity :: "ZMachine \<Rightarrow> Capacity" where
  "ZMachine_Capacity v = noCapacity\<lparr>CRU := ucast (mc_CPU (vm_ComputeCapacity v)),
     MRU := mc_Memory (vm_ComputeCapacity v), SRU := ZMachine_RootSize v\<rparr>"

definition ZMachineLight_Capacity :: "ZMachineLight \<Rightarrow> Capacity" where
  "ZMachineLight_Capacity v = noCapacity\<lparr>CRU := ucast (mc_CPU (vml_ComputeCapacity v)),
     MRU := mc_Memory (vml_ComputeCapacity v), SRU := ZMachineLight_RootSize v\<rparr>"

definition encodeEnv :: "(string \<times> string) list \<Rightarrow> string" where
  "encodeEnv env = concat (map (\<lambda>k. k @ ''='' @ (case map_of env k of None \<Rightarrow> [] | Some v \<Rightarrow> v))
     (sort (map fst env)))"

definition ZMachine_Challenge :: "ZMachine \<Rightarrow> string" where
  "ZMachine_Challenge v =
     vm_FList v @ MachineNetwork_Challenge (vm_Network v) @ dec (unat (vm_Size v))
     @ MachineCapacity_Challenge (vm_ComputeCapacity v)
     @ concat (map MachineMount_Challenge (vm_Mounts v)) @ vm_Entrypoint v
     @ encodeEnv (vm_Env v) @ concat (vm_GPU v)"

definition ZMachineLight_Challenge :: "ZMachineLight \<Rightarrow> string" where
  "ZMachineLight_Challenge v =
     vml_FList v @ MachineNetworkLight_Challenge (vml_Network v) @ dec (unat (vml_Size v))
     @ MachineCapacity_Challenge (vml_ComputeCapacity v)
     @ concat (map MachineMount_Challenge (vml_Mounts v)) @ vml_Entrypoint v
     @ encodeEnv (vml_Env v) @ concat (vml_GPU v)"

definition interface_ip_ok :: "MachineInterface \<Rightarrow> unit result" where
  "interface_ip_ok ifc =
     (if To4 (mi_IP ifc) = None \<and> To16 (mi_IP ifc) = None then Err (Errorf ''invalid IP'') else Ok ())"

definition interface_name_ok :: "MachineInterface \<Rightarrow> unit result" where
  "interface_name_ok ifc =
     (if mi_Network ifc = ''ygg'' \<or> mi_Network ifc = ''pub'' \<or> mi_Network ifc = ''mycelium'' then
        Err (Errorf (squote (mi_Network ifc) @ '' is reserved network name''))
      else Ok ())"

definition mycelium_seed_ok :: "MyceliumIP option \<Rightarrow> unit result" where
  "mycelium_seed_ok m = (case m of
       None \<Rightarrow> Ok ()
     | Some m \<Rightarrow> if length (mip_Seed m) \<noteq> MyceliumIPSeedLen
         then Err (Errorf ''invalid mycelium seed length expected 6 bytes'') else Ok ())"

definition machine_size_ok :: "MachineCapacity \<Rightarrow> Unit \<Rightarrow> unit result" where
  "machine_size_ok c sz =
     (if mc_CPU c = 0 then Err (Errorf ''cpu capacity can't be 0'')
      else if mc_Memory c < 250 * Megabyte then
        Err (Errorf ''mem capacity can't be less that 250M'')
      else if sz \<noteq> 0 \<and> sz < minRootSize c then
        Err (Errorf (''disk size can't be less that '' @ dec (unat (minRootSize c))
          @ ''. Set to 0 for minimum''))
      else Ok ())"


subsection \<open>Gateways and logs (gw.go, gw\_fqdn.go, gw\_name.go, zlogs.go)\<close>

record GatewayBase =
  gw_TLSPassthrough :: bool
  gw_Backends :: "string list"
  gw_Network :: "Name option"

record GatewayFQDNProxy =
  gf_Base :: GatewayBase
  gf_FQDN :: string

record GatewayNameProxy =
  gn_Base :: GatewayBase
  gn_Name :: string

record ZLogs =
  zl_ZMachine :: Name
  zl_Output :: string

text \<open>What \<open>url.Parse\<close> returns: the scheme, the host with its port, \<open>Hostname()\<close> and \<open>Port()\<close>.\<close>

record URL =
  url_Scheme :: string
  url_Host :: string
  url_Hostname :: string
  url_Port :: string

text \<open>The data of a workload: one constructor for every registered type.\<close>

datatype WorkloadData =
    DZMachine ZMachine
  | DZMachineLight ZMachineLight
  | DNetwork Network
  | DNetworkLight NetworkLight
  | DZMount ZMount
  | DVolume Volume
  | DZDB ZDB
  | DPublicIP4
  | DPublicIP PublicIP
  | DGatewayNameProxy GatewayNameProxy
  | DGatewayFQDNProxy GatewayFQDNProxy
  | DQuantumSafeFS QuantumSafeFS
  | DZLogs ZLogs

text \<open>
  Library functions the model takes as they are: \<open>json.Unmarshal\<close> into the structure of a
  type (and into a \<open>ZMachine\<close>), \<open>url.Parse\<close>, \<open>net.SplitHostPort\<close>, \<open>net.ParseIP\<close>
  (\<open>[]\<close> for nil), \<open>md5.Sum\<close>, \<open>ed25519.Verify\<close>, and the three calls of
  go-schnorrkel: decoding a key, decoding a signature, verifying a message.
\<close>

record Lib =
  lib_unmarshal :: "WorkloadType \<Rightarrow> bytes \<Rightarrow> WorkloadData result"
  lib_unmarshalZMachine :: "bytes \<Rightarrow> ZMachine result"
  lib_urlParse :: "string \<Rightarrow> URL result"
  lib_splitHostPort :: "string \<Rightarrow> (string \<times> string) result"
  lib_parseIP :: "string \<Rightarrow> bytes"
  lib_md5 :: "bytes \<Rightarrow> bytes"
  lib_ed25519Verify :: "bytes \<Rightarrow> bytes \<Rightarrow> bytes \<Rightarrow> bool"
  lib_srKeyDecode :: "bytes \<Rightarrow> unit result"
  lib_srSigDecode :: "bytes \<Rightarrow> unit result"
  lib_srVerify :: "bytes \<Rightarrow> bytes \<Rightarrow> bytes \<Rightarrow> bool result"

text \<open>\<open>strconv.ParseUint(s, 10, 64)\<close>.\<close>

definition parseUint :: "string \<Rightarrow> nat result" where
  "parseUint s =
     (if s = [] \<or> \<not> list_all is_digit s then Err (Errorf ''invalid syntax'')
      else if 2 ^ 64 \<le> int (undec s) then Err (Errorf ''value out of range'')
      else Ok (undec s))"

definition asIpPort :: "Lib \<Rightarrow> string \<Rightarrow> (bytes \<times> u16) result" where
  "asIpPort L a = (case lib_splitHostPort L a of
       Inl e \<Rightarrow> Err (Wrap (''failed to parse backend '' @ a @ '' with error'') e)
     | Inr (h, p) \<Rightarrow>
        (let ip = lib_parseIP L h in
         if ip = [] then Err (Errorf ''invalid ip'')
         else (case parseUint p of
             Inl _ \<Rightarrow> Err (Errorf (''invalid port in backend: '' @ p))
           | Inr n \<Rightarrow>
              if int n > 65535 then Err (Errorf (''port '' @ squote p @ '' must be <= 65535''))
              else Ok (ip, word_of_nat n))))"

definition Backend_Valid :: "Lib \<Rightarrow> bool \<Rightarrow> string \<Rightarrow> unit result" where
  "Backend_Valid L tlsPassthrough b =
     (if tlsPassthrough then
        (case asIpPort L b of
           Inl e \<Rightarrow> Err (Wrap (''failed to parse backend '' @ b @ '' with error'') e)
         | Inr _ \<Rightarrow> Ok ())
      else (case lib_urlParse L b of
           Inl e \<Rightarrow> Err (Wrap ''failed to parse backend with error'' e)
         | Inr u \<Rightarrow>
            if url_Scheme u \<noteq> ''http'' then Err (Errorf ''scheme expected to be http'')
            else let ip = lib_parseIP L (url_Hostname u) in
              if length ip = 0 \<or> IP_IsLoopback ip then
                Err (Errorf (''invalid ip address in backend: '' @ url_Hostname u))
              else Ok ()))"

definition Backend_ExtractIP :: "Lib \<Rightarrow> string \<Rightarrow> bytes result" where
  "Backend_ExtractIP L b = (case asIpPort L b of
       Inr (ip, _) \<Rightarrow> Ok ip
     | Inl _ \<Rightarrow> (case lib_urlParse L b of
          Inl e \<Rightarrow> Err (Wrap ''failed to parse backend'' e)
        | Inr u \<Rightarrow> let ip = lib_parseIP L (url_Hostname u) in
            if ip = [] then Err (Errorf (''invalid ip address in backend: '' @ url_Hostname u))
            else Ok ip))"

text \<open>The first loop collects the errors of all backends (go-multierror), so its result is an
  error exactly when some backend is invalid; the model keeps the first one.\<close>

definition ValidateBackends :: "Lib \<Rightarrow> string list \<Rightarrow> bool \<Rightarrow> bytes list \<Rightarrow> unit result" where
  "ValidateBackends L backends tlsPassthrough nodeIPs =
     rbind (rcheck (\<lambda>b. rwrap (''failed to validate backend '' @ squote b)
        (Backend_Valid L tlsPassthrough b)) backends) (\<lambda>_.
     rcheck (\<lambda>b. rbind (rwrap (''failed to extract IP from backend '' @ squote b)
          (Backend_ExtractIP L b)) (\<lambda>ip.
        fail_if (list_ex (IP_Equal ip) nodeIPs)
          (Errorf (''backend '' @ b @ '' points to the node's own public IP address'')))) backends)"

definition Backend_AsAddress :: "Lib \<Rightarrow> string \<Rightarrow> string result" where
  "Backend_AsAddress L b = (case asIpPort L b of
       Inr _ \<Rightarrow> Ok b
     | Inl _ \<Rightarrow> rbind (rwrap ''failed to parse backend as a url'' (lib_urlParse L b)) (\<lambda>u.
         if url_Port u = [] then Ok (url_Host u @ '':80'') else Ok (url_Host u)))"

definition GatewayBase_Valid :: "Lib \<Rightarrow> GatewayBase \<Rightarrow> unit result" where
  "GatewayBase_Valid L g =
     (if length (gw_Backends g) = 0 then Err (Errorf ''backends list can not be empty'')
      else rcheck (\<lambda>b. rwrap (''failed to validate backend '' @ squote b)
        (Backend_Valid L (gw_TLSPassthrough g) b)) (gw_Backends g))"

definition GatewayBase_Challenge :: "GatewayBase \<Rightarrow> string" where
  "GatewayBase_Challenge g = show_bool (gw_TLSPassthrough g) @ concat (gw_Backends g)
     @ (case gw_Network g of None \<Rightarrow> [] | Some n \<Rightarrow> n)"

text \<open>The class \<open>[a-zA-Z0-9-_]\<close> of both gateway patterns.\<close>

definition host_char :: "char \<Rightarrow> bool" where
  "host_char c \<longleftrightarrow> name_char c \<or> c = CHR ''-''"

definition gwNameRegex :: "string \<Rightarrow> bool" where
  "gwNameRegex s \<longleftrightarrow> s \<noteq> [] \<and> list_all host_char s"

definition fqdnRegex :: "string \<Rightarrow> bool" where
  "fqdnRegex s \<longleftrightarrow> (let ls = splitOn CHR ''.'' s in
     2 \<le> length ls \<and> list_all gwNameRegex ls \<and> 2 \<le> length (last ls))"

definition GatewayFQDNProxy_Valid :: "Lib \<Rightarrow> GatewayFQDNProxy \<Rightarrow> unit result" where
  "GatewayFQDNProxy_Valid L g =
     (if \<not> fqdnRegex (gf_FQDN g) then Err (Errorf (''fqdn '' @ gf_FQDN g @ '' is invalid''))
      else GatewayBase_Valid L (gf_Base g))"

definition GatewayFQDNProxy_Challenge :: "GatewayFQDNProxy \<Rightarrow> string" where
  "GatewayFQDNProxy_Challenge g = gf_FQDN g @ GatewayBase_Challenge (gf_Base g)"

definition GatewayNameProxy_Valid :: "Lib \<Rightarrow> GatewayNameProxy \<Rightarrow> unit result" where
  "GatewayNameProxy_Valid L g =
     (if \<not> gwNameRegex (gn_Name g) then Err (Errorf (''name '' @ gn_Name g @ '' is invalid''))
      else GatewayBase_Valid L (gn_Base g))"

definition GatewayNameProxy_Challenge :: "GatewayNameProxy \<Rightarrow> string" where
  "GatewayNameProxy_Challenge g = gn_Name g @ GatewayBase_Challenge (gn_Base g)"

text \<open>A \<open>WorkloadGetter\<close>: the interface through which the data of a workload sees the
  deployment it is part of.\<close>

record Getter =
  getter_Get :: "Name \<Rightarrow> WorkloadWithID result"
  getter_ByType :: "WorkloadType list \<Rightarrow> WorkloadWithID list"

definition validLogSchemes :: "string list" where
  "validLogSchemes = [''redis'', ''ws'', ''wss'', ''http'', ''https'']"

definition ZLogs_Valid :: "Lib \<Rightarrow> Getter \<Rightarrow> ZLogs \<Rightarrow> unit result" where
  "ZLogs_Valid L g z =
     (let missing = Err (Errorf (''no zmachine with name '' @ squote (zl_ZMachine z) @ '' found'')) in
      case getter_Get g (zl_ZMachine z) of
        Inl _ \<Rightarrow> missing
      | Inr wl \<Rightarrow> if wl_Type (wi_Workload wl) \<noteq> ZMachineType then missing
          else rbind (rwrap ''invalid url supplied in output'' (lib_urlParse L (zl_Output z))) (\<lambda>u.
            if url_Scheme u \<notin> set validLogSchemes then
              Err (Errorf (''invalid output schema '' @ squote (url_Scheme u) @ '' not supported''))
            else Ok ()))"

definition ZLogs_Challenge :: "ZLogs \<Rightarrow> string" where
  "ZLogs_Challenge z = zl_ZMachine z @ zl_Output z"


subsection \<open>Validity of machines\<close>

text \<open>How many of the given machines reference a public address by name; a machine whose
  data does not decode makes the check fail.\<close>

fun countPublicIP :: "Lib \<Rightarrow> Name \<Rightarrow> WorkloadWithID list \<Rightarrow> nat result" where
  "countPublicIP L name [] = Ok 0"
| "countPublicIP L name (vm # vms) =
     rbind (lib_unmarshalZMachine L (wl_Data (wi_Workload vm))) (\<lambda>data.
     rbind (countPublicIP L name vms) (\<lambda>n.
       Ok (if mn_PublicIP (vm_Network data) = name then n + 1 else n)))"

text \<open>
  The last checks of \<open>ZMachine.Valid\<close>, after those on the public address. They are a
  definition of their own because the code reaches them on two paths and leaves before
  them on a third: when the name of the public address belongs to a workload of another
  type, the code returns \<open>errors.Wrapf(err, \<dots>)\<close> with an \<open>err\<close> that is nil at that
  point. \<open>Wrapf\<close> of nil is nil, so \<open>Valid\<close> returns no error.
\<close>

definition ZMachine_ValidNetwork :: "ZMachine \<Rightarrow> unit result" where
  "ZMachine_ValidNetwork v =
     rbind (rcheck interface_name_ok (mn_Interfaces (vm_Network v))) (\<lambda>_.
     mycelium_seed_ok (mn_Mycelium (vm_Network v)))"

definition ZMachine_Valid :: "Lib \<Rightarrow> Getter \<Rightarrow> ZMachine \<Rightarrow> unit result" where
  "ZMachine_Valid L g v =
     (if length (mn_Interfaces (vm_Network v)) \<noteq> 1 then
        Err (Errorf ''only one network private network is supported at the moment'')
      else
        rbind (rcheck interface_ip_ok (mn_Interfaces (vm_Network v))) (\<lambda>_.
        rbind (machine_size_ok (vm_ComputeCapacity v) (vm_Size v)) (\<lambda>_.
        if \<not> Name_IsEmpty (mn_PublicIP (vm_Network v)) then
          (case getter_Get g (mn_PublicIP (vm_Network v)) of
             Inl _ \<Rightarrow> Err (Errorf ''public ip is not found'')
           | Inr wl \<Rightarrow>
              if wl_Type (wi_Workload wl) \<noteq> PublicIPv4Type \<and> wl_Type (wi_Workload wl) \<noteq> PublicIPType
              then Ok ()
              else rbind (countPublicIP L (mn_PublicIP (vm_Network v)) (getter_ByType g [ZMachineType])) (\<lambda>n.
                if n > 1 then Err (Errorf ''public ip is assigned to multiple vms'')
                else ZMachine_ValidNetwork v))
        else ZMachine_ValidNetwork v)))"

definition ZMachineLight_Valid :: "ZMachineLight \<Rightarrow> unit result" where
  "ZMachineLight_Valid v =
     (if length (mnl_Interfaces (vml_Network v)) \<noteq> 1 then
        Err (Errorf ''only one network private network is supported at the moment'')
      else
        rbind (rcheck interface_ip_ok (mnl_Interfaces (vml_Network v))) (\<lambda>_.
        rbind (machine_size_ok (vml_ComputeCapacity v) (vml_Size v)) (\<lambda>_.
        rbind (rcheck interface_name_ok (mnl_Interfaces (vml_Network v))) (\<lambda>_.
        mycelium_seed_ok (mnl_Mycelium (vml_Network v))))))"


section \<open>The WorkloadData interface\<close>

fun Data_Valid :: "Lib \<Rightarrow> Getter \<Rightarrow> WorkloadData \<Rightarrow> unit result" where
  "Data_Valid L g (DZMachine d) = ZMachine_Valid L g d"
| "Data_Valid L g (DZMachineLight d) = ZMachineLight_Valid d"
| "Data_Valid L g (DNetwork d) = Network_Valid d"
| "Data_Valid L g (DNetworkLight d) = NetworkLight_Valid d"
| "Data_Valid L g (DZMount d) = ZMount_Valid d"
| "Data_Valid L g (DVolume d) = Volume_Valid d"
| "Data_Valid L g (DZDB d) = ZDB_Valid d"
| "Data_Valid L g DPublicIP4 = Ok ()"
| "Data_Valid L g (DPublicIP d) = PublicIP_Valid d"
| "Data_Valid L g (DGatewayNameProxy d) = GatewayNameProxy_Valid L d"
| "Data_Valid L g (DGatewayFQDNProxy d) = GatewayFQDNProxy_Valid L d"
| "Data_Valid L g (DQuantumSafeFS d) = QuantumSafeFS_Valid d"
| "Data_Valid L g (DZLogs d) = ZLogs_Valid L g d"

fun Data_Challenge :: "WorkloadData \<Rightarrow> string" where
  "Data_Challenge (DZMachine d) = ZMachine_Challenge d"
| "Data_Challenge (DZMachineLight d) = ZMachineLight_Challenge d"
| "Data_Challenge (DNetwork d) = Network_Challenge d"
| "Data_Challenge (DNetworkLight d) = NetworkLight_Challenge d"
| "Data_Challenge (DZMount d) = ZMount_Challenge d"
| "Data_Challenge (DVolume d) = Volume_Challenge d"
| "Data_Challenge (DZDB d) = ZDB_Challenge d"
| "Data_Challenge DPublicIP4 = []"
| "Data_Challenge (DPublicIP d) = PublicIP_Challenge d"
| "Data_Challenge (DGatewayNameProxy d) = GatewayNameProxy_Challenge d"
| "Data_Challenge (DGatewayFQDNProxy d) = GatewayFQDNProxy_Challenge d"
| "Data_Challenge (DQuantumSafeFS d) = QuantumSafeFS_Challenge d"
| "Data_Challenge (DZLogs d) = ZLogs_Challenge d"

fun Data_Capacity :: "WorkloadData \<Rightarrow> Capacity" where
  "Data_Capacity (DZMachine d) = ZMachine_Capacity d"
| "Data_Capacity (DZMachineLight d) = ZMachineLight_Capacity d"
| "Data_Capacity (DNetwork d) = Network_Capacity d"
| "Data_Capacity (DNetworkLight d) = NetworkLight_Capacity d"
| "Data_Capacity (DZMount d) = ZMount_Capacity d"
| "Data_Capacity (DVolume d) = Volume_Capacity d"
| "Data_Capacity (DZDB d) = ZDB_Capacity d"
| "Data_Capacity DPublicIP4 = PublicIP4_Capacity"
| "Data_Capacity (DPublicIP d) = PublicIP_Capacity d"
| "Data_Capacity (DGatewayNameProxy d) = noCapacity"
| "Data_Capacity (DGatewayFQDNProxy d) = noCapacity"
| "Data_Capacity (DQuantumSafeFS d) = QuantumSafeFS_Capacity d"
| "Data_Capacity (DZLogs d) = noCapacity"


section \<open>Properties\<close>

subsection \<open>Helpers\<close>

lemma To16_None_iff: "To16 ip = None \<longleftrightarrow> length ip \<noteq> 4 \<and> length ip \<noteq> 16"
  by (auto simp: To16_def)

lemma interface_ip_ok_iff:
  "interface_ip_ok ifc = Ok u \<longleftrightarrow> length (mi_IP ifc) = 4 \<or> length (mi_IP ifc) = 16"
  by (auto simp: interface_ip_ok_def To4_def To16_def)

lemma interface_name_ok_iff:
  "interface_name_ok ifc = Ok u \<longleftrightarrow> mi_Network ifc \<notin> {''ygg'', ''pub'', ''mycelium''}"
  by (simp add: interface_name_ok_def)

lemma machine_size_ok_iff:
  "machine_size_ok c sz = Ok u \<longleftrightarrow>
     mc_CPU c \<noteq> 0 \<and> 250 * Megabyte \<le> mc_Memory c \<and> (sz = 0 \<or> minRootSize c \<le> sz)"
  by (auto simp: machine_size_ok_def not_less)

lemma mycelium_seed_ok_iff:
  "mycelium_seed_ok m = Ok u \<longleftrightarrow> (\<forall>x. m = Some x \<longrightarrow> length (mip_Seed x) = MyceliumIPSeedLen)"
  by (cases m) (auto simp: mycelium_seed_ok_def)

lemmas machine_iffs = interface_ip_ok_iff interface_name_ok_iff machine_size_ok_iff
  mycelium_seed_ok_iff rcheck_Ok_iff

text \<open>The checks a machine passes before its public address is looked at.\<close>

definition machine_basics :: "MachineInterface list \<Rightarrow> MachineCapacity \<Rightarrow> Unit \<Rightarrow> bool" where
  "machine_basics ifs c sz \<longleftrightarrow>
     length ifs = 1 \<and> list_all (\<lambda>i. length (mi_IP i) = 4 \<or> length (mi_IP i) = 16) ifs \<and>
     mc_CPU c \<noteq> 0 \<and> 250 * Megabyte \<le> mc_Memory c \<and> (sz = 0 \<or> minRootSize c \<le> sz)"

text \<open>And the ones on its networks.\<close>

definition machine_networks :: "MachineInterface list \<Rightarrow> MyceliumIP option \<Rightarrow> bool" where
  "machine_networks ifs m \<longleftrightarrow>
     list_all (\<lambda>i. mi_Network i \<notin> {''ygg'', ''pub'', ''mycelium''}) ifs \<and>
     (case m of None \<Rightarrow> True | Some x \<Rightarrow> length (mip_Seed x) = 6)"

lemma ValidNetwork_iff:
  "ZMachine_ValidNetwork v = Ok u \<longleftrightarrow>
     machine_networks (mn_Interfaces (vm_Network v)) (mn_Mycelium (vm_Network v))"
  by (auto simp: ZMachine_ValidNetwork_def machine_networks_def rbind_Ok_iff machine_iffs
      MyceliumIPSeedLen_def list_all_iff split: option.splits)

lemma ZMachine_Valid_basics:
  "ZMachine_Valid L g v = Ok u \<Longrightarrow>
     machine_basics (mn_Interfaces (vm_Network v)) (vm_ComputeCapacity v) (vm_Size v)"
  by (auto simp: ZMachine_Valid_def machine_basics_def rbind_Ok_iff machine_iffs list_all_iff
      split: if_splits)

lemma ZMachine_Valid_after_basics:
  assumes "machine_basics (mn_Interfaces (vm_Network v)) (vm_ComputeCapacity v) (vm_Size v)"
  shows "ZMachine_Valid L g v =
    (if \<not> Name_IsEmpty (mn_PublicIP (vm_Network v)) then
       (case getter_Get g (mn_PublicIP (vm_Network v)) of
          Inl _ \<Rightarrow> Err (Errorf ''public ip is not found'')
        | Inr wl \<Rightarrow>
           if wl_Type (wi_Workload wl) \<noteq> PublicIPv4Type \<and> wl_Type (wi_Workload wl) \<noteq> PublicIPType
           then Ok ()
           else rbind (countPublicIP L (mn_PublicIP (vm_Network v)) (getter_ByType g [ZMachineType])) (\<lambda>n.
             if n > 1 then Err (Errorf ''public ip is assigned to multiple vms'')
             else ZMachine_ValidNetwork v))
     else ZMachine_ValidNetwork v)"
proof -
  from assms have "rcheck interface_ip_ok (mn_Interfaces (vm_Network v)) = Ok ()"
    and "machine_size_ok (vm_ComputeCapacity v) (vm_Size v) = Ok ()"
    by (auto simp: machine_basics_def machine_iffs list_all_iff)
  with assms show ?thesis by (simp add: ZMachine_Valid_def machine_basics_def)
qed

lemma countPublicIP_length:
  "countPublicIP L name vms = Ok n \<Longrightarrow>
     n = length (filter (\<lambda>vm. \<exists>d. lib_unmarshalZMachine L (wl_Data (wi_Workload vm)) = Ok d
        \<and> mn_PublicIP (vm_Network d) = name) vms)"
  by (induction vms arbitrary: n) (auto simp: rbind_Ok_iff)


subsection \<open>Sample data for the witnesses\<close>

definition sample_vm :: "Name \<Rightarrow> ZMachine" where
  "sample_vm pub = \<lparr>vm_FList = ''f'', vm_Network = \<lparr>mn_PublicIP = pub, mn_Planetary = False,
       mn_Mycelium = None, mn_Interfaces = [\<lparr>mi_Network = ''net'', mi_IP = ''abcd''\<rparr>]\<rparr>,
     vm_Size = 0, vm_ComputeCapacity = \<lparr>mc_CPU = 1, mc_Memory = Gigabyte\<rparr>, vm_Mounts = [],
     vm_Entrypoint = [], vm_Env = [(''a'', ''1''), (''b'', ''2'')], vm_Corex = False, vm_GPU = []\<rparr>"

definition sample_wl :: "WorkloadType \<Rightarrow> Name \<Rightarrow> Workload" where
  "sample_wl t n = \<lparr>wl_Version = 0, wl_Name = n, wl_Type = t, wl_Data = ''d'', wl_Metadata = [],
     wl_Description = [], wl_Result = noResult\<rparr>"

text \<open>A library in which every text decodes to the sample machine, every URL is
  \<open>http://1.2.3.4\<close> and signatures verify when they equal the message.\<close>

definition sample_lib :: Lib where
  "sample_lib = \<lparr>
     lib_unmarshal = (\<lambda>t b. if t = ZMachineType then Ok (DZMachine (sample_vm ''pub''))
        else if t = ZMountType then Ok (DZMount \<lparr>zm_Size = 5\<rparr>) else Ok DPublicIP4),
     lib_unmarshalZMachine = (\<lambda>b. Ok (sample_vm ''pub'')),
     lib_urlParse = (\<lambda>s. Ok \<lparr>url_Scheme = ''http'', url_Host = s, url_Hostname = s, url_Port = []\<rparr>),
     lib_splitHostPort = (\<lambda>s. Err (Errorf ''missing port'')),
     lib_parseIP = (\<lambda>s. map char_of [1, 2, 3, 4 :: nat]),
     lib_md5 = (\<lambda>b. b),
     lib_ed25519Verify = (\<lambda>k m s. s = m),
     lib_srKeyDecode = (\<lambda>k. Ok ()), lib_srSigDecode = (\<lambda>s. Ok ()),
     lib_srVerify = (\<lambda>k s m. Ok (s = m))\<rparr>"

definition sample_getter :: "WorkloadType \<Rightarrow> Getter" where
  "sample_getter t = \<lparr>
     getter_Get = (\<lambda>n. Ok \<lparr>wi_Workload = sample_wl t n, wi_ID = ''1-1-pub''\<rparr>),
     getter_ByType = (\<lambda>ts. [\<lparr>wi_Workload = sample_wl ZMachineType ''vm'', wi_ID = ''1-1-vm''\<rparr>])\<rparr>"

lemma sample_basics:
  "machine_basics (mn_Interfaces (vm_Network (sample_vm n))) (vm_ComputeCapacity (sample_vm n))
     (vm_Size (sample_vm n))"
  by (simp add: machine_basics_def sample_vm_def unit_defs)

lemma sample_valid: "ZMachine_Valid sample_lib (sample_getter PublicIPType) (sample_vm ''pub'') = Ok ()"
  by (simp add: ZMachine_Valid_after_basics[OF sample_basics] Name_IsEmpty_def sample_getter_def
      sample_wl_def sample_lib_def ValidNetwork_iff machine_networks_def)
     (simp add: sample_vm_def)

subsection \<open>Claims\<close>

text \<open>C34: a machine that \<open>ZMachine.Valid\<close> accepts has one interface with a 4 or 16 byte
  address, at least one cpu and 250 megabytes, and a disk that is 0 or no smaller than the
  minimum. If it names no public address, or one that is a public address workload of the
  deployment, its networks are not reserved and its mycelium seed has 6 bytes; in the latter
  case at most one machine of the deployment references that address.\<close>

theorem zmachine_valid_sound:
  assumes "ZMachine_Valid L g v = Ok u"
  shows "machine_basics (mn_Interfaces (vm_Network v)) (vm_ComputeCapacity v) (vm_Size v) \<and>
    (mn_PublicIP (vm_Network v) = [] \<longrightarrow>
      machine_networks (mn_Interfaces (vm_Network v)) (mn_Mycelium (vm_Network v))) \<and>
    (\<forall>wl. mn_PublicIP (vm_Network v) \<noteq> [] \<and> getter_Get g (mn_PublicIP (vm_Network v)) = Ok wl \<and>
      wl_Type (wi_Workload wl) \<in> {PublicIPv4Type, PublicIPType} \<longrightarrow>
      machine_networks (mn_Interfaces (vm_Network v)) (mn_Mycelium (vm_Network v)) \<and>
      length (filter (\<lambda>vm. \<exists>d. lib_unmarshalZMachine L (wl_Data (wi_Workload vm)) = Ok d
        \<and> mn_PublicIP (vm_Network d) = mn_PublicIP (vm_Network v)) (getter_ByType g [ZMachineType])) \<le> 1)"
proof -
  have basics: "machine_basics (mn_Interfaces (vm_Network v)) (vm_ComputeCapacity v) (vm_Size v)"
    using assms by (rule ZMachine_Valid_basics)
  note valid = assms[unfolded ZMachine_Valid_after_basics[OF basics]]
  show ?thesis
    using basics valid
    by (auto simp: Name_IsEmpty_def ValidNetwork_iff rbind_Ok_iff split: if_splits
        dest!: countPublicIP_length)
qed

theorem zmachine_valid_sound_witness:
  "machine_basics (mn_Interfaces (vm_Network (sample_vm ''pub'')))
     (vm_ComputeCapacity (sample_vm ''pub'')) (vm_Size (sample_vm ''pub''))"
  using zmachine_valid_sound[OF sample_valid] by (rule conjunct1)

text \<open>The check that a machine's public address is a public address workload is lost. When
  the name belongs to a workload of any other type, \<open>ZMachine.Valid\<close> returns no error, and
  neither the reserved network names nor the mycelium seed are looked at: the code wraps an
  error that is nil at that point.\<close>

lemma zmachine_public_ip_type_unchecked:
  assumes "machine_basics (mn_Interfaces (vm_Network v)) (vm_ComputeCapacity v) (vm_Size v)"
    and "mn_PublicIP (vm_Network v) \<noteq> []"
    and "getter_Get g (mn_PublicIP (vm_Network v)) = Ok wl"
    and "wl_Type (wi_Workload wl) \<notin> {PublicIPv4Type, PublicIPType}"
  shows "ZMachine_Valid L g v = Ok ()"
  using assms by (simp add: ZMachine_Valid_after_basics Name_IsEmpty_def)

lemma zmachine_public_ip_type_unchecked_witness:
  "ZMachine_Valid sample_lib (sample_getter ZMountType) (sample_vm ''pub'') = Ok ()"
  by (rule zmachine_public_ip_type_unchecked[OF sample_basics,
        where wl = "\<lparr>wi_Workload = sample_wl ZMountType ''pub'', wi_ID = ''1-1-pub''\<rparr>"])
     (simp_all add: sample_vm_def sample_getter_def sample_wl_def type_defs)

text \<open>The size of a machine's root disk is never below the minimum, and it is the requested
  size whenever a machine with a requested size is valid.\<close>

theorem zmachine_root_size:
  "ZMachine_MinRootSize v \<le> ZMachine_RootSize v \<and>
   (ZMachine_Valid L g v = Ok u \<and> vm_Size v \<noteq> 0 \<longrightarrow> SRU (ZMachine_Capacity v) = vm_Size v)"
proof -
  have "ZMachine_MinRootSize v \<le> ZMachine_RootSize v"
    by (auto simp: ZMachine_RootSize_def Let_def)
  moreover have "SRU (ZMachine_Capacity v) = vm_Size v"
    if "ZMachine_Valid L g v = Ok u" and "vm_Size v \<noteq> 0"
  proof -
    from ZMachine_Valid_basics[OF that(1)] that(2) have "ZMachine_MinRootSize v \<le> vm_Size v"
      by (simp add: machine_basics_def ZMachine_MinRootSize_def)
    then show ?thesis by (simp add: ZMachine_Capacity_def ZMachine_RootSize_def Let_def)
  qed
  ultimately show ?thesis by blast
qed

theorem zmachine_root_size_witness:
  "ZMachine_MinRootSize (sample_vm ''pub'') \<le> ZMachine_RootSize (sample_vm ''pub'')"
  using zmachine_root_size[of "sample_vm ''pub''" sample_lib "sample_getter PublicIPType" "()"]
  by (rule conjunct1)

text \<open>Below the wrap-around, the minimum root disk is 2 gigabytes exactly when cpus times
  memory reach 8 gigabytes, and 500 megabytes otherwise.\<close>

theorem minRootSize_threshold:
  assumes "unat (mc_CPU c) * unat (mc_Memory c) < 2 ^ 64"
  shows "minRootSize c =
    (if 8 * 2 ^ 30 \<le> unat (mc_CPU c) * unat (mc_Memory c) then 2 * Gigabyte else 500 * Megabyte)"
proof -
  let ?cpu = "ucast (mc_CPU c) :: u64"
  have "unat (mc_CPU c) < 2 ^ LENGTH(8)" by (rule unsigned_less)
  then have cpu: "unat ?cpu = unat (mc_CPU c)"
    by (simp add: unsigned_ucast_eq take_bit_nat_eq_self_iff)
  have prod: "unat (?cpu * mc_Memory c) = unat (mc_CPU c) * unat (mc_Memory c)"
    unfolding unat_word_ariths cpu using assms by simp
  have "unat (?cpu * mc_Memory c div (8 * Gigabyte)) = unat (mc_CPU c) * unat (mc_Memory c) div (8 * 2 ^ 30)"
    by (simp add: unat_div prod unit_defs)
  then have "?cpu * mc_Memory c div (8 * Gigabyte) = 0 \<longleftrightarrow> unat (mc_CPU c) * unat (mc_Memory c) < 8 * 2 ^ 30"
    by (simp add: unat_eq_zero[symmetric] div_eq_0_iff)
  then show ?thesis by (simp add: minRootSize_def Let_def not_less)
qed

theorem minRootSize_threshold_witness:
  "minRootSize \<lparr>mc_CPU = 4, mc_Memory = 2 * Gigabyte\<rparr> = 2 * Gigabyte"
  using minRootSize_threshold[of "\<lparr>mc_CPU = 4, mc_Memory = 2 * Gigabyte\<rparr>"] by (simp add: unit_defs)

text \<open>The challenge of a machine does not depend on the order in which a Go map yields its
  environment variables.\<close>

theorem challenge_env_order:
  assumes "distinct (map fst env)" and "mset env = mset env'"
  shows "encodeEnv env = encodeEnv env' \<and>
    ZMachine_Challenge (v\<lparr>vm_Env := env\<rparr>) = ZMachine_Challenge (v\<lparr>vm_Env := env'\<rparr>)"
proof -
  from assms(2) have "mset (map fst env) = mset (map fst env')" by simp
  then have keys: "sort (map fst env) = sort (map fst env')"
    by (metis properties_for_sort mset_sort sorted_sort)
  from assms have "distinct (map fst env')"
    by (metis \<open>mset (map fst env) = mset (map fst env')\<close> mset_eq_imp_distinct_iff)
  with assms have "map_of env = map_of env'"
    by (metis map_of_eqI map_of_inject_set mset_eq_setD)
  with keys have "encodeEnv env = encodeEnv env'" by (simp add: encodeEnv_def)
  then show ?thesis by (simp add: ZMachine_Challenge_def)
qed

theorem challenge_env_order_witness:
  "encodeEnv [(''b'', ''2''), (''a'', ''1'')] = encodeEnv [(''a'', ''1''), (''b'', ''2'')]"
  using challenge_env_order[of "[(''b'', ''2''), (''a'', ''1'')]" "[(''a'', ''1''), (''b'', ''2'')]"]
  by (simp add: add_mset_commute)

text \<open>The package's \<open>init\<close> registers its thirteen types without a panic, each once, and the
  two network types are the only ones other deployments may refer to.\<close>

theorem zos_init_registers:
  "\<exists>g. zos_init emptyRegistry = Ok g \<and> distinct (workloadTypes g) \<and> length (workloadTypes g) = 13 \<and>
     sharableWorkloadTypes g = [NetworkLightType, NetworkType]"
  by (simp add: zos_init_def RegisterSharableType_def RegisterType_def emptyRegistry_def type_defs)

text \<open>Backends that \<open>ValidateBackends\<close> accepts are each valid, and none of their addresses is
  one of the node's own public addresses.\<close>

theorem validate_backends_sound:
  assumes "ValidateBackends L bs tls nodeIPs = Ok u" and "b \<in> set bs"
  shows "Backend_Valid L tls b = Ok () \<and>
    (\<exists>ip. Backend_ExtractIP L b = Ok ip \<and> (\<forall>n \<in> set nodeIPs. \<not> IP_Equal ip n))"
  using assms by (auto simp: ValidateBackends_def rbind_Ok_iff rcheck_Ok_iff list_ex_iff)

theorem validate_backends_sound_witness:
  "Backend_Valid sample_lib False ''x'' = Ok ()"
  using validate_backends_sound[of sample_lib "[''x'']" False "[''wxyz'']" "()" "''x''"]
  by (simp add: ValidateBackends_def Backend_Valid_def Backend_ExtractIP_def asIpPort_def
      sample_lib_def IP_IsLoopback_def To4_def IP_Equal_def)

end
