(* ===== verification/Deployments.thy ===== *)
theory Deployments
  imports ZosTypes "HOL-Library.AList"
begin

text \<open>
  Deployments as \<open>pkg/gridtypes/deployment.go\<close> and the data part of \<open>workload.go\<close> treat
  them: validity, the challenge that is hashed, signing and verifying, and the upgrade
  from one version to the next. The registry of types and the library record \<open>Lib\<close> are
  arguments throughout.
\<close>

section \<open>Workload data (workload.go)\<close>

text \<open>\<open>%T\<close> of the value a type's data is decoded into.\<close>

definition goTypeName :: "WorkloadType \<Rightarrow> string" where
  "goTypeName t = (case map_of
      [(ZMachineLightType, ''*zos.ZMachineLight''), (NetworkLightType, ''*zos.NetworkLight''),
       (ZMachineType, ''*zos.ZMachine''), (NetworkType, ''*zos.Network''),
       (ZMountType, ''*zos.ZMount''), (VolumeType, ''*zos.Volume''), (ZDBType, ''*zos.ZDB''),
       (PublicIPv4Type, ''*zos.PublicIP4''), (PublicIPType, ''*zos.PublicIP''),
       (GatewayNameProxyType, ''*zos.GatewayNameProxy''),
       (GatewayFQDNProxyType, ''*zos.GatewayFQDNProxy''),
       (QuantumSafeFSType, ''*zos.QuantumSafeFS''), (ZLogsType, ''*zos.ZLogs'')] t of
     None \<Rightarrow> [] | Some n \<Rightarrow> n)"

definition Workload_WorkloadData :: "Lib \<Rightarrow> Registry \<Rightarrow> Workload \<Rightarrow> WorkloadData result" where
  "Workload_WorkloadData L G w =
     rbind (WorkloadType_Valid G (wl_Type w)) (\<lambda>_.
     rwrap (''failed to load data into object of type '' @ squote (goTypeName (wl_Type w)))
       (lib_unmarshal L (wl_Type w) (wl_Data w)))"

definition Workload_Valid :: "Lib \<Rightarrow> Registry \<Rightarrow> Getter \<Rightarrow> Workload \<Rightarrow> unit result" where
  "Workload_Valid L G getter w =
     rbind (rwrap ''invalid workload name'' (IsValidName (wl_Name w))) (\<lambda>_.
     rbind (WorkloadType_Valid G (wl_Type w)) (\<lambda>_.
     rbind (Workload_WorkloadData L G w) (\<lambda>data.
     Data_Valid L getter data)))"

definition Workload_Challenge :: "Lib \<Rightarrow> Registry \<Rightarrow> Workload \<Rightarrow> string result" where
  "Workload_Challenge L G w = rbind (Workload_WorkloadData L G w) (\<lambda>data.
     Ok (dec (unat (wl_Version w)) @ wl_Name w @ wl_Type w @ wl_Metadata w @ wl_Description w
       @ Data_Challenge data))"

definition Workload_Capacity :: "Lib \<Rightarrow> Registry \<Rightarrow> Workload \<Rightarrow> Capacity result" where
  "Workload_Capacity L G w = rbind (Workload_WorkloadData L G w) (\<lambda>data. Ok (Data_Capacity data))"


section \<open>Validity of a deployment\<close>

definition Deployment_getter :: "Deployment \<Rightarrow> Getter" where
  "Deployment_getter d = \<lparr>getter_Get = Deployment_Get d, getter_ByType = Deployment_ByType d\<rparr>"

fun validWorkloads ::
    "Lib \<Rightarrow> Registry \<Rightarrow> Deployment \<Rightarrow> Name list \<Rightarrow> Workload list \<Rightarrow> unit result" where
  "validWorkloads L G d names [] = Ok ()"
| "validWorkloads L G d names (wl # wls) =
     (if wl_Version wl > dl_Version d then
        Err (Errorf (''workload '' @ squote (wl_Name wl) @ '' version ''
          @ squote (dec (unat (wl_Version wl))) @ '' cannot be higher than deployment version ''
          @ squote (dec (unat (dl_Version d)))))
      else
        rbind (rwrap (''name '' @ squote (wl_Name wl) @ '' is invalid'') (IsValidName (wl_Name wl))) (\<lambda>_.
        if wl_Name wl \<in> set names then
          Err (Errorf (''multiple workloads with the same name '' @ squote (wl_Name wl)))
        else
          rbind (Workload_Valid L G (Deployment_getter d) wl) (\<lambda>_.
          validWorkloads L G d (wl_Name wl # names) wls)))"

definition Deployment_Valid :: "Lib \<Rightarrow> Registry \<Rightarrow> Deployment \<Rightarrow> unit result" where
  "Deployment_Valid L G d = validWorkloads L G d [] (dl_Workloads d)"


section \<open>Challenge, signing and verification\<close>

definition SignatureRequest_Challenge :: "SignatureRequest \<Rightarrow> string" where
  "SignatureRequest_Challenge r =
     dec (unat (srq_TwinID r)) @ show_bool (srq_Required r) @ dec (unat (srq_Weight r))"

definition SignatureRequirement_Challenge :: "SignatureRequirement \<Rightarrow> string" where
  "SignatureRequirement_Challenge r =
     concat (map SignatureRequest_Challenge (Requests r)) @ dec (unat (WeightRequired r))
     @ SignatureStyle r"

definition Deployment_Challenge :: "Lib \<Rightarrow> Registry \<Rightarrow> Deployment \<Rightarrow> string result" where
  "Deployment_Challenge L G d =
     rbind (rconcat (Workload_Challenge L G) (dl_Workloads d)) (\<lambda>wls.
     Ok (dec (unat (dl_Version d)) @ dec (unat (dl_TwinID d)) @ dl_Metadata d @ dl_Description d
       @ dec_int (dl_Expiration d) @ wls
       @ SignatureRequirement_Challenge (dl_SignatureRequirement d)))"

definition ChallengeHash :: "Lib \<Rightarrow> Registry \<Rightarrow> Deployment \<Rightarrow> bytes result" where
  "ChallengeHash L G d = rbind (Deployment_Challenge L G d) (\<lambda>t. Ok (lib_md5 L t))"

definition SignatureTypeEd25519 :: string where "SignatureTypeEd25519 = ''ed25519''"
definition SignatureTypeSr25519 :: string where "SignatureTypeSr25519 = ''sr25519''"
definition SignatureStylePolka :: string where "SignatureStylePolka = ''polka-wallet''"

text \<open>A \<open>Signer\<close>: a function that signs a message, and its type.\<close>

record Signer =
  signer_Sign :: "bytes \<Rightarrow> bytes result"
  signer_Type :: string

text \<open>The signature of a twin that already signed is replaced in place (its type stays);
  otherwise a signature is appended.\<close>

fun putSignature :: "u32 \<Rightarrow> string \<Rightarrow> string \<Rightarrow> Signature list \<Rightarrow> Signature list" where
  "putSignature twin s typ [] = [\<lparr>sig_TwinID = twin, sig_Signature = s, sig_SignatureType = typ\<rparr>]"
| "putSignature twin s typ (x # xs) =
     (if sig_TwinID x = twin then x\<lparr>sig_Signature := s\<rparr> # xs else x # putSignature twin s typ xs)"

definition Deployment_Sign ::
    "Lib \<Rightarrow> Registry \<Rightarrow> u32 \<Rightarrow> Signer \<Rightarrow> Deployment \<Rightarrow> Deployment result" where
  "Deployment_Sign L G twin sk d =
     rbind (ChallengeHash L G d) (\<lambda>message.
     rbind (signer_Sign sk message) (\<lambda>bs.
     Ok (d\<lparr>dl_SignatureRequirement := (dl_SignatureRequirement d)\<lparr>Signatures :=
       putSignature twin (hex_encode bs) (signer_Type sk) (Signatures (dl_SignatureRequirement d))\<rparr>\<rparr>)))"

text \<open>\<open>copy(dst[:], src)\<close> into an array of \<open>n\<close> zero bytes.\<close>

definition copyInto :: "nat \<Rightarrow> bytes \<Rightarrow> bytes" where
  "copyInto n src = take n src @ replicate (n - length src) (char_of (0::nat))"

text \<open>\<open>ed25519.Verify\<close> panics on a key that has not 32 bytes.\<close>

definition Ed25519VerifyingKey_Verify :: "Lib \<Rightarrow> bytes \<Rightarrow> bytes \<Rightarrow> bytes \<Rightarrow> bool result" where
  "Ed25519VerifyingKey_Verify L k msg sg =
     (if length k \<noteq> 32 then Err (Panic ''ed25519: bad public key length'')
      else Ok (lib_ed25519Verify L k msg sg))"

definition Sr25519VerifyingKey_Verify :: "Lib \<Rightarrow> bytes \<Rightarrow> bytes \<Rightarrow> bytes \<Rightarrow> bool result" where
  "Sr25519VerifyingKey_Verify L k msg sg = Ok (
     (let pub = copyInto 32 k; sigs = copyInto 64 sg in
      case lib_srKeyDecode L pub of Inl _ \<Rightarrow> False | Inr _ \<Rightarrow>
      (case lib_srSigDecode L sigs of Inl _ \<Rightarrow> False | Inr _ \<Rightarrow>
      (case lib_srVerify L pub sigs msg of Inl _ \<Rightarrow> False | Inr ok \<Rightarrow> ok))))"

definition verifyingKey_Verify ::
    "Lib \<Rightarrow> string \<Rightarrow> bytes \<Rightarrow> bytes \<Rightarrow> bytes \<Rightarrow> bool result" where
  "verifyingKey_Verify L typ pk msg sg =
     (if typ = SignatureTypeSr25519 then Sr25519VerifyingKey_Verify L pk msg sg
      else Ed25519VerifyingKey_Verify L pk msg sg)"

definition getSignature :: "SignatureRequirement \<Rightarrow> u32 \<Rightarrow> Signature option" where
  "getSignature r twin = find (\<lambda>s. sig_TwinID s = twin) (Signatures r)"

text \<open>The loop of \<open>Verify\<close>: whether the originator was found, and the weight so far.\<close>

fun verifyRequests ::
    "Lib \<Rightarrow> (u32 \<Rightarrow> bytes result) \<Rightarrow> Deployment \<Rightarrow> bytes \<Rightarrow> SignatureRequest list \<Rightarrow> bool \<Rightarrow> u64
     \<Rightarrow> (bool \<times> u64) result" where
  "verifyRequests L getKey d message [] found weight = Ok (found, weight)"
| "verifyRequests L getKey d message (r # rs) found weight =
     (let origin = srq_TwinID r = dl_TwinID d;
          required = srq_Required r \<or> origin;
          found_sig = getSignature (dl_SignatureRequirement d) (srq_TwinID r);
          sg = (case found_sig of None \<Rightarrow> noSignature | Some s \<Rightarrow> s) in
      if found_sig = None \<and> required then
        Err (Errorf (''missing required signature for twin '' @ squote (dec (unat (srq_TwinID r)))))
      else
        rbind (rwrap (''failed to get public key for twin '' @ squote (dec (unat (srq_TwinID r))))
          (getKey (srq_TwinID r))) (\<lambda>pk.
        rbind (rwrap ''invalid signature'' (hex_decode (sig_Signature sg))) (\<lambda>bs.
        rbind (verifyingKey_Verify L (sig_SignatureType sg) pk message bs) (\<lambda>ok.
        if \<not> ok then Err (Errorf ''failed to verify signature'')
        else verifyRequests L getKey d message rs (found \<or> origin) (weight + srq_Weight r)))))"

definition verifyMessage :: "SignatureRequirement \<Rightarrow> bytes \<Rightarrow> bytes" where
  "verifyMessage r h =
     (if SignatureStyle r = SignatureStylePolka
      then ''<Bytes>'' @ hex_encode h @ ''</Bytes>'' else h)"

definition Deployment_Verify ::
    "Lib \<Rightarrow> Registry \<Rightarrow> (u32 \<Rightarrow> bytes result) \<Rightarrow> Deployment \<Rightarrow> unit result" where
  "Deployment_Verify L G getKey d =
     rbind (ChallengeHash L G d) (\<lambda>h.
     let reqs = dl_SignatureRequirement d in
     rbind (verifyRequests L getKey d (verifyMessage reqs h) (Requests reqs) False 0)
       (\<lambda>(originatorFound, weight).
     if \<not> originatorFound then
       Err (Errorf ''originator twin id must be in the signature requests'')
     else if weight < WeightRequired reqs then
       Err (Errorf ''required signature weight is not reached'')
     else Ok ()))"


section \<open>Upgrade\<close>

datatype JobOperation = OpRemove | OpAdd | OpUpdate

fun JobOperation_String :: "JobOperation \<Rightarrow> string" where
  "JobOperation_String OpRemove = ''remove''"
| "JobOperation_String OpAdd = ''add''"
| "JobOperation_String OpUpdate = ''update''"

record UpgradeOp =
  op_WlID :: WorkloadWithID
  op_Op :: JobOperation

text \<open>
  The map \<open>current\<close> of \<open>Upgrade\<close> is an association list with distinct keys; \<open>ord\<close> is the
  order in which the final \<open>range\<close> visits what is left in it, which Go leaves open. The
  loop over the new workloads returns the operations, what is left of the map, and the new
  workloads, those that already exist with their current result.
\<close>

definition currentWorkloads :: "Workload list \<Rightarrow> (Name \<times> Workload) list" where
  "currentWorkloads wls = foldl (\<lambda>m wl. AList.update (wl_Name wl) wl m) [] wls"

fun upgradeWorkloads ::
    "u32 \<Rightarrow> u64 \<Rightarrow> u32 \<Rightarrow> (Name \<times> Workload) list \<Rightarrow> Workload list
     \<Rightarrow> (UpgradeOp list \<times> (Name \<times> Workload) list \<times> Workload list) result" where
  "upgradeWorkloads twin contract expected current [] = Ok ([], current, [])"
| "upgradeWorkloads twin contract expected current (l # ls) =
     rbind (rwrap ''failed to get build workload ID'' (NewWorkloadID twin contract (wl_Name l))) (\<lambda>i.
     case map_of current (wl_Name l) of
       None \<Rightarrow>
         if wl_Version l = expected then
           rbind (upgradeWorkloads twin contract expected (AList.delete (wl_Name l) current) ls)
             (\<lambda>(ops, cur, wls).
               Ok (\<lparr>op_WlID = \<lparr>wi_Workload = l, wi_ID = i\<rparr>, op_Op = OpAdd\<rparr> # ops, cur, l # wls))
         else Err (Errorf (''invalid version number for workload '' @ squote (wl_Name l)
                 @ '' expected '' @ squote (dec (unat expected))))
     | Some older \<Rightarrow>
         if wl_Type older \<noteq> wl_Type l then
           Err (Errorf (''cannot change workload type '' @ squote (wl_Name l)))
         else let l' = l\<lparr>wl_Result := wl_Result older\<rparr> in
           rbind (upgradeWorkloads twin contract expected (AList.delete (wl_Name l) current) ls)
             (\<lambda>(ops, cur, wls).
               Ok (if wl_Version l' = expected
                   then \<lparr>op_WlID = \<lparr>wi_Workload = l', wi_ID = i\<rparr>, op_Op = OpUpdate\<rparr> # ops
                   else ops, cur, l' # wls)))"

definition removeOp :: "u32 \<Rightarrow> u64 \<Rightarrow> Workload \<Rightarrow> UpgradeOp" where
  "removeOp twin contract wl = \<lparr>op_WlID = \<lparr>wi_Workload = wl,
     wi_ID = (case NewWorkloadID twin contract (wl_Name wl) of Inr i \<Rightarrow> i | Inl _ \<Rightarrow> [])\<rparr>,
     op_Op = OpRemove\<rparr>"

definition Deployment_Upgrade ::
    "Lib \<Rightarrow> Registry \<Rightarrow> ((Name \<times> Workload) list \<Rightarrow> (Name \<times> Workload) list)
     \<Rightarrow> Deployment \<Rightarrow> Deployment \<Rightarrow> (UpgradeOp list \<times> Deployment) result" where
  "Deployment_Upgrade L G ord d n =
     rbind (rwrap ''new deployment is invalid'' (Deployment_Valid L G n)) (\<lambda>_.
     if dl_TwinID d \<noteq> dl_TwinID n \<or> dl_ContractID d \<noteq> dl_ContractID n then
       Err (Errorf ''cannot change deployment or twin id'')
     else let expected = dl_Version d + 1 in
       if expected \<noteq> dl_Version n then
         Err (Errorf (''expecting deployment version '' @ dec (unat expected) @ '', got ''
           @ dec (unat (dl_Version n))))
       else
         rbind (upgradeWorkloads (dl_TwinID n) (dl_ContractID n) expected
            (currentWorkloads (dl_Workloads d)) (dl_Workloads n)) (\<lambda>(ops, cur, wls).
         Ok (ops @ map (removeOp (dl_TwinID d) (dl_ContractID d)) (map snd (ord cur)),
             n\<lparr>dl_Workloads := wls\<rparr>)))"

section \<open>Properties\<close>

subsection \<open>Validity\<close>

lemma Workload_Valid_name: "Workload_Valid L G g w = Ok u \<Longrightarrow> IsValidName (wl_Name w) = Ok ()"
  by (auto simp: Workload_Valid_def rbind_Ok_iff)

lemma validWorkloads_iff:
  "validWorkloads L G d names wls = Ok u \<longleftrightarrow>
     distinct (map wl_Name wls) \<and> set names \<inter> wl_Name ` set wls = {} \<and>
     (\<forall>wl \<in> set wls. wl_Version wl \<le> dl_Version d \<and> Workload_Valid L G (Deployment_getter d) wl = Ok ())"
proof (induction wls arbitrary: names)
  case (Cons wl wls)
  have step: "validWorkloads L G d names (wl # wls) = Ok u \<longleftrightarrow>
      wl_Version wl \<le> dl_Version d \<and> wl_Name wl \<notin> set names \<and>
      Workload_Valid L G (Deployment_getter d) wl = Ok () \<and>
      validWorkloads L G d (wl_Name wl # names) wls = Ok u"
    by (auto simp: rbind_Ok_iff not_less dest: Workload_Valid_name)
  show ?case unfolding step Cons.IH by auto
qed simp

lemma Deployment_Valid_iff:
  "Deployment_Valid L G d = Ok u \<longleftrightarrow>
     distinct (map wl_Name (dl_Workloads d)) \<and>
     (\<forall>wl \<in> set (dl_Workloads d).
        wl_Version wl \<le> dl_Version d \<and> Workload_Valid L G (Deployment_getter d) wl = Ok ())"
  by (simp add: Deployment_Valid_def validWorkloads_iff)

subsection \<open>Challenge\<close>

lemma Workload_Challenge_result [simp]:
  "Workload_Challenge L G (w\<lparr>wl_Result := r\<rparr>) = Workload_Challenge L G w"
  by (simp add: Workload_Challenge_def Workload_WorkloadData_def)

lemma rconcat_map: "rconcat f (map g xs) = rconcat (\<lambda>x. f (g x)) xs"
  by (induction xs) simp_all

lemma ChallengeHash_Ok_iff:
  "ChallengeHash L G d = Ok h \<longleftrightarrow> (\<exists>t. Deployment_Challenge L G d = Ok t \<and> h = lib_md5 L t)"
  by (auto simp: ChallengeHash_def rbind_Ok_iff)

lemma Deployment_Challenge_signatures [simp]:
  "Deployment_Challenge L G (d\<lparr>dl_SignatureRequirement := (dl_SignatureRequirement d)\<lparr>Signatures := s\<rparr>\<rparr>)
     = Deployment_Challenge L G d"
  by (simp add: Deployment_Challenge_def SignatureRequirement_Challenge_def)

subsection \<open>Verification\<close>

text \<open>What \<open>Verify\<close> checks of one signature request.\<close>

definition request_ok ::
    "Lib \<Rightarrow> (u32 \<Rightarrow> bytes result) \<Rightarrow> Deployment \<Rightarrow> bytes \<Rightarrow> SignatureRequest \<Rightarrow> bool" where
  "request_ok L getKey d message r \<longleftrightarrow>
     (\<exists>sg pk bs. (getSignature (dl_SignatureRequirement d) (srq_TwinID r) = Some sg \<or>
          getSignature (dl_SignatureRequirement d) (srq_TwinID r) = None \<and> \<not> srq_Required r \<and>
          srq_TwinID r \<noteq> dl_TwinID d \<and> sg = noSignature) \<and>
        getKey (srq_TwinID r) = Ok pk \<and> hex_decode (sig_Signature sg) = Ok bs \<and>
        verifyingKey_Verify L (sig_SignatureType sg) pk message bs = Ok True)"

lemma verifyRequests_step:
  "verifyRequests L getKey d m (r # rs) f w = Ok fw \<longleftrightarrow>
     request_ok L getKey d m r \<and>
     verifyRequests L getKey d m rs (f \<or> srq_TwinID r = dl_TwinID d) (w + srq_Weight r) = Ok fw"
  by (cases "getSignature (dl_SignatureRequirement d) (srq_TwinID r)")
     (auto simp: request_ok_def rbind_Ok_iff Let_def split: if_splits)

lemma verifyRequests_iff:
  "verifyRequests L getKey d m rs f w = Ok fw \<longleftrightarrow>
     (\<forall>r \<in> set rs. request_ok L getKey d m r) \<and>
     fw = (f \<or> dl_TwinID d \<in> srq_TwinID ` set rs, w + sum_list (map srq_Weight rs))"
proof (induction rs arbitrary: f w)
  case (Cons r rs)
  show ?case
    unfolding verifyRequests_step Cons.IH by (cases fw) (auto simp: algebra_simps)
qed auto

lemma Verify_iff:
  "Deployment_Verify L G getKey d = Ok u \<longleftrightarrow>
     (\<exists>h. ChallengeHash L G d = Ok h \<and>
       (\<forall>r \<in> set (Requests (dl_SignatureRequirement d)).
          request_ok L getKey d (verifyMessage (dl_SignatureRequirement d) h) r)) \<and>
     dl_TwinID d \<in> srq_TwinID ` set (Requests (dl_SignatureRequirement d)) \<and>
     WeightRequired (dl_SignatureRequirement d)
       \<le> sum_list (map srq_Weight (Requests (dl_SignatureRequirement d)))"
  by (auto simp: Deployment_Verify_def rbind_Ok_iff verifyRequests_iff Let_def not_less
      split: if_splits)

lemma getSignature_put:
  "find (\<lambda>s. sig_TwinID s = t) (putSignature twin s typ xs) =
     (if t = twin then
        (case find (\<lambda>s. sig_TwinID s = twin) xs of
           None \<Rightarrow> Some \<lparr>sig_TwinID = twin, sig_Signature = s, sig_SignatureType = typ\<rparr>
         | Some x \<Rightarrow> Some (x\<lparr>sig_Signature := s\<rparr>))
      else find (\<lambda>s. sig_TwinID s = t) xs)"
  by (induction xs) auto

lemma find_append:
  "find P (xs @ ys) = (case find P xs of None \<Rightarrow> find P ys | Some x \<Rightarrow> Some x)"
  by (induction xs) auto

subsection \<open>Upgrade\<close>

text \<open>What the upgrade does with one workload of the new version: its result, and the
  operation it asks for.\<close>

definition upgradedWorkload :: "(Name \<rightharpoonup> Workload) \<Rightarrow> Workload \<Rightarrow> Workload" where
  "upgradedWorkload m l = (case m (wl_Name l) of None \<Rightarrow> l | Some older \<Rightarrow> l\<lparr>wl_Result := wl_Result older\<rparr>)"

definition upgradeOp :: "u32 \<Rightarrow> u64 \<Rightarrow> u32 \<Rightarrow> (Name \<rightharpoonup> Workload) \<Rightarrow> Workload \<Rightarrow> UpgradeOp list" where
  "upgradeOp t c e m l =
     (let w = \<lparr>wi_Workload = upgradedWorkload m l, wi_ID = NewUncheckedWorkloadID t c (wl_Name l)\<rparr> in
      case m (wl_Name l) of
        None \<Rightarrow> [\<lparr>op_WlID = w, op_Op = OpAdd\<rparr>]
      | Some _ \<Rightarrow> if wl_Version l = e then [\<lparr>op_WlID = w, op_Op = OpUpdate\<rparr>] else [])"

definition upgradable :: "u32 \<Rightarrow> (Name \<rightharpoonup> Workload) \<Rightarrow> Workload \<Rightarrow> bool" where
  "upgradable e m l \<longleftrightarrow> IsValidName (wl_Name l) = Ok () \<and>
     (case m (wl_Name l) of None \<Rightarrow> wl_Version l = e | Some older \<Rightarrow> wl_Type older = wl_Type l)"

lemma upgraded_fields [simp]:
  "wl_Name (upgradedWorkload m l) = wl_Name l" "wl_Type (upgradedWorkload m l) = wl_Type l"
  "wl_Version (upgradedWorkload m l) = wl_Version l" "wl_Data (upgradedWorkload m l) = wl_Data l"
  by (simp_all add: upgradedWorkload_def split: option.split)

lemma upgraded_cong:
  "m (wl_Name l) = m' (wl_Name l) \<Longrightarrow>
     upgradedWorkload m l = upgradedWorkload m' l \<and> upgradeOp t c e m l = upgradeOp t c e m' l \<and>
     upgradable e m l = upgradable e m' l"
  by (simp add: upgradedWorkload_def upgradeOp_def upgradable_def)

lemma upgradeWorkloads_step:
  "upgradeWorkloads t c e cur (l # ls) = Ok r \<longleftrightarrow>
     upgradable e (map_of cur) l \<and>
     (\<exists>ops cur' wls. upgradeWorkloads t c e (AList.delete (wl_Name l) cur) ls = Ok (ops, cur', wls) \<and>
        r = (upgradeOp t c e (map_of cur) l @ ops, cur', upgradedWorkload (map_of cur) l # wls))"
  by (auto simp: upgradable_def upgradeOp_def upgradedWorkload_def NewWorkloadID_Ok_iff
      rbind_Ok_iff Let_def split: option.splits if_splits)

lemma upgradeWorkloads_iff:
  assumes "distinct (map wl_Name ls)"
  shows "upgradeWorkloads t c e cur ls = Ok (ops, cur', wls) \<longleftrightarrow>
    (\<forall>l \<in> set ls. upgradable e (map_of cur) l) \<and>
    ops = concat (map (upgradeOp t c e (map_of cur)) ls) \<and>
    cur' = fold AList.delete (map wl_Name ls) cur \<and>
    wls = map (upgradedWorkload (map_of cur)) ls"
  using assms
proof (induction ls arbitrary: cur ops cur' wls)
  case (Cons l ls)
  let ?cur = "AList.delete (wl_Name l) cur"
  from Cons.prems have "wl_Name l \<notin> wl_Name ` set ls" by simp
  then have "map_of ?cur (wl_Name x) = map_of cur (wl_Name x)" if "x \<in> set ls" for x
    using that by (auto simp: delete_conv' image_iff)
  then have same: "upgradedWorkload (map_of ?cur) x = upgradedWorkload (map_of cur) x \<and>
      upgradeOp t c e (map_of ?cur) x = upgradeOp t c e (map_of cur) x \<and>
      upgradable e (map_of ?cur) x = upgradable e (map_of cur) x" if "x \<in> set ls" for x
    using that upgraded_cong by metis
  have "map (upgradeOp t c e (map_of ?cur)) ls = map (upgradeOp t c e (map_of cur)) ls"
    and "map (upgradedWorkload (map_of ?cur)) ls = map (upgradedWorkload (map_of cur)) ls"
    and "(\<forall>x \<in> set ls. upgradable e (map_of ?cur) x) = (\<forall>x \<in> set ls. upgradable e (map_of cur) x)"
    using same by auto
  with Cons.IH[of ?cur] Cons.prems show ?case unfolding upgradeWorkloads_step by auto
qed auto

lemma map_of_current:
  "distinct (map wl_Name wls) \<Longrightarrow>
     map_of (currentWorkloads wls) n = find (\<lambda>w. wl_Name w = n) wls"
proof (induction wls rule: rev_induct)
  case (snoc w wls)
  then have "find (\<lambda>x. wl_Name x = wl_Name w) wls = None" by (auto simp: find_None_iff image_iff)
  with snoc show ?case by (auto simp: currentWorkloads_def update_conv' find_append split: option.split)
qed (simp add: currentWorkloads_def)

lemma distinct_current: "distinct (map fst (currentWorkloads wls))"
  by (induction wls rule: rev_induct) (simp_all add: currentWorkloads_def distinct_update)

lemma delete_fold_filter:
  "fold AList.delete ks al = filter (\<lambda>p. fst p \<notin> set ks) al"
proof (induction ks arbitrary: al)
  case (Cons k ks)
  then show ?case by (auto simp: AList.delete_eq intro!: filter_cong)
qed simp

lemma set_current:
  assumes "distinct (map wl_Name wls)"
  shows "set (currentWorkloads wls) = (\<lambda>w. (wl_Name w, w)) ` set wls"
proof -
  have "(k, w) \<in> set (currentWorkloads wls) \<longleftrightarrow> find (\<lambda>w. wl_Name w = k) wls = Some w" for k w
    using distinct_current[of wls] map_of_current[OF assms, of k]
    by (metis map_of_SomeD map_of_is_SomeI)
  moreover have "find (\<lambda>w. wl_Name w = k) wls = Some w \<longleftrightarrow> w \<in> set wls \<and> wl_Name w = k" for k w
    using assms by (induction wls) (auto simp: image_iff)
  ultimately show ?thesis by auto
qed

text \<open>An upgrade that succeeds, in terms of the workloads of both versions.\<close>

lemma Upgrade_iff:
  assumes "Deployment_Upgrade L G ord d n = Ok (ops, n')"
  shows "Deployment_Valid L G n = Ok ()" and "dl_TwinID d = dl_TwinID n"
    and "dl_ContractID d = dl_ContractID n" and "dl_Version n = dl_Version d + 1"
    and "upgradeWorkloads (dl_TwinID n) (dl_ContractID n) (dl_Version n)
       (currentWorkloads (dl_Workloads d)) (dl_Workloads n) =
       Ok (concat (map (upgradeOp (dl_TwinID n) (dl_ContractID n) (dl_Version n)
             (map_of (currentWorkloads (dl_Workloads d)))) (dl_Workloads n)),
           fold AList.delete (map wl_Name (dl_Workloads n)) (currentWorkloads (dl_Workloads d)),
           map (upgradedWorkload (map_of (currentWorkloads (dl_Workloads d)))) (dl_Workloads n))"
    and "ops = concat (map (upgradeOp (dl_TwinID n) (dl_ContractID n) (dl_Version n)
             (map_of (currentWorkloads (dl_Workloads d)))) (dl_Workloads n))
        @ map (removeOp (dl_TwinID d) (dl_ContractID d)) (map snd (ord
            (fold AList.delete (map wl_Name (dl_Workloads n)) (currentWorkloads (dl_Workloads d)))))"
    and "n' = n\<lparr>dl_Workloads :=
       map (upgradedWorkload (map_of (currentWorkloads (dl_Workloads d)))) (dl_Workloads n)\<rparr>"
proof -
  from assms show valid: "Deployment_Valid L G n = Ok ()" and ids: "dl_TwinID d = dl_TwinID n"
    "dl_ContractID d = dl_ContractID n" "dl_Version n = dl_Version d + 1"
    by (auto simp: Deployment_Upgrade_def rbind_Ok_iff Let_def split: if_splits)
  from valid have distinct: "distinct (map wl_Name (dl_Workloads n))" by (simp add: Deployment_Valid_iff)
  from assms ids obtain o1 cur wls where
    up: "upgradeWorkloads (dl_TwinID n) (dl_ContractID n) (dl_Version n)
      (currentWorkloads (dl_Workloads d)) (dl_Workloads n) = Ok (o1, cur, wls)"
    and res: "ops = o1 @ map (removeOp (dl_TwinID d) (dl_ContractID d)) (map snd (ord cur))"
      "n' = n\<lparr>dl_Workloads := wls\<rparr>"
    by (auto simp: Deployment_Upgrade_def rbind_Ok_iff Let_def split: if_splits)
  show "upgradeWorkloads (dl_TwinID n) (dl_ContractID n) (dl_Version n)
       (currentWorkloads (dl_Workloads d)) (dl_Workloads n) =
       Ok (concat (map (upgradeOp (dl_TwinID n) (dl_ContractID n) (dl_Version n)
             (map_of (currentWorkloads (dl_Workloads d)))) (dl_Workloads n)),
           fold AList.delete (map wl_Name (dl_Workloads n)) (currentWorkloads (dl_Workloads d)),
           map (upgradedWorkload (map_of (currentWorkloads (dl_Workloads d)))) (dl_Workloads n))"
    using up upgradeWorkloads_iff[OF distinct] by metis
  with up res show "ops = concat (map (upgradeOp (dl_TwinID n) (dl_ContractID n) (dl_Version n)
             (map_of (currentWorkloads (dl_Workloads d)))) (dl_Workloads n))
        @ map (removeOp (dl_TwinID d) (dl_ContractID d)) (map snd (ord
            (fold AList.delete (map wl_Name (dl_Workloads n)) (currentWorkloads (dl_Workloads d)))))"
    and "n' = n\<lparr>dl_Workloads :=
       map (upgradedWorkload (map_of (currentWorkloads (dl_Workloads d)))) (dl_Workloads n)\<rparr>"
    by simp_all
qed

text \<open>The names of the workloads that the operations of one kind are about.\<close>

definition opName :: "UpgradeOp \<Rightarrow> Name" where
  "opName op = wl_Name (wi_Workload (op_WlID op))"

definition opNames :: "JobOperation \<Rightarrow> UpgradeOp list \<Rightarrow> Name set" where
  "opNames k ops = opName ` {op \<in> set ops. op_Op op = k}"

lemma opNames_append: "opNames k (xs @ ys) = opNames k xs \<union> opNames k ys"
  by (auto simp: opNames_def)

lemma opNames_removes:
  "opNames k (map (removeOp t c) ws) = (if k = OpRemove then wl_Name ` set ws else {})"
proof -
  have *: "op_Op (removeOp t c w) = OpRemove" "opName (removeOp t c w) = wl_Name w" for w
    by (simp_all add: removeOp_def opName_def)
  have "{op \<in> set (map (removeOp t c) ws). op_Op op = k} =
      (if k = OpRemove then removeOp t c ` set ws else {})" by (auto simp: *)
  then show ?thesis by (simp add: opNames_def image_image *)
qed

lemma opNames_upgrades:
  "opNames k (concat (map (upgradeOp t c e m) ls)) =
     (case k of OpRemove \<Rightarrow> {}
      | OpAdd \<Rightarrow> wl_Name ` {l \<in> set ls. m (wl_Name l) = None}
      | OpUpdate \<Rightarrow> wl_Name ` {l \<in> set ls. m (wl_Name l) \<noteq> None \<and> wl_Version l = e})"
proof -
  have "opNames k (upgradeOp t c e m l) = (case k of OpRemove \<Rightarrow> {}
      | OpAdd \<Rightarrow> (if m (wl_Name l) = None then {wl_Name l} else {})
      | OpUpdate \<Rightarrow> (if m (wl_Name l) \<noteq> None \<and> wl_Version l = e then {wl_Name l} else {}))" for l
    by (cases k) (auto simp: opNames_def opName_def upgradeOp_def Let_def split: option.splits if_splits)
  moreover have "opNames k (concat (map f ls)) = (\<Union>l \<in> set ls. opNames k (f l))" for f
    by (auto simp: opNames_def)
  ultimately show ?thesis by (cases k) auto
qed

text \<open>No name has two operations.\<close>

lemma upgrade_names_once:
  assumes "distinct (map wl_Name ls)"
  shows "distinct (map opName (concat (map (upgradeOp t c e m) ls))) \<and>
    set (map opName (concat (map (upgradeOp t c e m) ls))) \<subseteq> wl_Name ` set ls"
  using assms
proof (induction ls)
  case (Cons l ls)
  have "map opName (upgradeOp t c e m l) \<in> {[], [wl_Name l]}"
    by (auto simp: opName_def upgradeOp_def Let_def split: option.split)
  moreover have "distinct (map opName (concat (map (upgradeOp t c e m) ls)))"
    and rest: "set (map opName (concat (map (upgradeOp t c e m) ls))) \<subseteq> wl_Name ` set ls"
    using Cons by simp_all
  moreover have "wl_Name l \<notin> set (map opName (concat (map (upgradeOp t c e m) ls)))"
    using Cons.prems rest by auto
  ultimately have "distinct (map opName (upgradeOp t c e m l) @ map opName (concat (map (upgradeOp t c e m) ls)))"
      and "set (map opName (upgradeOp t c e m l) @ map opName (concat (map (upgradeOp t c e m) ls))) \<subseteq> wl_Name ` set (l # ls)"
    by (auto simp del: map_map)
  then show ?case unfolding list.map concat.simps map_append by blast
qed simp

lemma remove_names_once:
  assumes "distinct (map wl_Name ws)" and "mset xs = mset (filter (\<lambda>p. fst p \<notin> K) (currentWorkloads ws))"
  shows "distinct (map opName (map (removeOp t c) (map snd xs))) \<and> set (map opName (map (removeOp t c) (map snd xs))) \<inter> K = {}"
proof -
  have xs: "set xs \<subseteq> set (currentWorkloads ws)" "\<forall>p \<in> set xs. fst p \<notin> K"
    using mset_eq_setD[OF assms(2)] by auto
  then have names: "map (wl_Name \<circ> snd) xs = map fst xs" using set_current[OF assms(1)] by (auto intro!: map_cong)
  have "mset (map fst xs) = mset (map fst (filter (\<lambda>p. fst p \<notin> K) (currentWorkloads ws)))"
    using assms(2) by (metis mset_map)
  moreover have "distinct (map fst (filter (\<lambda>p. fst p \<notin> K) (currentWorkloads ws)))"
    using distinct_current by (rule distinct_map_filter)
  ultimately have "distinct (map fst xs)" by (metis mset_eq_imp_distinct_iff)
  moreover have "map opName (map (removeOp t c) (map snd xs)) = map (wl_Name \<circ> snd) xs"
    by (simp add: opName_def removeOp_def comp_def)
  then have "map opName (map (removeOp t c) (map snd xs)) = map fst xs" using names by (rule trans)
  ultimately show ?thesis using xs(2) by (simp only: set_map) auto
qed

text \<open>Validity looks at the types and data of the other workloads only, never at results.\<close>

definition same_view :: "Getter \<Rightarrow> Getter \<Rightarrow> bool" where
  "same_view g g' \<longleftrightarrow>
     (\<forall>n. rmap (\<lambda>w. wl_Type (wi_Workload w)) (getter_Get g n) = rmap (\<lambda>w. wl_Type (wi_Workload w)) (getter_Get g' n)) \<and>
     (\<forall>ts. map (\<lambda>w. wl_Data (wi_Workload w)) (getter_ByType g ts) = map (\<lambda>w. wl_Data (wi_Workload w)) (getter_ByType g' ts))"

lemma countPublicIP_cong:
  "map (\<lambda>w. wl_Data (wi_Workload w)) vms = map (\<lambda>w. wl_Data (wi_Workload w)) vms' \<Longrightarrow>
     countPublicIP L n vms = countPublicIP L n vms'"
proof (induction vms arbitrary: vms')
  case (Cons v vms)
  then obtain v' vs where "vms' = v' # vs" by (cases vms') auto
  with Cons show ?case by (auto intro!: arg_cong[where f = "rbind _"])
qed simp

lemma same_view_get:
  assumes "same_view g g'"
  shows "(\<exists>e e'. getter_Get g n = Inl e \<and> getter_Get g' n = Inl e') \<or>
     (\<exists>w w'. getter_Get g n = Inr w \<and> getter_Get g' n = Inr w' \<and>
        wl_Type (wi_Workload w) = wl_Type (wi_Workload w'))"
proof -
  have "rmap (\<lambda>w. wl_Type (wi_Workload w)) (getter_Get g n) = rmap (\<lambda>w. wl_Type (wi_Workload w)) (getter_Get g' n)"
    using assms unfolding same_view_def by blast
  then show ?thesis by (cases "getter_Get g n"; cases "getter_Get g' n") auto
qed

lemma ZMachine_Valid_view: "same_view g g' \<Longrightarrow> ZMachine_Valid L g v = ZMachine_Valid L g' v"
  using same_view_get[of g g' "mn_PublicIP (vm_Network v)"]
    countPublicIP_cong[of "getter_ByType g [ZMachineType]" "getter_ByType g' [ZMachineType]"
      L "mn_PublicIP (vm_Network v)"]
  unfolding ZMachine_Valid_def same_view_def by auto

lemma ZLogs_Valid_view: "same_view g g' \<Longrightarrow> ZLogs_Valid L g v = ZLogs_Valid L g' v"
  using same_view_get[of g g' "zl_ZMachine v"] unfolding ZLogs_Valid_def by auto

lemma Data_Valid_view: "same_view g g' \<Longrightarrow> Data_Valid L g x = Data_Valid L g' x"
  by (cases x) (simp_all add: ZMachine_Valid_view ZLogs_Valid_view)

lemma Workload_Valid_view:
  "same_view g g' \<Longrightarrow> Workload_Valid L G g w = Workload_Valid L G g' w"
  unfolding Workload_Valid_def by (metis Data_Valid_view ext)

lemma Workload_Valid_upgraded [simp]:
  "Workload_Valid L G g (upgradedWorkload m w) = Workload_Valid L G g w"
  by (simp add: Workload_Valid_def Workload_WorkloadData_def)

lemma find_map_name:
  "(\<And>w. wl_Name (f w) = wl_Name w) \<Longrightarrow>
     find (\<lambda>w. wl_Name w = n) (map f ws) = map_option f (find (\<lambda>w. wl_Name w = n) ws)"
  by (induction ws) auto

lemma collect_map_data:
  assumes "\<And>w. wl_Name (f w) = wl_Name w" and "\<And>w. wl_Data (f w) = wl_Data w"
    and "\<And>w. p (f w) = p w"
  shows "map (\<lambda>w. wl_Data (wi_Workload w)) (collectWorkloads t c p (map f ws)) =
    map (\<lambda>w. wl_Data (wi_Workload w)) (collectWorkloads t c p ws)"
  using assms by (induction ws) (auto split: sum.splits)

lemma same_view_upgraded:
  "same_view (Deployment_getter (d\<lparr>dl_Workloads := map (upgradedWorkload m) (dl_Workloads d)\<rparr>))
     (Deployment_getter d)"
proof -
  have "rmap (\<lambda>w. wl_Type (wi_Workload w))
        (Deployment_Get (d\<lparr>dl_Workloads := map (upgradedWorkload m) (dl_Workloads d)\<rparr>) n) =
      rmap (\<lambda>w. wl_Type (wi_Workload w)) (Deployment_Get d n)" for n
    by (cases "IsValidName n"; cases "find (\<lambda>w. wl_Name w = n) (dl_Workloads d)")
       (simp_all add: Deployment_Get_def find_map_name)
  moreover have "map (\<lambda>w. wl_Data (wi_Workload w))
        (Deployment_ByType (d\<lparr>dl_Workloads := map (upgradedWorkload m) (dl_Workloads d)\<rparr>) ts) =
      map (\<lambda>w. wl_Data (wi_Workload w)) (Deployment_ByType d ts)" for ts
    unfolding Deployment_ByType_def by (simp add: collect_map_data)
  ultimately show ?thesis by (simp add: same_view_def Deployment_getter_def)
qed

lemma Valid_upgraded:
  "Deployment_Valid L G (d\<lparr>dl_Workloads := map (upgradedWorkload m) (dl_Workloads d)\<rparr>) = Ok u \<longleftrightarrow>
     Deployment_Valid L G d = Ok u"
proof -
  have "map wl_Name (map (upgradedWorkload m) (dl_Workloads d)) = map wl_Name (dl_Workloads d)"
    by (simp add: comp_def)
  then show ?thesis
    unfolding Deployment_Valid_iff
    by (simp add: Workload_Valid_view[OF same_view_upgraded] del: map_map)
qed

lemma upgraded_upgraded:
  "upgradedWorkload m (upgradedWorkload m l) = upgradedWorkload m l"
  "upgradeOp t c e m (upgradedWorkload m l) = upgradeOp t c e m l"
  "upgradable e m (upgradedWorkload m l) = upgradable e m l"
  by (auto simp: upgradedWorkload_def upgradeOp_def upgradable_def Let_def split: option.splits)

subsection \<open>Sample data for the witnesses\<close>

definition sample_registry :: Registry where
  "sample_registry = \<lparr>workloadTypes = [ZMachineType, NetworkType, ZMountType, PublicIPType],
     sharableWorkloadTypes = [NetworkType]\<rparr>"

definition sample_request :: "u32 \<Rightarrow> bool \<Rightarrow> SignatureRequest" where
  "sample_request t req = \<lparr>srq_TwinID = t, srq_Required = req, srq_Weight = 1\<rparr>"

definition sample_dl :: "u32 \<Rightarrow> Workload list \<Rightarrow> Deployment" where
  "sample_dl v wls = \<lparr>dl_Version = v, dl_TwinID = 7, dl_ContractID = 9, dl_Metadata = ''m'',
     dl_Description = ''d'', dl_Expiration = 0,
     dl_SignatureRequirement = \<lparr>Requests = [sample_request 7 True], WeightRequired = 1,
       Signatures = [], SignatureStyle = []\<rparr>,
     dl_Workloads = wls\<rparr>"

definition sample_key :: bytes where
  "sample_key = replicate 32 CHR ''k''"

definition sample_signer :: Signer where
  "sample_signer = \<lparr>signer_Sign = (\<lambda>m. Ok m), signer_Type = SignatureTypeEd25519\<rparr>"

lemma sample_mount_valid:
  "n \<in> {''a'', ''b'', ''c''} \<Longrightarrow>
     Workload_Valid sample_lib sample_registry g (sample_wl ZMountType n) = Ok ()"
  by (auto simp: Workload_Valid_def Workload_WorkloadData_def WorkloadType_Valid_def IsValidName_def
      nameMatch_def name_char_def reservedNames_def sample_wl_def sample_registry_def sample_lib_def
      type_defs ZMount_Valid_def)

lemma sample_hash:
  "\<exists>h. ChallengeHash sample_lib sample_registry (sample_dl v []) = Ok h"
  by (simp add: ChallengeHash_def Deployment_Challenge_def sample_dl_def)

text \<open>The sample library with signatures that are never empty, and the sample deployment as its
  owner has signed it.\<close>

definition strict_lib :: Lib where
  "strict_lib = sample_lib\<lparr>lib_ed25519Verify := (\<lambda>k m s. s = m \<and> s \<noteq> [])\<rparr>"

definition sample_signed :: Deployment where
  "sample_signed = (case Deployment_Sign strict_lib sample_registry 7 sample_signer (sample_dl 0 []) of
     Inr d \<Rightarrow> d | Inl _ \<Rightarrow> sample_dl 0 [])"

lemma sample_challenge:
  "ChallengeHash strict_lib sample_registry (sample_dl 0 []) =
     Ok (dec 0 @ dec 7 @ ''md'' @ dec_int 0 @ dec 7 @ ''true'' @ dec 1 @ dec 1)"
  by (simp add: ChallengeHash_def Deployment_Challenge_def sample_dl_def SignatureRequirement_Challenge_def
      SignatureRequest_Challenge_def sample_request_def strict_lib_def sample_lib_def show_bool_def)

lemma sample_signing:
  "Deployment_Sign strict_lib sample_registry 7 sample_signer (sample_dl 0 []) = Ok sample_signed"
  by (simp add: sample_signed_def Deployment_Sign_def sample_challenge sample_signer_def)

lemma sample_signed_eq:
  "sample_signed = (sample_dl 0 [])\<lparr>dl_SignatureRequirement := (dl_SignatureRequirement (sample_dl 0 []))
     \<lparr>Signatures := [\<lparr>sig_TwinID = 7, sig_Signature =
        hex_encode (dec 0 @ dec 7 @ ''md'' @ dec_int 0 @ dec 7 @ ''true'' @ dec 1 @ dec 1),
        sig_SignatureType = SignatureTypeEd25519\<rparr>]\<rparr>\<rparr>"
proof -
  have "Signatures (dl_SignatureRequirement (sample_dl 0 [])) = []" by (simp add: sample_dl_def)
  then show ?thesis
    by (simp add: sample_signed_def Deployment_Sign_def sample_challenge sample_signer_def)
qed

lemma sample_signed_challenge:
  "ChallengeHash strict_lib sample_registry sample_signed = ChallengeHash strict_lib sample_registry (sample_dl 0 [])"
  unfolding sample_signed_eq by (simp add: ChallengeHash_def)

lemmas sample_signed_fields = sample_signed_eq sample_dl_def sample_request_def

lemma sample_verified:
  "Deployment_Verify strict_lib sample_registry (\<lambda>t. Ok sample_key) sample_signed = Ok ()"
  unfolding Verify_iff sample_signed_challenge sample_challenge
  by (simp add: sample_signed_fields request_ok_def getSignature_def verifyMessage_def
        SignatureStylePolka_def verifyingKey_Verify_def SignatureTypeSr25519_def
        SignatureTypeEd25519_def Ed25519VerifyingKey_Verify_def sample_key_def strict_lib_def)

text \<open>An upgrade that removes \<open>a\<close>, updates \<open>b\<close> and adds \<open>c\<close>.\<close>

definition sample_old :: "Workload list" where
  "sample_old = [sample_wl ZMountType ''a'', sample_wl ZMountType ''b'']"

definition sample_new :: "Workload list" where
  "sample_new = [(sample_wl ZMountType ''b'')\<lparr>wl_Version := 1\<rparr>, (sample_wl ZMountType ''c'')\<lparr>wl_Version := 1\<rparr>]"

lemma sample_upgrade:
  "\<exists>ops n'. Deployment_Upgrade sample_lib sample_registry (\<lambda>xs. xs) (sample_dl 0 sample_old)
     (sample_dl 1 sample_new) = Ok (ops, n')"
proof -
  have "Deployment_Valid sample_lib sample_registry (sample_dl 1 sample_new) = Ok ()"
    by (simp add: Deployment_Valid_def sample_new_def sample_dl_def sample_wl_def Workload_Valid_def
        Workload_WorkloadData_def WorkloadType_Valid_def IsValidName_def
      nameMatch_def name_char_def reservedNames_def sample_registry_def sample_lib_def
      type_defs ZMount_Valid_def)
  then show ?thesis
    by (simp add: Deployment_Upgrade_def)
       (simp add: sample_dl_def sample_old_def sample_new_def sample_wl_def NewWorkloadID_def Let_def
        currentWorkloads_def IsValidName_def nameMatch_def name_char_def reservedNames_def)
qed

subsection \<open>Claims\<close>

text \<open>C22: a deployment is valid exactly when its workload names are distinct and every workload is
  valid inside the deployment and no newer than it.\<close>

theorem deployment_valid_exact:
  "Deployment_Valid L G d = Ok () \<longleftrightarrow>
     distinct (map wl_Name (dl_Workloads d)) \<and>
     (\<forall>wl \<in> set (dl_Workloads d). wl_Version wl \<le> dl_Version d \<and>
        IsValidName (wl_Name wl) = Ok () \<and> wl_Type wl \<in> set (workloadTypes G) \<and>
        (\<exists>data. lib_unmarshal L (wl_Type wl) (wl_Data wl) = Ok data \<and>
           Data_Valid L (Deployment_getter d) data = Ok ()))"
  by (auto simp: Deployment_Valid_iff Workload_Valid_def Workload_WorkloadData_def
      WorkloadType_Valid_def rbind_Ok_iff)

theorem deployment_valid_exact_witness:
  "Deployment_Valid sample_lib sample_registry (sample_dl 0 [sample_wl ZMountType ''a'']) = Ok ()"
  unfolding deployment_valid_exact
  by (simp add: sample_dl_def sample_wl_def sample_lib_def sample_registry_def type_defs
      ZMount_Valid_def IsValidName_def nameMatch_def name_char_def reservedNames_def)

text \<open>The hash that is signed and put in the contract does not depend on the contract id, on
  the attached signatures or on the results the node writes, so it can be computed before the
  contract exists and stays the same while the deployment runs.\<close>

lemma challenge_hash_stable:
  "ChallengeHash L G (d\<lparr>dl_ContractID := c,
      dl_SignatureRequirement := (dl_SignatureRequirement d)\<lparr>Signatures := sigs\<rparr>,
      dl_Workloads := map (\<lambda>w. w\<lparr>wl_Result := res w\<rparr>) (dl_Workloads d)\<rparr>) = ChallengeHash L G d"
  by (simp add: ChallengeHash_def Deployment_Challenge_def SignatureRequirement_Challenge_def
      rconcat_map)

text \<open>The challenge does not separate its fields: moving text from the end of the metadata to
  the front of the description keeps the hash, so a signature and a contract hash bind the
  concatenation of the two and not each of them.\<close>

lemma challenge_fields_not_separated:
  "ChallengeHash L G (d\<lparr>dl_Metadata := a @ b, dl_Description := c\<rparr>) =
   ChallengeHash L G (d\<lparr>dl_Metadata := a, dl_Description := b @ c\<rparr>)"
  by (simp add: ChallengeHash_def Deployment_Challenge_def)

text \<open>C23: a deployment that verifies was signed by the twin that owns it: there is a signature of
  the originator that its public key accepts for the challenge hash (wrapped in tags in the
  polka-wallet style), and the weights of the requests (summed in 64 bits) reach the
  required weight.\<close>

theorem verify_originator_signed:
  assumes "Deployment_Verify L G getKey d = Ok u"
  shows "\<exists>h sg pk bs. ChallengeHash L G d = Ok h \<and>
    getSignature (dl_SignatureRequirement d) (dl_TwinID d) = Some sg \<and>
    getKey (dl_TwinID d) = Ok pk \<and> hex_decode (sig_Signature sg) = Ok bs \<and>
    verifyingKey_Verify L (sig_SignatureType sg) pk
      (verifyMessage (dl_SignatureRequirement d) h) bs = Ok True \<and>
    WeightRequired (dl_SignatureRequirement d)
      \<le> sum_list (map srq_Weight (Requests (dl_SignatureRequirement d)))"
proof -
  from assms obtain h r where h: "ChallengeHash L G d = Ok h"
    and r: "r \<in> set (Requests (dl_SignatureRequirement d))" "dl_TwinID d = srq_TwinID r"
    and all: "\<forall>r \<in> set (Requests (dl_SignatureRequirement d)).
      request_ok L getKey d (verifyMessage (dl_SignatureRequirement d) h) r"
    and w: "WeightRequired (dl_SignatureRequirement d)
      \<le> sum_list (map srq_Weight (Requests (dl_SignatureRequirement d)))"
    unfolding Verify_iff by blast
  from all r(1) have "request_ok L getKey d (verifyMessage (dl_SignatureRequirement d) h) r" by blast
  with h w r(2) show ?thesis unfolding request_ok_def by metis
qed

theorem verify_originator_signed_witness:
  "\<exists>sg. getSignature (dl_SignatureRequirement sample_signed) (dl_TwinID sample_signed) = Some sg"
  using verify_originator_signed[OF sample_verified] by blast

text \<open>Every signature request must be answered. Although a request can be marked as not
  required, a deployment in which the twin of some request did not sign never verifies: the
  code goes on to verify an empty signature, which ed25519 rejects. The documented example
  (twin 3 and one of twins 1 and 2) is therefore refused.\<close>

lemma verify_needs_every_signature:
  assumes rejects_empty: "\<And>k m. \<not> lib_ed25519Verify L k m []"
    and "Deployment_Verify L G getKey d = Ok u"
    and "r \<in> set (Requests (dl_SignatureRequirement d))"
  shows "getSignature (dl_SignatureRequirement d) (srq_TwinID r) \<noteq> None"
proof -
  from assms(2,3) obtain m where "request_ok L getKey d m r" unfolding Verify_iff by blast
  moreover have "verifyingKey_Verify L (sig_SignatureType noSignature) pk m [] \<noteq> Ok True" for pk
    using rejects_empty
    by (simp add: noSignature_def verifyingKey_Verify_def SignatureTypeSr25519_def
        Ed25519VerifyingKey_Verify_def)
  ultimately show ?thesis by (auto simp: request_ok_def noSignature_def)
qed

lemma verify_needs_every_signature_witness:
  "getSignature (dl_SignatureRequirement sample_signed) (srq_TwinID (sample_request 7 True)) \<noteq> None"
proof (rule verify_needs_every_signature[OF _ sample_verified])
  show "sample_request 7 True \<in> set (Requests (dl_SignatureRequirement sample_signed))"
    by (simp add: sample_signed_fields)
qed (simp add: strict_lib_def)

text \<open>C30: signing supplies the last signature. The twin has not signed yet, its key accepts what its
  signer produces, every request of another twin is already answered, and the signature style is
  the default one. Then the deployment that \<open>Sign\<close> returns verifies exactly when the twin that owns it
  is among the requests and the weights of the requests, summed in 64 bits, reach the required weight.\<close>

theorem sign_then_verify:
  assumes "Deployment_Sign L G twin sk d = Ok d'"
    and "ChallengeHash L G d = Ok h"
    and "SignatureStyle (dl_SignatureRequirement d) \<noteq> SignatureStylePolka"
    and "getSignature (dl_SignatureRequirement d) twin = None"
    and "\<forall>r \<in> set (Requests (dl_SignatureRequirement d)).
      srq_TwinID r \<noteq> twin \<longrightarrow> request_ok L getKey d h r"
    and "getKey twin = Ok pk"
    and "\<And>bs. signer_Sign sk h = Ok bs \<Longrightarrow> verifyingKey_Verify L (signer_Type sk) pk h bs = Ok True"
  shows "Deployment_Verify L G getKey d' = Ok () \<longleftrightarrow>
    dl_TwinID d \<in> srq_TwinID ` set (Requests (dl_SignatureRequirement d)) \<and>
    WeightRequired (dl_SignatureRequirement d) \<le> sum_list (map srq_Weight (Requests (dl_SignatureRequirement d)))"
proof -
  from assms(1,2) obtain bs where bs: "signer_Sign sk h = Ok bs"
    and d': "d' = d\<lparr>dl_SignatureRequirement := (dl_SignatureRequirement d)\<lparr>Signatures :=
      putSignature twin (hex_encode bs) (signer_Type sk) (Signatures (dl_SignatureRequirement d))\<rparr>\<rparr>"
    by (auto simp: Deployment_Sign_def rbind_Ok_iff)
  have sig: "getSignature (dl_SignatureRequirement d') t = (if t = twin
      then Some \<lparr>sig_TwinID = twin, sig_Signature = hex_encode bs, sig_SignatureType = signer_Type sk\<rparr>
      else getSignature (dl_SignatureRequirement d) t)" for t
    using assms(4) by (simp add: d' getSignature_def getSignature_put)
  have "request_ok L getKey d' h r" if r: "r \<in> set (Requests (dl_SignatureRequirement d))" for r
  proof (cases "srq_TwinID r = twin")
    case True
    with assms(6,7) bs show ?thesis by (simp add: request_ok_def sig)
  next
    case False
    with assms(5) r have "request_ok L getKey d h r" by blast
    with False show ?thesis by (simp add: request_ok_def sig) (simp add: d')
  qed
  moreover have "ChallengeHash L G d' = Ok h"
    using assms(2) by (simp add: d' ChallengeHash_def)
  ultimately show ?thesis
    using assms(3) by (simp add: Verify_iff d' verifyMessage_def)
qed

theorem sign_then_verify_witness:
  "Deployment_Verify strict_lib sample_registry (\<lambda>t. Ok sample_key) sample_signed = Ok () \<and>
   dl_TwinID (sample_dl 0 []) \<in> srq_TwinID ` set (Requests (dl_SignatureRequirement (sample_dl 0 [])))"
proof -
  have "Deployment_Verify strict_lib sample_registry (\<lambda>t. Ok sample_key) sample_signed = Ok () \<longleftrightarrow>
      dl_TwinID (sample_dl 0 []) \<in> srq_TwinID ` set (Requests (dl_SignatureRequirement (sample_dl 0 []))) \<and>
      WeightRequired (dl_SignatureRequirement (sample_dl 0 []))
        \<le> sum_list (map srq_Weight (Requests (dl_SignatureRequirement (sample_dl 0 []))))"
    by (rule sign_then_verify[OF sample_signing sample_challenge, where pk = sample_key])
     (simp_all add: sample_dl_def sample_request_def SignatureStylePolka_def getSignature_def sample_signer_def
        SignatureTypeEd25519_def verifyingKey_Verify_def SignatureTypeSr25519_def
        Ed25519VerifyingKey_Verify_def sample_key_def strict_lib_def)
  then show ?thesis by (simp add: sample_dl_def sample_request_def)
qed

text \<open>Signing again replaces the signature of a twin and keeps its recorded type. When the twin
  signs with a key of another type, the new signature is stored under the old type and is
  verified with the wrong scheme.\<close>

theorem resign_keeps_type:
  assumes "Deployment_Sign L G twin sk d = Ok d'"
    and "getSignature (dl_SignatureRequirement d) twin = Some old"
  shows "\<exists>s. getSignature (dl_SignatureRequirement d') twin = Some (old\<lparr>sig_Signature := s\<rparr>)"
  using assms by (auto simp: Deployment_Sign_def rbind_Ok_iff getSignature_def getSignature_put)

theorem resign_keeps_type_witness:
  "\<exists>d' s. Deployment_Sign strict_lib sample_registry 7 (sample_signer\<lparr>signer_Type := SignatureTypeSr25519\<rparr>)
      sample_signed = Ok d' \<and>
    getSignature (dl_SignatureRequirement d') 7 =
      Some \<lparr>sig_TwinID = 7, sig_Signature = s, sig_SignatureType = SignatureTypeEd25519\<rparr>"
proof -
  let ?sk = "sample_signer\<lparr>signer_Type := SignatureTypeSr25519\<rparr>"
  obtain d' where d': "Deployment_Sign strict_lib sample_registry 7 ?sk sample_signed = Ok d'"
    by (simp add: Deployment_Sign_def sample_signed_challenge sample_challenge sample_signer_def)
  obtain s where "getSignature (dl_SignatureRequirement sample_signed) 7 =
      Some \<lparr>sig_TwinID = 7, sig_Signature = s, sig_SignatureType = SignatureTypeEd25519\<rparr>"
    by (simp add: sample_signed_eq getSignature_def)
  from resign_keeps_type[OF d' this] d' show ?thesis by auto
qed

text \<open>C29: the operations of an upgrade are exactly the difference of the two versions, for a current
  deployment whose workloads have different names (as those of a valid one do): additions
  are the new names, removals the names that are gone, updates the names in both whose
  version is the new one; no name occurs in two operations, and the
  workloads that stay get the result of the current version.\<close>

theorem upgrade_exact:
  assumes "Deployment_Upgrade L G ord d n = Ok (ops, n')"
    and "distinct (map wl_Name (dl_Workloads d))"
    and "\<And>xs. mset (ord xs) = mset xs"
  shows "opNames OpAdd ops = wl_Name ` set (dl_Workloads n) - wl_Name ` set (dl_Workloads d) \<and>
    opNames OpRemove ops = wl_Name ` set (dl_Workloads d) - wl_Name ` set (dl_Workloads n) \<and>
    opNames OpUpdate ops = wl_Name ` {l \<in> set (dl_Workloads n). wl_Version l = dl_Version n}
      \<inter> wl_Name ` set (dl_Workloads d) \<and>
    distinct (map opName ops) \<and>
    dl_Workloads n' = map (\<lambda>l. case find (\<lambda>w. wl_Name w = wl_Name l) (dl_Workloads d) of
       None \<Rightarrow> l | Some older \<Rightarrow> l\<lparr>wl_Result := wl_Result older\<rparr>) (dl_Workloads n)"
proof -
  let ?m = "map_of (currentWorkloads (dl_Workloads d))"
  note up = Upgrade_iff[OF assms(1)]
  have m: "?m k = find (\<lambda>w. wl_Name w = k) (dl_Workloads d)" for k
    using assms(2) by (rule map_of_current)
  have m_None: "?m k = None \<longleftrightarrow> k \<notin> wl_Name ` set (dl_Workloads d)" for k
    by (auto simp: m find_None_iff image_iff)
  let ?left = "fold AList.delete (map wl_Name (dl_Workloads n)) (currentWorkloads (dl_Workloads d))"
  have "set (ord ?left) = set ?left" using assms(3)[of ?left] by (metis set_mset_mset)
  then have "wl_Name ` snd ` set (ord ?left) = wl_Name ` set (dl_Workloads d) - wl_Name ` set (dl_Workloads n)"
    by (auto simp: delete_fold_filter set_current[OF assms(2)] image_iff)
  then have left: "wl_Name ` set (map snd (ord ?left)) =
      wl_Name ` set (dl_Workloads d) - wl_Name ` set (dl_Workloads n)" by simp
  have "opNames OpAdd ops = wl_Name ` set (dl_Workloads n) - wl_Name ` set (dl_Workloads d)"
    and "opNames OpRemove ops = wl_Name ` set (dl_Workloads d) - wl_Name ` set (dl_Workloads n)"
    and "opNames OpUpdate ops = wl_Name ` {l \<in> set (dl_Workloads n). wl_Version l = dl_Version n}
      \<inter> wl_Name ` set (dl_Workloads d)"
    unfolding up(6) opNames_append opNames_removes opNames_upgrades left m_None
    by (auto simp: image_iff)
  moreover have "dl_Workloads n' = map (\<lambda>l. case find (\<lambda>w. wl_Name w = wl_Name l) (dl_Workloads d) of
       None \<Rightarrow> l | Some older \<Rightarrow> l\<lparr>wl_Result := wl_Result older\<rparr>) (dl_Workloads n)"
    by (simp add: up(7) m upgradedWorkload_def)
  moreover have "distinct (map opName ops)"
  proof -
    have "distinct (map wl_Name (dl_Workloads n))" using up(1) by (simp add: Deployment_Valid_iff)
    note new = upgrade_names_once[OF this, of "dl_TwinID n" "dl_ContractID n" "dl_Version n" ?m]
    have "mset (ord ?left) = mset (filter (\<lambda>p. fst p \<notin> wl_Name ` set (dl_Workloads n)) (currentWorkloads (dl_Workloads d)))"
      using assms(3) by (simp add: delete_fold_filter)
    note gone = remove_names_once[OF assms(2) this, of "dl_TwinID d" "dl_ContractID d"]
    show ?thesis unfolding up(6) map_append distinct_append using new gone by blast
  qed
  ultimately show ?thesis by blast
qed

theorem upgrade_exact_witness:
  "\<exists>ops n'. Deployment_Upgrade sample_lib sample_registry (\<lambda>xs. xs) (sample_dl 0 sample_old) (sample_dl 1 sample_new)
      = Ok (ops, n') \<and> opNames OpAdd ops = {''c''} \<and> opNames OpRemove ops = {''a''} \<and> opNames OpUpdate ops = {''b''}"
proof -
  obtain ops n' where up: "Deployment_Upgrade sample_lib sample_registry (\<lambda>xs. xs) (sample_dl 0 sample_old)
     (sample_dl 1 sample_new) = Ok (ops, n')" using sample_upgrade by blast
  have "distinct (map wl_Name (dl_Workloads (sample_dl 0 sample_old)))"
    by (simp add: sample_dl_def sample_old_def sample_wl_def)
  note exact = upgrade_exact[OF up this refl]
  have names: "wl_Name ` set (dl_Workloads (sample_dl 0 sample_old)) = {''a'', ''b''}"
    "wl_Name ` set (dl_Workloads (sample_dl 1 sample_new)) = {''b'', ''c''}"
    "wl_Name ` {l \<in> set (dl_Workloads (sample_dl 1 sample_new)).
        wl_Version l = dl_Version (sample_dl 1 sample_new)} = {''c'', ''b''}"
    by (simp_all add: sample_dl_def sample_old_def sample_new_def sample_wl_def conj_disj_distribR
        Collect_disj_eq cong: conj_cong)
  have "opNames OpAdd ops = {''c''}" and "opNames OpRemove ops = {''a''}" and "opNames OpUpdate ops = {''b''}"
    using exact unfolding names by auto
  with up show ?thesis by blast
qed

text \<open>Computing an upgrade is repeatable. The engine computes it once to accept an update and
  again when the queued job runs, on the deployment the first call has already changed; the
  second call yields the same operations and the same deployment.\<close>

theorem upgrade_repeatable:
  assumes "Deployment_Upgrade L G ord d n = Ok (ops, n')"
  shows "Deployment_Upgrade L G ord d n' = Ok (ops, n')"
proof -
  let ?m = "map_of (currentWorkloads (dl_Workloads d))"
  let ?ls = "map (upgradedWorkload ?m) (dl_Workloads n)"
  note up = Upgrade_iff[OF assms]
  have names: "map wl_Name ?ls = map wl_Name (dl_Workloads n)" by simp
  from up(1) have distinct: "distinct (map wl_Name (dl_Workloads n))" by (simp add: Deployment_Valid_iff)
  have "\<forall>l \<in> set (dl_Workloads n). upgradable (dl_Version n) ?m l"
    using up(5) upgradeWorkloads_iff[OF distinct] by metis
  then have ok: "\<forall>l \<in> set ?ls. upgradable (dl_Version n) ?m l"
    by (simp add: upgraded_upgraded)
  have "distinct (map wl_Name ?ls)" using names distinct by metis
  note again = upgradeWorkloads_iff[OF this, THEN iffD2, OF conjI, OF ok conjI, OF refl conjI, OF refl refl]
  have "upgradeWorkloads (dl_TwinID n) (dl_ContractID n) (dl_Version n)
       (currentWorkloads (dl_Workloads d)) ?ls =
     Ok (concat (map (upgradeOp (dl_TwinID n) (dl_ContractID n) (dl_Version n) ?m) (dl_Workloads n)),
         fold AList.delete (map wl_Name (dl_Workloads n)) (currentWorkloads (dl_Workloads d)), ?ls)"
    using again[of "dl_TwinID n" "dl_ContractID n"] by (simp add: comp_def upgraded_upgraded)
  with up Valid_upgraded[where L = L and G = G and d = n and m = "?m" and u = "()"] show ?thesis
    by (simp add: Deployment_Upgrade_def)
qed

theorem upgrade_repeatable_witness:
  "\<exists>r. Deployment_Upgrade sample_lib sample_registry (\<lambda>xs. xs) (sample_dl 0 sample_old) (sample_dl 1 sample_new)
      = Ok r \<and>
    Deployment_Upgrade sample_lib sample_registry (\<lambda>xs. xs) (sample_dl 0 sample_old) (snd r) = Ok r"
proof -
  obtain ops n' where up: "Deployment_Upgrade sample_lib sample_registry (\<lambda>xs. xs) (sample_dl 0 sample_old)
     (sample_dl 1 sample_new) = Ok (ops, n')" using sample_upgrade by blast
  from upgrade_repeatable[OF up] up show ?thesis by auto
qed

end
