(* ===== verification/BoltStorage.thy ===== *)
theory BoltStorage
  imports Bolt Deployments
begin

text \<open>
  The storage of deployments, \<open>pkg/provision/storage/storage.go\<close>: one bucket per twin, in
  it one bucket per contract and the bucket \<open>global\<close> of the shared workload names, in a
  contract its fields, the bucket \<open>workloads\<close> of the active workloads with their types, and
  the bucket \<open>transactions\<close>, an append-only log of workload results. Operations are
  functions of a transaction of the database; an error stands for a rolled back
  transaction.
\<close>

section \<open>The storage\<close>

text \<open>
  \<open>encoding/json\<close> on the two types that are stored. What \<open>Unmarshal\<close> reads back is the value
  that was marshalled up to the layout of the raw \<open>data\<close> fields.
\<close>

record Json =
  marshalWorkload :: "Workload \<Rightarrow> bytes result"
  unmarshalWorkload :: "bytes \<Rightarrow> Workload result"
  marshalSignatureRequirement :: "SignatureRequirement \<Rightarrow> bytes result"
  unmarshalSignatureRequirement :: "bytes \<Rightarrow> SignatureRequirement result"

text \<open>The structure \<open>BoltStorage\<close>: the database and the flag of the migration storage, with the
  package level state it uses: the registry of types and the JSON codec.\<close>

record 'tx BoltStorage =
  bs_db :: "'tx Bolt"
  bs_unsafe :: bool
  bs_registry :: Registry
  bs_json :: Json

definition Storage_Migration :: "'tx BoltStorage \<Rightarrow> 'tx BoltStorage" where
  "Storage_Migration b = b\<lparr>bs_unsafe := True\<rparr>"

definition keyVersion :: bytes where "keyVersion = ''version''"
definition keyMetadata :: bytes where "keyMetadata = ''metadata''"
definition keyDescription :: bytes where "keyDescription = ''description''"
definition keySignatureRequirement :: bytes where "keySignatureRequirement = ''signature_requirement''"
definition keyWorkloads :: bytes where "keyWorkloads = ''workloads''"
definition keyTransactions :: bytes where "keyTransactions = ''transactions''"
definition keyGlobal :: bytes where "keyGlobal = ''global''"

lemmas key_defs = keyVersion_def keyMetadata_def keyDescription_def keySignatureRequirement_def
  keyWorkloads_def keyTransactions_def keyGlobal_def

abbreviation twinPath :: "u32 \<Rightarrow> path" where "twinPath t \<equiv> [Storage_u32 t]"
abbreviation dlPath :: "u32 \<Rightarrow> u64 \<Rightarrow> path" where "dlPath t d \<equiv> [Storage_u32 t, Storage_u64 d]"
abbreviation globalPath :: "u32 \<Rightarrow> path" where "globalPath t \<equiv> [Storage_u32 t, keyGlobal]"
abbreviation wlPath :: "u32 \<Rightarrow> u64 \<Rightarrow> path" where
  "wlPath t d \<equiv> [Storage_u32 t, Storage_u64 d, keyWorkloads]"
abbreviation logPath :: "u32 \<Rightarrow> u64 \<Rightarrow> path" where
  "logPath t d \<equiv> [Storage_u32 t, Storage_u64 d, keyTransactions]"

text \<open>The opening of a deployment's bucket, which most operations share.\<close>

definition openDeployment :: "'tx BoltStorage \<Rightarrow> u32 \<Rightarrow> u64 \<Rightarrow> 'tx \<Rightarrow> unit result" where
  "openDeployment b twin dl s =
     (if \<not> boltBucket (bs_db b) (twinPath twin) s then
        Err (Wrap ''twin not found'' ErrDeploymentNotExists)
      else if \<not> boltBucket (bs_db b) (dlPath twin dl) s then
        Err (Wrap ''deployment not found'' ErrDeploymentNotExists)
      else Ok ())"

subsection \<open>Writing\<close>

definition storage_transaction ::
    "'tx BoltStorage \<Rightarrow> u32 \<Rightarrow> u64 \<Rightarrow> Workload \<Rightarrow> 'tx \<Rightarrow> 'tx result" where
  "storage_transaction b twin dl workload s =
     rbind (rwrap ''failed to validate workload result'' (Result_Valid (wl_Result workload))) (\<lambda>_.
     rbind (rwrap ''failed to encode workload data'' (marshalWorkload (bs_json b) workload)) (\<lambda>data.
     rbind (openDeployment b twin dl s) (\<lambda>_.
     if \<not> boltBucket (bs_db b) (wlPath twin dl) s then
       Err (Wrap ''deployment has no active workloads'' ErrWorkloadNotExist)
     else case boltGet (bs_db b) (wlPath twin dl) (wl_Name workload) s of
       None \<Rightarrow> Err (Wrap ''workload does not exist'' ErrWorkloadNotExist)
     | Some typRaw \<Rightarrow>
         if wl_Type workload \<noteq> typRaw then
           Err (Wrap (''invalid workload type, expecting '' @ squote typRaw) ErrInvalidWorkloadType)
         else
           rbind (rwrap ''failed to prepare deployment transaction logs''
             (boltCreateBucketIfNotExists (bs_db b) (dlPath twin dl) keyTransactions s)) (\<lambda>s.
           rbind (boltNextSequence (bs_db b) (logPath twin dl) s) (\<lambda>(s, id).
           boltPut (bs_db b) (logPath twin dl) (Storage_u64 id) data s)))))"

definition Storage_Transaction ::
    "'tx BoltStorage \<Rightarrow> u32 \<Rightarrow> u64 \<Rightarrow> Workload \<Rightarrow> 'tx \<Rightarrow> 'tx result" where
  "Storage_Transaction b twin deployment workload s = storage_transaction b twin deployment workload s"

text \<open>\<open>add\<close> in two halves: the shared name, and the rest. \<open>now\<close> is the clock reading of the
  call.\<close>

definition addGlobal :: "'tx BoltStorage \<Rightarrow> u32 \<Rightarrow> u64 \<Rightarrow> Workload \<Rightarrow> 'tx \<Rightarrow> 'tx result" where
  "addGlobal b twin dl workload s =
     (if IsSharable (bs_registry b) (wl_Type workload) then
        rbind (rwrap ''failed to create twin global bucket''
          (boltCreateBucketIfNotExists (bs_db b) (twinPath twin) keyGlobal s)) (\<lambda>s.
        if \<not> bs_unsafe b \<and> boltGet (bs_db b) (globalPath twin) (wl_Name workload) s \<noteq> None then
          Err (Wrap (''global workload with the same name '' @ squote (wl_Name workload) @ '' exists'')
            ErrDeploymentConflict)
        else boltPut (bs_db b) (globalPath twin) (wl_Name workload) (Storage_u64 dl) s)
      else Ok s)"

definition initResult :: "timestamp \<Rightarrow> Result" where
  "initResult now = noResult\<lparr>Created := now, State := StateInit\<rparr>"

definition storage_add ::
    "'tx BoltStorage \<Rightarrow> timestamp \<Rightarrow> u32 \<Rightarrow> u64 \<Rightarrow> Workload \<Rightarrow> 'tx \<Rightarrow> 'tx result" where
  "storage_add b now twin dl workload s =
     (if \<not> boltBucket (bs_db b) (twinPath twin) s then
        Err (Wrap ''twin not found'' ErrDeploymentNotExists)
      else
        rbind (addGlobal b twin dl workload s) (\<lambda>s.
        if \<not> boltBucket (bs_db b) (dlPath twin dl) s then
          Err (Wrap ''deployment not found'' ErrDeploymentNotExists)
        else
          rbind (rwrap ''failed to prepare workloads storage''
            (boltCreateBucketIfNotExists (bs_db b) (dlPath twin dl) keyWorkloads s)) (\<lambda>s.
          if boltGet (bs_db b) (wlPath twin dl) (wl_Name workload) s \<noteq> None then
            Err (Wrap ''workload with same name already exists in deployment'' ErrWorkloadExists)
          else
            rbind (boltPut (bs_db b) (wlPath twin dl) (wl_Name workload) (wl_Type workload) s)
              (storage_transaction b twin dl (WithResults workload (initResult now))))))"

definition Storage_Add ::
    "'tx BoltStorage \<Rightarrow> timestamp \<Rightarrow> u32 \<Rightarrow> u64 \<Rightarrow> Workload \<Rightarrow> 'tx \<Rightarrow> 'tx result" where
  "Storage_Add b now twin deployment workload s = storage_add b now twin deployment workload s"

text \<open>The clock is read once per workload: \<open>now i\<close> is the reading for the \<open>i\<close>-th.\<close>

definition Storage_Create ::
    "'tx BoltStorage \<Rightarrow> (nat \<Rightarrow> timestamp) \<Rightarrow> Deployment \<Rightarrow> 'tx \<Rightarrow> 'tx result" where
  "Storage_Create b now deployment s =
     (let twin = dl_TwinID deployment; dl = dl_ContractID deployment; path = dlPath twin dl in
      rbind (rwrap ''failed to create twin''
        (boltCreateBucketIfNotExists (bs_db b) [] (Storage_u32 twin) s)) (\<lambda>s.
      rbind (case boltCreateBucket (bs_db b) (twinPath twin) (Storage_u64 dl) s of
          Inl e \<Rightarrow> if err_is e ErrBucketExists then Err ErrDeploymentExists
            else Err (Wrap ''failed to create deployment'' e)
        | Inr s \<Rightarrow> Ok s) (\<lambda>s.
      rbind (boltPut (bs_db b) path keyVersion (Storage_u32 (dl_Version deployment)) s) (\<lambda>s.
      rbind (boltPut (bs_db b) path keyDescription (dl_Description deployment) s) (\<lambda>s.
      rbind (boltPut (bs_db b) path keyMetadata (dl_Metadata deployment) s) (\<lambda>s.
      rbind (rwrap ''failed to encode signature requirement''
        (marshalSignatureRequirement (bs_json b) (dl_SignatureRequirement deployment))) (\<lambda>sig.
      rbind (boltPut (bs_db b) path keySignatureRequirement sig s) (\<lambda>s.
      rfold (\<lambda>(i, wl). storage_add b (now i) twin dl wl)
        (enumerate 0 (dl_Workloads deployment)) s))))))))"

datatype Field = VersionField u32 | DescriptionField string | MetadataField string
  | SignatureRequirementField SignatureRequirement

fun fieldPair :: "Json \<Rightarrow> Field \<Rightarrow> (bytes \<times> bytes) result" where
  "fieldPair J (VersionField v) = Ok (keyVersion, Storage_u32 v)"
| "fieldPair J (MetadataField m) = Ok (keyMetadata, m)"
| "fieldPair J (DescriptionField d) = Ok (keyDescription, d)"
| "fieldPair J (SignatureRequirementField r) =
     rbind (rwrap ''failed to serialize signature requirements'' (marshalSignatureRequirement J r))
       (\<lambda>v. Ok (keySignatureRequirement, v))"

definition Storage_Update ::
    "'tx BoltStorage \<Rightarrow> u32 \<Rightarrow> u64 \<Rightarrow> Field list \<Rightarrow> 'tx \<Rightarrow> 'tx result" where
  "Storage_Update b twin deployment flds s =
     rbind (openDeployment b twin deployment s) (\<lambda>_.
     rfold (\<lambda>f s. rbind (fieldPair (bs_json b) f) (\<lambda>(key, value).
       rwrap ''failed to update deployment''
         (boltPut (bs_db b) (dlPath twin deployment) key value s))) flds s)"

definition Storage_Remove :: "'tx BoltStorage \<Rightarrow> u32 \<Rightarrow> u64 \<Rightarrow> Name \<Rightarrow> 'tx \<Rightarrow> 'tx result" where
  "Storage_Remove b twin deployment name s =
     (if \<not> boltBucket (bs_db b) (twinPath twin) s then Ok s
      else if \<not> boltBucket (bs_db b) (dlPath twin deployment) s then Ok s
      else if \<not> boltBucket (bs_db b) (wlPath twin deployment) s then Ok s
      else case boltGet (bs_db b) (wlPath twin deployment) name s of
        None \<Rightarrow> Ok s
      | Some typ \<Rightarrow>
          rbind (if IsSharable (bs_registry b) typ \<and> boltBucket (bs_db b) (globalPath twin) s
                 then boltDelete (bs_db b) (globalPath twin) name s else Ok s) (\<lambda>s.
          boltDelete (bs_db b) (wlPath twin deployment) name s))"

text \<open>A key of a twin's bucket that is a deployment: a nested bucket with a key of 8 bytes.\<close>

definition isDeploymentKey :: "bytes \<times> Value option \<Rightarrow> bool" where
  "isDeploymentKey kv = (case kv of (k, v) \<Rightarrow> v = None \<and> \<not> (length k \<noteq> 8 \<or> k = keyGlobal))"

definition Storage_Delete :: "'tx BoltStorage \<Rightarrow> u32 \<Rightarrow> u64 \<Rightarrow> 'tx \<Rightarrow> 'tx result" where
  "Storage_Delete b twin deployment s =
     (if \<not> boltBucket (bs_db b) (twinPath twin) s then Ok s
      else
        rbind (case boltDeleteBucket (bs_db b) (twinPath twin) (Storage_u64 deployment) s of
            Inl e \<Rightarrow> if err_is e ErrBucketNotFound then Ok s else Err e
          | Inr s \<Rightarrow> Ok s) (\<lambda>s.
        if list_ex isDeploymentKey (boltCursor (bs_db b) (twinPath twin) s) then Ok s
        else boltDeleteBucket (bs_db b) [] (Storage_u32 twin) s))"

subsection \<open>Reading\<close>

text \<open>The value of a cursor's pair; the nil of a bucket reads as the empty slice.\<close>

definition cursorValue :: "bytes \<times> Value option \<Rightarrow> bytes" where
  "cursorValue kv = (case snd kv of None \<Rightarrow> [] | Some v \<Rightarrow> v)"

definition storage_changes :: "'tx BoltStorage \<Rightarrow> u32 \<Rightarrow> u64 \<Rightarrow> 'tx \<Rightarrow> Workload list result" where
  "storage_changes b twin dl s =
     rbind (openDeployment b twin dl s) (\<lambda>_.
     if \<not> boltBucket (bs_db b) (logPath twin dl) s then Ok []
     else rlist (\<lambda>v. rwrap ''failed to load transaction log'' (unmarshalWorkload (bs_json b) v))
       (filter (\<lambda>v. v \<noteq> []) (map cursorValue (boltCursor (bs_db b) (logPath twin dl) s))))"

definition Storage_Changes :: "'tx BoltStorage \<Rightarrow> u32 \<Rightarrow> u64 \<Rightarrow> 'tx \<Rightarrow> Workload list result" where
  "Storage_Changes b twin deployment s = storage_changes b twin deployment s"

text \<open>The log is read from its last record; the newest record of a name that is not
  \<open>unchanged\<close> is its state. \<open>workloads\<close> fills a map (an association list) with the state of
  every active name and stops once it has all of them.\<close>

fun workloadsScan ::
    "Json \<Rightarrow> (Name \<times> WorkloadType) list \<Rightarrow> (Name \<times> Workload) list \<Rightarrow> bytes list
     \<Rightarrow> (Name \<times> Workload) list result" where
  "workloadsScan J names workloads [] = Ok workloads"
| "workloadsScan J names workloads (v # vs) =
     rbind (rwrap ''error while scanning transcation logs'' (unmarshalWorkload J v)) (\<lambda>workload.
     if map_of workloads (wl_Name workload) \<noteq> None then workloadsScan J names workloads vs
     else case map_of names (wl_Name workload) of
       None \<Rightarrow> workloadsScan J names workloads vs
     | Some typ \<Rightarrow>
         if wl_Type workload \<noteq> typ then
           Err (Errorf ''database inconsistency wrong workload type'')
         else if State (wl_Result workload) = StateUnChanged then workloadsScan J names workloads vs
         else let workloads = (wl_Name workload, workload) # workloads in
           if length workloads = length names then Ok workloads
           else workloadsScan J names workloads vs)"

text \<open>The result of \<open>workloads\<close> is in the order of a Go map iteration, given by \<open>ord\<close>.\<close>

definition storage_workloads ::
    "'tx BoltStorage \<Rightarrow> (Workload list \<Rightarrow> Workload list) \<Rightarrow> u32 \<Rightarrow> u64 \<Rightarrow> 'tx
     \<Rightarrow> Workload list result" where
  "storage_workloads b ord twin deployment s =
     rbind (openDeployment b twin deployment s) (\<lambda>_.
     let names = (if boltBucket (bs_db b) (wlPath twin deployment) s
           then map (\<lambda>kv. (fst kv, cursorValue kv)) (boltCursor (bs_db b) (wlPath twin deployment) s)
           else []) in
     rbind (if names = [] then Ok []
            else if \<not> boltBucket (bs_db b) (logPath twin deployment) s then Ok []
            else workloadsScan (bs_json b) names []
              (rev (map cursorValue (boltCursor (bs_db b) (logPath twin deployment) s)))) (\<lambda>workloads.
     if length workloads \<noteq> length names then
       Err (Errorf ''inconsistency in deployment, missing workload transactions'')
     else Ok (ord (map snd workloads))))"

definition Storage_Get ::
    "'tx BoltStorage \<Rightarrow> (Workload list \<Rightarrow> Workload list) \<Rightarrow> u32 \<Rightarrow> u64 \<Rightarrow> 'tx \<Rightarrow> Deployment result" where
  "Storage_Get b ord twin deployment s =
     (let get = (\<lambda>k. boltGet (bs_db b) (dlPath twin deployment) k s);
          text = (\<lambda>k. case get k of None \<Rightarrow> [] | Some v \<Rightarrow> v) in
      rbind (openDeployment b twin deployment s) (\<lambda>_.
      rbind (case get keyVersion of None \<Rightarrow> Ok 0 | Some v \<Rightarrow> Storage_l32 v) (\<lambda>version.
      rbind (case get keySignatureRequirement of None \<Rightarrow> Ok noRequirement
        | Some v \<Rightarrow> unmarshalSignatureRequirement (bs_json b) v) (\<lambda>requirement.
      rbind (storage_workloads b ord twin deployment s) (\<lambda>workloads.
      Ok \<lparr>dl_Version = version, dl_TwinID = twin, dl_ContractID = deployment,
          dl_Metadata = text keyMetadata, dl_Description = text keyDescription, dl_Expiration = 0,
          dl_SignatureRequirement = requirement, dl_Workloads = workloads\<rparr>)))))"

fun currentScan :: "Json \<Rightarrow> Name \<Rightarrow> WorkloadType \<Rightarrow> bytes list \<Rightarrow> Workload result" where
  "currentScan J name typ [] = Err ErrTransactionNotExist"
| "currentScan J name typ (v # vs) =
     rbind (rwrap ''error while scanning transcation logs'' (unmarshalWorkload J v)) (\<lambda>workload.
     if wl_Name workload \<noteq> name then currentScan J name typ vs
     else if wl_Type workload \<noteq> typ then
       Err (Errorf ''database inconsistency wrong workload type'')
     else if State (wl_Result workload) = StateUnChanged then currentScan J name typ vs
     else Ok workload)"

definition Storage_Current ::
    "'tx BoltStorage \<Rightarrow> u32 \<Rightarrow> u64 \<Rightarrow> Name \<Rightarrow> 'tx \<Rightarrow> Workload result" where
  "Storage_Current b twin deployment name s =
     rbind (openDeployment b twin deployment s) (\<lambda>_.
     if \<not> boltBucket (bs_db b) (wlPath twin deployment) s then
       Err (Wrap ''deployment has no active workloads'' ErrWorkloadNotExist)
     else case boltGet (bs_db b) (wlPath twin deployment) name s of
       None \<Rightarrow> Err (Wrap ''workload does not exist'' ErrWorkloadNotExist)
     | Some typ \<Rightarrow>
         if \<not> boltBucket (bs_db b) (logPath twin deployment) s then
           Err (Wrap ''no transaction logs available'' ErrTransactionNotExist)
         else currentScan (bs_json b) name typ
           (rev (map cursorValue (boltCursor (bs_db b) (logPath twin deployment) s))))"

definition isTwinKey :: "bytes \<times> Value option \<Rightarrow> bool" where
  "isTwinKey kv = (case kv of (k, v) \<Rightarrow> v = None \<and> length k = 4)"

definition Storage_Twins :: "'tx BoltStorage \<Rightarrow> 'tx \<Rightarrow> u32 list result" where
  "Storage_Twins b s = rlist Storage_l32 (map fst (filter isTwinKey (boltCursor (bs_db b) [] s)))"

definition Storage_ByTwin :: "'tx BoltStorage \<Rightarrow> u32 \<Rightarrow> 'tx \<Rightarrow> u64 list result" where
  "Storage_ByTwin b twin s =
     (if \<not> boltBucket (bs_db b) (twinPath twin) s then Ok []
      else rlist Storage_l64
        (map fst (filter isDeploymentKey (boltCursor (bs_db b) (twinPath twin) s))))"


subsection \<open>Operations over several transactions\<close>

definition errorResult :: "timestamp \<Rightarrow> err \<Rightarrow> Result" where
  "errorResult now e = noResult\<lparr>Created := now, State := StateError, Error := err_text e\<rparr>"

definition Storage_Error ::
    "'tx BoltStorage \<Rightarrow> (Workload list \<Rightarrow> Workload list) \<Rightarrow> timestamp \<Rightarrow> u32 \<Rightarrow> u64 \<Rightarrow> err \<Rightarrow> 'tx
     \<Rightarrow> 'tx result" where
  "Storage_Error b ord now twin dl e s =
     rbind (Storage_Get b ord twin dl s) (\<lambda>current.
     rbind (openDeployment b twin dl s) (\<lambda>_.
     rfold (\<lambda>wl. storage_transaction b twin dl (WithResults wl (errorResult now e)))
       (dl_Workloads current) s))"

text \<open>\<open>Migrate\<close> commits transaction by transaction: it returns the state it reached and the
  error, if any.\<close>

fun migrateWorkloads ::
    "'tx BoltStorage \<Rightarrow> u32 \<Rightarrow> u64 \<Rightarrow> Workload list \<Rightarrow> 'tx \<Rightarrow> 'tx \<times> unit result" where
  "migrateWorkloads b twin dl [] s = (s, Ok ())"
| "migrateWorkloads b twin dl (wl # wls) s =
     (case Storage_Transaction b twin dl wl s of
        Inl e \<Rightarrow> (s, Err e)
      | Inr s \<Rightarrow>
          if State (wl_Result wl) = StateDeleted then
            (case Storage_Remove b twin dl (wl_Name wl) s of
               Inl e \<Rightarrow> (s, Err e)
             | Inr s \<Rightarrow> migrateWorkloads b twin dl wls s)
          else migrateWorkloads b twin dl wls s)"

definition Storage_Migrate ::
    "'tx BoltStorage \<Rightarrow> (nat \<Rightarrow> timestamp) \<Rightarrow> Deployment \<Rightarrow> 'tx \<Rightarrow> 'tx \<times> unit result" where
  "Storage_Migrate b now dl s =
     (let b = Storage_Migration b in
      case Storage_Create b now dl s of
        Inl e \<Rightarrow> (s, if err_is e ErrDeploymentExists then Ok () else Err e)
      | Inr s \<Rightarrow> migrateWorkloads b (dl_TwinID dl) (dl_ContractID dl) (dl_Workloads dl) s)"

record StorageCapacity =
  cap_Cap :: Capacity
  cap_Deployments :: "Deployment list"
  cap_Workloads :: int
  cap_LastDeploymentTimestamp :: timestamp

type_synonym Exclude = "Deployment \<Rightarrow> Workload \<Rightarrow> bool"

definition noStorageCapacity :: StorageCapacity where
  "noStorageCapacity = \<lparr>cap_Cap = noCapacity, cap_Deployments = [], cap_Workloads = 0,
     cap_LastDeploymentTimestamp = 0\<rparr>"

definition countWorkload ::
    "Lib \<Rightarrow> Registry \<Rightarrow> Exclude list \<Rightarrow> Deployment \<Rightarrow> Workload \<Rightarrow> bool \<times> StorageCapacity
     \<Rightarrow> (bool \<times> StorageCapacity) result" where
  "countWorkload L G exclude dl wl acc =
     (if \<not> IsOkay (State (wl_Result wl)) then Ok acc
      else if list_ex (\<lambda>exc. exc dl wl) exclude then Ok acc
      else rbind (Workload_Capacity L G wl) (\<lambda>c. case acc of (_, sc) \<Rightarrow>
        Ok (True, sc\<lparr>cap_Workloads := cap_Workloads sc + 1,
          cap_Cap := Capacity_Add (cap_Cap sc) c,
          cap_LastDeploymentTimestamp :=
            (if Created (wl_Result wl) > cap_LastDeploymentTimestamp sc
             then Created (wl_Result wl) else cap_LastDeploymentTimestamp sc)\<rparr>)))"

definition countDeployment ::
    "Lib \<Rightarrow> Registry \<Rightarrow> Exclude list \<Rightarrow> Deployment \<Rightarrow> StorageCapacity \<Rightarrow> StorageCapacity result" where
  "countDeployment L G exclude dl sc =
     rbind (rfold (countWorkload L G exclude dl) (dl_Workloads dl) (False, sc)) (\<lambda>(isActive, sc).
     Ok (if isActive then sc\<lparr>cap_Deployments := cap_Deployments sc @ [dl]\<rparr> else sc))"

definition Storage_Capacity ::
    "'tx BoltStorage \<Rightarrow> Lib \<Rightarrow> (Workload list \<Rightarrow> Workload list) \<Rightarrow> Exclude list \<Rightarrow> 'tx
     \<Rightarrow> StorageCapacity result" where
  "Storage_Capacity b L ord exclude s =
     rbind (Storage_Twins b s) (\<lambda>twins.
     rfold (\<lambda>twin sc. case Storage_ByTwin b twin s of
         Inl e \<Rightarrow> Ok sc
       | Inr dls \<Rightarrow> rfold (\<lambda>dl sc. case Storage_Get b ord twin dl s of
             Inl e \<Rightarrow> Ok sc
           | Inr deployment \<Rightarrow> countDeployment L (bs_registry b) exclude deployment sc) dls sc)
       twins noStorageCapacity)"

definition cleanDeployment ::
    "'tx BoltStorage \<Rightarrow> (Workload list \<Rightarrow> Workload list) \<Rightarrow> u32 \<Rightarrow> u64 \<Rightarrow> 'tx \<Rightarrow> 'tx" where
  "cleanDeployment b ord twin dl s =
     (case Storage_Get b ord twin dl s of
        Inl e \<Rightarrow> s
      | Inr deployment \<Rightarrow>
          if list_ex (\<lambda>wl. IsOkay (State (wl_Result wl))) (dl_Workloads deployment) then s
          else (case Storage_Delete b twin dl s of Inl e \<Rightarrow> s | Inr s \<Rightarrow> s))"

definition Storage_CleanDeleted ::
    "'tx BoltStorage \<Rightarrow> (Workload list \<Rightarrow> Workload list) \<Rightarrow> 'tx \<Rightarrow> 'tx result" where
  "Storage_CleanDeleted b ord s =
     rbind (Storage_Twins b s) (\<lambda>twins.
     Ok (fold (\<lambda>twin s. case Storage_ByTwin b twin s of
           Inl e \<Rightarrow> s
         | Inr dls \<Rightarrow> fold (cleanDeployment b ord twin) dls s) twins s))"

section \<open>From any database to the plain map\<close>

text \<open>The same storage on the plain map.\<close>

definition onMap :: "'tx BoltStorage \<Rightarrow> Db BoltStorage" where
  "onMap b = \<lparr>bs_db = db, bs_unsafe = bs_unsafe b, bs_registry = bs_registry b, bs_json = bs_json b\<rparr>"

lemma onMap_simps [simp]:
  "bs_db (onMap b) = db" "bs_unsafe (onMap b) = bs_unsafe b" "bs_registry (onMap b) = bs_registry b"
  "bs_json (onMap b) = bs_json b"
  "onMap (Storage_Migration b) = Storage_Migration (onMap b)" "bs_db (Storage_Migration b) = bs_db b"
  by (simp_all add: onMap_def Storage_Migration_def)

context bolt
begin

lemma createIf_then:
  "rmap \<alpha> (rbind (rwrap m (boltCreateBucketIfNotExists B p k s)) h) =
     rbind (rwrap m (dbCreateBucketIfNotExists p k (\<alpha> s))) h'"
  if "\<And>s. rmap \<alpha> (h s) = h' (\<alpha> s)"
  using that by (intro rmap_rbind[where f = \<alpha>]) (simp_all add: rmap_rwrap createBucketIfNotExists)

lemma openDeployment_map:
  "bs_db b = B \<Longrightarrow> openDeployment b t c s = openDeployment (onMap b) t c (\<alpha> s)"
  by (simp add: openDeployment_def reads)

lemma transaction_map:
  assumes "bs_db b = B"
  shows "rmap \<alpha> (storage_transaction b t c w s) = storage_transaction (onMap b) t c w (\<alpha> s)"
proof -
  have "rmap \<alpha> (rbind (boltNextSequence B p s) (\<lambda>(s, id). boltPut B q (f id) v s)) =
      rbind (dbNextSequence p (\<alpha> s)) (\<lambda>(s, id). dbPut q (f id) v s)" for p q f v s
    by (rule rmap_rbind[OF nextSequence]) (auto simp: put)
  then show ?thesis
    unfolding storage_transaction_def openDeployment_map[OF assms] assms
    by (auto simp: reads intro!: rmap_rbind_same createIf_then split: option.split)
qed

lemma addGlobal_map:
  assumes "bs_db b = B"
  shows "rmap \<alpha> (addGlobal b t c w s) = addGlobal (onMap b) t c w (\<alpha> s)"
  unfolding addGlobal_def assms by (auto simp: reads writes intro!: createIf_then)

lemma add_map:
  assumes "bs_db b = B"
  shows "rmap \<alpha> (storage_add b now t c w s) = storage_add (onMap b) now t c w (\<alpha> s)"
  unfolding storage_add_def assms
  by (auto simp: reads transaction_map[OF assms]
      intro!: rmap_rbind[OF addGlobal_map[OF assms]] createIf_then rmap_rbind[OF put])

lemma Create_map:
  assumes "bs_db b = B"
  shows "rmap \<alpha> (Storage_Create b now dl s) = Storage_Create (onMap b) now dl (\<alpha> s)"
proof -
  have new: "rmap \<alpha> (case boltCreateBucket B p k s of
      Inl e \<Rightarrow> if err_is e ErrBucketExists then Err x else Err (y e) | Inr s \<Rightarrow> Ok s) =
    (case dbCreateBucket p k (\<alpha> s) of
      Inl e \<Rightarrow> if err_is e ErrBucketExists then Err x else Err (y e) | Inr s \<Rightarrow> Ok s)" for p k s x y
    by (cases "boltCreateBucket B p k s") (simp_all flip: createBucket)
  show ?thesis
    unfolding Storage_Create_def Let_def assms onMap_simps db_simps
    by (intro createIf_then rmap_rbind[OF new] rmap_rbind[OF put] rmap_rbind_same rmap_rfold)
       (auto simp: add_map[OF assms])
qed

lemma Update_map:
  assumes "bs_db b = B"
  shows "rmap \<alpha> (Storage_Update b t c fs s) = Storage_Update (onMap b) t c fs (\<alpha> s)"
  unfolding Storage_Update_def openDeployment_map[OF assms] assms
  by (auto simp: put rmap_rwrap intro!: rmap_rbind_same rmap_rfold)

lemma Remove_map:
  assumes "bs_db b = B"
  shows "rmap \<alpha> (Storage_Remove b t c n s) = Storage_Remove (onMap b) t c n (\<alpha> s)"
proof -
  have "rmap \<alpha> (rbind (if x then boltDelete B p n s else Ok s) (boltDelete B q n)) =
      rbind (if x then dbDelete p n (\<alpha> s) else Ok (\<alpha> s)) (dbDelete q n)" for p q x
    by (rule rmap_rbind) (auto simp: delete)
  then show ?thesis unfolding Storage_Remove_def assms by (auto simp: reads split: option.split)
qed

lemma Delete_map:
  assumes "bs_db b = B"
  shows "rmap \<alpha> (Storage_Delete b t c s) = Storage_Delete (onMap b) t c (\<alpha> s)"
proof -
  have del: "rmap \<alpha> (case boltDeleteBucket B p k s of
      Inl e \<Rightarrow> if err_is e ErrBucketNotFound then Ok s else Err e | Inr s \<Rightarrow> Ok s) =
    (case dbDeleteBucket p k (\<alpha> s) of
      Inl e \<Rightarrow> if err_is e ErrBucketNotFound then Ok (\<alpha> s) else Err e | Inr s \<Rightarrow> Ok s)" for p k
    by (cases "boltDeleteBucket B p k s") (simp_all flip: deleteBucket)
  show ?thesis
    unfolding Storage_Delete_def assms
    by (auto simp: reads deleteBucket intro!: rmap_rbind[OF del])
qed

lemma workloads_map:
  "bs_db b = B \<Longrightarrow> storage_workloads b ord t c s = storage_workloads (onMap b) ord t c (\<alpha> s)"
  unfolding storage_workloads_def Let_def onMap_simps db_simps by (simp add: reads openDeployment_map)

lemma Get_map:
  "bs_db b = B \<Longrightarrow> Storage_Get b ord t c s = Storage_Get (onMap b) ord t c (\<alpha> s)"
  unfolding Storage_Get_def Let_def onMap_simps db_simps by (simp add: reads openDeployment_map workloads_map)

lemma Current_map:
  assumes "bs_db b = B"
  shows "Storage_Current b t c n s = Storage_Current (onMap b) t c n (\<alpha> s)"
  unfolding Storage_Current_def onMap_simps db_simps assms reads openDeployment_map[OF assms] ..

lemma Changes_map:
  "bs_db b = B \<Longrightarrow> Storage_Changes b t c s = Storage_Changes (onMap b) t c (\<alpha> s)"
  unfolding Storage_Changes_def storage_changes_def onMap_simps db_simps by (simp add: reads openDeployment_map)

lemma Twins_map: "bs_db b = B \<Longrightarrow> Storage_Twins b s = Storage_Twins (onMap b) (\<alpha> s)"
  and ByTwin_map: "bs_db b = B \<Longrightarrow> Storage_ByTwin b t s = Storage_ByTwin (onMap b) t (\<alpha> s)"
  unfolding Storage_Twins_def Storage_ByTwin_def onMap_simps db_simps by (simp_all add: reads)

lemma Error_map:
  assumes "bs_db b = B"
  shows "rmap \<alpha> (Storage_Error b ord now t c e s) = Storage_Error (onMap b) ord now t c e (\<alpha> s)"
  unfolding Storage_Error_def Get_map[OF assms] openDeployment_map[OF assms]
  by (intro rmap_rbind_same rmap_rfold transaction_map[OF assms])

lemma Capacity_map:
  assumes "bs_db b = B"
  shows "Storage_Capacity b L ord ex s = Storage_Capacity (onMap b) L ord ex (\<alpha> s)"
  unfolding Storage_Capacity_def Get_map[OF assms] ByTwin_map[OF assms] Twins_map[OF assms]
    onMap_simps ..

lemma fold_map:
  "(\<And>x s. \<alpha> (f x s) = g x (\<alpha> s)) \<Longrightarrow> \<alpha> (fold f xs s) = fold g xs (\<alpha> s)"
  by (induction xs arbitrary: s) simp_all

lemma CleanDeleted_map:
  assumes "bs_db b = B"
  shows "rmap \<alpha> (Storage_CleanDeleted b ord s) = Storage_CleanDeleted (onMap b) ord (\<alpha> s)"
proof -
  have clean: "\<alpha> (cleanDeployment b ord t c s) = cleanDeployment (onMap b) ord t c (\<alpha> s)" for t c s
    using Delete_map[OF assms, of t c s]
    by (cases "Storage_Delete b t c s")
       (auto simp: cleanDeployment_def Get_map[OF assms] split: sum.split)
  show ?thesis
    unfolding Storage_CleanDeleted_def Twins_map[OF assms] ByTwin_map[OF assms]
    by (intro rmap_rbind_same) (auto intro!: fold_map simp: clean split: sum.split)
qed

lemma Migrate_map:
  assumes "bs_db b = B"
  shows "Storage_Migrate (onMap b) now dl (\<alpha> s) = map_prod \<alpha> id (Storage_Migrate b now dl s)"
proof -
  have wls: "migrateWorkloads (onMap b) t c ws (\<alpha> s) = map_prod \<alpha> id (migrateWorkloads b t c ws s)"
    if b: "bs_db b = B" for b t c ws s
  proof (induction ws arbitrary: s)
    case (Cons w ws)
    have remove: "Storage_Remove (onMap b) t c n (\<alpha> s) = rmap \<alpha> (Storage_Remove b t c n s)" for n s
      using Remove_map[OF b] by simp
    show ?case
      by (auto simp: Storage_Transaction_def transaction_map[OF b, symmetric] remove Cons
          rmap_def split: sum.split)
  qed simp
  have b': "bs_db (Storage_Migration b) = B" using assms by simp
  show ?thesis
    using Create_map[OF b', of now dl s, symmetric] wls[OF b']
    by (cases "Storage_Create (Storage_Migration b) now dl s")
       (auto simp: Storage_Migrate_def Let_def)
qed

end

end
