(* ===== verification/StorageSpec.thy ===== *)
theory StorageSpec
  imports BoltStorage
begin

text \<open>
  What the storage promises, and that it keeps it: an abstract storage in which a deployment is
  a record and an operation a function, the refinement of the storage operations to it, and
  the properties of the storage, proved on the abstract storage and carried back to any
  database that behaves like bbolt.
\<close>

section \<open>The specification\<close>

text \<open>
  A deployment is its fields, its active workloads with their types, and its log. A storage
  is a map of deployments by twin and contract, and for every twin the shared names with
  the contract (as a key) that owns them. An operation that fails is \<open>None\<close>.
\<close>

record DlState =
  ds_fields :: "bytes \<Rightarrow> bytes option"
  ds_active :: "Name \<Rightarrow> WorkloadType option"
  ds_log :: "bytes list"

record SpecStorage =
  sp_dl :: "u32 \<Rightarrow> u64 \<Rightarrow> DlState option"
  sp_global :: "u32 \<Rightarrow> Name \<Rightarrow> bytes option"

definition emptySpec :: SpecStorage where
  "emptySpec = \<lparr>sp_dl = (\<lambda>_ _. None), sp_global = (\<lambda>_ _. None)\<rparr>"

definition setDl :: "u32 \<Rightarrow> u64 \<Rightarrow> DlState option \<Rightarrow> SpecStorage \<Rightarrow> SpecStorage" where
  "setDl t c ds a = a\<lparr>sp_dl := (sp_dl a)(t := (sp_dl a t)(c := ds))\<rparr>"

definition setGlobal :: "u32 \<Rightarrow> Name \<Rightarrow> bytes option \<Rightarrow> SpecStorage \<Rightarrow> SpecStorage" where
  "setGlobal t n v a = a\<lparr>sp_global := (sp_global a)(t := (sp_global a t)(n := v))\<rparr>"

definition to_opt :: "'a result \<Rightarrow> 'a option" where
  "to_opt r = (case r of Inl _ \<Rightarrow> None | Inr x \<Rightarrow> Some x)"

text \<open>The keys that bbolt accepts.\<close>

definition goodKey :: "bytes \<Rightarrow> bool" where
  "goodKey k \<longleftrightarrow> k \<noteq> [] \<and> length k \<le> 32768"

definition specTransaction ::
    "Json \<Rightarrow> u32 \<Rightarrow> u64 \<Rightarrow> Workload \<Rightarrow> SpecStorage \<Rightarrow> SpecStorage option" where
  "specTransaction J t c w a =
     (if Result_Valid (wl_Result w) \<noteq> Ok () then None
      else case (marshalWorkload J w, sp_dl a t c) of
        (Inr data, Some ds) \<Rightarrow>
          if ds_active ds (wl_Name w) = Some (wl_Type w)
          then Some (setDl t c (Some (ds\<lparr>ds_log := ds_log ds @ [data]\<rparr>)) a)
          else None
      | _ \<Rightarrow> None)"

definition specShare ::
    "bool \<Rightarrow> Registry \<Rightarrow> u32 \<Rightarrow> u64 \<Rightarrow> Workload \<Rightarrow> SpecStorage \<Rightarrow> SpecStorage option" where
  "specShare unsafe G t c w a =
     (if IsSharable G (wl_Type w) then
        if \<not> goodKey (wl_Name w) \<or> \<not> unsafe \<and> sp_global a t (wl_Name w) \<noteq> None then None
        else Some (setGlobal t (wl_Name w) (Some (Storage_u64 c)) a)
      else Some a)"

definition specAdd ::
    "bool \<Rightarrow> Registry \<Rightarrow> Json \<Rightarrow> timestamp \<Rightarrow> u32 \<Rightarrow> u64 \<Rightarrow> Workload \<Rightarrow> SpecStorage
     \<Rightarrow> SpecStorage option" where
  "specAdd unsafe G J now t c w a =
     Option.bind (specShare unsafe G t c w a) (\<lambda>a.
       case sp_dl a t c of
         None \<Rightarrow> None
       | Some ds \<Rightarrow>
           if \<not> goodKey (wl_Name w) \<or> ds_active ds (wl_Name w) \<noteq> None then None
           else specTransaction J t c (WithResults w (initResult now))
             (setDl t c (Some (ds\<lparr>ds_active := (ds_active ds)(wl_Name w \<mapsto> wl_Type w)\<rparr>)) a))"

fun specAddAll ::
    "bool \<Rightarrow> Registry \<Rightarrow> Json \<Rightarrow> u32 \<Rightarrow> u64 \<Rightarrow> (timestamp \<times> Workload) list \<Rightarrow> SpecStorage
     \<Rightarrow> SpecStorage option" where
  "specAddAll unsafe G J t c [] a = Some a"
| "specAddAll unsafe G J t c ((now, w) # ws) a =
     Option.bind (specAdd unsafe G J now t c w a) (specAddAll unsafe G J t c ws)"

definition createdFields :: "Deployment \<Rightarrow> bytes \<Rightarrow> bytes \<Rightarrow> bytes option" where
  "createdFields dl sig = [keyVersion \<mapsto> Storage_u32 (dl_Version dl),
     keyDescription \<mapsto> dl_Description dl, keyMetadata \<mapsto> dl_Metadata dl, keySignatureRequirement \<mapsto> sig]"

definition specCreate ::
    "bool \<Rightarrow> Registry \<Rightarrow> Json \<Rightarrow> (nat \<Rightarrow> timestamp) \<Rightarrow> Deployment \<Rightarrow> SpecStorage \<Rightarrow> SpecStorage option" where
  "specCreate unsafe G J now dl a =
     (case (sp_dl a (dl_TwinID dl) (dl_ContractID dl),
         marshalSignatureRequirement J (dl_SignatureRequirement dl)) of
        (None, Inr sig) \<Rightarrow> specAddAll unsafe G J (dl_TwinID dl) (dl_ContractID dl)
           (map (\<lambda>(i, w). (now i, w)) (enumerate 0 (dl_Workloads dl)))
           (setDl (dl_TwinID dl) (dl_ContractID dl)
             (Some \<lparr>ds_fields = createdFields dl sig, ds_active = (\<lambda>_. None), ds_log = []\<rparr>) a)
      | _ \<Rightarrow> None)"

definition specUpdate ::
    "Json \<Rightarrow> u32 \<Rightarrow> u64 \<Rightarrow> Field list \<Rightarrow> SpecStorage \<Rightarrow> SpecStorage option" where
  "specUpdate J t c fs a =
     (case (sp_dl a t c, rlist (fieldPair J) fs) of
        (Some ds, Inr kvs) \<Rightarrow>
          Some (setDl t c (Some (ds\<lparr>ds_fields := fold (\<lambda>(k, v) m. m(k \<mapsto> v)) kvs (ds_fields ds)\<rparr>)) a)
      | _ \<Rightarrow> None)"

definition specRemove :: "Registry \<Rightarrow> u32 \<Rightarrow> u64 \<Rightarrow> Name \<Rightarrow> SpecStorage \<Rightarrow> SpecStorage" where
  "specRemove G t c n a =
     (case sp_dl a t c of
        None \<Rightarrow> a
      | Some ds \<Rightarrow>
          (case ds_active ds n of
             None \<Rightarrow> a
           | Some typ \<Rightarrow> setDl t c (Some (ds\<lparr>ds_active := (ds_active ds)(n := None)\<rparr>))
               (if IsSharable G typ then setGlobal t n None a else a)))"

definition specDelete :: "u32 \<Rightarrow> u64 \<Rightarrow> SpecStorage \<Rightarrow> SpecStorage" where
  "specDelete t c a =
     (let a' = setDl t c None a in
      if \<exists>x. sp_dl a' t x \<noteq> None then a' else a'\<lparr>sp_global := (sp_global a')(t := (\<lambda>_. None))\<rparr>)"

lemma spec_simps [simp]:
  "sp_dl (setDl t c ds a) t' c' = (if t' = t \<and> c' = c then ds else sp_dl a t' c')"
  "sp_global (setDl t c ds a) = sp_global a"
  "sp_dl (setGlobal t n v a) = sp_dl a"
  "sp_global (setGlobal t n v a) t' n' = (if t' = t \<and> n' = n then v else sp_global a t' n')"
  by (auto simp: setDl_def setGlobal_def)


section \<open>The plain map implements the specification\<close>

lemma key_neqs [simp]:
  "keyGlobal \<noteq> Storage_u64 c" "Storage_u64 c \<noteq> keyGlobal" "keyWorkloads \<noteq> keyTransactions"
  "keyTransactions \<noteq> keyWorkloads"
  by (auto simp: key_defs dest: arg_cong[where f = length])

definition bucketShape :: "path \<Rightarrow> bool" where
  "bucketShape p \<longleftrightarrow> (\<exists>t. p = twinPath t) \<or> (\<exists>t c. p = dlPath t c) \<or> (\<exists>t. p = globalPath t) \<or>
     (\<exists>t c. p = wlPath t c) \<or> (\<exists>t c. p = logPath t c)"

definition fieldKeys :: "bytes set" where
  "fieldKeys = {keyVersion, keyDescription, keyMetadata, keySignatureRequirement}"

definition valueShape :: "path \<Rightarrow> bytes \<Rightarrow> bool" where
  "valueShape p k \<longleftrightarrow> (\<exists>t c. p = dlPath t c \<and> k \<in> fieldKeys) \<or> (\<exists>t. p = globalPath t) \<or>
     (\<exists>t c. p = wlPath t c) \<or> (\<exists>t c. p = logPath t c)"

definition logKey :: "nat \<Rightarrow> bytes" where
  "logKey i = Storage_u64 (word_of_nat i)"

text \<open>The layout of a storage database: buckets and values have their places, a bucket's
  parent exists, a value's bucket exists, and the keys of a log are \<open>1\<close> to its sequence
  number.\<close>

definition layout :: "Db \<Rightarrow> bool" where
  "layout d \<longleftrightarrow> finiteDb d \<and>
     (\<forall>p. db_buckets d p \<noteq> None \<longrightarrow> bucketShape p \<and> dbBucket (butlast p) d) \<and>
     (\<forall>p k. db_vals d p k \<noteq> None \<longrightarrow> db_buckets d p \<noteq> None \<and> valueShape p k) \<and>
     (\<forall>t c q. db_buckets d (logPath t c) = Some q \<longrightarrow>
        dom (db_vals d (logPath t c)) = logKey ` {1..unat q})"

text \<open>The values of a bucket in key order.\<close>

definition valuesOf :: "(bytes \<Rightarrow> bytes option) \<Rightarrow> bytes list" where
  "valuesOf m = map (\<lambda>k. the (m k)) (sorted_list_of_set (dom m))"

definition pairsOf :: "(bytes \<Rightarrow> bytes option) \<Rightarrow> (bytes \<times> bytes) list" where
  "pairsOf m = map (\<lambda>k. (k, the (m k))) (sorted_list_of_set (dom m))"

definition absDl :: "u32 \<Rightarrow> u64 \<Rightarrow> Db \<Rightarrow> DlState" where
  "absDl t c d = \<lparr>ds_fields = db_vals d (dlPath t c), ds_active = db_vals d (wlPath t c),
     ds_log = valuesOf (db_vals d (logPath t c))\<rparr>"

definition abs_storage :: "Db \<Rightarrow> SpecStorage" where
  "abs_storage d = \<lparr>sp_dl = (\<lambda>t c. if db_buckets d (dlPath t c) = None then None else Some (absDl t c d)),
     sp_global = (\<lambda>t. db_vals d (globalPath t))\<rparr>"

lemma layout_no_bucket:
  assumes "layout d"
  shows "db_buckets d (wlPath t c @ [k]) = None" "db_buckets d (logPath t c @ [k]) = None"
    "db_buckets d (globalPath t @ [k]) = None" "k \<in> fieldKeys \<Longrightarrow> db_buckets d (dlPath t c @ [k]) = None"
proof -
  have shape: "db_buckets d p \<noteq> None \<Longrightarrow> bucketShape p" for p using assms by (auto simp: layout_def)
  have "\<not> bucketShape (wlPath t c @ [k])" "\<not> bucketShape (logPath t c @ [k])"
      "\<not> bucketShape (globalPath t @ [k])"
    by (auto simp: bucketShape_def)
  with shape show "db_buckets d (wlPath t c @ [k]) = None" "db_buckets d (logPath t c @ [k]) = None"
    "db_buckets d (globalPath t @ [k]) = None" by blast+
  assume "k \<in> fieldKeys"
  then have "\<not> bucketShape (dlPath t c @ [k])" by (auto simp: bucketShape_def fieldKeys_def key_defs)
  with shape show "db_buckets d (dlPath t c @ [k]) = None" by blast
qed

lemma layout_fields:
  assumes "layout d"
  shows "finiteDb d" "db_buckets d p \<noteq> None \<Longrightarrow> dbBucket (butlast p) d"
    "db_vals d p k \<noteq> None \<Longrightarrow> db_buckets d p \<noteq> None"
    "db_vals d p k \<noteq> None \<Longrightarrow> valueShape p k"
  using assms unfolding layout_def by blast+

lemma layout_parents:
  assumes "layout d"
  shows "db_buckets d (wlPath t c) \<noteq> None \<Longrightarrow> db_buckets d (dlPath t c) \<noteq> None"
    "db_buckets d (logPath t c) \<noteq> None \<Longrightarrow> db_buckets d (dlPath t c) \<noteq> None"
    "db_buckets d (dlPath t c) \<noteq> None \<Longrightarrow> db_buckets d (twinPath t) \<noteq> None"
    "db_buckets d (globalPath t) \<noteq> None \<Longrightarrow> db_buckets d (twinPath t) \<noteq> None"
  using layout_fields(2)[OF assms, of "wlPath t c"] layout_fields(2)[OF assms, of "logPath t c"]
    layout_fields(2)[OF assms, of "dlPath t c"] layout_fields(2)[OF assms, of "globalPath t"]
  by (auto simp: dbBucket_def)

lemma layout_no_values:
  assumes "layout d"
  shows "db_vals d [] k = None" "db_vals d (twinPath t) k = None"
    "k \<notin> fieldKeys \<Longrightarrow> db_vals d (dlPath t c) k = None"
    "db_buckets d p = None \<Longrightarrow> db_vals d p k = None"
proof -
  have shape: "db_vals d p k = None" if "db_buckets d p = None \<or> \<not> valueShape p k" for p
    using that layout_fields(3,4)[OF assms, of p k] by blast
  show "db_vals d [] k = None" "db_vals d (twinPath t) k = None"
    "k \<notin> fieldKeys \<Longrightarrow> db_vals d (dlPath t c) k = None"
    "db_buckets d p = None \<Longrightarrow> db_vals d p k = None"
    by (rule shape, simp add: valueShape_def)+
qed

lemma cursor_values:
  assumes "\<And>k. db_buckets d (p @ [k]) = None"
  shows "map cursorValue (dbCursor p d) = valuesOf (db_vals d p)"
    "map (\<lambda>kv. (fst kv, cursorValue kv)) (dbCursor p d) = pairsOf (db_vals d p)"
proof -
  have keys: "dbKeys p d = dom (db_vals d p)" using assms by (auto simp: dbKeys_def)
  have "k \<notin> set (sorted_list_of_set (dom (db_vals d p)))" if "db_vals d p k = None" for k
    using that by (cases "finite (dom (db_vals d p))") auto
  then show "map cursorValue (dbCursor p d) = valuesOf (db_vals d p)"
    "map (\<lambda>kv. (fst kv, cursorValue kv)) (dbCursor p d) = pairsOf (db_vals d p)"
    using assms unfolding dbCursor_def valuesOf_def pairsOf_def keys
    by (auto simp: cursorValue_def split: option.split)
qed

lemma sorted_list_of_set_snoc:
  fixes k :: "'a :: linorder"
  assumes "finite A" and "\<And>x. x \<in> A \<Longrightarrow> x < k"
  shows "sorted_list_of_set (insert k A) = sorted_list_of_set A @ [k]"
proof -
  have "sorted (sorted_list_of_set A @ [k])" and "distinct (sorted_list_of_set A @ [k])"
    using assms by (auto simp: sorted_append order_less_imp_le)
  moreover have "set (sorted_list_of_set A @ [k]) = set (sorted_list_of_set (insert k A))"
    using assms(1) by (simp del: sorted_list_of_set_insert_remove)
  ultimately show ?thesis
    by (metis sorted_distinct_set_unique sorted_sorted_list_of_set distinct_sorted_list_of_set)
qed

lemma valuesOf_snoc:
  assumes "finite (dom m)" and "\<And>x. x \<in> dom m \<Longrightarrow> x < k"
  shows "valuesOf (m(k \<mapsto> v)) = valuesOf m @ [v]"
proof -
  have "k \<notin> dom m" using assms(2) by blast
  have "map (\<lambda>x. the ((m(k \<mapsto> v)) x)) (sorted_list_of_set (dom m)) = map (\<lambda>x. the (m x)) (sorted_list_of_set (dom m))"
    using \<open>k \<notin> dom m\<close> assms(1) by (intro map_cong) auto
  then show ?thesis by (simp add: valuesOf_def sorted_list_of_set_snoc[OF assms] del: fun_upd_apply) simp
qed

lemma logKey_less: "i < 2 ^ 64 \<Longrightarrow> j < 2 ^ 64 \<Longrightarrow> logKey i < logKey j \<longleftrightarrow> i < j"
  by (simp add: logKey_def u64_less_iff word_less_nat_alt unat_of_nat)

lemma inj_logKey: "inj_on logKey {i. i < 2 ^ 64}"
proof (rule inj_onI)
  fix i j assume "i \<in> {i. i < 2 ^ 64}" "j \<in> {i. i < 2 ^ 64}" "logKey i = logKey j"
  moreover have "unat (word_of_nat n :: u64) = n" if "n < 2 ^ 64" for n using that by (simp add: unat_of_nat)
  ultimately show "i = j" unfolding logKey_def u64_inject by (metis mem_Collect_eq)
qed

lemma length_log:
  assumes "layout d" and "db_buckets d (logPath t c) = Some q"
  shows "length (valuesOf (db_vals d (logPath t c))) = unat q"
proof -
  have "dom (db_vals d (logPath t c)) = logKey ` {1..unat q}" using assms unfolding layout_def by blast
  moreover have "inj_on logKey {1..unat q}"
    by (rule inj_on_subset[OF inj_logKey]) (use unat64_less[of q] in auto)
  ultimately show ?thesis by (simp add: valuesOf_def card_image)
qed

subsection \<open>Writes keep the layout\<close>

lemma finiteDb_updates [simp]:
  "finiteDb d \<Longrightarrow> finiteDb (d\<lparr>db_vals := (db_vals d)(p := (db_vals d p)(k := v))\<rparr>)"
  "finiteDb d \<Longrightarrow> finiteDb (d\<lparr>db_buckets := (db_buckets d)(p \<mapsto> q)\<rparr>)"
  by (auto simp: finiteDb_def dom_fun_upd)

lemma layout_put:
  assumes "layout d" and "db_buckets d p \<noteq> None" and "valueShape p k" and "\<And>t c. p \<noteq> logPath t c"
  shows "layout (d\<lparr>db_vals := (db_vals d)(p := (db_vals d p)(k \<mapsto> v))\<rparr>)"
  using assms unfolding layout_def by (auto simp: dbBucket_def)

lemma layout_delete:
  assumes "layout d" and "\<And>t c. p \<noteq> logPath t c"
  shows "layout (d\<lparr>db_vals := (db_vals d)(p := (db_vals d p)(k := None))\<rparr>)"
  using assms unfolding layout_def by (auto simp: dbBucket_def)

lemma layout_create:
  assumes "layout d" and "bucketShape (p @ [k])" and "dbBucket p d" and "db_buckets d (p @ [k]) = None"
  shows "layout (d\<lparr>db_buckets := (db_buckets d)(p @ [k] \<mapsto> 0)\<rparr>)"
proof -
  have empty: "db_vals d (p @ [k]) = (\<lambda>_. None)" using layout_no_values(4)[OF assms(1,4)] by blast
  show ?thesis
    using assms empty unfolding layout_def
    by (auto simp: dbBucket_def split: if_splits) blast+
qed

lemma layout_append:
  assumes "layout d" and "db_buckets d (logPath t c) = Some q" and "q \<noteq> - 1"
  shows "layout (d\<lparr>db_buckets := (db_buckets d)(logPath t c \<mapsto> q + 1),
      db_vals := (db_vals d)(logPath t c := (db_vals d (logPath t c))(Storage_u64 (q + 1) \<mapsto> v))\<rparr>)"
proof -
  from assms(3) have up: "unat (q + 1) = Suc (unat q)"
    by (metis add.commute add_eq_0_iff unatSuc)
  have "dom ((db_vals d (logPath t c))(Storage_u64 (q + 1) \<mapsto> v)) = logKey ` {1..unat (q + 1)}"
    using assms(1,2) unfolding layout_def up by (auto simp: logKey_def atLeastAtMostSuc_conv)
  with assms(1,2) show ?thesis unfolding layout_def finiteDb_def
    by (auto simp: dbBucket_def valueShape_def)
qed

subsection \<open>Operations\<close>

definition implements :: "Db result \<Rightarrow> SpecStorage option \<Rightarrow> bool" where
  "implements r x = (case r of Inl _ \<Rightarrow> x = None | Inr d \<Rightarrow> layout d \<and> x = Some (abs_storage d))"

definition specRoom :: "u32 \<Rightarrow> u64 \<Rightarrow> nat \<Rightarrow> SpecStorage \<Rightarrow> bool" where
  "specRoom t c n a = (case sp_dl a t c of None \<Rightarrow> True | Some ds \<Rightarrow> length (ds_log ds) + n < 2 ^ 64)"

lemma implements_simps [simp]:
  "implements (Err e) x \<longleftrightarrow> x = None"
  "implements (Ok d) x \<longleftrightarrow> layout d \<and> x = Some (abs_storage d)"
  "implements (rwrap m r) x = implements r x"
  by (simp_all add: implements_def rwrap_def split: sum.split)

lemma implements_bind:
  assumes "implements m x" and "\<And>d. m = Ok d \<Longrightarrow> layout d \<Longrightarrow> x = Some (abs_storage d) \<Longrightarrow> implements (f d) (g (abs_storage d))"
  shows "implements (rbind m f) (Option.bind x g)"
  using assms by (cases m) auto

lemma implements_bind_Some:
  assumes "implements m (Some a)" and "\<And>d. m = Ok d \<Longrightarrow> layout d \<Longrightarrow> abs_storage d = a \<Longrightarrow> implements (f d) y"
  shows "implements (rbind m f) y"
  using assms by (cases m) auto

lemma abs_simps:
  "sp_dl (abs_storage d) t c = (if db_buckets d (dlPath t c) = None then None else Some (absDl t c d))"
  "sp_global (abs_storage d) t = db_vals d (globalPath t)"
  by (simp_all add: abs_storage_def)

lemma open_map:
  "layout d \<Longrightarrow> openDeployment (onMap b) t c d = Ok u \<longleftrightarrow> db_buckets d (dlPath t c) \<noteq> None"
  using layout_parents(3)[of d t c] by (auto simp: openDeployment_def dbBucket_def)

lemma abs_create:
  assumes "layout d" and "db_buckets d (p @ [k]) = None" and "\<And>t c. p @ [k] \<noteq> dlPath t c"
  shows "abs_storage (d\<lparr>db_buckets := (db_buckets d)(p @ [k] \<mapsto> 0)\<rparr>) = abs_storage d"
  using assms(3) by (auto simp: abs_storage_def absDl_def fun_eq_iff)

lemma createIf_implements:
  assumes "layout d" and "dbBucket p d" and "k \<noteq> []" and "bucketShape (p @ [k])"
    and "\<And>t c. p @ [k] \<noteq> dlPath t c" and "db_vals d p k = None"
  shows "implements (dbCreateBucketIfNotExists p k d) (Some (abs_storage d)) \<and>
    (\<forall>d'. dbCreateBucketIfNotExists p k d = Ok d' \<longrightarrow> db_buckets d' (p @ [k]) \<noteq> None \<and>
       db_vals d' = db_vals d \<and> (\<forall>q. db_buckets d q \<noteq> None \<longrightarrow> db_buckets d' q = db_buckets d q))"
proof (cases "db_buckets d (p @ [k])")
  case None
  with assms layout_create[OF assms(1,4,2)] abs_create[OF assms(1)] show ?thesis
    by (auto simp: dbCreateBucketIfNotExists_def dbCreateBucket_def dbBucket_def)
next
  case (Some q)
  with assms show ?thesis
    by (auto simp: dbCreateBucketIfNotExists_def dbCreateBucket_def dbBucket_def)
qed

lemma shapes [simp]:
  "bucketShape (twinPath t)" "bucketShape (dlPath t c)" "bucketShape (globalPath t)"
  "bucketShape (wlPath t c)" "bucketShape (logPath t c)"
  "valueShape (globalPath t) k" "valueShape (wlPath t c) k" "valueShape (logPath t c) k"
  "valueShape (dlPath t c) k \<longleftrightarrow> k \<in> fieldKeys"
  by (auto simp: bucketShape_def valueShape_def)

lemma keys_distinct [simp]:
  "keyWorkloads \<notin> fieldKeys" "keyTransactions \<notin> fieldKeys" "keyGlobal \<noteq> []" "keyWorkloads \<noteq> []"
  "keyTransactions \<noteq> []"
  by (auto simp: fieldKeys_def key_defs)

lemma append_implements:
  assumes "layout d" and "db_buckets d (logPath t c) = Some q" and "specRoom t c 1 (abs_storage d)"
  shows "implements (rbind (dbNextSequence (logPath t c) d) (\<lambda>(d, id). dbPut (logPath t c) (Storage_u64 id) v d))
     (Some (setDl t c (Some (let ds = absDl t c d in ds\<lparr>ds_log := ds_log ds @ [v]\<rparr>)) (abs_storage d)))"
proof -
  let ?m = "db_vals d (logPath t c)"
  let ?d = "d\<lparr>db_buckets := (db_buckets d)(logPath t c \<mapsto> q + 1),
      db_vals := (db_vals d)(logPath t c := ?m(Storage_u64 (q + 1) \<mapsto> v))\<rparr>"
  have dl: "db_buckets d (dlPath t c) \<noteq> None" using layout_parents(2)[OF assms(1)] assms(2) by simp
  then have room: "unat q + 1 < 2 ^ 64"
    using assms(3) length_log[OF assms(1,2)] by (auto simp: specRoom_def abs_simps absDl_def)
  then have q: "q \<noteq> - 1" by (auto simp: unsigned_minus_1_eq_mask mask_eq_exp_minus_1)
  have keys: "dom ?m = logKey ` {1..unat q}" using assms(1,2) unfolding layout_def by blast
  have "unat (q + 1) = Suc (unat q)" using q by (metis add.commute add_eq_0_iff unatSuc)
  then have key: "Storage_u64 (q + 1) = logKey (Suc (unat q))"
    by (simp add: logKey_def flip: \<open>unat (q + 1) = Suc (unat q)\<close>)
  have "valuesOf (?m(Storage_u64 (q + 1) \<mapsto> v)) = valuesOf ?m @ [v]"
    by (rule valuesOf_snoc) (use keys room in \<open>auto simp: key logKey_less\<close>)
  then have "abs_storage ?d = setDl t c (Some (let ds = absDl t c d in ds\<lparr>ds_log := ds_log ds @ [v]\<rparr>)) (abs_storage d)"
    using dl by (auto simp: abs_storage_def absDl_def setDl_def fun_eq_iff Let_def)
  with layout_append[OF assms(1,2) q, of v] assms(2) layout_no_bucket(2)[OF assms(1)] show ?thesis
    by (simp add: dbNextSequence_def dbPut_def dbBucket_def)
qed

lemma transaction_implements:
  assumes "layout d" and "specRoom t c 1 (abs_storage d)"
  shows "implements (storage_transaction (onMap b) t c w d) (specTransaction (bs_json b) t c w (abs_storage d))"
proof (cases "Result_Valid (wl_Result w) = Ok () \<and> (\<exists>data. marshalWorkload (bs_json b) w = Ok data) \<and>
    db_buckets d (dlPath t c) \<noteq> None \<and> db_vals d (wlPath t c) (wl_Name w) = Some (wl_Type w)")
  case True
  then obtain data where data: "marshalWorkload (bs_json b) w = Ok data" by blast
  from True have wl: "db_buckets d (wlPath t c) \<noteq> None"
    using layout_fields(3)[OF assms(1), of "wlPath t c" "wl_Name w"] by simp
  let ?open = "dbCreateBucketIfNotExists (dlPath t c) keyTransactions d"
  from True assms(1) have op: "implements ?open (Some (abs_storage d)) \<and>
      (\<forall>d'. ?open = Ok d' \<longrightarrow> db_buckets d' (dlPath t c @ [keyTransactions]) \<noteq> None \<and>
       db_vals d' = db_vals d \<and> (\<forall>q. db_buckets d q \<noteq> None \<longrightarrow> db_buckets d' q = db_buckets d q))"
    by (intro createIf_implements) (auto simp: dbBucket_def layout_no_values(3))
  have "implements (rbind (rwrap x ?open) (\<lambda>d. rbind (dbNextSequence (logPath t c) d)
      (\<lambda>(d, id). dbPut (logPath t c) (Storage_u64 id) data d)))
     (specTransaction (bs_json b) t c w (abs_storage d))" for x
  proof (rule implements_bind_Some)
    fix d' assume d': "rwrap x ?open = Ok d'" "layout d'" "abs_storage d' = abs_storage d"
    with op obtain q where "db_buckets d' (logPath t c) = Some q" by auto
    from append_implements[OF d'(2) this, of data] assms(2) d'(3) True data
    show "implements (rbind (dbNextSequence (logPath t c) d')
      (\<lambda>(d, id). dbPut (logPath t c) (Storage_u64 id) data d)) (specTransaction (bs_json b) t c w (abs_storage d))"
      using op d'(1) by (auto simp: specTransaction_def abs_simps absDl_def Let_def)
  qed (use op in simp)
  moreover have "openDeployment (onMap b) t c d = Ok ()" using True open_map[OF assms(1)] by blast
  ultimately show ?thesis using True data wl
    by (simp add: storage_transaction_def dbBucket_def dbGet_def)
next
  case False
  then have "specTransaction (bs_json b) t c w (abs_storage d) = None"
    by (auto simp: specTransaction_def abs_simps absDl_def split: sum.split)
  moreover have "storage_transaction (onMap b) t c w d \<noteq> Ok d'" for d'
    using False open_map[OF assms(1)]
    by (auto simp: storage_transaction_def rbind_Ok_iff dbGet_def split: option.splits if_splits)
  ultimately show ?thesis
    by (cases "storage_transaction (onMap b) t c w d") auto
qed

lemma put_implements:
  assumes "layout d" and "db_buckets d p \<noteq> None" and "valueShape p k" and "\<And>t c. p \<noteq> logPath t c"
    and "db_buckets d (p @ [k]) = None"
    and "abs_storage (d\<lparr>db_vals := (db_vals d)(p := (db_vals d p)(k \<mapsto> v))\<rparr>) = a"
  shows "implements (dbPut p k v d) (if goodKey k then Some a else None)"
  using assms(2,5,6) layout_put[OF assms(1-4), of v]
  by (auto simp: dbPut_def dbBucket_def goodKey_def)

lemma share_implements:
  assumes "layout d" and "db_buckets d (twinPath t) \<noteq> None"
  shows "implements (addGlobal (onMap b) t c w d) (specShare (bs_unsafe b) (bs_registry b) t c w (abs_storage d))"
proof (cases "IsSharable (bs_registry b) (wl_Type w)")
  case True
  let ?open = "dbCreateBucketIfNotExists (twinPath t) keyGlobal d"
  have op: "implements ?open (Some (abs_storage d)) \<and>
      (\<forall>d'. ?open = Ok d' \<longrightarrow> db_buckets d' (twinPath t @ [keyGlobal]) \<noteq> None \<and>
       db_vals d' = db_vals d \<and> (\<forall>q. db_buckets d q \<noteq> None \<longrightarrow> db_buckets d' q = db_buckets d q))"
    using assms by (intro createIf_implements) (auto simp: dbBucket_def layout_no_values(2))
  have "implements (rbind (rwrap x ?open) (\<lambda>d. if \<not> bs_unsafe b \<and> dbGet (globalPath t) (wl_Name w) d \<noteq> None
      then Err y else dbPut (globalPath t) (wl_Name w) (Storage_u64 c) d))
     (specShare (bs_unsafe b) (bs_registry b) t c w (abs_storage d))" for x y
  proof (rule implements_bind_Some)
    fix d' assume d': "rwrap x ?open = Ok d'" "layout d'" "abs_storage d' = abs_storage d"
    from d'(1) op have g: "db_buckets d' (globalPath t) \<noteq> None" "db_vals d' = db_vals d" by auto
    have put: "implements (dbPut (globalPath t) (wl_Name w) (Storage_u64 c) d') (if goodKey (wl_Name w)
        then Some (setGlobal t (wl_Name w) (Some (Storage_u64 c)) (abs_storage d')) else None)"
      using g(1) by (intro put_implements[OF d'(2)])
        (auto simp: layout_no_bucket(3)[OF d'(2), simplified] abs_storage_def absDl_def setGlobal_def fun_eq_iff)
    show "implements (if \<not> bs_unsafe b \<and> dbGet (globalPath t) (wl_Name w) d' \<noteq> None
      then Err y else dbPut (globalPath t) (wl_Name w) (Storage_u64 c) d')
      (specShare (bs_unsafe b) (bs_registry b) t c w (abs_storage d))"
      using put d'(3) g(2) True by (auto simp: specShare_def abs_simps dbGet_def)
  qed (use op in simp)
  with True show ?thesis unfolding addGlobal_def onMap_simps db_simps by simp
qed (simp add: addGlobal_def specShare_def assms(1))

lemma share_keeps_dl: "specShare u G t c w a = Some a' \<Longrightarrow> sp_dl a' = sp_dl a"
  by (auto simp: specShare_def split: if_splits)

lemma abs_active:
  "db_buckets d (dlPath t c) \<noteq> None \<Longrightarrow>
     abs_storage (d\<lparr>db_vals := (db_vals d)(wlPath t c := m)\<rparr>) =
     setDl t c (Some ((absDl t c d)\<lparr>ds_active := m\<rparr>)) (abs_storage d)"
  by (auto simp: abs_storage_def absDl_def setDl_def fun_eq_iff)

lemma add_workload_implements:
  assumes "layout d" and "db_buckets d (dlPath t c) \<noteq> None" and "specRoom t c 1 (abs_storage d)"
  shows "implements
    (rbind (rwrap x (dbCreateBucketIfNotExists (dlPath t c) keyWorkloads d)) (\<lambda>d.
      if dbGet (wlPath t c) (wl_Name w) d \<noteq> None then Err y
      else rbind (dbPut (wlPath t c) (wl_Name w) (wl_Type w) d)
        (storage_transaction (onMap b) t c (WithResults w r))))
    (if \<not> goodKey (wl_Name w) \<or> ds_active (absDl t c d) (wl_Name w) \<noteq> None then None
     else specTransaction (bs_json b) t c (WithResults w r)
       (setDl t c (Some ((absDl t c d)\<lparr>ds_active := (ds_active (absDl t c d))(wl_Name w \<mapsto> wl_Type w)\<rparr>))
         (abs_storage d)))"
    (is "implements _ ?spec")
proof -
  let ?open = "dbCreateBucketIfNotExists (dlPath t c) keyWorkloads d"
  have op: "implements ?open (Some (abs_storage d)) \<and>
      (\<forall>d'. ?open = Ok d' \<longrightarrow> db_buckets d' (dlPath t c @ [keyWorkloads]) \<noteq> None \<and>
       db_vals d' = db_vals d \<and> (\<forall>q. db_buckets d q \<noteq> None \<longrightarrow> db_buckets d' q = db_buckets d q))"
    using assms by (intro createIf_implements) (auto simp: dbBucket_def layout_no_values(3))
  show ?thesis
  proof (rule implements_bind_Some)
    fix d' assume d': "rwrap x ?open = Ok d'" "layout d'" "abs_storage d' = abs_storage d"
    from d'(1) op have w: "db_buckets d' (wlPath t c) \<noteq> None" "db_vals d' = db_vals d"
      and dl: "db_buckets d' (dlPath t c) \<noteq> None" using assms(2) by auto
    let ?a = "setDl t c (Some ((absDl t c d')\<lparr>ds_active := (db_vals d' (wlPath t c))(wl_Name w \<mapsto> wl_Type w)\<rparr>))
        (abs_storage d')"
    have put: "implements (dbPut (wlPath t c) (wl_Name w) (wl_Type w) d') (if goodKey (wl_Name w) then Some ?a else None)"
      using w(1) abs_active[OF dl] by (intro put_implements[OF d'(2)])
        (auto simp: layout_no_bucket(1)[OF d'(2), simplified])
    have same: "absDl t c d' = absDl t c d" using w(2) by (simp add: absDl_def)
    have room: "specRoom t c 1 ?a"
      using assms(2,3) same by (auto simp: specRoom_def abs_simps)
    have "implements (rbind (dbPut (wlPath t c) (wl_Name w) (wl_Type w) d')
        (storage_transaction (onMap b) t c (WithResults w r)))
      (Option.bind (if goodKey (wl_Name w) then Some ?a else None) (specTransaction (bs_json b) t c (WithResults w r)))"
      using room by (intro implements_bind[OF put] transaction_implements) (auto split: if_splits)
    then show "implements (if dbGet (wlPath t c) (wl_Name w) d' \<noteq> None then Err y
      else rbind (dbPut (wlPath t c) (wl_Name w) (wl_Type w) d')
        (storage_transaction (onMap b) t c (WithResults w r))) ?spec"
      using d'(3) w(2) same by (auto simp: dbGet_def absDl_def)
  qed (use op in simp)
qed

lemma add_implements:
  assumes "layout d" and "specRoom t c 1 (abs_storage d)"
  shows "implements (storage_add (onMap b) now t c w d)
    (specAdd (bs_unsafe b) (bs_registry b) (bs_json b) now t c w (abs_storage d))"
proof (cases "db_buckets d (twinPath t)")
  case None
  then have "db_buckets d (dlPath t c) = None" using layout_parents(3)[OF assms(1), of t c] by blast
  then have "specAdd (bs_unsafe b) (bs_registry b) (bs_json b) now t c w (abs_storage d) = None"
    by (cases "specShare (bs_unsafe b) (bs_registry b) t c w (abs_storage d)")
       (auto simp: specAdd_def abs_simps dest!: share_keeps_dl)
  with None show ?thesis by (simp add: storage_add_def dbBucket_def)
next
  case (Some q)
  then have twin: "db_buckets d (twinPath t) \<noteq> None" by simp
  have "implements (rbind (addGlobal (onMap b) t c w d) (\<lambda>d.
      if \<not> dbBucket (dlPath t c) d then Err x
      else rbind (rwrap z (dbCreateBucketIfNotExists (dlPath t c) keyWorkloads d)) (\<lambda>d.
        if dbGet (wlPath t c) (wl_Name w) d \<noteq> None then Err y
        else rbind (dbPut (wlPath t c) (wl_Name w) (wl_Type w) d)
          (storage_transaction (onMap b) t c (WithResults w (initResult now))))))
     (specAdd (bs_unsafe b) (bs_registry b) (bs_json b) now t c w (abs_storage d))" for x y z
    unfolding specAdd_def
  proof (rule implements_bind[OF share_implements[OF assms(1) twin]])
    fix d' assume d': "layout d'" "specShare (bs_unsafe b) (bs_registry b) t c w (abs_storage d) = Some (abs_storage d')"
    have room: "specRoom t c 1 (abs_storage d')" using assms(2) share_keeps_dl[OF d'(2)] by (simp add: specRoom_def)
    show "implements (if \<not> dbBucket (dlPath t c) d' then Err x
      else rbind (rwrap z (dbCreateBucketIfNotExists (dlPath t c) keyWorkloads d')) (\<lambda>d.
        if dbGet (wlPath t c) (wl_Name w) d \<noteq> None then Err y
        else rbind (dbPut (wlPath t c) (wl_Name w) (wl_Type w) d)
          (storage_transaction (onMap b) t c (WithResults w (initResult now)))))
      (case sp_dl (abs_storage d') t c of None \<Rightarrow> None
       | Some ds \<Rightarrow> if \<not> goodKey (wl_Name w) \<or> ds_active ds (wl_Name w) \<noteq> None then None
           else specTransaction (bs_json b) t c (WithResults w (initResult now))
             (setDl t c (Some (ds\<lparr>ds_active := (ds_active ds)(wl_Name w \<mapsto> wl_Type w)\<rparr>)) (abs_storage d')))"
    proof (cases "db_buckets d' (dlPath t c) = None")
      case False
      then obtain q' where "db_buckets d' (dlPath t c) = Some q'" by blast
      with add_workload_implements[OF d'(1) False room, of z w y b] show ?thesis
        by (simp add: dbBucket_def abs_simps)
    qed (simp add: dbBucket_def abs_simps)
  qed
  with Some show ?thesis unfolding storage_add_def onMap_simps db_simps by (simp add: dbBucket_def)
qed

lemma specTransaction_log:
  "specTransaction J t c w a = Some a' \<Longrightarrow>
     \<exists>ds data. sp_dl a t c = Some ds \<and> marshalWorkload J w = Ok data \<and>
       ds_active ds (wl_Name w) = Some (wl_Type w) \<and> Result_Valid (wl_Result w) = Ok () \<and>
       a' = setDl t c (Some (ds\<lparr>ds_log := ds_log ds @ [data]\<rparr>)) a"
  by (auto simp: specTransaction_def split: if_splits sum.splits option.splits)

lemma specAdd_effect:
  assumes "specAdd u G J now t c w a = Some a'"
  shows "\<exists>ds data a1. sp_dl a t c = Some ds \<and> goodKey (wl_Name w) \<and> ds_active ds (wl_Name w) = None \<and>
    marshalWorkload J (WithResults w (initResult now)) = Ok data \<and> now \<noteq> 0 \<and>
    specShare u G t c w a = Some a1 \<and>
    a' = setDl t c (Some (ds\<lparr>ds_active := (ds_active ds)(wl_Name w \<mapsto> wl_Type w),
      ds_log := ds_log ds @ [data]\<rparr>)) a1"
proof -
  from assms obtain a1 ds where a1: "specShare u G t c w a = Some a1" and ds: "sp_dl a1 t c = Some ds"
    and key: "goodKey (wl_Name w)" "ds_active ds (wl_Name w) = None"
    and tx: "specTransaction J t c (WithResults w (initResult now))
      (setDl t c (Some (ds\<lparr>ds_active := (ds_active ds)(wl_Name w \<mapsto> wl_Type w)\<rparr>)) a1) = Some a'"
    by (auto simp: specAdd_def bind_eq_Some_conv split: option.splits if_splits)
  from specTransaction_log[OF tx] share_keeps_dl[OF a1] a1 ds key show ?thesis
    by (auto simp: Result_Valid_def initResult_def setDl_def split: if_splits)
qed

lemma specAdd_room:
  "specAdd u G J now t c w a = Some a' \<Longrightarrow> specRoom t c (Suc n) a \<Longrightarrow> specRoom t c n a'"
  by (auto simp: specRoom_def dest!: specAdd_effect)

lemma addAll_implements:
  assumes "layout d" and "specRoom t c (length iws) (abs_storage d)"
  shows "implements (rfold (\<lambda>(i, w). storage_add (onMap b) (now i) t c w) iws d)
    (specAddAll (bs_unsafe b) (bs_registry b) (bs_json b) t c (map (\<lambda>(i, w). (now i, w)) iws) (abs_storage d))"
  using assms
proof (induction iws arbitrary: d)
  case (Cons iw iws)
  obtain i w where iw: "iw = (i, w)" by (cases iw)
  have "specRoom t c 1 (abs_storage d)"
    using Cons.prems(2) by (auto simp: specRoom_def split: option.splits)
  note add = add_implements[OF Cons.prems(1) this, of b "now i" w]
  show ?case
    unfolding iw list.map specAddAll.simps rfold.simps prod.case
    by (rule implements_bind[OF add]) (use Cons specAdd_room in auto)
qed simp

lemma abs_fields:
  "db_buckets d (dlPath t c) \<noteq> None \<Longrightarrow>
     abs_storage (d\<lparr>db_vals := (db_vals d)(dlPath t c := m)\<rparr>) =
     setDl t c (Some ((absDl t c d)\<lparr>ds_fields := m\<rparr>)) (abs_storage d)"
  by (auto simp: abs_storage_def absDl_def setDl_def fun_eq_iff)

lemma setDl_setDl [simp]: "setDl t c x (setDl t c y a) = setDl t c x a"
  by (simp add: setDl_def)

lemma setDl_same: "sp_dl a t c = x \<Longrightarrow> setDl t c x a = a"
  by (cases a) (auto simp: setDl_def)

lemma setDl_fix: "setDl t c x a = a' \<Longrightarrow> a' = setDl t c x a'"
  by auto

lemma goodKey_field: "k \<in> fieldKeys \<Longrightarrow> goodKey k"
  by (auto simp: fieldKeys_def goodKey_def key_defs)

lemma put_field_implements:
  assumes "layout d" and "sp_dl (abs_storage d) t c = Some ds" and "k \<in> fieldKeys"
  shows "implements (dbPut (dlPath t c) k v d)
    (Some (setDl t c (Some (ds\<lparr>ds_fields := (ds_fields ds)(k \<mapsto> v)\<rparr>)) (abs_storage d)))"
proof -
  from assms(2) have dl: "db_buckets d (dlPath t c) \<noteq> None" and ds: "ds = absDl t c d"
    by (auto simp: abs_simps split: if_splits)
  have "implements (dbPut (dlPath t c) k v d) (if goodKey k then
      Some (setDl t c (Some (ds\<lparr>ds_fields := (ds_fields ds)(k \<mapsto> v)\<rparr>)) (abs_storage d)) else None)"
    using assms(3) dl abs_fields[OF dl] ds
    by (intro put_implements[OF assms(1)]) (simp_all add: layout_no_bucket(4)[OF assms(1), simplified] absDl_def)
  then show ?thesis using goodKey_field[OF assms(3)] by simp
qed

lemma new_implements:
  assumes "layout d" and "db_buckets d (twinPath t) \<noteq> None"
  shows "implements (case dbCreateBucket (twinPath t) (Storage_u64 c) d of
      Inl e \<Rightarrow> if err_is e ErrBucketExists then Err x else Err (y e) | Inr d \<Rightarrow> Ok d)
    (case sp_dl (abs_storage d) t c of Some _ \<Rightarrow> None
     | None \<Rightarrow> Some (setDl t c (Some \<lparr>ds_fields = (\<lambda>_. None), ds_active = (\<lambda>_. None), ds_log = []\<rparr>) (abs_storage d)))"
proof (cases "db_buckets d (dlPath t c)")
  case None
  then have sub: "db_buckets d (wlPath t c) = None" "db_buckets d (logPath t c) = None"
    using layout_parents(1,2)[OF assms(1), of t c] by blast+
  have empty: "db_vals d (dlPath t c) = (\<lambda>_. None)" "db_vals d (wlPath t c) = (\<lambda>_. None)"
    "db_vals d (logPath t c) = (\<lambda>_. None)"
    using layout_no_values(4)[OF assms(1)] None sub by blast+
  let ?d = "d\<lparr>db_buckets := (db_buckets d)(twinPath t @ [Storage_u64 c] \<mapsto> 0)\<rparr>"
  have "abs_storage ?d = setDl t c (Some \<lparr>ds_fields = (\<lambda>_. None), ds_active = (\<lambda>_. None), ds_log = []\<rparr>) (abs_storage d)"
    by (auto simp: abs_storage_def absDl_def setDl_def empty valuesOf_def fun_eq_iff)
  with None assms layout_create[OF assms(1), of "twinPath t" "Storage_u64 c"] layout_no_values(2)[OF assms(1)]
  show ?thesis by (simp add: dbCreateBucket_def dbBucket_def abs_simps)
next
  case (Some q)
  with assms show ?thesis by (simp add: dbCreateBucket_def dbBucket_def abs_simps)
qed

abbreviation withFields :: "(bytes \<Rightarrow> bytes option) \<Rightarrow> DlState" where
  "withFields m \<equiv> \<lparr>ds_fields = m, ds_active = (\<lambda>_. None), ds_log = []\<rparr>"

lemma put_new_field:
  assumes "layout d" and "abs_storage d = setDl t c (Some (withFields m)) a" and "k \<in> fieldKeys"
    and "\<And>d'. layout d' \<Longrightarrow> abs_storage d' = setDl t c (Some (withFields (m(k \<mapsto> v)))) a \<Longrightarrow> implements (f d') y"
  shows "implements (rbind (dbPut (dlPath t c) k v d) f) y"
  using put_field_implements[OF assms(1), of t c "withFields m" k v] assms(2-4)
  by (intro implements_bind_Some[where a = "setDl t c (Some (withFields (m(k \<mapsto> v)))) a"]) auto

lemma field_keys [simp]: "keyVersion \<in> fieldKeys" "keyDescription \<in> fieldKeys" "keyMetadata \<in> fieldKeys"
    "keySignatureRequirement \<in> fieldKeys"
  by (simp_all add: fieldKeys_def)

lemma new_fields_implements:
  assumes "layout d" and "abs_storage d = setDl t c (Some (withFields (\<lambda>_. None))) a"
    and "length ws < 2 ^ 64"
  shows "implements (rbind (dbPut (dlPath t c) keyVersion (Storage_u32 (dl_Version dl)) d) (\<lambda>s.
      rbind (dbPut (dlPath t c) keyDescription (dl_Description dl) s) (\<lambda>s.
      rbind (dbPut (dlPath t c) keyMetadata (dl_Metadata dl) s) (\<lambda>s.
      rbind (rwrap x (marshalSignatureRequirement (bs_json b) r)) (\<lambda>sig.
      rbind (dbPut (dlPath t c) keySignatureRequirement sig s) (\<lambda>s.
      rfold (\<lambda>(i, w). storage_add (onMap b) (now i) t c w) ws s))))))
    (case marshalSignatureRequirement (bs_json b) r of Inl _ \<Rightarrow> None
     | Inr sig \<Rightarrow> specAddAll (bs_unsafe b) (bs_registry b) (bs_json b) t c (map (\<lambda>(i, w). (now i, w)) ws)
         (setDl t c (Some (withFields (createdFields dl sig))) a))"
proof -
  have all: "implements (rfold (\<lambda>(i, w). storage_add (onMap b) (now i) t c w) ws d')
      (specAddAll (bs_unsafe b) (bs_registry b) (bs_json b) t c (map (\<lambda>(i, w). (now i, w)) ws)
         (setDl t c (Some (withFields m)) a))"
    if "layout d'" "abs_storage d' = setDl t c (Some (withFields m)) a" for d' m
    using addAll_implements[OF that(1), of t c ws b now] that(2) assms(3) by (simp add: specRoom_def)
  show ?thesis
  proof (cases "marshalSignatureRequirement (bs_json b) r")
    case (Inl e)
    then show ?thesis
      by (simp, intro put_new_field[OF assms(1,2) field_keys(1)])
         (erule (1) put_new_field[OF _ _ field_keys(2)], erule (1) put_new_field[OF _ _ field_keys(3)], simp)
  next
    case (Inr sig)
    then show ?thesis
      by (simp add: createdFields_def, intro put_new_field[OF assms(1,2) field_keys(1)])
         (erule (1) put_new_field[OF _ _ field_keys(2)], erule (1) put_new_field[OF _ _ field_keys(3)],
          erule (1) put_new_field[OF _ _ field_keys(4)], erule (1) all)
  qed
qed

lemma Create_implements:
  assumes "layout d" and "length (dl_Workloads dl) < 2 ^ 64"
  shows "implements (Storage_Create (onMap b) now dl d)
    (specCreate (bs_unsafe b) (bs_registry b) (bs_json b) now dl (abs_storage d))"
proof -
  let ?t = "dl_TwinID dl" and ?c = "dl_ContractID dl"
  let ?twin = "dbCreateBucketIfNotExists [] (Storage_u32 ?t) d"
  have op: "implements ?twin (Some (abs_storage d)) \<and>
      (\<forall>d'. ?twin = Ok d' \<longrightarrow> db_buckets d' ([] @ [Storage_u32 ?t]) \<noteq> None \<and>
       db_vals d' = db_vals d \<and> (\<forall>q. db_buckets d q \<noteq> None \<longrightarrow> db_buckets d' q = db_buckets d q))"
    using assms(1) by (intro createIf_implements) (auto simp: dbBucket_def layout_no_values(1))
  then have twin: "implements (rwrap x ?twin) (Some (abs_storage d))" for x by simp
  show ?thesis
    unfolding Storage_Create_def Let_def onMap_simps db_simps
  proof (rule implements_bind_Some[OF twin], goal_cases)
    case (1 d1)
    with op have "db_buckets d1 (twinPath ?t) \<noteq> None" by auto
    note new = new_implements[OF \<open>layout d1\<close> this, where c = ?c and x = ErrDeploymentExists
      and y = "Wrap ''failed to create deployment''"]
    let ?G = "\<lambda>a. case marshalSignatureRequirement (bs_json b) (dl_SignatureRequirement dl) of Inl _ \<Rightarrow> None
     | Inr sig \<Rightarrow> specAddAll (bs_unsafe b) (bs_registry b) (bs_json b) ?t ?c
         (map (\<lambda>(i, w). (now i, w)) (enumerate 0 (dl_Workloads dl)))
         (setDl ?t ?c (Some (withFields (createdFields dl sig))) a)"
    have "specCreate (bs_unsafe b) (bs_registry b) (bs_json b) now dl (abs_storage d) =
        Option.bind (case sp_dl (abs_storage d1) ?t ?c of Some _ \<Rightarrow> None
          | None \<Rightarrow> Some (setDl ?t ?c (Some (withFields (\<lambda>_. None))) (abs_storage d1))) ?G"
      using 1(3) by (auto simp: specCreate_def split: option.split sum.split)
    then show ?case
      using new assms(2) by (simp only:, intro implements_bind[OF new])
        (auto intro!: new_fields_implements[OF _ setDl_fix] simp: length_enumerate split: option.splits)
  qed
qed

lemma fieldPair_key: "fieldPair J f = Ok (k, v) \<Longrightarrow> k \<in> fieldKeys"
  by (cases f) (auto simp: rbind_Ok_iff)

lemma Update_implements:
  assumes "layout d"
  shows "implements (Storage_Update (onMap b) t c fs d) (specUpdate (bs_json b) t c fs (abs_storage d))"
proof -
  let ?put = "\<lambda>f s. rbind (fieldPair (bs_json b) f) (\<lambda>(key, value).
      rwrap ''failed to update deployment'' (dbPut (dlPath t c) key value s))"
  have "implements (rfold ?put fs d) (specUpdate (bs_json b) t c fs (abs_storage d))"
    if "layout d" "sp_dl (abs_storage d) t c = Some ds" for d ds
    using that
  proof (induction fs arbitrary: d ds)
    case Nil
    then show ?case by (simp add: specUpdate_def setDl_same)
  next
    case (Cons f fs)
    show ?case
    proof (cases "fieldPair (bs_json b) f")
      case (Inl e)
      with Cons.prems show ?thesis by (simp add: specUpdate_def)
    next
      case (Inr kv)
      then obtain k v where kv: "fieldPair (bs_json b) f = Ok (k, v)" by (cases kv) simp
      let ?ds = "ds\<lparr>ds_fields := (ds_fields ds)(k \<mapsto> v)\<rparr>"
      have put: "implements (dbPut (dlPath t c) k v d) (Some (setDl t c (Some ?ds) (abs_storage d)))"
        using Cons.prems kv by (intro put_field_implements fieldPair_key)
      have "implements (rbind (dbPut (dlPath t c) k v d) (rfold ?put fs))
          (specUpdate (bs_json b) t c (f # fs) (abs_storage d))"
      proof (rule implements_bind_Some[OF put])
        fix d' assume d': "layout d'" "abs_storage d' = setDl t c (Some ?ds) (abs_storage d)"
        with Cons.IH[OF d'(1), of ?ds] Cons.prems kv
        show "implements (rfold ?put fs d') (specUpdate (bs_json b) t c (f # fs) (abs_storage d))"
          by (cases "rlist (fieldPair (bs_json b)) fs") (simp_all add: specUpdate_def)
      qed
      with kv show ?thesis by (cases "dbPut (dlPath t c) k v d") simp_all
    qed
  qed
  moreover have "openDeployment (onMap b) t c d \<noteq> Ok () \<Longrightarrow> \<exists>e. openDeployment (onMap b) t c d = Err e"
    by (cases "openDeployment (onMap b) t c d") auto
  ultimately show ?thesis
    using assms open_map[OF assms, of b t c "()"]
    by (cases "db_buckets d (dlPath t c)")
       (auto simp: Storage_Update_def specUpdate_def abs_simps)
qed

lemma Remove_implements:
  assumes "layout d"
  shows "implements (Storage_Remove (onMap b) t c n d) (Some (specRemove (bs_registry b) t c n (abs_storage d)))"
proof (cases "db_buckets d (dlPath t c) = None \<or> db_vals d (wlPath t c) n = None")
  case True
  then show ?thesis
    using assms layout_no_values(4)[OF assms, of "wlPath t c" n] layout_parents(3)[OF assms, of t c]
    by (auto simp: Storage_Remove_def specRemove_def dbBucket_def dbGet_def abs_simps absDl_def)
next
  case False
  then obtain q ty where dl: "db_buckets d (dlPath t c) = Some q" and tydef: "db_vals d (wlPath t c) n = Some ty" by auto
  have wl: "db_buckets d (wlPath t c) \<noteq> None" and twin: "db_buckets d (twinPath t) \<noteq> None"
    using layout_fields(3)[OF assms, of "wlPath t c" n] tydef layout_parents(3)[OF assms, of t c] dl by auto
  let ?a = "abs_storage d" and ?g = "IsSharable (bs_registry b) ty"
  let ?del = "\<lambda>p d. d\<lparr>db_vals := (db_vals d)(p := (db_vals d p)(n := None))\<rparr>"
  let ?d = "if ?g \<and> dbBucket (globalPath t) d then ?del (globalPath t) d else d"
  have d: "layout ?d" using layout_delete[OF assms, of "globalPath t" n] assms by auto
  have global: "db_vals d (globalPath t) n = None" if "db_buckets d (globalPath t) = None"
    using layout_no_values(4)[OF assms that] .
  have "abs_storage (?del (wlPath t c) ?d) = specRemove (bs_registry b) t c n ?a"
    using dl tydef global
    by (auto simp: specRemove_def abs_simps abs_storage_def absDl_def setDl_def setGlobal_def fun_eq_iff dbBucket_def)
  moreover have "layout (?del (wlPath t c) ?d)" by (rule layout_delete[OF d]) simp
  moreover have "Storage_Remove (onMap b) t c n d = Ok (?del (wlPath t c) ?d)"
    using wl twin dl tydef layout_no_bucket(1,3)[OF assms]
    by (auto simp: Storage_Remove_def dbBucket_def dbGet_def dbDelete_def)
  ultimately show ?thesis by simp
qed

definition removeBucket :: "path \<Rightarrow> Db \<Rightarrow> Db" where
  "removeBucket p d = \<lparr>db_buckets = (\<lambda>q. if prefix p q then None else db_buckets d q),
     db_vals = (\<lambda>q. if prefix p q then (\<lambda>_. None) else db_vals d q)\<rparr>"

lemma layout_remove:
  assumes "layout d"
  shows "layout (removeBucket p d)"
proof -
  have "finite (dom (db_buckets (removeBucket p d)))"
    by (rule finite_subset[of _ "dom (db_buckets d)"])
       (use assms in \<open>auto simp: removeBucket_def layout_def finiteDb_def split: if_splits\<close>)
  moreover have "prefix p q" if "prefix p (butlast q)" for q :: path
    using that by (metis prefix_order.trans prefixeq_butlast)
  ultimately show ?thesis
    using assms unfolding layout_def finiteDb_def
    by (auto simp: removeBucket_def dbBucket_def split: if_splits)
qed

lemma delete_found:
  assumes "layout d"
  shows "list_ex isDeploymentKey (dbCursor (twinPath t) d) \<longleftrightarrow> (\<exists>c. db_buckets d (dlPath t c) \<noteq> None)"
proof -
  have key: "k = keyGlobal \<or> (\<exists>c. k = Storage_u64 c)" if "db_buckets d [Storage_u32 t, k] \<noteq> None" for k
  proof -
    from that assms have "bucketShape [Storage_u32 t, k]" unfolding layout_def by blast
    then show ?thesis by (auto simp: bucketShape_def)
  qed
  have entry: "(k, v) \<in> set (dbCursor (twinPath t) d) \<longleftrightarrow> db_buckets d [Storage_u32 t, k] \<noteq> None \<and> v = None" for k v
    using layout_fields(1)[OF assms] layout_no_values(2)[OF assms] by (auto simp: set_dbCursor dbKeys_def)
  show ?thesis
  proof
    assume "list_ex isDeploymentKey (dbCursor (twinPath t) d)"
    then obtain k where "db_buckets d [Storage_u32 t, k] \<noteq> None" "k \<noteq> keyGlobal"
      unfolding list_ex_iff Bex_def split_paired_Ex entry isDeploymentKey_def by auto
    with key show "\<exists>c. db_buckets d (dlPath t c) \<noteq> None" by metis
  next
    assume "\<exists>c. db_buckets d (dlPath t c) \<noteq> None"
    then show "list_ex isDeploymentKey (dbCursor (twinPath t) d)"
      unfolding list_ex_iff Bex_def split_paired_Ex entry isDeploymentKey_def by force
  qed
qed

lemma Delete_implements:
  assumes "layout d"
  shows "implements (Storage_Delete (onMap b) t c d) (Some (specDelete t c (abs_storage d)))"
proof (cases "db_buckets d (twinPath t)")
  case None
  then have none: "db_buckets d (dlPath t x) = None" "db_buckets d (globalPath t) = None" for x
    using layout_parents(3,4)[OF assms] by blast+
  have "specDelete t c (abs_storage d) = abs_storage d"
    using none layout_no_values(4)[OF assms none(2)]
    by (auto simp: specDelete_def Let_def abs_simps abs_storage_def setDl_def fun_eq_iff)
  with None assms show ?thesis by (simp add: Storage_Delete_def dbBucket_def)
next
  case (Some q)
  define d' where "d' = (if db_buckets d (dlPath t c) = None then d else removeBucket (dlPath t c) d)"
  have d: "layout d'" using layout_remove[OF assms] assms by (simp add: d'_def)
  have abs: "abs_storage d' = setDl t c None (abs_storage d)"
    by (auto simp: d'_def abs_storage_def absDl_def setDl_def removeBucket_def fun_eq_iff)
  have twin: "db_buckets d' (twinPath t) \<noteq> None" using Some by (simp add: d'_def removeBucket_def)
  have first: "(case dbDeleteBucket (twinPath t) (Storage_u64 c) d of
      Inl e \<Rightarrow> if err_is e ErrBucketNotFound then Ok d else Err e | Inr s \<Rightarrow> Ok s) = Ok d'"
    using Some layout_no_values(2)[OF assms]
    by (simp add: d'_def dbDeleteBucket_def dbBucket_def removeBucket_def)
  show ?thesis
  proof (cases "\<exists>x. db_buckets d' (dlPath t x) \<noteq> None")
    case True
    then have "specDelete t c (abs_storage d) = abs_storage d'"
      unfolding specDelete_def Let_def abs[symmetric] by (auto simp: abs_simps)
    with True first d delete_found[OF d] Some show ?thesis
      unfolding Storage_Delete_def onMap_simps db_simps by (simp add: dbBucket_def)
  next
    case False
    then have "specDelete t c (abs_storage d) = abs_storage (removeBucket (twinPath t) d')"
      unfolding specDelete_def Let_def abs[symmetric]
      by (auto simp: abs_simps abs_storage_def absDl_def removeBucket_def fun_eq_iff)
    moreover have "dbDeleteBucket [] (Storage_u32 t) d' = Ok (removeBucket (twinPath t) d')"
      using twin by (simp add: dbDeleteBucket_def dbBucket_def removeBucket_def)
    ultimately show ?thesis
      using False first delete_found[OF d] Some layout_remove[OF d]
      unfolding Storage_Delete_def onMap_simps db_simps by (simp add: dbBucket_def)
  qed
qed

subsection \<open>Reads\<close>

lemma Current_spec:
  assumes "layout d"
  shows "Storage_Current (onMap b) t c n d = Ok w \<longleftrightarrow>
    (\<exists>ds ty. sp_dl (abs_storage d) t c = Some ds \<and> ds_active ds n = Some ty \<and>
       currentScan (bs_json b) n ty (rev (ds_log ds)) = Ok w)"
proof -
  have wl: "db_buckets d (wlPath t c) \<noteq> None" if "db_vals d (wlPath t c) n = Some ty" for ty
    using layout_fields(3)[OF assms, of "wlPath t c" n] that by simp
  have log: "valuesOf (db_vals d (logPath t c)) = []" if "db_buckets d (logPath t c) = None"
    using layout_no_values(4)[OF assms that] by (simp add: valuesOf_def dom_def)
  show ?thesis
    using wl log open_map[OF assms, of b t c "()"] cursor_values(1)[OF layout_no_bucket(2)[OF assms], of t c]
    by (auto simp: Storage_Current_def rbind_Ok_iff dbBucket_def dbGet_def abs_simps absDl_def
        split: option.splits if_splits)
qed

lemma pairsOf_Nil: "finite (dom m) \<Longrightarrow> pairsOf m = [] \<longleftrightarrow> m = (\<lambda>_. None)"
  by (auto simp: pairsOf_def)

lemma workloads_spec:
  assumes "layout d"
  shows "storage_workloads (onMap b) ord t c d = Ok ws \<longleftrightarrow>
    (\<exists>ds acc. sp_dl (abs_storage d) t c = Some ds \<and>
       (if pairsOf (ds_active ds) = [] then Ok [] else workloadsScan (bs_json b) (pairsOf (ds_active ds)) [] (rev (ds_log ds)))
         = Ok acc \<and>
       length acc = length (pairsOf (ds_active ds)) \<and> ws = ord (map snd acc))"
proof -
  have none: "db_vals d p = (\<lambda>_. None)" if "db_buckets d p = None" for p
    using layout_no_values(4)[OF assms that] by blast
  have "(if dbBucket (wlPath t c) d then map (\<lambda>kv. (fst kv, cursorValue kv)) (dbCursor (wlPath t c) d) else [])
      = pairsOf (db_vals d (wlPath t c))"
    using none[of "wlPath t c"] cursor_values(2)[OF layout_no_bucket(1)[OF assms], of t c]
    by (auto simp: dbBucket_def pairsOf_def)
  moreover have "valuesOf (db_vals d (logPath t c)) = []" if "\<not> dbBucket (logPath t c) d"
    using none[of "logPath t c"] that by (simp add: dbBucket_def valuesOf_def dom_def)
  ultimately show ?thesis
    using open_map[OF assms, of b t c "()"] cursor_values(1)[OF layout_no_bucket(2)[OF assms], of t c]
    unfolding storage_workloads_def Let_def onMap_simps db_simps
    by (auto simp: rbind_Ok_iff abs_simps absDl_def split: if_splits)
qed

text \<open>One scan for all names is a scan for each of them.\<close>

lemma workloadsScan_currentScan:
  assumes "distinct (map fst names)"
    and "\<forall>v \<in> set vs. \<exists>w. unmarshalWorkload J v = Ok w"
    and "\<And>n ty. map_of names n = Some ty \<Longrightarrow> n \<notin> fst ` set acc \<Longrightarrow> currentScan J n ty vs = Ok (cur n)"
    and "fst ` set acc \<subset> fst ` set names" and "distinct (map fst acc)"
    and "\<And>n w. (n, w) \<in> set acc \<Longrightarrow> w = cur n"
  shows "\<exists>res. workloadsScan J names acc vs = Ok res \<and> distinct (map fst res) \<and>
    fst ` set res = fst ` set names \<and> (\<forall>(n, w) \<in> set res. w = cur n)"
  using assms
proof (induction vs arbitrary: acc)
  case Nil
  then obtain n where n: "n \<in> fst ` set names" "n \<notin> fst ` set acc" by blast
  then obtain ty where "map_of names n = Some ty" by (metis map_of_eq_None_iff not_None_eq)
  from Nil.prems(3)[OF this n(2)] show ?case by simp
next
  case (Cons v vs)
  from Cons.prems(2) obtain w where w: "unmarshalWorkload J v = Ok w" by auto
  let ?n = "wl_Name w"
  have skip: "\<exists>res. workloadsScan J names acc vs = Ok res \<and> distinct (map fst res) \<and>
      fst ` set res = fst ` set names \<and> (\<forall>(n, w) \<in> set res. w = cur n)"
    if "?n \<in> fst ` set acc \<or> map_of names ?n = None \<or>
      (\<exists>ty. map_of names ?n = Some ty \<and> wl_Type w = ty \<and> State (wl_Result w) = StateUnChanged)"
  proof (rule Cons.IH[OF Cons.prems(1) _ _ Cons.prems(4,5,6)])
    show "\<forall>v \<in> set vs. \<exists>w. unmarshalWorkload J v = Ok w" using Cons.prems(2) by simp
    fix n ty assume "map_of names n = Some ty" "n \<notin> fst ` set acc"
    with Cons.prems(3)[of n ty] that w show "currentScan J n ty vs = Ok (cur n)"
      by (auto split: if_splits)
  qed
  show ?case
  proof (cases "?n \<in> fst ` set acc \<or> map_of names ?n = None \<or>
      (\<exists>ty. map_of names ?n = Some ty \<and> wl_Type w = ty \<and> State (wl_Result w) = StateUnChanged)")
    case True
    then have "workloadsScan J names acc (v # vs) = workloadsScan J names acc vs"
      using w by (auto simp: map_of_eq_None_iff[of acc] split: option.split)
    with skip[OF True] show ?thesis by simp
  next
    case False
    then obtain ty where ty: "map_of names ?n = Some ty" and new: "?n \<notin> fst ` set acc" by auto
    from Cons.prems(3)[OF ty new] w have cur: "wl_Type w = ty" "w = cur ?n" "State (wl_Result w) \<noteq> StateUnChanged"
      using False ty by (auto split: if_splits)
    let ?acc = "(?n, w) # acc"
    have "?n \<in> fst ` set names" using ty by (metis map_of_eq_None_iff option.distinct(1))
    then have sub: "fst ` set ?acc \<subseteq> fst ` set names" using Cons.prems(4) by auto
    have dist: "distinct (map fst ?acc)" using Cons.prems(5) new by simp
    have len: "length ?acc = length names \<longleftrightarrow> fst ` set ?acc = fst ` set names"
      using sub dist Cons.prems(1)
      by (metis (no_types, lifting) List.finite_set card_subset_eq distinct_card length_map set_map)
    have scan: "workloadsScan J names acc (v # vs) =
        (if length ?acc = length names then Ok ?acc else workloadsScan J names ?acc vs)"
      using w new ty cur by (simp add: map_of_eq_None_iff[THEN iffD2])
    show ?thesis
    proof (cases "length ?acc = length names")
      case True
      with scan len dist Cons.prems(6) cur(2) show ?thesis by (auto simp del: length_Cons)
    next
      case more: False
      have "\<exists>res. workloadsScan J names ?acc vs = Ok res \<and> distinct (map fst res) \<and>
          fst ` set res = fst ` set names \<and> (\<forall>(n, w) \<in> set res. w = cur n)"
      proof (rule Cons.IH[OF Cons.prems(1) _ _ _ dist])
        show "\<forall>v \<in> set vs. \<exists>w. unmarshalWorkload J v = Ok w" using Cons.prems(2) by simp
        fix n ty assume "map_of names n = Some ty" "n \<notin> fst ` set ?acc"
        with Cons.prems(3)[of n ty] w show "currentScan J n ty vs = Ok (cur n)" by (auto split: if_splits)
      qed (use more len sub Cons.prems(6) cur(2) in auto)
      with scan more show ?thesis by simp
    qed
  qed
qed

section \<open>Invariants\<close>

text \<open>
  What the storage relies on of \<open>encoding/json\<close>: a marshalled value can be read back, and
  what is read back is the same but for the layout of the raw \<open>data\<close> fields.
\<close>

definition sameRecord :: "Workload \<Rightarrow> Workload \<Rightarrow> bool" where
  "sameRecord w w' \<longleftrightarrow> w' = w\<lparr>wl_Data := wl_Data w',
     wl_Result := (wl_Result w)\<lparr>Data := Data (wl_Result w')\<rparr>\<rparr>"

definition jsonKeeps :: "Json \<Rightarrow> bool" where
  "jsonKeeps J \<longleftrightarrow>
     (\<forall>w v. marshalWorkload J w = Ok v \<longrightarrow> v \<noteq> [] \<and> (\<exists>w'. unmarshalWorkload J v = Ok w' \<and> sameRecord w w')) \<and>
     (\<forall>r v. marshalSignatureRequirement J r = Ok v \<longrightarrow> unmarshalSignatureRequirement J v = Ok r)"

lemma sameRecord_fields:
  assumes "sameRecord w w'"
  shows "wl_Name w' = wl_Name w" "wl_Type w' = wl_Type w" "State (wl_Result w') = State (wl_Result w)"
    "wl_Version w' = wl_Version w" "Created (wl_Result w') = Created (wl_Result w)"
  using assms unfolding sameRecord_def by (metis Workload.select_convs Workload.surjective Workload.update_convs
      Result.select_convs Result.surjective Result.update_convs)+

text \<open>A consistent deployment: its fields can be read, every record of its log can be read, and
  every active workload has a current state.\<close>

definition dlConsistent :: "Json \<Rightarrow> DlState \<Rightarrow> bool" where
  "dlConsistent J ds \<longleftrightarrow> finite (dom (ds_active ds)) \<and>
     (\<exists>v. ds_fields ds keyVersion = Some (Storage_u32 v)) \<and>
     (\<exists>s r. ds_fields ds keySignatureRequirement = Some s \<and> unmarshalSignatureRequirement J s = Ok r) \<and>
     (\<forall>v \<in> set (ds_log ds). v \<noteq> [] \<and> (\<exists>w. unmarshalWorkload J v = Ok w)) \<and>
     (\<forall>n ty. ds_active ds n = Some ty \<longrightarrow> (\<exists>w. currentScan J n ty (rev (ds_log ds)) = Ok w))"

definition consistent :: "Json \<Rightarrow> SpecStorage \<Rightarrow> bool" where
  "consistent J a \<longleftrightarrow> (\<forall>t c ds. sp_dl a t c = Some ds \<longrightarrow> dlConsistent J ds)"

text \<open>Every active shared workload owns its name.\<close>

definition sharedOwned :: "Registry \<Rightarrow> SpecStorage \<Rightarrow> bool" where
  "sharedOwned G a \<longleftrightarrow> (\<forall>t c ds n ty. sp_dl a t c = Some ds \<longrightarrow> ds_active ds n = Some ty \<longrightarrow>
     IsSharable G ty \<longrightarrow> sp_global a t n = Some (Storage_u64 c))"

lemma dlConsistent_log:
  assumes "jsonKeeps J" and "dlConsistent J ds" and "marshalWorkload J w = Ok data"
    and "finite (dom act)"
    and "\<And>n ty. act n = Some ty \<Longrightarrow> n \<noteq> wl_Name w \<Longrightarrow> ds_active ds n = Some ty"
    and "\<And>ty. act (wl_Name w) = Some ty \<Longrightarrow> ty = wl_Type w \<and> (State (wl_Result w) = StateUnChanged \<longrightarrow> ds_active ds (wl_Name w) = Some ty)"
  shows "dlConsistent J (ds\<lparr>ds_active := act, ds_log := ds_log ds @ [data]\<rparr>)"
proof -
  from assms(1,3) obtain w' where w': "unmarshalWorkload J data = Ok w'" "sameRecord w w'" "data \<noteq> []"
    unfolding jsonKeeps_def by blast
  note same = sameRecord_fields[OF w'(2)]
  have old: "ds_active ds n = Some ty \<Longrightarrow> \<exists>w. currentScan J n ty (rev (ds_log ds)) = Ok w" for n ty
    using assms(2) by (simp add: dlConsistent_def)
  have "\<exists>x. currentScan J n ty (data # rev (ds_log ds)) = Ok x" if act: "act n = Some ty" for n ty
    using act w' same old[of n ty] assms(5)[OF act] assms(6)[of ty]
    by (cases "n = wl_Name w") auto
  with assms(2,4) w' show ?thesis by (auto simp: dlConsistent_def)
qed

lemma consistent_setDl [wf_intros]:
  "consistent J a \<Longrightarrow> (\<And>ds. x = Some ds \<Longrightarrow> dlConsistent J ds) \<Longrightarrow> consistent J (setDl t c x a)"
  by (auto simp: consistent_def)

lemma consistent_setGlobal [simp]: "consistent J (setGlobal t n v a) = consistent J a"
  by (simp add: consistent_def)

lemma consistent_share: "specShare u G t c w a = Some a' \<Longrightarrow> consistent J a' = consistent J a"
  using share_keeps_dl[of u G t c w a a'] by (simp add: consistent_def)

lemma transaction_consistent [wf_intros]:
  assumes "jsonKeeps J" and "consistent J a" and "specTransaction J t c w a = Some a'"
  shows "consistent J a'"
proof -
  from specTransaction_log[OF assms(3)] obtain ds data where ds: "sp_dl a t c = Some ds"
    and w: "marshalWorkload J w = Ok data" "ds_active ds (wl_Name w) = Some (wl_Type w)"
    and a': "a' = setDl t c (Some (ds\<lparr>ds_log := ds_log ds @ [data]\<rparr>)) a" by blast
  have c: "dlConsistent J ds" using assms(2) ds by (simp add: consistent_def)
  then have "dlConsistent J (ds\<lparr>ds_active := ds_active ds, ds_log := ds_log ds @ [data]\<rparr>)"
    using w by (intro dlConsistent_log[OF assms(1)]) (auto simp: dlConsistent_def)
  then show ?thesis using assms(2) by (auto simp: a' intro!: consistent_setDl)
qed

lemma add_consistent [wf_intros]:
  assumes "jsonKeeps J" and "consistent J a" and "specAdd u G J now t c w a = Some a'"
  shows "consistent J a'"
proof -
  from specAdd_effect[OF assms(3)] obtain ds data a1 where ds: "sp_dl a t c = Some ds"
    and w: "marshalWorkload J (WithResults w (initResult now)) = Ok data" "ds_active ds (wl_Name w) = None"
    and a1: "specShare u G t c w a = Some a1"
    and a': "a' = setDl t c (Some (ds\<lparr>ds_active := (ds_active ds)(wl_Name w \<mapsto> wl_Type w),
      ds_log := ds_log ds @ [data]\<rparr>)) a1" by blast
  have c: "dlConsistent J ds" using assms(2) ds by (simp add: consistent_def)
  then have "dlConsistent J (ds\<lparr>ds_active := (ds_active ds)(wl_Name w \<mapsto> wl_Type w), ds_log := ds_log ds @ [data]\<rparr>)"
    using w(1) by (intro dlConsistent_log[OF assms(1)])
      (auto simp: dlConsistent_def initResult_def state_defs split: if_splits)
  then show ?thesis using assms(2) consistent_share[OF a1] by (auto simp: a' intro!: consistent_setDl)
qed

lemma addAll_consistent [wf_intros]:
  "jsonKeeps J \<Longrightarrow> consistent J a \<Longrightarrow> specAddAll u G J t c ws a = Some a' \<Longrightarrow> consistent J a'"
  by (induction u G J t c ws a rule: specAddAll.induct)
     (auto simp: bind_eq_Some_conv intro: add_consistent)

lemma create_consistent [wf_intros]:
  assumes "jsonKeeps J" and "consistent J a" and "specCreate u G J now dl a = Some a'"
  shows "consistent J a'"
proof -
  from assms(3) obtain sig where sig: "marshalSignatureRequirement J (dl_SignatureRequirement dl) = Ok sig"
    and all: "specAddAll u G J (dl_TwinID dl) (dl_ContractID dl)
        (map (\<lambda>(i, w). (now i, w)) (enumerate 0 (dl_Workloads dl)))
      (setDl (dl_TwinID dl) (dl_ContractID dl) (Some (withFields (createdFields dl sig))) a) = Some a'"
    by (auto simp: specCreate_def split: option.splits sum.splits)
  have "dlConsistent J (withFields (createdFields dl sig))"
    using assms(1) sig by (auto simp: dlConsistent_def createdFields_def jsonKeeps_def key_defs)
  with addAll_consistent[OF assms(1) _ all] assms(2) show ?thesis by (auto intro!: consistent_setDl)
qed

lemma update_consistent [wf_intros]:
  assumes "jsonKeeps J" and "consistent J a" and "specUpdate J t c fs a = Some a'"
  shows "consistent J a'"
proof -
  from assms(3) obtain ds kvs where ds: "sp_dl a t c = Some ds" and kvs: "rlist (fieldPair J) fs = Ok kvs"
    and a': "a' = setDl t c (Some (ds\<lparr>ds_fields := fold (\<lambda>(k, v) m. m(k \<mapsto> v)) kvs (ds_fields ds)\<rparr>)) a"
    by (auto simp: specUpdate_def split: option.splits sum.splits)
  have "dlConsistent J (ds\<lparr>ds_fields := fold (\<lambda>(k, v) m. m(k \<mapsto> v)) kvs (ds_fields ds)\<rparr>)"
    if "dlConsistent J ds" "rlist (fieldPair J) fs = Ok kvs" for ds
    using that
  proof (induction fs arbitrary: kvs ds)
    case (Cons f fs)
    from Cons.prems(2) obtain k v kvs' where kv: "fieldPair J f = Ok (k, v)" and kvs': "kvs = (k, v) # kvs'"
      "rlist (fieldPair J) fs = Ok kvs'" by (auto simp: rbind_Ok_iff)
    have "dlConsistent J (ds\<lparr>ds_fields := (ds_fields ds)(k \<mapsto> v)\<rparr>)"
      using Cons.prems(1) kv assms(1)
      by (cases f) (auto simp: dlConsistent_def rbind_Ok_iff jsonKeeps_def key_defs)
    from Cons.IH[OF this kvs'(2)] kvs'(1) show ?case by simp
  qed simp
  with ds kvs assms(2) show ?thesis unfolding a'
    by (intro consistent_setDl) (auto simp: consistent_def)
qed

lemma remove_consistent [wf_intros]:
  assumes "consistent J a"
  shows "consistent J (specRemove G t c n a)"
  using assms
  by (auto simp: specRemove_def dlConsistent_def consistent_def split: option.splits if_splits)

lemma delete_consistent [wf_intros]: "consistent J a \<Longrightarrow> consistent J (specDelete t c a)"
  by (auto simp: specDelete_def Let_def consistent_def split: if_splits)

lemma sharedOwnedD:
  "sharedOwned G a \<Longrightarrow> sp_dl a t c = Some ds \<Longrightarrow> ds_active ds n = Some ty \<Longrightarrow> IsSharable G ty \<Longrightarrow>
     sp_global a t n = Some (Storage_u64 c)"
  by (simp add: sharedOwned_def)

lemma sharedOwned_setDl:
  assumes "sharedOwned G a" and "\<And>ds. x = Some ds \<Longrightarrow> \<exists>old. sp_dl a t c = Some old \<and>
      (\<forall>n. ds_active ds n \<noteq> None \<longrightarrow> ds_active ds n = ds_active old n)"
  shows "sharedOwned G (setDl t c x a)"
  using assms(1) assms(2) unfolding sharedOwned_def
  by (auto split: if_splits)

lemma transaction_shared: "sharedOwned G a \<Longrightarrow> specTransaction J t c w a = Some a' \<Longrightarrow> sharedOwned G a'"
  by (auto dest!: specTransaction_log intro!: sharedOwned_setDl)

lemma add_shared:
  assumes "sharedOwned G a" and "specAdd False G J now t c w a = Some a'"
  shows "sharedOwned G a'"
proof -
  from specAdd_effect[OF assms(2)] obtain ds data a1 where ds: "sp_dl a t c = Some ds"
    and w: "ds_active ds (wl_Name w) = None"
    and a1: "specShare False G t c w a = Some a1"
    and a': "a' = setDl t c (Some (ds\<lparr>ds_active := (ds_active ds)(wl_Name w \<mapsto> wl_Type w),
      ds_log := ds_log ds @ [data]\<rparr>)) a1" by blast
  from a1 consider "\<not> IsSharable G (wl_Type w)" "a1 = a"
    | "IsSharable G (wl_Type w)" "sp_global a t (wl_Name w) = None"
      "a1 = setGlobal t (wl_Name w) (Some (Storage_u64 c)) a"
    by (auto simp: specShare_def split: if_splits)
  then show ?thesis
    using assms(1) ds w unfolding sharedOwned_def a'
    by cases (auto split: if_splits)
qed

lemma addAll_shared: "sharedOwned G a \<Longrightarrow> specAddAll False G J t c ws a = Some a' \<Longrightarrow> sharedOwned G a'"
  by (induction "False" G J t c ws a rule: specAddAll.induct)
     (auto simp: bind_eq_Some_conv intro: add_shared)

lemma create_shared:
  assumes "sharedOwned G a" and "specCreate False G J now dl a = Some a'"
  shows "sharedOwned G a'"
proof -
  from assms(2) obtain sig where
    all: "specAddAll False G J (dl_TwinID dl) (dl_ContractID dl)
        (map (\<lambda>(i, w). (now i, w)) (enumerate 0 (dl_Workloads dl)))
      (setDl (dl_TwinID dl) (dl_ContractID dl) (Some (withFields (createdFields dl sig))) a) = Some a'"
    by (auto simp: specCreate_def split: option.splits sum.splits)
  show ?thesis
    by (rule addAll_shared[OF _ all]) (use assms(1) in \<open>auto simp: sharedOwned_def split: if_splits\<close>)
qed

lemma update_shared: "sharedOwned G a \<Longrightarrow> specUpdate J t c fs a = Some a' \<Longrightarrow> sharedOwned G a'"
  by (auto simp: specUpdate_def intro!: sharedOwned_setDl split: option.splits sum.splits)

lemma remove_shared:
  assumes "sharedOwned G a"
  shows "sharedOwned G (specRemove G t c n a)"
  using assms sharedOwnedD[OF assms, of t c _ n]
  unfolding specRemove_def sharedOwned_def
  by (auto split: option.splits if_splits)
     (metis option.inject u64_inject)+

lemma delete_shared: "sharedOwned G a \<Longrightarrow> sharedOwned G (specDelete t c a)"
  by (auto simp: specDelete_def Let_def sharedOwned_def split: if_splits)

section \<open>Runs of the storage\<close>

text \<open>The room that the logs have left (sequence numbers have 64 bits).\<close>

definition logSize :: "'tx BoltStorage \<Rightarrow> u32 \<Rightarrow> u64 \<Rightarrow> 'tx \<Rightarrow> nat" where
  "logSize b t c s = length (boltCursor (bs_db b) (logPath t c) s)"

text \<open>One committed operation.\<close>

inductive storage_step :: "'tx BoltStorage \<Rightarrow> 'tx \<Rightarrow> 'tx \<Rightarrow> bool" for b where
  Create: "Storage_Create b now dl s = Ok s' \<Longrightarrow> length (dl_Workloads dl) < 2 ^ 64 \<Longrightarrow> storage_step b s s'"
| Update: "Storage_Update b t c fs s = Ok s' \<Longrightarrow> storage_step b s s'"
| Delete: "Storage_Delete b t c s = Ok s' \<Longrightarrow> storage_step b s s'"
| Add: "Storage_Add b now t c w s = Ok s' \<Longrightarrow> logSize b t c s + 1 < 2 ^ 64 \<Longrightarrow> storage_step b s s'"
| Remove: "Storage_Remove b t c n s = Ok s' \<Longrightarrow> storage_step b s s'"
| Transaction: "Storage_Transaction b t c w s = Ok s' \<Longrightarrow> logSize b t c s + 1 < 2 ^ 64 \<Longrightarrow> storage_step b s s'"
| Error: "Storage_Get b ord t c s = Ok dl \<Longrightarrow> logSize b t c s + length (dl_Workloads dl) < 2 ^ 64 \<Longrightarrow>
    Storage_Error b ord now t c e s = Ok s' \<Longrightarrow> storage_step b s s'"

inductive storage_run :: "'tx BoltStorage \<Rightarrow> 'tx \<Rightarrow> 'tx \<Rightarrow> bool" for b s0 where
  start: "storage_run b s0 s0"
| step: "storage_run b s0 s \<Longrightarrow> storage_step b s s' \<Longrightarrow> storage_run b s0 s'"

definition storageInv :: "'tx BoltStorage \<Rightarrow> Db \<Rightarrow> bool" where
  "storageInv b d \<longleftrightarrow> layout d \<and> consistent (bs_json b) (abs_storage d) \<and>
     (\<not> bs_unsafe b \<longrightarrow> sharedOwned (bs_registry b) (abs_storage d))"

lemma storageInv_implements:
  assumes "implements r x" and "r = Ok d'"
    and "\<And>a. x = Some a \<Longrightarrow> consistent (bs_json b) a"
    and "\<And>a. x = Some a \<Longrightarrow> \<not> bs_unsafe b \<Longrightarrow> sharedOwned (bs_registry b) a"
  shows "storageInv b d'"
  using assms by (auto simp: storageInv_def)

lemma storageInv_transaction:
  assumes "jsonKeeps (bs_json b)" and "storageInv b d" and "specRoom t c 1 (abs_storage d)"
    and "storage_transaction (onMap b) t c w d = Ok d'"
  shows "storageInv b d'"
  using assms transaction_implements[of d t c b w]
  by (intro storageInv_implements[OF _ assms(4)])
     (auto simp: storageInv_def intro: transaction_consistent transaction_shared)

lemma storageInv_transactions:
  assumes "jsonKeeps (bs_json b)" and "storageInv b d" and "specRoom t c (length ws) (abs_storage d)"
    and "rfold (\<lambda>w. storage_transaction (onMap b) t c (WithResults w r)) ws d = Ok d'"
  shows "storageInv b d'"
  using assms
proof (induction ws arbitrary: d)
  case (Cons w ws)
  from Cons.prems(4) obtain d1 where d1: "storage_transaction (onMap b) t c (WithResults w r) d = Ok d1"
    and rest: "rfold (\<lambda>w. storage_transaction (onMap b) t c (WithResults w r)) ws d1 = Ok d'"
    by (auto simp: rbind_Ok_iff)
  have room: "specRoom t c 1 (abs_storage d)" using Cons.prems(3) by (auto simp: specRoom_def split: option.splits)
  have inv: "storageInv b d1" using storageInv_transaction[OF Cons.prems(1,2) room d1] .
  have "implements (Ok d1) (specTransaction (bs_json b) t c (WithResults w r) (abs_storage d))"
    using transaction_implements[of d t c b "WithResults w r"] room Cons.prems(2) d1 by (simp add: storageInv_def)
  then have "specRoom t c (length ws) (abs_storage d1)"
    using Cons.prems(3) by (auto simp: specRoom_def dest!: specTransaction_log)
  from Cons.IH[OF Cons.prems(1) inv this rest] show ?case .
qed simp

lemma logSize_spec:
  "layout d \<Longrightarrow> sp_dl (abs_storage d) t c = Some ds \<Longrightarrow> logSize (onMap b) t c d = length (ds_log ds)"
  using cursor_values(1)[OF layout_no_bucket(2), of d t c]
  by (auto simp: logSize_def abs_simps absDl_def split: if_splits) (metis length_map)

lemma room_of_logSize:
  "layout d \<Longrightarrow> logSize (onMap b) t c d + n < 2 ^ 64 \<Longrightarrow> specRoom t c n (abs_storage d)"
  by (cases "sp_dl (abs_storage d) t c") (simp_all add: specRoom_def logSize_spec[of d t c])

lemma step_map_inv:
  assumes "jsonKeeps (bs_json b)" and "storageInv b d" and "storage_step (onMap b) d d'"
  shows "storageInv b d'"
proof -
  have l: "layout d" and c: "consistent (bs_json b) (abs_storage d)"
    and g: "\<not> bs_unsafe b \<Longrightarrow> sharedOwned (bs_registry b) (abs_storage d)"
    using assms(2) by (auto simp: storageInv_def)
  from assms(3) show ?thesis
  proof cases
    case Create
    then show ?thesis using c g assms(1)
      by (intro storageInv_implements[OF Create_implements[OF l]]) (auto intro: create_consistent create_shared)
  next
    case Update
    then show ?thesis using c g assms(1)
      by (intro storageInv_implements[OF Update_implements[OF l]]) (auto intro: update_consistent update_shared)
  next
    case Delete
    then show ?thesis using c g
      by (intro storageInv_implements[OF Delete_implements[OF l]]) (auto intro: delete_consistent delete_shared)
  next
    case (Add now t c' w)
    then show ?thesis using c g assms(1) room_of_logSize[OF l, of b t c' 1] unfolding Storage_Add_def
      by (intro storageInv_implements[OF add_implements[OF l]]) (auto intro: add_consistent add_shared)
  next
    case Remove
    then show ?thesis using c g
      by (intro storageInv_implements[OF Remove_implements[OF l]]) (auto intro: remove_consistent remove_shared)
  next
    case (Transaction t c' w)
    then show ?thesis using room_of_logSize[OF l, of b t c' 1] unfolding Storage_Transaction_def
      by (intro storageInv_transaction[OF assms(1,2)]) auto
  next
    case (Error ord t c' dl now e)
    then show ?thesis using room_of_logSize[OF l, of b t c' "length (dl_Workloads dl)"]
      by (intro storageInv_transactions[OF assms(1,2)]) (auto simp: Storage_Error_def rbind_Ok_iff)
  qed
qed

end
