(* ===== verification/StorageProps.thy ===== *)
theory StorageProps
  imports StorageSpec
begin

text \<open>
  The properties of the storage, on any database that behaves like bbolt: the facts proved on the
  plain map are carried back through the locale \<open>bolt\<close>. The witnesses run on the
  association-list database with a length-prefixed codec in place of \<open>encoding/json\<close>.
\<close>

section \<open>From the map back to the database\<close>

context bolt
begin

lemma ok_map: "rmap \<alpha> r = r' \<Longrightarrow> r = Ok s' \<Longrightarrow> r' = Ok (\<alpha> s')"
  by auto

lemma step_map:
  assumes b: "bs_db b = B" and "storage_step b s s'"
  shows "storage_step (onMap b) (\<alpha> s) (\<alpha> s')"
proof -
  have size: "logSize b t c s = logSize (onMap b) t c (\<alpha> s)" for t c
    by (simp add: logSize_def b cursor)
  from assms(2) show ?thesis
  proof cases
    case Create
    then show ?thesis by (intro storage_step.Create ok_map[OF Create_map[OF b]])
  next
    case Update
    then show ?thesis by (intro storage_step.Update ok_map[OF Update_map[OF b]])
  next
    case Delete
    then show ?thesis by (intro storage_step.Delete ok_map[OF Delete_map[OF b]])
  next
    case Add
    then show ?thesis
      unfolding size Storage_Add_def
      by (intro storage_step.Add) (auto simp: Storage_Add_def intro: ok_map[OF add_map[OF b]])
  next
    case Remove
    then show ?thesis by (intro storage_step.Remove ok_map[OF Remove_map[OF b]])
  next
    case Transaction
    then show ?thesis
      unfolding size Storage_Transaction_def
      by (intro storage_step.Transaction) (auto simp: Storage_Transaction_def intro: ok_map[OF transaction_map[OF b]])
  next
    case Error
    then show ?thesis
      unfolding size by (intro storage_step.Error ok_map[OF Error_map[OF b]]) (auto simp: Get_map[OF b])
  qed
qed

lemma run_inv:
  assumes "bs_db b = B" and "jsonKeeps (bs_json b)" and "\<alpha> s0 = emptyDb" and "storage_run b s0 s"
  shows "storageInv b (\<alpha> s)"
  using assms(4)
proof induction
  case start
  have "layout emptyDb"
    by (auto simp: layout_def emptyDb_def finiteDb_def)
  then show ?case
    by (simp add: storageInv_def assms(3) consistent_def sharedOwned_def abs_simps) (simp add: emptyDb_def)
next
  case (step s s')
  then show ?case using step_map_inv[OF assms(2)] step_map[OF assms(1)] by blast
qed

end

lemma currentScan_Ok:
  "currentScan J n ty vs = Ok w \<Longrightarrow> wl_Name w = n \<and> wl_Type w = ty \<and> State (wl_Result w) \<noteq> StateUnChanged"
  by (induction vs) (auto simp: rbind_Ok_iff split: if_splits)

lemma pairsOf_map:
  assumes "finite (dom m)"
  shows "map_of (pairsOf m) = m" "distinct (map fst (pairsOf m))" "fst ` set (pairsOf m) = dom m"
proof -
  have "map_of (map (\<lambda>k. (k, the (m k))) ks) k = (if k \<in> set ks then Some (the (m k)) else None)" for ks k
    by (induction ks) auto
  then show "map_of (pairsOf m) = m" using assms by (auto simp: pairsOf_def fun_eq_iff domIff)
  show "distinct (map fst (pairsOf m))" "fst ` set (pairsOf m) = dom m"
    using assms by (simp_all add: pairsOf_def comp_def image_image)
qed

text \<open>The workloads of a consistent deployment: the current state of each active name.\<close>

lemma consistent_workloads:
  assumes "layout d" and "dlConsistent (bs_json b) ds" and "sp_dl (abs_storage d) t c = Some ds"
  shows "\<exists>acc. storage_workloads (onMap b) ord t c d = Ok (ord (map snd acc)) \<and>
    distinct (map fst acc) \<and> fst ` set acc = dom (ds_active ds) \<and>
    (\<forall>(n, w) \<in> set acc. Storage_Current (onMap b) t c n d = Ok w)"
proof -
  let ?names = "pairsOf (ds_active ds)" and ?vs = "rev (ds_log ds)"
  have fin: "finite (dom (ds_active ds))" using assms(2) by (simp add: dlConsistent_def)
  note names = pairsOf_map[OF fin]
  define cur where "cur n = (THE w. Storage_Current (onMap b) t c n d = Ok w)" for n
  have cur: "Storage_Current (onMap b) t c n d = Ok (cur n)" "currentScan (bs_json b) n ty ?vs = Ok (cur n)"
    if "ds_active ds n = Some ty" for n ty
  proof -
    from assms(2) that obtain w where w: "currentScan (bs_json b) n ty ?vs = Ok w" unfolding dlConsistent_def by blast
    with that assms(3) have "Storage_Current (onMap b) t c n d = Ok w" by (auto simp: Current_spec[OF assms(1)])
    with w show "Storage_Current (onMap b) t c n d = Ok (cur n)" "currentScan (bs_json b) n ty ?vs = Ok (cur n)"
      by (simp_all add: cur_def)
  qed
  have "\<exists>acc. (if ?names = [] then Ok [] else workloadsScan (bs_json b) ?names [] ?vs) = Ok acc \<and> distinct (map fst acc) \<and>
      fst ` set acc = fst ` set ?names \<and> (\<forall>(n, w) \<in> set acc. w = cur n)"
  proof (cases "?names = []")
    case False
    have "\<exists>acc. workloadsScan (bs_json b) ?names [] ?vs = Ok acc \<and> distinct (map fst acc) \<and>
      fst ` set acc = fst ` set ?names \<and> (\<forall>(n, w) \<in> set acc. w = cur n)"
      by (rule workloadsScan_currentScan[OF names(2)])
         (use assms(2) cur(2) False names(1) in \<open>auto simp: dlConsistent_def\<close>)
    with False show ?thesis by simp
  qed simp
  then obtain acc where acc: "(if ?names = [] then Ok [] else workloadsScan (bs_json b) ?names [] ?vs) = Ok acc"
    "distinct (map fst acc)" "fst ` set acc = dom (ds_active ds)" "\<forall>(n, w) \<in> set acc. w = cur n"
    unfolding names(3) by blast
  then have "length acc = length ?names"
    using names by (metis distinct_card length_map set_map)
  with acc assms(3) have "storage_workloads (onMap b) ord t c d = Ok (ord (map snd acc))"
    unfolding workloads_spec[OF assms(1)] by blast
  moreover have "Storage_Current (onMap b) t c n d = Ok w" if "(n, w) \<in> set acc" for n w
  proof -
    from that acc(3) obtain ty where "ds_active ds n = Some ty" by (metis domD fst_conv image_eqI)
    from cur(1)[OF this] that acc(4) show ?thesis by auto
  qed
  ultimately show ?thesis using acc(2,3) by blast
qed

lemma consistent_get:
  assumes "layout d" and "dlConsistent (bs_json b) ds" and "sp_dl (abs_storage d) t c = Some ds"
  shows "\<exists>dl ws. Storage_Get (onMap b) ord t c d = Ok dl \<and> storage_workloads (onMap b) ord t c d = Ok ws \<and>
    dl_Workloads dl = ws \<and> dl_TwinID dl = t \<and> dl_ContractID dl = c \<and>
    ds_fields ds keyVersion = Some (Storage_u32 (dl_Version dl)) \<and>
    dl_Metadata dl = (case ds_fields ds keyMetadata of None \<Rightarrow> [] | Some v \<Rightarrow> v) \<and>
    dl_Description dl = (case ds_fields ds keyDescription of None \<Rightarrow> [] | Some v \<Rightarrow> v) \<and>
    (\<exists>sg. ds_fields ds keySignatureRequirement = Some sg \<and>
       unmarshalSignatureRequirement (bs_json b) sg = Ok (dl_SignatureRequirement dl))"
proof -
  obtain ws where ws: "storage_workloads (onMap b) ord t c d = Ok ws"
    using consistent_workloads[OF assms] by blast
  from assms(2) obtain v sg r where v: "ds_fields ds keyVersion = Some (Storage_u32 v)"
    and r: "ds_fields ds keySignatureRequirement = Some sg" "unmarshalSignatureRequirement (bs_json b) sg = Ok r"
    unfolding dlConsistent_def by blast
  have ds: "db_buckets d (dlPath t c) \<noteq> None" "ds_fields ds = db_vals d (dlPath t c)"
    using assms(3) by (auto simp: abs_simps absDl_def split: if_splits)
  have "openDeployment (onMap b) t c d = Ok ()" using ds(1) open_map[OF assms(1)] by blast
  with ws v r ds show ?thesis
    unfolding Storage_Get_def Let_def onMap_simps db_simps dbGet_def by simp
qed

lemma get_missing:
  assumes "layout d" and "sp_dl (abs_storage d) t c = None"
  shows "\<exists>e. Storage_Get (onMap b) ord t c d = Err e \<and> err_is e ErrDeploymentNotExists"
  using assms by (auto simp: Storage_Get_def Let_def openDeployment_def abs_simps dbBucket_def split: if_splits)

lemma get_current_inv:
  assumes "bolt B \<alpha>" and "bs_db b = B" and "storageInv b (\<alpha> s)" and "\<And>xs. mset (ord xs) = mset xs"
    and "Storage_Get b ord t c s = Ok dl"
  shows "distinct (map wl_Name (dl_Workloads dl)) \<and>
    (\<forall>w. w \<in> set (dl_Workloads dl) \<longleftrightarrow> Storage_Current b t c (wl_Name w) s = Ok w)"
proof -
  have inv: "layout (\<alpha> s)" "consistent (bs_json b) (abs_storage (\<alpha> s))"
    using assms(3) by (simp_all add: storageInv_def)
  note maps = bolt.Get_map[OF assms(1,2)] bolt.Current_map[OF assms(1,2)]
  from assms(5) get_missing[OF inv(1), of t c b ord] obtain ds where ds: "sp_dl (abs_storage (\<alpha> s)) t c = Some ds"
    by (cases "sp_dl (abs_storage (\<alpha> s)) t c") (auto simp: maps)
  with inv(2) have cons: "dlConsistent (bs_json b) ds" by (simp add: consistent_def)
  obtain acc where acc: "storage_workloads (onMap b) ord t c (\<alpha> s) = Ok (ord (map snd acc))"
    "distinct (map fst acc)" "fst ` set acc = dom (ds_active ds)"
    "\<forall>(n, w) \<in> set acc. Storage_Current (onMap b) t c n (\<alpha> s) = Ok w"
    using consistent_workloads[OF inv(1) cons ds] by blast
  have dl: "dl_Workloads dl = ord (map snd acc)"
    using consistent_get[OF inv(1) cons ds, of ord] acc(1) assms(5) by (auto simp: maps)
  have names: "wl_Name w = n" if "(n, w) \<in> set acc" for n w
    using that acc(4) currentScan_Ok by (fastforce simp: Current_spec[OF inv(1)])
  then have "map wl_Name (map snd acc) = map fst acc" by (auto simp: map_eq_conv)
  with acc(2) have "distinct (map wl_Name (map snd acc))" by metis
  then have "distinct (map wl_Name (dl_Workloads dl))"
    using assms(4)[of "map snd acc"] unfolding dl by (metis mset_eq_imp_distinct_iff mset_map)
  moreover have "w \<in> set (dl_Workloads dl) \<longleftrightarrow> Storage_Current (onMap b) t c (wl_Name w) (\<alpha> s) = Ok w" for w
  proof
    assume "w \<in> set (dl_Workloads dl)"
    then obtain n where "(n, w) \<in> set acc"
      using assms(4)[of "map snd acc"] unfolding dl by (metis (no_types, lifting) imageE list.set_map prod.collapse set_mset_mset)
    with names acc(4) show "Storage_Current (onMap b) t c (wl_Name w) (\<alpha> s) = Ok w" by auto
  next
    assume w: "Storage_Current (onMap b) t c (wl_Name w) (\<alpha> s) = Ok w"
    then have "wl_Name w \<in> dom (ds_active ds)" using ds by (auto simp: Current_spec[OF inv(1)])
    then obtain w' where "(wl_Name w, w') \<in> set acc" using acc(3) by force
    with acc(4) w have "w \<in> set (map snd acc)" by force
    then show "w \<in> set (dl_Workloads dl)" using assms(4)[of "map snd acc"] unfolding dl by (metis set_mset_mset)
  qed
  ultimately show ?thesis by (simp add: maps)
qed

lemma get_current_agree:
  assumes "bolt B \<alpha>" and "bs_db b = B" and "jsonKeeps (bs_json b)" and "\<alpha> s0 = emptyDb"
    and "storage_run b s0 s" and "\<And>xs. mset (ord xs) = mset xs"
    and "Storage_Get b ord t c s = Ok dl"
  shows "distinct (map wl_Name (dl_Workloads dl)) \<and>
    (\<forall>w. w \<in> set (dl_Workloads dl) \<longleftrightarrow> Storage_Current b t c (wl_Name w) s = Ok w)"
  by (rule get_current_inv[OF assms(1,2) bolt.run_inv[OF assms(1-5)] assms(6,7)])


section \<open>A codec and a database for the witnesses\<close>

text \<open>A codec that writes a workload as its fields, each with its length.\<close>

definition encField :: "string \<Rightarrow> string" where
  "encField x = dec (length x) @ CHR '':'' # x"

definition decField :: "string \<Rightarrow> string \<times> string" where
  "decField s = (let n = undec (takeWhile is_digit s); r = tl (dropWhile is_digit s) in (take n r, drop n r))"

fun decFields :: "nat \<Rightarrow> string \<Rightarrow> string list" where
  "decFields 0 s = []"
| "decFields (Suc k) s = (case decField s of (x, r) \<Rightarrow> x # decFields k r)"

definition encTime :: "timestamp \<Rightarrow> string" where
  "encTime i = dec (if i < 0 then 2 * nat (- i) + 1 else 2 * nat i)"

definition decTime :: "string \<Rightarrow> timestamp" where
  "decTime s = (let n = undec s in if even n then int (n div 2) else - int (n div 2))"

definition sample_json :: Json where
  "sample_json = \<lparr>
     marshalWorkload = (\<lambda>w. Ok (concat (map encField [dec (unat (wl_Version w)), wl_Name w, wl_Type w, wl_Data w,
       wl_Metadata w, wl_Description w, encTime (Created (wl_Result w)), State (wl_Result w),
       Error (wl_Result w), Data (wl_Result w)]))),
     unmarshalWorkload = (\<lambda>v. case decFields 10 v of
         [ver, name, ty, data, meta, descr, created, state, message, rdata] \<Rightarrow>
           Ok \<lparr>wl_Version = word_of_nat (undec ver), wl_Name = name, wl_Type = ty, wl_Data = data,
             wl_Metadata = meta, wl_Description = descr, wl_Result = \<lparr>Created = decTime created,
               State = state, Error = message, Data = rdata\<rparr>\<rparr>
       | _ \<Rightarrow> Err (Errorf ''bad record'')),
     marshalSignatureRequirement = (\<lambda>r. if r = noRequirement then Ok ''{}'' else Err (Errorf ''unsupported'')),
     unmarshalSignatureRequirement = (\<lambda>v. Ok noRequirement)\<rparr>"

lemma decField_encField [simp]: "decField (encField x @ r) = (x, r)"
  by (simp add: decField_def encField_def takeWhile_dec dropWhile_dec is_digit_def)

lemma decFields_enc: "decFields (length xs) (concat (map encField xs) @ r) = xs"
  by (induction xs) simp_all

lemma decTime_encTime [simp]: "decTime (encTime i) = i"
  by (simp add: encTime_def decTime_def)

lemma sample_json_roundtrip:
  assumes "marshalWorkload sample_json w = Ok v"
  shows "v \<noteq> [] \<and> unmarshalWorkload sample_json v = Ok w"
proof -
  have rt: "unmarshalWorkload sample_json (concat (map encField [dec (unat (wl_Version w)), wl_Name w, wl_Type w, wl_Data w,
       wl_Metadata w, wl_Description w, encTime (Created (wl_Result w)), State (wl_Result w),
       Error (wl_Result w), Data (wl_Result w)])) = Ok w" for w
    using decFields_enc[of "[dec (unat (wl_Version w)), wl_Name w, wl_Type w, wl_Data w,
       wl_Metadata w, wl_Description w, encTime (Created (wl_Result w)), State (wl_Result w),
       Error (wl_Result w), Data (wl_Result w)]" "[]"]
    by (simp add: sample_json_def numeral_eq_Suc)
  then show ?thesis using assms by (auto simp: sample_json_def encField_def)
qed

lemma sample_json_keeps: "jsonKeeps sample_json"
  using sample_json_roundtrip
  by (fastforce simp: jsonKeeps_def sameRecord_def sample_json_def split: if_splits)

definition sample_storage :: "Mem BoltStorage" where
  "sample_storage = \<lparr>bs_db = mem, bs_unsafe = False, bs_registry = sample_registry, bs_json = sample_json\<rparr>"

definition sample_net :: Deployment where
  "sample_net = (sample_dl 0 [sample_wl NetworkType ''net'', sample_wl ZMountType ''a''])
     \<lparr>dl_SignatureRequirement := noRequirement\<rparr>"


lemma goodKey_short: "k \<noteq> [] \<Longrightarrow> length k \<le> 36 \<Longrightarrow> goodKey k"
  by (simp add: goodKey_def)

definition sample_record :: "WorkloadType \<Rightarrow> Name \<Rightarrow> bytes" where
  "sample_record ty n = (case marshalWorkload sample_json (WithResults (sample_wl ty n) (initResult 5)) of
     Inr v \<Rightarrow> v | Inl _ \<Rightarrow> [])"

lemma marshal_sample:
  "marshalWorkload sample_json (WithResults (sample_wl ty n) (initResult 5)) = Ok (sample_record ty n)"
  by (simp add: sample_record_def) (simp add: sample_json_def)

definition sample_state :: "DlState" where
  "sample_state = \<lparr>ds_fields = createdFields sample_net ''{}'',
     ds_active = [''net'' \<mapsto> NetworkType, ''a'' \<mapsto> ZMountType],
     ds_log = [sample_record NetworkType ''net'', sample_record ZMountType ''a'']\<rparr>"

lemma sample_specCreate:
  "specCreate False sample_registry sample_json (\<lambda>_. 5) sample_net emptySpec =
     Some (setDl 7 9 (Some sample_state) (setGlobal 7 ''net'' (Some (Storage_u64 9)) emptySpec))"
proof -
  have wl: "wl_Name (sample_wl ty n) = n" "wl_Type (sample_wl ty n) = ty" for ty n by (simp_all add: sample_wl_def)
  have sh: "IsSharable sample_registry NetworkType" "\<not> IsSharable sample_registry ZMountType"
    by (simp_all add: IsSharable_def sample_registry_def type_defs)
  have fields: "dl_TwinID sample_net = 7" "dl_ContractID sample_net = 9"
    "dl_SignatureRequirement sample_net = noRequirement"
    "dl_Workloads sample_net = [sample_wl NetworkType ''net'', sample_wl ZMountType ''a'']"
    by (simp_all add: sample_net_def sample_dl_def)
  have sig: "marshalSignatureRequirement sample_json noRequirement = Ok ''{}''" by (simp add: sample_json_def)
  have r: "Result_Valid (initResult 5) = Ok ()"
    by (simp add: Result_Valid_def initResult_def validStates_def)
  show ?thesis
    by (simp add: specCreate_def fields emptySpec_def sig)
       (simp add: specAdd_def specShare_def specTransaction_def wl sh goodKey_def r marshal_sample
         setDl_def setGlobal_def sample_state_def)
qed

lemma sample_storage_fields:
  "bs_db sample_storage = mem" "bs_json sample_storage = sample_json" "bs_registry sample_storage = sample_registry"
  "\<not> bs_unsafe sample_storage" "IsSharable sample_registry NetworkType" "\<not> IsSharable sample_registry ZMountType"
  by (simp_all add: sample_storage_def IsSharable_def sample_registry_def type_defs)

lemma sample_empty: "memDb emptyMem = emptyDb"
  by (simp add: memDb_def emptyMem_def emptyDb_def)

lemma sample_create:
  assumes "storage_run sample_storage emptyMem s" and "length (dl_Workloads dl) < 2 ^ 64"
    and "specCreate False sample_registry sample_json (\<lambda>_. 5) dl (abs_storage (memDb s)) = Some a"
  shows "\<exists>s'. Storage_Create sample_storage (\<lambda>_. 5) dl s = Ok s' \<and> storageInv sample_storage (memDb s') \<and>
     storage_run sample_storage emptyMem s' \<and> abs_storage (memDb s') = a"
proof -
  note b = sample_storage_fields
  have inv: "storageInv sample_storage (memDb s)"
    using mem.run_inv[OF b(1) _ sample_empty assms(1)] sample_json_keeps by (simp add: b)
  have "implements (Storage_Create (onMap sample_storage) (\<lambda>_. 5) dl (memDb s)) (Some a)"
    using Create_implements[of "memDb s" dl sample_storage "\<lambda>_. 5"] inv assms(2,3) b by (simp add: storageInv_def)
  then obtain d where d: "Storage_Create (onMap sample_storage) (\<lambda>_. 5) dl (memDb s) = Ok d" "abs_storage d = a"
    by (auto simp: implements_def split: sum.splits)
  then obtain s' where s': "Storage_Create sample_storage (\<lambda>_. 5) dl s = Ok s'" "d = memDb s'"
    using mem.Create_map[OF b(1), of "\<lambda>_. 5" dl s]
    by (cases "Storage_Create sample_storage (\<lambda>_. 5) dl s") auto
  have run: "storage_run sample_storage emptyMem s'"
    by (rule storage_run.step[OF assms(1)]) (rule storage_step.Create[OF s'(1) assms(2)])
  with mem.run_inv[OF b(1) _ sample_empty run] sample_json_keeps s' d(2) show ?thesis by (auto simp: b)
qed

lemma sample_created:
  "\<exists>s. Storage_Create sample_storage (\<lambda>_. 5) sample_net emptyMem = Ok s \<and> storageInv sample_storage (memDb s) \<and>
     storage_run sample_storage emptyMem s \<and>
     abs_storage (memDb s) = setDl 7 9 (Some sample_state) (setGlobal 7 ''net'' (Some (Storage_u64 9)) emptySpec)"
proof -
  have "abs_storage emptyDb = emptySpec" by (simp add: abs_storage_def emptyDb_def emptySpec_def)
  then show ?thesis
    using sample_specCreate by (intro sample_create storage_run.start)
      (simp_all add: sample_empty, simp add: sample_net_def sample_dl_def)
qed

definition sample_vol :: Deployment where
  "sample_vol = (sample_dl 0 [])\<lparr>dl_SignatureRequirement := noRequirement, dl_ContractID := 10\<rparr>"

definition sample_ok :: Workload where
  "sample_ok = (sample_wl ZMountType ''a'')\<lparr>wl_Result := noResult\<lparr>Created := 6, State := StateOk\<rparr>\<rparr>"

lemma sample_created2:
  "\<exists>s s1. Storage_Create sample_storage (\<lambda>_. 5) sample_net emptyMem = Ok s \<and>
     Storage_Create sample_storage (\<lambda>_. 5) sample_vol s = Ok s1 \<and> storage_run sample_storage emptyMem s1 \<and>
     sp_dl (abs_storage (memDb s1)) 7 9 = Some sample_state \<and> sp_dl (abs_storage (memDb s1)) 7 10 \<noteq> None"
proof -
  from sample_created obtain s where s: "Storage_Create sample_storage (\<lambda>_. 5) sample_net emptyMem = Ok s"
    "storage_run sample_storage emptyMem s"
    "abs_storage (memDb s) = setDl 7 9 (Some sample_state) (setGlobal 7 ''net'' (Some (Storage_u64 9)) emptySpec)" by blast
  have "marshalSignatureRequirement sample_json noRequirement = Ok ''{}''" by (simp add: sample_json_def)
  then have "specCreate False sample_registry sample_json (\<lambda>_. 5) sample_vol (abs_storage (memDb s)) =
      Some (setDl 7 10 (Some (withFields (createdFields sample_vol ''{}''))) (abs_storage (memDb s)))"
    by (simp add: s(3) specCreate_def sample_vol_def sample_dl_def emptySpec_def)
  moreover have "length (dl_Workloads sample_vol) < 2 ^ 64" by (simp add: sample_vol_def sample_dl_def)
  ultimately obtain s1 where "Storage_Create sample_storage (\<lambda>_. 5) sample_vol s = Ok s1"
    "storage_run sample_storage emptyMem s1"
    "abs_storage (memDb s1) = setDl 7 10 (Some (withFields (createdFields sample_vol ''{}''))) (abs_storage (memDb s))"
    using sample_create[OF s(2)] by blast
  with s show ?thesis by auto
qed

lemma sample_current:
  assumes "layout (memDb s)" and "consistent sample_json (abs_storage (memDb s))"
    and "sp_dl (abs_storage (memDb s)) 7 9 = Some sample_state"
  shows "\<exists>w. Storage_Current sample_storage 7 9 ''net'' s = Ok w \<and> wl_Type w = NetworkType"
proof -
  have act: "ds_active sample_state ''net'' = Some NetworkType" by (simp add: sample_state_def)
  with assms(2,3) obtain w where scan: "currentScan sample_json ''net'' NetworkType (rev (ds_log sample_state)) = Ok w"
    unfolding consistent_def dlConsistent_def by blast
  then show ?thesis
    using currentScan_Ok[OF scan] act assms(3) sample_storage_fields(2)
    unfolding mem.Current_map[OF sample_storage_fields(1)] Current_spec[OF assms(1)] by auto
qed

lemma storage_transaction_refines:
  assumes "bolt B \<alpha>" and "bs_db b = B" and "layout (\<alpha> s)" and "logSize b t c s + 1 < 2 ^ 64"
  shows "map_option (abs_storage \<circ> \<alpha>) (to_opt (Storage_Transaction b t c w s)) =
        specTransaction (bs_json b) t c w (abs_storage (\<alpha> s))"
proof -
  have "specRoom t c 1 (abs_storage (\<alpha> s))"
    using room_of_logSize[OF assms(3), of b t c 1] assms(4) bolt.cursor[OF assms(1)] assms(2)
    by (simp add: logSize_def)
  from transaction_implements[OF assms(3) this, of b w] bolt.transaction_map[OF assms(1,2), of t c w s, symmetric]
  show ?thesis by (cases "storage_transaction b t c w s") (auto simp: to_opt_def Storage_Transaction_def)
qed

section \<open>Claims\<close>

text \<open>C1: the storage implements its specification. On any database that behaves like bbolt,
  every write operation succeeds exactly when the operation on the abstract storage does,
  and it reaches a state that stands for the abstract result.\<close>

theorem storage_refines_spec:
  assumes "bolt B \<alpha>" and "bs_db b = B" and "layout (\<alpha> s)"
  shows "(length (dl_Workloads dl) < 2 ^ 64 \<longrightarrow>
      map_option (abs_storage \<circ> \<alpha>) (to_opt (Storage_Create b now dl s)) =
      specCreate (bs_unsafe b) (bs_registry b) (bs_json b) now dl (abs_storage (\<alpha> s))) \<and>
    map_option (abs_storage \<circ> \<alpha>) (to_opt (Storage_Update b t c fs s)) =
      specUpdate (bs_json b) t c fs (abs_storage (\<alpha> s)) \<and>
    map_option (abs_storage \<circ> \<alpha>) (to_opt (Storage_Delete b t c s)) =
      Some (specDelete t c (abs_storage (\<alpha> s))) \<and>
    map_option (abs_storage \<circ> \<alpha>) (to_opt (Storage_Remove b t c n s)) =
      Some (specRemove (bs_registry b) t c n (abs_storage (\<alpha> s))) \<and>
    (logSize b t c s + 1 < 2 ^ 64 \<longrightarrow>
      map_option (abs_storage \<circ> \<alpha>) (to_opt (Storage_Add b now0 t c w s)) =
        specAdd (bs_unsafe b) (bs_registry b) (bs_json b) now0 t c w (abs_storage (\<alpha> s)) \<and>
      map_option (abs_storage \<circ> \<alpha>) (to_opt (Storage_Transaction b t c w s)) =
        specTransaction (bs_json b) t c w (abs_storage (\<alpha> s)))"
proof -
  have lift: "map_option (abs_storage \<circ> \<alpha>) (to_opt r) = x" if "rmap \<alpha> r = r'" "implements r' x" for r r' x
    using that by (cases r) (auto simp: to_opt_def)
  note maps = bolt.Create_map[OF assms(1,2)] bolt.Update_map[OF assms(1,2)] bolt.Delete_map[OF assms(1,2)]
    bolt.Remove_map[OF assms(1,2)] bolt.add_map[OF assms(1,2)] bolt.transaction_map[OF assms(1,2)]
  have room: "specRoom t c 1 (abs_storage (\<alpha> s))" if "logSize b t c s + 1 < 2 ^ 64"
    using room_of_logSize[OF assms(3), of b t c 1] that bolt.cursor[OF assms(1)] assms(2)
    by (simp add: logSize_def)
  note ops = Create_implements[OF assms(3)] Update_implements[OF assms(3)] Delete_implements[OF assms(3)]
    Remove_implements[OF assms(3)] add_implements[OF assms(3) room] transaction_implements[OF assms(3) room]
  show ?thesis
    unfolding Storage_Add_def Storage_Transaction_def
    by (intro conjI impI; rule lift; rule maps ops; assumption?)
qed

theorem storage_refines_spec_witness:
  "map_option (abs_storage \<circ> memDb) (to_opt (Storage_Create sample_storage (\<lambda>_. 5) sample_net emptyMem)) =
     specCreate False sample_registry sample_json (\<lambda>_. 5) sample_net (abs_storage (memDb emptyMem))"
  using storage_refines_spec[OF mem.bolt_axioms, of sample_storage emptyMem sample_net "\<lambda>_. 5"]
  by (simp add: sample_storage_def sample_net_def sample_dl_def memDb_def emptyMem_def layout_def finiteDb_def)

text \<open>C5: a storage never becomes inconsistent. After any sequence of committed operations on an
  empty database, reading a deployment fails only if there is none, and every active
  workload has a current state: the inconsistency errors of \<open>Get\<close> and \<open>Current\<close> are never
  returned.\<close>

theorem storage_never_inconsistent:
  assumes "bolt B \<alpha>" and "bs_db b = B" and "jsonKeeps (bs_json b)" and "\<alpha> s0 = emptyDb"
    and "storage_run b s0 s"
  shows "(\<forall>e. Storage_Get b ord t c s = Err e \<longrightarrow> err_is e ErrDeploymentNotExists) \<and>
    (boltGet B (wlPath t c) n s \<noteq> None \<longrightarrow> (\<exists>w. Storage_Current b t c n s = Ok w))"
proof -
  have inv: "layout (\<alpha> s)" "consistent (bs_json b) (abs_storage (\<alpha> s))"
    using bolt.run_inv[OF assms] by (simp_all add: storageInv_def)
  note maps = bolt.Get_map[OF assms(1,2)] bolt.Current_map[OF assms(1,2)]
  show ?thesis
  proof (cases "sp_dl (abs_storage (\<alpha> s)) t c")
    case None
    then have "db_buckets (\<alpha> s) (dlPath t c) = None" by (simp add: abs_simps split: if_splits)
    then have "db_buckets (\<alpha> s) (wlPath t c) = None" using layout_parents(1)[OF inv(1), of t c] by blast
    with layout_no_values(4)[OF inv(1) this] get_missing[OF inv(1) None, of b ord] show ?thesis
      by (auto simp: maps bolt.get[OF assms(1)] dbGet_def)
  next
    case (Some ds)
    with inv(2) have ds: "dlConsistent (bs_json b) ds" by (simp add: consistent_def)
    have "\<exists>w. Storage_Current (onMap b) t c n (\<alpha> s) = Ok w" if "db_vals (\<alpha> s) (wlPath t c) n = Some ty" for ty
    proof -
      have "ds_active ds n = Some ty" using Some that by (auto simp: abs_simps absDl_def split: if_splits)
      with ds Some show ?thesis unfolding Current_spec[OF inv(1)] dlConsistent_def by blast
    qed
    with consistent_get[OF inv(1) ds Some, of ord] show ?thesis
      by (auto simp: maps bolt.get[OF assms(1)] dbGet_def)
  qed
qed

theorem storage_never_inconsistent_witness:
  "\<exists>s w. Storage_Create sample_storage (\<lambda>_. 5) sample_net emptyMem = Ok s \<and>
     Storage_Current sample_storage 7 9 ''net'' s = Ok w"
proof -
  from sample_created obtain s where s: "Storage_Create sample_storage (\<lambda>_. 5) sample_net emptyMem = Ok s"
    "storage_run sample_storage emptyMem s"
    "abs_storage (memDb s) = setDl 7 9 (Some sample_state) (setGlobal 7 ''net'' (Some (Storage_u64 9)) emptySpec)" by blast
  from s(3) have "sp_dl (abs_storage (memDb s)) 7 9 = Some sample_state" by simp
  then have "boltGet mem (wlPath 7 9) ''net'' s \<noteq> None"
    by (auto simp: mem.get dbGet_def abs_simps absDl_def sample_state_def fun_eq_iff split: if_splits)
  with storage_never_inconsistent[OF mem.bolt_axioms _ _ _ s(2), where t = 7 and c = 9 and n = "''net''"] s(1)
  show ?thesis
    using sample_json_keeps by (auto simp: sample_storage_def memDb_def emptyMem_def emptyDb_def)
qed

text \<open>C27: reading a deployment and reading its workloads one by one agree: the workloads of a
  deployment that \<open>Get\<close> returns have distinct names, and a workload is among them exactly
  when \<open>Current\<close> returns it.\<close>

theorem get_agrees_with_current:
  assumes "bolt B \<alpha>" and "bs_db b = B" and "jsonKeeps (bs_json b)" and "\<alpha> s0 = emptyDb"
    and "storage_run b s0 s" and "\<And>xs. mset (ord xs) = mset xs"
    and "Storage_Get b ord t c s = Ok dl"
  shows "distinct (map wl_Name (dl_Workloads dl)) \<and>
    (\<forall>w. w \<in> set (dl_Workloads dl) \<longleftrightarrow> Storage_Current b t c (wl_Name w) s = Ok w)"
  using assms by (rule get_current_agree)

theorem get_agrees_with_current_witness:
  "\<exists>s dl. Storage_Create sample_storage (\<lambda>_. 5) sample_net emptyMem = Ok s \<and>
     Storage_Get sample_storage (\<lambda>ws. ws) 7 9 s = Ok dl \<and> distinct (map wl_Name (dl_Workloads dl))"
proof -
  from sample_created obtain s where s: "Storage_Create sample_storage (\<lambda>_. 5) sample_net emptyMem = Ok s"
    "storage_run sample_storage emptyMem s" "storageInv sample_storage (memDb s)"
    "abs_storage (memDb s) = setDl 7 9 (Some sample_state) (setGlobal 7 ''net'' (Some (Storage_u64 9)) emptySpec)" by blast
  have b: "bs_db sample_storage = mem" "bs_json sample_storage = sample_json" by (simp_all add: sample_storage_def)
  from s(4) have ds: "sp_dl (abs_storage (memDb s)) 7 9 = Some sample_state" by simp
  with s(3) obtain dl where dl: "Storage_Get sample_storage (\<lambda>ws. ws) 7 9 s = Ok dl"
    using consistent_get[of "memDb s" sample_storage sample_state 7 9 "\<lambda>ws. ws"]
    by (auto simp: storageInv_def consistent_def mem.Get_map[OF b(1)])
  have "memDb emptyMem = emptyDb" by (simp add: memDb_def emptyMem_def emptyDb_def)
  from get_agrees_with_current[OF mem.bolt_axioms b(1) _ this s(2) _ dl] s(1) dl sample_json_keeps
  show ?thesis by (auto simp: b)
qed

text \<open>C28: shared names are unique per twin. In a storage that is not in migration mode, two
  active workloads of a twin with the same name and shared types (networks) belong to the
  same deployment.\<close>

theorem shared_names_unique:
  assumes "bolt B \<alpha>" and "bs_db b = B" and "jsonKeeps (bs_json b)" and "\<alpha> s0 = emptyDb"
    and "storage_run b s0 s" and "\<not> bs_unsafe b"
    and "Storage_Current b t c n s = Ok w" and "IsSharable (bs_registry b) (wl_Type w)"
    and "Storage_Current b t c' n s = Ok w'" and "IsSharable (bs_registry b) (wl_Type w')"
  shows "c = c'"
proof -
  have inv: "layout (\<alpha> s)" "sharedOwned (bs_registry b) (abs_storage (\<alpha> s))"
    using bolt.run_inv[OF assms(1-5)] assms(6) by (simp_all add: storageInv_def)
  have own: "sp_global (abs_storage (\<alpha> s)) t n = Some (Storage_u64 c)"
    if "Storage_Current b t c n s = Ok w" "IsSharable (bs_registry b) (wl_Type w)" for c w
    using that inv(2) currentScan_Ok unfolding bolt.Current_map[OF assms(1,2)] Current_spec[OF inv(1)]
    by (metis sharedOwnedD)
  from own[OF assms(7,8)] own[OF assms(9,10)] show ?thesis by simp
qed

theorem shared_names_unique_witness:
  "\<exists>s w. Storage_Create sample_storage (\<lambda>_. 5) sample_net emptyMem = Ok s \<and>
     Storage_Current sample_storage 7 9 ''net'' s = Ok w \<and>
     (\<forall>c w'. Storage_Current sample_storage 7 c ''net'' s = Ok w' \<and> wl_Type w' = NetworkType \<longrightarrow> 9 = c)"
proof -
  from sample_created obtain s where s: "Storage_Create sample_storage (\<lambda>_. 5) sample_net emptyMem = Ok s"
    "storage_run sample_storage emptyMem s" "storageInv sample_storage (memDb s)"
    "abs_storage (memDb s) = setDl 7 9 (Some sample_state) (setGlobal 7 ''net'' (Some (Storage_u64 9)) emptySpec)" by blast
  have b: "bs_db sample_storage = mem" "bs_json sample_storage = sample_json" "\<not> bs_unsafe sample_storage"
    "IsSharable (bs_registry sample_storage) NetworkType"
    by (simp_all add: sample_storage_def IsSharable_def sample_registry_def)
  obtain w where w: "Storage_Current sample_storage 7 9 ''net'' s = Ok w" "wl_Type w = NetworkType"
    using sample_current[of s] s(3,4) by (auto simp: storageInv_def b)
  have "memDb emptyMem = emptyDb" by (simp add: memDb_def emptyMem_def emptyDb_def)
  from shared_names_unique[OF mem.bolt_axioms b(1) _ this s(2) b(3) w(1)] b(2,4) w(2) sample_json_keeps
  have "\<forall>c w'. Storage_Current sample_storage 7 c ''net'' s = Ok w' \<and> wl_Type w' = NetworkType \<longrightarrow> 9 = c" by auto
  with s(1) w(1) show ?thesis by blast
qed

lemma transaction_current:
  assumes "bolt B \<alpha>" and "bs_db b = B" and "jsonKeeps (bs_json b)" and "storageInv b (\<alpha> s)" and "logSize b t c s + 1 < 2 ^ 64"
    and "Storage_Transaction b t c w s = Ok s'"
  shows "(if State (wl_Result w) = StateUnChanged
      then Storage_Current b t c (wl_Name w) s' = Storage_Current b t c (wl_Name w) s
      else \<exists>w'. sameRecord w w' \<and> Storage_Current b t c (wl_Name w) s' = Ok w') \<and>
    (\<forall>t' c' n x. (t', c', n) \<noteq> (t, c, wl_Name w) \<longrightarrow>
       (Storage_Current b t' c' n s' = Ok x \<longleftrightarrow> Storage_Current b t' c' n s = Ok x))"
proof -
  let ?J = "bs_json b"
  have inv: "layout (\<alpha> s)" "consistent ?J (abs_storage (\<alpha> s))"
    using assms(4) by (simp_all add: storageInv_def)
  have room: "specRoom t c 1 (abs_storage (\<alpha> s))"
    using assms(2,5) bolt.cursor[OF assms(1)] by (intro room_of_logSize[OF inv(1), of b]) (simp add: logSize_def)
  have "implements (Ok (\<alpha> s')) (specTransaction ?J t c w (abs_storage (\<alpha> s)))"
    using transaction_implements[OF inv(1) room, of b w] bolt.transaction_map[OF assms(1,2), of t c w s] assms(6)
    by (simp add: Storage_Transaction_def)
  then obtain ds data where l': "layout (\<alpha> s')" and ds: "sp_dl (abs_storage (\<alpha> s)) t c = Some ds"
    and data: "marshalWorkload ?J w = Ok data" and act: "ds_active ds (wl_Name w) = Some (wl_Type w)"
    and s': "abs_storage (\<alpha> s') = setDl t c (Some (ds\<lparr>ds_log := ds_log ds @ [data]\<rparr>)) (abs_storage (\<alpha> s))"
    by (auto dest!: specTransaction_log)
  from data assms(3) obtain w' where w': "unmarshalWorkload ?J data = Ok w'" "sameRecord w w'"
    unfolding jsonKeeps_def by blast
  note same = sameRecord_fields[OF w'(2)]
  note cur = bolt.Current_map[OF assms(1,2)] Current_spec[OF inv(1)] Current_spec[OF l']
  have other: "Storage_Current b t' c' n s' = Ok x \<longleftrightarrow> Storage_Current b t' c' n s = Ok x"
    if "(t', c', n) \<noteq> (t, c, wl_Name w)" for t' c' n x
    using that ds w'(1) same unfolding cur s' by auto
  have "\<exists>x. Storage_Current b t c (wl_Name w) s = Ok x"
    using inv(2) ds act unfolding cur consistent_def dlConsistent_def by blast
  moreover have "Storage_Current b t c (wl_Name w) s' = Ok x \<longleftrightarrow> Storage_Current b t c (wl_Name w) s = Ok x"
    if "State (wl_Result w) = StateUnChanged" for x
    using that ds w'(1) same act unfolding cur s' by auto
  moreover have "Storage_Current b t c (wl_Name w) s' = Ok w'" if "State (wl_Result w) \<noteq> StateUnChanged"
    using that ds w'(1) same act unfolding cur s' by auto
  ultimately show ?thesis using other w'(2) by (auto split: if_splits)
qed

text \<open>A result that is written is the one that is read. After \<open>Transaction\<close> the current state
  of the workload is the record that was written (but for the layout of its raw data),
  unless its state is \<open>unchanged\<close>, in which case the current state stays what it was; the
  current state of every other workload stays the same.\<close>

lemma transaction_then_current:
  assumes "bolt B \<alpha>" and "bs_db b = B" and "jsonKeeps (bs_json b)" and "\<alpha> s0 = emptyDb"
    and "storage_run b s0 s" and "logSize b t c s + 1 < 2 ^ 64"
    and "Storage_Transaction b t c w s = Ok s'"
  shows "(if State (wl_Result w) = StateUnChanged
      then Storage_Current b t c (wl_Name w) s' = Storage_Current b t c (wl_Name w) s
      else \<exists>w'. sameRecord w w' \<and> Storage_Current b t c (wl_Name w) s' = Ok w') \<and>
    (\<forall>t' c' n x. (t', c', n) \<noteq> (t, c, wl_Name w) \<longrightarrow>
       (Storage_Current b t' c' n s' = Ok x \<longleftrightarrow> Storage_Current b t' c' n s = Ok x))"
  by (rule transaction_current[OF assms(1-3) bolt.run_inv[OF assms(1-5)] assms(6,7)])

lemma transaction_then_current_witness:
  "\<exists>s s' w'. Storage_Create sample_storage (\<lambda>_. 5) sample_net emptyMem = Ok s \<and>
     Storage_Transaction sample_storage 7 9 sample_ok s = Ok s' \<and> sameRecord sample_ok w' \<and>
     Storage_Current sample_storage 7 9 ''a'' s' = Ok w'"
proof -
  from sample_created obtain s where s: "Storage_Create sample_storage (\<lambda>_. 5) sample_net emptyMem = Ok s"
    "storage_run sample_storage emptyMem s" "storageInv sample_storage (memDb s)"
    "abs_storage (memDb s) = setDl 7 9 (Some sample_state) (setGlobal 7 ''net'' (Some (Storage_u64 9)) emptySpec)" by blast
  note b = sample_storage_fields
  have l: "layout (memDb s)" using s(3) by (simp add: storageInv_def)
  have size: "logSize sample_storage 7 9 s + 1 < 2 ^ 64"
    using logSize_spec[OF l, of 7 9 sample_state] s(4)
    by (simp add: sample_state_def logSize_def b mem.cursor)
  have ok: "marshalWorkload sample_json sample_ok \<noteq> Err e" for e by (simp add: sample_json_def)
  have "specTransaction sample_json 7 9 sample_ok (abs_storage (memDb s)) \<noteq> None"
    using ok by (auto simp: s(4) specTransaction_def sample_state_def sample_ok_def sample_wl_def Result_Valid_def
        validStates_def split: sum.split)
  moreover have "map_option (abs_storage \<circ> memDb) (to_opt (Storage_Transaction sample_storage 7 9 sample_ok s)) =
      specTransaction sample_json 7 9 sample_ok (abs_storage (memDb s))"
    using storage_transaction_refines[OF mem.bolt_axioms b(1) l size] by (simp add: b)
  ultimately obtain s' where s': "Storage_Transaction sample_storage 7 9 sample_ok s = Ok s'"
    by (cases "Storage_Transaction sample_storage 7 9 sample_ok s") (auto simp: to_opt_def)
  have "State (wl_Result sample_ok) \<noteq> StateUnChanged" "wl_Name sample_ok = ''a''"
    by (simp_all add: sample_ok_def sample_wl_def state_defs)
  with transaction_then_current[OF mem.bolt_axioms b(1) _ sample_empty s(2) size s'] sample_json_keeps s(1) s'
  show ?thesis by (auto simp: b)
qed

lemma delete_effect:
  assumes "bolt B \<alpha>" and "bs_db b = B" and "layout (\<alpha> s)"
  shows "\<exists>s'. Storage_Delete b t c s = Ok s' \<and>
    (\<exists>e. Storage_Get b ord t c s' = Err e \<and> err_is e ErrDeploymentNotExists) \<and>
    (\<forall>t' c' n w. (t', c') \<noteq> (t, c) \<longrightarrow>
       (Storage_Current b t' c' n s' = Ok w \<longleftrightarrow> Storage_Current b t' c' n s = Ok w))"
proof -
  note inv = assms(3)
  from Delete_implements[OF inv, of b t c] obtain d where d: "Storage_Delete (onMap b) t c (\<alpha> s) = Ok d" "layout d"
    "abs_storage d = specDelete t c (abs_storage (\<alpha> s))"
    by (auto simp: implements_def split: sum.splits)
  with bolt.Delete_map[OF assms(1,2), of t c s] obtain s' where s': "Storage_Delete b t c s = Ok s'" "d = \<alpha> s'"
    by (cases "Storage_Delete b t c s") auto
  have dls: "sp_dl (specDelete t c a) t' c' = (if (t', c') = (t, c) then None else sp_dl a t' c')" for a t' c'
    by (simp add: specDelete_def Let_def)
  have "\<exists>e. Storage_Get b ord t c s' = Err e \<and> err_is e ErrDeploymentNotExists"
    unfolding bolt.Get_map[OF assms(1,2)] by (rule get_missing) (use d s' dls in auto)
  moreover have "Storage_Current b t' c' n s' = Ok w \<longleftrightarrow> Storage_Current b t' c' n s = Ok w"
    if "(t', c') \<noteq> (t, c)" for t' c' n w
    using d(2,3) s'(2) that unfolding bolt.Current_map[OF assms(1,2)]
    by (auto simp: Current_spec inv dls)
  ultimately show ?thesis using s'(1) by blast
qed

text \<open>Deleting a deployment always succeeds; afterwards reading it reports that it does not
  exist, and every other deployment reads as before.\<close>

lemma delete_then_get:
  assumes "bolt B \<alpha>" and "bs_db b = B" and "jsonKeeps (bs_json b)" and "\<alpha> s0 = emptyDb"
    and "storage_run b s0 s"
  shows "\<exists>s'. Storage_Delete b t c s = Ok s' \<and>
    (\<exists>e. Storage_Get b ord t c s' = Err e \<and> err_is e ErrDeploymentNotExists) \<and>
    (\<forall>t' c' n w. (t', c') \<noteq> (t, c) \<longrightarrow>
       (Storage_Current b t' c' n s' = Ok w \<longleftrightarrow> Storage_Current b t' c' n s = Ok w))"
  using bolt.run_inv[OF assms] by (intro delete_effect[OF assms(1,2)]) (simp add: storageInv_def)

lemma delete_then_get_witness:
  "\<exists>s s' e. Storage_Create sample_storage (\<lambda>_. 5) sample_net emptyMem = Ok s \<and>
     Storage_Delete sample_storage 7 9 s = Ok s' \<and> Storage_Get sample_storage (\<lambda>ws. ws) 7 9 s' = Err e"
proof -
  from sample_created obtain s where s: "Storage_Create sample_storage (\<lambda>_. 5) sample_net emptyMem = Ok s"
    "storage_run sample_storage emptyMem s" by blast
  from delete_then_get[OF mem.bolt_axioms sample_storage_fields(1) _ sample_empty s(2), where ord = "\<lambda>ws. ws" and t = 7 and c = 9] s(1)
    sample_json_keeps show ?thesis by (auto simp: sample_storage_fields)
qed

text \<open>Deleting a deployment does not release its shared names. While the twin has another
  deployment, a network that was still active when its deployment was deleted keeps its
  name, and adding a network with that name to the other deployment is refused as a
  conflict.\<close>

lemma delete_keeps_shared_names:
  assumes "bolt B \<alpha>" and "bs_db b = B" and "jsonKeeps (bs_json b)" and "\<alpha> s0 = emptyDb"
    and "storage_run b s0 s" and "\<not> bs_unsafe b"
    and "Storage_Current b t c n s = Ok w" and "IsSharable (bs_registry b) (wl_Type w)"
    and "boltBucket B (dlPath t c') s" and "c' \<noteq> c" and "Storage_Delete b t c s = Ok s'"
    and "wl_Name new = n" and "IsSharable (bs_registry b) (wl_Type new)"
  shows "\<exists>e. Storage_Add b now t c' new s' = Err e \<and> err_is e ErrDeploymentConflict"
proof -
  have inv: "layout (\<alpha> s)" "sharedOwned (bs_registry b) (abs_storage (\<alpha> s))"
    using bolt.run_inv[OF assms(1-5)] assms(6) by (simp_all add: storageInv_def)
  have own: "sp_global (abs_storage (\<alpha> s)) t n = Some (Storage_u64 c)"
    using assms(7,8) inv(2) currentScan_Ok unfolding bolt.Current_map[OF assms(1,2)] Current_spec[OF inv(1)]
    by (metis sharedOwnedD)
  have "implements (Ok (\<alpha> s')) (Some (specDelete t c (abs_storage (\<alpha> s))))"
    using Delete_implements[OF inv(1), of b t c] bolt.Delete_map[OF assms(1,2), of t c s] assms(11) by simp
  then have l': "layout (\<alpha> s')" and s': "abs_storage (\<alpha> s') = specDelete t c (abs_storage (\<alpha> s))" by simp_all
  from assms(9) have "sp_dl (abs_storage (\<alpha> s)) t c' \<noteq> None"
    by (simp add: bolt.bucket[OF assms(1)] dbBucket_def abs_simps)
  with assms(10) have "abs_storage (\<alpha> s') = setDl t c None (abs_storage (\<alpha> s))"
    "sp_dl (abs_storage (\<alpha> s')) t c' \<noteq> None"
    unfolding s' specDelete_def Let_def by auto
  with own have "sp_global (abs_storage (\<alpha> s')) t n = Some (Storage_u64 c)"
    "sp_dl (abs_storage (\<alpha> s')) t c' \<noteq> None" by simp_all
  then have g: "db_vals (\<alpha> s') (globalPath t) n = Some (Storage_u64 c)"
    and "db_buckets (\<alpha> s') (dlPath t c') \<noteq> None" unfolding abs_simps by (auto split: if_splits)
  then have "db_buckets (\<alpha> s') (twinPath t) \<noteq> None" and "db_buckets (\<alpha> s') (globalPath t) \<noteq> None"
    using layout_parents(3)[OF l'] layout_fields(3)[OF l', of "globalPath t" n] by auto
  then have "\<exists>e. Storage_Add (onMap b) now t c' new (\<alpha> s') = Err e \<and> err_is e ErrDeploymentConflict"
    using g assms(6,12,13)
    by (auto simp: Storage_Add_def storage_add_def addGlobal_def dbBucket_def dbCreateBucketIfNotExists_def
        dbCreateBucket_def dbGet_def)
  with bolt.add_map[OF assms(1,2), of now t c' new s'] show ?thesis
    by (cases "storage_add b now t c' new s'") (auto simp: Storage_Add_def)
qed

lemma delete_keeps_shared_names_witness:
  "\<exists>s s1 s2 e. Storage_Create sample_storage (\<lambda>_. 5) sample_net emptyMem = Ok s \<and>
     Storage_Create sample_storage (\<lambda>_. 5) sample_vol s = Ok s1 \<and>
     Storage_Delete sample_storage 7 9 s1 = Ok s2 \<and>
     Storage_Add sample_storage 6 7 10 (sample_wl NetworkType ''net'') s2 = Err e \<and>
     err_is e ErrDeploymentConflict"
proof -
  from sample_created2 obtain s s1 where s: "Storage_Create sample_storage (\<lambda>_. 5) sample_net emptyMem = Ok s"
    "Storage_Create sample_storage (\<lambda>_. 5) sample_vol s = Ok s1" "storage_run sample_storage emptyMem s1"
    and dl: "sp_dl (abs_storage (memDb s1)) 7 9 = Some sample_state" "sp_dl (abs_storage (memDb s1)) 7 10 \<noteq> None" by blast
  note b = sample_storage_fields
  have inv: "layout (memDb s1)" "consistent sample_json (abs_storage (memDb s1))"
    using mem.run_inv[OF b(1) _ sample_empty s(3)] sample_json_keeps by (simp_all add: storageInv_def b)
  obtain w where w: "Storage_Current sample_storage 7 9 ''net'' s1 = Ok w" "wl_Type w = NetworkType"
    using sample_current[OF inv dl(1)] by blast
  obtain s2 where s2: "Storage_Delete sample_storage 7 9 s1 = Ok s2"
    using Delete_implements[OF inv(1), of sample_storage 7 9] mem.Delete_map[OF b(1), of 7 9 s1, symmetric]
    by (cases "Storage_Delete sample_storage 7 9 s1") auto
  have "boltBucket mem (dlPath 7 10) s1"
    using dl(2) by (auto simp: mem.bucket dbBucket_def abs_simps split: if_splits)
  from delete_keeps_shared_names[OF mem.bolt_axioms b(1) _ sample_empty s(3) b(4) w(1) _ this _ s2,
      of "sample_wl NetworkType ''net''" 6] w(2) s(1,2) s2 sample_json_keeps
  show ?thesis by (auto simp: b sample_wl_def)
qed

lemma specAddAll_effect:
  assumes "specAddAll u G J t c ws a = Some a'" and "sp_dl a t c = Some ds"
  shows "\<exists>datas. list_all2 (\<lambda>(now, w) v. marshalWorkload J (WithResults w (initResult now)) = Ok v) ws datas \<and>
    distinct (map (wl_Name \<circ> snd) ws) \<and> (\<forall>(now, w) \<in> set ws. ds_active ds (wl_Name w) = None) \<and>
    sp_dl a' t c = Some (ds\<lparr>ds_active := (ds_active ds) ++ map_of (map (\<lambda>(now, w). (wl_Name w, wl_Type w)) ws),
      ds_log := ds_log ds @ datas\<rparr>)"
  using assms
proof (induction ws arbitrary: a ds)
  case (Cons nw ws)
  obtain now w where nw: "nw = (now, w)" by (cases nw)
  from Cons.prems(1) obtain a1 where a1: "specAdd u G J now t c w a = Some a1"
    and rest: "specAddAll u G J t c ws a1 = Some a'" by (auto simp: nw bind_eq_Some_conv)
  from specAdd_effect[OF a1] Cons.prems(2) obtain data a2 where new: "ds_active ds (wl_Name w) = None"
    and data: "marshalWorkload J (WithResults w (initResult now)) = Ok data"
    and a1': "a1 = setDl t c (Some (ds\<lparr>ds_active := (ds_active ds)(wl_Name w \<mapsto> wl_Type w), ds_log := ds_log ds @ [data]\<rparr>)) a2"
    by auto
  let ?ds = "ds\<lparr>ds_active := (ds_active ds)(wl_Name w \<mapsto> wl_Type w), ds_log := ds_log ds @ [data]\<rparr>"
  from a1' have dl: "sp_dl a1 t c = Some ?ds" by simp
  from Cons.IH[OF rest dl] obtain datas where
    datas: "list_all2 (\<lambda>(now, w) v. marshalWorkload J (WithResults w (initResult now)) = Ok v) ws datas"
    "distinct (map (wl_Name \<circ> snd) ws)" "\<forall>(now, w') \<in> set ws. ds_active ?ds (wl_Name w') = None"
    and final: "sp_dl a' t c = Some (?ds\<lparr>ds_active := ds_active ?ds ++
        map_of (map (\<lambda>(now, w). (wl_Name w, wl_Type w)) ws), ds_log := ds_log ?ds @ datas\<rparr>)"
    by blast
  have fresh: "wl_Name w \<notin> wl_Name ` snd ` set ws"
    using datas(3) by (auto split: if_splits)
  then have "map_of (map (\<lambda>(now, w). (wl_Name w, wl_Type w)) ws) (wl_Name w) = None"
    by (auto simp: map_of_eq_None_iff image_iff)
  then have act: "ds_active ?ds ++ map_of (map (\<lambda>(now, w). (wl_Name w, wl_Type w)) ws) =
      ds_active ds ++ map_of (map (\<lambda>(now, w). (wl_Name w, wl_Type w)) (nw # ws))"
    by (auto simp: nw fun_eq_iff map_add_def split: option.split)
  have "sp_dl a' t c = Some (ds\<lparr>ds_active := ds_active ds ++ map_of (map (\<lambda>(now, w). (wl_Name w, wl_Type w)) (nw # ws)),
      ds_log := ds_log ds @ data # datas\<rparr>)"
    unfolding final act by simp
  moreover have "list_all2 (\<lambda>(now, w) v. marshalWorkload J (WithResults w (initResult now)) = Ok v) (nw # ws) (data # datas)"
    using datas(1) data by (simp add: nw)
  moreover have "distinct (map (wl_Name \<circ> snd) (nw # ws))" using datas(2) fresh by (simp add: nw image_comp)
  moreover have "\<forall>(now, w) \<in> set (nw # ws). ds_active ds (wl_Name w) = None"
    using datas(3) new by (auto simp: nw split: if_splits)
  ultimately show ?case by blast
qed simp

lemma currentScan_records:
  assumes "jsonKeeps J" and "list_all2 (\<lambda>w v. marshalWorkload J w = Ok v) ws datas"
    and "distinct (map wl_Name ws)" and "w \<in> set ws" and "State (wl_Result w) \<noteq> StateUnChanged"
  shows "\<exists>v w'. marshalWorkload J w = Ok v \<and> unmarshalWorkload J v = Ok w' \<and>
    currentScan J (wl_Name w) (wl_Type w) (rev datas) = Ok w'"
  using assms(2-4)
proof (induction ws arbitrary: datas rule: rev_induct)
  case (snoc x ws)
  from snoc.prems(1) obtain vs v where datas: "datas = vs @ [v]" and v: "marshalWorkload J x = Ok v"
    and rest: "list_all2 (\<lambda>w v. marshalWorkload J w = Ok v) ws vs"
    by (auto simp: list_all2_append1 list_all2_Cons1)
  from assms(1) v obtain x' where x': "unmarshalWorkload J v = Ok x'" "sameRecord x x'"
    unfolding jsonKeeps_def by blast
  show ?case
    using x' v sameRecord_fields[OF x'(2)] snoc rest datas assms(5)
    by (cases "w = x") (auto simp: image_iff)
qed simp

text \<open>The data of a workload is a \<open>json.RawMessage\<close>: \<open>Marshal\<close> writes it in the compact form (without
  insignificant blanks, HTML characters escaped) and \<open>Unmarshal\<close> reads these bytes back.\<close>

definition rawCompacts :: "Json \<Rightarrow> (bytes \<Rightarrow> bytes) \<Rightarrow> bool" where
  "rawCompacts J compact \<longleftrightarrow> (\<forall>w v w'. marshalWorkload J w = Ok v \<longrightarrow> unmarshalWorkload J v = Ok w' \<longrightarrow>
     wl_Data w' = compact (wl_Data w))"

lemma sample_json_raw: "rawCompacts sample_json (\<lambda>d. d)"
  using sample_json_roundtrip by (fastforce simp: rawCompacts_def)

text \<open>A workload without its result, which \<open>Create\<close> replaces, and the workload in the form in which the
  storage keeps it.\<close>

definition unresolved :: "Workload \<Rightarrow> Workload" where
  "unresolved w = WithResults w noResult"

definition stored :: "(bytes \<Rightarrow> bytes) \<Rightarrow> Workload \<Rightarrow> Workload" where
  "stored compact w = unresolved (w\<lparr>wl_Data := compact (wl_Data w)\<rparr>)"

lemma stored_record:
  assumes "jsonKeeps J" and "rawCompacts J compact"
    and "marshalWorkload J (WithResults w r) = Ok v" and "unmarshalWorkload J v = Ok w'"
  shows "unresolved w' = stored compact w"
proof -
  have "sameRecord (WithResults w r) w'" "wl_Data w' = compact (wl_Data w)"
    using assms unfolding jsonKeeps_def rawCompacts_def by (fastforce simp: WithResults_def)+
  then show ?thesis unfolding sameRecord_def stored_def unresolved_def WithResults_def by (cases w; cases w') simp
qed

lemma wl_Name_stored [simp]: "wl_Name (stored compact w) = wl_Name w" "wl_Name (unresolved w) = wl_Name w"
  by (simp_all add: stored_def unresolved_def WithResults_def)

lemma mset_named:
  assumes "distinct (map wl_Name xs)" and "distinct (map wl_Name ys)" and "f ` set xs = g ` set ys"
    and "\<And>w. wl_Name (f w) = wl_Name w" and "\<And>w. wl_Name (g w) = wl_Name w"
  shows "mset (map f xs) = mset (map g ys)"
proof -
  have "distinct (map h zs)" if "distinct (map wl_Name zs)" "\<And>w. wl_Name (h w) = wl_Name w" for h zs
  proof -
    have "map wl_Name zs = map wl_Name (map h zs)" using that(2) by simp
    with that(1) show ?thesis by (metis distinct_map)
  qed
  from this[OF assms(1,4)] this[OF assms(2,5)] assms(3)
  have "distinct (map f xs)" "distinct (map g ys)" "set (map f xs) = set (map g ys)" by simp_all
  then show ?thesis using set_eq_iff_mset_eq_distinct by blast
qed

lemma created_records:
  assumes "jsonKeeps (bs_json b)" and "layout d"
    and "sp_dl (abs_storage d) t c = Some (ds\<lparr>ds_active := map_of (map (\<lambda>(now, w). (wl_Name w, wl_Type w)) ws),
      ds_log := datas\<rparr>)"
    and "list_all2 (\<lambda>(now, w) v. marshalWorkload (bs_json b) (WithResults w (initResult now)) = Ok v) ws datas"
    and "distinct (map (wl_Name \<circ> snd) ws)" and "(now, w) \<in> set ws"
  shows "\<exists>v w'. Storage_Current (onMap b) t c (wl_Name w) d = Ok w' \<and> State (wl_Result w') = StateInit \<and>
    wl_Type w' = wl_Type w \<and> marshalWorkload (bs_json b) (WithResults w (initResult now)) = Ok v \<and>
    unmarshalWorkload (bs_json b) v = Ok w'"
proof -
  let ?ws = "map (\<lambda>(now, w). WithResults w (initResult now)) ws" and ?w = "WithResults w (initResult now)"
  have "list_all2 (\<lambda>w v. marshalWorkload (bs_json b) w = Ok v) ?ws datas"
    using assms(4) by (simp add: list_all2_map1 case_prod_unfold)
  moreover have "distinct (map wl_Name ?ws)" using assms(5) by (simp add: comp_def case_prod_unfold)
  moreover have "?w \<in> set ?ws" using assms(6) by force
  ultimately obtain v w' where v: "marshalWorkload (bs_json b) ?w = Ok v" "unmarshalWorkload (bs_json b) v = Ok w'"
    and w': "currentScan (bs_json b) (wl_Name ?w) (wl_Type ?w) (rev datas) = Ok w'"
    using currentScan_records[OF assms(1), of ?ws datas ?w] by (auto simp: initResult_def state_defs)
  have "map_of (map (\<lambda>(now, w). (wl_Name w, wl_Type w)) ws) (wl_Name w) = Some (wl_Type w)"
    using assms(5,6) by (intro map_of_is_SomeI) (force simp: comp_def case_prod_unfold)+
  with w' assms(3) have "Storage_Current (onMap b) t c (wl_Name w) d = Ok w'"
    unfolding Current_spec[OF assms(2)] by auto
  moreover have "sameRecord ?w w'" using assms(1) v unfolding jsonKeeps_def by fastforce
  then have "State (wl_Result w') = StateInit" "wl_Type w' = wl_Type w"
    using sameRecord_fields(2,3) by (fastforce simp: initResult_def)+
  ultimately show ?thesis using v by blast
qed

text \<open>The records that \<open>Create\<close> writes, with the clock reading of each.\<close>

abbreviation timed :: "(nat \<Rightarrow> timestamp) \<Rightarrow> Deployment \<Rightarrow> (timestamp \<times> Workload) list" where
  "timed now dl \<equiv> map (\<lambda>(i, w). (now i, w)) (enumerate 0 (dl_Workloads dl))"

abbreviation createdState :: "(nat \<Rightarrow> timestamp) \<Rightarrow> Deployment \<Rightarrow> bytes \<Rightarrow> bytes list \<Rightarrow> DlState" where
  "createdState now dl sig datas \<equiv> (withFields (createdFields dl sig))
      \<lparr>ds_active := map_of (map (\<lambda>(now, w). (wl_Name w, wl_Type w)) (timed now dl)), ds_log := datas\<rparr>"

lemma snd_timed: "map snd (timed now dl) = dl_Workloads dl"
  by (simp add: comp_def case_prod_unfold)

lemma created_state:
  assumes "specCreate u G J now dl a = Some a'"
  shows "\<exists>sig datas. marshalSignatureRequirement J (dl_SignatureRequirement dl) = Ok sig \<and>
    list_all2 (\<lambda>(now, w) v. marshalWorkload J (WithResults w (initResult now)) = Ok v) (timed now dl) datas \<and>
    distinct (map (wl_Name \<circ> snd) (timed now dl)) \<and>
    sp_dl a' (dl_TwinID dl) (dl_ContractID dl) = Some (createdState now dl sig datas)"
proof -
  let ?t = "dl_TwinID dl" and ?c = "dl_ContractID dl"
  from assms obtain sig where sig: "marshalSignatureRequirement J (dl_SignatureRequirement dl) = Ok sig"
    and all: "specAddAll u G J ?t ?c (timed now dl)
      (setDl ?t ?c (Some (withFields (createdFields dl sig))) a) = Some a'"
    by (auto simp: specCreate_def split: option.splits sum.splits)
  from specAddAll_effect[OF all, of "withFields (createdFields dl sig)"] sig show ?thesis
    by (auto simp del: map_map)
qed

lemma created_workloads:
  assumes "\<And>x. x \<in> set xs \<Longrightarrow> cur (wl_Name x) = Some x" and "\<And>n x. cur n = Some x \<Longrightarrow> x \<in> set xs"
    and "\<And>n x. cur n = Some x \<Longrightarrow> \<exists>y \<in> set ys. wl_Name y = n"
    and "\<And>y. y \<in> set ys \<Longrightarrow> \<exists>x. cur (wl_Name y) = Some x \<and> unresolved x = stored compact y \<and> State (wl_Result x) = StateInit"
    and "distinct (map wl_Name xs)" and "distinct (map wl_Name ys)"
  shows "mset (map unresolved xs) = mset (map (stored compact) ys) \<and> (\<forall>x \<in> set xs. State (wl_Result x) = StateInit)"
proof -
  have orig: "\<exists>y \<in> set ys. unresolved x = stored compact y \<and> State (wl_Result x) = StateInit" if "x \<in> set xs" for x
    using assms(1)[OF that] assms(3,4) by (metis option.inject)
  moreover have "\<exists>x \<in> set xs. stored compact y = unresolved x" if "y \<in> set ys" for y
    using assms(4)[OF that] assms(2) by metis
  ultimately have "unresolved ` set xs = stored compact ` set ys" by (auto simp: image_iff)
  with orig mset_named[OF assms(5,6) this] show ?thesis by simp
qed

lemma create_get:
  assumes "bolt B \<alpha>" and "bs_db b = B" and "jsonKeeps (bs_json b)" and "\<alpha> s0 = emptyDb"
    and "storage_run b s0 s" and "\<And>xs. mset (ord xs) = mset xs"
    and "length (dl_Workloads dl) < 2 ^ 64" and "Storage_Create b now dl s = Ok s'" and "rawCompacts (bs_json b) compact"
  shows "\<exists>dl'. Storage_Get b ord (dl_TwinID dl) (dl_ContractID dl) s' = Ok dl' \<and>
    dl_Version dl' = dl_Version dl \<and> dl_Metadata dl' = dl_Metadata dl \<and>
    dl_Description dl' = dl_Description dl \<and> dl_SignatureRequirement dl' = dl_SignatureRequirement dl \<and>
    mset (map unresolved (dl_Workloads dl')) = mset (map (stored compact) (dl_Workloads dl)) \<and>
    (\<forall>w \<in> set (dl_Workloads dl'). State (wl_Result w) = StateInit)"
proof -
  let ?t = "dl_TwinID dl" and ?c = "dl_ContractID dl" and ?J = "bs_json b"
  have run': "storage_run b s0 s'"
    by (rule storage_run.step[OF assms(5)]) (rule storage_step.Create[OF assms(8,7)])
  have inv: "layout (\<alpha> s)" "layout (\<alpha> s')" "consistent ?J (abs_storage (\<alpha> s'))"
    using bolt.run_inv[OF assms(1-5)] bolt.run_inv[OF assms(1-4) run'] by (simp_all add: storageInv_def)
  have "implements (Ok (\<alpha> s')) (specCreate (bs_unsafe b) (bs_registry b) ?J now dl (abs_storage (\<alpha> s)))"
    using Create_implements[OF inv(1) assms(7), of b now] bolt.Create_map[OF assms(1,2), of now dl s] assms(8) by simp
  then obtain sig datas where sig: "marshalSignatureRequirement ?J (dl_SignatureRequirement dl) = Ok sig"
    and datas: "list_all2 (\<lambda>(now, w) v. marshalWorkload ?J (WithResults w (initResult now)) = Ok v) (timed now dl) datas"
      "distinct (map (wl_Name \<circ> snd) (timed now dl))"
    and ds: "sp_dl (abs_storage (\<alpha> s')) ?t ?c = Some (createdState now dl sig datas)"
    using created_state by force
  with inv(3) have cons: "dlConsistent ?J (createdState now dl sig datas)"
    unfolding consistent_def by blast
  obtain dl' where dl': "Storage_Get b ord ?t ?c s' = Ok dl'" and f: "dl_Version dl' = dl_Version dl"
      "dl_Metadata dl' = dl_Metadata dl" "dl_Description dl' = dl_Description dl"
      "dl_SignatureRequirement dl' = dl_SignatureRequirement dl"
    using consistent_get[OF inv(2) cons ds, of ord] sig assms(3) unfolding bolt.Get_map[OF assms(1,2)]
    by (auto simp: createdFields_def key_defs jsonKeeps_def)
  note agree = get_current_agree[OF assms(1-4) run' assms(6) dl']
  let ?cur = "\<lambda>n. to_opt (Storage_Current b ?t ?c n s')"
  have cur: "?cur n = Some x \<longleftrightarrow> Storage_Current (onMap b) ?t ?c n (\<alpha> s') = Ok x" for n x
    by (simp add: bolt.Current_map[OF assms(1,2)] to_opt_def split: sum.split)
  have "mset (map unresolved (dl_Workloads dl')) = mset (map (stored compact) (dl_Workloads dl)) \<and>
      (\<forall>x \<in> set (dl_Workloads dl'). State (wl_Result x) = StateInit)"
  proof (rule created_workloads[of _ ?cur])
    fix n x assume n: "?cur n = Some x"
    then have scan: "map_of (map (\<lambda>(now, w). (wl_Name w, wl_Type w)) (timed now dl)) n \<noteq> None" "wl_Name x = n"
      using ds currentScan_Ok unfolding cur Current_spec[OF inv(2)] by fastforce+
    show "x \<in> set (dl_Workloads dl')" using n agree scan(2) by (auto simp: to_opt_def split: sum.splits)
    from scan(1) have "\<exists>y \<in> snd ` set (timed now dl). wl_Name y = n"
      unfolding map_of_eq_None_iff by force
    then show "\<exists>y \<in> set (dl_Workloads dl). wl_Name y = n" using snd_timed by (metis set_map)
  next
    fix y assume "y \<in> set (dl_Workloads dl)"
    then have "y \<in> snd ` set (timed now dl)" using snd_timed by (metis set_map)
    then obtain i where "(i, y) \<in> set (timed now dl)" by force
    from created_records[OF assms(3) inv(2) ds datas this] stored_record[OF assms(3,9)]
    show "\<exists>x. ?cur (wl_Name y) = Some x \<and> unresolved x = stored compact y \<and> State (wl_Result x) = StateInit"
      unfolding cur by metis
  qed (use agree datas(2) snd_timed[of now dl] in \<open>auto simp: to_opt_def simp flip: map_map\<close>)
  with dl' f show ?thesis by blast
qed

text \<open>C26: what is created is what is read back. After a successful \<open>Create\<close>, \<open>Get\<close> returns the
  version, metadata, description and signature requirement that were stored, and the same
  workloads, each with its data in the compact form that \<open>encoding/json\<close> gives a raw message, and in
  state \<open>init\<close>. (The expiration is not stored.)\<close>

theorem create_then_get:
  assumes "bolt B \<alpha>" and "bs_db b = B" and "jsonKeeps (bs_json b)" and "\<alpha> s0 = emptyDb"
    and "storage_run b s0 s" and "\<And>xs. mset (ord xs) = mset xs"
    and "length (dl_Workloads dl) < 2 ^ 64" and "Storage_Create b now dl s = Ok s'" and "rawCompacts (bs_json b) compact"
  shows "\<exists>dl'. Storage_Get b ord (dl_TwinID dl) (dl_ContractID dl) s' = Ok dl' \<and>
    dl_Version dl' = dl_Version dl \<and> dl_Metadata dl' = dl_Metadata dl \<and>
    dl_Description dl' = dl_Description dl \<and> dl_SignatureRequirement dl' = dl_SignatureRequirement dl \<and>
    mset (map unresolved (dl_Workloads dl')) = mset (map (stored compact) (dl_Workloads dl)) \<and>
    (\<forall>w \<in> set (dl_Workloads dl'). State (wl_Result w) = StateInit)"
  using assms by (rule create_get)

theorem create_then_get_witness:
  "\<exists>s dl. Storage_Create sample_storage (\<lambda>_. 5) sample_net emptyMem = Ok s \<and>
     Storage_Get sample_storage (\<lambda>ws. ws) 7 9 s = Ok dl \<and> dl_Description dl = ''d'' \<and>
     mset (map unresolved (dl_Workloads dl)) = mset (map unresolved (dl_Workloads sample_net)) \<and>
     (\<forall>w \<in> set (dl_Workloads sample_net). wl_Data w = ''d'')"
proof -
  from sample_created obtain s where s: "Storage_Create sample_storage (\<lambda>_. 5) sample_net emptyMem = Ok s" by blast
  have f: "length (dl_Workloads sample_net) < 2 ^ 64" "dl_TwinID sample_net = 7" "dl_ContractID sample_net = 9"
    "dl_Description sample_net = ''d''" by (simp_all add: sample_net_def sample_dl_def)
  have same: "stored (\<lambda>d. d) = unresolved" by (simp add: fun_eq_iff stored_def)
  have data: "\<forall>w \<in> set (dl_Workloads sample_net). wl_Data w = ''d''"
    by (simp add: sample_net_def sample_dl_def sample_wl_def)
  from create_then_get[OF mem.bolt_axioms sample_storage_fields(1) _ sample_empty storage_run.start _ f(1) s,
      of "\<lambda>ws. ws" "\<lambda>d. d"] s f sample_json_keeps sample_json_raw data
  show ?thesis unfolding same by (auto simp: sample_storage_fields)
qed

lemma cursor_keys:
  assumes "finiteDb d" and "\<And>k. k \<in> dbKeys p d \<Longrightarrow> P (k, if db_buckets d (p @ [k]) \<noteq> None then None else db_vals d p k) \<Longrightarrow> \<exists>x. k = key x"
    and "\<And>x y. key x < key y \<longleftrightarrow> (x :: 'a :: linorder) < y" and "\<And>x. un (key x) = Ok x"
  shows "\<exists>xs. rlist un (map fst (filter P (dbCursor p d))) = Ok xs \<and> sorted_wrt (<) xs \<and>
    (\<forall>x. x \<in> set xs \<longleftrightarrow> key x \<in> dbKeys p d \<and> P (key x, if db_buckets d (p @ [key x]) \<noteq> None then None else db_vals d p (key x)))"
proof -
  let ?ks = "map fst (filter P (dbCursor p d))"
  have ks: "k \<in> set ?ks \<longleftrightarrow> k \<in> dbKeys p d \<and> P (k, if db_buckets d (p @ [k]) \<noteq> None then None else db_vals d p k)" for k
    using set_dbCursor[OF assms(1)] by (auto simp: image_iff)
  with assms(2) have "\<forall>k \<in> set ?ks. \<exists>x. k = key x" by blast
  then obtain g where g: "k \<in> set ?ks \<Longrightarrow> k = key (g k)" for k by metis
  let ?xs = "map g ?ks"
  have keys: "map key ?xs = ?ks" using g by (simp add: map_idI)
  have "sorted_wrt (<) ?ks"
    using sorted_dbCursor[of p d]
    by (simp add: strict_sorted_iff distinct_map_filter sorted_filter)
  then have "sorted_wrt (<) (map key ?xs)" unfolding keys .
  then have "sorted_wrt (<) ?xs" unfolding sorted_wrt_map assms(3) .
  moreover have "rlist un ?ks = Ok ?xs"
    by (rule rlist_Ok_map) (metis g assms(4))
  moreover have "x \<in> set ?xs \<longleftrightarrow> key x \<in> set ?ks" for x
  proof
    assume "key x \<in> set ?ks"
    then have "key x \<in> set (map key ?xs)" unfolding keys .
    then show "x \<in> set ?xs" using assms(4) by (metis imageE list.set_map sum.inject(2))
  next
    assume "x \<in> set ?xs"
    then have "key x \<in> set (map key ?xs)" unfolding set_map[of key] by (rule imageI)
    then show "key x \<in> set ?ks" unfolding keys .
  qed
  ultimately show ?thesis using ks by blast
qed

text \<open>The listings are exact. \<open>Twins\<close> and \<open>ByTwin\<close> never fail; they list, in increasing order
  and once each, the twins that have a bucket and the contracts of a twin that have a
  deployment. (The keys are big-endian, so that the order of the database is the order of
  the numbers.)\<close>

theorem listings_exact:
  assumes "bolt B \<alpha>" and "bs_db b = B" and "jsonKeeps (bs_json b)" and "\<alpha> s0 = emptyDb"
    and "storage_run b s0 s"
  shows "(\<exists>ts. Storage_Twins b s = Ok ts \<and> sorted_wrt (<) ts \<and> (\<forall>t. t \<in> set ts \<longleftrightarrow> boltBucket B (twinPath t) s)) \<and>
    (\<exists>cs. Storage_ByTwin b t s = Ok cs \<and> sorted_wrt (<) cs \<and> (\<forall>c. c \<in> set cs \<longleftrightarrow> boltBucket B (dlPath t c) s))"
proof -
  have l: "layout (\<alpha> s)" using bolt.run_inv[OF assms(1-5)] by (simp add: storageInv_def)
  have shape: "db_buckets (\<alpha> s) p \<noteq> None \<Longrightarrow> bucketShape p" for p using l by (auto simp: layout_def)
  have twin: "\<exists>t. k = Storage_u32 t" if "db_buckets (\<alpha> s) [k] \<noteq> None" for k
    using shape[OF that] by (auto simp: bucketShape_def)
  have dl: "k = keyGlobal \<or> (\<exists>c. k = Storage_u64 c)" if "db_buckets (\<alpha> s) [Storage_u32 t, k] \<noteq> None" for k
    using shape[OF that] by (auto simp: bucketShape_def)
  have "\<exists>ts. rlist Storage_l32 (map fst (filter isTwinKey (dbCursor [] (\<alpha> s)))) = Ok ts \<and> sorted_wrt (<) ts \<and>
      (\<forall>t. t \<in> set ts \<longleftrightarrow> Storage_u32 t \<in> dbKeys [] (\<alpha> s) \<and> isTwinKey (Storage_u32 t,
         if db_buckets (\<alpha> s) ([] @ [Storage_u32 t]) \<noteq> None then None else db_vals (\<alpha> s) [] (Storage_u32 t)))"
    using layout_fields(1)[OF l] layout_no_values(1)[OF l] twin
    by (intro cursor_keys) (auto simp: dbKeys_def u32_less_iff)
  moreover have "\<exists>cs. rlist Storage_l64 (map fst (filter isDeploymentKey (dbCursor (twinPath t) (\<alpha> s)))) = Ok cs \<and> sorted_wrt (<) cs \<and>
      (\<forall>c. c \<in> set cs \<longleftrightarrow> Storage_u64 c \<in> dbKeys (twinPath t) (\<alpha> s) \<and> isDeploymentKey (Storage_u64 c,
         if db_buckets (\<alpha> s) (twinPath t @ [Storage_u64 c]) \<noteq> None then None else db_vals (\<alpha> s) (twinPath t) (Storage_u64 c)))"
    using layout_fields(1)[OF l] layout_no_values(2)[OF l] dl
    by (intro cursor_keys) (auto simp: dbKeys_def u64_less_iff isDeploymentKey_def, blast)
  moreover have "db_buckets (\<alpha> s) (dlPath t c) = None" if "db_buckets (\<alpha> s) (twinPath t) = None" for c
    using layout_parents(3)[OF l, of t c] that by blast
  ultimately show ?thesis
    using layout_no_values(1,2)[OF l]
    unfolding bolt.Twins_map[OF assms(1,2)] bolt.ByTwin_map[OF assms(1,2)] bolt.bucket[OF assms(1)]
    by (auto simp: Storage_Twins_def Storage_ByTwin_def dbKeys_def dbBucket_def isTwinKey_def isDeploymentKey_def)
qed

theorem listings_exact_witness:
  "\<exists>s ts. Storage_Create sample_storage (\<lambda>_. 5) sample_net emptyMem = Ok s \<and> Storage_Twins sample_storage s = Ok ts"
proof -
  from sample_created obtain s where s: "Storage_Create sample_storage (\<lambda>_. 5) sample_net emptyMem = Ok s"
    "storage_run sample_storage emptyMem s" by blast
  from listings_exact[OF mem.bolt_axioms sample_storage_fields(1) _ sample_empty s(2), of 7] s(1) sample_json_keeps
  show ?thesis by (auto simp: sample_storage_fields)
qed

end
