(* ===== verification/Provisioner.thy ===== *)
theory Provisioner
  imports StorageProps
begin

text \<open>
  The provisioners of \<open>pkg/provision/provisiner.go\<close> (one manager per workload type) and
  \<open>pkg/primitives/statistics.go\<close> (a provisioner that checks the memory of the node before it
  passes a workload on). The managers act on the node: its state is an abstract type
  \<open>'w\<close>, and a manager is a record of functions on it, with the optional interfaces
  (\<open>Initializer\<close>, \<open>Updater\<close>, \<open>Pauser\<close>) as options. A manager may read the storage
  (\<open>'s\<close>), through the engine in its context.
\<close>

section \<open>Contexts (engine.go, statistics.go)\<close>

text \<open>The values the engine puts on a context; of a contract the node, the hash of the deployment and
  the public addresses that are reserved (address and gateway).\<close>

record NodeContract =
  nc_Node :: u32
  nc_DeploymentHash :: string
  nc_PublicIPs :: "(string \<times> string) list"

record Ctx =
  ctx_deployment :: "(u32 \<times> u64) option"
  ctx_contract :: "NodeContract option"
  ctx_rented :: "bool option"
  ctx_capacity :: "Capacity option"
  ctx_deadline :: "timestamp option"

definition background :: Ctx where
  "background = \<lparr>ctx_deployment = None, ctx_contract = None, ctx_rented = None, ctx_capacity = None,
     ctx_deadline = None\<rparr>"

definition withDeployment :: "Ctx \<Rightarrow> u32 \<Rightarrow> u64 \<Rightarrow> Ctx" where
  "withDeployment ctx twin deployment = ctx\<lparr>ctx_deployment := Some (twin, deployment)\<rparr>"

definition withContract :: "Ctx \<Rightarrow> NodeContract \<Rightarrow> Ctx" where
  "withContract ctx contract = ctx\<lparr>ctx_contract := Some contract\<rparr>"

definition withRented :: "Ctx \<Rightarrow> bool \<Rightarrow> Ctx" where
  "withRented ctx rent = ctx\<lparr>ctx_rented := Some rent\<rparr>"

text \<open>The accessors; a missing value is a failed type assertion, a panic.\<close>

definition GetDeploymentID :: "Ctx \<Rightarrow> (u32 \<times> u64) result" where
  "GetDeploymentID ctx = (case ctx_deployment ctx of
     None \<Rightarrow> Err (Panic ''interface conversion'') | Some v \<Rightarrow> Ok v)"

definition GetContract :: "Ctx \<Rightarrow> NodeContract result" where
  "GetContract ctx = (case ctx_contract ctx of
     None \<Rightarrow> Err (Panic ''interface conversion'') | Some v \<Rightarrow> Ok v)"

definition IsRentedNode :: "Ctx \<Rightarrow> bool" where
  "IsRentedNode ctx = (case ctx_rented ctx of None \<Rightarrow> False | Some b \<Rightarrow> b)"

definition GetCapacity :: "Ctx \<Rightarrow> Capacity result" where
  "GetCapacity ctx = (case ctx_capacity ctx of
     None \<Rightarrow> Err (Panic ''no current capacity injected'') | Some c \<Rightarrow> Ok c)"


section \<open>The interfaces (interface.go, provisiner.go)\<close>

type_synonym ('s, 'w) call = "Ctx \<Rightarrow> 's \<Rightarrow> WorkloadWithID \<Rightarrow> 'w \<Rightarrow> (Result \<times> err option) \<times> 'w"
type_synonym ('s, 'w) action = "Ctx \<Rightarrow> 's \<Rightarrow> WorkloadWithID \<Rightarrow> 'w \<Rightarrow> err option \<times> 'w"

record ('s, 'w) Provisioner =
  pr_Initialize :: "'w \<Rightarrow> err option \<times> 'w"
  pr_Provision :: "('s, 'w) call"
  pr_Deprovision :: "('s, 'w) action"
  pr_Pause :: "('s, 'w) call"
  pr_Resume :: "('s, 'w) call"
  pr_Update :: "('s, 'w) call"
  pr_CanUpdate :: "WorkloadType \<Rightarrow> bool"

text \<open>The data a manager returns is only ever marshalled: it is given as its JSON text, or the
  error of marshalling it.\<close>

type_synonym ('s, 'w) provide =
  "Ctx \<Rightarrow> 's \<Rightarrow> WorkloadWithID \<Rightarrow> 'w \<Rightarrow> (bytes result \<times> err option) \<times> 'w"

record ('s, 'w) Pauser =
  pauser_Pause :: "('s, 'w) action"
  pauser_Resume :: "('s, 'w) action"

record ('s, 'w) Manager =
  mgr_Provision :: "('s, 'w) provide"
  mgr_Deprovision :: "('s, 'w) action"
  mgr_Initializer :: "('w \<Rightarrow> err option \<times> 'w) option"
  mgr_Updater :: "('s, 'w) provide option"
  mgr_Pauser :: "('s, 'w) Pauser option"

definition response_Ok :: err where
  "response_Ok = Response StateOk None"

definition response_UnChanged :: "err \<Rightarrow> err" where
  "response_UnChanged cause = Response StateUnChanged (Some cause)"

definition response_Paused :: err where
  "response_Paused = Response StatePaused (Some (Errorf ''paused''))"


section \<open>The map provisioner (provisiner.go)\<close>

text \<open>\<open>now\<close> is the clock, a function of the state of the node.\<close>

definition setState :: "timestamp \<Rightarrow> Result \<Rightarrow> err option \<Rightarrow> Result" where
  "setState now result err = (case err of
     None \<Rightarrow> result\<lparr>Created := now, State := StateOk, Error := []\<rparr>
   | Some e \<Rightarrow> result\<lparr>Created := now, Error := err_text e,
       State := (case err_as_response e of None \<Rightarrow> StateError | Some s \<Rightarrow> s)\<rparr>)"

definition buildResult :: "timestamp \<Rightarrow> bytes result \<Rightarrow> err option \<Rightarrow> Result \<times> err option" where
  "buildResult now data err = (let result = setState now noResult err in
     case data of
       Inl e \<Rightarrow> (result, Some (Wrap ''failed to encode result'' e))
     | Inr br \<Rightarrow> (result\<lparr>Data := br\<rparr>, None))"

type_synonym ('s, 'w) managers = "WorkloadType \<Rightarrow> ('s, 'w) Manager option"

definition unknownType :: "WorkloadWithID \<Rightarrow> err" where
  "unknownType wl = Errorf (''unknown workload type '' @ squote (wl_Type (wi_Workload wl))
     @ '' for reservation id '' @ squote (wi_ID wl))"

text \<open>\<open>Initialize\<close> visits the managers in the order of a map iteration, given as a list.\<close>

fun mapProvisioner_Initialize ::
    "(WorkloadType \<times> ('s, 'w) Manager) list \<Rightarrow> 'w \<Rightarrow> err option \<times> 'w" where
  "mapProvisioner_Initialize [] w = (None, w)"
| "mapProvisioner_Initialize ((t, mgr) # rest) w =
     (case mgr_Initializer mgr of
        None \<Rightarrow> mapProvisioner_Initialize rest w
      | Some init \<Rightarrow>
          (case init w of
             (Some e, w) \<Rightarrow>
               (Some (Wrap (''failed to run initializers for workload type '' @ squote t) e), w)
           | (None, w) \<Rightarrow> mapProvisioner_Initialize rest w))"

text \<open>What \<open>Provision\<close> and \<open>Update\<close> share: \<open>ErrNoActionNeeded\<close> is passed on, anything else is
  made a result.\<close>

definition provide_result ::
    "('w \<Rightarrow> timestamp) \<Rightarrow> (bytes result \<times> err option) \<times> 'w \<Rightarrow> (Result \<times> err option) \<times> 'w" where
  "provide_result now r = (case r of ((data, err), w) \<Rightarrow>
     (case err of
        Some e \<Rightarrow> if err_is e ErrNoActionNeeded then ((noResult, err), w)
          else (buildResult (now w) data err, w)
      | None \<Rightarrow> (buildResult (now w) data None, w)))"

definition mapProvisioner_Provision ::
    "('w \<Rightarrow> timestamp) \<Rightarrow> ('s, 'w) managers \<Rightarrow> ('s, 'w) call" where
  "mapProvisioner_Provision now managers ctx s wl w =
     (case managers (wl_Type (wi_Workload wl)) of
        None \<Rightarrow> ((noResult, Some (unknownType wl)), w)
      | Some manager \<Rightarrow> provide_result now (mgr_Provision manager ctx s wl w))"

definition mapProvisioner_Deprovision :: "('s, 'w) managers \<Rightarrow> ('s, 'w) action" where
  "mapProvisioner_Deprovision managers ctx s wl w =
     (case managers (wl_Type (wi_Workload wl)) of
        None \<Rightarrow> (Some (unknownType wl), w)
      | Some manager \<Rightarrow> mgr_Deprovision manager ctx s wl w)"

definition mapProvisioner_Pause ::
    "('w \<Rightarrow> timestamp) \<Rightarrow> ('s, 'w) managers \<Rightarrow> ('s, 'w) call" where
  "mapProvisioner_Pause now managers ctx s wl w =
     (let result = wl_Result (wi_Workload wl) in
      if State result \<noteq> StateOk then
        ((result, Some (Errorf ''can only pause workloads in ok state'')), w)
      else case managers (wl_Type (wi_Workload wl)) of
        None \<Rightarrow> ((result, Some (unknownType wl)), w)
      | Some manager \<Rightarrow>
          (case (case mgr_Pauser manager of
                   None \<Rightarrow> (Some response_Paused, w)
                 | Some mgr \<Rightarrow> pauser_Pause mgr ctx s wl w) of
             (err, w) \<Rightarrow> ((setState (now w) result err, None), w)))"

definition mapProvisioner_Resume ::
    "('w \<Rightarrow> timestamp) \<Rightarrow> ('s, 'w) managers \<Rightarrow> ('s, 'w) call" where
  "mapProvisioner_Resume now managers ctx s wl w =
     (let result = wl_Result (wi_Workload wl) in
      if State result \<noteq> StatePaused then
        ((result, Some (Errorf ''can only resume workloads in paused state'')), w)
      else case managers (wl_Type (wi_Workload wl)) of
        None \<Rightarrow> ((result, Some (unknownType wl)), w)
      | Some manager \<Rightarrow>
          (case (case mgr_Pauser manager of
                   None \<Rightarrow> (Some response_Ok, w)
                 | Some mgr \<Rightarrow> pauser_Resume mgr ctx s wl w) of
             (err, w) \<Rightarrow> ((setState (now w) result err, None), w)))"

definition mapProvisioner_Update ::
    "('w \<Rightarrow> timestamp) \<Rightarrow> ('s, 'w) managers \<Rightarrow> ('s, 'w) call" where
  "mapProvisioner_Update now managers ctx s wl w =
     (case managers (wl_Type (wi_Workload wl)) of
        None \<Rightarrow> ((noResult, Some (unknownType wl)), w)
      | Some manager \<Rightarrow>
          (case mgr_Updater manager of
             None \<Rightarrow> ((noResult, Some (Errorf (''workload type ''
               @ squote (wl_Type (wi_Workload wl)) @ '' does not support updating''))), w)
           | Some update \<Rightarrow> provide_result now (update ctx s wl w)))"

definition mapProvisioner_CanUpdate :: "('s, 'w) managers \<Rightarrow> WorkloadType \<Rightarrow> bool" where
  "mapProvisioner_CanUpdate managers t =
     (case managers t of None \<Rightarrow> False | Some manager \<Rightarrow> mgr_Updater manager \<noteq> None)"

definition NewMapProvisioner ::
    "('w \<Rightarrow> timestamp) \<Rightarrow> (WorkloadType \<times> ('s, 'w) Manager) list \<Rightarrow> ('s, 'w) Provisioner" where
  "NewMapProvisioner now managers = \<lparr>
     pr_Initialize = mapProvisioner_Initialize managers,
     pr_Provision = mapProvisioner_Provision now (map_of managers),
     pr_Deprovision = mapProvisioner_Deprovision (map_of managers),
     pr_Pause = mapProvisioner_Pause now (map_of managers),
     pr_Resume = mapProvisioner_Resume now (map_of managers),
     pr_Update = mapProvisioner_Update now (map_of managers),
     pr_CanUpdate = mapProvisioner_CanUpdate (map_of managers)\<rparr>"


section \<open>Capacity of the node (statistics.go)\<close>

text \<open>
  \<open>VirtualMemory\<close> (a third-party package) reads the total and available memory; the
  reserved capacity is a function the node passes in. Both depend on the node's state.
\<close>

record ('s, 'w) Statistics =
  stat_inner :: "('s, 'w) Provisioner"
  stat_total :: Capacity
  stat_reserved :: "'w \<Rightarrow> Capacity result"
  stat_storageCapacity :: "Exclude list \<Rightarrow> 's \<Rightarrow> StorageCapacity result"
  stat_virtualMemory :: "'w \<Rightarrow> (u64 \<times> u64) result"

record activeCounters =
  ac_cap :: Capacity
  ac_deployments :: int
  ac_workloads :: int
  ac_lastDeploymentTimestamp :: timestamp

definition Statistics_active ::
    "('s, 'w) Statistics \<Rightarrow> Exclude list \<Rightarrow> 's \<Rightarrow> 'w \<Rightarrow> activeCounters result" where
  "Statistics_active st exclude s w =
     rbind (stat_storageCapacity st exclude s) (\<lambda>storageCap.
     rbind (stat_reserved st w) (\<lambda>reserved.
     Ok \<lparr>ac_cap = Capacity_Add (cap_Cap storageCap) reserved,
         ac_deployments = int (length (cap_Deployments storageCap)),
         ac_workloads = cap_Workloads storageCap,
         ac_lastDeploymentTimestamp = cap_LastDeploymentTimestamp storageCap\<rparr>))"

definition getUsableMemoryBytes ::
    "('s, 'w) Statistics \<Rightarrow> Exclude list \<Rightarrow> 's \<Rightarrow> 'w \<Rightarrow> (Capacity \<times> Unit) result" where
  "getUsableMemoryBytes st exclude s w =
     rbind (Statistics_active st exclude s w) (\<lambda>counters.
     rbind (stat_virtualMemory st w) (\<lambda>(total, available).
     let theoreticalUsed = MRU (ac_cap counters);
         actualUsed = total - available;
         used = UnitMax theoreticalUsed actualUsed in
     Ok (ac_cap counters, total - used)))"

text \<open>The exclusion of the workload itself: the deployments list it too, when it is active.\<close>

definition sameWorkload :: "WorkloadID \<Rightarrow> Exclude" where
  "sameWorkload i dl wl =
     ((case NewWorkloadID (dl_TwinID dl) (dl_ContractID dl) (wl_Name wl) of Inr x \<Rightarrow> x | Inl _ \<Rightarrow> []) = i)"

definition hasEnoughCapacity ::
    "Lib \<Rightarrow> Registry \<Rightarrow> ('s, 'w) Statistics \<Rightarrow> WorkloadWithID \<Rightarrow> 's \<Rightarrow> 'w \<Rightarrow> Capacity result" where
  "hasEnoughCapacity L G st wl s w =
     rbind (rwrap ''failed to calculate workload needed capacity''
       (Workload_Capacity L G (wi_Workload wl))) (\<lambda>required.
     rbind (rwrap ''failed to get available memory''
       (getUsableMemoryBytes st [sameWorkload (wi_ID wl)] s w)) (\<lambda>(used, usable).
     if MRU required > usable then
       Err (Errorf (''cannot fulfil required memory size '' @ dec (unat (MRU required))
         @ '' bytes out of usable '' @ dec (unat usable) @ '' bytes''))
     else Ok used))"

definition Statistics_Provision ::
    "Lib \<Rightarrow> Registry \<Rightarrow> ('s, 'w) Statistics \<Rightarrow> ('s, 'w) call" where
  "Statistics_Provision L G st ctx s wl w =
     (case hasEnoughCapacity L G st wl s w of
        Inl e \<Rightarrow> ((noResult, Some (Wrap ''failed to satisfy required capacity'' e)), w)
      | Inr current \<Rightarrow> pr_Provision (stat_inner st) (ctx\<lparr>ctx_capacity := Some current\<rparr>) s wl w)"

text \<open>The other operations are those of the inner provisioner.\<close>

definition Statistics_provisioner ::
    "Lib \<Rightarrow> Registry \<Rightarrow> ('s, 'w) Statistics \<Rightarrow> ('s, 'w) Provisioner" where
  "Statistics_provisioner L G st = (stat_inner st)\<lparr>pr_Provision := Statistics_Provision L G st\<rparr>"

definition statsStream_Current :: "('s, 'w) Statistics \<Rightarrow> 's \<Rightarrow> 'w \<Rightarrow> Capacity result" where
  "statsStream_Current st s w = rbind (Statistics_active st [] s w) (\<lambda>c. Ok (ac_cap c))"

definition statsStream_Workloads :: "('s, 'w) Statistics \<Rightarrow> 's \<Rightarrow> int result" where
  "statsStream_Workloads st s = rbind (stat_storageCapacity st [] s) (\<lambda>c. Ok (cap_Workloads c))"

text \<open>\<open>GetCounters\<close>; the number of open connections is read from the system (\<open>conns\<close>).\<close>

record Counters =
  cnt_Total :: Capacity
  cnt_Used :: Capacity
  cnt_System :: Capacity
  cnt_OpenConnections :: int
  cnt_Deployments :: int
  cnt_Workloads :: int
  cnt_LastDeploymentTimestamp :: timestamp

definition statsStream_GetCounters ::
    "('s, 'w) Statistics \<Rightarrow> ('w \<Rightarrow> int result) \<Rightarrow> 's \<Rightarrow> 'w \<Rightarrow> Counters result" where
  "statsStream_GetCounters st conns s w =
     rbind (Statistics_active st [] s w) (\<lambda>ac.
     rbind (stat_reserved st w) (\<lambda>reserved.
     rbind (conns w) (\<lambda>conn.
     Ok \<lparr>cnt_Total = stat_total st, cnt_Used = ac_cap ac, cnt_System = reserved,
         cnt_OpenConnections = conn, cnt_Deployments = ac_deployments ac,
         cnt_Workloads = ac_workloads ac,
         cnt_LastDeploymentTimestamp = ac_lastDeploymentTimestamp ac\<rparr>)))"

section \<open>The pauser of virtual machines (vm/pause.go, vm-light/pause.go)\<close>

text \<open>\<open>lock\<close> is the call to the virtual machine module.\<close>

definition vm_Pause :: "(WorkloadID \<Rightarrow> bool \<Rightarrow> 'w \<Rightarrow> err option \<times> 'w) \<Rightarrow> ('s, 'w) action" where
  "vm_Pause lock ctx s wl w = (case lock (wi_ID wl) True w of
     (Some e, w) \<Rightarrow> (Some (response_UnChanged e), w)
   | (None, w) \<Rightarrow> (Some response_Paused, w))"

definition vm_Resume :: "(WorkloadID \<Rightarrow> bool \<Rightarrow> 'w \<Rightarrow> err option \<times> 'w) \<Rightarrow> ('s, 'w) action" where
  "vm_Resume lock ctx s wl w = (case lock (wi_ID wl) False w of
     (Some e, w) \<Rightarrow> (Some (response_UnChanged e), w)
   | (None, w) \<Rightarrow> (Some response_Ok, w))"

definition vm_pauser :: "(WorkloadID \<Rightarrow> bool \<Rightarrow> 'w \<Rightarrow> err option \<times> 'w) \<Rightarrow> ('s, 'w) Pauser" where
  "vm_pauser lock = \<lparr>pauser_Pause = vm_Pause lock, pauser_Resume = vm_Resume lock\<rparr>"


section \<open>Properties\<close>

lemma setState_fields [simp]:
  "Created (setState now r e) = now" "Data (setState now r e) = Data r"
  "State (setState now r e) = (case e of None \<Rightarrow> StateOk
     | Some x \<Rightarrow> (case err_as_response x of None \<Rightarrow> StateError | Some s \<Rightarrow> s))"
  "Error (setState now r e) = (case e of None \<Rightarrow> [] | Some x \<Rightarrow> err_text x)"
  by (simp_all add: setState_def split: option.split)

definition withResult :: "WorkloadWithID \<Rightarrow> Result \<Rightarrow> WorkloadWithID" where
  "withResult wl r = wl\<lparr>wi_Workload := WithResults (wi_Workload wl) r\<rparr>"

lemma withResult_fields [simp]:
  "wl_Result (wi_Workload (withResult wl r)) = r" "wl_Type (wi_Workload (withResult wl r)) = wl_Type (wi_Workload wl)"
  "wi_ID (withResult wl r) = wi_ID wl"
  by (simp_all add: withResult_def)

subsection \<open>Sample data for the witnesses\<close>

text \<open>A node whose state is a clock; every call takes one second and succeeds.\<close>

definition sample_manager :: "(Mem, int) Manager" where
  "sample_manager = \<lparr>
     mgr_Provision = (\<lambda>ctx s wl w. ((Ok ''{}'', None), w + 1)),
     mgr_Deprovision = (\<lambda>ctx s wl w. (None, w + 1)),
     mgr_Initializer = None, mgr_Updater = None,
     mgr_Pauser = Some (vm_pauser (\<lambda>i l w. (None, w + 1)))\<rparr>"

definition sample_statistics :: "(Mem, int) Statistics" where
  "sample_statistics = \<lparr>stat_inner = NewMapProvisioner (\<lambda>w. w) [], stat_total = noCapacity,
     stat_reserved = (\<lambda>w. Ok noCapacity),
     stat_storageCapacity = (\<lambda>ex s. Ok (noStorageCapacity\<lparr>cap_Cap := noCapacity\<lparr>MRU := 9\<rparr>\<rparr>)),
     stat_virtualMemory = (\<lambda>w. Ok (8, 8))\<rparr>"

definition sample_id :: "ResultState \<Rightarrow> WorkloadWithID" where
  "sample_id st = \<lparr>wi_Workload = (sample_wl ZMountType ''a'')\<lparr>wl_Result := \<lparr>Created = 3, State = st, Error = [],
      Data = ''x''\<rparr>\<rparr>, wi_ID = NewUncheckedWorkloadID 7 9 ''a''\<rparr>"

subsection \<open>Claims\<close>

text \<open>Pausing and resuming a workload keeps its data. A workload in state \<open>ok\<close> that is paused
  gets the state \<open>paused\<close>, and resuming it with that result brings it back to \<open>ok\<close>, with the
  data it had; this holds for the types without a pauser and for virtual machines whose
  module carries the call out. (Pausing anything but an \<open>ok\<close> workload and resuming anything
  but a \<open>paused\<close> one are refused.)\<close>

lemma pause_resume_keeps_data:
  assumes "managers (wl_Type (wi_Workload wl)) = Some m"
    and "mgr_Pauser m = None \<or> (\<exists>lock. mgr_Pauser m = Some (vm_pauser lock) \<and> (\<forall>i b w. \<exists>w'. lock i b w = (None, w')))"
    and "State (wl_Result (wi_Workload wl)) = StateOk"
    and "mapProvisioner_Pause now managers ctx s wl w = ((paused, e), w1)"
    and "mapProvisioner_Resume now managers ctx' s' (withResult wl paused) w1 = ((resumed, e'), w2)"
  shows "e = None \<and> State paused = StatePaused \<and> Data paused = Data (wl_Result (wi_Workload wl)) \<and>
    e' = None \<and> State resumed = StateOk \<and> Error resumed = [] \<and> Data resumed = Data (wl_Result (wi_Workload wl)) \<and>
    mapProvisioner_Pause now managers ctx s (withResult wl paused) w =
      ((paused, Some (Errorf ''can only pause workloads in ok state'')), w) \<and>
    mapProvisioner_Resume now managers ctx s wl w =
      ((wl_Result (wi_Workload wl), Some (Errorf ''can only resume workloads in paused state'')), w)"
proof -
  have distinct: "StateOk \<noteq> StatePaused" "StatePaused \<noteq> StateOk" by (simp_all add: state_defs)
  have p: "e = None \<and> State paused = StatePaused \<and> Data paused = Data (wl_Result (wi_Workload wl))"
    using assms(1-4)
    by (auto simp: mapProvisioner_Pause_def Let_def response_Paused_def vm_pauser_def vm_Pause_def
        split: prod.splits option.splits) (metis Pair_inject option.distinct(1))+
  have "e' = None \<and> State resumed = StateOk \<and> Error resumed = [] \<and> Data resumed = Data paused"
    using assms(1,2,5) p
    by (auto simp: mapProvisioner_Resume_def Let_def response_Ok_def vm_pauser_def vm_Resume_def
        split: prod.splits option.splits) (metis Pair_inject option.distinct(1))+
  with p distinct assms(3) show ?thesis
    by (simp add: mapProvisioner_Pause_def mapProvisioner_Resume_def Let_def)
qed

lemma pause_resume_keeps_data_witness:
  "\<exists>paused resumed. mapProvisioner_Pause (\<lambda>w. w) (\<lambda>t. Some sample_manager) background emptyMem (sample_id StateOk) 10
       = ((paused, None), 11) \<and>
     mapProvisioner_Resume (\<lambda>w. w) (\<lambda>t. Some sample_manager) background emptyMem
       (withResult (sample_id StateOk) paused) 11 = ((resumed, None), 12) \<and> Data resumed = ''x''"
proof -
  let ?p = "(wl_Result (wi_Workload (sample_id StateOk)))\<lparr>Created := 11, Error := ''paused'', State := StatePaused\<rparr>"
  let ?r = "?p\<lparr>Created := 12, Error := [], State := StateOk\<rparr>"
  have p: "mapProvisioner_Pause (\<lambda>w. w) (\<lambda>t. Some sample_manager) background emptyMem (sample_id StateOk) 10
       = ((?p, None), 11)"
    by (simp add: mapProvisioner_Pause_def sample_id_def sample_manager_def vm_pauser_def vm_Pause_def setState_def
        response_Paused_def)
  have r: "mapProvisioner_Resume (\<lambda>w. w) (\<lambda>t. Some sample_manager) background emptyMem
       (withResult (sample_id StateOk) ?p) 11 = ((?r, None), 12)"
    by (simp add: mapProvisioner_Resume_def withResult_def WithResults_def sample_id_def sample_manager_def
        vm_pauser_def vm_Resume_def setState_def response_Ok_def)
  have "mgr_Pauser sample_manager = Some (vm_pauser (\<lambda>i l w. (None, w + 1)))" by (simp add: sample_manager_def)
  with pause_resume_keeps_data[OF refl _ _ p r] p r show ?thesis
    by (auto simp: sample_id_def)
qed

text \<open>What a manager returns is what is recorded. Unless it reports that no action was needed,
  \<open>Provision\<close> returns no error (but that of encoding the data) and a result with the data and
  the time of the end of the call: \<open>ok\<close> without an error, the state of the response if the
  error carries one, however deep it is wrapped, and \<open>error\<close> with its text otherwise.\<close>

lemma provision_result_state:
  assumes "managers (wl_Type (wi_Workload wl)) = Some m"
    and "mgr_Provision m ctx s wl w = ((Ok br, err), w')"
    and "\<And>x. err = Some x \<Longrightarrow> \<not> err_is x ErrNoActionNeeded"
  shows "\<exists>r. mapProvisioner_Provision now managers ctx s wl w = ((r, None), w') \<and> Data r = br \<and> Created r = now w' \<and>
    (err = None \<longrightarrow> State r = StateOk \<and> Error r = []) \<and>
    (\<forall>x msg st c. err = Some x \<and> (x = Response st c \<or> x = Wrap msg (Response st c)) \<longrightarrow> State r = st) \<and>
    (\<forall>x. err = Some x \<and> err_as_response x = None \<longrightarrow> State r = StateError \<and> Error r = err_text x)"
  using assms
  by (cases err) (auto simp: mapProvisioner_Provision_def provide_result_def buildResult_def Let_def)

lemma provision_result_state_witness:
  "\<exists>r. mapProvisioner_Provision (\<lambda>w. w) (\<lambda>t. Some sample_manager) background emptyMem (sample_id StateInit) 10
      = ((r, None), 11) \<and> State r = StateOk"
  using provision_result_state[of "\<lambda>t. Some sample_manager" "sample_id StateInit" sample_manager background emptyMem 10
      "''{}''" None 11 "\<lambda>w. w"]
  by (auto simp: sample_manager_def)

text \<open>The memory check. When the memory in use does not exceed the memory of the node, a
  workload passes the check exactly if the memory it needs fits in what is left.\<close>

lemma memory_check_exact:
  assumes "Workload_Capacity L G (wi_Workload wl) = Ok required"
    and "Statistics_active st [sameWorkload (wi_ID wl)] s w = Ok counters"
    and "stat_virtualMemory st w = Ok (tot, available)" and "available \<le> tot"
    and "MRU (ac_cap counters) \<le> tot"
  shows "is_ok (hasEnoughCapacity L G st wl s w) \<longleftrightarrow>
    unat (MRU required) + max (unat (MRU (ac_cap counters))) (unat tot - unat available) \<le> unat tot"
proof -
  let ?used = "UnitMax (MRU (ac_cap counters)) (tot - available)"
  have sub: "unat (tot - available) = unat tot - unat available"
    using assms(4) by (simp add: unat_sub)
  then have used: "unat ?used = max (unat (MRU (ac_cap counters))) (unat tot - unat available)"
    by (auto simp: UnitMax_def word_less_nat_alt)
  have "?used \<le> tot" using assms(4,5) by (auto simp: UnitMax_def word_le_nat_alt sub)
  then have left: "unat (tot - ?used) = unat tot - unat ?used" by (simp add: unat_sub)
  have le: "unat ?used \<le> unat tot" using \<open>?used \<le> tot\<close> by (simp add: word_le_nat_alt)
  have "is_ok (hasEnoughCapacity L G st wl s w) \<longleftrightarrow> MRU required \<le> tot - ?used"
    using assms(1-3) by (auto simp: hasEnoughCapacity_def getUsableMemoryBytes_def not_less)
  also have "\<dots> \<longleftrightarrow> unat (MRU required) + unat ?used \<le> unat tot"
    unfolding word_le_nat_alt left using le by linarith
  finally show ?thesis by (simp add: used)
qed

text \<open>The memory check does not hold on an overcommitted node. When the memory that active
  workloads and the system reserve is larger than the memory of the node, the usable memory
  wraps around, and every workload that needs no more than what it wraps to passes.\<close>

lemma memory_check_overcommitted:
  assumes "Workload_Capacity L G (wi_Workload wl) = Ok required"
    and "Statistics_active st [sameWorkload (wi_ID wl)] s w = Ok counters"
    and "stat_virtualMemory st w = Ok (tot, available)" and "available \<le> tot"
    and "MRU (ac_cap counters) > tot"
    and "unat (MRU required) + unat (MRU (ac_cap counters)) \<le> 2 ^ 64 + unat tot"
  shows "hasEnoughCapacity L G st wl s w = Ok (ac_cap counters)"
proof -
  let ?m = "MRU (ac_cap counters)"
  have "tot - available \<le> tot" using assms(4) by (simp add: word_le_nat_alt unat_sub)
  then have "UnitMax ?m (tot - available) = ?m" using assms(5) by (auto simp: UnitMax_def)
  moreover have "unat (tot - ?m) = 2 ^ 64 + unat tot - unat ?m"
    using assms(5) unat64_less[of ?m] unat64_less[of tot] by (simp add: unat_sub_if_size word_size word_less_nat_alt word_le_nat_alt)
  then have "MRU required \<le> tot - ?m"
    using assms(6) unat64_less[of ?m] by (simp add: word_le_nat_alt)
  ultimately show ?thesis
    using assms(1-3) by (simp add: hasEnoughCapacity_def getUsableMemoryBytes_def not_less)
qed

lemma memory_check_exact_witness:
  "\<not> is_ok (hasEnoughCapacity (sample_lib\<lparr>lib_unmarshal := (\<lambda>t b. Ok (DZMachine (sample_vm ''p'')))\<rparr>) sample_registry
     (sample_statistics\<lparr>stat_virtualMemory := (\<lambda>w. Ok (Gigabyte, Gigabyte))\<rparr>) (sample_id StateOk) emptyMem 0)"
proof -
  let ?L = "sample_lib\<lparr>lib_unmarshal := (\<lambda>t b. Ok (DZMachine (sample_vm ''p'')))\<rparr>"
  let ?st = "sample_statistics\<lparr>stat_virtualMemory := (\<lambda>w. Ok (Gigabyte, Gigabyte))\<rparr>"
  let ?c = "\<lparr>ac_cap = noCapacity\<lparr>MRU := 9\<rparr>, ac_deployments = 0, ac_workloads = 0, ac_lastDeploymentTimestamp = 0\<rparr>"
  have r: "Workload_Capacity ?L sample_registry (wi_Workload (sample_id StateOk)) = Ok (ZMachine_Capacity (sample_vm ''p''))"
    by (simp add: Workload_Capacity_def Workload_WorkloadData_def WorkloadType_Valid_def sample_id_def sample_wl_def
        sample_registry_def)
  have a: "Statistics_active ?st [sameWorkload (wi_ID (sample_id StateOk))] emptyMem 0 = Ok ?c"
    by (simp add: Statistics_active_def sample_statistics_def noStorageCapacity_def)
  have "MRU (ZMachine_Capacity (sample_vm ''p'')) = Gigabyte" by (simp add: ZMachine_Capacity_def sample_vm_def)
  with memory_check_exact[OF r a, of Gigabyte Gigabyte] show ?thesis
    by (simp add: unit_defs)
qed

lemma memory_check_overcommitted_witness:
  "is_ok (hasEnoughCapacity sample_lib sample_registry sample_statistics (sample_id StateOk) emptyMem 0)"
proof -
  let ?c = "\<lparr>ac_cap = noCapacity\<lparr>MRU := 9\<rparr>, ac_deployments = 0, ac_workloads = 0, ac_lastDeploymentTimestamp = 0\<rparr>"
  obtain required where r: "Workload_Capacity sample_lib sample_registry (wi_Workload (sample_id StateOk)) = Ok required"
    "MRU required = 0"
    by (simp add: Workload_Capacity_def Workload_WorkloadData_def WorkloadType_Valid_def sample_id_def sample_wl_def
        sample_registry_def sample_lib_def type_defs ZMount_Capacity_def noCapacity_def)
  have a: "Statistics_active sample_statistics [sameWorkload (wi_ID (sample_id StateOk))] emptyMem 0 = Ok ?c"
    by (simp add: Statistics_active_def sample_statistics_def noStorageCapacity_def)
  from memory_check_overcommitted[OF r(1) a, of 8 8] r(2) show ?thesis
    by (simp add: sample_statistics_def)
qed

end
