(* ===== verification/Queue.thy ===== *)
theory Queue
  imports Prelude
begin

text \<open>
  The persisted job queue of the engine. It is a third-party package (\<open>dque\<close>), so that its
  operations are a record of functions on an abstract type; what the engine relies on, that
  it is a first-in first-out queue, is the locale \<open>fifo\<close>. A list is such a queue.
\<close>

record ('j, 'q) DQue =
  dque_Enqueue :: "'j \<Rightarrow> 'q \<Rightarrow> 'q result"
  dque_Peek :: "'q \<Rightarrow> 'j option"
  dque_Dequeue :: "'q \<Rightarrow> ('j \<times> 'q) result"

text \<open>A job that is accepted is last, a job that is refused leaves the queue as it was (the caller
  keeps it), \<open>PeekBlock\<close> returns the first job and waits while there is none, \<open>Dequeue\<close> removes
  the first job.\<close>

locale fifo =
  fixes Q :: "('j, 'q) DQue" and items :: "'q \<Rightarrow> 'j list"
  assumes enqueue: "dque_Enqueue Q j q = Ok q' \<Longrightarrow> items q' = items q @ [j]"
    and peek: "dque_Peek Q q = (case items q of [] \<Rightarrow> None | j # _ \<Rightarrow> Some j)"
    and dequeue: "items q = j # js \<Longrightarrow> \<exists>q'. dque_Dequeue Q q = Ok (j, q') \<and> items q' = js"
begin

lemma peek_None: "dque_Peek Q q = None \<longleftrightarrow> items q = []"
  by (simp add: peek split: list.split)

lemma peek_Some: "dque_Peek Q q = Some j \<longleftrightarrow> (\<exists>js. items q = j # js)"
  by (auto simp: peek split: list.split)

lemma dequeue_items: "dque_Dequeue Q q = Ok (j, q') \<Longrightarrow> items q \<noteq> [] \<Longrightarrow> items q = j # items q'"
  using dequeue by (cases "items q") fastforce+

end

definition listQueue :: "('j, 'j list) DQue" where
  "listQueue = \<lparr>dque_Enqueue = (\<lambda>j q. Ok (q @ [j])),
     dque_Peek = (\<lambda>q. case q of [] \<Rightarrow> None | j # _ \<Rightarrow> Some j),
     dque_Dequeue = (\<lambda>q. case q of [] \<Rightarrow> Err (Errorf ''queue is empty'') | j # js \<Rightarrow> Ok (j, js))\<rparr>"

lemma listQueue_simps [simp]:
  "dque_Enqueue listQueue j q = Ok (q @ [j])" "dque_Peek listQueue [] = None"
  "dque_Peek listQueue (j # js) = Some j" "dque_Dequeue listQueue (j # js) = Ok (j, js)"
  by (simp_all add: listQueue_def)

interpretation lq: fifo listQueue "\<lambda>q. q"
  by unfold_locales (auto simp: listQueue_def)

end
