(* ===== verification/Engine.thy ===== *)
theory Engine
  imports Provisioner Queue
begin

text \<open>
  The provision engine, \<open>pkg/provision/engine.go\<close>. The operations of its interface write the
  storage and put a job in the queue; a loop takes the jobs one by one and calls the
  provisioner for every workload, recording each result in the storage. The storage, the
  provisioner, the queue and the chain gateway are records of functions, as they are
  interfaces or stubs in the code.
\<close>

section \<open>The interfaces the engine uses\<close>

text \<open>\<open>provision.Storage\<close> (interface.go). The operations that read the clock take its value.\<close>

record 's Storage =
  st_Create :: "timestamp \<Rightarrow> Deployment \<Rightarrow> 's \<Rightarrow> 's result"
  st_Update :: "u32 \<Rightarrow> u64 \<Rightarrow> Field list \<Rightarrow> 's \<Rightarrow> 's result"
  st_Delete :: "u32 \<Rightarrow> u64 \<Rightarrow> 's \<Rightarrow> 's result"
  st_Get :: "u32 \<Rightarrow> u64 \<Rightarrow> 's \<Rightarrow> Deployment result"
  st_Error :: "timestamp \<Rightarrow> u32 \<Rightarrow> u64 \<Rightarrow> err \<Rightarrow> 's \<Rightarrow> 's result"
  st_Add :: "timestamp \<Rightarrow> u32 \<Rightarrow> u64 \<Rightarrow> Workload \<Rightarrow> 's \<Rightarrow> 's result"
  st_Remove :: "u32 \<Rightarrow> u64 \<Rightarrow> Name \<Rightarrow> 's \<Rightarrow> 's result"
  st_Transaction :: "u32 \<Rightarrow> u64 \<Rightarrow> Workload \<Rightarrow> 's \<Rightarrow> 's result"
  st_Changes :: "u32 \<Rightarrow> u64 \<Rightarrow> 's \<Rightarrow> Workload list result"
  st_Current :: "u32 \<Rightarrow> u64 \<Rightarrow> Name \<Rightarrow> 's \<Rightarrow> Workload result"
  st_Twins :: "'s \<Rightarrow> u32 list result"
  st_ByTwin :: "u32 \<Rightarrow> 's \<Rightarrow> u64 list result"
  st_Capacity :: "Exclude list \<Rightarrow> 's \<Rightarrow> StorageCapacity result"

text \<open>The storage on bbolt implements it.\<close>

definition boltStorage ::
    "Lib \<Rightarrow> (Workload list \<Rightarrow> Workload list) \<Rightarrow> 'tx BoltStorage \<Rightarrow> 'tx Storage" where
  "boltStorage L ord b = \<lparr>
     st_Create = (\<lambda>now. Storage_Create b (\<lambda>_. now)), st_Update = Storage_Update b,
     st_Delete = Storage_Delete b, st_Get = Storage_Get b ord, st_Error = Storage_Error b ord,
     st_Add = Storage_Add b, st_Remove = Storage_Remove b, st_Transaction = Storage_Transaction b,
     st_Changes = Storage_Changes b, st_Current = Storage_Current b, st_Twins = Storage_Twins b,
     st_ByTwin = Storage_ByTwin b, st_Capacity = Storage_Capacity b L ord\<rparr>"

text \<open>The calls to the chain: a contract, which may be a node contract, and the rent contract of
  a node, whose error may be that there is none.\<close>

record 'w Gateway =
  gw_GetContract :: "u64 \<Rightarrow> 'w \<Rightarrow> NodeContract option result"
  gw_GetNodeRentContract :: "u32 \<Rightarrow> 'w \<Rightarrow> (bool \<times> err) + u64"


section \<open>Jobs and the engine\<close>

datatype jobOperation = opProvision | opDeprovision | opUpdate | opProvisionNoValidation
  | opPause | opResume | opPrepare | opStart

fun jobOperation_String :: "jobOperation \<Rightarrow> string" where
  "jobOperation_String opProvision = ''provision''"
| "jobOperation_String opDeprovision = ''deprovision''"
| "jobOperation_String opUpdate = ''update''"
| "jobOperation_String opProvisionNoValidation = ''provision-no-validation''"
| "jobOperation_String opPause = ''pause''"
| "jobOperation_String opResume = ''resume''"
| "jobOperation_String opPrepare = ''prepare''"
| "jobOperation_String opStart = ''start''"

definition dedupable :: "jobOperation \<Rightarrow> bool" where
  "dedupable op \<longleftrightarrow> op = opDeprovision \<or> op = opPause \<or> op = opResume"

record engineJob =
  job_Op :: jobOperation
  job_Target :: Deployment
  job_Source :: "Deployment option"
  job_Message :: string

record jobKey =
  key_twin :: u32
  key_contract :: u64
  key_op :: jobOperation

definition jobKey_of :: "engineJob \<Rightarrow> jobKey" where
  "jobKey_of job = \<lparr>key_twin = dl_TwinID (job_Target job), key_contract = dl_ContractID (job_Target job),
     key_op = job_Op job\<rparr>"

text \<open>
  The engine's fixed parts: the fields of \<open>NativeEngine\<close> that are set once, and the package
  level functions it calls (the clock, the verification service after its retries, the
  order of map iterations and of \<open>sort.Slice\<close>).
\<close>

record ('s, 'w, 'q) NativeEngine =
  en_storage :: "'s Storage"
  en_provisioner :: "('s, 'w) Provisioner"
  en_queue :: "(engineJob, 'q) DQue"
  en_twins :: "u32 \<Rightarrow> 'w \<Rightarrow> bytes result"
  en_order :: "WorkloadType list"
  en_typeIndex :: "WorkloadType \<Rightarrow> nat"
  en_rerunAll :: bool
  en_nodeID :: u32
  en_substrateGateway :: "'w Gateway option"
  en_callback :: bool
  en_lib :: Lib
  en_registry :: Registry
  en_now :: "'w \<Rightarrow> timestamp"
  en_isTwinVerified :: "u32 \<Rightarrow> 'w \<Rightarrow> bool result"
  en_mapOrder :: "(Name \<times> Workload) list \<Rightarrow> (Name \<times> Workload) list"
  en_sortSlice :: "(WorkloadWithID \<Rightarrow> WorkloadWithID \<Rightarrow> bool) \<Rightarrow> WorkloadWithID list \<Rightarrow> WorkloadWithID list"

text \<open>Its changing state: the storage, the queue, the pending keys, the node, and the calls of
  the callback made so far.\<close>

record ('s, 'w, 'q) EngineState =
  es_storage :: 's
  es_queue :: 'q
  es_pending :: "jobKey list"
  es_world :: 'w
  es_callbacks :: "(u32 \<times> u64 \<times> bool) list"

text \<open>A write to the storage: on an error the storage stays as it was.\<close>

definition commit ::
    "('s \<Rightarrow> 's result) \<Rightarrow> ('s, 'w, 'q) EngineState \<Rightarrow> ('s, 'w, 'q) EngineState \<times> unit result" where
  "commit f st = (case f (es_storage st) of
     Inl e \<Rightarrow> (st, Err e) | Inr s \<Rightarrow> (st\<lparr>es_storage := s\<rparr>, Ok ()))"


section \<open>The queue (enqueue, forgetPending)\<close>

definition forgetPending :: "engineJob \<Rightarrow> ('s, 'w, 'q) EngineState \<Rightarrow> ('s, 'w, 'q) EngineState" where
  "forgetPending job st =
     (if \<not> dedupable (job_Op job) then st
      else st\<lparr>es_pending := removeAll (jobKey_of job) (es_pending st)\<rparr>)"

text \<open>\<open>enqueue\<close> takes the lock of the pending keys, releases it, and then queues the job: other
  requests and the loop may come between the two halves.\<close>

definition markPending :: "engineJob \<Rightarrow> ('s, 'w, 'q) EngineState \<Rightarrow> ('s, 'w, 'q) EngineState option" where
  "markPending job st =
     (if jobKey_of job \<in> set (es_pending st) then None
      else Some (st\<lparr>es_pending := jobKey_of job # es_pending st\<rparr>))"

definition pushJob ::
    "('s, 'w, 'q) NativeEngine \<Rightarrow> engineJob \<Rightarrow> ('s, 'w, 'q) EngineState
     \<Rightarrow> ('s, 'w, 'q) EngineState \<times> unit result" where
  "pushJob E job st = (case dque_Enqueue (en_queue E) job (es_queue st) of
     Inl e \<Rightarrow> (forgetPending job st, Err e) | Inr q \<Rightarrow> (st\<lparr>es_queue := q\<rparr>, Ok ()))"

definition enqueue ::
    "('s, 'w, 'q) NativeEngine \<Rightarrow> engineJob \<Rightarrow> ('s, 'w, 'q) EngineState
     \<Rightarrow> ('s, 'w, 'q) EngineState \<times> unit result" where
  "enqueue E job st =
     (if \<not> dedupable (job_Op job) then
        (case dque_Enqueue (en_queue E) job (es_queue st) of
           Inl e \<Rightarrow> (st, Err e) | Inr q \<Rightarrow> (st\<lparr>es_queue := q\<rparr>, Ok ()))
      else (case markPending job st of None \<Rightarrow> (st, Ok ()) | Some st \<Rightarrow> pushJob E job st))"

definition newJob :: "jobOperation \<Rightarrow> Deployment \<Rightarrow> engineJob" where
  "newJob op dl = \<lparr>job_Op = op, job_Target = dl, job_Source = None, job_Message = []\<rparr>"


section \<open>The operations of the interface\<close>

definition createAndEnqueue ::
    "('s, 'w, 'q) NativeEngine \<Rightarrow> jobOperation \<Rightarrow> Deployment \<Rightarrow> ('s, 'w, 'q) EngineState
     \<Rightarrow> ('s, 'w, 'q) EngineState \<times> unit result" where
  "createAndEnqueue E op deployment st =
     (if dl_Version deployment \<noteq> 0 then
        (st, Err (Wrap ''expected version to be 0 on deployment creation'' ErrInvalidVersion))
      else case commit (st_Create (en_storage E) (en_now E (es_world st)) deployment) st of
        (st, Inl e) \<Rightarrow> (st, Err e)
      | (st, Inr _) \<Rightarrow> enqueue E (newJob op deployment) st)"

definition Engine_Provision ::
    "('s, 'w, 'q) NativeEngine \<Rightarrow> Deployment \<Rightarrow> ('s, 'w, 'q) EngineState
     \<Rightarrow> ('s, 'w, 'q) EngineState \<times> unit result" where
  "Engine_Provision E deployment st = createAndEnqueue E opProvision deployment st"

definition Engine_Prepare ::
    "('s, 'w, 'q) NativeEngine \<Rightarrow> Deployment \<Rightarrow> ('s, 'w, 'q) EngineState
     \<Rightarrow> ('s, 'w, 'q) EngineState \<times> unit result" where
  "Engine_Prepare E deployment st = createAndEnqueue E opPrepare deployment st"

text \<open>\<open>Pause\<close>, \<open>Resume\<close>, \<open>Start\<close> and \<open>Deprovision\<close> read the deployment and queue it as it is.\<close>

definition loadAndEnqueue ::
    "('s, 'w, 'q) NativeEngine \<Rightarrow> jobOperation \<Rightarrow> u32 \<Rightarrow> u64 \<Rightarrow> string \<Rightarrow> ('s, 'w, 'q) EngineState
     \<Rightarrow> ('s, 'w, 'q) EngineState \<times> unit result" where
  "loadAndEnqueue E op twin cid message st =
     (case st_Get (en_storage E) twin cid (es_storage st) of
        Inl e \<Rightarrow> (st, Err e)
      | Inr deployment \<Rightarrow> enqueue E ((newJob op deployment)\<lparr>job_Message := message\<rparr>) st)"

definition Engine_Pause ::
    "('s, 'w, 'q) NativeEngine \<Rightarrow> u32 \<Rightarrow> u64 \<Rightarrow> ('s, 'w, 'q) EngineState
     \<Rightarrow> ('s, 'w, 'q) EngineState \<times> unit result" where
  "Engine_Pause E twin cid st = loadAndEnqueue E opPause twin cid [] st"

definition Engine_Resume ::
    "('s, 'w, 'q) NativeEngine \<Rightarrow> u32 \<Rightarrow> u64 \<Rightarrow> ('s, 'w, 'q) EngineState
     \<Rightarrow> ('s, 'w, 'q) EngineState \<times> unit result" where
  "Engine_Resume E twin cid st = loadAndEnqueue E opResume twin cid [] st"

definition Engine_Start ::
    "('s, 'w, 'q) NativeEngine \<Rightarrow> u32 \<Rightarrow> u64 \<Rightarrow> ('s, 'w, 'q) EngineState
     \<Rightarrow> ('s, 'w, 'q) EngineState \<times> unit result" where
  "Engine_Start E twin cid st = loadAndEnqueue E opStart twin cid [] st"

definition Engine_Deprovision ::
    "('s, 'w, 'q) NativeEngine \<Rightarrow> u32 \<Rightarrow> u64 \<Rightarrow> string \<Rightarrow> ('s, 'w, 'q) EngineState
     \<Rightarrow> ('s, 'w, 'q) EngineState \<times> unit result" where
  "Engine_Deprovision E twin cid reason st = loadAndEnqueue E opDeprovision twin cid reason st"

definition updateFields :: "Deployment \<Rightarrow> Deployment \<Rightarrow> Field list" where
  "updateFields deployment update =
     [VersionField (dl_Version update), SignatureRequirementField (dl_SignatureRequirement update)]
     @ (if dl_Description deployment \<noteq> dl_Description update then [DescriptionField (dl_Description update)] else [])
     @ (if dl_Metadata deployment \<noteq> dl_Metadata update then [MetadataField (dl_Metadata update)] else [])"

text \<open>\<open>Upgrade\<close> also writes the current results into the workloads of the update, which is what is
  queued.\<close>

definition Engine_Update ::
    "('s, 'w, 'q) NativeEngine \<Rightarrow> Deployment \<Rightarrow> ('s, 'w, 'q) EngineState
     \<Rightarrow> ('s, 'w, 'q) EngineState \<times> unit result" where
  "Engine_Update E update st =
     (case st_Get (en_storage E) (dl_TwinID update) (dl_ContractID update) (es_storage st) of
        Inl e \<Rightarrow> (st, Err e)
      | Inr deployment \<Rightarrow>
          (case Deployment_Upgrade (en_lib E) (en_registry E) (en_mapOrder E) deployment update of
             Inl e \<Rightarrow> (st, Err (Wrap (err_text e) ErrDeploymentUpgradeValidationError))
           | Inr (upgrades, update) \<Rightarrow>
               (case find (\<lambda>op. op_Op op = OpUpdate \<and>
                   \<not> pr_CanUpdate (en_provisioner E) (wl_Type (wi_Workload (op_WlID op)))) upgrades of
                  Some op \<Rightarrow> (st, Err (Wrap (''workload '' @ squote (wl_Type (wi_Workload (op_WlID op)))
                    @ '' does not support upgrade'') ErrDeploymentUpgradeValidationError))
                | None \<Rightarrow>
                    (case commit (st_Update (en_storage E) (dl_TwinID update) (dl_ContractID update)
                         (updateFields deployment update)) st of
                       (st, Inl e) \<Rightarrow> (st, Err (Wrap ''failed to update deployment data'' e))
                     | (st, Inr _) \<Rightarrow> enqueue E ((newJob opUpdate update)\<lparr>job_Source := Some deployment\<rparr>) st))))"


section \<open>Workloads\<close>

text \<open>\<open>Parts\<close> with its error ignored: \<open>Sscanf\<close> has stored the values it read before it failed.\<close>

definition idParts :: "WorkloadID \<Rightarrow> u32 \<times> u64 \<times> Name" where
  "idParts i = (case scanUint 32 i of Inl _ \<Rightarrow> (0, 0, []) | Inr (twin, s) \<Rightarrow>
     (case rbind (scanLit CHR ''-'' s) (scanUint 64) of
        Inl _ \<Rightarrow> (word_of_nat twin, 0, [])
      | Inr (deployment, s) \<Rightarrow>
          (case rbind (scanLit CHR ''-'' s) scanWord of
             Inl _ \<Rightarrow> (word_of_nat twin, word_of_nat deployment, [])
           | Inr name \<Rightarrow> (word_of_nat twin, word_of_nat deployment, name))))"

definition uninstallWorkload ::
    "('s, 'w, 'q) NativeEngine \<Rightarrow> Ctx \<Rightarrow> WorkloadWithID \<Rightarrow> string \<Rightarrow> ('s, 'w, 'q) EngineState
     \<Rightarrow> ('s, 'w, 'q) EngineState \<times> unit result" where
  "uninstallWorkload E ctx wl reason st =
     (let (twin, deployment, name) = idParts (wi_ID wl) in
      case st_Current (en_storage E) twin deployment name (es_storage st) of
        Inl e \<Rightarrow> (st, if err_is e ErrWorkloadNotExist \<or> err_is e ErrDeploymentNotExists then Ok () else Err e)
      | Inr _ \<Rightarrow>
          (case pr_Deprovision (en_provisioner E) ctx (es_storage st) wl (es_world st) of (err, w) \<Rightarrow>
            let st = st\<lparr>es_world := w\<rparr>;
                result = (case err of
                    None \<Rightarrow> noResult\<lparr>State := StateDeleted, Error := reason\<rparr>
                  | Some e \<Rightarrow> noResult\<lparr>State := StateError, Error := err_text e\<rparr>)\<lparr>Created := en_now E w\<rparr> in
            (case commit (st_Transaction (en_storage E) twin deployment (WithResults (wi_Workload wl) result)) st of
               (st, Inl e) \<Rightarrow> (st, Err e)
             | (st, Inr _) \<Rightarrow>
                 if State result = StateDeleted then commit (st_Remove (en_storage E) twin deployment name) st
                 else (st, Ok ()))))"

text \<open>The second half of \<open>installWorkload\<close>: call the provisioner and record what it did.\<close>

definition provisionWorkload ::
    "('s, 'w, 'q) NativeEngine \<Rightarrow> Ctx \<Rightarrow> WorkloadWithID \<Rightarrow> ('s, 'w, 'q) EngineState
     \<Rightarrow> ('s, 'w, 'q) EngineState \<times> unit result" where
  "provisionWorkload E ctx wl st =
     (let (twin, deployment, name) = idParts (wi_ID wl) in
      case pr_Provision (en_provisioner E) ctx (es_storage st) wl (es_world st) of ((result, err), w) \<Rightarrow>
        let st = st\<lparr>es_world := w\<rparr>;
            record = (\<lambda>result. commit (st_Transaction (en_storage E) twin deployment
              (WithResults (wi_Workload wl) result)) st) in
        (case err of
           None \<Rightarrow> record result
         | Some e \<Rightarrow> if err_is e ErrNoActionNeeded then (st, Ok ())
             else record (result\<lparr>Created := en_now E w, State := StateError, Error := err_text e\<rparr>)))"

definition installWorkload ::
    "('s, 'w, 'q) NativeEngine \<Rightarrow> Ctx \<Rightarrow> WorkloadWithID \<Rightarrow> ('s, 'w, 'q) EngineState
     \<Rightarrow> ('s, 'w, 'q) EngineState \<times> unit result" where
  "installWorkload E ctx wl st =
     (let (twin, deployment, name) = idParts (wi_ID wl) in
      case st_Current (en_storage E) twin deployment name (es_storage st) of
        Inl e \<Rightarrow>
          if err_is e ErrWorkloadNotExist then
            (case commit (st_Add (en_storage E) (en_now E (es_world st)) twin deployment (wi_Workload wl)) st of
               (st, Inl e) \<Rightarrow> (st, Err (Wrap ''failed to add workload to storage'' e))
             | (st, Inr _) \<Rightarrow> provisionWorkload E ctx wl st)
          else (st, Err (Wrap (''failed to get last transaction for '' @ squote (wi_ID wl)) e))
      | Inr current \<Rightarrow>
          if IsAny (State (wl_Result current)) [StateDeleted, StateError] then (st, Ok ())
          else provisionWorkload E ctx wl st)"

definition updateWorkload ::
    "('s, 'w, 'q) NativeEngine \<Rightarrow> Ctx \<Rightarrow> WorkloadWithID \<Rightarrow> ('s, 'w, 'q) EngineState
     \<Rightarrow> ('s, 'w, 'q) EngineState \<times> unit result" where
  "updateWorkload E ctx wl st =
     (let (twin, deployment, name) = idParts (wi_ID wl) in
      case (if pr_CanUpdate (en_provisioner E) (wl_Type (wi_Workload wl))
            then pr_Update (en_provisioner E) ctx (es_storage st) wl (es_world st)
            else ((noResult, Some (Errorf ''can not update this workload type'')), es_world st)) of
        ((result, err), w) \<Rightarrow>
          let st = st\<lparr>es_world := w\<rparr>;
              record = (\<lambda>result. commit (st_Transaction (en_storage E) twin deployment
                (WithResults (wi_Workload wl) result)) st) in
          (case err of
             None \<Rightarrow> record result
           | Some e \<Rightarrow> if err_is e ErrNoActionNeeded then
               (case st_Current (en_storage E) twin deployment name (es_storage st) of
                  Inl e \<Rightarrow> (st, Err e)
                | Inr currentWl \<Rightarrow> record (wl_Result currentWl))
             else (st, Err e)))"

definition lockWorkload ::
    "('s, 'w, 'q) NativeEngine \<Rightarrow> Ctx \<Rightarrow> WorkloadWithID \<Rightarrow> bool \<Rightarrow> ('s, 'w, 'q) EngineState
     \<Rightarrow> ('s, 'w, 'q) EngineState \<times> unit result" where
  "lockWorkload E ctx wl lock st =
     (let (twin, deployment, name) = idParts (wi_ID wl) in
      case st_Current (en_storage E) twin deployment name (es_storage st) of
        Inl e \<Rightarrow> (st, Err (Wrap (''failed to get last transaction for '' @ squote (wi_ID wl)) e))
      | Inr current \<Rightarrow>
          if \<not> IsOkay (State (wl_Result current)) then (st, Ok ())
          else (case (if lock then pr_Pause (en_provisioner E) else pr_Resume (en_provisioner E))
                   ctx (es_storage st) wl (es_world st) of ((result, err), w) \<Rightarrow>
            let st = st\<lparr>es_world := w\<rparr> in
            (case err of
               None \<Rightarrow> commit (st_Transaction (en_storage E) twin deployment
                 (WithResults (wi_Workload wl) result)) st
             | Some e \<Rightarrow> if err_is e ErrNoActionNeeded then (st, Ok ()) else (st, Err e))))"


section \<open>Deployments\<close>

text \<open>A \<open>for\<close> loop whose body's errors are only logged.\<close>

definition forEach :: "('x \<Rightarrow> 'st \<Rightarrow> 'st \<times> unit result) \<Rightarrow> 'x list \<Rightarrow> 'st \<Rightarrow> 'st" where
  "forEach f xs st = foldl (\<lambda>st x. fst (f x st)) st xs"

text \<open>One that notes whether there was an error.\<close>

definition forEachErr :: "('x \<Rightarrow> 'st \<Rightarrow> 'st \<times> unit result) \<Rightarrow> 'x list \<Rightarrow> 'st \<Rightarrow> 'st \<times> bool" where
  "forEachErr f xs st = foldl (\<lambda>(st, errors) x. case f x st of (st, r) \<Rightarrow> (st, errors \<or> \<not> is_ok r)) (st, False) xs"

definition uninstallDeployment ::
    "('s, 'w, 'q) NativeEngine \<Rightarrow> Ctx \<Rightarrow> Deployment \<Rightarrow> string \<Rightarrow> ('s, 'w, 'q) EngineState
     \<Rightarrow> ('s, 'w, 'q) EngineState" where
  "uninstallDeployment E ctx dl reason st =
     (case forEachErr (\<lambda>wl. uninstallWorkload E ctx wl reason)
        (concat (map (\<lambda>t. Deployment_ByType dl [t]) (rev (en_order E)))) st of (st, errors) \<Rightarrow>
      if errors then st
      else fst (commit (st_Delete (en_storage E) (dl_TwinID dl) (dl_ContractID dl)) st))"

definition getMountSize :: "Lib \<Rightarrow> Registry \<Rightarrow> Workload \<Rightarrow> Unit result" where
  "getMountSize L G wl = rbind (Workload_WorkloadData L G wl) (\<lambda>data.
     case data of
       DZMount d \<Rightarrow> Ok (zm_Size d)
     | DVolume d \<Rightarrow> Ok (vol_Size d)
     | _ \<Rightarrow> Err (Errorf ''failed to get workload as zmount or volume''))"

definition sortMountWorkloads ::
    "('s, 'w, 'q) NativeEngine \<Rightarrow> WorkloadWithID list \<Rightarrow> WorkloadWithID list" where
  "sortMountWorkloads E workloads = en_sortSlice E (\<lambda>i j.
     case getMountSize (en_lib E) (en_registry E) (wi_Workload i) of Inl _ \<Rightarrow> False | Inr sizeI \<Rightarrow>
     (case getMountSize (en_lib E) (en_registry E) (wi_Workload j) of Inl _ \<Rightarrow> False | Inr sizeJ \<Rightarrow>
       sizeI > sizeJ)) workloads"

text \<open>The workloads of one type in the order in which they are installed.\<close>

definition installOrder ::
    "('s, 'w, 'q) NativeEngine \<Rightarrow> Deployment \<Rightarrow> WorkloadType \<Rightarrow> WorkloadWithID list" where
  "installOrder E dl t =
     (if t = ZMountType \<or> t = VolumeType then sortMountWorkloads E (Deployment_ByType dl [t])
      else Deployment_ByType dl [t])"

definition installDeployment ::
    "('s, 'w, 'q) NativeEngine \<Rightarrow> Ctx \<Rightarrow> Deployment \<Rightarrow> ('s, 'w, 'q) EngineState
     \<Rightarrow> ('s, 'w, 'q) EngineState" where
  "installDeployment E ctx dl st =
     forEach (installWorkload E ctx) (concat (map (installOrder E dl) (en_order E))) st"

definition machineType :: "WorkloadType \<Rightarrow> bool" where
  "machineType t \<longleftrightarrow> t = ZMachineType \<or> t = ZMachineLightType"

definition prepareDeployment ::
    "('s, 'w, 'q) NativeEngine \<Rightarrow> Ctx \<Rightarrow> Deployment \<Rightarrow> ('s, 'w, 'q) EngineState
     \<Rightarrow> ('s, 'w, 'q) EngineState" where
  "prepareDeployment E ctx dl st =
     forEach (installWorkload E ctx)
       (concat (map (\<lambda>t. if machineType t then [] else installOrder E dl t) (en_order E))) st"

definition startDeployment ::
    "('s, 'w, 'q) NativeEngine \<Rightarrow> Ctx \<Rightarrow> Deployment \<Rightarrow> ('s, 'w, 'q) EngineState
     \<Rightarrow> ('s, 'w, 'q) EngineState" where
  "startDeployment E ctx dl st =
     forEach (installWorkload E ctx)
       (concat (map (\<lambda>t. if \<not> machineType t then [] else Deployment_ByType dl [t]) (en_order E))) st"

definition lockDeployment ::
    "('s, 'w, 'q) NativeEngine \<Rightarrow> Ctx \<Rightarrow> Deployment \<Rightarrow> ('s, 'w, 'q) EngineState
     \<Rightarrow> ('s, 'w, 'q) EngineState" where
  "lockDeployment E ctx dl st =
     forEach (\<lambda>wl. lockWorkload E ctx wl True)
       (concat (map (\<lambda>t. Deployment_ByType dl [t]) (rev (en_order E)))) st"

definition unlockDeployment ::
    "('s, 'w, 'q) NativeEngine \<Rightarrow> Ctx \<Rightarrow> Deployment \<Rightarrow> ('s, 'w, 'q) EngineState
     \<Rightarrow> ('s, 'w, 'q) EngineState" where
  "unlockDeployment E ctx dl st =
     forEach (\<lambda>wl. lockWorkload E ctx wl False)
       (concat (map (\<lambda>t. Deployment_ByType dl [t]) (en_order E))) st"

text \<open>\<open>typeIndex\<close> is 0 for a type that is not in the map.\<close>

definition opMap :: "(WorkloadType \<Rightarrow> nat) \<Rightarrow> UpgradeOp \<Rightarrow> int" where
  "opMap typeIndex op =
     (let i = int (typeIndex (wl_Type (wi_Workload (op_WlID op)))) in
      if op_Op op = OpRemove then - i else i)"

definition sortOperations :: "(WorkloadType \<Rightarrow> nat) \<Rightarrow> UpgradeOp list \<Rightarrow> UpgradeOp list" where
  "sortOperations typeIndex ops = sort_key (opMap typeIndex) ops"

definition runOperation ::
    "('s, 'w, 'q) NativeEngine \<Rightarrow> Ctx \<Rightarrow> UpgradeOp \<Rightarrow> ('s, 'w, 'q) EngineState
     \<Rightarrow> ('s, 'w, 'q) EngineState \<times> unit result" where
  "runOperation E ctx op st = (case op_Op op of
     OpRemove \<Rightarrow> uninstallWorkload E ctx (op_WlID op) ''deleted by an update'' st
   | OpAdd \<Rightarrow> installWorkload E ctx (op_WlID op) st
   | OpUpdate \<Rightarrow> updateWorkload E ctx (op_WlID op) st)"

definition updateDeployment ::
    "('s, 'w, 'q) NativeEngine \<Rightarrow> Ctx \<Rightarrow> UpgradeOp list \<Rightarrow> ('s, 'w, 'q) EngineState
     \<Rightarrow> ('s, 'w, 'q) EngineState" where
  "updateDeployment E ctx ops st = forEach (runOperation E ctx) (sortOperations (en_typeIndex E) ops) st"


section \<open>Running jobs\<close>

text \<open>\<open>validate\<close>: the context for a deployment whose contract was found; unless the validation is
  skipped, the contract must name this node and have the hash of the deployment.\<close>

definition validate ::
    "('s, 'w, 'q) NativeEngine \<Rightarrow> Ctx \<Rightarrow> Deployment \<Rightarrow> bool \<Rightarrow> 'w \<Rightarrow> Ctx result" where
  "validate E ctx dl noValidation w =
     (case en_substrateGateway E of
        None \<Rightarrow> Err (Errorf ''substrate is not configured in engine'')
      | Some gw \<Rightarrow>
          rbind (rwrap ''failed to get deployment contract'' (gw_GetContract gw (dl_ContractID dl) w)) (\<lambda>contract.
          case contract of
            None \<Rightarrow> Err (Errorf ''invalid contract type, expecting node contract'')
          | Some nc \<Rightarrow>
              let ctx = withContract ctx nc; rent = gw_GetNodeRentContract gw (en_nodeID E) w in
              (case rent of
                 Inl (False, _) \<Rightarrow> Err (Errorf ''failed to check node rent state'')
               | _ \<Rightarrow>
                 let ctx = withRented ctx (case rent of Inl _ \<Rightarrow> False | Inr c \<Rightarrow> c \<noteq> 0) in
                 if noValidation then Ok ctx
                 else if nc_Node nc \<noteq> en_nodeID E then Err (Errorf ''invalid node address in contract'')
                 else rbind (rwrap ''failed to compute deployment hash''
                     (ChallengeHash (en_lib E) (en_registry E) dl)) (\<lambda>hash.
                   if nc_DeploymentHash nc \<noteq> hex_encode hash then
                     Err (Errorf ''contract hash does not match deployment hash'')
                   else Ok ctx))))"

text \<open>\<open>jobTimeout\<close> in seconds, and the error of a context: whether its deadline has passed.\<close>

definition jobTimeout :: timestamp where "jobTimeout = 30 * 60"

definition withTimeout :: "Ctx \<Rightarrow> timestamp \<Rightarrow> Ctx" where
  "withTimeout ctx deadline = ctx\<lparr>ctx_deadline := Some deadline\<rparr>"

definition deadlineExceeded :: "Ctx \<Rightarrow> timestamp \<Rightarrow> bool" where
  "deadlineExceeded ctx now = (case ctx_deadline ctx of None \<Rightarrow> False | Some t \<Rightarrow> t \<le> now)"

definition setGlobalError ::
    "('s, 'w, 'q) NativeEngine \<Rightarrow> engineJob \<Rightarrow> err \<Rightarrow> ('s, 'w, 'q) EngineState
     \<Rightarrow> ('s, 'w, 'q) EngineState" where
  "setGlobalError E job e st = fst (commit (st_Error (en_storage E) (en_now E (es_world st))
     (dl_TwinID (job_Target job)) (dl_ContractID (job_Target job)) e) st)"

definition validated :: "jobOperation \<Rightarrow> bool" where
  "validated op \<longleftrightarrow> op = opProvision \<or> op = opUpdate \<or> op = opPrepare \<or> op = opProvisionNoValidation"

text \<open>The \<open>switch\<close> of \<open>runJob\<close>. (An update is only queued with its source, by \<open>Update\<close>.)\<close>

fun applyJob ::
    "('s, 'w, 'q) NativeEngine \<Rightarrow> Ctx \<Rightarrow> jobOperation \<Rightarrow> engineJob \<Rightarrow> ('s, 'w, 'q) EngineState
     \<Rightarrow> ('s, 'w, 'q) EngineState" where
  "applyJob E ctx opProvisionNoValidation job st = installDeployment E ctx (job_Target job) st"
| "applyJob E ctx opProvision job st = installDeployment E ctx (job_Target job) st"
| "applyJob E ctx opPrepare job st = prepareDeployment E ctx (job_Target job) st"
| "applyJob E ctx opStart job st = startDeployment E ctx (job_Target job) st"
| "applyJob E ctx opDeprovision job st = uninstallDeployment E ctx (job_Target job) (job_Message job) st"
| "applyJob E ctx opPause job st = lockDeployment E ctx (job_Target job) st"
| "applyJob E ctx opResume job st = unlockDeployment E ctx (job_Target job) st"
| "applyJob E ctx opUpdate job st = (case job_Source job of
     None \<Rightarrow> st
   | Some source \<Rightarrow>
       (case Deployment_Upgrade (en_lib E) (en_registry E) (en_mapOrder E) source (job_Target job) of
          Inl e \<Rightarrow> st
        | Inr (update, _) \<Rightarrow> updateDeployment E ctx update st))"

definition runJob ::
    "('s, 'w, 'q) NativeEngine \<Rightarrow> engineJob \<Rightarrow> ('s, 'w, 'q) EngineState
     \<Rightarrow> ('s, 'w, 'q) EngineState \<times> bool" where
  "runJob E job st =
     (let ctx = withTimeout (withDeployment background (dl_TwinID (job_Target job)) (dl_ContractID (job_Target job)))
           (en_now E (es_world st) + jobTimeout) in
      case (if validated (job_Op job)
            then validate E ctx (job_Target job) (job_Op job = opProvisionNoValidation) (es_world st)
            else Ok ctx) of
        Inl e \<Rightarrow> (setGlobalError E job e st, False)
      | Inr ctx \<Rightarrow>
          let st = applyJob E ctx (job_Op job) job st in
          (if deadlineExceeded ctx (en_now E (es_world st))
           then setGlobalError E job (Errorf ''provisioning did not finish within 30m0s'') st else st, True))"

text \<open>A panic of the callback is caught; what matters is that it was called.\<close>

definition safeCallback ::
    "('s, 'w, 'q) NativeEngine \<Rightarrow> Deployment \<Rightarrow> bool \<Rightarrow> ('s, 'w, 'q) EngineState
     \<Rightarrow> ('s, 'w, 'q) EngineState" where
  "safeCallback E d delete st =
     (if \<not> en_callback E then st
      else st\<lparr>es_callbacks := es_callbacks st @ [(dl_TwinID d, dl_ContractID d, delete)]\<rparr>)"

text \<open>The end of an iteration of \<open>Run\<close>, after \<open>runJob\<close>; an error of \<open>Dequeue\<close> is logged. Between the two
  steps the job is out of the queue and its key still pending.\<close>

definition dequeueJob :: "('s, 'w, 'q) NativeEngine \<Rightarrow> ('s, 'w, 'q) EngineState \<Rightarrow> ('s, 'w, 'q) EngineState" where
  "dequeueJob E st = (case dque_Dequeue (en_queue E) (es_queue st) of
     Inl _ \<Rightarrow> st | Inr (_, q) \<Rightarrow> st\<lparr>es_queue := q\<rparr>)"

definition forgetJob ::
    "('s, 'w, 'q) NativeEngine \<Rightarrow> engineJob \<Rightarrow> bool \<Rightarrow> ('s, 'w, 'q) EngineState
     \<Rightarrow> ('s, 'w, 'q) EngineState" where
  "forgetJob E job callback st =
     (let st = forgetPending job st in
      if callback then safeCallback E (job_Target job) (job_Op job = opDeprovision) st else st)"

definition finishJob ::
    "('s, 'w, 'q) NativeEngine \<Rightarrow> engineJob \<Rightarrow> bool \<Rightarrow> ('s, 'w, 'q) EngineState
     \<Rightarrow> ('s, 'w, 'q) EngineState" where
  "finishJob E job callback st = forgetJob E job callback (dequeueJob E st)"

text \<open>An iteration; \<open>None\<close> is waiting for a job.\<close>

definition loopStep ::
    "('s, 'w, 'q) NativeEngine \<Rightarrow> ('s, 'w, 'q) EngineState \<Rightarrow> ('s, 'w, 'q) EngineState option" where
  "loopStep E st = (case dque_Peek (en_queue E) (es_queue st) of
     None \<Rightarrow> None
   | Some job \<Rightarrow> (case runJob E job st of (st, callback) \<Rightarrow> Some (finishJob E job callback st)))"

definition bootDeployment ::
    "('s, 'w, 'q) NativeEngine \<Rightarrow> u32 \<Rightarrow> u64 \<Rightarrow> ('s, 'w, 'q) EngineState
     \<Rightarrow> ('s, 'w, 'q) EngineState" where
  "bootDeployment E twin cid st = (case st_Get (en_storage E) twin cid (es_storage st) of
     Inl _ \<Rightarrow> st
   | Inr dl \<Rightarrow> if \<not> Deployment_IsActive dl then st else fst (enqueue E (newJob opProvisionNoValidation dl) st))"

definition bootTwin ::
    "('s, 'w, 'q) NativeEngine \<Rightarrow> u32 \<Rightarrow> ('s, 'w, 'q) EngineState \<Rightarrow> ('s, 'w, 'q) EngineState" where
  "bootTwin E twin st = (case st_ByTwin (en_storage E) twin (es_storage st) of
     Inl _ \<Rightarrow> st
   | Inr ids \<Rightarrow> foldl (\<lambda>st cid. bootDeployment E twin cid st) st ids)"

definition boot ::
    "('s, 'w, 'q) NativeEngine \<Rightarrow> ('s, 'w, 'q) EngineState \<Rightarrow> ('s, 'w, 'q) EngineState \<times> unit result" where
  "boot E st = (case st_Twins (en_storage E) (es_storage st) of
     Inl e \<Rightarrow> (st, Err (Wrap ''failed to list twins'' e))
   | Inr twins \<Rightarrow> (foldl (\<lambda>st twin. bootTwin E twin st) st twins, Ok ()))"


section \<open>Options\<close>

text \<open>
  \<open>WithStartupOrder\<close>: the map \<open>all\<close> of the types not yet placed, the types placed so far; a
  type that is not (or no longer) in \<open>all\<close> panics. What is left follows in the order of a
  map iteration, \<open>ord\<close>. A type's index is its place, from 1.
\<close>

fun placeTypes ::
    "WorkloadType list \<Rightarrow> WorkloadType list \<Rightarrow> WorkloadType list
     \<Rightarrow> (WorkloadType list \<times> WorkloadType list) result" where
  "placeTypes [] allt ordered = Ok (allt, ordered)"
| "placeTypes (t # ts) allt ordered =
     (if t \<notin> set allt then Err (Panic (''type '' @ squote t @ '' is not registered''))
      else placeTypes ts (removeAll t allt) (ordered @ [t]))"

fun indexOf :: "WorkloadType list \<Rightarrow> nat \<Rightarrow> (WorkloadType \<Rightarrow> nat) \<Rightarrow> WorkloadType \<Rightarrow> nat" where
  "indexOf [] n idx = idx"
| "indexOf (t # ts) n idx = indexOf ts (n + 1) (idx(t := n))"

definition withStartupOrder ::
    "(WorkloadType list \<Rightarrow> WorkloadType list) \<Rightarrow> WorkloadType list \<Rightarrow> ('s, 'w, 'q) NativeEngine
     \<Rightarrow> ('s, 'w, 'q) NativeEngine result" where
  "withStartupOrder ord ts E =
     rbind (placeTypes ts (remdups (en_order E)) []) (\<lambda>(left, placed).
     let ordered = placed @ ord left in
     Ok (E\<lparr>en_order := ordered, en_typeIndex := indexOf ordered 1 (en_typeIndex E)\<rparr>))"


section \<open>The entry points of the node's interface\<close>

definition DecommissionCached ::
    "('s, 'w, 'q) NativeEngine \<Rightarrow> string \<Rightarrow> string \<Rightarrow> ('s, 'w, 'q) EngineState
     \<Rightarrow> ('s, 'w, 'q) EngineState \<times> unit result" where
  "DecommissionCached E globalID reason st =
     (case rbind (WorkloadID_Parts globalID) (\<lambda>(twin, dlID, name).
          rbind (st_Current (en_storage E) twin dlID name (es_storage st)) (\<lambda>wl. Ok (twin, dlID, wl))) of
        Inl e \<Rightarrow> (st, Err e)
      | Inr (twin, dlID, wl) \<Rightarrow>
          if State (wl_Result wl) = StateDeleted \<or> State (wl_Result wl) = StateError then (st, Ok ())
          else uninstallWorkload E
            (withTimeout (withDeployment background twin dlID) (en_now E (es_world st) + 3 * 60))
            \<lparr>wi_Workload = wl, wi_ID = globalID\<rparr>
            (''workload decommissioned by system, reason: '' @ reason) st)"

text \<open>What \<open>CreateOrUpdate\<close> and \<open>PrepareDeployment\<close> check first: the deployment is valid, it is
  the caller's, and the caller's account is verified (after the retries).\<close>

definition checkRequest ::
    "('s, 'w, 'q) NativeEngine \<Rightarrow> u32 \<Rightarrow> Deployment \<Rightarrow> 'w \<Rightarrow> unit result" where
  "checkRequest E twin deployment w =
     rbind (Deployment_Valid (en_lib E) (en_registry E) deployment) (\<lambda>_.
     rbind (fail_if (dl_TwinID deployment \<noteq> twin) (Errorf (''twin id mismatch (deployment: ''
       @ dec (unat (dl_TwinID deployment)) @ '', message: '' @ dec (unat twin) @ '')''))) (\<lambda>_.
     rbind (en_isTwinVerified E twin w) (\<lambda>ok.
       fail_if (\<not> ok) (Errorf (''user with twin id '' @ dec (unat twin) @ '' is not verified'')))))"

definition CreateOrUpdate ::
    "('s, 'w, 'q) NativeEngine \<Rightarrow> u32 \<Rightarrow> Deployment \<Rightarrow> bool \<Rightarrow> ('s, 'w, 'q) EngineState
     \<Rightarrow> ('s, 'w, 'q) EngineState \<times> unit result" where
  "CreateOrUpdate E twin deployment update st =
     (case rbind (checkRequest E twin deployment (es_world st)) (\<lambda>_.
         Deployment_Verify (en_lib E) (en_registry E) (\<lambda>t. en_twins E t (es_world st)) deployment) of
        Inl e \<Rightarrow> (st, Err e)
      | Inr _ \<Rightarrow> if update then Engine_Update E deployment st else Engine_Provision E deployment st)"

definition PrepareDeployment ::
    "('s, 'w, 'q) NativeEngine \<Rightarrow> u32 \<Rightarrow> Deployment \<Rightarrow> ('s, 'w, 'q) EngineState
     \<Rightarrow> ('s, 'w, 'q) EngineState \<times> unit result" where
  "PrepareDeployment E twin deployment st =
     (case checkRequest E twin deployment (es_world st) of
        Inl e \<Rightarrow> (st, Err e)
      | Inr _ \<Rightarrow> Engine_Prepare E deployment st)"

definition PauseDeployment ::
    "('s, 'w, 'q) NativeEngine \<Rightarrow> u32 \<Rightarrow> u64 \<Rightarrow> ('s, 'w, 'q) EngineState
     \<Rightarrow> ('s, 'w, 'q) EngineState \<times> unit result" where
  "PauseDeployment E twin cid st = Engine_Pause E twin cid st"

definition StartDeployment ::
    "('s, 'w, 'q) NativeEngine \<Rightarrow> u32 \<Rightarrow> u64 \<Rightarrow> ('s, 'w, 'q) EngineState
     \<Rightarrow> ('s, 'w, 'q) EngineState \<times> unit result" where
  "StartDeployment E twin cid st = Engine_Start E twin cid st"

definition notFound :: "'a result \<Rightarrow> 'a result" where
  "notFound r = (case r of
     Inl e \<Rightarrow> Err (if err_is e ErrDeploymentNotExists then Errorf ''deployment not found'' else e)
   | Inr x \<Rightarrow> Ok x)"

definition Engine_Get :: "('s, 'w, 'q) NativeEngine \<Rightarrow> u32 \<Rightarrow> u64 \<Rightarrow> 's \<Rightarrow> Deployment result" where
  "Engine_Get E twin contractID s = notFound (st_Get (en_storage E) twin contractID s)"

definition Engine_List :: "('s, 'w, 'q) NativeEngine \<Rightarrow> u32 \<Rightarrow> 's \<Rightarrow> Deployment list result" where
  "Engine_List E twin s =
     rbind (st_ByTwin (en_storage E) twin s) (\<lambda>ids.
     rmap (filter Deployment_IsActive) (rlist (\<lambda>cid. st_Get (en_storage E) twin cid s) ids))"

definition Engine_Changes :: "('s, 'w, 'q) NativeEngine \<Rightarrow> u32 \<Rightarrow> u64 \<Rightarrow> 's \<Rightarrow> Workload list result" where
  "Engine_Changes E twin contractID s = notFound (st_Changes (en_storage E) twin contractID s)"

definition Engine_ListTwins :: "('s, 'w, 'q) NativeEngine \<Rightarrow> 's \<Rightarrow> u32 list result" where
  "Engine_ListTwins E s = st_Twins (en_storage E) s"

text \<open>\<open>json.Unmarshal\<close> of a public address result is the argument \<open>unmarshal\<close>.\<close>

definition publicIPs ::
    "(bytes \<Rightarrow> PublicIPResult result) \<Rightarrow> WorkloadWithID \<Rightarrow> string list result" where
  "publicIPs unmarshal wl =
     (let r = wl_Result (wi_Workload wl) in
      if State r \<noteq> StateOk then Ok []
      else rbind (unmarshal (Data r)) (\<lambda>result.
        Ok (if net_IP (pir_IP result) \<noteq> [] then [IPNet_String (pir_IP result)] else [])))"

definition Engine_ListPublicIPs ::
    "(bytes \<Rightarrow> PublicIPResult result) \<Rightarrow> ('s, 'w, 'q) NativeEngine \<Rightarrow> 's \<Rightarrow> string list result" where
  "Engine_ListPublicIPs unmarshal E s =
     rbind (rwrap ''failed to list twins'' (st_Twins (en_storage E) s)) (\<lambda>twins.
     rmap concat (rlist (\<lambda>twin.
       rbind (rwrap ''failed to list twin deployment'' (st_ByTwin (en_storage E) twin s)) (\<lambda>ids.
       rmap concat (rlist (\<lambda>cid.
         rbind (rwrap ''failed to load deployment'' (st_Get (en_storage E) twin cid s)) (\<lambda>deployment.
         rmap concat (rlist (publicIPs unmarshal)
           (Deployment_ByType deployment [PublicIPv4Type, PublicIPType])))) ids))) twins))"

definition interfaceIPs :: "Name \<Rightarrow> MachineInterface list \<Rightarrow> string list" where
  "interfaceIPs network infs = map (\<lambda>i. IP_String (mi_IP i)) (filter (\<lambda>i. mi_Network i = network) infs)"

text \<open>The type assertion on the data of a machine panics on any other data.\<close>

definition privateIPs ::
    "Lib \<Rightarrow> Registry \<Rightarrow> Name \<Rightarrow> (WorkloadData \<Rightarrow> MachineInterface list option) \<Rightarrow> WorkloadWithID
     \<Rightarrow> string list result" where
  "privateIPs L G network interfaces vm =
     (if IsAny (State (wl_Result (wi_Workload vm))) [StateDeleted, StateError] then Ok []
      else rbind (Workload_WorkloadData L G (wi_Workload vm)) (\<lambda>data.
        case interfaces data of
          None \<Rightarrow> Err (Panic ''interface conversion'')
        | Some infs \<Rightarrow> Ok (interfaceIPs network infs)))"

definition Engine_ListPrivateIPs ::
    "('s, 'w, 'q) NativeEngine \<Rightarrow> u32 \<Rightarrow> Name \<Rightarrow> 's \<Rightarrow> string list result" where
  "Engine_ListPrivateIPs E twin network s =
     rbind (Engine_List E twin s) (\<lambda>deployments.
     rmap concat (rlist (\<lambda>deployment.
       rbind (rlist (privateIPs (en_lib E) (en_registry E) network
           (\<lambda>d. case d of DZMachine m \<Rightarrow> Some (mn_Interfaces (vm_Network m)) | _ \<Rightarrow> None))
         (Deployment_ByType deployment [ZMachineType])) (\<lambda>vms.
       rbind (rlist (privateIPs (en_lib E) (en_registry E) network
           (\<lambda>d. case d of DZMachineLight m \<Rightarrow> Some (mnl_Interfaces (vml_Network m)) | _ \<Rightarrow> None))
         (Deployment_ByType deployment [ZMachineLightType])) (\<lambda>vmsLight.
       Ok (concat (vms @ vmsLight))))) deployments))"

definition isNotFoundError :: "err \<Rightarrow> bool" where
  "isNotFoundError e \<longleftrightarrow> err_is e ErrWorkloadNotExist \<or> err_is e ErrDeploymentNotExists"

definition GetWorkloadStatus ::
    "('s, 'w, 'q) NativeEngine \<Rightarrow> string \<Rightarrow> 's \<Rightarrow> (ResultState \<times> bool) result" where
  "GetWorkloadStatus E globalID s =
     rbind (WorkloadID_Parts globalID) (\<lambda>(twin, dlID, name).
     case st_Current (en_storage E) twin dlID name s of
       Inl e \<Rightarrow> if isNotFoundError e then Ok ([], False) else Err e
     | Inr wl \<Rightarrow> Ok (State (wl_Result wl), True))"

end
