(* ===== verification/EngineQueue.thy ===== *)
theory EngineQueue
  imports Engine
begin

text \<open>
  The queue of the engine: requests and the loop as a step relation, that a job leaves the queue
  whatever becomes of it, that the record of pending jobs is exact, and what dropping
  duplicates costs.
\<close>

section \<open>What leaves the queue alone\<close>

definition sameQueue :: "('s, 'w, 'q) EngineState \<Rightarrow> ('s, 'w, 'q) EngineState \<Rightarrow> bool" where
  "sameQueue st st' \<longleftrightarrow> es_queue st' = es_queue st \<and> es_pending st' = es_pending st \<and>
     es_callbacks st' = es_callbacks st"

lemma sameQueue_refl [simp, wf_intros]: "sameQueue st st"
  by (simp add: sameQueue_def)

lemma sameQueue_trans [trans]: "sameQueue a b \<Longrightarrow> sameQueue b c \<Longrightarrow> sameQueue a c"
  by (simp add: sameQueue_def)

lemma sameQueue_updates [simp]:
  "sameQueue st (st'\<lparr>es_world := w\<rparr>) = sameQueue st st'" "sameQueue st (st'\<lparr>es_storage := s\<rparr>) = sameQueue st st'"
  "sameQueue (st\<lparr>es_world := w\<rparr>) st' = sameQueue st st'" "sameQueue (st\<lparr>es_storage := s\<rparr>) st' = sameQueue st st'"
  by (simp_all add: sameQueue_def)

lemma commit_sameQueue [simp]: "sameQueue st (fst (commit f st))"
  by (simp add: commit_def split: sum.split)

lemma commit_cases:
  obtains e where "f (es_storage st) = Err e" "commit f st = (st, Err e)"
  | s where "f (es_storage st) = Ok s" "commit f st = (st\<lparr>es_storage := s\<rparr>, Ok ())"
  by (cases "f (es_storage st)") (simp_all add: commit_def)

lemma uninstallWorkload_sameQueue [simp]: "sameQueue st (fst (uninstallWorkload E ctx wl reason st))"
  by (auto simp: uninstallWorkload_def commit_def Let_def split: sum.split prod.split option.split)

lemma provisionWorkload_sameQueue [simp]: "sameQueue st (fst (provisionWorkload E ctx wl st))"
  by (auto simp: provisionWorkload_def commit_def Let_def split: sum.split prod.split option.split)

lemma provisionWorkload_added [simp]: "sameQueue st (fst (provisionWorkload E ctx wl (st\<lparr>es_storage := s\<rparr>)))"
  using provisionWorkload_sameQueue[of "st\<lparr>es_storage := s\<rparr>"] by (simp del: provisionWorkload_sameQueue)

lemma installWorkload_sameQueue [simp]: "sameQueue st (fst (installWorkload E ctx wl st))"
  by (auto simp: installWorkload_def commit_def Let_def split: sum.split prod.split)

lemma updateWorkload_sameQueue [simp]: "sameQueue st (fst (updateWorkload E ctx wl st))"
  by (auto simp: updateWorkload_def commit_def Let_def split: sum.split prod.split option.split)

lemma lockWorkload_sameQueue [simp]: "sameQueue st (fst (lockWorkload E ctx wl lock st))"
  by (auto simp: lockWorkload_def commit_def Let_def split: sum.split prod.split option.split)

lemma runOperation_sameQueue [simp]: "sameQueue st (fst (runOperation E ctx op st))"
  by (simp add: runOperation_def split: JobOperation.split)

lemma forEach_sameQueue:
  assumes "\<And>x st. sameQueue st (fst (f x st))"
  shows "sameQueue st (forEach f xs st)"
proof (induction xs rule: rev_induct)
  case (snoc x xs)
  from sameQueue_trans[OF this assms] show ?case by (simp add: forEach_def)
qed (simp add: forEach_def)

lemma forEachErr_snoc:
  "forEachErr f (xs @ [x]) st = (case forEachErr f xs st of (st, errors) \<Rightarrow>
     (case f x st of (st, r) \<Rightarrow> (st, errors \<or> \<not> is_ok r)))"
  by (simp add: forEachErr_def split: prod.split)

lemma forEachErr_sameQueue:
  assumes "\<And>x st. sameQueue st (fst (f x st))"
  shows "sameQueue st (fst (forEachErr f xs st))"
proof (induction xs rule: rev_induct)
  case (snoc x xs)
  then show ?case
    using sameQueue_trans[OF snoc assms[of _ x]] by (auto simp: forEachErr_snoc split: prod.split)
qed (simp add: forEachErr_def)

lemma applyJob_sameQueue: "sameQueue st (applyJob E ctx op job st)"
proof (cases op)
  case opDeprovision
  have "sameQueue st (fst (forEachErr (\<lambda>wl. uninstallWorkload E ctx wl reason) xs st))" for reason xs
    by (rule forEachErr_sameQueue) simp
  from sameQueue_trans[OF this commit_sameQueue] this opDeprovision show ?thesis
    by (auto simp: uninstallDeployment_def split: prod.split) (metis fst_conv)+
qed (auto simp: installDeployment_def prepareDeployment_def startDeployment_def lockDeployment_def
    unlockDeployment_def updateDeployment_def intro!: forEach_sameQueue split: option.split sum.split)

lemma setGlobalError_sameQueue [simp]: "sameQueue st (setGlobalError E job e st)"
  by (simp add: setGlobalError_def)

lemma runJob_sameQueue: "sameQueue st (fst (runJob E job st))"
  by (auto simp: runJob_def Let_def split: sum.split
      intro: applyJob_sameQueue sameQueue_trans[OF applyJob_sameQueue setGlobalError_sameQueue])

lemma Decommission_sameQueue: "sameQueue st (fst (DecommissionCached E i m st))"
  by (simp add: DecommissionCached_def split: sum.split prod.split)


lemma enqueue_eq:
  "enqueue E job st =
     (if \<not> dedupable (job_Op job) then
        (case dque_Enqueue (en_queue E) job (es_queue st) of
           Inl e \<Rightarrow> (st, Err e) | Inr q \<Rightarrow> (st\<lparr>es_queue := q\<rparr>, Ok ()))
      else if jobKey_of job \<in> set (es_pending st) then (st, Ok ())
      else let st = st\<lparr>es_pending := jobKey_of job # es_pending st\<rparr> in
        (case dque_Enqueue (en_queue E) job (es_queue st) of
           Inl e \<Rightarrow> (forgetPending job st, Err e) | Inr q \<Rightarrow> (st\<lparr>es_queue := q\<rparr>, Ok ())))"
  by (simp add: enqueue_def markPending_def pushJob_def Let_def)

section \<open>Steps of the engine\<close>

text \<open>
  One request that queues a job with a payload, or none. Requests run beside the loop, so they may
  come at any time; the storage transaction and the queue are called as in the code, and the
  pending keys are not touched.
\<close>

inductive request ::
    "('s, 'w, 'q) NativeEngine \<Rightarrow> ('s, 'w, 'q) EngineState \<Rightarrow> ('s, 'w, 'q) EngineState \<Rightarrow> bool" for E where
  Provision: "Engine_Provision E dl st = (st', r) \<Longrightarrow> request E st st'"
| Prepare: "Engine_Prepare E dl st = (st', r) \<Longrightarrow> request E st st'"
| Update: "Engine_Update E dl st = (st', r) \<Longrightarrow> request E st st'"
| Start: "Engine_Start E t c st = (st', r) \<Longrightarrow> request E st st'"
| Decommission: "DecommissionCached E i m st = (st', r) \<Longrightarrow> request E st st'"

text \<open>
  What the loop is at: waiting for a job, having run one (with the callback it asked for), or having
  dequeued it.
\<close>

datatype LoopPhase = Waiting | Ran engineJob bool | Left engineJob bool

text \<open>
  The engine: the phase of the loop, the jobs whose keys are marked and that are not yet queued, and the
  state. The steps of the loop and the requests interleave. A request to deprovision, pause or resume is
  two steps, \<open>Mark\<close> and \<open>Push\<close>, for any job it may have made (one whose key is pending ends it
  without a step).
\<close>

inductive engine_step ::
    "('s, 'w, 'q) NativeEngine \<Rightarrow> LoopPhase \<times> engineJob list \<times> ('s, 'w, 'q) EngineState
     \<Rightarrow> LoopPhase \<times> engineJob list \<times> ('s, 'w, 'q) EngineState \<Rightarrow> bool" for E where
  Request: "request E st st' \<Longrightarrow> engine_step E (phase, marked, st) (phase, marked, st')"
| Mark: "dedupable (job_Op job) \<Longrightarrow> markPending job st = Some st' \<Longrightarrow>
    engine_step E (phase, marked, st) (phase, job # marked, st')"
| Push: "pushJob E job st = (st', r) \<Longrightarrow> engine_step E (phase, pre @ job # post, st) (phase, pre @ post, st')"
| Run: "dque_Peek (en_queue E) (es_queue st) = Some job \<Longrightarrow> runJob E job st = (st', callback) \<Longrightarrow>
    engine_step E (Waiting, marked, st) (Ran job callback, marked, st')"
| Dequeue: "engine_step E (Ran job callback, marked, st) (Left job callback, marked, dequeueJob E st)"
| Forget: "engine_step E (Left job callback, marked, st) (Waiting, marked, forgetJob E job callback st)"

text \<open>The requests of the interface that are two steps are covered.\<close>

lemma load_steps:
  assumes "loadAndEnqueue E op t c m st = (st', r)" and "dedupable op"
  shows "(engine_step E)\<^sup>*\<^sup>* (phase, marked, st) (phase, marked, st')"
proof (cases "st_Get (en_storage E) t c (es_storage st)")
  case (Inr dl)
  let ?job = "(newJob op dl)\<lparr>job_Message := m\<rparr>"
  have op: "dedupable (job_Op ?job)" using assms(2) by (simp add: newJob_def)
  have e: "enqueue E ?job st = (st', r)" using assms(1) Inr by (simp add: loadAndEnqueue_def)
  show ?thesis
  proof (cases "markPending ?job st")
    case (Some st1)
    then have "pushJob E ?job st1 = (st', r)" using e op by (simp add: enqueue_def)
    from engine_step.Push[OF this, of phase "[]" marked] engine_step.Mark[OF op Some, of E phase marked]
    show ?thesis by (simp add: converse_rtranclp_into_rtranclp)
  qed (use e op in \<open>simp add: enqueue_def\<close>)
qed (use assms(1) in \<open>simp add: loadAndEnqueue_def\<close>)

text \<open>An engine starts with no pending jobs, and with the queue that an earlier run of it left; with
  \<open>rerunAll\<close> the queue was removed, and \<open>boot\<close> fills it again.\<close>

inductive engine_run ::
    "('s, 'w, 'q) NativeEngine \<Rightarrow> ('s, 'w, 'q) EngineState
     \<Rightarrow> LoopPhase \<times> engineJob list \<times> ('s, 'w, 'q) EngineState \<Rightarrow> bool" for E st0 where
  start: "engine_run E st0 (Waiting, [], if en_rerunAll E then fst (boot E st0) else st0)"
| step: "engine_run E st0 c \<Longrightarrow> engine_step E c c' \<Longrightarrow> engine_run E st0 c'"

inductive_cases request_elims: "request E st st'"
inductive_cases engine_step_elims: "engine_step E c c'"

text \<open>The loop alone, until the queue is empty or \<open>n\<close> jobs have run.\<close>

fun runLoop :: "('s, 'w, 'q) NativeEngine \<Rightarrow> nat \<Rightarrow> ('s, 'w, 'q) EngineState \<Rightarrow> ('s, 'w, 'q) EngineState" where
  "runLoop E 0 st = st"
| "runLoop E (Suc n) st = (case loopStep E st of None \<Rightarrow> st | Some st \<Rightarrow> runLoop E n st)"

definition dedupJobs :: "engineJob list \<Rightarrow> engineJob list" where
  "dedupJobs jobs = filter (\<lambda>job. dedupable (job_Op job)) jobs"

definition dedupKeys :: "engineJob list \<Rightarrow> jobKey list" where
  "dedupKeys jobs = map jobKey_of (dedupJobs jobs)"

lemma dedupKeys_simps [simp]:
  "dedupKeys [] = []" "dedupKeys (job # jobs) = (if dedupable (job_Op job) then [jobKey_of job] else []) @ dedupKeys jobs"
  "dedupKeys (xs @ ys) = dedupKeys xs @ dedupKeys ys"
  by (simp_all add: dedupKeys_def dedupJobs_def)

lemma distinct_count: "(\<And>x. count_list xs x \<le> 1) \<Longrightarrow> distinct xs"
proof (induction xs)
  case (Cons a xs)
  have "count_list xs x \<le> 1" for x using Cons.prems[of x] by (simp split: if_splits)
  moreover have "a \<notin> set xs" using Cons.prems[of a] by (simp add: count_list_0_iff)
  ultimately show ?case using Cons.IH by simp
qed simp

lemma set_dedupKeys: "set (dedupKeys jobs) = jobKey_of ` {job \<in> set jobs. dedupable (job_Op job)}"
  by (auto simp: dedupKeys_def dedupJobs_def)

text \<open>The jobs that hold a pending key: those in the queue, those marked and not yet queued, and the
  one that was dequeued.\<close>

definition leaving :: "LoopPhase \<Rightarrow> engineJob list" where
  "leaving phase = (case phase of Left job _ \<Rightarrow> [job] | _ \<Rightarrow> [])"

definition hasSource :: "engineJob \<Rightarrow> bool" where
  "hasSource job \<longleftrightarrow> (job_Op job = opUpdate \<longrightarrow> job_Source job \<noteq> None)"

definition queueInv :: "('q \<Rightarrow> engineJob list) \<Rightarrow> engineJob list \<Rightarrow>
    LoopPhase \<times> engineJob list \<times> ('s, 'w, 'q) EngineState \<Rightarrow> bool" where
  "queueInv items old c = (case c of (phase, marked, st) \<Rightarrow>
     (\<forall>k. count_list (dedupKeys (items (es_queue st) @ marked @ leaving phase)) k \<le>
        count_list (dedupKeys old) k + (if k \<in> set (es_pending st) then 1 else 0)) \<and>
     set (es_pending st) \<subseteq> set (dedupKeys (items (es_queue st) @ marked @ leaving phase)) \<and>
     (\<forall>job \<in> set marked. dedupable (job_Op job)) \<and>
     (\<forall>job callback. phase = Ran job callback \<longrightarrow> (\<exists>js. items (es_queue st) = job # js)) \<and>
     ((\<forall>job \<in> set old. hasSource job) \<longrightarrow> (\<forall>job \<in> set (items (es_queue st)). hasSource job)))"

lemma queueInvI:
  assumes "\<And>k. count_list (dedupKeys (items (es_queue st) @ marked @ leaving phase)) k \<le>
      count_list (dedupKeys old) k + (if k \<in> set (es_pending st) then 1 else 0)"
    and "set (es_pending st) \<subseteq> set (dedupKeys (items (es_queue st) @ marked @ leaving phase))"
    and "\<forall>job \<in> set marked. dedupable (job_Op job)"
    and "\<And>job callback. phase = Ran job callback \<Longrightarrow> \<exists>js. items (es_queue st) = job # js"
    and "\<forall>job \<in> set old. hasSource job \<Longrightarrow> \<forall>job \<in> set (items (es_queue st)). hasSource job"
  shows "queueInv items old (phase, marked, st)"
  unfolding queueInv_def using assms by blast

lemma queueInv_bound:
  "queueInv items old (phase, marked, st) \<Longrightarrow>
     count_list (dedupKeys (items (es_queue st))) k + count_list (dedupKeys marked) k + count_list (dedupKeys (leaving phase)) k \<le>
       count_list (dedupKeys old) k + (if k \<in> set (es_pending st) then 1 else 0)"
  by (simp add: queueInv_def add.assoc)

lemma newJob_fields [simp]:
  "job_Op (newJob op dl) = op" "job_Target (newJob op dl) = dl" "job_Source (newJob op dl) = None"
  by (simp_all add: newJob_def)

lemma jobKey_of_updates [simp]:
  "jobKey_of (job\<lparr>job_Message := m\<rparr>) = jobKey_of job" "jobKey_of (job\<lparr>job_Source := s\<rparr>) = jobKey_of job"
  by (simp_all add: jobKey_of_def)


section \<open>The engine on a first-in first-out queue\<close>

locale engine_queue = fifo "en_queue E" items
  for E :: "('s, 'w, 'q) NativeEngine" and items :: "'q \<Rightarrow> engineJob list"
begin

lemma enqueue_effect:
  assumes "enqueue E job st = (st', r)"
  shows "es_storage st' = es_storage st" "es_world st' = es_world st" "es_callbacks st' = es_callbacks st"
    "items (es_queue st') = items (es_queue st) \<or> items (es_queue st') = items (es_queue st) @ [job]"
    "r = Ok () \<Longrightarrow> items (es_queue st') = items (es_queue st) @
       (if dedupable (job_Op job) \<and> jobKey_of job \<in> set (es_pending st) then [] else [job])"
    "r = Ok () \<Longrightarrow> set (es_pending st') = set (es_pending st) \<union>
       (if dedupable (job_Op job) then {jobKey_of job} else {})"
  using assms enqueue
  by (auto simp: enqueue_eq forgetPending_def Let_def split: if_splits sum.splits)

text \<open>What adds jobs with a payload leaves the pending keys alone.\<close>

definition grows :: "('s, 'w, 'q) EngineState \<Rightarrow> ('s, 'w, 'q) EngineState \<Rightarrow> bool" where
  "grows st st' \<longleftrightarrow> es_pending st' = es_pending st \<and>
     (\<exists>js. items (es_queue st') = items (es_queue st) @ js \<and> (\<forall>job \<in> set js. \<not> dedupable (job_Op job) \<and> hasSource job))"

lemma grows_same: "sameQueue st st' \<Longrightarrow> grows st st'"
  by (auto simp: grows_def sameQueue_def intro!: exI[of _ "[]"])

lemma grows_trans:
  assumes "grows a b" and "grows b c"
  shows "grows a c"
proof -
  from assms obtain xs ys where "items (es_queue b) = items (es_queue a) @ xs" "items (es_queue c) = items (es_queue b) @ ys"
    "\<forall>job \<in> set xs. \<not> dedupable (job_Op job) \<and> hasSource job" "\<forall>job \<in> set ys. \<not> dedupable (job_Op job) \<and> hasSource job"
    unfolding grows_def by blast
  then have "items (es_queue c) = items (es_queue a) @ xs @ ys \<and> (\<forall>job \<in> set (xs @ ys). \<not> dedupable (job_Op job) \<and> hasSource job)"
    by auto
  moreover have "es_pending c = es_pending a" using assms by (simp add: grows_def)
  ultimately show ?thesis unfolding grows_def by blast
qed

lemma enqueue_grows:
  assumes "enqueue E job st = (st', r)" and "\<not> dedupable (job_Op job)" and "hasSource job"
  shows "grows st st'"
proof (cases "dque_Enqueue (en_queue E) job (es_queue st)")
  case (Inl e)
  then show ?thesis using assms(1,2) by (auto simp: enqueue_def intro: grows_same)
next
  case (Inr q)
  then have "es_pending st' = es_pending st" "items (es_queue st') = items (es_queue st) @ [job]"
    using assms(1,2) enqueue[OF Inr] by (auto simp: enqueue_def)
  then show ?thesis using assms(2,3) by (auto simp: grows_def)
qed

lemma grows_stored [simp]: "grows (st\<lparr>es_storage := s\<rparr>) st' \<longleftrightarrow> grows st st'"
  by (simp add: grows_def)

lemma createAndEnqueue_grows:
  assumes "createAndEnqueue E op dl st = (st', r)" and "\<not> dedupable op" and "op \<noteq> opUpdate"
  shows "grows st st'"
  using assms enqueue_grows[of "newJob op dl" "st\<lparr>es_storage := s\<rparr>" st' r for s]
  by (cases rule: commit_cases[of "st_Create (en_storage E) (en_now E (es_world st)) dl" st])
     (auto simp: createAndEnqueue_def hasSource_def intro: grows_same split: if_splits)

lemma request_grows:
  assumes "request E st st'"
  shows "grows st st'"
  using assms
proof cases
  case (Update dl r)
  have upd: "grows st st'" if "enqueue E ((newJob opUpdate dl)\<lparr>job_Source := Some d\<rparr>) (st\<lparr>es_storage := s\<rparr>) = (st', r)" for d s dl
    using enqueue_grows[OF that] by (simp add: dedupable_def hasSource_def)
  from Update show ?thesis
    by (auto simp: Engine_Update_def commit_def split: sum.splits option.splits prod.splits intro: upd grows_same)
next
  case (Start t c r)
  then show ?thesis
    by (auto simp: Engine_Start_def loadAndEnqueue_def dedupable_def hasSource_def split: sum.splits dest!: enqueue_grows intro: grows_same)
next
  case (Decommission i m r)
  then show ?thesis using Decommission_sameQueue[of st E i m] by (simp add: grows_same)
qed (auto simp: Engine_Provision_def Engine_Prepare_def dedupable_def dest!: createAndEnqueue_grows)

lemma finishJob_queue:
  assumes "items (es_queue st) = job # js"
  shows "items (es_queue (finishJob E job callback st)) = js"
    "set (es_pending (finishJob E job callback st)) =
       set (es_pending st) - (if dedupable (job_Op job) then {jobKey_of job} else {})"
    "es_storage (finishJob E job callback st) = es_storage st"
    "es_callbacks (finishJob E job callback st) = es_callbacks st @ (if callback \<and> en_callback E
       then [(dl_TwinID (job_Target job), dl_ContractID (job_Target job), job_Op job = opDeprovision)] else [])"
  using dequeue[OF assms]
  by (auto simp: finishJob_def dequeueJob_def forgetJob_def forgetPending_def safeCallback_def Let_def)

lemma request_inv:
  assumes "grows st st'" and "queueInv items old (phase, marked, st)"
  shows "queueInv items old (phase, marked, st')"
proof -
  from assms(1) obtain js where p: "es_pending st' = es_pending st" and q: "items (es_queue st') = items (es_queue st) @ js"
    and js: "\<forall>job \<in> set js. \<not> dedupable (job_Op job) \<and> hasSource job" by (auto simp: grows_def)
  have "dedupKeys js = []" using js by (simp add: dedupKeys_def dedupJobs_def filter_empty_conv)
  with assms(2) js show ?thesis by (auto simp: queueInv_def p q)
qed

lemma pushJob_inv:
  assumes "pushJob E job st = (st', r)" and "queueInv items old (phase, pre @ job # post, st)"
  shows "queueInv items old (phase, pre @ post, st')"
proof -
  have d: "dedupable (job_Op job)" using assms(2) by (simp add: queueInv_def)
  then have src: "hasSource job" by (auto simp: hasSource_def dedupable_def)
  show ?thesis
  proof (cases "dque_Enqueue (en_queue E) job (es_queue st)")
    case (Inl e)
    then have st': "es_queue st' = es_queue st" "es_pending st' = removeAll (jobKey_of job) (es_pending st)"
      using assms(1) d by (auto simp: pushJob_def forgetPending_def)
    have "count_list (dedupKeys (items (es_queue st) @ (pre @ post) @ leaving phase)) k \<le>
        count_list (dedupKeys old) k + (if k \<in> set (es_pending st') then 1 else 0)" for k
      using queueInv_bound[OF assms(2), of k] d st' by (cases "k = jobKey_of job") (auto split: if_splits)
    with st'(1) have "count_list (dedupKeys (items (es_queue st') @ (pre @ post) @ leaving phase)) k \<le>
        count_list (dedupKeys old) k + (if k \<in> set (es_pending st') then 1 else 0)" for k by simp
    then show ?thesis by (rule queueInvI) (use assms(2) d st' in \<open>auto simp: queueInv_def\<close>)
  next
    case (Inr q)
    then have st': "items (es_queue st') = items (es_queue st) @ [job]" "es_pending st' = es_pending st"
      using assms(1) enqueue[OF Inr] by (auto simp: pushJob_def)
    have "count_list (dedupKeys (items (es_queue st') @ (pre @ post) @ leaving phase)) k \<le>
        count_list (dedupKeys old) k + (if k \<in> set (es_pending st') then 1 else 0)" for k
      using queueInv_bound[OF assms(2), of k] d by (simp add: st' split: if_splits)
    then show ?thesis by (rule queueInvI) (use assms(2) d src st' in \<open>auto simp: queueInv_def\<close>)
  qed
qed

lemma engine_step_inv:
  assumes "engine_step E c c'" and "queueInv items old c"
  shows "queueInv items old c'"
  using assms(1)
proof cases
  case (Request st st' phase marked)
  with assms(2) show ?thesis by (auto intro: request_inv request_grows)
next
  case (Mark job st st' phase marked)
  then have st': "es_queue st' = es_queue st" "es_pending st' = jobKey_of job # es_pending st" "jobKey_of job \<notin> set (es_pending st)"
    by (auto simp: markPending_def split: if_splits)
  have "count_list (dedupKeys (items (es_queue st') @ (job # marked) @ leaving phase)) k \<le>
      count_list (dedupKeys old) k + (if k \<in> set (es_pending st') then 1 else 0)" for k
    using queueInv_bound[OF assms(2)[unfolded Mark(1)], of k] Mark(3) st' by (cases "k = jobKey_of job") (auto split: if_splits)
  then show ?thesis unfolding Mark by (rule queueInvI) (use assms(2) Mark st' in \<open>auto simp: queueInv_def\<close>)
next
  case (Push job st st' r phase pre post)
  with assms(2) show ?thesis by (auto intro: pushJob_inv)
next
  case (Run st job st' callback marked)
  have "sameQueue st st'" using runJob_sameQueue[of st E job] Run by simp
  with Run assms(2) show ?thesis by (auto simp: queueInv_def peek_Some sameQueue_def leaving_def)
next
  case (Dequeue job callback marked st)
  with assms(2) obtain js where js: "items (es_queue st) = job # js" by (auto simp: queueInv_def)
  have "items (es_queue (dequeueJob E st)) = js" "es_pending (dequeueJob E st) = es_pending st"
    using dequeue[OF js] by (auto simp: dequeueJob_def)
  with Dequeue assms(2) js show ?thesis by (auto simp: queueInv_def leaving_def add.commute add.left_commute)
next
  case (Forget job callback marked st)
  have f: "es_queue (forgetJob E job callback st) = es_queue st"
    "es_pending (forgetJob E job callback st) = (if dedupable (job_Op job) then removeAll (jobKey_of job) (es_pending st) else es_pending st)"
    by (auto simp: forgetJob_def forgetPending_def safeCallback_def Let_def)
  have "count_list (dedupKeys (items (es_queue st) @ marked)) k \<le>
      count_list (dedupKeys old) k + (if k \<in> set (es_pending (forgetJob E job callback st)) then 1 else 0)" for k
    using queueInv_bound[OF assms(2)[unfolded Forget(1)], of k] by (cases "k = jobKey_of job") (auto simp: leaving_def f split: if_splits)
  with Forget assms(2) f show ?thesis by (auto simp: queueInv_def leaving_def)
qed

lemma boot_grows: "grows st (fst (boot E st))"
proof -
  have dl: "grows st (bootDeployment E t c st)" for t c st
    using enqueue_grows[of "newJob opProvisionNoValidation dl" st "fst (enqueue E (newJob opProvisionNoValidation dl) st)"
        "snd (enqueue E (newJob opProvisionNoValidation dl) st)" for dl]
    by (auto simp: bootDeployment_def dedupable_def hasSource_def intro: grows_same split: sum.split)
  have fold: "grows st (foldl (\<lambda>st x. f x st) st xs)" if "\<And>x st. grows st (f x st)" for f :: "'x \<Rightarrow> _" and xs st
    by (induction xs arbitrary: st) (auto intro: grows_same grows_trans that)
  have "grows st (bootTwin E t st)" for t st
    by (auto simp: bootTwin_def intro: fold dl grows_same split: sum.split)
  then show ?thesis by (auto simp: boot_def intro: fold grows_same split: sum.split)
qed

lemma engine_run_inv:
  assumes "engine_run E st0 c" and "es_pending st0 = []"
  shows "queueInv items (items (es_queue st0)) c"
  using assms(1)
proof induction
  case start
  have "queueInv items (items (es_queue st0)) (Waiting, [], st0)" using assms(2) by (simp add: queueInv_def leaving_def)
  with request_inv[OF boot_grows] show ?case by simp
next
  case (step c c')
  then show ?case using engine_step_inv by blast
qed

lemma loopStep_queue:
  assumes "items (es_queue st) = job # js"
  shows "\<exists>st'. loopStep E st = Some st' \<and> items (es_queue st') = js"
proof -
  obtain st1 callback where run: "runJob E job st = (st1, callback)" by (meson surj_pair)
  with runJob_sameQueue[of st E job] assms have "items (es_queue st1) = job # js" by (simp add: sameQueue_def)
  from finishJob_queue(1)[OF this] run assms show ?thesis by (simp add: loopStep_def peek)
qed

lemma runLoop_queue: "items (es_queue (runLoop E n st)) = drop n (items (es_queue st))"
proof (induction n arbitrary: st)
  case (Suc n)
  show ?case
  proof (cases "items (es_queue st)")
    case Nil
    then show ?thesis by (simp add: loopStep_def peek)
  next
    case (Cons job js)
    from loopStep_queue[OF this] Suc.IH Cons show ?thesis by auto
  qed
qed simp

end

lemma engine_queueI: "fifo (en_queue E) items \<Longrightarrow> engine_queue E items"
  by (simp add: engine_queue_def)


section \<open>Claims\<close>

subsection \<open>Sample data\<close>

definition sample_engine :: "(Mem, int, engineJob list) NativeEngine" where
  "sample_engine = \<lparr>en_storage = boltStorage sample_lib (\<lambda>ws. ws) sample_storage,
     en_provisioner = NewMapProvisioner (\<lambda>w. w) [(ZMountType, sample_manager), (NetworkType, sample_manager)],
     en_queue = listQueue, en_twins = (\<lambda>t w. Err (Errorf ''null user key getter'')),
     en_order = [NetworkType, ZMountType], en_typeIndex = indexOf [NetworkType, ZMountType] 1 (\<lambda>_. 0),
     en_rerunAll = False, en_nodeID = 3, en_substrateGateway = None, en_callback = True,
     en_lib = sample_lib, en_registry = sample_registry, en_now = (\<lambda>w. w),
     en_isTwinVerified = (\<lambda>t w. Ok True), en_mapOrder = (\<lambda>xs. xs), en_sortSlice = (\<lambda>less xs. xs)\<rparr>"

interpretation se: engine_queue sample_engine "\<lambda>q. q"
  by (rule engine_queueI) (simp add: sample_engine_def lq.fifo_axioms)

definition sample_state0 :: "Mem \<Rightarrow> (Mem, int, engineJob list) EngineState" where
  "sample_state0 s = \<lparr>es_storage = s, es_queue = [], es_pending = [], es_world = 10, es_callbacks = []\<rparr>"

lemma sample_engine_fields [simp]:
  "en_queue sample_engine = listQueue" "en_rerunAll sample_engine = False" "en_callback sample_engine = True"
  "en_storage sample_engine = boltStorage sample_lib (\<lambda>ws. ws) sample_storage"
  "en_now sample_engine = (\<lambda>w. w)" "en_order sample_engine = [NetworkType, ZMountType]"
  by (simp_all add: sample_engine_def)

lemma sample_state0_fields [simp]:
  "es_storage (sample_state0 s) = s" "es_queue (sample_state0 s) = []" "es_pending (sample_state0 s) = []"
  "es_world (sample_state0 s) = 10" "es_callbacks (sample_state0 s) = []"
  by (simp_all add: sample_state0_def)

lemma boltStorage_simps [simp]:
  "st_Get (boltStorage L ord b) = Storage_Get b ord" "st_Current (boltStorage L ord b) = Storage_Current b"
  "st_Transaction (boltStorage L ord b) = Storage_Transaction b" "st_Delete (boltStorage L ord b) = Storage_Delete b"
  "st_Remove (boltStorage L ord b) = Storage_Remove b" "st_Add (boltStorage L ord b) = Storage_Add b"
  "st_Create (boltStorage L ord b) now = Storage_Create b (\<lambda>_. now)"
  "st_Error (boltStorage L ord b) = Storage_Error b ord" "st_Update (boltStorage L ord b) = Storage_Update b"
  by (simp_all add: boltStorage_def)

text \<open>A stored deployment whose workloads are not paused.\<close>

lemma sample_stored:
  "\<exists>s dl. Storage_Create sample_storage (\<lambda>_. 5) sample_net emptyMem = Ok s \<and> storage_run sample_storage emptyMem s \<and>
     Storage_Get sample_storage (\<lambda>ws. ws) 7 9 s = Ok dl \<and> (\<forall>w \<in> set (dl_Workloads dl). State (wl_Result w) = StateInit)"
proof -
  from sample_created obtain s where s: "Storage_Create sample_storage (\<lambda>_. 5) sample_net emptyMem = Ok s"
    "storage_run sample_storage emptyMem s" by blast
  have f: "length (dl_Workloads sample_net) < 2 ^ 64" "dl_TwinID sample_net = 7" "dl_ContractID sample_net = 9"
    by (simp_all add: sample_net_def sample_dl_def)
  from create_get[OF mem.bolt_axioms sample_storage_fields(1) _ sample_empty storage_run.start _ f(1) s(1),
      of "\<lambda>ws. ws" "\<lambda>d. d"] s f sample_json_keeps sample_json_raw
  show ?thesis by (auto simp: sample_storage_fields)
qed

subsection \<open>The queue\<close>

text \<open>C2: jobs are not queued without bound. From any start with an empty record of pending jobs, whatever
  the queue still holds from before a restart, and however requests (which mark a key and queue the job in
  two steps) and the steps of the loop interleave: of the jobs that carry nothing but a
  deployment (deprovision, pause, resume) the queue holds, for each deployment and operation, at most one
  more than it held at the start; every pending key belongs to a job that is in the queue, about to
  enter it or just leaving it; the job that runs is the first of the queue; and every update in the
  queue has the deployment it updates if those at the start had, so that running it does not dereference
  nil. If the queue held no such job at the start, it never holds two for the same deployment and
  operation, and the pending keys are exactly those of the jobs in the queue, entering or leaving.\<close>

theorem engine_queue_invariant:
  assumes "fifo (en_queue E) items" and "es_pending st0 = []" and "engine_run E st0 (phase, marked, st)"
  shows "(\<forall>k. count_list (dedupKeys (items (es_queue st))) k \<le> count_list (dedupKeys (items (es_queue st0))) k + 1) \<and>
    set (es_pending st) \<subseteq> set (dedupKeys (items (es_queue st) @ marked @ leaving phase)) \<and>
    (\<forall>job callback. phase = Ran job callback \<longrightarrow> (\<exists>js. items (es_queue st) = job # js)) \<and>
    ((\<forall>job \<in> set (items (es_queue st0)). hasSource job) \<longrightarrow> (\<forall>job \<in> set (items (es_queue st)). hasSource job)) \<and>
    (dedupKeys (items (es_queue st0)) = [] \<longrightarrow> distinct (dedupKeys (items (es_queue st))) \<and>
      set (es_pending st) = set (dedupKeys (items (es_queue st) @ marked @ leaving phase)))"
proof -
  let ?all = "dedupKeys (items (es_queue st) @ marked @ leaving phase)" and ?old = "dedupKeys (items (es_queue st0))"
  have inv: "queueInv items (items (es_queue st0)) (phase, marked, st)"
    by (rule engine_queue.engine_run_inv[OF engine_queueI[OF assms(1)] assms(3,2)])
  then have bound: "count_list ?all k \<le> count_list ?old k + (if k \<in> set (es_pending st) then 1 else 0)" for k
    by (simp add: queueInv_def)
  have part: "count_list (dedupKeys (items (es_queue st))) k \<le> count_list ?all k" for k by simp
  have "count_list (dedupKeys (items (es_queue st))) k \<le> count_list ?old k + 1" for k
    using bound[of k] part[of k] by (auto split: if_splits)
  moreover have "distinct (dedupKeys (items (es_queue st))) \<and> set ?all \<subseteq> set (es_pending st)" if "?old = []"
  proof
    show "distinct (dedupKeys (items (es_queue st)))"
    proof (rule distinct_count)
      show "count_list (dedupKeys (items (es_queue st))) k \<le> 1" for k
        using le_trans[OF part bound, of k] that by (simp split: if_splits)
    qed
    show "set ?all \<subseteq> set (es_pending st)"
    proof
      show "k \<in> set (es_pending st)" if "k \<in> set ?all" for k
        using bound[of k] that \<open>?old = []\<close> by (auto simp: count_list_0_iff split: if_splits)
    qed
  qed
  ultimately show ?thesis using inv by (auto simp: queueInv_def)
qed

theorem engine_queue_invariant_witness:
  "\<exists>s job st. engine_run sample_engine ((sample_state0 s)\<lparr>es_queue := [job]\<rparr>) (Waiting, [], st) \<and> job_Op job = opPause \<and>
     length (es_queue st) = 2 \<and> set (es_pending st) \<subseteq> set (dedupKeys (es_queue st)) \<and>
     (\<forall>k. count_list (dedupKeys (es_queue st)) k \<le> count_list (dedupKeys [job]) k + 1)"
proof -
  let ?job = "newJob opPause sample_net" and ?init = "(sample_state0 emptyMem)\<lparr>es_queue := [newJob opPause sample_net]\<rparr>"
  let ?mid = "?init\<lparr>es_pending := [jobKey_of ?job]\<rparr>" and ?st = "?init\<lparr>es_pending := [jobKey_of ?job], es_queue := [?job, ?job]\<rparr>"
  have start: "engine_run sample_engine ?init (Waiting, [], ?init)" using engine_run.start[of sample_engine ?init] by simp
  have "engine_step sample_engine (Waiting, [], ?init) (Waiting, [?job], ?mid)"
    by (rule engine_step.Mark) (simp_all add: markPending_def dedupable_def)
  from engine_run.step[OF start this] have mid: "engine_run sample_engine ?init (Waiting, [] @ ?job # [], ?mid)" by simp
  have "engine_step sample_engine (Waiting, [] @ ?job # [], ?mid) (Waiting, [] @ [], ?st)"
    by (rule engine_step.Push) (simp add: pushJob_def listQueue_def)
  from engine_run.step[OF mid this] have run: "engine_run sample_engine ?init (Waiting, [], ?st)" by simp
  have "es_pending ?init = []" by simp
  note inv = engine_queue_invariant[OF se.fifo_axioms this run]
  have "set (es_pending ?st) \<subseteq> set (dedupKeys (es_queue ?st))" "\<forall>k. count_list (dedupKeys (es_queue ?st)) k \<le> count_list (dedupKeys [?job]) k + 1"
    using inv[THEN conjunct2, THEN conjunct1] inv[THEN conjunct1] by (simp_all add: leaving_def)
  with run show ?thesis by (intro exI[of _ emptyMem] exI[of _ ?job] exI[of _ ?st]) simp
qed

text \<open>C4: every job leaves the queue. An iteration of the loop ends whatever the storage, the
  chain and the managers answer, and removes exactly the job it ran, so that after as many
  iterations as there are jobs the queue is empty; the jobs run in the order in which they
  were queued.\<close>

theorem every_job_leaves_queue:
  assumes "fifo (en_queue E) items"
  shows "items (es_queue (runLoop E n st)) = drop n (items (es_queue st)) \<and>
    (dque_Peek (en_queue E) (es_queue (runLoop E n st)) =
       (if n < length (items (es_queue st)) then Some (items (es_queue st) ! n) else None)) \<and>
    (loopStep E st = None \<longleftrightarrow> items (es_queue st) = [])"
proof -
  note q = engine_queueI[OF assms]
  have "loopStep E st = None \<longleftrightarrow> items (es_queue st) = []"
    using engine_queue.loopStep_queue[OF q, of st] fifo.peek_None[OF assms, of "es_queue st"]
    by (cases "items (es_queue st)") (auto simp: loopStep_def)
  moreover have "dque_Peek (en_queue E) (es_queue (runLoop E n st)) =
      (case drop n (items (es_queue st)) of [] \<Rightarrow> None | j # _ \<Rightarrow> Some j)"
    unfolding fifo.peek[OF assms] engine_queue.runLoop_queue[OF q] ..
  ultimately show ?thesis
    using engine_queue.runLoop_queue[OF q] by (auto simp: Cons_nth_drop_Suc[symmetric])
qed

theorem every_job_leaves_queue_witness:
  "es_queue (runLoop sample_engine 2 ((sample_state0 emptyMem)\<lparr>es_queue := [newJob opPause sample_net, newJob opStart sample_net]\<rparr>)) = []"
  using every_job_leaves_queue[OF se.fifo_axioms, of 2
      "(sample_state0 emptyMem)\<lparr>es_queue := [newJob opPause sample_net, newJob opStart sample_net]\<rparr>"]
  by simp


lemma load_effect:
  assumes "engine_queue E items" and "st_Get (en_storage E) t c (es_storage st) = Ok dl"
    and "loadAndEnqueue E op t c m st = (st', Ok ())"
    and "dedupable op" and "jobKey_of (newJob op dl) \<notin> set (es_pending st)"
  shows "items (es_queue st') = items (es_queue st) @ [(newJob op dl)\<lparr>job_Message := m\<rparr>]"
    "set (es_pending st') = insert (jobKey_of (newJob op dl)) (set (es_pending st))" "es_storage st' = es_storage st"
proof -
  have e: "enqueue E ((newJob op dl)\<lparr>job_Message := m\<rparr>) st = (st', Ok ())"
    using assms(2,3) by (simp add: loadAndEnqueue_def)
  note eff = engine_queue.enqueue_effect[OF assms(1) e]
  have op: "job_Op ((newJob op dl)\<lparr>job_Message := m\<rparr>) = op" by (simp add: newJob_def)
  show "items (es_queue st') = items (es_queue st) @ [(newJob op dl)\<lparr>job_Message := m\<rparr>]"
    "set (es_pending st') = insert (jobKey_of (newJob op dl)) (set (es_pending st))" "es_storage st' = es_storage st"
    using eff(1) eff(5,6)[OF refl] assms(4,5) unfolding op jobKey_of_updates by simp_all
qed

text \<open>The last of three requests may be lost. When a pause, a resume and a pause of a
  deployment are requested before the loop has run the first, all three are accepted, but
  only the first two are queued: the deployment ends resumed.\<close>

lemma last_pause_dropped:
  assumes "fifo (en_queue E) items" and "st_Get (en_storage E) t c (es_storage st) = Ok dl"
    and "jobKey_of (newJob opPause dl) \<notin> set (es_pending st)" and "jobKey_of (newJob opResume dl) \<notin> set (es_pending st)"
    and "Engine_Pause E t c st = (st1, Ok ())" and "Engine_Resume E t c st1 = (st2, Ok ())"
    and "Engine_Pause E t c st2 = (st3, r)"
  shows "r = Ok () \<and> st3 = st2 \<and>
    map (\<lambda>job. (job_Op job, job_Target job)) (items (es_queue st3)) =
      map (\<lambda>job. (job_Op job, job_Target job)) (items (es_queue st)) @ [(opPause, dl), (opResume, dl)]"
proof -
  note q = engine_queueI[OF assms(1)]
  have "jobKey_of (newJob opPause dl) \<noteq> jobKey_of (newJob opResume dl)" by (simp add: jobKey_of_def)
  note one = load_effect[OF q assms(2,5)[unfolded Engine_Pause_def] _ assms(3)]
  then have one: "items (es_queue st1) = items (es_queue st) @ [(newJob opPause dl)\<lparr>job_Message := []\<rparr>]"
    "set (es_pending st1) = insert (jobKey_of (newJob opPause dl)) (set (es_pending st))" "es_storage st1 = es_storage st"
    by (simp_all add: dedupable_def)
  have "jobKey_of (newJob opResume dl) \<notin> set (es_pending st1)" using one(2) assms(4) by (auto simp: jobKey_of_def)
  from load_effect[OF q _ assms(6)[unfolded Engine_Resume_def] _ this] assms(2) one
  have two: "items (es_queue st2) = items (es_queue st1) @ [(newJob opResume dl)\<lparr>job_Message := []\<rparr>]"
    "jobKey_of (newJob opPause dl) \<in> set (es_pending st2)" "es_storage st2 = es_storage st"
    by (simp_all add: dedupable_def)
  with assms(2,7) have "r = Ok () \<and> st3 = st2"
    by (auto simp: Engine_Pause_def loadAndEnqueue_def enqueue_eq newJob_def jobKey_of_def dedupable_def)
  with two(1) one(1) show ?thesis by (simp add: newJob_def)
qed

lemma last_pause_dropped_witness:
  "\<exists>s st1 st2. Engine_Pause sample_engine 7 9 (sample_state0 s) = (st1, Ok ()) \<and>
     Engine_Resume sample_engine 7 9 st1 = (st2, Ok ()) \<and> Engine_Pause sample_engine 7 9 st2 = (st2, Ok ()) \<and>
     map job_Op (es_queue st2) = [opPause, opResume]"
proof -
  from sample_stored obtain s dl where s: "Storage_Get sample_storage (\<lambda>ws. ws) 7 9 s = Ok dl" by blast
  let ?init = "sample_state0 s"
  let ?p = "newJob opPause dl\<lparr>job_Message := []\<rparr>" and ?r = "newJob opResume dl\<lparr>job_Message := []\<rparr>"
  let ?a = "?init\<lparr>es_pending := [jobKey_of ?p], es_queue := [?p]\<rparr>"
  let ?b = "?a\<lparr>es_pending := [jobKey_of ?r, jobKey_of ?p], es_queue := [?p, ?r]\<rparr>"
  have a: "Engine_Pause sample_engine 7 9 ?init = (?a, Ok ())"
    using s by (simp add: Engine_Pause_def loadAndEnqueue_def enqueue_eq dedupable_def Let_def)
  have b: "Engine_Resume sample_engine 7 9 ?a = (?b, Ok ())"
    using s by (simp add: Engine_Resume_def loadAndEnqueue_def enqueue_eq dedupable_def Let_def jobKey_of_def)
  obtain st3 r where c: "Engine_Pause sample_engine 7 9 ?b = (st3, r)" by (meson surj_pair)
  from last_pause_dropped[OF se.fifo_axioms _ _ _ a b c, of dl] s a b c show ?thesis
    by (intro exI[of _ s] exI[of _ ?a] exI[of _ ?b]) simp
qed

lemma forEach_stays:
  assumes "\<And>x. x \<in> set xs \<Longrightarrow> fst (f x st) = st"
  shows "forEach f xs st = st"
  using assms by (induction xs) (simp_all add: forEach_def)

lemma resume_refused:
  assumes "pr_Resume (en_provisioner E) = mapProvisioner_Resume now managers"
    and "State (wl_Result (wi_Workload wl)) \<noteq> StatePaused"
  shows "fst (lockWorkload E ctx wl False st) = st"
  using assms by (auto simp: lockWorkload_def mapProvisioner_Resume_def Let_def split: sum.split prod.split)

lemma unlock_stays:
  assumes "pr_Resume (en_provisioner E) = mapProvisioner_Resume now managers"
    and "\<And>w. w \<in> set (dl_Workloads dl) \<Longrightarrow> State (wl_Result w) \<noteq> StatePaused"
  shows "unlockDeployment E ctx dl st = st"
  unfolding unlockDeployment_def
  by (rule forEach_stays) (use assms ByType_identified in \<open>fastforce intro: resume_refused\<close>)

text \<open>A resume that is queued behind a pause does nothing. A resume is queued with the
  deployment as it was when it was requested; when that was before the pause had run, its
  workloads are not paused in it, the provisioner refuses to resume them, and running the
  job changes nothing, whatever the state is by then: the deployment stays paused.\<close>

lemma queued_resume_refused:
  assumes "fifo (en_queue E) items" and "st_Get (en_storage E) t c (es_storage st) = Ok dl"
    and "\<And>w. w \<in> set (dl_Workloads dl) \<Longrightarrow> State (wl_Result w) \<noteq> StatePaused"
    and "pr_Resume (en_provisioner E) = mapProvisioner_Resume now managers"
    and "jobKey_of (newJob opPause dl) \<notin> set (es_pending st)" and "jobKey_of (newJob opResume dl) \<notin> set (es_pending st)"
    and "Engine_Pause E t c st = (st1, Ok ())" and "Engine_Resume E t c st1 = (st2, Ok ())"
  shows "\<exists>pause resume. items (es_queue st2) = items (es_queue st) @ [pause, resume] \<and>
    job_Op pause = opPause \<and> job_Op resume = opResume \<and> (\<forall>st'. runJob E resume st' = (st', True))"
proof -
  note q = engine_queueI[OF assms(1)]
  have one: "items (es_queue st1) = items (es_queue st) @ [(newJob opPause dl)\<lparr>job_Message := []\<rparr>]"
    "set (es_pending st1) = insert (jobKey_of (newJob opPause dl)) (set (es_pending st))" "es_storage st1 = es_storage st"
    using load_effect[OF q assms(2,7)[unfolded Engine_Pause_def] _ assms(5)] by (simp_all add: dedupable_def)
  have "jobKey_of (newJob opResume dl) \<notin> set (es_pending st1)" using one(2) assms(6) by (auto simp: jobKey_of_def)
  from load_effect[OF q _ assms(8)[unfolded Engine_Resume_def] _ this] assms(2) one
  have two: "items (es_queue st2) = items (es_queue st1) @ [(newJob opResume dl)\<lparr>job_Message := []\<rparr>]"
    by (simp add: dedupable_def)
  have "runJob E ((newJob opResume dl)\<lparr>job_Message := []\<rparr>) st' = (st', True)" for st'
    using unlock_stays[OF assms(4,3)]
    by (simp add: runJob_def Let_def newJob_def validated_def deadlineExceeded_def withTimeout_def jobTimeout_def)
  with one(1) two show ?thesis
    by (intro exI[of _ "(newJob opPause dl)\<lparr>job_Message := []\<rparr>"] exI[of _ "(newJob opResume dl)\<lparr>job_Message := []\<rparr>"])
      (simp add: newJob_def)
qed

lemma queued_resume_refused_witness:
  "\<exists>s st1 st2 pause resume. Engine_Pause sample_engine 7 9 (sample_state0 s) = (st1, Ok ()) \<and>
     Engine_Resume sample_engine 7 9 st1 = (st2, Ok ()) \<and> es_queue st2 = [pause, resume] \<and>
     job_Op resume = opResume \<and> (\<forall>st'. runJob sample_engine resume st' = (st', True))"
proof -
  from sample_stored obtain s dl where s: "Storage_Get sample_storage (\<lambda>ws. ws) 7 9 s = Ok dl"
    and init: "\<forall>w \<in> set (dl_Workloads dl). State (wl_Result w) = StateInit" by blast
  let ?init = "sample_state0 s"
  let ?p = "newJob opPause dl\<lparr>job_Message := []\<rparr>" and ?r = "newJob opResume dl\<lparr>job_Message := []\<rparr>"
  let ?a = "?init\<lparr>es_pending := [jobKey_of ?p], es_queue := [?p]\<rparr>"
  let ?b = "?a\<lparr>es_pending := [jobKey_of ?r, jobKey_of ?p], es_queue := [?p, ?r]\<rparr>"
  have a: "Engine_Pause sample_engine 7 9 ?init = (?a, Ok ())"
    using s by (simp add: Engine_Pause_def loadAndEnqueue_def enqueue_eq dedupable_def Let_def)
  have b: "Engine_Resume sample_engine 7 9 ?a = (?b, Ok ())"
    using s by (simp add: Engine_Resume_def loadAndEnqueue_def enqueue_eq dedupable_def Let_def jobKey_of_def)
  have prov: "pr_Resume (en_provisioner sample_engine) =
      mapProvisioner_Resume (\<lambda>w. w) (map_of [(ZMountType, sample_manager), (NetworkType, sample_manager)])"
    by (simp add: sample_engine_def NewMapProvisioner_def)
  have notp: "State (wl_Result w) \<noteq> StatePaused" if "w \<in> set (dl_Workloads dl)" for w
    using init that by (simp add: state_defs)
  from queued_resume_refused[OF se.fifo_axioms _ notp prov _ _ a b] s a b show ?thesis
    by (intro exI[of _ s] exI[of _ ?a] exI[of _ ?b]) auto
qed

end
