(* ===== verification/EngineJobs.thy ===== *)
theory EngineJobs
  imports EngineQueue
begin

text \<open>
  What the jobs of the engine do to a deployment: in which order the operations of an update and
  the types of a deployment are taken, which checks stand before a job, who may request one,
  and that preparing and starting a deployment is installing it.
\<close>

section \<open>Order of operations\<close>

lemma opMap_cases:
  "op_Op op = OpRemove \<Longrightarrow> opMap idx op = - int (idx (wl_Type (wi_Workload (op_WlID op))))"
  "op_Op op \<noteq> OpRemove \<Longrightarrow> opMap idx op = int (idx (wl_Type (wi_Workload (op_WlID op))))"
  by (simp_all add: opMap_def)

lemma placeTypes_effect:
  "placeTypes ts allt ordered = Ok (left, placed) \<Longrightarrow>
     placed = ordered @ ts \<and> distinct ts \<and> set ts \<subseteq> set allt \<and> left = filter (\<lambda>t. t \<notin> set ts) allt"
proof (induction ts arbitrary: allt ordered)
  case (Cons t ts)
  then have t: "t \<in> set allt" and rest: "placeTypes ts (removeAll t allt) (ordered @ [t]) = Ok (left, placed)"
    by (auto split: if_splits)
  from Cons.IH[OF rest] t show ?case
    by (auto simp: removeAll_filter_not_eq intro: filter_cong)
qed simp

lemma indexOf_notin: "t \<notin> set ts \<Longrightarrow> indexOf ts n idx t = idx t"
  by (induction ts arbitrary: n idx) auto

lemma indexOf_nth: "distinct ts \<Longrightarrow> i < length ts \<Longrightarrow> indexOf ts n idx (ts ! i) = n + i"
proof (induction ts arbitrary: n idx i)
  case (Cons t ts)
  then show ?case by (cases i) (simp_all add: indexOf_notin)
qed simp

lemma startup_effect:
  assumes "withStartupOrder ord ts E = Ok E'" and "\<And>xs. mset (ord xs) = mset xs"
  shows "\<exists>rest. en_order E' = ts @ rest \<and> distinct (en_order E') \<and> set (en_order E') = set (en_order E) \<and>
    en_typeIndex E' = indexOf (en_order E') 1 (en_typeIndex E)"
proof -
  from assms(1) obtain left placed where p: "placeTypes ts (remdups (en_order E)) [] = Ok (left, placed)"
    and E': "E' = E\<lparr>en_order := placed @ ord left, en_typeIndex := indexOf (placed @ ord left) 1 (en_typeIndex E)\<rparr>"
    by (auto simp: withStartupOrder_def rbind_Ok_iff Let_def)
  from placeTypes_effect[OF p] have pl: "placed = ts" "distinct ts" "set ts \<subseteq> set (en_order E)"
    "left = filter (\<lambda>t. t \<notin> set ts) (remdups (en_order E))" by auto
  have "set (ord left) = set left" using assms(2)[of left] by (metis set_mset_mset)
  moreover have "distinct (ord left)"
    using assms(2)[of left] pl(4) by (metis distinct_filter distinct_remdups mset_eq_imp_distinct_iff)
  ultimately show ?thesis using pl E' by auto
qed

lemma concat_map_filter: "concat (map (\<lambda>t. if P t then [] else f t) ts) = concat (map f (filter (\<lambda>t. \<not> P t) ts))"
  by (induction ts) auto

lemma forEach_append: "forEach f (xs @ ys) st = forEach f ys (forEach f xs st)"
  by (simp add: forEach_def)

lemma validate_Ok:
  assumes "validate E ctx dl False w = Ok ctx'"
  shows "\<exists>gw nc hash. en_substrateGateway E = Some gw \<and> gw_GetContract gw (dl_ContractID dl) w = Ok (Some nc) \<and>
    nc_Node nc = en_nodeID E \<and> ChallengeHash (en_lib E) (en_registry E) dl = Ok hash \<and>
    nc_DeploymentHash nc = hex_encode hash \<and> ctx_contract ctx' = Some nc"
proof -
  from assms obtain gw where gw: "en_substrateGateway E = Some gw"
    by (cases "en_substrateGateway E") (simp_all add: validate_def)
  with assms obtain nc where nc: "gw_GetContract gw (dl_ContractID dl) w = Ok (Some nc)"
    by (cases "gw_GetContract gw (dl_ContractID dl) w") (auto simp: validate_def split: option.splits)
  obtain rented hash where "ChallengeHash (en_lib E) (en_registry E) dl = Ok hash"
    "nc_Node nc = en_nodeID E" "nc_DeploymentHash nc = hex_encode hash" "ctx' = withRented (withContract ctx nc) rented"
    using assms gw nc
    by (cases "gw_GetNodeRentContract gw (en_nodeID E) w")
       (auto simp: validate_def Let_def rbind_Ok_iff split: if_splits bool.splits)
  with gw nc show ?thesis by (auto simp: withRented_def withContract_def)
qed

lemma checkRequest_Ok:
  "checkRequest E twin dl w = Ok u \<longleftrightarrow>
     Deployment_Valid (en_lib E) (en_registry E) dl = Ok () \<and> dl_TwinID dl = twin \<and> en_isTwinVerified E twin w = Ok True"
  by (auto simp: checkRequest_def rbind_Ok_iff)


lemma unverified_refused:
  assumes "Deployment_Verify (en_lib E) (en_registry E) (\<lambda>t. en_twins E t (es_world st)) dl \<noteq> Ok ()"
  shows "\<exists>e. CreateOrUpdate E twin dl update st = (st, Err e)"
  using assms
  by (cases "rbind (checkRequest E twin dl (es_world st)) (\<lambda>_.
      Deployment_Verify (en_lib E) (en_registry E) (\<lambda>t. en_twins E t (es_world st)) dl)")
     (auto simp: CreateOrUpdate_def rbind_Ok_iff)

section \<open>Claims\<close>

subsection \<open>Order\<close>

text \<open>The operations of an update are carried out removals first. With a startup order every
  type has a positive index; then sorting the operations keeps all of them, puts every
  removal before every addition and update, takes removals against and the others along the
  startup order, and leaves operations on the same type and of the same sort as they were.\<close>

lemma operations_sorted:
  assumes "\<And>op. op \<in> set ops \<Longrightarrow> idx (wl_Type (wi_Workload (op_WlID op))) > 0"
    and "sortOperations idx ops = xs @ a # ys @ b # zs"
  shows "mset (sortOperations idx ops) = mset ops \<and>
    (op_Op b = OpRemove \<longrightarrow> op_Op a = OpRemove \<and>
       idx (wl_Type (wi_Workload (op_WlID b))) \<le> idx (wl_Type (wi_Workload (op_WlID a)))) \<and>
    (op_Op a \<noteq> OpRemove \<longrightarrow> op_Op b \<noteq> OpRemove \<and>
       idx (wl_Type (wi_Workload (op_WlID a))) \<le> idx (wl_Type (wi_Workload (op_WlID b)))) \<and>
    (\<forall>k. filter (\<lambda>op. opMap idx op = k) (sortOperations idx ops) = filter (\<lambda>op. opMap idx op = k) ops)"
proof -
  have perm: "mset (sortOperations idx ops) = mset ops" by (simp add: sortOperations_def)
  have "sorted (map (opMap idx) (sortOperations idx ops))" by (simp add: sortOperations_def)
  then have le: "opMap idx a \<le> opMap idx b" unfolding assms(2) by (simp add: sorted_append)
  have "set (sortOperations idx ops) = set ops" using perm by (metis set_mset_mset)
  then have "a \<in> set ops" "b \<in> set ops" unfolding assms(2) by auto
  then have "idx (wl_Type (wi_Workload (op_WlID a))) > 0" "idx (wl_Type (wi_Workload (op_WlID b))) > 0"
    using assms(1) by blast+
  with le have "(op_Op b = OpRemove \<longrightarrow> op_Op a = OpRemove \<and>
       idx (wl_Type (wi_Workload (op_WlID b))) \<le> idx (wl_Type (wi_Workload (op_WlID a)))) \<and>
    (op_Op a \<noteq> OpRemove \<longrightarrow> op_Op b \<noteq> OpRemove \<and>
       idx (wl_Type (wi_Workload (op_WlID a))) \<le> idx (wl_Type (wi_Workload (op_WlID b))))"
    by (auto simp: opMap_def Let_def split: if_splits)
  moreover have "filter (\<lambda>op. opMap idx op = k) (sortOperations idx ops) = filter (\<lambda>op. opMap idx op = k) ops" for k
    unfolding sortOperations_def by (rule sort_key_stable)
  ultimately show ?thesis using perm by blast
qed

definition sample_ops :: "UpgradeOp list" where
  "sample_ops = [\<lparr>op_WlID = \<lparr>wi_Workload = sample_wl ZMountType ''a'', wi_ID = []\<rparr>, op_Op = OpAdd\<rparr>,
     \<lparr>op_WlID = \<lparr>wi_Workload = sample_wl NetworkType ''b'', wi_ID = []\<rparr>, op_Op = OpRemove\<rparr>]"

lemma operations_sorted_witness:
  "\<exists>a b. sortOperations (en_typeIndex sample_engine) sample_ops = [a, b] \<and> op_Op a = OpRemove \<and> op_Op b \<noteq> OpRemove"
proof -
  let ?idx = "en_typeIndex sample_engine" and ?xs = "sortOperations (en_typeIndex sample_engine) sample_ops"
  have pos: "op \<in> set sample_ops \<Longrightarrow> ?idx (wl_Type (wi_Workload (op_WlID op))) > 0" for op
    by (auto simp: sample_ops_def sample_engine_def sample_wl_def type_defs)
  have "length ?xs = 2" by (simp add: sortOperations_def sample_ops_def)
  then obtain a b where xs: "?xs = [a, b]" by (cases ?xs; cases "tl ?xs") auto
  from operations_sorted[of sample_ops ?idx "[]" a "[]" b "[]"] pos xs
  have perm: "mset [a, b] = mset sample_ops" and order: "op_Op b = OpRemove \<longrightarrow> op_Op a = OpRemove"
    "op_Op a \<noteq> OpRemove \<longrightarrow> op_Op b \<noteq> OpRemove" by auto
  have "image_mset op_Op (mset [a, b]) = {# OpAdd, OpRemove #}" unfolding perm by (simp add: sample_ops_def)
  then have "{# op_Op a, op_Op b #} = {# OpAdd, OpRemove #}" by simp
  with order have "op_Op a = OpRemove" "op_Op b \<noteq> OpRemove" by (auto simp: add_eq_conv_ex)
  with xs show ?thesis by blast
qed

text \<open>A startup order is a reordering of the registered types. The types of the option come
  first and in its order, every other registered type follows, each type occurs once, and the
  index of a type is its place, from 1 (so that the negated index of a removal sorts it before
  everything else); a type that is not registered, or is named twice, makes the option
  panic.\<close>

lemma startup_order_exact:
  assumes "\<And>xs. mset (ord xs) = mset xs"
  shows "(is_ok (withStartupOrder ord ts E) \<longleftrightarrow> distinct ts \<and> set ts \<subseteq> set (en_order E)) \<and>
    (\<forall>E'. withStartupOrder ord ts E = Ok E' \<longrightarrow>
       (\<exists>rest. en_order E' = ts @ rest \<and> distinct (en_order E') \<and> set (en_order E') = set (en_order E)) \<and>
       (\<forall>i < length (en_order E'). en_typeIndex E' (en_order E' ! i) = Suc i))"
proof -
  have ok: "is_ok (placeTypes ts allt pl) \<longleftrightarrow> distinct ts \<and> set ts \<subseteq> set allt" for allt pl
    by (induction ts arbitrary: allt pl) auto
  have "is_ok (withStartupOrder ord ts E) \<longleftrightarrow> is_ok (placeTypes ts (remdups (en_order E)) [])"
    by (cases "placeTypes ts (remdups (en_order E)) []") (auto simp: withStartupOrder_def Let_def)
  moreover have "en_typeIndex E' (en_order E' ! i) = Suc i"
    if "withStartupOrder ord ts E = Ok E'" "i < length (en_order E')" for E' i
    using startup_effect[OF that(1) assms] that(2) indexOf_nth[of "en_order E'" i 1 "en_typeIndex E"] by auto
  moreover have "\<exists>rest. en_order E' = ts @ rest \<and> distinct (en_order E') \<and> set (en_order E') = set (en_order E)"
    if "withStartupOrder ord ts E = Ok E'" for E'
    using startup_effect[OF that assms] by blast
  ultimately show ?thesis unfolding ok by simp
qed

lemma startup_order_exact_witness:
  "\<exists>E'. withStartupOrder (\<lambda>xs. xs) [ZMountType] sample_engine = Ok E' \<and> en_order E' = [ZMountType, NetworkType] \<and>
     en_typeIndex E' NetworkType = 2"
proof -
  have "is_ok (withStartupOrder (\<lambda>xs. xs) [ZMountType] sample_engine)"
    using startup_order_exact[of "\<lambda>xs. xs" "[ZMountType]" sample_engine] by simp
  then obtain E' where E': "withStartupOrder (\<lambda>xs. xs) [ZMountType] sample_engine = Ok E'" by (auto simp: is_ok_iff)
  then have "en_order E' = [ZMountType, NetworkType]"
    by (auto simp: withStartupOrder_def type_defs)
  moreover have "\<forall>i < length (en_order E'). en_typeIndex E' (en_order E' ! i) = Suc i"
    using startup_order_exact[of "\<lambda>xs. xs" "[ZMountType]" sample_engine] E' by blast
  ultimately show ?thesis using E' by (auto dest!: spec[of _ 1])
qed

text \<open>Preparing and then starting a deployment is installing it. When the startup order has
  the machines last, \<open>prepareDeployment\<close> followed by \<open>startDeployment\<close> does what
  \<open>installDeployment\<close> does, workload by workload and in the same order.\<close>

lemma prepare_then_start:
  assumes "en_order E = others @ machines" and "\<And>t. t \<in> set others \<Longrightarrow> \<not> machineType t"
    and "\<And>t. t \<in> set machines \<Longrightarrow> machineType t"
  shows "startDeployment E ctx dl (prepareDeployment E ctx dl st) = installDeployment E ctx dl st"
proof -
  have "filter (\<lambda>t. \<not> machineType t) (en_order E) = others" "filter machineType (en_order E) = machines"
    using assms by (auto simp: filter_id_conv filter_empty_conv)
  moreover have "map (installOrder E dl) machines = map (\<lambda>t. Deployment_ByType dl [t]) machines"
    using assms(3) by (auto simp: installOrder_def machineType_def type_defs)
  ultimately show ?thesis
    unfolding prepareDeployment_def startDeployment_def installDeployment_def concat_map_filter
    by (simp add: assms(1) forEach_append del: map_eq_conv)
qed

lemma prepare_then_start_witness:
  "startDeployment sample_engine background sample_net (prepareDeployment sample_engine background sample_net (sample_state0 emptyMem))
     = installDeployment sample_engine background sample_net (sample_state0 emptyMem)"
  by (rule prepare_then_start[of _ "[NetworkType, ZMountType]" "[]"]) (auto simp: machineType_def type_defs)


subsection \<open>Checks\<close>

text \<open>C25: nothing is installed without its contract. A job that provisions, prepares or updates a
  deployment and gets past the validation has a contract on the chain that names this node and
  carries the hash of exactly this deployment; a job that does not get past it calls no
  manager, asks for no callback and only records the error.\<close>

theorem job_needs_contract:
  assumes "job_Op job = opProvision \<or> job_Op job = opPrepare \<or> job_Op job = opUpdate"
    and "runJob E job st = (st', callback)"
  shows "(callback \<longrightarrow> (\<exists>gw nc hash. en_substrateGateway E = Some gw \<and>
      gw_GetContract gw (dl_ContractID (job_Target job)) (es_world st) = Ok (Some nc) \<and>
      nc_Node nc = en_nodeID E \<and> ChallengeHash (en_lib E) (en_registry E) (job_Target job) = Ok hash \<and>
      nc_DeploymentHash nc = hex_encode hash)) \<and>
    (\<not> callback \<longrightarrow> es_world st' = es_world st \<and> (\<exists>e. st' = setGlobalError E job e st))"
proof -
  define ctx where "ctx = withTimeout (withDeployment background (dl_TwinID (job_Target job)) (dl_ContractID (job_Target job)))
      (en_now E (es_world st) + jobTimeout)"
  have v: "validated (job_Op job)" "(job_Op job = opProvisionNoValidation) = False"
    using assms(1) by (auto simp: validated_def)
  have world: "es_world (setGlobalError E job e st) = es_world st" for e
    by (simp add: setGlobalError_def commit_def split: sum.split)
  show ?thesis
  proof (cases "validate E ctx (job_Target job) False (es_world st)")
    case (Inl e)
    with assms(2) v have "st' = setGlobalError E job e st" "\<not> callback"
      by (simp_all add: runJob_def ctx_def)
    with world show ?thesis by blast
  next
    case (Inr ctx')
    with assms(2) v have "callback" by (simp add: runJob_def ctx_def Let_def)
    with validate_Ok[OF Inr] show ?thesis by blast
  qed
qed

theorem job_needs_contract_witness:
  "\<exists>st'. runJob sample_engine (newJob opProvision sample_net) (sample_state0 emptyMem) = (st', False) \<and> es_world st' = 10"
proof -
  obtain st' callback where run: "runJob sample_engine (newJob opProvision sample_net) (sample_state0 emptyMem) = (st', callback)"
    by (meson surj_pair)
  have "en_substrateGateway sample_engine = None" by (simp add: sample_engine_def)
  with job_needs_contract[OF _ run] have "\<not> callback" "es_world st' = 10" by auto
  with run show ?thesis by simp
qed

text \<open>A signed deployment, an engine that knows the key of its twin, and a storage that accepts it.\<close>

definition signed_storage :: "Mem BoltStorage" where
  "signed_storage = sample_storage\<lparr>bs_json := sample_json
     \<lparr>marshalSignatureRequirement := (\<lambda>r. if r = dl_SignatureRequirement sample_signed then Ok ''s'' else Err (Errorf ''unsupported'')),
      unmarshalSignatureRequirement := (\<lambda>v. Ok (dl_SignatureRequirement sample_signed))\<rparr>\<rparr>"

definition signed_engine :: "(Mem, int, engineJob list) NativeEngine" where
  "signed_engine = sample_engine\<lparr>en_lib := strict_lib, en_twins := (\<lambda>t w. Ok sample_key),
     en_storage := boltStorage strict_lib (\<lambda>ws. ws) signed_storage\<rparr>"

lemma signed_created: "\<exists>s. Storage_Create signed_storage (\<lambda>_. 10) sample_signed emptyMem = Ok s"
proof -
  have b: "bs_db signed_storage = mem" by (simp add: signed_storage_def sample_storage_fields)
  have w: "dl_Workloads sample_signed = []" by (simp add: sample_signed_fields)
  have inv: "storageInv sample_storage (memDb emptyMem)"
    using mem.run_inv[OF sample_storage_fields(1) _ sample_empty storage_run.start] sample_json_keeps
    by (simp add: sample_storage_fields)
  have e: "abs_storage (memDb emptyMem) = emptySpec" by (simp add: sample_empty abs_storage_def emptyDb_def emptySpec_def)
  have sig: "marshalSignatureRequirement (bs_json signed_storage) (dl_SignatureRequirement sample_signed) = Ok ''s''"
    by (simp add: signed_storage_def)
  have "\<exists>a. specCreate (bs_unsafe signed_storage) (bs_registry signed_storage) (bs_json signed_storage) (\<lambda>_. 10)
      sample_signed emptySpec = Some a"
    by (simp add: specCreate_def sig w emptySpec_def)
  then have "\<exists>d. Storage_Create (onMap signed_storage) (\<lambda>_. 10) sample_signed (memDb emptyMem) = Ok d"
    using Create_implements[of "memDb emptyMem" sample_signed signed_storage "\<lambda>_. 10"] inv w e
    by (auto simp: storageInv_def implements_def split: sum.splits)
  with mem.Create_map[OF b, of "\<lambda>_. 10" sample_signed emptyMem] show ?thesis
    by (cases "Storage_Create signed_storage (\<lambda>_. 10) sample_signed emptyMem") auto
qed

lemma signed_accepted:
  "\<exists>st'. CreateOrUpdate signed_engine 7 sample_signed False (sample_state0 emptyMem) = (st', Ok ()) \<and>
     es_queue st' = [newJob opProvision sample_signed]"
proof -
  have v: "Deployment_Valid strict_lib sample_registry sample_signed = Ok ()"
    by (simp add: Deployment_Valid_iff sample_signed_fields)
  from signed_created obtain s where s: "Storage_Create signed_storage (\<lambda>_. 10) sample_signed emptyMem = Ok s" by blast
  have f: "dl_TwinID sample_signed = 7" "dl_Version sample_signed = 0" by (simp_all add: sample_signed_fields)
  show ?thesis
    using v s f sample_verified
    by (simp add: CreateOrUpdate_def checkRequest_def Engine_Provision_def createAndEnqueue_def enqueue_eq
        signed_engine_def sample_engine_def newJob_def dedupable_def listQueue_def sample_state0_def commit_def Let_def)
qed

text \<open>C24: only authenticated requests change anything. If \<open>CreateOrUpdate\<close> changes the state or
  reports success, the deployment was valid, belongs to the caller, the caller's account is
  verified, and the deployment verifies against the keys of the twins; with \<open>Provision\<close> its
  version is 0.\<close>

theorem requests_authenticated:
  assumes "CreateOrUpdate E twin dl update st = (st', r)" and "st' \<noteq> st \<or> r = Ok ()"
  shows "Deployment_Valid (en_lib E) (en_registry E) dl = Ok () \<and> dl_TwinID dl = twin \<and>
    en_isTwinVerified E twin (es_world st) = Ok True \<and>
    Deployment_Verify (en_lib E) (en_registry E) (\<lambda>t. en_twins E t (es_world st)) dl = Ok () \<and>
    (\<not> update \<longrightarrow> dl_Version dl = 0)"
proof -
  let ?check = "rbind (checkRequest E twin dl (es_world st)) (\<lambda>_.
      Deployment_Verify (en_lib E) (en_registry E) (\<lambda>t. en_twins E t (es_world st)) dl)"
  from assms obtain u where u: "?check = Ok u" by (cases ?check) (auto simp: CreateOrUpdate_def)
  with assms have "\<not> update \<longrightarrow> dl_Version dl = 0"
    by (auto simp: CreateOrUpdate_def Engine_Provision_def createAndEnqueue_def split: if_splits)
  with u show ?thesis by (auto simp: rbind_Ok_iff checkRequest_Ok)
qed

theorem requests_authenticated_witness:
  "\<exists>st'. CreateOrUpdate signed_engine 7 sample_signed False (sample_state0 emptyMem) = (st', Ok ()) \<and>
     es_queue st' = [newJob opProvision sample_signed] \<and>
     Deployment_Verify strict_lib sample_registry (\<lambda>t. Ok sample_key) sample_signed = Ok ()"
proof -
  from signed_accepted obtain st' where r: "CreateOrUpdate signed_engine 7 sample_signed False (sample_state0 emptyMem) = (st', Ok ())"
    and q: "es_queue st' = [newJob opProvision sample_signed]" by blast
  from requests_authenticated[OF r] q r show ?thesis by (auto simp: signed_engine_def sample_engine_def)
qed

text \<open>Staging a deployment needs no signature. \<open>PrepareDeployment\<close> does not read the keys of
  the twins at all: with any other key getter it does the same; with a getter that knows no
  key \<open>CreateOrUpdate\<close> refuses everything, and \<open>PrepareDeployment\<close> still stages a new,
  valid deployment of a verified caller.\<close>

lemma prepare_needs_no_signature:
  shows "PrepareDeployment (E\<lparr>en_twins := k\<rparr>) twin dl st = PrepareDeployment E twin dl st \<and>
    ((\<forall>t. \<not> is_ok (k t (es_world st))) \<longrightarrow> (\<exists>e. CreateOrUpdate (E\<lparr>en_twins := k\<rparr>) twin dl update st = (st, Err e)))"
proof -
  have fields: "en_lib (E\<lparr>en_twins := k\<rparr>) = en_lib E" "en_registry (E\<lparr>en_twins := k\<rparr>) = en_registry E"
    "en_isTwinVerified (E\<lparr>en_twins := k\<rparr>) = en_isTwinVerified E" "en_storage (E\<lparr>en_twins := k\<rparr>) = en_storage E"
    "en_now (E\<lparr>en_twins := k\<rparr>) = en_now E" "en_queue (E\<lparr>en_twins := k\<rparr>) = en_queue E"
    "en_twins (E\<lparr>en_twins := k\<rparr>) = k" by simp_all
  have "PrepareDeployment (E\<lparr>en_twins := k\<rparr>) twin dl st = PrepareDeployment E twin dl st"
    unfolding PrepareDeployment_def checkRequest_def Engine_Prepare_def createAndEnqueue_def enqueue_eq fields ..
  moreover have "\<exists>e. CreateOrUpdate (E\<lparr>en_twins := k\<rparr>) twin dl update st = (st, Err e)"
    if keys: "\<forall>t. \<not> is_ok (k t (es_world st))"
  proof -
    have "Deployment_Verify L G (\<lambda>t. k t (es_world st)) dl \<noteq> Ok ()" for L G
    proof
      assume "Deployment_Verify L G (\<lambda>t. k t (es_world st)) dl = Ok ()"
      then obtain h found weight where v: "verifyRequests L (\<lambda>t. k t (es_world st)) dl
          (verifyMessage (dl_SignatureRequirement dl) h) (Requests (dl_SignatureRequirement dl)) False 0 = Ok (found, weight)" "found"
        by (auto simp: Deployment_Verify_def rbind_Ok_iff Let_def split: if_splits)
      then have "dl_TwinID dl \<in> srq_TwinID ` set (Requests (dl_SignatureRequirement dl))"
        and "\<forall>r \<in> set (Requests (dl_SignatureRequirement dl)). \<exists>pk. k (srq_TwinID r) (es_world st) = Ok pk"
        unfolding verifyRequests_iff by (auto simp: request_ok_def)
      then show False using keys by (auto simp: is_ok_iff)
    qed
    then show ?thesis
      using unverified_refused[where E = "E\<lparr>en_twins := k\<rparr>" and twin = twin and dl = dl and st = st and update = update] by (auto simp: fields)
  qed
  ultimately show ?thesis by blast
qed

lemma prepare_needs_no_signature_witness:
  "\<exists>e. CreateOrUpdate sample_engine 7 sample_net False (sample_state0 emptyMem) = (sample_state0 emptyMem, Err e)"
proof -
  let ?k = "\<lambda>t w. Err (Errorf ''null user key getter'')"
  have "sample_engine\<lparr>en_twins := ?k\<rparr> = sample_engine" by (simp add: sample_engine_def)
  with prepare_needs_no_signature[where E = sample_engine and k = ?k and twin = 7 and dl = sample_net
      and st = "sample_state0 emptyMem" and update = False] show ?thesis by simp
qed

end
