(* ===== verification/EngineStorage.thy ===== *)
theory EngineStorage
  imports EngineJobs
begin

text \<open>
  The engine on its storage: what the engine relies on of \<open>provision.Storage\<close>, as a locale that
  the storage on bbolt is shown to meet, and what the jobs leave behind in it.
\<close>

section \<open>What the engine relies on\<close>

text \<open>
  \<open>inv n\<close> is a storage to which \<open>n\<close> more records can be added (the sequence numbers of a log
  have 64 bits); \<open>storable\<close> are the records that can be marshalled.
\<close>

locale provision_storage =
  fixes S :: "'s Storage" and inv :: "nat \<Rightarrow> 's \<Rightarrow> bool" and storable :: "Workload \<Rightarrow> bool"
  assumes mono: "inv (Suc n) s \<Longrightarrow> inv n s"
    and current_name: "inv n s \<Longrightarrow> st_Current S t c m s = Ok w \<Longrightarrow> wl_Name w = m"
    and current_err: "inv n s \<Longrightarrow> st_Current S t c m s = Err e \<Longrightarrow>
      err_is e ErrWorkloadNotExist \<or> err_is e ErrDeploymentNotExists"
    and transaction: "inv (Suc n) s \<Longrightarrow> st_Transaction S t c w s = Ok s' \<Longrightarrow> inv n s' \<and>
      (State (wl_Result w) \<noteq> StateUnChanged \<longrightarrow> (\<exists>w'. st_Current S t c (wl_Name w) s' = Ok w' \<and> sameRecord w w')) \<and>
      (\<forall>t' c' m x. (t', c', m) \<noteq> (t, c, wl_Name w) \<longrightarrow>
         (st_Current S t' c' m s' = Ok x \<longleftrightarrow> st_Current S t' c' m s = Ok x))"
    and transaction_ok: "inv (Suc n) s \<Longrightarrow> st_Current S t c (wl_Name w) s = Ok w0 \<Longrightarrow> wl_Type w0 = wl_Type w \<Longrightarrow>
      Result_Valid (wl_Result w) = Ok () \<Longrightarrow> storable w \<Longrightarrow> \<exists>s'. st_Transaction S t c w s = Ok s'"
    and create: "inv (n + length (dl_Workloads dl)) s \<Longrightarrow> st_Create S now dl s = Ok s' \<Longrightarrow> inv n s' \<and>
      (\<forall>w \<in> set (dl_Workloads dl). \<exists>w'. st_Current S (dl_TwinID dl) (dl_ContractID dl) (wl_Name w) s' = Ok w' \<and>
         wl_Type w' = wl_Type w \<and> State (wl_Result w') = StateInit)"
    and remove: "inv n s \<Longrightarrow> \<exists>s'. st_Remove S t c m s = Ok s' \<and> inv n s' \<and>
      (\<forall>t' c' m' x. st_Current S t' c' m' s' = Ok x \<longrightarrow> st_Current S t' c' m' s = Ok x)"
    and delete: "inv n s \<Longrightarrow> \<exists>s' e. st_Delete S t c s = Ok s' \<and> inv n s' \<and> st_Get S t c s' = Err e \<and>
      err_is e ErrDeploymentNotExists"

section \<open>The storage on bbolt meets it\<close>

definition boltInv :: "('tx \<Rightarrow> Db) \<Rightarrow> 'tx BoltStorage \<Rightarrow> nat \<Rightarrow> 'tx \<Rightarrow> bool" where
  "boltInv \<alpha> b n s \<longleftrightarrow> storageInv b (\<alpha> s) \<and> n < 2 ^ 64 \<and> (\<forall>t c. specRoom t c n (abs_storage (\<alpha> s)))"

lemma specRoom_mono: "specRoom t c n a \<Longrightarrow> m \<le> n \<Longrightarrow> specRoom t c m a"
  by (auto simp: specRoom_def split: option.splits)

lemma logSize_room:
  assumes "layout d" and "specRoom t c n (abs_storage d)" and "n < 2 ^ 64"
  shows "logSize (onMap b) t c d + n < 2 ^ 64"
proof (cases "sp_dl (abs_storage d) t c")
  case None
  then have "db_buckets d (dlPath t c) = None" by (simp add: abs_simps split: if_splits)
  then have "db_buckets d (logPath t c) = None" using layout_parents(2)[OF assms(1), of t c] by blast
  then have "db_vals d (logPath t c) = (\<lambda>_. None)" using layout_no_values(4)[OF assms(1)] by blast
  then have "map cursorValue (dbCursor (logPath t c) d) = []"
    using cursor_values(1)[OF layout_no_bucket(2)[OF assms(1)], of t c] by (simp add: valuesOf_def)
  with assms(3) show ?thesis by (simp add: logSize_def)
next
  case (Some ds)
  with assms logSize_spec[OF assms(1) Some, of b] show ?thesis by (simp add: specRoom_def)
qed

lemma specAddAll_frame:
  "specAddAll u G J t c ws a = Some a' \<Longrightarrow> (t', c') \<noteq> (t, c) \<Longrightarrow> sp_dl a' t' c' = sp_dl a t' c'"
proof (induction u G J t c ws a rule: specAddAll.induct)
  case (2 u G J t c now w ws a)
  then obtain a1 where a1: "specAdd u G J now t c w a = Some a1" and rest: "specAddAll u G J t c ws a1 = Some a'"
    by (auto simp: bind_eq_Some_conv)
  have "sp_dl a1 t' c' = sp_dl a t' c'"
    using a1 2(3) share_keeps_dl
    by (auto simp: specAdd_def bind_eq_Some_conv split: option.splits if_splits dest!: specTransaction_log share_keeps_dl)
  with 2(1)[OF _ rest 2(3)] a1 show ?case by simp
qed simp

locale bolt_storage = bolt B \<alpha>
  for B :: "'tx Bolt" and \<alpha> :: "'tx \<Rightarrow> Db" +
  fixes b :: "'tx BoltStorage"
  assumes db: "bs_db b = B" and json: "jsonKeeps (bs_json b)"
begin

lemma inv_fields:
  assumes "boltInv \<alpha> b n s"
  shows "storageInv b (\<alpha> s)" "layout (\<alpha> s)" "consistent (bs_json b) (abs_storage (\<alpha> s))" "n < 2 ^ 64"
    "specRoom t c n (abs_storage (\<alpha> s))"
  using assms by (simp_all add: boltInv_def storageInv_def)

lemma transaction_spec:
  assumes "boltInv \<alpha> b (Suc n) s"
  shows "implements (rmap \<alpha> (Storage_Transaction b t c w s)) (specTransaction (bs_json b) t c w (abs_storage (\<alpha> s)))"
  using transaction_implements[OF inv_fields(2)[OF assms], of t c b w]
    specRoom_mono[OF inv_fields(5)[OF assms], of 1] transaction_map[OF db, of t c w s]
  by (simp add: Storage_Transaction_def)

lemma transaction_law:
  assumes "boltInv \<alpha> b (Suc n) s" and "Storage_Transaction b t c w s = Ok s'"
  shows "boltInv \<alpha> b n s'"
proof -
  from transaction_spec[OF assms(1), of t c w] assms(2)
  obtain ds data where ds: "sp_dl (abs_storage (\<alpha> s)) t c = Some ds"
    and s': "abs_storage (\<alpha> s') = setDl t c (Some (ds\<lparr>ds_log := ds_log ds @ [data]\<rparr>)) (abs_storage (\<alpha> s))"
    by (auto dest!: specTransaction_log)
  have "storage_transaction (onMap b) t c w (\<alpha> s) = Ok (\<alpha> s')"
    using transaction_map[OF db, of t c w s] assms(2) by (simp add: Storage_Transaction_def)
  from storageInv_transaction[OF json inv_fields(1)[OF assms(1)] _ this]
  have "storageInv b (\<alpha> s')" using specRoom_mono[OF inv_fields(5)[OF assms(1), of t c], of 1] by simp
  moreover have "specRoom t' c' n (abs_storage (\<alpha> s'))" for t' c'
    using inv_fields(5)[OF assms(1), of t' c'] ds unfolding s' by (auto simp: specRoom_def split: option.splits)
  ultimately show ?thesis using inv_fields(4)[OF assms(1)] by (simp add: boltInv_def)
qed

lemma transaction_room:
  assumes "boltInv \<alpha> b (Suc n) s"
  shows "logSize b t c s + 1 < 2 ^ 64"
proof -
  have "specRoom t c 1 (abs_storage (\<alpha> s))" by (rule specRoom_mono[OF inv_fields(5)[OF assms]]) simp
  from logSize_room[OF inv_fields(2)[OF assms] this, of b] show ?thesis by (simp add: logSize_def db cursor)
qed

lemma transaction_success:
  assumes "boltInv \<alpha> b (Suc n) s" and "Storage_Current b t c (wl_Name w) s = Ok w0" and "wl_Type w0 = wl_Type w"
    and "Result_Valid (wl_Result w) = Ok ()" and "is_ok (marshalWorkload (bs_json b) w)"
  shows "\<exists>s'. Storage_Transaction b t c w s = Ok s'"
proof -
  from assms(2) obtain ds ty where "sp_dl (abs_storage (\<alpha> s)) t c = Some ds" "ds_active ds (wl_Name w) = Some ty"
    "currentScan (bs_json b) (wl_Name w) ty (rev (ds_log ds)) = Ok w0"
    unfolding Current_map[OF db] Current_spec[OF inv_fields(2)[OF assms(1)]] by blast
  with assms(3-5) currentScan_Ok have "specTransaction (bs_json b) t c w (abs_storage (\<alpha> s)) \<noteq> None"
    by (fastforce simp: specTransaction_def is_ok_iff)
  with transaction_spec[OF assms(1), of t c w] show ?thesis
    by (cases "Storage_Transaction b t c w s") auto
qed

lemma step_inv: "boltInv \<alpha> b n s \<Longrightarrow> storage_step b s s' \<Longrightarrow> storageInv b (\<alpha> s')"
  using step_map_inv[OF json] step_map[OF db] by (auto simp: boltInv_def)

lemma create_law:
  assumes "boltInv \<alpha> b (n + length (dl_Workloads dl)) s" and "Storage_Create b now dl s = Ok s'"
  shows "boltInv \<alpha> b n s'"
    "w \<in> set (dl_Workloads dl) \<Longrightarrow> \<exists>w'. Storage_Current b (dl_TwinID dl) (dl_ContractID dl) (wl_Name w) s' = Ok w' \<and>
       wl_Type w' = wl_Type w \<and> State (wl_Result w') = StateInit"
proof -
  let ?t = "dl_TwinID dl" and ?c = "dl_ContractID dl"
  have len: "length (dl_Workloads dl) < 2 ^ 64" "n + length (dl_Workloads dl) < 2 ^ 64"
    using inv_fields(4)[OF assms(1)] by auto
  have spec: "implements (Ok (\<alpha> s')) (specCreate (bs_unsafe b) (bs_registry b) (bs_json b) now dl (abs_storage (\<alpha> s)))"
    using Create_implements[OF inv_fields(2)[OF assms(1)] len(1), of b now] Create_map[OF db, of now dl s] assms(2) by simp
  then obtain sig datas where
    datas: "list_all2 (\<lambda>(now, w) v. marshalWorkload (bs_json b) (WithResults w (initResult now)) = Ok v) (timed now dl) datas"
      "distinct (map (wl_Name \<circ> snd) (timed now dl))"
    and ds: "sp_dl (abs_storage (\<alpha> s')) ?t ?c = Some (createdState now dl sig datas)"
    using created_state by force
  have inv: "storageInv b (\<alpha> s')" by (rule step_inv[OF assms(1) storage_step.Create[OF assms(2) len(1)]])
  have frame: "sp_dl (abs_storage (\<alpha> s')) t' c' = sp_dl (abs_storage (\<alpha> s)) t' c'" if "(t', c') \<noteq> (?t, ?c)" for t' c'
    using spec that by (auto simp: specCreate_def split: option.splits sum.splits dest!: specAddAll_frame[OF _ that])
  have "length datas = length (dl_Workloads dl)" using list_all2_lengthD[OF datas(1)] by simp
  then have "specRoom t' c' n (abs_storage (\<alpha> s'))" for t' c'
    using frame[of t' c'] ds len(2) specRoom_mono[OF inv_fields(5)[OF assms(1), of t' c'], of n]
    by (cases "(t', c') = (?t, ?c)") (auto simp: specRoom_def)
  with inv len show "boltInv \<alpha> b n s'" by (simp add: boltInv_def)
  assume "w \<in> set (dl_Workloads dl)"
  then have "w \<in> snd ` set (timed now dl)" using snd_timed by (metis set_map)
  then obtain i where "(i, w) \<in> set (timed now dl)" by force
  from created_records[OF json _ ds datas this] inv
  obtain w' where w': "Storage_Current (onMap b) ?t ?c (wl_Name w) (\<alpha> s') = Ok w'" "wl_Type w' = wl_Type w"
    "State (wl_Result w') = StateInit" by (auto simp: storageInv_def)
  then show "\<exists>w'. Storage_Current b ?t ?c (wl_Name w) s' = Ok w' \<and> wl_Type w' = wl_Type w \<and> State (wl_Result w') = StateInit"
    unfolding Current_map[OF db] by blast
qed

lemma remove_law:
  assumes "boltInv \<alpha> b n s"
  shows "\<exists>s'. Storage_Remove b t c m s = Ok s' \<and> boltInv \<alpha> b n s' \<and>
    (\<forall>t' c' m' x. Storage_Current b t' c' m' s' = Ok x \<longrightarrow> Storage_Current b t' c' m' s = Ok x)"
proof -
  have spec: "implements (rmap \<alpha> (Storage_Remove b t c m s)) (Some (specRemove (bs_registry b) t c m (abs_storage (\<alpha> s))))"
    using Remove_implements[OF inv_fields(2)[OF assms], of b t c m] Remove_map[OF db, of t c m s] by simp
  then obtain s' where s': "Storage_Remove b t c m s = Ok s'" by (cases "Storage_Remove b t c m s") auto
  with spec have a: "abs_storage (\<alpha> s') = specRemove (bs_registry b) t c m (abs_storage (\<alpha> s))" by simp
  have "specRoom t' c' n (abs_storage (\<alpha> s'))" for t' c'
    using inv_fields(5)[OF assms, of t' c'] unfolding a by (auto simp: specRemove_def specRoom_def split: option.splits)
  then have inv: "boltInv \<alpha> b n s'"
    using step_inv[OF assms storage_step.Remove[OF s']] inv_fields(4)[OF assms] by (simp add: boltInv_def)
  have "Storage_Current b t' c' m' s = Ok x" if "Storage_Current b t' c' m' s' = Ok x" for t' c' m' x
    using that unfolding Current_map[OF db] Current_spec[OF inv_fields(2)[OF inv]] Current_spec[OF inv_fields(2)[OF assms]] a
    by (auto simp: specRemove_def split: option.splits if_splits)
  with inv s' show ?thesis by blast
qed

lemma delete_law:
  assumes "boltInv \<alpha> b n s"
  shows "\<exists>s' e. Storage_Delete b t c s = Ok s' \<and> boltInv \<alpha> b n s' \<and> Storage_Get b ord t c s' = Err e \<and>
    err_is e ErrDeploymentNotExists"
proof -
  from delete_effect[OF bolt_axioms db inv_fields(2)[OF assms], of t c ord] obtain s' e where
    s': "Storage_Delete b t c s = Ok s'" "Storage_Get b ord t c s' = Err e" "err_is e ErrDeploymentNotExists" by blast
  have "implements (Ok (\<alpha> s')) (Some (specDelete t c (abs_storage (\<alpha> s))))"
    using Delete_implements[OF inv_fields(2)[OF assms], of b t c] Delete_map[OF db, of t c s] s'(1) by simp
  then have a: "abs_storage (\<alpha> s') = specDelete t c (abs_storage (\<alpha> s))" by simp
  have "specRoom t' c' n (abs_storage (\<alpha> s'))" for t' c'
    using inv_fields(5)[OF assms, of t' c'] unfolding a by (auto simp: specDelete_def Let_def specRoom_def split: option.splits)
  with step_inv[OF assms storage_step.Delete[OF s'(1)]] inv_fields(4)[OF assms] s' show ?thesis by (auto simp: boltInv_def)
qed

lemma current_error:
  assumes "boltInv \<alpha> b n s" and "Storage_Current b t c m s = Err e"
  shows "err_is e ErrWorkloadNotExist \<or> err_is e ErrDeploymentNotExists"
proof (rule ccontr)
  assume not: "\<not> ?thesis"
  note l = inv_fields(2)[OF assms(1)]
  have e: "Storage_Current (onMap b) t c m (\<alpha> s) = Err e" using assms(2) unfolding Current_map[OF db] .
  have "db_buckets (\<alpha> s) (dlPath t c) \<noteq> None"
    using e not open_map[OF l, of b t c] by (auto simp: Storage_Current_def openDeployment_def dbBucket_def split: if_splits)
  then have ds: "sp_dl (abs_storage (\<alpha> s)) t c = Some (absDl t c (\<alpha> s))" by (simp add: abs_simps)
  have "openDeployment (onMap b) t c (\<alpha> s) = Ok ()" using open_map[OF l] \<open>db_buckets (\<alpha> s) (dlPath t c) \<noteq> None\<close> by blast
  then obtain ty where "db_vals (\<alpha> s) (wlPath t c) m = Some ty"
    using e not by (auto simp: Storage_Current_def dbGet_def split: if_splits option.splits)
  then have "ds_active (absDl t c (\<alpha> s)) m = Some ty" by (simp add: absDl_def)
  with ds inv_fields(3)[OF assms(1)] obtain w where "Storage_Current (onMap b) t c m (\<alpha> s) = Ok w"
    unfolding Current_spec[OF l] consistent_def dlConsistent_def by blast
  with e show False by simp
qed

end

sublocale bolt_storage \<subseteq> prov: provision_storage "boltStorage L ord b" "boltInv \<alpha> b" "\<lambda>w. is_ok (marshalWorkload (bs_json b) w)"
  for L ord
proof unfold_locales
  fix n s assume inv: "boltInv \<alpha> b (Suc n) s"
  then show "boltInv \<alpha> b n s" by (auto simp: boltInv_def intro: specRoom_mono[of _ _ "Suc n" _ n])
next
  fix n s t c m w assume "boltInv \<alpha> b n s" "st_Current (boltStorage L ord b) t c m s = Ok w"
  then show "wl_Name w = m"
    using currentScan_Ok by (fastforce simp: Current_map[OF db] Current_spec[OF inv_fields(2)])
next
  fix n s t c w s' assume a: "boltInv \<alpha> b (Suc n) s" "st_Transaction (boltStorage L ord b) t c w s = Ok s'"
  then have s': "Storage_Transaction b t c w s = Ok s'" by simp
  from transaction_current[OF bolt_axioms db json inv_fields(1)[OF a(1)] transaction_room[OF a(1)] s'] transaction_law[OF a(1) s']
  show "boltInv \<alpha> b n s' \<and>
      (State (wl_Result w) \<noteq> StateUnChanged \<longrightarrow>
         (\<exists>w'. st_Current (boltStorage L ord b) t c (wl_Name w) s' = Ok w' \<and> sameRecord w w')) \<and>
      (\<forall>t' c' m x. (t', c', m) \<noteq> (t, c, wl_Name w) \<longrightarrow>
         (st_Current (boltStorage L ord b) t' c' m s' = Ok x \<longleftrightarrow> st_Current (boltStorage L ord b) t' c' m s = Ok x))"
    by auto
qed (use current_error transaction_success create_law remove_law delete_law in \<open>simp_all\<close>)

context bolt_storage
begin

lemma is_provision_storage:
  "provision_storage (boltStorage L ord b) (boltInv \<alpha> b) (\<lambda>w. is_ok (marshalWorkload (bs_json b) w))"
  by (rule prov.provision_storage_axioms)

end

interpretation sst: bolt_storage mem memDb sample_storage
  by unfold_locales (simp_all add: sample_storage_fields sample_json_keeps)

section \<open>What jobs leave behind\<close>

text \<open>What is relied on of the managers for the workloads of a deployment: an error of \<open>Provision\<close> is a plain
  error, \<open>ErrNoActionNeeded\<close>, or the responses \<open>Ok\<close> or \<open>Paused\<close> (no manager answers \<open>Provision\<close> with
  \<open>UnChanged\<close>), and a workload with the data of its answer can be written as JSON.\<close>

definition answering :: "(Workload \<Rightarrow> bool) \<Rightarrow> Workload set \<Rightarrow> ('s, 'w) managers \<Rightarrow> bool" where
  "answering storable W managers \<longleftrightarrow> (\<forall>mgr ctx s wl w data err w'. wi_Workload wl \<in> W \<longrightarrow>
     managers (wl_Type (wi_Workload wl)) = Some mgr \<longrightarrow> mgr_Provision mgr ctx s wl w = ((data, err), w') \<longrightarrow>
     (\<forall>e. err = Some e \<longrightarrow> err_is e ErrNoActionNeeded \<or> err_as_response e \<in> {None, Some StateOk, Some StatePaused}) \<and>
     (\<forall>d r. data = Ok d \<longrightarrow> storable (WithResults (wi_Workload wl) (r\<lparr>Data := d\<rparr>))) \<and>
     (\<forall>e. data = Err e \<longrightarrow> \<not> err_is e ErrNoActionNeeded))"

text \<open>A manager that answers that there is nothing to do.\<close>

definition needsNoAction :: "('s, 'w) managers \<Rightarrow> Ctx \<Rightarrow> Workload \<Rightarrow> bool" where
  "needsNoAction managers ctx w \<longleftrightarrow> (\<exists>mgr s wl n data e n'. managers (wl_Type w) = Some mgr \<and> wi_Workload wl = w \<and>
     mgr_Provision mgr ctx s wl n = ((data, Some e), n') \<and> err_is e ErrNoActionNeeded)"

text \<open>The same of a provisioner: its answer is an error that the engine records, a result that ends
  the provisioning, or that there is nothing to do.\<close>

definition settling :: "Ctx \<Rightarrow> Workload set \<Rightarrow> (Workload \<Rightarrow> bool) \<Rightarrow> (Workload \<Rightarrow> bool) \<Rightarrow> ('s, 'w) Provisioner \<Rightarrow> bool" where
  "settling ctx W storable nothing P \<longleftrightarrow> (\<forall>s wl w r err w'. wi_Workload wl \<in> W \<longrightarrow> pr_Provision P ctx s wl w = ((r, err), w') \<longrightarrow>
     (case err of
        None \<Rightarrow> Result_Valid r = Ok () \<and> State r \<noteq> StateInit \<and> State r \<noteq> StateUnChanged \<and> storable (WithResults (wi_Workload wl) r)
      | Some e \<Rightarrow> if err_is e ErrNoActionNeeded then nothing (wi_Workload wl)
          else \<forall>t x. storable (WithResults (wi_Workload wl) (r\<lparr>Created := t, State := StateError, Error := x\<rparr>))))"

lemma unknownType_not [simp]: "\<not> err_is (unknownType wl) ErrNoActionNeeded"
  by (simp add: unknownType_def)

lemma map_provisioner_settling:
  assumes "answering storable W (map_of managers)" and "\<And>w. now w \<noteq> 0"
    and plain: "\<And>w r. w \<in> W \<Longrightarrow> Data r = [] \<Longrightarrow> storable (WithResults w r)"
  shows "settling ctx W storable (needsNoAction (map_of managers) ctx) (NewMapProvisioner now managers)"
  unfolding settling_def
proof (intro allI impI)
  fix s wl w r err w'
  assume W: "wi_Workload wl \<in> W" and p: "pr_Provision (NewMapProvisioner now managers) ctx s wl w = ((r, err), w')"
  let ?goal = "case err of
        None \<Rightarrow> Result_Valid r = Ok () \<and> State r \<noteq> StateInit \<and> State r \<noteq> StateUnChanged \<and> storable (WithResults (wi_Workload wl) r)
      | Some e \<Rightarrow> if err_is e ErrNoActionNeeded then needsNoAction (map_of managers) ctx (wi_Workload wl)
          else \<forall>t x. storable (WithResults (wi_Workload wl) (r\<lparr>Created := t, State := StateError, Error := x\<rparr>))"
  show ?goal
  proof (cases "map_of managers (wl_Type (wi_Workload wl))")
    case None
    then have "r = noResult" "err = Some (unknownType wl)" using p by (simp_all add: NewMapProvisioner_def mapProvisioner_Provision_def)
    then show ?thesis using plain[OF W] by (simp add: noResult_def)
  next
    case (Some mgr)
    obtain data merr n where m: "mgr_Provision mgr ctx s wl w = ((data, merr), n)" by (metis surj_pair)
    note ans = assms(1)[unfolded answering_def, rule_format, OF W Some m]
    have prov: "provide_result now ((data, merr), n) = ((r, err), w')"
      using p Some m by (simp add: NewMapProvisioner_def mapProvisioner_Provision_def)
    show ?thesis
    proof (cases "\<exists>e. merr = Some e \<and> err_is e ErrNoActionNeeded")
      case True
      then obtain e where e: "merr = Some e" "err_is e ErrNoActionNeeded" by blast
      then have "needsNoAction (map_of managers) ctx (wi_Workload wl)" using Some m unfolding needsNoAction_def by blast
      then show ?thesis using prov e by (auto simp: provide_result_def)
    next
      case False
      then have built: "buildResult (now n) data merr = (r, err)"
        using prov by (auto simp: provide_result_def split: option.splits if_splits)
      show ?thesis
      proof (cases data)
        case (Inl e)
        then have r: "r = setState (now n) noResult merr" "err = Some (Wrap ''failed to encode result'' e)"
          using built by (simp_all add: buildResult_def)
        have "Data r = []" by (simp add: r setState_def noResult_def split: option.split)
        then show ?thesis using ans Inl r(2) plain[OF W] by simp
      next
        case (Inr d)
        then have r: "r = (setState (now n) noResult merr)\<lparr>Data := d\<rparr>" "err = None" using built by (simp_all add: buildResult_def)
        then show ?thesis using ans Inr False assms(2)[of n]
          by (auto simp: setState_def Result_Valid_def validStates_def state_defs split: option.split)
      qed
    qed
  qed
qed

lemma idParts_identified: "identified t c wl \<Longrightarrow> idParts (wi_ID wl) = (t, c, wl_Name (wi_Workload wl))"
proof -
  assume "identified t c wl"
  from identified_Parts[OF this] show ?thesis
    by (auto simp: WorkloadID_Parts_def idParts_def rbind_Ok_iff split: prod.splits)
qed

context provision_storage
begin

definition typedAt :: "u32 \<Rightarrow> u64 \<Rightarrow> 's \<Rightarrow> Name \<Rightarrow> WorkloadType \<Rightarrow> bool" where
  "typedAt t c s m ty \<longleftrightarrow> (\<exists>w. st_Current S t c m s = Ok w \<and> wl_Type w = ty)"

definition settledAt :: "u32 \<Rightarrow> u64 \<Rightarrow> 's \<Rightarrow> Name \<Rightarrow> bool" where
  "settledAt t c s m \<longleftrightarrow> (\<exists>w. st_Current S t c m s = Ok w \<and> State (wl_Result w) \<noteq> StateInit)"

lemma record_settles:
  assumes "identified t c wl" and "inv (Suc n) s" and "typedAt t c s (wl_Name (wi_Workload wl)) (wl_Type (wi_Workload wl))"
    and res: "Result_Valid res = Ok ()" "State res \<noteq> StateInit" "State res \<noteq> StateUnChanged" "storable (WithResults (wi_Workload wl) res)"
  obtains s' where "st_Transaction S t c (WithResults (wi_Workload wl) res) s = Ok s'" "inv n s'"
    "settledAt t c s' (wl_Name (wi_Workload wl))" "\<And>m. settledAt t c s m \<Longrightarrow> settledAt t c s' m"
    "\<And>m ty. typedAt t c s m ty \<Longrightarrow> typedAt t c s' m ty"
proof -
  let ?n = "wl_Name (wi_Workload wl)" and ?w = "WithResults (wi_Workload wl) res"
  from assms(3) obtain w0 where w0: "st_Current S t c (wl_Name ?w) s = Ok w0" "wl_Type w0 = wl_Type ?w"
    by (auto simp: typedAt_def)
  have "Result_Valid (wl_Result ?w) = Ok ()" using res by simp
  from transaction_ok[OF assms(2) w0 this res(4)] obtain s' where s': "st_Transaction S t c ?w s = Ok s'" by blast
  from transaction[OF assms(2) s'] res(3) obtain x where inv: "inv n s'" and x: "st_Current S t c ?n s' = Ok x" "sameRecord ?w x"
    and other: "\<And>m y. m \<noteq> ?n \<Longrightarrow> st_Current S t c m s' = Ok y \<longleftrightarrow> st_Current S t c m s = Ok y"
    by auto
  note same = sameRecord_fields[OF x(2)]
  have here: "settledAt t c s' ?n" "typedAt t c s' ?n (wl_Type (wi_Workload wl))"
    using x(1) same res(2) by (auto simp: settledAt_def typedAt_def)
  have "settledAt t c s' m" if "settledAt t c s m" for m
    using that here(1) other[of m] by (cases "m = ?n") (auto simp: settledAt_def)
  moreover have "typedAt t c s' m ty" if "typedAt t c s m ty" for m ty
    using that here(2) other[of m] w0 by (cases "m = ?n") (auto simp: typedAt_def)
  ultimately show ?thesis using that[OF s' inv here(1)] by blast
qed

lemma provision_settles:
  assumes "en_storage E = S" and "settling ctx W storable nothing (en_provisioner E)" and "identified t c wl \<and> wi_Workload wl \<in> W"
    and "inv (Suc n) (es_storage st)" and "typedAt t c (es_storage st) (wl_Name (wi_Workload wl)) (wl_Type (wi_Workload wl))"
    and clock: "\<And>w. en_now E w \<noteq> 0" and "provisionWorkload E ctx wl st = (st', r)"
  shows "inv n (es_storage st') \<and> (settledAt t c (es_storage st') (wl_Name (wi_Workload wl)) \<or> nothing (wi_Workload wl)) \<and>
    (\<forall>m. settledAt t c (es_storage st) m \<longrightarrow> settledAt t c (es_storage st') m) \<and>
    (\<forall>m ty. typedAt t c (es_storage st) m ty \<longrightarrow> typedAt t c (es_storage st') m ty)"
proof -
  obtain res err w' where prov: "pr_Provision (en_provisioner E) ctx (es_storage st) wl (es_world st) = ((res, err), w')"
    by (metis surj_pair)
  note ans = assms(2)[unfolded settling_def, rule_format, OF conjunct2[OF assms(3)] prov]
  note run = assms(7)[unfolded provisionWorkload_def idParts_identified[OF conjunct1[OF assms(3)]] prov]
  show ?thesis
  proof (cases "\<exists>e. err = Some e \<and> err_is e ErrNoActionNeeded")
    case True
    then show ?thesis using run ans mono[OF assms(4)] by (auto simp: Let_def)
  next
    case False
    define res' where "res' = (case err of None \<Rightarrow> res | Some e \<Rightarrow> res\<lparr>Created := en_now E w', State := StateError, Error := err_text e\<rparr>)"
    have res': "Result_Valid res' = Ok ()" "State res' \<noteq> StateInit" "State res' \<noteq> StateUnChanged" "storable (WithResults (wi_Workload wl) res')"
      using ans False clock[of w'] by (cases err; simp add: res'_def Result_Valid_def validStates_def state_defs)+
    from record_settles[OF conjunct1[OF assms(3)] assms(4,5) res'] obtain s' where
      s': "st_Transaction S t c (WithResults (wi_Workload wl) res') (es_storage st) = Ok s'" "inv n s'"
      "settledAt t c s' (wl_Name (wi_Workload wl))" "\<And>m. settledAt t c (es_storage st) m \<Longrightarrow> settledAt t c s' m"
      "\<And>m ty. typedAt t c (es_storage st) m ty \<Longrightarrow> typedAt t c s' m ty" by blast
    have "es_storage st' = s'"
      using run False s'(1) assms(1) by (auto simp: Let_def commit_def res'_def split: option.splits)
    with s' show ?thesis by blast
  qed
qed

lemma install_settles:
  assumes "en_storage E = S" and "settling ctx W storable nothing (en_provisioner E)" and "identified t c wl \<and> wi_Workload wl \<in> W"
    and "inv (Suc n) (es_storage st)" and "typedAt t c (es_storage st) (wl_Name (wi_Workload wl)) (wl_Type (wi_Workload wl))"
    and "\<And>w. en_now E w \<noteq> 0" and "installWorkload E ctx wl st = (st', r)"
  shows "inv n (es_storage st') \<and> (settledAt t c (es_storage st') (wl_Name (wi_Workload wl)) \<or> nothing (wi_Workload wl)) \<and>
    (\<forall>m. settledAt t c (es_storage st) m \<longrightarrow> settledAt t c (es_storage st') m) \<and>
    (\<forall>m ty. typedAt t c (es_storage st) m ty \<longrightarrow> typedAt t c (es_storage st') m ty)"
proof -
  let ?n = "wl_Name (wi_Workload wl)"
  from assms(5) obtain w0 where w0: "st_Current S t c ?n (es_storage st) = Ok w0" by (auto simp: typedAt_def)
  show ?thesis
  proof (cases "State (wl_Result w0) = StateDeleted \<or> State (wl_Result w0) = StateError")
    case True
    then have "st' = st" using assms(1,7) w0 by (simp add: installWorkload_def idParts_identified[OF conjunct1[OF assms(3)]])
    moreover have "settledAt t c (es_storage st) ?n" using w0 True by (auto simp: settledAt_def state_defs)
    ultimately show ?thesis using mono[OF assms(4)] by simp
  next
    case False
    then have "provisionWorkload E ctx wl st = (st', r)"
      using assms(1,7) w0 by (simp add: installWorkload_def idParts_identified[OF conjunct1[OF assms(3)]])
    from provision_settles[OF assms(1-6) this] show ?thesis .
  qed
qed

lemma install_all_settle:
  assumes "en_storage E = S" and "settling ctx W storable nothing (en_provisioner E)"
    and "\<forall>wl \<in> set wls. identified t c wl \<and> wi_Workload wl \<in> W"
    and "inv (n + length wls) (es_storage st)"
    and "\<forall>wl \<in> set wls. typedAt t c (es_storage st) (wl_Name (wi_Workload wl)) (wl_Type (wi_Workload wl))"
    and "\<And>w. en_now E w \<noteq> 0"
  shows "inv n (es_storage (forEach (installWorkload E ctx) wls st)) \<and>
    (\<forall>wl \<in> set wls. settledAt t c (es_storage (forEach (installWorkload E ctx) wls st)) (wl_Name (wi_Workload wl)) \<or> nothing (wi_Workload wl)) \<and>
    (\<forall>m. settledAt t c (es_storage st) m \<longrightarrow> settledAt t c (es_storage (forEach (installWorkload E ctx) wls st)) m) \<and>
    (\<forall>m ty. typedAt t c (es_storage st) m ty \<longrightarrow> typedAt t c (es_storage (forEach (installWorkload E ctx) wls st)) m ty)"
  using assms(3-5)
proof (induction wls arbitrary: st)
  case (Cons wl wls)
  obtain st1 r where one: "installWorkload E ctx wl st = (st1, r)" by (meson surj_pair)
  have inv: "inv (Suc (n + length wls)) (es_storage st)" using Cons.prems(2) by simp
  note s = install_settles[OF assms(1,2) _ inv _ assms(6) one, of t c]
  have "forEach (installWorkload E ctx) (wl # wls) st = forEach (installWorkload E ctx) wls st1"
    by (simp add: forEach_def one)
  with s Cons.prems Cons.IH[of st1] show ?case by auto
qed (simp add: forEach_def)

lemma uninstall_step:
  assumes "en_storage E = S" and "identified t c wl" and "inv (Suc n) (es_storage st)"
    and "\<And>w. en_now E w \<noteq> 0" and "\<And>r. Data r = [] \<Longrightarrow> storable (WithResults (wi_Workload wl) r)"
    and "\<And>w. st_Current S t c (wl_Name (wi_Workload wl)) (es_storage st) = Ok w \<Longrightarrow> wl_Type w = wl_Type (wi_Workload wl)"
    and "uninstallWorkload E ctx wl reason st = (st', r)"
  shows "is_ok r \<and> inv n (es_storage st') \<and> (\<forall>m w. st_Current S t c m (es_storage st') = Ok w \<longrightarrow>
    (\<exists>w0. st_Current S t c m (es_storage st) = Ok w0 \<and> wl_Type w = wl_Type w0))"
proof (cases "st_Current S t c (wl_Name (wi_Workload wl)) (es_storage st)")
  case (Inl e)
  with current_err[OF assms(3) Inl] assms(1,7) mono[OF assms(3)] show ?thesis
    by (auto simp: uninstallWorkload_def idParts_identified[OF assms(2)])
next
  case (Inr w0)
  obtain err w1 where dep: "pr_Deprovision (en_provisioner E) ctx (es_storage st) wl (es_world st) = (err, w1)" by (meson surj_pair)
  define res where "res = (case err of
      None \<Rightarrow> noResult\<lparr>State := StateDeleted, Error := reason\<rparr>
    | Some e \<Rightarrow> noResult\<lparr>State := StateError, Error := err_text e\<rparr>)\<lparr>Created := en_now E w1\<rparr>"
  let ?w = "WithResults (wi_Workload wl) res"
  have res: "Data res = []" "Result_Valid res = Ok ()" "State res \<noteq> StateUnChanged"
    using assms(4)[of w1] by (auto simp: res_def noResult_def Result_Valid_def validStates_def state_defs split: option.split)
  have cur: "st_Current S t c (wl_Name ?w) (es_storage st) = Ok w0" "wl_Type w0 = wl_Type ?w" using Inr assms(6) by simp_all
  from transaction_ok[OF assms(3) cur _ assms(5)[OF res(1)]] res(2) obtain s1 where
    s1: "st_Transaction S t c ?w (es_storage st) = Ok s1" by auto
  from transaction[OF assms(3) s1] res(3) obtain x where inv: "inv n s1" and x: "st_Current S t c (wl_Name ?w) s1 = Ok x" "sameRecord ?w x"
    and other: "\<And>m y. m \<noteq> wl_Name ?w \<Longrightarrow> st_Current S t c m s1 = Ok y \<longleftrightarrow> st_Current S t c m (es_storage st) = Ok y" by auto
  have types: "\<exists>w0. st_Current S t c m (es_storage st) = Ok w0 \<and> wl_Type w = wl_Type w0"
    if "st_Current S t c m s1 = Ok w" for m w
    using that other[of m w] x(1) cur sameRecord_fields(2)[OF x(2)] by (cases "m = wl_Name ?w") auto
  from remove[OF inv, of t c "wl_Name (wi_Workload wl)"] obtain s2 where s2: "st_Remove S t c (wl_Name (wi_Workload wl)) s1 = Ok s2"
    "inv n s2" "\<And>m y. st_Current S t c m s2 = Ok y \<Longrightarrow> st_Current S t c m s1 = Ok y" by blast
  have "is_ok r \<and> (es_storage st' = s1 \<or> es_storage st' = s2)"
    using assms(1,7) Inr dep s1 s2(1)
    by (auto simp: uninstallWorkload_def idParts_identified[OF assms(2)] commit_def Let_def res_def[symmetric] split: if_splits)
  with inv s2 types show ?thesis by blast
qed

lemma uninstall_all:
  assumes "en_storage E = S" and "\<forall>wl \<in> set wls. identified t c wl" and "inv (n + length wls) (es_storage st)"
    and "\<And>w. en_now E w \<noteq> 0" and "\<And>wl r. wl \<in> set wls \<Longrightarrow> Data r = [] \<Longrightarrow> storable (WithResults (wi_Workload wl) r)"
    and "\<And>wl w. wl \<in> set wls \<Longrightarrow> st_Current S t c (wl_Name (wi_Workload wl)) (es_storage st) = Ok w \<Longrightarrow>
      wl_Type w = wl_Type (wi_Workload wl)"
  shows "\<not> snd (forEachErr (\<lambda>wl. uninstallWorkload E ctx wl reason) wls st) \<and>
    inv n (es_storage (fst (forEachErr (\<lambda>wl. uninstallWorkload E ctx wl reason) wls st)))"
  using assms(2,3,5,6)
proof (induction wls arbitrary: st)
  case (Cons wl wls)
  obtain st1 r where one: "uninstallWorkload E ctx wl reason st = (st1, r)" by (meson surj_pair)
  have inv: "inv (Suc (n + length wls)) (es_storage st)" using Cons.prems(2) by simp
  have step: "is_ok r \<and> inv (n + length wls) (es_storage st1) \<and> (\<forall>m w. st_Current S t c m (es_storage st1) = Ok w \<longrightarrow>
      (\<exists>w0. st_Current S t c m (es_storage st) = Ok w0 \<and> wl_Type w = wl_Type w0))"
    by (rule uninstall_step[OF assms(1) _ inv assms(4) _ _ one]) (use Cons.prems in auto)
  have "forEachErr (\<lambda>wl. uninstallWorkload E ctx wl reason) (wl # wls) st =
      forEachErr (\<lambda>wl. uninstallWorkload E ctx wl reason) wls st1"
    using step by (simp add: forEachErr_def one)
  moreover have "wl_Type w = wl_Type (wi_Workload v)"
    if "v \<in> set wls" "st_Current S t c (wl_Name (wi_Workload v)) (es_storage st1) = Ok w" for v w
    using step that Cons.prems(4) by (metis list.set_intros(2))
  ultimately show ?case using Cons.IH[of st1] Cons.prems(1,3) step by auto
qed (simp add: forEachErr_def)

end

end
