(* ===== verification/Zdb.thy ===== *)
theory Zdb
  imports ZosTypes Paths
begin

text \<open>
  0-db, \<open>pkg/zdb\<close>: the namespaces on a disk as the node reads them from the files (pool.go,
  ns\_header.go, index.go), and the client that administers a running 0-db (admin.go, zdb.go).
\<close>

section \<open>Headers (ns\_header.go, index.go)\<close>

text \<open>\<open>binary.Read\<close> with \<open>LittleEndian\<close>: a value of a fixed number of bytes and the rest. A reader is
  the bytes that are left.\<close>

fun le_value :: "bytes \<Rightarrow> nat" where
  "le_value [] = 0"
| "le_value (c # cs) = of_char c + 256 * le_value cs"

fun le_bytes :: "nat \<Rightarrow> nat \<Rightarrow> bytes" where
  "le_bytes 0 n = []"
| "le_bytes (Suc k) n = char_of (n mod 256) # le_bytes k (n div 256)"

text \<open>\<open>io.ReadFull\<close>, which \<open>binary.Read\<close> uses, and \<open>io.ReadAtLeast\<close> for a full buffer.\<close>

definition readFull :: "nat \<Rightarrow> bytes \<Rightarrow> (bytes \<times> bytes) result" where
  "readFull n r = (if n = 0 then Ok ([], r) else if r = [] then Err (Errorf ''EOF'')
     else if length r < n then Err (Errorf ''unexpected EOF'') else Ok (take n r, drop n r))"

record internalHeaderV2 =
  ih_Version :: u32
  ih_NameLength :: u8
  ih_PasswordLength :: u8
  ih_MaxSize :: u64
  ih_Flags :: u8

definition readInternalHeader :: "bytes \<Rightarrow> (internalHeaderV2 \<times> bytes) result" where
  "readInternalHeader r = rmap (\<lambda>(b, r).
     (\<lparr>ih_Version = of_nat (le_value (take 4 b)), ih_NameLength = of_nat (le_value (take 1 (drop 4 b))),
       ih_PasswordLength = of_nat (le_value (take 1 (drop 5 b))), ih_MaxSize = of_nat (le_value (take 8 (drop 6 b))),
       ih_Flags = of_nat (le_value (drop 14 b))\<rparr>, r)) (readFull 15 r)"

record Header =
  hd_Version :: u32
  hd_Name :: string
  hd_Password :: string
  hd_MaxSize :: Unit

definition ReadHeaderV2 :: "bytes \<Rightarrow> Header result" where
  "ReadHeaderV2 r =
     rbind (readInternalHeader r) (\<lambda>(bh, r).
     rbind (rwrap ''invalid header. bad name'' (readFull (unat (ih_NameLength bh)) r)) (\<lambda>(name, r).
     rbind (rwrap ''invalid header. bad name'' (readFull (unat (ih_PasswordLength bh)) r)) (\<lambda>(password, r).
     Ok \<lparr>hd_Version = ih_Version bh, hd_Name = name, hd_Password = password, hd_MaxSize = ih_MaxSize bh\<rparr>)))"

record IndexHeader =
  ix_Magic :: bytes
  ix_Version :: u32
  ix_Created :: u64
  ix_Opened :: u64
  ix_Fileid :: u16
  ix_Mode :: u8

definition ReadIndex :: "bytes \<Rightarrow> IndexHeader result" where
  "ReadIndex r = rmap (\<lambda>(b, r).
     \<lparr>ix_Magic = take 4 b, ix_Version = of_nat (le_value (take 4 (drop 4 b))), ix_Created = of_nat (le_value (take 8 (drop 8 b))),
      ix_Opened = of_nat (le_value (take 8 (drop 16 b))), ix_Fileid = of_nat (le_value (take 2 (drop 24 b))),
      ix_Mode = of_nat (le_value (drop 26 b))\<rparr>) (readFull 27 r)"

definition IndexMode_String :: "u8 \<Rightarrow> string" where
  "IndexMode_String i = (if i = 0 then ''key-value'' else if i = 1 then ''sequential'' else if i = 2 then ''direct-key''
     else if i = 3 then ''direct-block'' else ''unknown'')"

section \<open>The index of a disk (pool.go)\<close>

text \<open>What the code asks of the file system: the entries of a directory with whether they are
  directories, the bytes of a file, whether a path exists, removal, and \<open>find\<close>.\<close>

record 'w ZFiles =
  zf_ReadDir :: "string \<Rightarrow> 'w \<Rightarrow> (string \<times> bool) list result"
  zf_Open :: "string \<Rightarrow> 'w \<Rightarrow> bytes result"
  zf_Stat :: "string \<Rightarrow> 'w \<Rightarrow> unit result"
  zf_RemoveAll :: "string \<Rightarrow> 'w \<Rightarrow> 'w \<times> unit result"
  zf_find :: "string \<Rightarrow> 'w \<Rightarrow> string result"

record NSInfo =
  ni_Name :: string
  ni_Size :: Unit

definition Index_index :: "string \<Rightarrow> string" where
  "Index_index root = Join [root, ''index'']"

definition Index_data :: "string \<Rightarrow> string" where
  "Index_data root = Join [root, ''data'']"

definition Index_valid :: "string \<Rightarrow> unit result" where
  "Index_valid n = (if n = [] then Err (Errorf ''invalid name can't be empty'')
     else if \<not> list_all (\<lambda>c. is_word c \<or> c = CHR ''-'') n then Err (Errorf ''name contains invalid characters'') else Ok ())"

definition Index_Namespace :: "'w ZFiles \<Rightarrow> string \<Rightarrow> string \<Rightarrow> 'w \<Rightarrow> NSInfo result" where
  "Index_Namespace F root name w =
     rbind (Index_valid name) (\<lambda>_.
     let path = Join [Index_index root, name, ''zdb-namespace''] in
     rbind (zf_Open F path w) (\<lambda>f.
     rbind (rwrap (''failed to read namespace header at '' @ path) (ReadHeaderV2 f)) (\<lambda>header.
     Ok \<lparr>ni_Name = name, ni_Size = hd_MaxSize header\<rparr>)))"

fun namespaceInfos :: "'w ZFiles \<Rightarrow> string \<Rightarrow> 'w \<Rightarrow> (string \<times> bool) list \<Rightarrow> NSInfo list result" where
  "namespaceInfos F root w [] = Ok []"
| "namespaceInfos F root w ((name, isDir) # dirs) =
     (if \<not> isDir \<or> name = ''default'' then namespaceInfos F root w dirs
      else case Index_Namespace F root name w of
        Inl e \<Rightarrow> if e = ErrNotExist then namespaceInfos F root w dirs else Err e
      | Inr info \<Rightarrow> rmap (\<lambda>infos. info # infos) (namespaceInfos F root w dirs))"

definition Index_Namespaces :: "'w ZFiles \<Rightarrow> string \<Rightarrow> 'w \<Rightarrow> NSInfo list result" where
  "Index_Namespaces F root w = rbind (zf_ReadDir F (Index_index root) w) (namespaceInfos F root w)"

definition Index_Reserved :: "'w ZFiles \<Rightarrow> string \<Rightarrow> 'w \<Rightarrow> u64 result" where
  "Index_Reserved F root w = rmap (\<lambda>ns. foldl (\<lambda>t n. t + ni_Size n) 0 ns) (Index_Namespaces F root w)"

definition Index_Exists :: "'w ZFiles \<Rightarrow> string \<Rightarrow> string \<Rightarrow> 'w \<Rightarrow> bool" where
  "Index_Exists F root name w = is_ok (zf_Stat F (Join [Index_index root, name, ''zdb-namespace'']) w)"

definition Index_IndexMode :: "'w ZFiles \<Rightarrow> string \<Rightarrow> string \<Rightarrow> 'w \<Rightarrow> u8 result" where
  "Index_IndexMode F root name w =
     rbind (Index_valid name) (\<lambda>_.
     let path = Join [Index_index root, name, ''i0''] in
     rbind (zf_Open F path w) (\<lambda>f.
     rmap ix_Mode (rwrap (''failed to read namespace index header at '' @ path) (ReadIndex f))))"

definition removeDir :: "'w ZFiles \<Rightarrow> string \<Rightarrow> 'w \<Rightarrow> 'w \<times> unit result" where
  "removeDir F dir w = (case zf_RemoveAll F dir w of (w, r) \<Rightarrow> (w, rwrap ''failed to delete directory'' r))"

definition Index_Delete :: "'w ZFiles \<Rightarrow> string \<Rightarrow> string \<Rightarrow> 'w \<Rightarrow> 'w \<times> unit result" where
  "Index_Delete F root name w = (case Index_valid name of
     Inl e \<Rightarrow> (w, Err e)
   | Inr _ \<Rightarrow> (case removeDir F (Join [Index_index root, name]) w of
       (w, Inl e) \<Rightarrow> (w, Err e)
     | (w, Inr _) \<Rightarrow> removeDir F (Join [Index_data root, name]) w))"

definition IsZDBVersion1 :: "'w ZFiles \<Rightarrow> string \<Rightarrow> 'w \<Rightarrow> bool result" where
  "IsZDBVersion1 F root w = (let searchPath = Join [root, ''index''] in
     case zf_Stat F searchPath w of
       Inl e \<Rightarrow> if e = ErrNotExist then Ok False else Err (Wrap ''failed to check index directory'' e)
     | Inr _ \<Rightarrow> rmap (\<lambda>found. found \<noteq> []) (rwrap ''failed to detect version'' (zf_find F searchPath w)))"

section \<open>The client (zdb.go, admin.go)\<close>

record Namespace =
  ns_Name :: string
  ns_DataLimit :: Unit
  ns_DataDiskFreespace :: Unit
  ns_Mode :: string
  ns_PasswordProtected :: bool
  ns_Public :: bool

text \<open>
  Connections (\<open>utils/redis.go\<close>). \<open>rd_parse\<close> is \<open>url.Parse\<close>; \<open>rd_do\<close> sends a command over a
  connection that is dialled with the given parameters, and answers with a reply; \<open>rd_yaml\<close>
  decodes the description of a namespace.
\<close>

record URL =
  u_Scheme :: string
  u_Host :: string
  u_Path :: string
  u_User :: "string option"

record RedisDialParams =
  rp_Scheme :: string
  rp_Host :: string
  rp_Password :: "string option"

datatype Reply = RStr string | RList "string list" | RInt nat | RNil

record 'w Redis =
  rd_parse :: "string \<Rightarrow> URL result"
  rd_do :: "RedisDialParams \<Rightarrow> string list \<Rightarrow> 'w \<Rightarrow> 'w \<times> Reply result"
  rd_yaml :: "bytes \<Rightarrow> Namespace result"

definition parseRedisAddress :: "(string \<Rightarrow> URL result) \<Rightarrow> string \<Rightarrow> RedisDialParams result" where
  "parseRedisAddress parse address =
     rbind (parse address) (\<lambda>u.
     if u_Scheme u = ''redis'' \<or> u_Scheme u = ''tcp'' then
       Ok \<lparr>rp_Scheme = ''tcp'', rp_Host = u_Host u, rp_Password = u_User u\<rparr>
     else if u_Scheme u = ''unix'' then
       Ok \<lparr>rp_Scheme = ''unix'', rp_Host = u_Path u, rp_Password = u_User u\<rparr>
     else Err (Errorf (''unknown scheme '' @ squote (u_Scheme u) @ '' expecting tcp or unix'')))"

text \<open>A command over the pool of a client. The client has a pool once \<open>Connect\<close> could parse the
  address; with no pool the call panics.\<close>

definition send :: "'w Redis \<Rightarrow> string \<Rightarrow> string list \<Rightarrow> 'w \<Rightarrow> 'w \<times> Reply result" where
  "send R addr cmd w = (case parseRedisAddress (rd_parse R) addr of
     Inl _ \<Rightarrow> (w, Err (Panic ''invalid memory address or nil pointer dereference''))
   | Inr p \<Rightarrow> rd_do R p cmd w)"

text \<open>The conversions \<open>redis.String\<close>, \<open>redis.Strings\<close>, \<open>redis.Uint64\<close>.\<close>

definition redis_String :: "Reply result \<Rightarrow> string result" where
  "redis_String r = rbind r (\<lambda>r. case r of RStr s \<Rightarrow> Ok s | RNil \<Rightarrow> Err (Errorf ''redigo: nil returned'')
     | _ \<Rightarrow> Err (Errorf ''redigo: unexpected type for String''))"

definition redis_Strings :: "Reply result \<Rightarrow> string list result" where
  "redis_Strings r = rbind r (\<lambda>r. case r of RList xs \<Rightarrow> Ok xs | RNil \<Rightarrow> Err (Errorf ''redigo: nil returned'')
     | _ \<Rightarrow> Err (Errorf ''redigo: unexpected type for Strings''))"

definition redis_Uint64 :: "Reply result \<Rightarrow> u64 result" where
  "redis_Uint64 r = rbind r (\<lambda>r. case r of RInt n \<Rightarrow> Ok (of_nat n) | RNil \<Rightarrow> Err (Errorf ''redigo: nil returned'')
     | _ \<Rightarrow> Err (Errorf ''redigo: unexpected type for Uint64''))"

definition Connect :: "'w Redis \<Rightarrow> string \<Rightarrow> 'w \<Rightarrow> unit result" where
  "Connect R addr w = rbind (rwrap (''failed to connect to '' @ addr) (parseRedisAddress (rd_parse R) addr)) (\<lambda>_.
     rmap (\<lambda>_. ()) (snd (send R addr [''PING''] w)))"

text \<open>A command that answers \<open>OK\<close>.\<close>

definition do_ok :: "'w Redis \<Rightarrow> string \<Rightarrow> string list \<Rightarrow> 'w \<Rightarrow> 'w \<times> unit result" where
  "do_ok R addr cmd w = (case send R addr cmd w of (w, r) \<Rightarrow>
     (w, rbind (redis_String r) (\<lambda>ok. if ok \<noteq> ''OK'' then Err (Errorf ok) else Ok ())))"

definition CreateNamespace :: "'w Redis \<Rightarrow> string \<Rightarrow> string \<Rightarrow> 'w \<Rightarrow> 'w \<times> unit result" where
  "CreateNamespace R addr name = do_ok R addr [''NSNEW'', name]"

definition Exist :: "'w Redis \<Rightarrow> string \<Rightarrow> string \<Rightarrow> 'w \<Rightarrow> bool result" where
  "Exist R addr name w = (case snd (send R addr [''NSINFO'', name] w) of
     Inl e \<Rightarrow> if Contains (err_text e) ''not found'' then Ok False else Err e
   | Inr _ \<Rightarrow> Ok True)"

definition DeleteNamespace :: "'w Redis \<Rightarrow> string \<Rightarrow> string \<Rightarrow> 'w \<Rightarrow> 'w \<times> unit result" where
  "DeleteNamespace R addr name = do_ok R addr [''NSDEL'', name]"

definition Namespaces :: "'w Redis \<Rightarrow> string \<Rightarrow> 'w \<Rightarrow> string list result" where
  "Namespaces R addr w = redis_Strings (snd (send R addr [''NSLIST''] w))"

definition NamespaceSetSize :: "'w Redis \<Rightarrow> string \<Rightarrow> string \<Rightarrow> u64 \<Rightarrow> 'w \<Rightarrow> 'w \<times> unit result" where
  "NamespaceSetSize R addr name sz = do_ok R addr [''NSSET'', name, ''maxsize'', dec (unat sz)]"

definition NamespaceSetPassword :: "'w Redis \<Rightarrow> string \<Rightarrow> string \<Rightarrow> string \<Rightarrow> 'w \<Rightarrow> 'w \<times> unit result" where
  "NamespaceSetPassword R addr name password = do_ok R addr [''NSSET'', name, ''password'', password]"

definition NamespaceSetMode :: "'w Redis \<Rightarrow> string \<Rightarrow> string \<Rightarrow> string \<Rightarrow> 'w \<Rightarrow> 'w \<times> unit result" where
  "NamespaceSetMode R addr name mode = do_ok R addr [''NSSET'', name, ''mode'', mode]"

definition NamespaceSetLock :: "'w Redis \<Rightarrow> string \<Rightarrow> string \<Rightarrow> bool \<Rightarrow> 'w \<Rightarrow> 'w \<times> unit result" where
  "NamespaceSetLock R addr name lock = do_ok R addr [''NSSET'', name, ''freeze'', if lock then ''1'' else ''0'']"

definition NamespaceSetPublic :: "'w Redis \<Rightarrow> string \<Rightarrow> string \<Rightarrow> bool \<Rightarrow> 'w \<Rightarrow> 'w \<times> unit result" where
  "NamespaceSetPublic R addr name public = do_ok R addr [''NSSET'', name, ''public'', if public then ''1'' else ''0'']"

definition DBSize :: "'w Redis \<Rightarrow> string \<Rightarrow> 'w \<Rightarrow> u64 result" where
  "DBSize R addr w = redis_Uint64 (snd (send R addr [''DBSIZE''] w))"

definition Client_Namespace :: "'w Redis \<Rightarrow> string \<Rightarrow> string \<Rightarrow> 'w \<Rightarrow> Namespace result" where
  "Client_Namespace R addr name w = rbind (redis_String (snd (send R addr [''NSINFO'', name] w))) (rd_yaml R)"

end
