(* ===== verification/Kernel.thy ===== *)
theory Kernel
  imports Paths
begin

text \<open>
  The kernel command line, \<open>pkg/kernel/kernel.go\<close>: parameters with their values. Splitting the
  line into words (the package shlex) is an argument.
\<close>

type_synonym Params = "string \<rightharpoonup> string list"

definition KernelDebug :: string where "KernelDebug = ''zos-debug''"
definition VirtualMachine :: string where "VirtualMachine = ''zos-debug-vm''"
definition DisableGPU :: string where "DisableGPU = ''disable-gpu''"
definition MissingSSD :: string where "MissingSSD = ''missing-ssd''"

definition Params_Exists :: "Params \<Rightarrow> string \<Rightarrow> bool" where
  "Params_Exists k key = (k key \<noteq> None)"

definition Params_Get :: "Params \<Rightarrow> string \<Rightarrow> string list option" where
  "Params_Get k key = k key"

definition Params_GetOne :: "Params \<Rightarrow> string \<Rightarrow> string option" where
  "Params_GetOne k key = (case Params_Get k key of
     None \<Rightarrow> None
   | Some all \<Rightarrow> if all = [] then None else Some (last all))"

definition IsDebug :: "Params \<Rightarrow> bool" where
  "IsDebug k = Params_Exists k KernelDebug"

definition IsV3Light :: "Params \<Rightarrow> bool" where
  "IsV3Light k = (Params_GetOne k ''version'' = Some ''v3light'')"

definition IsV4 :: "Params \<Rightarrow> bool" where
  "IsV4 k = (Params_GetOne k ''version'' = Some ''v4'')"

definition IsV3 :: "Params \<Rightarrow> bool" where
  "IsV3 k = (Params_GetOne k ''version'' = Some ''v3'')"

definition IsLight :: "Params \<Rightarrow> bool" where
  "IsLight k = (IsV3Light k \<or> IsV4 k)"

definition GetVersion :: "Params \<Rightarrow> string" where
  "GetVersion k = (case Params_GetOne k ''version'' of None \<Rightarrow> [] | Some version \<Rightarrow> version)"

definition IsGPUDisabled :: "Params \<Rightarrow> bool" where
  "IsGPUDisabled k = Params_Exists k DisableGPU"

definition IsVirtualMachine :: "Params \<Rightarrow> bool" where
  "IsVirtualMachine k = Params_Exists k VirtualMachine"

text \<open>\<open>strings.SplitN(option, "=", 2)\<close>: the key, and the value when there is a \<open>=\<close>.\<close>

definition splitOption :: "string \<Rightarrow> string \<times> string option" where
  "splitOption option = (takeWhile (\<lambda>c. c \<noteq> CHR ''='') option,
     case dropWhile (\<lambda>c. c \<noteq> CHR ''='') option of [] \<Rightarrow> None | _ # v \<Rightarrow> Some v)"

definition addOption :: "string \<Rightarrow> Params \<Rightarrow> Params" where
  "addOption option options = (case splitOption option of
     (key, Some v) \<Rightarrow> options(key \<mapsto> (case options key of None \<Rightarrow> [] | Some vs \<Rightarrow> vs) @ [v])
   | (key, None) \<Rightarrow> options(key \<mapsto> []))"

definition parseParams :: "(string \<Rightarrow> string list) \<Rightarrow> string \<Rightarrow> Params" where
  "parseParams shlexSplit content = fold addOption (shlexSplit (TrimSpace content)) (\<lambda>_. None)"


section \<open>What a command line means\<close>

text \<open>The values of a key: those given since it last stood alone.\<close>

definition valuesOfKey :: "string \<Rightarrow> string list \<Rightarrow> string list" where
  "valuesOfKey key options = map (\<lambda>v. case v of None \<Rightarrow> [] | Some x \<Rightarrow> x)
     (rev (takeWhile (\<lambda>v. v \<noteq> None) (rev (map (snd \<circ> splitOption) (filter (\<lambda>x. fst (splitOption x) = key) options)))))"

lemma parsed_values:
  "fold addOption options (\<lambda>_. None) key =
     (if \<exists>option \<in> set options. fst (splitOption option) = key then Some (valuesOfKey key options) else None)"
proof (induction options rule: rev_induct)
  case (snoc option options)
  obtain k v where kv: "splitOption option = (k, v)" by (meson surj_pair)
  have "filter (\<lambda>x. fst (splitOption x) = key) options = []"
    if "\<not> (\<exists>option \<in> set options. fst (splitOption option) = key)" using that by simp
  then show ?case using snoc kv
    by (cases v) (auto simp: addOption_def valuesOfKey_def)
qed simp

end
