(* ===== verification/StorageModule.thy ===== *)
theory StorageModule
  imports Kernel ZosTypes
begin

text \<open>
  The storage module, \<open>pkg/storage\<close> (storage.go, pools.go, device.go): the pools of a node, one per
  disk, the volumes made on them, the cache volume, and the disks given to 0-db. A pool is an
  interface in the code (\<open>filesystem.Pool\<close>) and a record of functions here; they read and change
  the node, a type \<open>'w\<close>. \<open>Mounted\<close> of a pool that is not mounted is an error.
\<close>

section \<open>Pools and volumes (filesystem/filesystem.go, filesystem/device.go)\<close>

record FsUsage =
  fu_Size :: u64
  fu_Used :: u64
  fu_Excl :: u64

definition noUsage :: FsUsage where
  "noUsage = \<lparr>fu_Size = 0, fu_Used = 0, fu_Excl = 0\<rparr>"

record 'w FsVolume =
  fv_ID :: int
  fv_Path :: string
  fv_Name :: string
  fv_Usage :: "'w \<Rightarrow> FsUsage result"
  fv_Limit :: "u64 \<Rightarrow> 'w \<Rightarrow> 'w \<times> unit result"

record DeviceInfo =
  di_Path :: string
  di_Label :: string
  di_Size :: u64
  di_Filesystem :: string
  di_Rota :: bool
  di_Subsystems :: string

definition DeviceInfo_Name :: "DeviceInfo \<Rightarrow> string" where
  "DeviceInfo_Name d = Base (di_Path d)"

definition DeviceInfo_Used :: "DeviceInfo \<Rightarrow> bool" where
  "DeviceInfo_Used d \<longleftrightarrow> di_Label d \<noteq> [] \<or> di_Filesystem d \<noteq> []"

record 'w FsPool =
  fp_Name :: string
  fp_Path :: string
  fp_Device :: DeviceInfo
  fp_Mounted :: "'w \<Rightarrow> string result"
  fp_Mount :: "'w \<Rightarrow> 'w \<times> string result"
  fp_UnMount :: "'w \<Rightarrow> 'w \<times> unit result"
  fp_Volumes :: "'w \<Rightarrow> 'w FsVolume list result"
  fp_AddVolume :: "string \<Rightarrow> 'w \<Rightarrow> 'w \<times> 'w FsVolume result"
  fp_RemoveVolume :: "string \<Rightarrow> 'w \<Rightarrow> 'w \<times> unit result"
  fp_Usage :: "'w \<Rightarrow> FsUsage result"
  fp_Shutdown :: "'w \<Rightarrow> 'w \<times> unit result"
  fp_SetType :: "string \<Rightarrow> 'w \<Rightarrow> 'w \<times> unit result"
  fp_Type :: "'w \<Rightarrow> string option result"

text \<open>What the module reports (\<open>pkg/storage.go\<close>).\<close>

record Usage =
  us_Size :: Unit
  us_Used :: Unit

record VolumeInfo =
  vi_Name :: string
  vi_Path :: string
  vi_Usage :: Usage

record Device =
  dev_Path :: string
  dev_ID :: string
  dev_Usage :: Usage

definition noDevice :: Device where
  "noDevice = \<lparr>dev_Path = [], dev_ID = [], dev_Usage = \<lparr>us_Size = 0, us_Used = 0\<rparr>\<rparr>"

record PoolMetrics =
  pm_Name :: string
  pm_Type :: string
  pm_Size :: Unit
  pm_Used :: Unit

definition reportUsage :: "FsUsage \<Rightarrow> Usage" where
  "reportUsage u = \<lparr>us_Size = fu_Size u, us_Used = fu_Used u\<rparr>"

definition reportVolume :: "'w FsVolume \<Rightarrow> FsUsage \<Rightarrow> VolumeInfo" where
  "reportVolume v u = \<lparr>vi_Name = fv_Name v, vi_Path = fv_Path v, vi_Usage = reportUsage u\<rparr>"


section \<open>The module\<close>

definition cacheLabel :: string where "cacheLabel = ''zos-cache''"
definition CacheTarget :: string where "CacheTarget = ''/var/cache''"
definition vdiskVolumeName :: string where "vdiskVolumeName = ''vdisks''"
definition zdbVolume :: string where "zdbVolume = ''zdb''"
definition gib :: u64 where "gib = 1024 * 1024 * 1024"
definition cacheSize :: u64 where "cacheSize = 5 * gib"
definition cacheGrowPercent :: u64 where "cacheGrowPercent = 60"
definition cacheShrinkPercent :: u64 where "cacheShrinkPercent = 20"
definition SSDOverProvisionFactor :: u64 where "SSDOverProvisionFactor = 1"
definition LimitedCache :: string where "LimitedCache = ''limited-cache''"

record 'w candidate =
  cand_Pool :: "'w FsPool"
  cand_Available :: u64

text \<open>
  The fields of \<open>Module\<close>; \<open>m_watched\<close> is the volume a goroutine watches (\<open>watchCache\<close>).
\<close>

record 'w Module =
  m_ssds :: "'w FsPool list"
  m_hdds :: "'w FsPool list"
  m_brokenPools :: "(string \<times> err) list"
  m_brokenDevices :: "(string \<times> err) list"
  m_totalSSD :: u64
  m_totalHDD :: u64
  m_watched :: "'w FsVolume option"

text \<open>
  What the module calls outside the package: the kernel parameters, the device manager, the
  construction of a pool, the old cache of device types, flags, mounts, smartctl (whose
  failure is an exit status or another error), and Go's sorting of slices.
\<close>

record 'w Host =
  h_params :: Params
  h_Devices :: "'w \<Rightarrow> DeviceInfo list result"
  h_NewPool :: "DeviceInfo \<Rightarrow> 'w \<Rightarrow> 'w \<times> 'w FsPool result"
  h_readType :: "string \<Rightarrow> 'w \<Rightarrow> bytes result"
  h_DetectType :: "DeviceInfo \<Rightarrow> 'w \<Rightarrow> string result"
  h_Partprobe :: "'w \<Rightarrow> 'w \<times> unit result"
  h_SetFlag :: "string \<Rightarrow> 'w \<Rightarrow> 'w \<times> unit result"
  h_DeleteFlag :: "string \<Rightarrow> 'w \<Rightarrow> 'w \<times> unit result"
  h_mountTmpfs :: "string \<Rightarrow> string \<Rightarrow> 'w \<Rightarrow> 'w \<times> unit result"
  h_IsMountPoint :: "string \<Rightarrow> 'w \<Rightarrow> bool"
  h_BindMount :: "'w FsVolume \<Rightarrow> string \<Rightarrow> 'w \<Rightarrow> 'w \<times> unit result"
  h_smartctl :: "string \<Rightarrow> 'w \<Rightarrow> (err option) + string"
  h_sortPools :: "('w FsPool \<Rightarrow> 'w FsPool \<Rightarrow> int) \<Rightarrow> 'w FsPool list \<Rightarrow> 'w FsPool list"
  h_sortCandidates :: "('w candidate \<Rightarrow> 'w candidate \<Rightarrow> bool) \<Rightarrow> 'w candidate list \<Rightarrow> 'w candidate list"

text \<open>An operation of the module: it may reorder the module's pools and change the node.\<close>

type_synonym ('w, 'a) op = "'w Module \<times> 'w \<Rightarrow> ('w Module \<times> 'w) \<times> 'a result"

definition Module_Total :: "string \<Rightarrow> 'w Module \<Rightarrow> u64 result" where
  "Module_Total kind m = (if kind = SSDDevice then Ok (m_totalSSD m)
     else if kind = HDDDevice then Ok (m_totalHDD m)
     else Err (Errorf (''kind '' @ kind @ '' unknown'')))"


section \<open>The order of pools (pools.go)\<close>

datatype Policy = PolicySSDOnly | PolicyHDDOnly | PolicySSDFirst

definition poolCmp :: "'w \<Rightarrow> 'w FsPool \<Rightarrow> 'w FsPool \<Rightarrow> int" where
  "poolCmp w a b = (if is_ok (fp_Mounted a w) = is_ok (fp_Mounted b w) then 0
     else if is_ok (fp_Mounted a w) then - 1 else 1)"

text \<open>The policies sort the slices of the module in place.\<close>

definition ssdOnly :: "'w Host \<Rightarrow> 'w Module \<times> 'w \<Rightarrow> 'w Module \<times> 'w FsPool list" where
  "ssdOnly H mw = (let m = (fst mw)\<lparr>m_ssds := h_sortPools H (poolCmp (snd mw)) (m_ssds (fst mw))\<rparr> in (m, m_ssds m))"

definition hddOnly :: "'w Host \<Rightarrow> 'w Module \<times> 'w \<Rightarrow> 'w Module \<times> 'w FsPool list" where
  "hddOnly H mw = (let m = (fst mw)\<lparr>m_hdds := h_sortPools H (poolCmp (snd mw)) (m_hdds (fst mw))\<rparr> in (m, m_hdds m))"

definition ssdFirst :: "'w Host \<Rightarrow> 'w Module \<times> 'w \<Rightarrow> 'w Module \<times> 'w FsPool list" where
  "ssdFirst H mw = (case ssdOnly H mw of (m, ssds) \<Rightarrow>
     if Params_Exists (h_params H) MissingSSD
     then (case hddOnly H (m, snd mw) of (m, hdds) \<Rightarrow> (m, ssds @ hdds))
     else (m, ssds))"

fun pools :: "'w Host \<Rightarrow> Policy \<Rightarrow> 'w Module \<times> 'w \<Rightarrow> 'w Module \<times> 'w FsPool list" where
  "pools H PolicySSDOnly mw = ssdOnly H mw"
| "pools H PolicyHDDOnly mw = hddOnly H mw"
| "pools H PolicySSDFirst mw = ssdFirst H mw"


section \<open>Looking for volumes\<close>

text \<open>\<open>path\<close>: the first volume of that name on a mounted pool.\<close>

fun findVolume :: "string \<Rightarrow> 'w \<Rightarrow> 'w FsPool list \<Rightarrow> ('w FsPool \<times> 'w FsVolume \<times> VolumeInfo) result" where
  "findVolume name w [] = Err (Wrap (''subvolume '' @ squote name @ '' not found'') ErrNotExist)"
| "findVolume name w (pool # ps) =
     (if \<not> is_ok (fp_Mounted pool w) then findVolume name w ps
      else rbind (fp_Volumes pool w) (\<lambda>filesystems.
        case find (\<lambda>fs. fv_Name fs = name) filesystems of
          None \<Rightarrow> findVolume name w ps
        | Some fs \<Rightarrow> rbind (fv_Usage fs w) (\<lambda>usage. Ok (pool, fs, reportVolume fs usage))))"

definition module_path :: "'w Host \<Rightarrow> string \<Rightarrow> ('w, 'w FsPool \<times> 'w FsVolume \<times> VolumeInfo) op" where
  "module_path H name mw = (case pools H PolicySSDFirst mw of (m, ps) \<Rightarrow>
     ((m, snd mw), findVolume name (snd mw) ps))"

definition VolumeLookup :: "'w Host \<Rightarrow> string \<Rightarrow> ('w, VolumeInfo) op" where
  "VolumeLookup H name mw = (case module_path H name mw of (mw, r) \<Rightarrow> (mw, rmap (\<lambda>(_, _, fs). fs) r))"

definition VolumeExists :: "'w Host \<Rightarrow> string \<Rightarrow> ('w, bool) op" where
  "VolumeExists H name mw = (case VolumeLookup H name mw of (mw, r) \<Rightarrow> (mw, case r of
     Inl e \<Rightarrow> if err_is e ErrNotExist then Ok False else Err e
   | Inr _ \<Rightarrow> Ok True))"

definition Module_Cache :: "'w Host \<Rightarrow> ('w, VolumeInfo) op" where
  "Module_Cache H = VolumeLookup H cacheLabel"

definition VolumeUpdate :: "'w Host \<Rightarrow> string \<Rightarrow> Unit \<Rightarrow> ('w, unit) op" where
  "VolumeUpdate H name sz mw = (case module_path H name mw of
     (mw, Inl e) \<Rightarrow> (mw, Err e)
   | ((m, w), Inr (_, volume, _)) \<Rightarrow> (case fv_Limit volume sz w of (w, r) \<Rightarrow> ((m, w), r)))"

text \<open>\<open>VolumeList\<close> leaves out the volumes the node keeps for itself.\<close>

definition listVolumes :: "'w \<Rightarrow> 'w FsVolume list \<Rightarrow> VolumeInfo list result" where
  "listVolumes w volumes = rlist (\<lambda>v. rbind (fv_Usage v w) (\<lambda>usage. Ok (reportVolume v usage)))
     (filter (\<lambda>v. fv_Name v \<noteq> cacheLabel \<and> fv_Name v \<noteq> vdiskVolumeName) volumes)"

fun listPools :: "'w \<Rightarrow> 'w FsPool list \<Rightarrow> VolumeInfo list result" where
  "listPools w [] = Ok []"
| "listPools w (pool # ps) =
     (if \<not> is_ok (fp_Mounted pool w) then listPools w ps
      else rbind (fp_Volumes pool w) (\<lambda>volumes.
        rbind (listVolumes w volumes) (\<lambda>fss. rmap (\<lambda>rest. fss @ rest) (listPools w ps))))"

definition VolumeList :: "'w Host \<Rightarrow> ('w, VolumeInfo list) op" where
  "VolumeList H mw = (case pools H PolicySSDFirst mw of (m, ps) \<Rightarrow> ((m, snd mw), listPools (snd mw) ps))"


section \<open>Making volumes\<close>

text \<open>
  \<open>checkForCandidates\<close>: mounted pools come first; a pool that is not mounted is only tried when
  no mounted one has the space, and is mounted for that. A pool mounted in vain is unmounted
  and shut down again.
\<close>

fun checkPools :: "Unit \<Rightarrow> 'w FsPool list \<Rightarrow> 'w candidate list \<Rightarrow> 'w \<Rightarrow> 'w \<times> 'w candidate list result" where
  "checkPools sz [] candidates w = (w, Ok candidates)"
| "checkPools sz (pool # ps) candidates w =
     (let isMounted = is_ok (fp_Mounted pool w) in
      if \<not> isMounted \<and> candidates \<noteq> [] then (w, Ok candidates)
      else if \<not> isMounted \<and> sz > di_Size (fp_Device pool) then checkPools sz ps candidates w
      else case (if isMounted then (w, Ok []) else fp_Mount pool w) of
        (w, Inl e) \<Rightarrow> (w, Err e)
      | (w, Inr _) \<Rightarrow>
          (case fp_Usage pool w of
             Inl _ \<Rightarrow> checkPools sz ps candidates w
           | Inr usage \<Rightarrow>
               if fu_Used usage + sz > fu_Size usage * SSDOverProvisionFactor then
                 checkPools sz ps candidates
                   (if isMounted then w else fst (fp_Shutdown pool (fst (fp_UnMount pool w))))
               else checkPools sz ps (candidates @ [\<lparr>cand_Pool = pool,
                 cand_Available = fu_Size usage * SSDOverProvisionFactor - (fu_Used usage + sz)\<rparr>]) w))"

definition checkForCandidates :: "'w Host \<Rightarrow> Unit \<Rightarrow> Policy \<Rightarrow> ('w, 'w candidate list) op" where
  "checkForCandidates H sz policy mw = (case pools H policy mw of (m, ps) \<Rightarrow>
     case checkPools sz ps [] (snd mw) of (w, r) \<Rightarrow>
       ((m, w), rmap (h_sortCandidates H (\<lambda>a b. cand_Available a > cand_Available b)) r))"

definition findCandidates :: "'w Host \<Rightarrow> Unit \<Rightarrow> Policy \<Rightarrow> ('w, 'w candidate list) op" where
  "findCandidates H sz policy mw = (case checkForCandidates H sz policy mw of
     (mw, Inl e) \<Rightarrow> (mw, Err (Wrap ''failed to search candidate on mounted pools'' e))
   | (mw, Inr candidates) \<Rightarrow> (mw, if candidates = [] then Err ErrNotEnoughSpace else Ok candidates))"

fun addToFirst :: "string \<Rightarrow> 'w candidate list \<Rightarrow> 'w \<Rightarrow> 'w \<times> 'w FsVolume result" where
  "addToFirst name [] w = (w, Err (Errorf ''failed to create subvolume, logs might have more information''))"
| "addToFirst name (c # cs) w = (case fp_AddVolume (cand_Pool c) name w of
     (w, Inl _) \<Rightarrow> addToFirst name cs w
   | (w, Inr volume) \<Rightarrow> (w, Ok volume))"

definition createSubvol :: "'w Host \<Rightarrow> Unit \<Rightarrow> string \<Rightarrow> Policy \<Rightarrow> ('w, 'w FsVolume) op" where
  "createSubvol H sz name policy mw = (case findCandidates H sz policy mw of
     (mw, Inl e) \<Rightarrow> (mw, Err e)
   | ((m, w), Inr candidates) \<Rightarrow> (case addToFirst name candidates w of (w, r) \<Rightarrow> ((m, w), r)))"

definition createSubvolWithQuota :: "'w Host \<Rightarrow> Unit \<Rightarrow> string \<Rightarrow> Policy \<Rightarrow> ('w, 'w FsVolume) op" where
  "createSubvolWithQuota H sz name policy mw = (case createSubvol H sz name policy mw of
     (mw, Inl e) \<Rightarrow> (mw, Err e)
   | ((m, w), Inr volume) \<Rightarrow> (case fv_Limit volume sz w of
       (w, Inl e) \<Rightarrow> ((m, w), Err e)
     | (w, Inr _) \<Rightarrow> ((m, w), Ok volume)))"

definition VolumeCreate :: "'w Host \<Rightarrow> string \<Rightarrow> Unit \<Rightarrow> ('w, VolumeInfo) op" where
  "VolumeCreate H name sz mw =
     (if HasPrefix name ''zdb'' then (mw, Err (Errorf ''invalid volume name. zdb prefix is reserved''))
      else case VolumeLookup H name mw of
        (mw, Inr volume) \<Rightarrow> (mw, Ok volume)
      | (mw, Inl e) \<Rightarrow>
          if \<not> err_is e ErrNotExist then (mw, Err e)
          else case createSubvolWithQuota H sz name PolicySSDFirst mw of
            (mw, Inl e) \<Rightarrow> (mw, Err e)
          | (mw, Inr fs) \<Rightarrow> (mw, rmap (reportVolume fs) (fv_Usage fs (snd mw))))"

text \<open>\<open>VolumeDelete\<close>: when the volume was the only one of its pool, the pool is shut down.\<close>

definition removeFrom :: "'w FsPool \<Rightarrow> string \<Rightarrow> bool \<Rightarrow> 'w \<Rightarrow> 'w \<times> unit result" where
  "removeFrom pool name only w = (case fp_RemoveVolume pool name w of
     (w, Inl e) \<Rightarrow> (w, Err e)
   | (w, Inr _) \<Rightarrow> if \<not> only then (w, Ok ())
       else (case fp_UnMount pool w of
         (w, Inl e) \<Rightarrow> (w, Err e)
       | (w, Inr _) \<Rightarrow> fp_Shutdown pool w))"

fun deleteVolume :: "string \<Rightarrow> 'w FsPool list \<Rightarrow> 'w \<Rightarrow> 'w \<times> unit result" where
  "deleteVolume name [] w = (w, Ok ())"
| "deleteVolume name (pool # ps) w =
     (if \<not> is_ok (fp_Mounted pool w) then deleteVolume name ps w
      else case fp_Volumes pool w of
        Inl e \<Rightarrow> (w, Err e)
      | Inr volumes \<Rightarrow>
          (case find (\<lambda>vol. fv_Name vol = name) volumes of
             None \<Rightarrow> deleteVolume name ps w
           | Some vol \<Rightarrow> removeFrom pool (fv_Name vol) (length volumes = 1) w))"

definition VolumeDelete :: "'w Host \<Rightarrow> string \<Rightarrow> ('w, unit) op" where
  "VolumeDelete H name mw = (case pools H PolicySSDFirst mw of (m, ps) \<Rightarrow>
     case deleteVolume name ps (snd mw) of (w, r) \<Rightarrow> ((m, w), r))"


section \<open>The cache volume\<close>

fun findCache :: "'w \<Rightarrow> 'w FsPool list \<Rightarrow> 'w FsVolume option result" where
  "findCache w [] = Ok None"
| "findCache w (pool # ps) =
     (if \<not> is_ok (fp_Mounted pool w) then findCache w ps
      else rbind (fp_Volumes pool w) (\<lambda>filesystems.
        case find (\<lambda>fs. fv_Name fs = cacheLabel) filesystems of
          None \<Rightarrow> findCache w ps
        | Some fs \<Rightarrow> Ok (Some fs)))"

definition createCache :: "'w Host \<Rightarrow> 'w FsVolume option \<Rightarrow> 'w Module \<times> 'w \<Rightarrow> ('w Module \<times> 'w) \<times> 'w FsVolume option" where
  "createCache H cacheFs mw = (case cacheFs of
     Some fs \<Rightarrow> (mw, Some fs)
   | None \<Rightarrow> (case createSubvolWithQuota H cacheSize cacheLabel PolicySSDFirst mw of
       (mw, Inl _) \<Rightarrow> (mw, None)
     | (mw, Inr fs) \<Rightarrow> (mw, Some fs)))"

definition mountCache :: "'w Host \<Rightarrow> 'w FsVolume option \<Rightarrow> ('w, unit) op" where
  "mountCache H cacheFs mw = (case (cacheFs, mw) of
     (None, (m, w)) \<Rightarrow>
       (case h_SetFlag H LimitedCache w of
          (w, Inl e) \<Rightarrow> ((m, w), Err e)
        | (w, Inr _) \<Rightarrow> (case h_mountTmpfs H CacheTarget ''size=500M'' w of (w, r) \<Rightarrow> ((m, w), r)))
   | (Some fs, (m, w)) \<Rightarrow>
       let w = fst (h_DeleteFlag H LimitedCache w); m = m\<lparr>m_watched := Some fs\<rparr> in
       if \<not> h_IsMountPoint H CacheTarget w
       then (case h_BindMount H fs CacheTarget w of (w, r) \<Rightarrow> ((m, w), r)) else ((m, w), Ok ()))"

definition ensureCache :: "'w Host \<Rightarrow> ('w, unit) op" where
  "ensureCache H mw = (case pools H PolicySSDFirst mw of (m, ps) \<Rightarrow>
     case findCache (snd mw) ps of
       Inl e \<Rightarrow> ((m, snd mw), Err e)
     | Inr cacheFs \<Rightarrow> (case createCache H cacheFs (m, snd mw) of (mw, cacheFs) \<Rightarrow> mountCache H cacheFs mw))"

text \<open>\<open>checkAndResizeCache\<close>: the size the cache gets, from the size it has (not 0) and the space in
  use, and the whole check.\<close>

definition resizedCache :: "u64 \<Rightarrow> u64 \<Rightarrow> u64 \<Rightarrow> u64" where
  "resizedCache sizeMultiplier excl current =
     (let percent = excl * 100 div current;
          sz = (if percent \<ge> cacheGrowPercent then current + sizeMultiplier
            else if percent < cacheShrinkPercent \<and> current > sizeMultiplier
            then (excl * 2 div sizeMultiplier) * sizeMultiplier + sizeMultiplier
            else current) in
      if sz < sizeMultiplier then sizeMultiplier else sz)"

definition checkAndResizeCache :: "'w FsVolume \<Rightarrow> u64 \<Rightarrow> 'w \<Rightarrow> 'w \<times> unit result" where
  "checkAndResizeCache cache sizeMultiplier w = (case fv_Usage cache w of
     Inl e \<Rightarrow> (w, Err (Wrap ''failed to check cache usage'' e))
   | Inr usage \<Rightarrow>
       let current = (if fu_Size usage = 0 then max sizeMultiplier (fu_Excl usage * 2) else fu_Size usage) in
       (case (if fu_Size usage = 0 then fv_Limit cache current w else (w, Ok ())) of
          (w, Inl e) \<Rightarrow> (w, Err (Wrap ''failed to set limit for cache volume'' e))
        | (w, Inr _) \<Rightarrow>
            let sz = resizedCache sizeMultiplier (fu_Excl usage) current in
            if current = sz then (w, Ok ()) else fv_Limit cache sz w))"


section \<open>Starting and stopping disks\<close>

definition TypeCache_Get :: "'w Host \<Rightarrow> string \<Rightarrow> 'w \<Rightarrow> string option" where
  "TypeCache_Get H name w = (case h_readType H name w of
     Inl _ \<Rightarrow> None | Inr data \<Rightarrow> if data = [] then None else Some data)"

definition poolType :: "'w Host \<Rightarrow> 'w FsPool \<Rightarrow> bool \<Rightarrow> 'w \<Rightarrow> 'w \<times> string result" where
  "poolType H pool vm w =
     (let device = fp_Device pool in
      if vm then (w, Ok (if di_Path device = ''/dev/vdd'' \<or> di_Path device = ''/dev/vde'' then HDDDevice else SSDDevice))
      else case fp_Type pool w of
        Inl e \<Rightarrow> (w, Err (Wrap ''failed to get device type'' e))
      | Inr (Some t) \<Rightarrow> (w, Ok t)
      | Inr None \<Rightarrow>
          (case (case TypeCache_Get H (DeviceInfo_Name device) w of
                   Some t \<Rightarrow> Ok t | None \<Rightarrow> rwrap ''failed to detect device type'' (h_DetectType H device w)) of
             Inl e \<Rightarrow> (w, Err e)
           | Inr t \<Rightarrow> (case fp_SetType pool t w of
               (w, Inl e) \<Rightarrow> (w, Err (Wrap ''failed to set device type'' e))
             | (w, Inr _) \<Rightarrow> (w, Ok t))))"

text \<open>One device of \<open>initialize\<close>.\<close>

definition addDevice :: "'w Host \<Rightarrow> bool \<Rightarrow> DeviceInfo \<Rightarrow> 'w Module \<times> 'w \<Rightarrow> 'w Module \<times> 'w" where
  "addDevice H vm device mw = (case mw of (m, w) \<Rightarrow>
     case h_NewPool H device w of
       (w, Inl e) \<Rightarrow> (m\<lparr>m_brokenDevices := m_brokenDevices m @ [(di_Path device, e)]\<rparr>, w)
     | (w, Inr pool) \<Rightarrow>
         (case fp_Mount pool w of
            (w, Inl e) \<Rightarrow> (m\<lparr>m_brokenPools := m_brokenPools m @ [(fp_Name pool, e)]\<rparr>, w)
          | (w, Inr _) \<Rightarrow>
              let usage = (case fp_Usage pool w of Inl _ \<Rightarrow> noUsage | Inr u \<Rightarrow> u) in
              (case poolType H pool vm w of
                 (w, Inl e) \<Rightarrow> (m\<lparr>m_brokenDevices := m_brokenDevices m @ [(di_Path device, e)]\<rparr>, w)
               | (w, Inr t) \<Rightarrow>
                   if t = SSDDevice then
                     (m\<lparr>m_totalSSD := m_totalSSD m + fu_Size usage, m_ssds := m_ssds m @ [pool]\<rparr>, w)
                   else if t = HDDDevice then
                     (m\<lparr>m_totalHDD := m_totalHDD m + fu_Size usage, m_hdds := m_hdds m @ [pool]\<rparr>, w)
                   else (m, w))))"

text \<open>\<open>shutdownUnusedPools\<close> stops at the first error.\<close>

fun shutdownUnused :: "bool \<Rightarrow> 'w FsPool list \<Rightarrow> 'w \<Rightarrow> 'w \<times> unit result" where
  "shutdownUnused vm [] w = (w, Ok ())"
| "shutdownUnused vm (pool # ps) w =
     (let powerOff = (\<lambda>w. shutdownUnused vm ps (if vm then w else fst (fp_Shutdown pool w))) in
      if \<not> is_ok (fp_Mounted pool w) then powerOff w
      else case fp_Volumes pool w of
        Inl e \<Rightarrow> (w, Err e)
      | Inr volumes \<Rightarrow>
          if volumes \<noteq> [] then shutdownUnused vm ps w
          else (case fp_UnMount pool w of
            (w, Inl e) \<Rightarrow> (w, Err e)
          | (w, Inr _) \<Rightarrow> powerOff w))"

definition shutdownUnusedPools :: "bool \<Rightarrow> ('w, unit) op" where
  "shutdownUnusedPools vm mw = (case mw of (m, w) \<Rightarrow>
     case shutdownUnused vm (m_ssds m @ m_hdds m) w of (w, r) \<Rightarrow> ((m, w), r))"

text \<open>\<open>initialize\<close>: an error of \<open>shutdownUnusedPools\<close> is logged; the hourly check of the disks it
  starts is \<open>shutdownDisks\<close> below.\<close>

definition initialize :: "'w Host \<Rightarrow> ('w, unit) op" where
  "initialize H mw =
     (let vm = IsVirtualMachine (h_params H) in
      case h_Devices H (snd mw) of
        Inl e \<Rightarrow> (mw, Err e)
      | Inr devices \<Rightarrow>
          (case fold (addDevice H vm) devices mw of (m, w) \<Rightarrow>
           case h_Partprobe H w of
             (w, Inl e) \<Rightarrow> ((m, w), Err e)
           | (w, Inr _) \<Rightarrow>
               (case ensureCache H (m, w) of
                  (mw, Inl e) \<Rightarrow> (mw, Err e)
                | (mw, Inr _) \<Rightarrow> (fst (shutdownUnusedPools vm mw), Ok ()))))"

definition checkDiskPowerStatus :: "'w Host \<Rightarrow> string \<Rightarrow> 'w \<Rightarrow> bool result" where
  "checkDiskPowerStatus H path w = (case h_smartctl H path w of
     Inl None \<Rightarrow> Ok False
   | Inl (Some e) \<Rightarrow> Err e
   | Inr output \<Rightarrow> Ok (\<exists>block \<in> set (splitString [CHR 0x0A, CHR 0x0A] [] output).
       TrimSpace block \<noteq> [] \<and> Contains block ''ACTIVE''))"

definition shutdownDisk :: "'w Host \<Rightarrow> bool \<Rightarrow> 'w FsPool \<Rightarrow> 'w \<Rightarrow> 'w" where
  "shutdownDisk H vm pool w = (case checkDiskPowerStatus H (di_Path (fp_Device pool)) w of
     Inl _ \<Rightarrow> w
   | Inr on \<Rightarrow> if is_ok (fp_Mounted pool w) \<or> \<not> on \<or> vm then w else fst (fp_Shutdown pool w))"

definition shutdownDisks :: "'w Host \<Rightarrow> bool \<Rightarrow> 'w Module \<times> 'w \<Rightarrow> 'w Module \<times> 'w" where
  "shutdownDisks H vm mw = (fst mw, fold (shutdownDisk H vm) (m_ssds (fst mw) @ m_hdds (fst mw)) (snd mw))"


section \<open>Metrics\<close>

definition poolUsage :: "'w FsPool \<Rightarrow> 'w \<Rightarrow> u64 result" where
  "poolUsage pool w = (case fp_Mounted pool w of
     Inl e \<Rightarrow> if err_is e ErrDeviceNotMounted then Ok 0
       else Err (Wrap ''failed to check pool mount status'' e)
   | Inr _ \<Rightarrow> rbind (rwrap ''failed to check pool usage'' (fp_Usage pool w)) (\<lambda>usage. Ok (fu_Used usage)))"

definition poolsMetrics :: "string \<Rightarrow> 'w \<Rightarrow> 'w FsPool list \<Rightarrow> PoolMetrics list" where
  "poolsMetrics t w ps = concat (map (\<lambda>pool. case poolUsage pool w of
     Inl _ \<Rightarrow> []
   | Inr used \<Rightarrow> [\<lparr>pm_Name = fp_Name pool, pm_Type = t, pm_Size = di_Size (fp_Device pool), pm_Used = used\<rparr>]) ps)"

definition Module_Metrics :: "'w Module \<times> 'w \<Rightarrow> PoolMetrics list" where
  "Module_Metrics mw = poolsMetrics SSDDevice (snd mw) (m_ssds (fst mw)) @ poolsMetrics HDDDevice (snd mw) (m_hdds (fst mw))"


section \<open>Disks for 0-db (device.go)\<close>

definition reportDevice :: "'w FsPool \<Rightarrow> 'w FsVolume \<Rightarrow> FsUsage \<Rightarrow> Device" where
  "reportDevice hdd vol usage = \<lparr>dev_Path = fv_Path vol, dev_ID = fp_Name hdd, dev_Usage = reportUsage usage\<rparr>"

fun listDevices :: "'w \<Rightarrow> 'w FsPool list \<Rightarrow> Device list result" where
  "listDevices w [] = Ok []"
| "listDevices w (hdd # ps) =
     (if \<not> is_ok (fp_Mounted hdd w) then listDevices w ps
      else case fp_Volumes hdd w of
        Inl _ \<Rightarrow> listDevices w ps
      | Inr volumes \<Rightarrow> rbind (fp_Usage hdd w) (\<lambda>usage.
          case find (\<lambda>vol. fv_Name vol = zdbVolume) volumes of
            None \<Rightarrow> listDevices w ps
          | Some vol \<Rightarrow> rmap (\<lambda>rest. reportDevice hdd vol usage # rest) (listDevices w ps)))"

definition Module_Devices :: "'w Host \<Rightarrow> ('w, Device list) op" where
  "Module_Devices H mw = (case pools H PolicyHDDOnly mw of (m, ps) \<Rightarrow> ((m, snd mw), listDevices (snd mw) ps))"

text \<open>
  \<open>DeviceLookup\<close>: when the pool has no volume for 0-db, the code wraps an error that is nil at
  that point, and \<open>errors.Wrap\<close> of nil is nil.
\<close>

definition lookupDevice :: "'w \<Rightarrow> 'w FsPool \<Rightarrow> Device result" where
  "lookupDevice w hdd =
     rbind (rwrap ''device is not allocated'' (fp_Mounted hdd w)) (\<lambda>_.
     rbind (rwrap ''failed to get pool volumes'' (fp_Volumes hdd w)) (\<lambda>volumes.
     rbind (fp_Usage hdd w) (\<lambda>usage.
     case find (\<lambda>vol. fv_Name vol = zdbVolume) volumes of
       Some vol \<Rightarrow> Ok (reportDevice hdd vol usage)
     | None \<Rightarrow> Ok noDevice)))"

definition DeviceLookup :: "'w Host \<Rightarrow> string \<Rightarrow> ('w, Device) op" where
  "DeviceLookup H name mw = (case pools H PolicyHDDOnly mw of (m, ps) \<Rightarrow>
     ((m, snd mw), case find (\<lambda>hdd. fp_Name hdd = name) ps of
        None \<Rightarrow> Err (Errorf ''device not found'')
      | Some hdd \<Rightarrow> lookupDevice (snd mw) hdd))"

fun allocateDevice :: "Unit \<Rightarrow> 'w FsPool list \<Rightarrow> 'w \<Rightarrow> 'w \<times> Device result" where
  "allocateDevice minSize [] w = (w, Err (Errorf ''no more free devices found''))"
| "allocateDevice minSize (hdd # ps) w =
     (if di_Size (fp_Device hdd) < minSize then allocateDevice minSize ps w
      else case fp_Mount hdd w of
        (w, Inl _) \<Rightarrow> allocateDevice minSize ps w
      | (w, Inr _) \<Rightarrow>
          (case fp_Volumes hdd w of
             Inl _ \<Rightarrow> allocateDevice minSize ps w
           | Inr volumes \<Rightarrow>
               if \<exists>vol \<in> set volumes. fv_Name vol = zdbVolume then allocateDevice minSize ps w
               else (case fp_Usage hdd w of
                 Inl e \<Rightarrow> (w, Err e)
               | Inr usage \<Rightarrow>
                   if fu_Used usage + minSize > fu_Size usage then allocateDevice minSize ps w
                   else (case fp_AddVolume hdd zdbVolume w of
                     (w, Inl _) \<Rightarrow> allocateDevice minSize ps w
                   | (w, Inr volume) \<Rightarrow> (w, Ok (reportDevice hdd volume usage))))))"

definition DeviceAllocate :: "'w Host \<Rightarrow> Unit \<Rightarrow> ('w, Device) op" where
  "DeviceAllocate H minSize mw = (case pools H PolicyHDDOnly mw of (m, ps) \<Rightarrow>
     case allocateDevice minSize ps (snd mw) of (w, r) \<Rightarrow> ((m, w), r))"

end
