(* ===== verification/ZdbManager.thy ===== *)
theory ZdbManager
  imports Zdb Kernel StorageModule Engine
begin

text \<open>
  The manager of 0-db workloads, \<open>pkg/primitives/zdb/zdb.go\<close>: a workload is a namespace of a
  0-db, which runs in a container on a disk of its own.
\<close>

section \<open>What the manager calls\<close>

record MountInfo =
  mt_Source :: string
  mt_Target :: string

text \<open>The fields of a container that the manager sets or reads.\<close>

record Container =
  ct_Name :: string
  ct_RootFS :: string
  ct_Network :: string
  ct_Mounts :: "MountInfo list"
  ct_Entrypoint :: string
  ct_CreatedAt :: timestamp

definition noContainer :: Container where
  "noContainer = \<lparr>ct_Name = [], ct_RootFS = [], ct_Network = [], ct_Mounts = [], ct_Entrypoint = [], ct_CreatedAt = 0\<rparr>"

record ZDBResult =
  zr_Namespace :: string
  zr_IPs :: "string list"
  zr_Port :: nat

definition noZDBResult :: ZDBResult where
  "noZDBResult = \<lparr>zr_Namespace = [], zr_IPs = [], zr_Port = 0\<rparr>"

text \<open>
  The other modules of the node over the bus: containers, storage, flists, the network; the
  files; JSON; the clock. \<open>ze_tries\<close> is how often a call is repeated before the time of
  \<open>backoff.RetryNotify\<close> is over, and \<open>ze_wait\<close> the wait between two calls. \<open>ze_order\<close> and
  \<open>ze_devOrder\<close> are the orders of an iteration over a map.
\<close>

record 'w ZdbEnv =
  ze_files :: "'w ZFiles"
  ze_redis :: "'w Redis"
  ze_params :: Params
  ze_unmarshal :: "bytes \<Rightarrow> ZDB result"
  ze_marshal :: "ZDBResult \<Rightarrow> bytes result"
  ze_List :: "'w \<Rightarrow> string list result"
  ze_Inspect :: "string \<Rightarrow> 'w \<Rightarrow> Container result"
  ze_Run :: "Container \<Rightarrow> 'w \<Rightarrow> 'w \<times> string result"
  ze_Delete :: "string \<Rightarrow> 'w \<Rightarrow> 'w \<times> unit result"
  ze_DeviceLookup :: "string \<Rightarrow> 'w \<Rightarrow> 'w \<times> Device result"
  ze_DeviceAllocate :: "Unit \<Rightarrow> 'w \<Rightarrow> 'w \<times> Device result"
  ze_Devices :: "'w \<Rightarrow> 'w \<times> Device list result"
  ze_HubURL :: string
  ze_JoinPath :: "string \<Rightarrow> string list \<Rightarrow> string result"
  ze_FlistHash :: "string \<Rightarrow> 'w \<Rightarrow> string result"
  ze_FlistMount :: "string \<Rightarrow> string \<Rightarrow> Unit \<Rightarrow> bool \<Rightarrow> 'w \<Rightarrow> 'w \<times> string result"
  ze_FlistUnmount :: "string \<Rightarrow> 'w \<Rightarrow> 'w \<times> unit result"
  ze_HashFromRootPath :: "string \<Rightarrow> 'w \<Rightarrow> string result"
  ze_EnsureZDBPrepare :: "string \<Rightarrow> 'w \<Rightarrow> 'w \<times> string result"
  ze_AttachZDB :: "string \<Rightarrow> 'w \<Rightarrow> 'w \<times> string result"
  ze_Addrs :: "string \<Rightarrow> string \<Rightarrow> 'w \<Rightarrow> bytes list result"
  ze_ZDBIPs :: "string \<Rightarrow> 'w \<Rightarrow> bytes list result"
  ze_MigrateZdbMacvlanToVeth :: "'w \<Rightarrow> 'w \<times> unit result"
  ze_MkdirAll :: "string \<Rightarrow> 'w \<Rightarrow> 'w \<times> unit result"
  ze_Remove :: "string \<Rightarrow> 'w \<Rightarrow> 'w \<times> unit result"
  ze_now :: "'w \<Rightarrow> timestamp"
  ze_tries :: nat
  ze_wait :: "'w \<Rightarrow> 'w"
  ze_order :: "(string \<times> Container) list \<Rightarrow> (string \<times> Container) list"
  ze_devOrder :: "Device list \<Rightarrow> Device list"

definition flistRepo :: string where "flistRepo = ''tf-autobuilder''"
definition flistName :: string where "flistName = ''threefoldtech-0-db-release-v2.0.8-55737c9202.flist''"
definition zdbContainerDataMnt :: string where "zdbContainerDataMnt = ''/zdb''"
definition zdbPort :: nat where "zdbPort = 9900"

definition newSafeError :: "err option \<Rightarrow> err option" where
  "newSafeError err = map_option Safe err"

text \<open>\<open>backoff.RetryNotify\<close>: until the call succeeds or the time is over.\<close>

primrec retryNotify :: "nat \<Rightarrow> ('s \<Rightarrow> 's) \<Rightarrow> ('s \<Rightarrow> 's \<times> unit result) \<Rightarrow> 's \<Rightarrow> 's \<times> unit result" where
  "retryNotify 0 wait f s = f s"
| "retryNotify (Suc n) wait f s = (case f s of
     (s, Inr u) \<Rightarrow> (s, Inr u)
   | (s, Inl e) \<Rightarrow> retryNotify n wait f (wait s))"


section \<open>Containers and connections\<close>

definition DataMount :: "Container \<Rightarrow> string result" where
  "DataMount z = (case find (\<lambda>mnt. mt_Target mnt = zdbContainerDataMnt) (ct_Mounts z) of
     Some mnt \<Rightarrow> Ok (mt_Source mnt)
   | None \<Rightarrow> Err (Errorf (''container '' @ squote (ct_Name z) @ '' does not have a valid data mount'')))"

definition socketDir :: "string \<Rightarrow> string" where
  "socketDir containerID = ''/var/run/zdb_'' @ containerID"

definition socketFile :: "string \<Rightarrow> string" where
  "socketFile containerID = Join [socketDir containerID, ''zdb.sock'']"

definition zdbConnection :: "string \<Rightarrow> string" where
  "zdbConnection i = ''unix://'' @ i @ ''@'' @ socketFile i"

text \<open>\<open>zdbListContainers\<close>: a map, given in the order of an iteration over it.\<close>

definition zdbListContainers :: "'w ZdbEnv \<Rightarrow> 'w \<Rightarrow> (string \<times> Container) list result" where
  "zdbListContainers E w =
     rbind (rwrap ''failed to list running containers'' (ze_List E w)) (\<lambda>ids.
     Ok (ze_order E (List.map_filter (\<lambda>i. case ze_Inspect E i w of
       Inl _ \<Rightarrow> None
     | Inr container \<Rightarrow> if is_ok (DataMount container) then Some (i, container) else None) (remdups ids))))"

section \<open>Addresses\<close>

text \<open>\<open>IPNet.Contains\<close> for a network of 16 bytes whose mask has 7 bits.\<close>

definition contains7 :: "nat \<Rightarrow> bytes \<Rightarrow> bool" where
  "contains7 first ip \<longleftrightarrow> To4 ip = None \<and> length ip = 16 \<and> (of_char (ip ! 0) :: nat) div 2 = first div 2"

definition isYgg :: "bytes \<Rightarrow> bool" where "isYgg ip = contains7 2 ip"
definition isMycelium :: "bytes \<Rightarrow> bool" where "isMycelium ip = contains7 4 ip"

definition isPublic :: "bytes \<Rightarrow> bool" where
  "isPublic ip \<longleftrightarrow> To4 ip = None \<and> \<not> IP_IsLoopback ip \<and>
     \<not> (length ip = 16 \<and> (of_char (ip ! 0) :: nat) = 0xfe \<and> (of_char (ip ! 1) :: nat) div 64 = 2) \<and>
     \<not> (length ip = 16 \<and> (of_char (ip ! 0) :: nat) = 0xff \<and> (of_char (ip ! 1) :: nat) mod 16 \<in> {1, 2})"

definition ipsToString :: "bytes list \<Rightarrow> string list" where
  "ipsToString ips = map IP_String ips"

definition containerIPsOf :: "bytes list \<Rightarrow> bytes list" where
  "containerIPsOf ips = concat (map (\<lambda>ip.
     (if isPublic ip \<and> \<not> isYgg ip \<and> \<not> isMycelium ip then [ip] else []) @ (if isYgg ip then [ip] else []) @
     (if isMycelium ip then [ip] else [])) ips)"

text \<open>\<open>getIP\<close> of \<open>waitZDBIPs\<close>; its state is the list of addresses found so far.\<close>

definition getIP :: "'w ZdbEnv \<Rightarrow> string \<Rightarrow> timestamp \<Rightarrow> bytes list \<times> 'w \<Rightarrow> (bytes list \<times> 'w) \<times> unit result" where
  "getIP E namespace created s = (case s of (old, w) \<Rightarrow>
     (case rbind (case ze_Addrs E ''eth0'' namespace w of
              Inr ips \<Rightarrow> Ok ips
            | Inl e \<Rightarrow> (case ze_Addrs E ''zdb0'' namespace w of Inr ips \<Rightarrow> Ok ips | Inl _ \<Rightarrow> Err e)) (\<lambda>ips.
           rbind (ze_Addrs E ''ygg0'' namespace w) (\<lambda>yggIps.
           rbind (ze_Addrs E ''my0'' namespace w) (\<lambda>myceliumIps. Ok (ips @ yggIps @ myceliumIps)))) of
        Inl e \<Rightarrow> ((old, w), Err e)
      | Inr ips \<Rightarrow> ((containerIPsOf ips, w),
          if list_ex (\<lambda>ip. isPublic ip \<and> \<not> isYgg ip \<and> \<not> isMycelium ip) ips \<and> list_ex isYgg ips \<and> list_ex isMycelium ips
             \<or> ze_now E w - created > 2 * 60 then Ok ()
          else Err (Errorf ''waiting for more addresses''))))"

definition getIPLight :: "'w ZdbEnv \<Rightarrow> string \<Rightarrow> bytes list \<times> 'w \<Rightarrow> (bytes list \<times> 'w) \<times> unit result" where
  "getIPLight E namespace s = (case s of (old, w) \<Rightarrow>
     (case ze_ZDBIPs E namespace w of Inl e \<Rightarrow> ((old, w), Err e) | Inr ips \<Rightarrow> ((old @ ips, w), Ok ())))"

definition waitIPs :: "'w ZdbEnv \<Rightarrow> (bytes list \<times> 'w \<Rightarrow> (bytes list \<times> 'w) \<times> unit result) \<Rightarrow> 'w \<Rightarrow> 'w \<times> bytes list result" where
  "waitIPs E f w = (case retryNotify (ze_tries E) (\<lambda>(ips, w). (ips, ze_wait E w)) f ([], w) of
     ((ips, w), r) \<Rightarrow> (w, case r of Inr _ \<Rightarrow> Ok ips
       | Inl e \<Rightarrow> if ips = [] then Err (Wrap ''failed to get an IP for interface'' e) else Ok ips))"

definition waitZDBIPs :: "'w ZdbEnv \<Rightarrow> string \<Rightarrow> timestamp \<Rightarrow> 'w \<Rightarrow> 'w \<times> bytes list result" where
  "waitZDBIPs E namespace created = waitIPs E (getIP E namespace created)"

definition waitZDBIPsLight :: "'w ZdbEnv \<Rightarrow> string \<Rightarrow> timestamp \<Rightarrow> 'w \<Rightarrow> 'w \<times> bytes list result" where
  "waitZDBIPsLight E namespace created = waitIPs E (getIPLight E namespace)"

text \<open>The end of \<open>Provision\<close> and of \<open>Update\<close>: the addresses of the container.\<close>

definition resultOf :: "'w ZdbEnv \<Rightarrow> string \<Rightarrow> Container \<Rightarrow> 'w \<Rightarrow> 'w \<times> ZDBResult result" where
  "resultOf E nsID cont w =
     (case (if IsLight (ze_params E) then waitZDBIPsLight else waitZDBIPs) E (ct_Network cont) (ct_CreatedAt cont) w of
        (w, r) \<Rightarrow> (w, rmap (\<lambda>ips. \<lparr>zr_Namespace = nsID, zr_IPs = ipsToString ips, zr_Port = zdbPort\<rparr>)
          (rwrap ''failed to find IP address on zdb0 interface'' r)))"


section \<open>Starting containers\<close>

definition zdbFlistURL :: "'w ZdbEnv \<Rightarrow> string result" where
  "zdbFlistURL E = rwrap ''failed to construct zdb flist url'' (ze_JoinPath E (ze_HubURL E) [flistRepo, flistName])"

definition zdbRootFS :: "'w ZdbEnv \<Rightarrow> 'w \<Rightarrow> 'w \<times> string result" where
  "zdbRootFS E w = (case rbind (zdbFlistURL E) (\<lambda>url.
       rmap (\<lambda>hash. (url, hash)) (rwrap ''failed to get flist hash'' (ze_FlistHash E url w))) of
     Inl e \<Rightarrow> (w, Err e)
   | Inr (url, hash) \<Rightarrow> (case ze_FlistMount E hash url (10 * Megabyte) False w of
       (w, r) \<Rightarrow> (w, rwrap ''failed to mount zdb flist'' r)))"

text \<open>The data of version 1 is deleted; errors are logged, and an error of the check counts as no.\<close>

definition dataMigration :: "'w ZdbEnv \<Rightarrow> string \<Rightarrow> 'w \<Rightarrow> 'w" where
  "dataMigration E volume w = (let F = ze_files E in
     if IsZDBVersion1 F volume w = Ok True then
       fold (\<lambda>sub w. fst (zf_RemoveAll F (Join [volume, sub]) w)) [''data'', ''index''] w
     else w)"

definition zdbRun :: "'w ZdbEnv \<Rightarrow> string \<Rightarrow> string \<Rightarrow> string \<Rightarrow> string \<Rightarrow> string \<Rightarrow> string \<Rightarrow> 'w \<Rightarrow> 'w \<times> unit result" where
  "zdbRun E name rootfs cmd netns volumepath socketdir w =
     (let conf = \<lparr>ct_Name = name, ct_RootFS = rootfs, ct_Network = netns,
         ct_Mounts = [\<lparr>mt_Source = volumepath, mt_Target = zdbContainerDataMnt\<rparr>, \<lparr>mt_Source = socketdir, mt_Target = ''/socket''\<rparr>],
         ct_Entrypoint = cmd, ct_CreatedAt = 0\<rparr> in
      case ze_Run E conf (dataMigration E volumepath w) of (w, r) \<Rightarrow> (w, rmap (\<lambda>_. ()) r))"

definition zdbCommand :: "Device \<Rightarrow> string" where
  "zdbCommand device = ''/bin/zdb --protect --admin '' @ squote (dev_ID device)
     @ '' --data /zdb/data --index /zdb/index  --listen :: --port '' @ dec zdbPort @ '' --socket /socket/zdb.sock --dualnet''"

definition zdbCleanup :: "'w ZdbEnv \<Rightarrow> string \<Rightarrow> 'w \<Rightarrow> 'w" where
  "zdbCleanup E name w = fst (ze_FlistUnmount E name (fst (ze_Delete E name w)))"

text \<open>
  \<open>createZdbContainer\<close> and \<open>createZdbContainerLight\<close> differ in the network they ask
  (\<open>prepare\<close>). A 0-db that answers already is left alone.
\<close>

definition startZdb :: "'w ZdbEnv \<Rightarrow> Device \<Rightarrow> string \<Rightarrow> string \<Rightarrow> 'w \<Rightarrow> 'w \<times> unit result" where
  "startZdb E device rootFS netNsName w =
     (let name = dev_ID device; R = ze_redis E in
      case ze_Remove E (socketFile name) w of (w, removed) \<Rightarrow>
      if \<not> is_ok removed \<and> removed \<noteq> Err ErrNotExist then (w, removed)
      else (case zdbRun E name rootFS (zdbCommand device) netNsName (dev_Path device) (socketDir name) w of
        (w, Inl e) \<Rightarrow> (zdbCleanup E name w, Err (Wrap ''failed to create container'' e))
      | (w, Inr _) \<Rightarrow> (case retryNotify (ze_tries E) (ze_wait E) (\<lambda>w. (w, Connect R (zdbConnection name) w)) w of
          (w, Inl e) \<Rightarrow> (zdbCleanup E name w, Err (Wrap ''failed to establish connection to zdb'' e))
        | (w, Inr _) \<Rightarrow> (w, Ok ()))))"

definition createContainer ::
    "'w ZdbEnv \<Rightarrow> (string \<Rightarrow> 'w \<Rightarrow> 'w \<times> string result) \<Rightarrow> Device \<Rightarrow> 'w \<Rightarrow> 'w \<times> unit result" where
  "createContainer E prepare device w =
     (let name = dev_ID device in
      case zdbFlistURL E of Inl e \<Rightarrow> (w, Err e) | Inr _ \<Rightarrow>
      (case zdbRootFS E w of
        (w, Inl e) \<Rightarrow> (w, Err e)
      | (w, Inr rootFS) \<Rightarrow> (case prepare name w of
          (w, Inl e) \<Rightarrow> (fst (ze_FlistUnmount E name w), Err (Wrap ''failed to prepare zdb network'' e))
        | (w, Inr netNsName) \<Rightarrow> (case ze_MkdirAll E (socketDir name) w of (w, made) \<Rightarrow>
            if \<not> is_ok made \<and> made \<noteq> Err ErrExist then (w, rwrap (''failed to create directory: '' @ socketDir name) made)
            else if is_ok (Connect (ze_redis E) (zdbConnection name) w) then (w, Ok ())
            else startZdb E device rootFS netNsName w))))"

definition createZdbContainer :: "'w ZdbEnv \<Rightarrow> Device \<Rightarrow> 'w \<Rightarrow> 'w \<times> unit result" where
  "createZdbContainer E = createContainer E (ze_EnsureZDBPrepare E)"

definition createZdbContainerLight :: "'w ZdbEnv \<Rightarrow> Device \<Rightarrow> 'w \<Rightarrow> 'w \<times> unit result" where
  "createZdbContainerLight E = createContainer E (ze_AttachZDB E)"

definition ensureZdbContainer :: "'w ZdbEnv \<Rightarrow> Device \<Rightarrow> 'w \<Rightarrow> 'w \<times> Container result" where
  "ensureZdbContainer E device w = (case ze_Inspect E (dev_ID device) w of
     Inr cont \<Rightarrow> (w, Ok cont)
   | Inl e \<Rightarrow>
       if \<not> Contains (err_text e) ''not found'' then (w, Err e)
       else (case (if IsLight (ze_params E) then createZdbContainerLight else createZdbContainer) E device w of
         (w, Inl e) \<Rightarrow> (w, Err e)
       | (w, Inr _) \<Rightarrow> (w, ze_Inspect E (dev_ID device) w)))"


section \<open>Provision\<close>

text \<open>
  The loop over the containers: a container that has the namespace already, or the containers
  with room for it. The space is compared in 64 bits.
\<close>

fun scanContainers :: "'w ZdbEnv \<Rightarrow> string \<Rightarrow> Unit \<Rightarrow> (string \<times> Container) list \<Rightarrow> 'w \<Rightarrow> 'w \<times> (Container + Container list)" where
  "scanContainers E nsID sz [] w = (w, Inr [])"
| "scanContainers E nsID sz ((i, container) # rest) w =
     (case rbind (DataMount container) (\<lambda>dataPath. Index_Namespaces (ze_files E) dataPath w) of
        Inl _ \<Rightarrow> scanContainers E nsID sz rest w
      | Inr nss \<Rightarrow>
          if nsID \<in> ni_Name ` set nss then (w, Inl container)
          else (case ze_DeviceLookup E (ct_Name container) w of
            (w, Inl _) \<Rightarrow> scanContainers E nsID sz rest w
          | (w, Inr device) \<Rightarrow> (case scanContainers E nsID sz rest w of
              (w, Inl found) \<Rightarrow> (w, Inl found)
            | (w, Inr cs) \<Rightarrow> (w, Inr ((if us_Used (dev_Usage device) + sz \<le> us_Size (dev_Usage device) then [container] else []) @ cs)))))"

definition createZDBNamespace :: "'w ZdbEnv \<Rightarrow> string \<Rightarrow> string \<Rightarrow> ZDB \<Rightarrow> 'w \<Rightarrow> 'w \<times> unit result" where
  "createZDBNamespace E containerID nsID config w =
     (let R = ze_redis E; cl = zdbConnection containerID;
          step = (\<lambda>msg f next w. case f w of (w, Inl e) \<Rightarrow> (w, Err (Wrap msg e)) | (w, Inr _) \<Rightarrow> next w);
          settings = step (''failed to make namespace '' @ nsID @ '' public in 0-db: '' @ containerID) (NamespaceSetPublic R cl nsID (zdb_Public config))
            (step (''failed to set size on namespace '' @ nsID @ '' in 0-db: '' @ containerID) (NamespaceSetSize R cl nsID (zdb_Size config))
              (\<lambda>w. (w, Ok ())));
          password = (if zdb_Password config \<noteq> [] then
              step (''failed to set password namespace '' @ nsID @ '' in 0-db: '' @ containerID)
                (NamespaceSetPassword R cl nsID (zdb_Password config)) settings
            else settings) in
      case rbind (rwrap (''failed to connect to 0-db: '' @ containerID) (Connect R cl w)) (\<lambda>_. Exist R cl nsID w) of
        Inl e \<Rightarrow> (w, Err e)
      | Inr exists \<Rightarrow>
          if exists then password w
          else step (''failed to create namespace in 0-db: '' @ containerID) (CreateNamespace R cl nsID)
            (step ''failed to set namespace mode'' (NamespaceSetMode R cl nsID (zdb_Mode config)) password) w)"

text \<open>A container for a new namespace: one that answers, or a new one on a newly allocated disk.\<close>

definition pickContainer :: "'w ZdbEnv \<Rightarrow> Unit \<Rightarrow> Container list \<Rightarrow> 'w \<Rightarrow> 'w \<times> Container result" where
  "pickContainer E sz candidates w =
     (let cont = (case find (\<lambda>c. is_ok (Connect (ze_redis E) (zdbConnection (ct_Name c)) w)) candidates of
        None \<Rightarrow> noContainer | Some c \<Rightarrow> c) in
      if ct_Name cont \<noteq> [] then (w, Ok cont)
      else (case ze_DeviceAllocate E sz w of
        (w, Inl e) \<Rightarrow> (w, Err (Wrap ''couldn't allocate device to satisfy namespace size'' e))
      | (w, Inr device) \<Rightarrow> (case ensureZdbContainer E device w of
          (w, r) \<Rightarrow> (w, rwrap ''failed to start zdb container'' r))))"

definition zdbProvisionImpl :: "'w ZdbEnv \<Rightarrow> WorkloadWithID \<Rightarrow> 'w \<Rightarrow> 'w \<times> ZDBResult result" where
  "zdbProvisionImpl E wl w =
     (case rbind (rwrap ''failed to decode reservation schema'' (ze_unmarshal E (wl_Data (wi_Workload wl)))) (\<lambda>config.
           rmap (\<lambda>cs. (config, cs)) (rwrap ''failed to list container data volumes'' (zdbListContainers E w))) of
        Inl e \<Rightarrow> (w, Err e)
      | Inr (config, containers) \<Rightarrow>
          (case scanContainers E (wi_ID wl) (zdb_Size config) containers w of
             (w, Inl container) \<Rightarrow> resultOf E (wi_ID wl) container w
           | (w, Inr candidates) \<Rightarrow> (case pickContainer E (zdb_Size config) candidates w of
               (w, Inl e) \<Rightarrow> (w, Err e)
             | (w, Inr cont) \<Rightarrow> (case resultOf E (wi_ID wl) cont w of
                 (w, Inl e) \<Rightarrow> (w, Err e)
               | (w, Inr res) \<Rightarrow> (case createZDBNamespace E (ct_Name cont) (wi_ID wl) config w of
                   (w, r) \<Rightarrow> (w, rmap (\<lambda>_. res) (rwrap ''failed to create zdb namespace'' r)))))))"


section \<open>Deprovision, pause and resume\<close>

fun decommissionIn :: "'w ZdbEnv \<Rightarrow> string \<Rightarrow> (string \<times> Container) list \<Rightarrow> 'w \<Rightarrow> 'w \<times> unit result" where
  "decommissionIn E nsID [] w = (w, Ok ())"
| "decommissionIn E nsID ((i, container) # rest) w =
     (let R = ze_redis E; con = zdbConnection i in
      if is_ok (Connect R con w) then
        (if Exist R con nsID w = Ok True then
           (case DeleteNamespace R con nsID w of
              (w, Inl e) \<Rightarrow> (w, Err (Wrap ''failed to delete namespace'' e))
            | (w, Inr _) \<Rightarrow> decommissionIn E nsID rest w)
         else decommissionIn E nsID rest w)
      else (case DataMount container of
        Inl e \<Rightarrow> (w, Err e)
      | Inr data \<Rightarrow>
          if \<not> Index_Exists (ze_files E) data nsID w then decommissionIn E nsID rest w
          else Index_Delete (ze_files E) data nsID w))"

definition zdbDecommissionImpl :: "'w ZdbEnv \<Rightarrow> WorkloadWithID \<Rightarrow> 'w \<Rightarrow> 'w \<times> unit result" where
  "zdbDecommissionImpl E wl w = (case rwrap ''failed to list running zdbs'' (zdbListContainers E w) of
     Inl e \<Rightarrow> (w, Err e)
   | Inr containers \<Rightarrow> decommissionIn E (wi_ID wl) containers w)"

definition findContainer :: "'w ZdbEnv \<Rightarrow> string \<Rightarrow> 'w \<Rightarrow> string result" where
  "findContainer E name w =
     rbind (rwrap ''failed to list running zdbs'' (zdbListContainers E w)) (\<lambda>containers.
     case find (\<lambda>(i, _). is_ok (Connect (ze_redis E) (zdbConnection i) w) \<and> Exist (ze_redis E) (zdbConnection i) name w = Ok True) containers of
       None \<Rightarrow> Err ErrNotExist | Some (i, _) \<Rightarrow> Ok (zdbConnection i))"

definition setLock :: "'w ZdbEnv \<Rightarrow> bool \<Rightarrow> err \<Rightarrow> ('s, 'w) action" where
  "setLock E lock done ctx s wl w = (case findContainer E (wi_ID wl) w of
     Inl e \<Rightarrow> (if e = ErrNotExist then None else Some (response_UnChanged e), w)
   | Inr cl \<Rightarrow> (case NamespaceSetLock (ze_redis E) cl (wi_ID wl) lock w of
       (w, Inl e) \<Rightarrow> (Some (response_UnChanged (Wrap ''failed to set namespace locking'' e)), w)
     | (w, Inr _) \<Rightarrow> (Some done, w)))"

definition zdb_Pause :: "'w ZdbEnv \<Rightarrow> ('s, 'w) action" where
  "zdb_Pause E = setLock E True response_Paused"

definition zdb_Resume :: "'w ZdbEnv \<Rightarrow> ('s, 'w) action" where
  "zdb_Resume E = setLock E False response_Ok"


section \<open>Update\<close>

fun addReserved :: "'w Redis \<Rightarrow> string \<Rightarrow> 'w \<Rightarrow> string list \<Rightarrow> Unit \<times> Unit \<Rightarrow> (Unit \<times> Unit) result" where
  "addReserved R con w [] acc = Ok acc"
| "addReserved R con w (i # ids) acc = rbind (Client_Namespace R con i w) (\<lambda>ns.
     addReserved R con w ids (if ns_Name ns = ''default'' then ns_DataDiskFreespace ns else fst acc, snd acc + ns_DataLimit ns))"

definition reservedSpace :: "'w Redis \<Rightarrow> string \<Rightarrow> 'w \<Rightarrow> (Unit \<times> Unit) result" where
  "reservedSpace R con w = rbind (Namespaces R con w) (\<lambda>nss. addReserved R con w nss (0, 0))"

definition updateSize :: "'w Redis \<Rightarrow> string \<Rightarrow> string \<Rightarrow> ZDB \<Rightarrow> ZDB \<Rightarrow> 'w \<Rightarrow> 'w \<times> unit result" where
  "updateSize R con name old new w =
     (if zdb_Size new = zdb_Size old then (w, Ok ())
      else case reservedSpace R con w of
        Inl e \<Rightarrow> (w, Err (response_UnChanged (Wrap ''failed to calculate free/reserved space from zdb'' e)))
      | Inr (free, reserved) \<Rightarrow>
          if reserved + zdb_Size new - zdb_Size old > free then
            (w, Err (response_UnChanged (Errorf ''no enough free space to support new size'')))
          else (case NamespaceSetSize R con name (zdb_Size new) w of
            (w, Inl e) \<Rightarrow> (w, Err (response_UnChanged (Wrap ''failed to set new zdb namespace size'' e)))
          | (w, Inr _) \<Rightarrow> (w, Ok ())))"

definition updateNamespace :: "'w Redis \<Rightarrow> string \<Rightarrow> string \<Rightarrow> ZDB \<Rightarrow> ZDB \<Rightarrow> 'w \<Rightarrow> 'w \<times> unit result" where
  "updateNamespace R con name old new w =
     (let change = (\<lambda>changed msg f next w. if \<not> changed then next w else case f w of
        (w, Inl e) \<Rightarrow> (w, Err (response_UnChanged (Wrap msg e))) | (w, Inr _) \<Rightarrow> next w) in
      case updateSize R con name old new w of
        (w, Inl e) \<Rightarrow> (w, Err e)
      | (w, Inr _) \<Rightarrow>
          change (zdb_Password new \<noteq> zdb_Password old) ''failed to set new password'' (NamespaceSetPassword R con name (zdb_Password new))
            (change (zdb_Public new \<noteq> zdb_Public old) ''failed to set public flag'' (NamespaceSetPublic R con name (zdb_Public new))
              (\<lambda>w. (w, Ok ()))) w)"

fun updateIn :: "'w ZdbEnv \<Rightarrow> string \<Rightarrow> ZDB \<Rightarrow> ZDB \<Rightarrow> (string \<times> Container) list \<Rightarrow> 'w \<Rightarrow> 'w \<times> ZDBResult result" where
  "updateIn E name old new [] w = (w, Err (Errorf ''namespace not found''))"
| "updateIn E name old new ((i, container) # rest) w =
     (let R = ze_redis E; con = zdbConnection i in
      if \<not> is_ok (Connect R con w) \<or> Exist R con name w \<noteq> Ok True then updateIn E name old new rest w
      else (case updateNamespace R con name old new w of
        (w, Inl e) \<Rightarrow> (w, Err e)
      | (w, Inr _) \<Rightarrow> resultOf E name container w))"

text \<open>\<open>provision.GetWorkload\<close> (engine.go): the last state of a workload of the current deployment.\<close>

definition GetWorkload :: "'s Storage \<Rightarrow> Ctx \<Rightarrow> 's \<Rightarrow> Name \<Rightarrow> WorkloadWithID result" where
  "GetWorkload S ctx s name =
     rbind (GetDeploymentID ctx) (\<lambda>(twin, deployment).
     rmap (\<lambda>wl. \<lparr>wi_Workload = wl, wi_ID = NewUncheckedWorkloadID twin deployment name\<rparr>) (st_Current S twin deployment name s))"

definition zdbUpdateImpl :: "'w ZdbEnv \<Rightarrow> 's Storage \<Rightarrow> Ctx \<Rightarrow> 's \<Rightarrow> WorkloadWithID \<Rightarrow> 'w \<Rightarrow> 'w \<times> ZDBResult result" where
  "zdbUpdateImpl E S ctx s wl w =
     (let name = wl_Name (wi_Workload wl) in
      case rbind (rwrap (''no zdb workload with name '' @ squote name @ '' is deployed'') (GetWorkload S ctx s name)) (\<lambda>current.
           rbind (rwrap ''failed to decode reservation schema'' (ze_unmarshal E (wl_Data (wi_Workload current)))) (\<lambda>old.
           rbind (rwrap ''failed to decode reservation schema'' (ze_unmarshal E (wl_Data (wi_Workload wl)))) (\<lambda>new.
           rbind (fail_if (zdb_Mode new \<noteq> zdb_Mode old) (response_UnChanged (Errorf ''cannot change namespace mode''))) (\<lambda>_.
           rbind (fail_if (zdb_Size new < zdb_Size old) (response_UnChanged (Errorf ''cannot shrink zdb namespace''))) (\<lambda>_.
           rbind (fail_if (zdb_Size new = zdb_Size old \<and> zdb_Password new = zdb_Password old \<and> zdb_Public new = zdb_Public old)
             ErrNoActionNeeded) (\<lambda>_.
           case zdbListContainers E w of
             Inl e \<Rightarrow> Err (response_UnChanged (Wrap ''failed to list running zdbs'' e))
           | Inr containers \<Rightarrow> Ok (old, new, containers))))))) of
        Inl e \<Rightarrow> (w, Err e)
      | Inr (old, new, containers) \<Rightarrow> updateIn E (wi_ID wl) old new containers w)"


section \<open>Start of the node\<close>

definition upgradeRuntime :: "'w ZdbEnv \<Rightarrow> string \<Rightarrow> string \<Rightarrow> 'w \<Rightarrow> 'w \<times> unit result" where
  "upgradeRuntime E expected container w =
     (let source = (\<lambda>continfo target. foldl (\<lambda>p mnt. if mt_Target mnt = target then mt_Source mnt else p) [] (ct_Mounts continfo)) in
      case rbind (ze_Inspect E container w) (\<lambda>continfo.
           rmap (\<lambda>hash. (continfo, hash)) (rwrap ''could not find container running flist hash'' (ze_HashFromRootPath E (ct_RootFS continfo) w))) of
        Inl e \<Rightarrow> (w, Err e)
      | Inr (continfo, hash) \<Rightarrow>
          let volumeid = ct_Name continfo; volumepath = source continfo zdbContainerDataMnt in
          if hash = expected then (w, Ok ())
          else if volumepath = [] then (w, Err (Errorf ''could not grab container /data mountpoint''))
          else (case ze_Delete E container w of
            (w, Inl e) \<Rightarrow> (w, Err (Wrap ''could not stop running zdb container'' e))
          | (w, Inr _) \<Rightarrow> (case zdbRootFS E (fst (ze_FlistUnmount E volumeid w)) of
              (w, Inl e) \<Rightarrow> (w, Err (Wrap ''could not initialize zdb rootfs'' e))
            | (w, Inr rootfs) \<Rightarrow>
                (case zdbRun E volumeid rootfs (ct_Entrypoint continfo) (ct_Network continfo) volumepath (source continfo ''/socket'') w of
                   (w, Inl _) \<Rightarrow> (fst (ze_FlistUnmount E volumeid w), Ok ())
                 | (w, Inr _) \<Rightarrow> (w, Ok ())))))"

text \<open>The disks by their identifier; the last of two with the same identifier counts.\<close>

definition poolNames :: "Device list \<Rightarrow> (string \<rightharpoonup> Device)" where
  "poolNames devices = fold (\<lambda>d m. m(dev_ID d \<mapsto> d)) devices (\<lambda>_. None)"

definition initContainer ::
    "'w ZdbEnv \<Rightarrow> (string \<Rightarrow> 'w \<Rightarrow> 'w \<times> string result) \<Rightarrow> string \<Rightarrow> string \<Rightarrow> (string \<rightharpoonup> Device) \<times> 'w \<Rightarrow> (string \<rightharpoonup> Device) \<times> 'w" where
  "initContainer E prepare expected container s = (case s of (names, w) \<Rightarrow>
     let device = (case names container of None \<Rightarrow> [] | Some d \<Rightarrow> dev_ID d) in
     (names(container := None), fst (prepare device (fst (upgradeRuntime E expected container w)))))"

definition initializeWith ::
    "'w ZdbEnv \<Rightarrow> (string \<Rightarrow> 'w \<Rightarrow> 'w \<times> string result) \<Rightarrow> ('w \<Rightarrow> 'w) \<Rightarrow> 'w \<Rightarrow> 'w \<times> unit result" where
  "initializeWith E prepare migrate w =
     (case rbind (zdbFlistURL E) (\<lambda>url. ze_FlistHash E url w) of
        Inl e \<Rightarrow> (w, Err e)
      | Inr expected \<Rightarrow> (case ze_Devices E w of
          (w, Inl e) \<Rightarrow> (w, Err (Wrap ''failed to list allocated zdb devices'' e))
        | (w, Inr devices) \<Rightarrow> (case ze_List E w of
            Inl e \<Rightarrow> (w, Err (Wrap ''failed to list running zdb container'' e))
          | Inr containers \<Rightarrow>
              (case fold (initContainer E prepare expected) containers (poolNames devices, w) of (names, w) \<Rightarrow>
                 (fold (\<lambda>d w. fst (ensureZdbContainer E d w))
                    (ze_devOrder E (List.map_filter names (remdups (map dev_ID devices)))) (migrate w), Ok ())))))"

definition zdb_initialize :: "'w ZdbEnv \<Rightarrow> 'w \<Rightarrow> 'w \<times> unit result" where
  "zdb_initialize E = initializeWith E (ze_EnsureZDBPrepare E) (\<lambda>w. fst (ze_MigrateZdbMacvlanToVeth E w))"

definition zdb_initializeLight :: "'w ZdbEnv \<Rightarrow> 'w \<Rightarrow> 'w \<times> unit result" where
  "zdb_initializeLight E = initializeWith E (ze_AttachZDB E) (\<lambda>w. w)"

definition zdb_Initialize :: "'w ZdbEnv \<Rightarrow> 'w \<Rightarrow> 'w \<times> unit result" where
  "zdb_Initialize E = (if IsLight (ze_params E) then zdb_initializeLight E else zdb_initialize E)"


section \<open>The manager\<close>

definition errOf :: "'a result \<Rightarrow> err option" where
  "errOf r = (case r of Inl e \<Rightarrow> Some e | Inr _ \<Rightarrow> None)"

definition provided :: "'w ZdbEnv \<Rightarrow> 'w \<times> ZDBResult result \<Rightarrow> (bytes result \<times> err option) \<times> 'w" where
  "provided E wr = (case wr of (w, r) \<Rightarrow>
     ((ze_marshal E (case r of Inl _ \<Rightarrow> noZDBResult | Inr res \<Rightarrow> res), newSafeError (errOf r)), w))"

definition zdb_Provision :: "'w ZdbEnv \<Rightarrow> ('s, 'w) provide" where
  "zdb_Provision E ctx s wl w = provided E (zdbProvisionImpl E wl w)"

definition zdb_Update :: "'w ZdbEnv \<Rightarrow> 's Storage \<Rightarrow> ('s, 'w) provide" where
  "zdb_Update E S ctx s wl w = provided E (zdbUpdateImpl E S ctx s wl w)"

definition zdb_Deprovision :: "'w ZdbEnv \<Rightarrow> ('s, 'w) action" where
  "zdb_Deprovision E ctx s wl w = (case zdbDecommissionImpl E wl w of (w, r) \<Rightarrow> (newSafeError (errOf r), w))"

definition zdbManager :: "'w ZdbEnv \<Rightarrow> 's Storage \<Rightarrow> ('s, 'w) Manager" where
  "zdbManager E S = \<lparr>mgr_Provision = zdb_Provision E, mgr_Deprovision = zdb_Deprovision E,
     mgr_Initializer = Some (\<lambda>w. case zdb_Initialize E w of (w, r) \<Rightarrow> (errOf r, w)),
     mgr_Updater = Some (zdb_Update E S),
     mgr_Pauser = Some \<lparr>pauser_Pause = zdb_Pause E, pauser_Resume = zdb_Resume E\<rparr>\<rparr>"

end
