(* ===== verification/ZdbProps.thy ===== *)
theory ZdbProps
  imports ZdbManager
begin

text \<open>
  Properties of the namespaces of 0-db: reading their headers, hiding identifiers in errors, and
  what the manager does to the namespaces of the 0-dbs it talks to, from what 0-db promises of
  its commands (the locale \<open>zdb_server\<close>).
\<close>

section \<open>Headers\<close>

definition writeHeaderV2 :: "u8 \<Rightarrow> Header \<Rightarrow> bytes" where
  "writeHeaderV2 flags h = le_bytes 4 (unat (hd_Version h)) @ le_bytes 1 (length (hd_Name h)) @ le_bytes 1 (length (hd_Password h))
     @ le_bytes 8 (unat (hd_MaxSize h)) @ le_bytes 1 (unat flags) @ hd_Name h @ hd_Password h"

lemma le_bytes_length [simp]: "length (le_bytes k n) = k"
  by (induction k arbitrary: n) auto

lemma le_value_bytes: "n < 256 ^ k \<Longrightarrow> le_value (le_bytes k n) = n"
proof (induction k arbitrary: n)
  case (Suc k)
  then have "n div 256 < 256 ^ k" by (simp add: less_mult_imp_div_less mult.commute)
  with Suc.IH show ?case by simp
qed simp

lemma readFull_append: "length b = n \<Longrightarrow> readFull n (b @ r) = Ok (b, r)"
  by (auto simp: readFull_def)

lemma readFull_short: "length r < n \<Longrightarrow> \<not> is_ok (readFull n r)"
  by (simp add: readFull_def)

lemma readInternal_write:
  assumes "length (hd_Name h) < 256" and "length (hd_Password h) < 256"
  shows "readInternalHeader (writeHeaderV2 flags h @ r) =
    Ok (\<lparr>ih_Version = hd_Version h, ih_NameLength = of_nat (length (hd_Name h)), ih_PasswordLength = of_nat (length (hd_Password h)),
      ih_MaxSize = hd_MaxSize h, ih_Flags = flags\<rparr>, hd_Name h @ hd_Password h @ r)"
proof -
  let ?b = "le_bytes 4 (unat (hd_Version h)) @ le_bytes 1 (length (hd_Name h)) @ le_bytes 1 (length (hd_Password h))
     @ le_bytes 8 (unat (hd_MaxSize h)) @ le_bytes 1 (unat flags)"
  have b: "writeHeaderV2 flags h @ r = ?b @ hd_Name h @ hd_Password h @ r" by (simp add: writeHeaderV2_def)
  have v: "unat (hd_Version h) < 256 ^ 4" "unat (hd_MaxSize h) < 256 ^ 8" "unat flags < 256 ^ 1"
    using unsigned_less[of "hd_Version h"] unsigned_less[of "hd_MaxSize h"] unsigned_less[of flags] by simp_all
  have parts: "take 4 ?b = le_bytes 4 (unat (hd_Version h))" "take 1 (drop 4 ?b) = le_bytes 1 (length (hd_Name h))"
    "take 1 (drop 5 ?b) = le_bytes 1 (length (hd_Password h))" "take 8 (drop 6 ?b) = le_bytes 8 (unat (hd_MaxSize h))"
    "drop 14 ?b = le_bytes 1 (unat flags)" by (simp_all del: le_bytes.simps)
  have "readFull 15 (writeHeaderV2 flags h @ r) = Ok (?b, hd_Name h @ hd_Password h @ r)"
    unfolding b by (rule readFull_append) (simp del: le_bytes.simps)
  then show ?thesis
    unfolding readInternalHeader_def using assms
    by (simp only: rmap_simps prod.case parts le_value_bytes[OF v(1)] le_value_bytes[OF v(2)] le_value_bytes[OF v(3)]
      le_value_bytes[of _ 1] power_one_right of_nat_unat ucast_id)
qed

lemma read_write_header:
  assumes "length (hd_Name h) < 256" and "length (hd_Password h) < 256"
  shows "ReadHeaderV2 (writeHeaderV2 flags h @ r) = Ok h"
proof -
  have n: "unat (of_nat (length (hd_Name h)) :: u8) = length (hd_Name h)" "unat (of_nat (length (hd_Password h)) :: u8) = length (hd_Password h)"
    using assms by (simp_all add: unat_of_nat)
  show ?thesis
    by (simp add: ReadHeaderV2_def readInternal_write[OF assms] n readFull_append)
qed

lemma read_short_header:
  assumes "length (hd_Name h) < 256" and "length (hd_Password h) < 256" and "k < length (writeHeaderV2 flags h)"
  shows "\<not> is_ok (ReadHeaderV2 (take k (writeHeaderV2 flags h)))"
proof -
  let ?w = "writeHeaderV2 flags h"
  have len: "length ?w = 15 + length (hd_Name h) + length (hd_Password h)" by (simp add: writeHeaderV2_def del: le_bytes.simps)
  show ?thesis
  proof (cases "k < 15")
    case True
    then have "\<not> is_ok (readFull 15 (take k ?w))" using len by (intro readFull_short) simp
    then show ?thesis by (auto simp: ReadHeaderV2_def readInternalHeader_def is_ok_def split: sum.splits)
  next
    case False
    let ?rest = "take (k - 15) (hd_Name h @ hd_Password h)"
    have cut: "take k ?w = take 15 ?w @ ?rest"
    proof -
      have "drop 15 ?w = hd_Name h @ hd_Password h" by (simp add: writeHeaderV2_def del: le_bytes.simps)
      then show ?thesis using False by (metis append_take_drop_id le_add_diff_inverse not_less take_add)
    qed
    have same: "readInternalHeader (take 15 ?w @ x) = rmap (\<lambda>(bh, _). (bh, x)) (readInternalHeader ?w)" for x
      using len by (cases ?w) (simp_all add: readInternalHeader_def readFull_def)
    have n: "unat (of_nat (length (hd_Name h)) :: u8) = length (hd_Name h)" "unat (of_nat (length (hd_Password h)) :: u8) = length (hd_Password h)"
      using assms by (simp_all add: unat_of_nat)
    have "length ?rest < length (hd_Name h) + length (hd_Password h)" using assms(3) len False by simp
    then have "\<not> is_ok (readFull (length (hd_Name h)) ?rest) \<or>
        (\<forall>name r. readFull (length (hd_Name h)) ?rest = Ok (name, r) \<longrightarrow> \<not> is_ok (readFull (length (hd_Password h)) r))"
      by (auto simp: readFull_def split: if_splits)
    then show ?thesis
      using readInternal_write[OF assms(1,2), of flags "[]"]
      by (auto simp: ReadHeaderV2_def cut same n is_ok_iff rbind_Ok_iff)
  qed
qed


section \<open>Identifiers in errors\<close>

lemma uuid_shape_facts: "length uuid_shape = 36" "uuid_shape ! 8 = (\<lambda>c. c = CHR ''-'')"
  by (simp_all add: uuid_shape_def numeral_3_eq_3 nth_append)

lemma uuid_star: "uuid_prefix s \<Longrightarrow> CHR ''*'' \<notin> set (take 36 s)"
proof
  assume u: "uuid_prefix s" and "CHR ''*'' \<in> set (take 36 s)"
  then obtain i where i: "i < length (take 36 s)" "take 36 s ! i = CHR ''*''" by (auto simp: in_set_conv_nth)
  then have "(uuid_shape ! i) CHR ''*''" using u by (auto simp: uuid_prefix_def list_all2_conv_all_nth)
  moreover have "\<not> p CHR ''*''" if "p \<in> set uuid_shape" for p using that by (auto simp: uuid_shape_def is_hex_def)
  moreover have "i < length uuid_shape" using i(1) by (simp add: uuid_shape_facts)
  ultimately show False using nth_mem by blast
qed

lemma uuid_dash:
  assumes "uuid_prefix s"
  shows "take 9 s = take 8 s @ ''-''" "8 < length s"
proof -
  have len: "length s \<ge> 36" and all: "\<forall>i < 36. (uuid_shape ! i) (take 36 s ! i)"
    using assms by (auto simp: uuid_prefix_def list_all2_conv_all_nth uuid_shape_facts(1))
  have "(uuid_shape ! 8) (take 36 s ! 8)" using all by simp
  then have "s ! 8 = CHR ''-''" by (simp add: uuid_shape_facts)
  then show "take 9 s = take 8 s @ ''-''" "8 < length s" using len take_Suc_conv_app_nth[of 8 s] by simp_all
qed

lemma mask_match: "uuid_prefix s \<Longrightarrow> maskUUID s = take 8 s @ ''-***'' @ maskUUID (drop 36 s)"
  by (cases s) (simp_all add: uuid_prefix_def)

lemma mask_take: "take n (maskUUID s) = take n s \<or> CHR ''*'' \<in> set (take n (maskUUID s))"
proof (induction s arbitrary: n rule: maskUUID.induct)
  case (2 c cs)
  show ?case
  proof (cases "uuid_prefix (c # cs)")
    case True
    let ?s = "c # cs"
    have m: "maskUUID ?s = take 9 ?s @ ''***'' @ maskUUID (drop 36 ?s)" using mask_match[OF True] uuid_dash(1)[OF True] by simp
    have len: "length (take 9 ?s) = 9" using uuid_dash(2)[OF True] by simp
    show ?thesis
    proof (cases "n \<le> 9")
      case True
      then have "take n (maskUUID ?s) = take n (take 9 ?s)" unfolding m using len by (subst take_append) simp
      also have "\<dots> = take n ?s" using True unfolding take_take by (simp add: min_absorb1)
      finally show ?thesis by blast
    next
      case False
      then obtain j where "n = 9 + Suc j" by (metis add_Suc_right less_imp_Suc_add not_le)
      have "take n (a @ CHR ''*'' # r) = a @ CHR ''*'' # take j r" if "length a = 9" for a r using that \<open>n = 9 + Suc j\<close> by simp
      from this[OF len, of "''**'' @ maskUUID (drop 36 ?s)"] have "CHR ''*'' \<in> set (take n (maskUUID ?s))" unfolding m append.simps by simp
      then show ?thesis by blast
    qed
  next
    case False
    then show ?thesis using "2.IH"(2)[of "n - 1"] by (cases n) auto
  qed
qed simp

lemma mask_head: "\<not> uuid_prefix (maskUUID s)"
proof
  assume u: "uuid_prefix (maskUUID s)"
  then have "take 36 (maskUUID s) = take 36 s" using mask_take[of 36 s] uuid_star by blast
  moreover from this u have "36 \<le> length s" by (metis length_take min.absorb_iff2 min_def uuid_prefix_def)
  ultimately have "uuid_prefix s" using u by (simp add: uuid_prefix_def)
  from mask_match[OF this] uuid_dash(2)[OF this] have "CHR ''*'' \<in> set (take 36 (maskUUID s))" by simp
  with uuid_star[OF u] show False by blast
qed

lemma mask_everywhere: "\<not> uuid_prefix (drop k (maskUUID s))"
proof (induction s arbitrary: k rule: maskUUID.induct)
  case 1
  show ?case by (simp add: uuid_prefix_def)
next
  case (2 c cs)
  let ?s = "c # cs"
  show ?case
  proof (cases "uuid_prefix ?s")
    case True
    let ?h = "take 9 ?s @ ''**''" and ?r = "maskUUID (drop 36 ?s)"
    have m: "maskUUID ?s = ?h @ CHR ''*'' # ?r" using mask_match[OF True] uuid_dash(1)[OF True] by simp
    have len: "length ?h = 11" using uuid_dash(2)[OF True] by simp
    show ?thesis
    proof (cases "k \<le> 11")
      case True
      then have "drop k (maskUUID ?s) = drop k ?h @ CHR ''*'' # ?r" unfolding m drop_append len by simp
      moreover have "length (drop k ?h) < 36" using len by simp
      ultimately have "CHR ''*'' \<in> set (take 36 (drop k (maskUUID ?s)))" by (simp add: take_Cons')
      then show ?thesis using uuid_star by blast
    next
      case False
      then have "drop k (maskUUID ?s) = drop (k - 12) ?r" unfolding m drop_append len by (simp add: drop_Cons')
      then show ?thesis using "2.IH"(1)[OF True, of "k - 12"] by simp
    qed
  next
    case False
    then show ?thesis using "2.IH"(2)[OF False, of "k - 1"] mask_head[of ?s] by (cases k) auto
  qed
qed


section \<open>What a 0-db promises\<close>

text \<open>\<open>nss a w\<close>: the namespaces of the 0-db at the address \<open>a\<close>. A command changes one namespace of one 0-db.\<close>

definition changes :: "(string \<Rightarrow> 'w \<Rightarrow> (string \<rightharpoonup> Namespace)) \<Rightarrow> string \<Rightarrow> string \<Rightarrow> (Namespace option \<Rightarrow> Namespace option) \<Rightarrow> 'w \<Rightarrow> 'w \<Rightarrow> bool" where
  "changes nss i n f w w' \<longleftrightarrow> nss (zdbConnection i) w' = (nss (zdbConnection i) w)(n := f (nss (zdbConnection i) w n)) \<and>
     (\<forall>j. zdbConnection j \<noteq> zdbConnection i \<longrightarrow> nss (zdbConnection j) w' = nss (zdbConnection j) w)"

locale zdb_server =
  fixes R :: "'w Redis" and nss :: "string \<Rightarrow> 'w \<Rightarrow> (string \<rightharpoonup> Namespace)"
  assumes exist: "Exist R (zdbConnection i) n w = Ok b \<Longrightarrow> b = (n \<in> dom (nss (zdbConnection i) w))"
    and new: "do_ok R (zdbConnection i) [''NSNEW'', n] w = (w', Ok ()) \<Longrightarrow> \<exists>ns. ns_Name ns = n \<and> changes nss i n (\<lambda>_. Some ns) w w'"
    and size: "do_ok R (zdbConnection i) [''NSSET'', n, ''maxsize'', dec (unat sz)] w = (w', Ok ()) \<Longrightarrow>
      changes nss i n (map_option (\<lambda>ns. ns\<lparr>ns_DataLimit := sz\<rparr>)) w w'"
    and password: "do_ok R (zdbConnection i) [''NSSET'', n, ''password'', p] w = (w', Ok ()) \<Longrightarrow>
      changes nss i n (map_option (\<lambda>ns. ns\<lparr>ns_PasswordProtected := (p \<noteq> [] \<and> p \<noteq> ''*'')\<rparr>)) w w'"
    and mode: "do_ok R (zdbConnection i) [''NSSET'', n, ''mode'', m] w = (w', Ok ()) \<Longrightarrow>
      changes nss i n (map_option (\<lambda>ns. ns\<lparr>ns_Mode := m\<rparr>)) w w'"
    and public: "do_ok R (zdbConnection i) [''NSSET'', n, ''public'', if b then ''1'' else ''0''] w = (w', Ok ()) \<Longrightarrow>
      changes nss i n (map_option (\<lambda>ns. ns\<lparr>ns_Public := b\<rparr>)) w w'"
    and del: "do_ok R (zdbConnection i) [''NSDEL'', n] w = (w', Ok ()) \<Longrightarrow> changes nss i n (\<lambda>_. None) w w'"
    and refused: "do_ok R (zdbConnection i) cmd w = (w', Err e) \<Longrightarrow> nss a w' = nss a w"
begin

lemma settings:
  assumes "NamespaceSetPublic R (zdbConnection i) n b w = (w1, Ok ())" and "NamespaceSetSize R (zdbConnection i) n sz w1 = (w2, Ok ())"
    and "nss (zdbConnection i) w n = Some ns"
  shows "nss (zdbConnection i) w2 n = Some (ns\<lparr>ns_Public := b, ns_DataLimit := sz\<rparr>)"
  using public[OF assms(1)[unfolded NamespaceSetPublic_def]] size[OF assms(2)[unfolded NamespaceSetSize_def]] assms(3)
  by (simp add: changes_def)

text \<open>A namespace that is created, or was there, has the settings that were asked for.\<close>

lemma create_configures:
  assumes "ze_redis E = R" and "createZDBNamespace E c n config w = (w', Ok ())"
  shows "\<exists>ns. nss (zdbConnection c) w' n = Some ns \<and> ns_DataLimit ns = zdb_Size config \<and> ns_Public ns = zdb_Public config \<and>
    (zdb_Password config \<noteq> [] \<longrightarrow> ns_PasswordProtected ns = (zdb_Password config \<noteq> ''*'')) \<and>
    (n \<notin> dom (nss (zdbConnection c) w) \<longrightarrow> ns_Name ns = n \<and> ns_Mode ns = zdb_Mode config)"
proof -
  let ?a = "zdbConnection c"
  have finish: "\<exists>ns'. nss ?a w' n = Some ns' \<and> ns_DataLimit ns' = zdb_Size config \<and> ns_Public ns' = zdb_Public config \<and>
      (zdb_Password config \<noteq> [] \<longrightarrow> ns_PasswordProtected ns' = (zdb_Password config \<noteq> ''*'')) \<and> ns_Name ns' = ns_Name ns \<and> ns_Mode ns' = ns_Mode ns"
    if "nss ?a w1 n = Some ns" and "zdb_Password config \<noteq> [] \<Longrightarrow> NamespaceSetPassword R ?a n (zdb_Password config) w1 = (w2, Ok ())"
      "zdb_Password config = [] \<Longrightarrow> w2 = w1" "NamespaceSetPublic R ?a n (zdb_Public config) w2 = (w3, Ok ())"
      "NamespaceSetSize R ?a n (zdb_Size config) w3 = (w', Ok ())" for w1 w2 w3 ns
  proof (cases "zdb_Password config = []")
    case True
    then show ?thesis using that settings[OF that(4,5)] by simp
  next
    case False
    have "nss ?a w2 n = Some (ns\<lparr>ns_PasswordProtected := (zdb_Password config \<noteq> ''*'')\<rparr>)"
      using password[OF that(2)[OF False, unfolded NamespaceSetPassword_def]] that(1) False by (simp add: changes_def)
    from settings[OF that(4,5) this] show ?thesis by simp
  qed
  from assms(2) obtain exists where ex: "Exist R ?a n w = Ok exists" and con: "Connect R ?a w = Ok ()"
    by (auto simp: createZDBNamespace_def assms(1) Let_def rbind_Ok_iff split: sum.splits)
  show ?thesis
  proof (cases exists)
    case True
    then obtain ns where "nss ?a w n = Some ns" using exist[OF ex] by auto
    moreover from assms(2) ex con True obtain w2 w3 where "zdb_Password config \<noteq> [] \<Longrightarrow> NamespaceSetPassword R ?a n (zdb_Password config) w = (w2, Ok ())"
      "zdb_Password config = [] \<Longrightarrow> w2 = w" "NamespaceSetPublic R ?a n (zdb_Public config) w2 = (w3, Ok ())"
      "NamespaceSetSize R ?a n (zdb_Size config) w3 = (w', Ok ())"
      by (auto simp: createZDBNamespace_def assms(1) Let_def split: sum.splits prod.splits if_splits)
    ultimately show ?thesis using finish[of w ns w2 w3] exist[OF ex] True by auto
  next
    case False
    with assms(2) ex con obtain w0 w1 w2 w3 where n: "CreateNamespace R ?a n w = (w0, Ok ())" "NamespaceSetMode R ?a n (zdb_Mode config) w0 = (w1, Ok ())"
      and rest: "zdb_Password config \<noteq> [] \<Longrightarrow> NamespaceSetPassword R ?a n (zdb_Password config) w1 = (w2, Ok ())"
      "zdb_Password config = [] \<Longrightarrow> w2 = w1" "NamespaceSetPublic R ?a n (zdb_Public config) w2 = (w3, Ok ())"
      "NamespaceSetSize R ?a n (zdb_Size config) w3 = (w', Ok ())"
      by (auto simp: createZDBNamespace_def assms(1) Let_def split: sum.splits prod.splits if_splits)
    from new[OF n(1)[unfolded CreateNamespace_def]] obtain ns where ns: "ns_Name ns = n" "nss ?a w0 n = Some ns" by (auto simp: changes_def)
    have "nss ?a w1 n = Some (ns\<lparr>ns_Mode := zdb_Mode config\<rparr>)"
      using mode[OF n(2)[unfolded NamespaceSetMode_def]] ns(2) by (simp add: changes_def)
    from finish[OF this rest] ns(1) show ?thesis by auto
  qed
qed

text \<open>A new namespace gets its settings.\<close>

lemma provision_new:
  assumes "ze_redis E = R" and "ze_unmarshal E (wl_Data (wi_Workload wl)) = Ok config" and "zdbListContainers E w = Ok cs"
    and "scanContainers E (wi_ID wl) (zdb_Size config) cs w = (w1, Inr candidates)" and "zdbProvisionImpl E wl w = (w', Ok res)"
  shows "zr_Namespace res = wi_ID wl \<and> zr_Port res = zdbPort \<and> (\<exists>c ns. nss (zdbConnection c) w' (wi_ID wl) = Some ns \<and>
    ns_DataLimit ns = zdb_Size config \<and> ns_Public ns = zdb_Public config \<and> (zdb_Password config \<noteq> [] \<longrightarrow> ns_PasswordProtected ns = (zdb_Password config \<noteq> ''*'')))"
proof -
  from assms(2-5) obtain w2 cont w3 where res: "resultOf E (wi_ID wl) cont w2 = (w3, Ok res)"
    and create: "createZDBNamespace E (ct_Name cont) (wi_ID wl) config w3 = (w', Ok ())"
    by (auto simp: zdbProvisionImpl_def rmap_Ok_iff split: sum.splits prod.splits)
  from res have "zr_Namespace res = wi_ID wl \<and> zr_Port res = zdbPort" by (auto simp: resultOf_def rmap_Ok_iff split: prod.splits)
  with create_configures[OF assms(1) create] show ?thesis by blast
qed

text \<open>An update: containers that do not have the namespace are passed over.\<close>

lemma update_skips:
  "ze_redis E = R \<Longrightarrow> updateIn E name old new cs w = (w', Err e) \<Longrightarrow> e \<noteq> Errorf ''namespace not found'' \<Longrightarrow>
     \<exists>(i, c) \<in> set cs. name \<in> dom (nss (zdbConnection i) w) \<and>
       (updateNamespace R (zdbConnection i) name old new w = (w', Err e) \<or>
        (\<exists>w1. updateNamespace R (zdbConnection i) name old new w = (w1, Ok ()) \<and> resultOf E name c w1 = (w', Err e)))"
proof (induction cs)
  case (Cons ic cs)
  obtain i c where ic: "ic = (i, c)" by fastforce
  show ?case
  proof (cases "is_ok (Connect R (zdbConnection i) w) \<and> Exist R (zdbConnection i) name w = Ok True")
    case True
    with exist[of i name w True] have "name \<in> dom (nss (zdbConnection i) w)" by simp
    with True Cons.prems show ?thesis
      unfolding ic by (intro bexI[of _ "(i, c)"]) (auto simp: Let_def split: sum.splits prod.splits)
  next
    case False
    then have "updateIn E name old new cs w = (w', Err e)" using Cons.prems by (simp add: ic Let_def)
    with Cons.IH Cons.prems show ?thesis by auto
  qed
qed simp

lemma update_partial:
  assumes "updateNamespace R (zdbConnection i) name old new w = (w', Err (response_UnChanged (Wrap ''failed to set new password'' e)))"
    and "zdb_Size new \<noteq> zdb_Size old" and "name \<in> dom (nss (zdbConnection i) w)"
  shows "\<exists>ns. nss (zdbConnection i) w' name = Some ns \<and> ns_DataLimit ns = zdb_Size new"
proof -
  from assms(1,2) obtain w1 where sz: "NamespaceSetSize R (zdbConnection i) name (zdb_Size new) w = (w1, Ok ())"
    and pw: "NamespaceSetPassword R (zdbConnection i) name (zdb_Password new) w1 = (w', Err e)"
    by (auto simp: updateNamespace_def updateSize_def response_UnChanged_def Let_def split: sum.splits prod.splits if_splits)
  have "nss (zdbConnection i) w' = nss (zdbConnection i) w1" by (rule refused[OF pw[unfolded NamespaceSetPassword_def]])
  with size[OF sz[unfolded NamespaceSetSize_def]] assms(3) show ?thesis by (auto simp: changes_def)
qed

end

text \<open>A 0-db that can be reached answers, and stays reachable.\<close>

locale zdb_reachable = zdb_server +
  assumes answers: "is_ok (Connect R (zdbConnection i) w) \<Longrightarrow> is_ok (Exist R (zdbConnection i) n w)"
    and stays: "do_ok R (zdbConnection i) cmd w = (w', Ok ()) \<Longrightarrow>
      is_ok (Connect R (zdbConnection j) w') = is_ok (Connect R (zdbConnection j) w)"
begin

lemma decommission_removes:
  assumes "ze_redis E = R" and "\<forall>(i, c) \<in> set cs. is_ok (Connect R (zdbConnection i) w)" and "decommissionIn E n cs w = (w', Ok ())"
  shows "(\<forall>(i, c) \<in> set cs. n \<notin> dom (nss (zdbConnection i) w')) \<and>
    (\<forall>j m. (m \<noteq> n \<longrightarrow> nss (zdbConnection j) w' m = nss (zdbConnection j) w m) \<and>
       (n \<notin> dom (nss (zdbConnection j) w) \<longrightarrow> n \<notin> dom (nss (zdbConnection j) w')))"
  using assms(2,3)
proof (induction cs arbitrary: w)
  case (Cons ic cs)
  obtain i c where ic: "ic = (i, c)" by fastforce
  let ?a = "zdbConnection i"
  have con: "is_ok (Connect R ?a w)" using Cons.prems(1) ic by simp
  from answers[OF con, of n] obtain b where b: "Exist R ?a n w = Ok b" by (auto simp: is_ok_iff)
  note dom = exist[OF b]
  show ?case
  proof (cases b)
    case False
    then have run: "decommissionIn E n cs w = (w', Ok ())" using Cons.prems(2) con b assms(1) by (simp add: ic Let_def)
    have sub: "\<forall>(i, c) \<in> set cs. is_ok (Connect R (zdbConnection i) w)" using Cons.prems(1) by simp
    show ?thesis using Cons.IH[OF sub run] dom False unfolding ic by simp
  next
    case True
    with Cons.prems(2) con b assms(1) obtain w1 where w1: "do_ok R ?a [''NSDEL'', n] w = (w1, Ok ())"
      and run: "decommissionIn E n cs w1 = (w', Ok ())"
      by (auto simp: ic Let_def DeleteNamespace_def split: sum.splits prod.splits)
    have sub: "\<forall>(i, c) \<in> set cs. is_ok (Connect R (zdbConnection i) w1)" using Cons.prems(1) stays[OF w1] by auto
    note rest = Cons.IH[OF sub run]
    have w1_j: "nss (zdbConnection j) w1 = (if zdbConnection j = ?a then (nss ?a w)(n := None) else nss (zdbConnection j) w)" for j
      using del[OF w1] by (auto simp: changes_def)
    have "n \<notin> dom (nss ?a w')" using rest w1_j[of i] by auto
    moreover have "\<forall>j m. (m \<noteq> n \<longrightarrow> nss (zdbConnection j) w' m = nss (zdbConnection j) w m) \<and>
       (n \<notin> dom (nss (zdbConnection j) w) \<longrightarrow> n \<notin> dom (nss (zdbConnection j) w'))"
      using rest w1_j by (auto split: if_splits)
    ultimately show ?thesis using rest unfolding ic by auto
  qed
qed auto

end


section \<open>Waiting\<close>

lemma retry_keeps:
  assumes "\<And>s. P s \<Longrightarrow> P (wait s)" and "\<And>s s' r. P s \<Longrightarrow> f s = (s', r) \<Longrightarrow> P s'" and "P s" and "retryNotify n wait f s = (s', r)"
  shows "P s'"
  using assms(3,4)
proof (induction n arbitrary: s)
  case 0
  then show ?case using assms(2) by auto
next
  case (Suc n)
  obtain s1 r1 where f: "f s = (s1, r1)" by fastforce
  have "P s1" by (rule assms(2)[OF Suc.prems(1) f])
  then show ?case using Suc f assms(1) by (cases r1) auto
qed

text \<open>Waiting for addresses does nothing but wait.\<close>

lemma getIP_keeps: "getIP E ns created s = (s', r) \<Longrightarrow> snd s' = snd s" "getIPLight E ns s = (s', r) \<Longrightarrow> snd s' = snd s"
  by (auto simp: getIP_def getIPLight_def split: prod.splits sum.splits)

lemma waitIPs_keeps:
  assumes "\<And>w. P w \<Longrightarrow> P (ze_wait E w)" and "\<And>s s' r. f s = (s', r) \<Longrightarrow> snd s' = snd s" and "P w" and "waitIPs E f w = (w', r)"
  shows "P w'"
proof -
  obtain s' r' where run: "retryNotify (ze_tries E) (\<lambda>(ips, w). (ips, ze_wait E w)) f ([], w) = (s', r')" by fastforce
  have "P (snd s')"
  proof (rule retry_keeps[where P = "\<lambda>s. P (snd s)", OF _ _ _ run])
    show "P (snd s1)" if "P (snd s0)" "f s0 = (s1, r1)" for s0 s1 r1 using that assms(2)[OF that(2)] by simp
  qed (use assms(1,3) in auto)
  then show ?thesis using assms(4) run by (auto simp: waitIPs_def split: prod.splits)
qed

lemma wait_keeps:
  assumes "\<And>w. P w \<Longrightarrow> P (ze_wait E w)" and "P w" and "resultOf E n c w = (w', r)"
  shows "P w'"
proof -
  obtain r' where "waitZDBIPs E (ct_Network c) (ct_CreatedAt c) w = (w', r') \<or> waitZDBIPsLight E (ct_Network c) (ct_CreatedAt c) w = (w', r')"
    using assms(3) by (auto simp: resultOf_def split: prod.splits if_splits)
  then show ?thesis
    using waitIPs_keeps[where P = P and E = E and w = w and w' = w'] assms(1) getIP_keeps assms(2) unfolding waitZDBIPs_def waitZDBIPsLight_def by metis
qed

lemma scan_found:
  assumes "\<And>name w. P w \<Longrightarrow> P (fst (ze_DeviceLookup E name w))" and "(i, c) \<in> set cs" and "P w"
    and "\<And>w. P w \<Longrightarrow> \<exists>infos. rbind (DataMount c) (\<lambda>p. Index_Namespaces (ze_files E) p w) = Ok infos \<and> nsID \<in> ni_Name ` set infos"
  shows "\<exists>c' w'. scanContainers E nsID sz cs w = (w', Inl c') \<and> P w' \<and> c' \<in> snd ` set cs"
  using assms(2,3)
proof (induction cs arbitrary: w)
  case (Cons jd cs)
  obtain j d where jd: "jd = (j, d)" by fastforce
  let ?idx = "rbind (DataMount d) (\<lambda>p. Index_Namespaces (ze_files E) p w)"
  obtain w1 r1 where look: "ze_DeviceLookup E (ct_Name d) w = (w1, r1)" by fastforce
  have P1: "P w1" using assms(1)[OF Cons.prems(2), of "ct_Name d"] look by simp
  show ?case
  proof (cases "\<exists>infos. ?idx = Ok infos \<and> nsID \<in> ni_Name ` set infos")
    case True
    then show ?thesis using Cons.prems(2) unfolding jd by auto
  next
    case False
    then have "(i, c) \<in> set cs" using Cons.prems assms(4)[OF Cons.prems(2)] unfolding jd by auto
    then have IH: "\<exists>c' w'. scanContainers E nsID sz cs x = (w', Inl c') \<and> P w' \<and> c' \<in> snd ` set (jd # cs)" if "P x" for x
      using Cons.IH[OF _ that] by auto
    show ?thesis
    proof (cases ?idx)
      case (Inl e)
      then show ?thesis using IH[OF Cons.prems(2)] by (simp add: jd)
    next
      case (Inr infos)
      with False have "nsID \<notin> ni_Name ` set infos" by blast
      moreover obtain c1 w2 where "scanContainers E nsID sz cs w1 = (w2, Inl c1)" "P w2" "c1 \<in> snd ` set (jd # cs)" using IH[OF P1] by blast
      ultimately show ?thesis using Inr look by (cases r1) (simp_all add: jd)
    qed
  qed
qed simp


section \<open>A simulated 0-db\<close>

text \<open>The world maps an address to the namespaces of the 0-db there. The password \<open>bad\<close> is refused.\<close>

type_synonym zworld = "string \<Rightarrow> (string \<times> Namespace) list"

definition simNamespace :: "string \<Rightarrow> Namespace" where
  "simNamespace n = \<lparr>ns_Name = n, ns_DataLimit = 0, ns_DataDiskFreespace = 100, ns_Mode = ''user'', ns_PasswordProtected = False, ns_Public = True\<rparr>"

definition simSet :: "string \<Rightarrow> string \<Rightarrow> Namespace \<Rightarrow> Namespace" where
  "simSet prop v ns = (if prop = ''maxsize'' then ns\<lparr>ns_DataLimit := of_nat (undec v)\<rparr>
     else if prop = ''password'' then ns\<lparr>ns_PasswordProtected := (v \<noteq> [] \<and> v \<noteq> ''*'')\<rparr>
     else if prop = ''mode'' then ns\<lparr>ns_Mode := v\<rparr>
     else if prop = ''public'' then ns\<lparr>ns_Public := (v = ''1'')\<rparr> else ns)"

definition simZdbDo :: "RedisDialParams \<Rightarrow> string list \<Rightarrow> zworld \<Rightarrow> zworld \<times> Reply result" where
  "simZdbDo p cmd w = (let a = rp_Host p; n = cmd ! 1; put = (\<lambda>l. (w(a := l), Ok (RStr ''OK''))) in
     if hd cmd = ''PING'' then (w, Ok (RStr ''PONG''))
     else if hd cmd = ''NSLIST'' then (w, Ok (RList (map fst (w a))))
     else if hd cmd = ''NSINFO'' then (case map_of (w a) n of
       None \<Rightarrow> (w, Err (Errorf ''Namespace not found''))
     | Some ns \<Rightarrow> (w, Ok (RStr (joinWith '' '' [ns_Name ns, dec (unat (ns_DataLimit ns)), dec (unat (ns_DataDiskFreespace ns))]))))
     else if hd cmd = ''NSNEW'' then
       (if map_of (w a) n = None then put ((n, simNamespace n) # w a) else (w, Err (Errorf ''This namespace is not available'')))
     else if hd cmd = ''NSDEL'' then put (filter (\<lambda>(k, v). k \<noteq> n) (w a))
     else if hd cmd = ''NSSET'' \<and> cmd ! 3 \<noteq> ''bad'' then put (map (\<lambda>(k, v). (k, if k = n then simSet (cmd ! 2) (cmd ! 3) v else v)) (w a))
     else (w, Err (Errorf ''Command not supported'')))"

definition simRedis :: "zworld Redis" where
  "simRedis = \<lparr>rd_parse = (\<lambda>a. Ok \<lparr>u_Scheme = ''unix'', u_Host = [], u_Path = a, u_User = None\<rparr>), rd_do = simZdbDo,
     rd_yaml = (\<lambda>s. case splitOn CHR '' '' s of
       [n, limit, free] \<Rightarrow> Ok ((simNamespace n)\<lparr>ns_DataLimit := of_nat (undec limit), ns_DataDiskFreespace := of_nat (undec free)\<rparr>)
     | _ \<Rightarrow> Err (Errorf ''yaml''))\<rparr>"

definition simNss :: "string \<Rightarrow> zworld \<Rightarrow> (string \<rightharpoonup> Namespace)" where
  "simNss a w = map_of (w a)"

lemma sim_send: "send simRedis a cmd w = simZdbDo \<lparr>rp_Scheme = ''unix'', rp_Host = a, rp_Password = None\<rparr> cmd w"
  by (simp add: send_def simRedis_def parseRedisAddress_def)

lemma sim_do_ok:
  "do_ok simRedis a cmd w = (w', Ok ()) \<longleftrightarrow> simZdbDo \<lparr>rp_Scheme = ''unix'', rp_Host = a, rp_Password = None\<rparr> cmd w = (w', Ok (RStr ''OK''))"
proof (cases "simZdbDo \<lparr>rp_Scheme = ''unix'', rp_Host = a, rp_Password = None\<rparr> cmd w")
  case (Pair v r)
  then show ?thesis by (cases r) (auto simp: do_ok_def sim_send redis_String_def split: Reply.splits)
qed

lemma sim_changes:
  "map_of l = (map_of (w (zdbConnection i)))(n := f (map_of (w (zdbConnection i)) n)) \<Longrightarrow> changes simNss i n f w (w(zdbConnection i := l))"
  by (simp add: changes_def simNss_def)

lemma map_of_set: "map_of (map (\<lambda>(k, v). (k, if k = n then f v else v)) l) = (map_of l)(n := map_option f (map_of l n))"
  by (induction l) (auto simp: fun_eq_iff)

lemma map_of_del: "map_of (filter (\<lambda>(k, v). k \<noteq> n) l) = (map_of l)(n := None)"
  by (induction l) (auto simp: fun_eq_iff)

lemma sim_set:
  assumes "do_ok simRedis (zdbConnection i) [''NSSET'', n, prop, v] w = (w', Ok ())"
  shows "changes simNss i n (map_option (simSet prop v)) w w'"
  using assms by (auto simp: sim_do_ok simZdbDo_def Let_def map_of_set split: if_splits intro!: sim_changes)

lemma sim_props:
  "simSet ''maxsize'' (dec (unat sz)) = (\<lambda>ns. ns\<lparr>ns_DataLimit := sz\<rparr>)" "simSet ''password'' p = (\<lambda>ns. ns\<lparr>ns_PasswordProtected := (p \<noteq> [] \<and> p \<noteq> ''*'')\<rparr>)"
  "simSet ''mode'' m = (\<lambda>ns. ns\<lparr>ns_Mode := m\<rparr>)" "simSet ''public'' (if b then ''1'' else ''0'') = (\<lambda>ns. ns\<lparr>ns_Public := b\<rparr>)"
  by (simp_all add: simSet_def fun_eq_iff)

interpretation sim_zdb: zdb_reachable simRedis simNss
proof unfold_locales
  fix i n and w w' :: zworld and sz :: u64 and p m :: string and b :: bool
  show "Exist simRedis (zdbConnection i) n w = Ok b \<Longrightarrow> b = (n \<in> dom (simNss (zdbConnection i) w))"
    by (auto simp: Exist_def sim_send simZdbDo_def simNss_def HasPrefix_def split: option.splits)
  show "do_ok simRedis (zdbConnection i) [''NSNEW'', n] w = (w', Ok ()) \<Longrightarrow> \<exists>ns. ns_Name ns = n \<and> changes simNss i n (\<lambda>_. Some ns) w w'"
    by (intro exI[of _ "simNamespace n"]) (auto simp: sim_do_ok simZdbDo_def simNamespace_def Let_def split: if_splits intro!: sim_changes)
  show "do_ok simRedis (zdbConnection i) [''NSDEL'', n] w = (w', Ok ()) \<Longrightarrow> changes simNss i n (\<lambda>_. None) w w'"
    by (auto simp: sim_do_ok simZdbDo_def Let_def map_of_del intro!: sim_changes)
  show "do_ok simRedis (zdbConnection i) [''NSSET'', n, ''maxsize'', dec (unat sz)] w = (w', Ok ()) \<Longrightarrow>
      changes simNss i n (map_option (\<lambda>ns. ns\<lparr>ns_DataLimit := sz\<rparr>)) w w'"
    by (drule sim_set) (simp add: sim_props)
  show "do_ok simRedis (zdbConnection i) [''NSSET'', n, ''password'', p] w = (w', Ok ()) \<Longrightarrow>
      changes simNss i n (map_option (\<lambda>ns. ns\<lparr>ns_PasswordProtected := (p \<noteq> [] \<and> p \<noteq> ''*'')\<rparr>)) w w'"
    by (drule sim_set) (simp add: sim_props)
  show "do_ok simRedis (zdbConnection i) [''NSSET'', n, ''mode'', m] w = (w', Ok ()) \<Longrightarrow>
      changes simNss i n (map_option (\<lambda>ns. ns\<lparr>ns_Mode := m\<rparr>)) w w'"
    by (drule sim_set) (simp add: sim_props)
  show "do_ok simRedis (zdbConnection i) [''NSSET'', n, ''public'', if b then ''1'' else ''0''] w = (w', Ok ()) \<Longrightarrow>
      changes simNss i n (map_option (\<lambda>ns. ns\<lparr>ns_Public := b\<rparr>)) w w'"
    by (drule sim_set) (simp add: sim_props)
next
  fix i cmd a and w w' :: zworld and e
  show "do_ok simRedis (zdbConnection i) cmd w = (w', Err e) \<Longrightarrow> simNss a w' = simNss a w"
    by (auto simp: do_ok_def sim_send simZdbDo_def Let_def redis_String_def split: prod.splits if_splits option.splits)
next
  fix i j n cmd and w w' :: zworld
  have con: "is_ok (Connect simRedis a w)" for a and w :: zworld
    by (simp add: Connect_def sim_send simZdbDo_def) (simp add: simRedis_def parseRedisAddress_def)
  show "is_ok (Exist simRedis (zdbConnection i) n w)"
    by (auto simp: Exist_def sim_send simZdbDo_def HasPrefix_def split: option.splits)
  show "is_ok (Connect simRedis (zdbConnection j) w') = is_ok (Connect simRedis (zdbConnection j) w)" using con by simp
qed


subsection \<open>A sample node\<close>

definition sample_zdbs :: "zworld ZdbEnv" where
  "sample_zdbs = \<lparr>
     ze_files = \<lparr>zf_ReadDir = (\<lambda>p w. Ok (map (\<lambda>(k, v). (k, True)) (w (zdbConnection ''c1'')))),
       zf_Open = (\<lambda>p w. Ok (writeHeaderV2 0 \<lparr>hd_Version = 1, hd_Name = ''x'', hd_Password = [], hd_MaxSize = 0\<rparr>)),
       zf_Stat = (\<lambda>p w. Err ErrNotExist), zf_RemoveAll = (\<lambda>p w. (w, Ok ())), zf_find = (\<lambda>p w. Ok [])\<rparr>,
     ze_redis = simRedis, ze_params = (\<lambda>_. None),
     ze_unmarshal = (\<lambda>d. Ok \<lparr>zdb_Size = (if d = [] then 10 else 20), zdb_Mode = ''seq'', zdb_Password = (if d = [] then ''secret'' else d), zdb_Public = False\<rparr>),
     ze_marshal = (\<lambda>r. Ok (zr_Namespace r)), ze_List = (\<lambda>w. Ok [''c1'']),
     ze_Inspect = (\<lambda>i w. Ok (noContainer\<lparr>ct_Name := i, ct_Mounts := [\<lparr>mt_Source = ''/mnt/c1'', mt_Target = ''/zdb''\<rparr>]\<rparr>)),
     ze_Run = (\<lambda>c w. (w, Ok [])), ze_Delete = (\<lambda>i w. (w, Ok ())),
     ze_DeviceLookup = (\<lambda>i w. (w, Ok \<lparr>dev_Path = ''/mnt/c1'', dev_ID = i, dev_Usage = \<lparr>us_Size = 100, us_Used = 30\<rparr>\<rparr>)),
     ze_DeviceAllocate = (\<lambda>sz w. (w, Err ErrNotEnoughSpace)), ze_Devices = (\<lambda>w. (w, Ok [])), ze_HubURL = [],
     ze_JoinPath = (\<lambda>u ps. Ok u), ze_FlistHash = (\<lambda>u w. Ok []), ze_FlistMount = (\<lambda>h u l r w. (w, Ok [])),
     ze_FlistUnmount = (\<lambda>n w. (w, Ok ())), ze_HashFromRootPath = (\<lambda>p w. Ok []), ze_EnsureZDBPrepare = (\<lambda>d w. (w, Ok [])),
     ze_AttachZDB = (\<lambda>d w. (w, Ok [])), ze_Addrs = (\<lambda>i n w. Ok []), ze_ZDBIPs = (\<lambda>n w. Ok []),
     ze_MigrateZdbMacvlanToVeth = (\<lambda>w. (w, Ok ())), ze_MkdirAll = (\<lambda>p w. (w, Ok ())), ze_Remove = (\<lambda>p w. (w, Ok ())),
     ze_now = (\<lambda>w. 1000), ze_tries = 3, ze_wait = (\<lambda>w. w), ze_order = (\<lambda>xs. xs), ze_devOrder = (\<lambda>xs. xs)\<rparr>"

definition sample_zdb :: "bytes \<Rightarrow> WorkloadWithID" where
  "sample_zdb d = \<lparr>wi_Workload = \<lparr>wl_Version = 0, wl_Name = ''db'', wl_Type = ZDBType, wl_Data = d, wl_Metadata = [], wl_Description = [],
     wl_Result = noResult\<rparr>, wi_ID = ''7-9-db''\<rparr>"

text \<open>The namespace was created, but the 0-db was stopped before its password was set.\<close>

definition half_world :: zworld where
  "half_world a = (if a = zdbConnection ''c1'' then [(''7-9-db'', simNamespace ''7-9-db'')] else [])"

definition empty_world :: zworld where "empty_world a = []"

lemma sample_list: "zdbListContainers sample_zdbs w =
    Ok [(''c1'', noContainer\<lparr>ct_Name := ''c1'', ct_Mounts := [\<lparr>mt_Source = ''/mnt/c1'', mt_Target = ''/zdb''\<rparr>]\<rparr>)]"
  by (simp add: zdbListContainers_def sample_zdbs_def DataMount_def zdbContainerDataMnt_def map_filter_simps)


section \<open>Claims\<close>

text \<open>The header of a namespace is read as it was written. \<open>ReadHeaderV2\<close> of a header with a name and a
  password of at most 255 bytes, whatever follows it, is that header, and of a file that ends
  within the header it is an error.\<close>

lemma zdb_header_roundtrip:
  assumes "length (hd_Name h) < 256" and "length (hd_Password h) < 256"
  shows "ReadHeaderV2 (writeHeaderV2 flags h @ rest) = Ok h \<and>
    (\<forall>k < length (writeHeaderV2 flags h). \<not> is_ok (ReadHeaderV2 (take k (writeHeaderV2 flags h))))"
  using read_write_header[OF assms] read_short_header[OF assms] by blast

lemma zdb_header_roundtrip_witness:
  "ReadHeaderV2 (writeHeaderV2 0 \<lparr>hd_Version = 1, hd_Name = ''test'', hd_Password = ''password'', hd_MaxSize = 10240\<rparr>) =
     Ok \<lparr>hd_Version = 1, hd_Name = ''test'', hd_Password = ''password'', hd_MaxSize = 10240\<rparr>"
  using zdb_header_roundtrip[of "\<lparr>hd_Version = 1, hd_Name = ''test'', hd_Password = ''password'', hd_MaxSize = 10240\<rparr>" 0 "[]"] by simp

text \<open>C21: the errors of 0-db workloads show no identifier. The identifier of a disk is the administration
  password of its 0-db; the text of an error that \<open>Provision\<close>, \<open>Update\<close> or \<open>Deprovision\<close>
  returns contains none, at any position, whatever the error underneath says.\<close>

theorem zdb_errors_masked:
  assumes "zdb_Provision E ctx s wl w = ((d, Some e), w') \<or> zdb_Update E S ctx s wl w = ((d, Some e), w') \<or>
    zdb_Deprovision E ctx s wl w = (Some e, w')"
  shows "\<not> uuid_prefix (drop k (err_text e))"
proof -
  from assms obtain e0 where "e = Safe e0"
    by (auto simp: zdb_Provision_def zdb_Update_def zdb_Deprovision_def provided_def newSafeError_def split: prod.splits)
  then show ?thesis using mask_everywhere by simp
qed

theorem zdb_errors_masked_witness:
  "\<exists>e w'. zdb_Deprovision (sample_zdbs\<lparr>ze_List := \<lambda>w. Err (Errorf ''no 0123abcd-0123-0123-0123-0123456789ab'')\<rparr>) background () (sample_zdb []) half_world = (Some e, w') \<and>
     err_text e = ''failed to list running zdbs: failed to list running containers: no 0123abcd-***'' \<and>
     (\<forall>k. \<not> uuid_prefix (drop k (err_text e)))"
proof -
  let ?E = "sample_zdbs\<lparr>ze_List := \<lambda>w. Err (Errorf ''no 0123abcd-0123-0123-0123-0123456789ab'')\<rparr>"
  let ?e = "Safe (Wrap ''failed to list running zdbs'' (Wrap ''failed to list running containers'' (Errorf ''no 0123abcd-0123-0123-0123-0123456789ab'')))"
  have run: "zdb_Deprovision ?E background () (sample_zdb []) half_world = (Some ?e, half_world)"
    by (simp add: zdb_Deprovision_def zdbDecommissionImpl_def zdbListContainers_def newSafeError_def errOf_def)
  have "err_text ?e = ''failed to list running zdbs: failed to list running containers: no 0123abcd-***''" by code_simp
  with zdb_errors_masked[OF disjI2[OF disjI2[OF run]]] run show ?thesis by blast
qed

text \<open>C19: a new namespace has the settings of the workload. When no container lists the namespace and
  \<open>Provision\<close> succeeds, a 0-db has a namespace with the name, the size limit and the access that were
  asked for, and the result names it. A namespace with a password is protected, unless the
  password is \<open>*\<close>: a 0-db takes it as the order to clear the password, and \<open>Provision\<close> sends it like any other.\<close>

theorem namespace_configured:
  assumes "zdb_server (ze_redis E) nss" and "ze_unmarshal E (wl_Data (wi_Workload wl)) = Ok config" and "zdbListContainers E w = Ok cs"
    and "scanContainers E (wi_ID wl) (zdb_Size config) cs w = (w1, Inr candidates)" and "zdbProvisionImpl E wl w = (w', Ok res)"
  shows "zr_Namespace res = wi_ID wl \<and> zr_Port res = zdbPort \<and> (\<exists>c ns. nss (zdbConnection c) w' (wi_ID wl) = Some ns \<and>
    ns_DataLimit ns = zdb_Size config \<and> ns_Public ns = zdb_Public config \<and> (zdb_Password config \<noteq> [] \<longrightarrow> ns_PasswordProtected ns = (zdb_Password config \<noteq> ''*'')))"
  by (rule zdb_server.provision_new[OF assms(1) refl assms(2-5)])

theorem namespace_configured_witness:
  "\<exists>w' res c ns. zdbProvisionImpl sample_zdbs (sample_zdb []) empty_world = (w', Ok res) \<and> zr_Namespace res = ''7-9-db'' \<and>
     simNss (zdbConnection c) w' ''7-9-db'' = Some ns \<and> ns_DataLimit ns = 10 \<and> ns_PasswordProtected ns"
proof -
  let ?wl = "sample_zdb []" and ?config = "\<lparr>zdb_Size = 10, zdb_Mode = ''seq'', zdb_Password = ''secret'', zdb_Public = False\<rparr> :: ZDB"
  have u: "ze_unmarshal sample_zdbs (wl_Data (wi_Workload ?wl)) = Ok ?config" by (simp add: sample_zdbs_def sample_zdb_def)
  have srv: "zdb_server (ze_redis sample_zdbs) simNss" using sim_zdb.zdb_server_axioms by (simp add: sample_zdbs_def)
  have "is_ok (snd (zdbProvisionImpl sample_zdbs ?wl empty_world))" by code_simp
  then obtain w' res where run: "zdbProvisionImpl sample_zdbs ?wl empty_world = (w', Ok res)" by (metis is_ok_iff prod.collapse)
  obtain candidates w1 where "scanContainers sample_zdbs (wi_ID ?wl) (zdb_Size ?config)
      [(''c1'', noContainer\<lparr>ct_Name := ''c1'', ct_Mounts := [\<lparr>mt_Source = ''/mnt/c1'', mt_Target = ''/zdb''\<rparr>]\<rparr>)] empty_world = (w1, Inr candidates)"
    by (simp add: sample_zdbs_def DataMount_def zdbContainerDataMnt_def Index_Namespaces_def empty_world_def)
  from namespace_configured[OF srv u sample_list this run] run show ?thesis by (auto simp: sample_zdb_def)
qed

text \<open>C20: deprovisioning removes the namespace. When every 0-db of the node answers and \<open>Deprovision\<close>
  succeeds, no 0-db has the namespace of the workload, and every other namespace is as before.\<close>

theorem namespace_removed:
  assumes "zdb_reachable (ze_redis E) nss" and "zdbListContainers E w = Ok cs"
    and "\<forall>(i, c) \<in> set cs. is_ok (Connect (ze_redis E) (zdbConnection i) w)" and "zdbDecommissionImpl E wl w = (w', Ok ())"
  shows "(\<forall>(i, c) \<in> set cs. wi_ID wl \<notin> dom (nss (zdbConnection i) w')) \<and>
    (\<forall>i n. n \<noteq> wi_ID wl \<longrightarrow> nss (zdbConnection i) w' n = nss (zdbConnection i) w n)"
proof -
  have "decommissionIn E (wi_ID wl) cs w = (w', Ok ())" using assms(2,4) by (simp add: zdbDecommissionImpl_def)
  from zdb_reachable.decommission_removes[OF assms(1) refl assms(3) this] show ?thesis by blast
qed

theorem namespace_removed_witness:
  "\<exists>w'. zdbDecommissionImpl sample_zdbs (sample_zdb []) half_world = (w', Ok ()) \<and> ''7-9-db'' \<notin> dom (simNss (zdbConnection ''c1'') w')"
proof -
  have srv: "zdb_reachable (ze_redis sample_zdbs) simNss" using sim_zdb.zdb_reachable_axioms by (simp add: sample_zdbs_def)
  have "is_ok (snd (zdbDecommissionImpl sample_zdbs (sample_zdb []) half_world))" by code_simp
  then obtain w' where run: "zdbDecommissionImpl sample_zdbs (sample_zdb []) half_world = (w', Ok ())" by (metis is_ok_iff old.unit.exhaust prod.collapse)
  have "is_ok (Connect (ze_redis sample_zdbs) (zdbConnection ''c1'') half_world)" by code_simp
  with namespace_removed[OF srv sample_list _ run] run show ?thesis by (auto simp: sample_zdb_def)
qed

text \<open>A namespace that is listed is accepted as it is. When the index of a container lists the
  namespace, \<open>Provision\<close> answers with the addresses of a container and sends no setting: no
  namespace changes, although the one that is there may lack the password and the limit of the
  workload (after an attempt that stopped half way).\<close>

lemma listed_namespace_unconfigured:
  assumes "\<And>i w. nss' (fst (ze_DeviceLookup E i w)) = nss' w" and "\<And>w. nss' (ze_wait E w) = nss' w"
    and "ze_unmarshal E (wl_Data (wi_Workload wl)) = Ok config" and "zdbListContainers E w = Ok cs" and "(i, c) \<in> set cs"
    and "\<And>w1. nss' w1 = nss' w \<Longrightarrow> \<exists>infos. rbind (DataMount c) (\<lambda>p. Index_Namespaces (ze_files E) p w1) = Ok infos \<and>
      wi_ID wl \<in> ni_Name ` set infos"
    and "zdbProvisionImpl E wl w = (w', r)"
  shows "nss' w' = nss' w \<and> (\<exists>c' \<in> snd ` set cs. \<exists>w1. zdbProvisionImpl E wl w = resultOf E (wi_ID wl) c' w1)"
proof -
  obtain c' w1 where scan: "scanContainers E (wi_ID wl) (zdb_Size config) cs w = (w1, Inl c')" "nss' w1 = nss' w" "c' \<in> snd ` set cs"
    using scan_found[where P = "\<lambda>x. nss' x = nss' w" and E = E, OF _ assms(5) refl assms(6), of "zdb_Size config"] assms(1) by auto
  then have run: "zdbProvisionImpl E wl w = resultOf E (wi_ID wl) c' w1" using assms(3,4) by (simp add: zdbProvisionImpl_def)
  have "nss' w' = nss' w"
    by (rule wait_keeps[where P = "\<lambda>x. nss' x = nss' w", OF _ scan(2)]) (use assms(2,7) run in auto)
  with run scan(3) show ?thesis by blast
qed

lemma listed_namespace_unconfigured_witness:
  "\<exists>w' res. zdbProvisionImpl sample_zdbs (sample_zdb []) half_world = (w', Ok res) \<and> w' = half_world \<and>
     map_option ns_PasswordProtected (simNss (zdbConnection ''c1'') w' ''7-9-db'') = Some False"
proof -
  let ?c = "noContainer\<lparr>ct_Name := ''c1'', ct_Mounts := [\<lparr>mt_Source = ''/mnt/c1'', mt_Target = ''/zdb''\<rparr>]\<rparr>"
  have "is_ok (snd (zdbProvisionImpl sample_zdbs (sample_zdb []) half_world))" by code_simp
  then obtain w' res where run: "zdbProvisionImpl sample_zdbs (sample_zdb []) half_world = (w', Ok res)" by (metis is_ok_iff prod.collapse)
  have "ReadHeaderV2 (writeHeaderV2 0 \<lparr>hd_Version = 1, hd_Name = ''x'', hd_Password = [], hd_MaxSize = 0\<rparr>) =
      Ok \<lparr>hd_Version = 1, hd_Name = ''x'', hd_Password = [], hd_MaxSize = 0\<rparr>"
    using read_write_header[of "\<lparr>hd_Version = 1, hd_Name = ''x'', hd_Password = [], hd_MaxSize = 0\<rparr>" 0 "[]"] by simp
  moreover have "Index_valid ''7-9-db'' = Ok ()" by code_simp
  ultimately have idx: "\<exists>infos. rbind (DataMount ?c) (\<lambda>p. Index_Namespaces (ze_files sample_zdbs) p half_world) = Ok infos \<and>
      wi_ID (sample_zdb []) \<in> ni_Name ` set infos"
    by (simp add: sample_zdbs_def sample_zdb_def DataMount_def zdbContainerDataMnt_def Index_Namespaces_def Index_Namespace_def half_world_def)
  have "w' = half_world"
    using listed_namespace_unconfigured[where nss' = "\<lambda>x. x" and i = "''c1''" and c = ?c, OF _ _ _ sample_list _ _ run] idx by (simp add: sample_zdbs_def)
  with run show ?thesis by (simp add: half_world_def simNss_def simNamespace_def)
qed

text \<open>An update that is reported as unchanged may have changed the size. \<open>Update\<close> sets the new size
  before the new password: when the 0-db refuses the password, the workload is reported as
  unchanged, and the namespace has the new size.\<close>

lemma failed_update_resized:
  assumes "zdb_server (ze_redis E) nss" and "zdbUpdateImpl E S ctx s wl w = (w', Err (response_UnChanged (Wrap ''failed to set new password'' e)))"
    and "GetWorkload S ctx s (wl_Name (wi_Workload wl)) = Ok current" and "ze_unmarshal E (wl_Data (wi_Workload current)) = Ok old"
    and "ze_unmarshal E (wl_Data (wi_Workload wl)) = Ok new" and "zdb_Size new \<noteq> zdb_Size old"
  shows "\<exists>i ns. nss (zdbConnection i) w' (wi_ID wl) = Some ns \<and> ns_DataLimit ns = zdb_Size new"
proof -
  let ?e = "response_UnChanged (Wrap ''failed to set new password'' e)"
  from assms(2-5) obtain cs where run: "updateIn E (wi_ID wl) old new cs w = (w', Err ?e)"
    by (auto simp: zdbUpdateImpl_def Let_def response_UnChanged_def fail_if_def split: sum.splits if_splits)
  have "?e \<noteq> Errorf ''namespace not found''" by (simp add: response_UnChanged_def)
  from zdb_server.update_skips[OF assms(1) refl run this] obtain i c where i: "wi_ID wl \<in> dom (nss (zdbConnection i) w)"
    "updateNamespace (ze_redis E) (zdbConnection i) (wi_ID wl) old new w = (w', Err ?e) \<or> (\<exists>w1. resultOf E (wi_ID wl) c w1 = (w', Err ?e))"
    by auto
  have "resultOf E (wi_ID wl) c w1 \<noteq> (w', Err ?e)" for w1
    by (auto simp: resultOf_def response_UnChanged_def rmap_def rwrap_def split: prod.splits sum.splits)
  with i(2) have "updateNamespace (ze_redis E) (zdbConnection i) (wi_ID wl) old new w = (w', Err ?e)" by blast
  from zdb_server.update_partial[OF assms(1) this assms(6) i(1)] show ?thesis by blast
qed

definition sample_current :: "unit Storage" where
  "sample_current = \<lparr>st_Create = (\<lambda>_ _. Ok), st_Update = (\<lambda>_ _ _. Ok), st_Delete = (\<lambda>_ _. Ok), st_Get = (\<lambda>_ _ _. Err ErrDeploymentNotExists),
     st_Error = (\<lambda>_ _ _ _. Ok), st_Add = (\<lambda>_ _ _ _. Ok), st_Remove = (\<lambda>_ _ _. Ok), st_Transaction = (\<lambda>_ _ _. Ok), st_Changes = (\<lambda>_ _ _. Ok []),
     st_Current = (\<lambda>_ _ _ _. Ok (wi_Workload (sample_zdb []))), st_Twins = (\<lambda>_. Ok []), st_ByTwin = (\<lambda>_ _. Ok []),
     st_Capacity = (\<lambda>_ _. Err ErrDeploymentNotExists)\<rparr>"

lemma failed_update_resized_witness:
  "\<exists>w' e i ns. zdbUpdateImpl sample_zdbs sample_current (withDeployment background 7 9) () (sample_zdb ''bad'') (half_world(zdbConnection ''c1'' :=
      half_world (zdbConnection ''c1'') @ [(''default'', simNamespace ''default'')])) = (w', Err (response_UnChanged e)) \<and>
     simNss (zdbConnection i) w' ''7-9-db'' = Some ns \<and> ns_DataLimit ns = 20"
proof -
  let ?w = "half_world(zdbConnection ''c1'' := half_world (zdbConnection ''c1'') @ [(''default'', simNamespace ''default'')])"
  let ?run = "zdbUpdateImpl sample_zdbs sample_current (withDeployment background 7 9) () (sample_zdb ''bad'') ?w"
  have srv: "zdb_server (ze_redis sample_zdbs) simNss" using sim_zdb.zdb_server_axioms by (simp add: sample_zdbs_def)
  have "snd ?run = Err (response_UnChanged (Wrap ''failed to set new password'' (Errorf ''Command not supported'')))" by code_simp
  then obtain w' where run: "?run = (w', Err (response_UnChanged (Wrap ''failed to set new password'' (Errorf ''Command not supported''))))"
    by (metis prod.collapse)
  have cur: "GetWorkload sample_current (withDeployment background 7 9) () (wl_Name (wi_Workload (sample_zdb ''bad''))) =
      Ok \<lparr>wi_Workload = wi_Workload (sample_zdb []), wi_ID = NewUncheckedWorkloadID 7 9 ''db''\<rparr>"
    by (simp add: GetWorkload_def sample_current_def withDeployment_def GetDeploymentID_def sample_zdb_def)
  show ?thesis
    using failed_update_resized[OF srv run cur] run by (force simp: sample_zdbs_def sample_zdb_def)
qed

end
