(* ===== verification/Zinit.thy ===== *)
theory Zinit
  imports Paths
begin

text \<open>
  The client of zinit, \<open>pkg/zinit\<close>: the process manager of the node. The client sends a line to
  the socket of zinit for every command and reads a JSON answer; it waits for services to start
  and to stop, and keeps the service files of \<open>/etc/zinit\<close>.
\<close>

section \<open>States of a service (commands.go)\<close>

definition ServiceStateUnknown :: string where "ServiceStateUnknown = ''unknown''"
definition ServiceStateRunning :: string where "ServiceStateRunning = ''running''"
definition ServiceStateBlocked :: string where "ServiceStateBlocked = ''blocked''"
definition ServiceStateSpawned :: string where "ServiceStateSpawned = ''spawned''"
definition ServiceStateSuccess :: string where "ServiceStateSuccess = ''success''"
definition ServiceStateError :: string where "ServiceStateError = ''error''"
definition ServiceStateFailure :: string where "ServiceStateFailure = ''failure''"

lemmas service_state_defs = ServiceStateUnknown_def ServiceStateRunning_def ServiceStateBlocked_def
  ServiceStateSpawned_def ServiceStateSuccess_def ServiceStateError_def ServiceStateFailure_def

record ServiceState =
  st_state :: string
  st_reason :: string

definition noServiceState :: ServiceState where
  "noServiceState = \<lparr>st_state = [], st_reason = []\<rparr>"

text \<open>The expression \<open>^(\w+)(?:\((.+)\))?$\<close>: a word, alone or with a text in parentheses.\<close>

definition matchStatus :: "string \<Rightarrow> (string \<times> string) option" where
  "matchStatus s = (let state = takeWhile is_word s; rest = dropWhile is_word s in
     if state = [] then None
     else if rest = [] then Some (state, [])
     else if hd rest = CHR ''('' \<and> 2 < length rest \<and> last rest = CHR '')'' \<and> CHR 0x0A \<notin> set (butlast (tl rest))
       then Some (state, butlast (tl rest))
     else None)"

definition ServiceState_UnmarshalText :: "string \<Rightarrow> ServiceState result" where
  "ServiceState_UnmarshalText s = (case matchStatus s of
     None \<Rightarrow> Err (Errorf ''invalid service state value'')
   | Some (state, reason) \<Rightarrow> Ok \<lparr>st_state = map toLower state, st_reason = map toLower reason\<rparr>)"

definition ServiceState_String :: "ServiceState \<Rightarrow> string" where
  "ServiceState_String s = (if length (st_state s) \<noteq> 0 then st_state s else ServiceStateUnknown) @
     (if length (st_reason s) \<noteq> 0 then ''('' @ st_reason s @ '')'' else [])"

text \<open>\<open>strings.EqualFold\<close>, for the ASCII text that a state is.\<close>

definition EqualFold :: "string \<Rightarrow> string \<Rightarrow> bool" where
  "EqualFold s t \<longleftrightarrow> map toLower s = map toLower t"

definition ServiceState_Is :: "ServiceState \<Rightarrow> string \<Rightarrow> bool" where
  "ServiceState_Is s state = EqualFold (st_state s) state"

definition ServiceState_Any :: "ServiceState \<Rightarrow> string list \<Rightarrow> bool" where
  "ServiceState_Any s states = list_ex (ServiceState_Is s) states"

definition Exited :: "ServiceState \<Rightarrow> bool" where
  "Exited s = ServiceState_Any s [ServiceStateSuccess, ServiceStateError, ServiceStateFailure, ServiceStateBlocked]"

definition ServiceTargetUp :: string where "ServiceTargetUp = ''Up''"
definition ServiceTargetDown :: string where "ServiceTargetDown = ''Down''"

record ServiceStatus =
  ss_Name :: string
  ss_Pid :: int
  ss_State :: ServiceState
  ss_Target :: string
  ss_After :: "(string \<times> string) list"

section \<open>What the client calls\<close>

record InitService =
  is_Exec :: string
  is_Oneshot :: bool
  is_Test :: string
  is_After :: "string list"
  is_Env :: "(string \<times> string) list"
  is_Log :: string

definition noInitService :: InitService where
  "noInitService = \<lparr>is_Exec = [], is_Oneshot = False, is_Test = [], is_After = [], is_Env = [], is_Log = []\<rparr>"

text \<open>
  \<open>zi_send\<close> opens the socket, sends a line and decodes the answer, a state and a body; the world
  may change meanwhile. JSON is a parameter: a string, the map of \<open>list\<close> with the text of every
  state (none for \<open>null\<close>), and a status with the text of its state. So are YAML (\<open>Decode\<close>,
  \<open>Unmarshal\<close>, \<open>Marshal\<close>), the shell words of \<open>shlex\<close>, regular expressions and the files.
  \<open>zi_now\<close> is the clock in nanoseconds, \<open>zi_sleep\<close> waits, and \<open>zi_order\<close> is the order of an
  iteration over a map.
\<close>

record 'w Zinit =
  zi_send :: "string \<Rightarrow> 'w \<Rightarrow> 'w \<times> (string \<times> bytes) result"
  zi_jsonString :: "bytes \<Rightarrow> string result"
  zi_jsonList :: "bytes \<Rightarrow> (string \<times> string option) list result"
  zi_jsonStatus :: "bytes \<Rightarrow> (string \<times> int \<times> string option \<times> string \<times> (string \<times> string) list) result"
  zi_yamlDecode :: "bytes \<Rightarrow> InitService result"
  zi_yamlUnmarshal :: "bytes \<Rightarrow> InitService result"
  zi_yamlMarshal :: "InitService \<Rightarrow> bytes result"
  zi_shlex :: "string \<Rightarrow> string list result"
  zi_regexp :: "string \<Rightarrow> (string \<Rightarrow> bool) option"
  zi_ReadFile :: "string \<Rightarrow> 'w \<Rightarrow> bytes result"
  zi_WriteFile :: "string \<Rightarrow> bytes \<Rightarrow> 'w \<Rightarrow> 'w \<times> unit result"
  zi_RemoveAll :: "string \<Rightarrow> 'w \<Rightarrow> 'w \<times> unit result"
  zi_now :: "'w \<Rightarrow> int"
  zi_sleep :: "int \<Rightarrow> 'w \<Rightarrow> 'w"
  zi_order :: "string list \<Rightarrow> string list"

definition second :: int where "second = 1000000000"

section \<open>Commands (zinit.go)\<close>

text \<open>The expression \<open>^service name ".*" unknown$\<close>.\<close>

definition unknownService :: "string \<Rightarrow> bool" where
  "unknownService msg \<longleftrightarrow> length ''service name \"\" unknown'' \<le> length msg \<and>
     HasPrefix msg ''service name \"'' \<and> HasSuffix msg ''\" unknown'' \<and> CHR 0x0A \<notin> set msg"

text \<open>\<open>%v\<close> of a byte slice.\<close>

definition showBytes :: "bytes \<Rightarrow> string" where
  "showBytes b = ''['' @ joinWith '' '' (map (\<lambda>c. dec (of_char c)) b) @ '']''"

text \<open>\<open>cmd\<close>, up to the decoding of the body into what the caller wants.\<close>

definition Client_cmd :: "'w Zinit \<Rightarrow> string \<Rightarrow> 'w \<Rightarrow> 'w \<times> bytes result" where
  "Client_cmd Z c w = (case zi_send Z (c @ [CHR 0x0A]) w of
     (w, r) \<Rightarrow> (w, rbind r (\<lambda>(state, body).
       if state = ''error'' then
         rbind (rwrap (''failed to parse response error ('' @ showBytes body @ '') '') (zi_jsonString Z body)) (\<lambda>msg.
         if unknownService msg then Err ErrUnknownService else Err (Errorf msg))
       else Ok body)))"

text \<open>\<open>cmd\<close> with no value to decode into.\<close>

definition Client_run :: "'w Zinit \<Rightarrow> string \<Rightarrow> 'w \<Rightarrow> 'w \<times> unit result" where
  "Client_run Z c w = (case Client_cmd Z c w of (w, r) \<Rightarrow> (w, rmap (\<lambda>_. ()) r))"

definition stateOf :: "string option \<Rightarrow> ServiceState result" where
  "stateOf t = (case t of None \<Rightarrow> Ok noServiceState | Some t \<Rightarrow> ServiceState_UnmarshalText t)"

definition Client_List :: "'w Zinit \<Rightarrow> 'w \<Rightarrow> 'w \<times> (string \<times> ServiceState) list result" where
  "Client_List Z w = (case Client_cmd Z ''list'' w of
     (w, r) \<Rightarrow> (w, rbind (rbind r (zi_jsonList Z)) (rlist (\<lambda>(name, t). rmap (\<lambda>s. (name, s)) (stateOf t)))))"

definition Client_Status :: "'w Zinit \<Rightarrow> string \<Rightarrow> 'w \<Rightarrow> 'w \<times> ServiceStatus result" where
  "Client_Status Z service w = (case Client_cmd Z (''status '' @ service) w of
     (w, r) \<Rightarrow> (w, rbind (rbind r (zi_jsonStatus Z)) (\<lambda>(name, pid, t, target, after).
       rmap (\<lambda>s. \<lparr>ss_Name = name, ss_Pid = pid, ss_State = s, ss_Target = target, ss_After = after\<rparr>) (stateOf t))))"

definition Client_Exists :: "'w Zinit \<Rightarrow> string \<Rightarrow> 'w \<Rightarrow> 'w \<times> bool result" where
  "Client_Exists Z service w = (case Client_Status Z service w of
     (w, Inl e) \<Rightarrow> (w, if err_is e ErrUnknownService then Ok False else Err e)
   | (w, Inr _) \<Rightarrow> (w, Ok True))"

definition Client_Start :: "'w Zinit \<Rightarrow> string \<Rightarrow> 'w \<Rightarrow> 'w \<times> unit result" where
  "Client_Start Z service = Client_run Z (''start '' @ service)"

definition Client_Stop :: "'w Zinit \<Rightarrow> string \<Rightarrow> 'w \<Rightarrow> 'w \<times> unit result" where
  "Client_Stop Z service = Client_run Z (''stop '' @ service)"

definition Client_Monitor :: "'w Zinit \<Rightarrow> string \<Rightarrow> 'w \<Rightarrow> 'w \<times> unit result" where
  "Client_Monitor Z service w = (case Client_run Z (''monitor '' @ service) w of
     (w, Inl e) \<Rightarrow> (w, if Contains (err_text e) (err_text ErrAlreadyMonitored) then Err ErrAlreadyMonitored else Err e)
   | (w, Inr u) \<Rightarrow> (w, Ok u))"

definition Client_Forget :: "'w Zinit \<Rightarrow> string \<Rightarrow> 'w \<Rightarrow> 'w \<times> unit result" where
  "Client_Forget Z service = Client_run Z (''forget '' @ service)"

definition SIGKILL :: string where "SIGKILL = ''SIGKILL''"
definition SIGTERM :: string where "SIGTERM = ''SIGTERM''"

definition Client_Kill :: "'w Zinit \<Rightarrow> string \<Rightarrow> string \<Rightarrow> 'w \<Rightarrow> 'w \<times> unit result" where
  "Client_Kill Z service sig = Client_run Z (''kill '' @ service @ '' '' @ sig)"

section \<open>Service files (service.go)\<close>

definition LogType_UnmarshalYAML :: "InitService \<Rightarrow> InitService" where
  "LogType_UnmarshalYAML s = s\<lparr>is_Log := map toLower (is_Log s)\<rparr>"

definition servicePath :: "string \<Rightarrow> string" where
  "servicePath name = Join [''/etc/zinit'', name @ ''.yaml'']"

definition AddService :: "'w Zinit \<Rightarrow> string \<Rightarrow> InitService \<Rightarrow> 'w \<Rightarrow> 'w \<times> unit result" where
  "AddService Z name service w = (case zi_yamlMarshal Z service of
     Inl e \<Rightarrow> (w, Err e)
   | Inr b \<Rightarrow> zi_WriteFile Z (servicePath name) b w)"

definition RemoveService :: "'w Zinit \<Rightarrow> string \<Rightarrow> 'w \<Rightarrow> 'w \<times> unit result" where
  "RemoveService Z name = zi_RemoveAll Z (servicePath name)"

definition LoadService :: "'w Zinit \<Rightarrow> string \<Rightarrow> 'w \<Rightarrow> InitService result" where
  "LoadService Z name w = rbind (zi_ReadFile Z (servicePath name) w) (\<lambda>data. rmap LogType_UnmarshalYAML (zi_yamlUnmarshal Z data))"

definition Client_Get :: "'w Zinit \<Rightarrow> string \<Rightarrow> 'w \<Rightarrow> 'w \<times> InitService result" where
  "Client_Get Z service w = (case Client_Status Z service w of
     (w, Inl e) \<Rightarrow> (w, Err e)
   | (w, Inr _) \<Rightarrow> (w, rbind (rwrap ''couldn't open service file'' (zi_ReadFile Z (''/etc/zinit/'' @ service @ ''.yaml'') w)) (\<lambda>f.
       rwrap ''couldn't decode service file'' (rmap LogType_UnmarshalYAML (zi_yamlDecode Z f)))))"

section \<open>Version, reboot and shutdown (commands.go)\<close>

text \<open>Semantic versions of \<open>blang/semver\<close>: parsing and order. \<open>sv_output\<close> runs \<open>zinit -V\<close>.\<close>

record ('w, 'v) Semver =
  sv_output :: "'w \<Rightarrow> string result"
  sv_Parse :: "string \<Rightarrow> 'v result"
  sv_LT :: "'v \<Rightarrow> 'v \<Rightarrow> bool"

definition Client_Version :: "('w, 'v) Semver \<Rightarrow> 'w \<Rightarrow> 'v result" where
  "Client_Version S w =
     rbind (rwrap ''failed to get zinit binary version'' (sv_output S w)) (\<lambda>output.
     let parts = splitOn CHR '' '' output in
     if length parts \<noteq> 2 then Err (Errorf (''invalid version output from zinit command: '' @ output))
     else let v = TrimPrefix (TrimSpace (parts ! 1)) ''v'' in
       rwrap (''failed to parse version returned by zos: '' @ squote v) (sv_Parse S v))"

text \<open>\<open>semver.MustParse\<close> panics on a text that is no version.\<close>

definition mustParse :: "('w, 'v) Semver \<Rightarrow> string \<Rightarrow> 'v result" where
  "mustParse S v = (case sv_Parse S v of Inl e \<Rightarrow> Err (Panic (err_text e)) | Inr x \<Rightarrow> Ok x)"

definition beforeShutdown :: "('w, 'v) Semver \<Rightarrow> 'w \<Rightarrow> bool result" where
  "beforeShutdown S w = rbind (Client_Version S w) (\<lambda>ver. rmap (sv_LT S ver) (mustParse S ''0.2.9''))"

definition Client_Reboot :: "'w Zinit \<Rightarrow> ('w, 'v) Semver \<Rightarrow> 'w \<Rightarrow> 'w \<times> unit result" where
  "Client_Reboot Z S w = (case beforeShutdown S w of
     Inl e \<Rightarrow> (w, Err e)
   | Inr old \<Rightarrow> Client_run Z (if old then ''shutdown'' else ''reboot'') w)"

definition Client_Shutdown :: "'w Zinit \<Rightarrow> ('w, 'v) Semver \<Rightarrow> 'w \<Rightarrow> 'w \<times> unit result" where
  "Client_Shutdown Z S w = (case beforeShutdown S w of
     Inl e \<Rightarrow> (w, Err e)
   | Inr old \<Rightarrow> if old then (w, Err (Wrap ''shutdown is not supported in this version of zinit'' ErrNotSupported))
       else Client_run Z ''shutdown'' w)"

section \<open>Waiting (commands.go)\<close>

text \<open>
  \<open>time.After\<close> fires once the clock has reached the deadline. The loops do not have a bound of
  their own: a loop that never ends is \<^const>\<open>None\<close>.
\<close>

partial_function (option) startLoop :: "'w Zinit \<Rightarrow> int \<Rightarrow> string \<Rightarrow> 'w \<Rightarrow> ('w \<times> unit result) option" where
  "startLoop Z deadline service w =
     (if deadline \<le> zi_now Z w then
        (case Client_Status Z service w of
           (w, Inl e) \<Rightarrow> Some (w, Err e)
         | (w, Inr status) \<Rightarrow> Some (w, if Exited (ss_State status)
             then Err (Errorf (''service '' @ squote service @ '' did not start in time'')) else Ok ()))
      else
        (case Client_Status Z service w of
           (w, Inl e) \<Rightarrow> Some (w, Err e)
         | (w, Inr status) \<Rightarrow>
             if ss_Target status \<noteq> ServiceTargetUp
             then Some (w, Err (Errorf ''expected service target should be UP. found DOWN''))
             else if ServiceState_Is (ss_State status) ServiceStateRunning \<or> ServiceState_Is (ss_State status) ServiceStateSuccess
             then Some (w, Ok ())
             else startLoop Z deadline service (zi_sleep Z second w)))"

definition StartWait :: "'w Zinit \<Rightarrow> int \<Rightarrow> string \<Rightarrow> ('w, unit) io" where
  "StartWait Z timeout service =
     ibind (iact (Client_Start Z service)) (\<lambda>_.
     if timeout = 0 then iret (Ok ()) else (\<lambda>w. startLoop Z (zi_now Z w + timeout) service w))"

partial_function (option) stopWaitLoop :: "'w Zinit \<Rightarrow> int \<Rightarrow> string \<Rightarrow> 'w \<Rightarrow> ('w \<times> unit result) option" where
  "stopWaitLoop Z deadline service w =
     (if deadline \<le> zi_now Z w then Some (Client_Kill Z service SIGKILL w)
      else
        (case Client_Status Z service w of
           (w, Inl e) \<Rightarrow> Some (w, Err e)
         | (w, Inr status) \<Rightarrow>
             if ss_Target status \<noteq> ServiceTargetDown
             then Some (w, Err (Errorf ''expected service target should be DOWN. found UP''))
             else if Exited (ss_State status) then Some (w, Ok ())
             else stopWaitLoop Z deadline service (zi_sleep Z second w)))"

definition StopWait :: "'w Zinit \<Rightarrow> int \<Rightarrow> string \<Rightarrow> ('w, unit) io" where
  "StopWait Z timeout service =
     ibind (iact (Client_Stop Z service)) (\<lambda>_.
     if timeout = 0 then iret (Ok ()) else (\<lambda>w. stopWaitLoop Z (zi_now Z w + timeout) service w))"

section \<open>Several services (commands.go)\<close>

text \<open>\<open>services\<close> is a set of names: a list without repetitions.\<close>

fun startAll :: "'w Zinit \<Rightarrow> string list \<Rightarrow> string list \<Rightarrow> 'w \<Rightarrow> 'w \<times> string list" where
  "startAll Z [] services w = (w, services)"
| "startAll Z (name # names) services w = (case Client_Monitor Z name w of
     (w, _) \<Rightarrow> (case Client_Start Z name w of
       (w, Inl e) \<Rightarrow> startAll Z names services w
     | (w, Inr _) \<Rightarrow> startAll Z names (if name \<in> set services then services else services @ [name]) w))"

fun startScan :: "'w Zinit \<Rightarrow> string list \<Rightarrow> 'w \<Rightarrow> 'w \<times> string list result" where
  "startScan Z [] w = (w, Ok [])"
| "startScan Z (service # services) w = (case Client_Status Z service w of
     (w, Inl e) \<Rightarrow> (w, Err e)
   | (w, Inr status) \<Rightarrow>
       if ss_Target status \<noteq> ServiceTargetUp
       then (w, Err (Errorf (''expected service '' @ squote service @ '' target should be UP. found DOWN'')))
       else (case startScan Z services w of
         (w, r) \<Rightarrow> (w, rmap (\<lambda>running. if ServiceState_Any (ss_State status) [ServiceStateRunning, ServiceStateSuccess]
            then service # running else running) r)))"

text \<open>
  \<open>select\<close> between the deadline and a timer of one second, with the time that is left: \<open>True\<close>
  when the deadline comes first. When both are due at once Go takes either; here the timer.
\<close>

definition selectDeadline :: "'w Zinit \<Rightarrow> int \<Rightarrow> 'w \<Rightarrow> 'w \<times> bool" where
  "selectDeadline Z deadline w = (let now = zi_now Z w in
     if deadline \<le> now then (w, True)
     else if deadline < now + second then (zi_sleep Z (deadline - now) w, True)
     else (zi_sleep Z second w, False))"

partial_function (option) startManyLoop :: "'w Zinit \<Rightarrow> int \<Rightarrow> string list \<Rightarrow> 'w \<Rightarrow> ('w \<times> unit result) option" where
  "startManyLoop Z deadline services w =
     (if services = [] then Some (w, Ok ())
      else (case startScan Z (zi_order Z services) w of
        (w, Inl e) \<Rightarrow> Some (w, Err e)
      | (w, Inr running) \<Rightarrow>
          let services = filter (\<lambda>s. s \<notin> set running) services in
          if services = [] then Some (w, Ok ())
          else (case selectDeadline Z deadline w of
            (w, due) \<Rightarrow> if due then Some (w, Ok ()) else startManyLoop Z deadline services w)))"

definition StartMultiple :: "'w Zinit \<Rightarrow> int \<Rightarrow> string list \<Rightarrow> ('w, unit) io" where
  "StartMultiple Z timeout service w = (case startAll Z service [] w of
     (w, services) \<Rightarrow> startManyLoop Z (zi_now Z w + timeout) services w)"

fun stopAll :: "'w Zinit \<Rightarrow> string list \<Rightarrow> string list \<Rightarrow> 'w \<Rightarrow> 'w \<times> string list" where
  "stopAll Z [] services w = (w, services)"
| "stopAll Z (name # names) services w = (case Client_Stop Z name w of
     (w, Inl e) \<Rightarrow> stopAll Z names services w
   | (w, Inr _) \<Rightarrow> stopAll Z names (if name \<in> set services then services else services @ [name]) w)"

fun stopScan :: "'w Zinit \<Rightarrow> string list \<Rightarrow> 'w \<Rightarrow> 'w \<times> string list result" where
  "stopScan Z [] w = (w, Ok [])"
| "stopScan Z (service # services) w = (case Client_Status Z service w of
     (w, Inl e) \<Rightarrow> (w, Err e)
   | (w, Inr status) \<Rightarrow>
       if ss_Target status \<noteq> ServiceTargetDown
       then (w, Err (Errorf (''expected service '' @ squote service @ '' target should be DOWN. found UP'')))
       else (case stopScan Z services w of
         (w, r) \<Rightarrow> (w, rmap (\<lambda>stopped. if Exited (ss_State status) then service # stopped else stopped) r)))"

fun killAll :: "'w Zinit \<Rightarrow> string list \<Rightarrow> 'w \<Rightarrow> 'w" where
  "killAll Z [] w = w"
| "killAll Z (service # services) w = killAll Z services (fst (Client_Kill Z service SIGKILL w))"

partial_function (option) stopManyLoop :: "'w Zinit \<Rightarrow> int \<Rightarrow> nat \<Rightarrow> string list \<Rightarrow> 'w \<Rightarrow> ('w \<times> unit result) option" where
  "stopManyLoop Z deadline killCount services w =
     (if services = [] then Some (w, Ok ())
      else (case stopScan Z (zi_order Z services) w of
        (w, Inl e) \<Rightarrow> Some (w, Err e)
      | (w, Inr stopped) \<Rightarrow>
          let services = filter (\<lambda>s. s \<notin> set stopped) services in
          if services = [] then Some (w, Ok ())
          else (case selectDeadline Z deadline w of
            (w, due) \<Rightarrow>
              if due then
                let w = killAll Z (zi_order Z services) w in
                if killCount + 1 = 10 then Some (w, Err (Errorf ''not all services are dead in time''))
                else stopManyLoop Z deadline (killCount + 1) services (zi_sleep Z second w)
              else stopManyLoop Z deadline killCount services w)))"

definition StopMultiple :: "'w Zinit \<Rightarrow> int \<Rightarrow> string list \<Rightarrow> ('w, unit) io" where
  "StopMultiple Z timeout service w = (case stopAll Z service [] w of
     (w, services) \<Rightarrow> stopManyLoop Z (zi_now Z w + timeout) 0 services w)"

section \<open>Search and removal (commands.go)\<close>

datatype Filter = nameFilter string | execFilter string | execRegexFilter string

fun Filter_matches :: "'w Zinit \<Rightarrow> string \<Rightarrow> InitService \<Rightarrow> Filter \<Rightarrow> bool" where
  "Filter_matches Z name service (nameFilter n) = (n = name)"
| "Filter_matches Z name service (execFilter basename) = (case zi_shlex Z (is_Exec service) of
     Inl _ \<Rightarrow> False
   | Inr parts \<Rightarrow> parts \<noteq> [] \<and> basename = Base (parts ! 0))"
| "Filter_matches Z name service (execRegexFilter regex) = (case zi_regexp Z regex of
     None \<Rightarrow> False
   | Some r \<Rightarrow> r (is_Exec service))"

fun matchNames :: "'w Zinit \<Rightarrow> Filter list \<Rightarrow> string list \<Rightarrow> 'w \<Rightarrow> 'w \<times> string list result" where
  "matchNames Z filters [] w = (w, Ok [])"
| "matchNames Z filters (name # names) w = (case Client_Get Z name w of
     (w, Inl e) \<Rightarrow> (w, Err (Wrap (''could not get the service of '' @ squote name) e))
   | (w, Inr service) \<Rightarrow> (case matchNames Z filters names w of
       (w, r) \<Rightarrow> (w, rmap (\<lambda>matched. if list_all (Filter_matches Z name service) filters then name # matched else matched) r)))"

definition Client_Matches :: "'w Zinit \<Rightarrow> Filter list \<Rightarrow> 'w \<Rightarrow> 'w \<times> string list result" where
  "Client_Matches Z filters w =
     (if length filters < 1 then (w, Err (Errorf ''should provide at least one filter''))
      else (case Client_List Z w of
        (w, Inl e) \<Rightarrow> (w, Err e)
      | (w, Inr monitored) \<Rightarrow> matchNames Z filters (zi_order Z (map fst monitored)) w))"

fun forgetAll :: "'w Zinit \<Rightarrow> string list \<Rightarrow> 'w \<Rightarrow> 'w \<times> unit result" where
  "forgetAll Z [] w = (w, Ok ())"
| "forgetAll Z (name # names) w = (case Client_Forget Z name w of
     (w, r) \<Rightarrow>
       (case r of
         Inl e \<Rightarrow> if \<not> err_is e ErrUnknownService then (w, Err e)
           else (case RemoveService Z name w of (w, Inl e) \<Rightarrow> (w, Err e) | (w, Inr _) \<Rightarrow> forgetAll Z names w)
       | Inr _ \<Rightarrow> (case RemoveService Z name w of (w, Inl e) \<Rightarrow> (w, Err e) | (w, Inr _) \<Rightarrow> forgetAll Z names w)))"

definition Destroy :: "'w Zinit \<Rightarrow> int \<Rightarrow> string list \<Rightarrow> ('w, unit) io" where
  "Destroy Z timeout services =
     (if length services = 0 then iret (Ok ())
      else ibind (StopMultiple Z timeout services) (\<lambda>_. iact (forgetAll Z services)))"

end
