(* ===== verification/Gateway.thy ===== *)
theory Gateway
  imports ZosTypes Zinit
begin

text \<open>
  The gateway, \<open>pkg/gateway\<close>: proxies of workloads, each a configuration file of traefik for one
  domain (gateway.go), the local forwarders that reach backends in a private network (nnc.go),
  and the managers of the two workload types (\<open>pkg/primitives/gateway\<close>).
\<close>

section \<open>Configurations of traefik (gateway.go)\<close>

record Domain =
  do_Sans :: "string list"
  do_Main :: string

record TlsConfig =
  tl_CertResolver :: string
  tl_Domains :: "Domain list"
  tl_Passthrough :: string

record Router =
  ro_Rule :: string
  ro_Service :: string
  ro_Tls :: "TlsConfig option"

record Server =
  sv_Url :: string
  sv_Address :: string

record LoadBalancer =
  lb_Servers :: "Server list"

record Service =
  se_LoadBalancer :: LoadBalancer

text \<open>Maps are association lists with distinct keys.\<close>

record HTTPConfig =
  hc_Routers :: "(string \<times> Router) list"
  hc_Services :: "(string \<times> Service) list"

record ProxyConfig =
  px_Http :: "HTTPConfig option"
  px_TCP :: "HTTPConfig option"

definition traefikService :: string where "traefikService = ''traefik''"
definition letsEncryptEmail :: string where "letsEncryptEmail = ''letsencrypt@threefold.tech''"
definition httpCertResolver :: string where "httpCertResolver = ''resolver''"
definition dnsCertResolver :: string where "dnsCertResolver = ''dnsresolver''"
definition configDir :: string where "configDir = ''proxy''"
definition metaDir :: string where "metaDir = ''traefik''"
definition zinitDir :: string where "zinitDir = ''zinit''"

text \<open>The state of the module. The workload of a reserved domain is a workload identifier.\<close>

record gatewayModule =
  gm_volatile :: string
  gm_reservedDomains :: "string \<rightharpoonup> string"
  gm_staticConfigPath :: string
  gm_binPath :: string
  gm_certScriptPath :: string

section \<open>What the gateway calls\<close>

record PublicConfig =
  pc_IPv4 :: bytes
  pc_IPv6 :: bytes
  pc_Domain :: string

record SubstrateError =
  su_Err :: "err option"
  su_Code :: int

definition CodeNoError :: int where "CodeNoError = 0"
definition CodeNotFound :: int where "CodeNotFound = 1"

definition SubstrateError_IsError :: "SubstrateError \<Rightarrow> bool" where
  "SubstrateError_IsError e \<longleftrightarrow> su_Code e \<noteq> CodeNoError"

definition SubstrateError_IsCode :: "SubstrateError \<Rightarrow> int list \<Rightarrow> bool" where
  "SubstrateError_IsCode e codes = list_ex (\<lambda>code. code = su_Code e) codes"

record Contract =
  cn_IsCreated :: bool
  cn_IsGracePeriod :: bool
  cn_TwinID :: u32

text \<open>
  The zinit client and the files it names (\<open>os.ReadFile\<close>, \<open>os.WriteFile\<close>), the other file calls,
  YAML and JSON, the network daemon, the flist daemon, the chain, the provision engine, DNS and
  random numbers. \<open>ge_staticText\<close>, \<open>ge_certText\<close> and \<open>ge_dnsmasqText\<close> are the embedded files of
  \<open>static/\<close> with their arguments filled in; \<open>ge_domainOrder\<close> is the order of an iteration over
  the reserved domains.
\<close>

record 'w GwEnv =
  ge_zinit :: "'w Zinit"
  ge_lib :: Lib
  ge_ReadDir :: "string \<Rightarrow> 'w \<Rightarrow> (string \<times> bool) list result"
  ge_Remove :: "string \<Rightarrow> 'w \<Rightarrow> 'w \<times> unit result"
  ge_Open :: "string \<Rightarrow> 'w \<Rightarrow> unit result"
  ge_Create :: "string \<Rightarrow> 'w \<Rightarrow> 'w \<times> unit result"
  ge_Copy :: "string \<Rightarrow> string \<Rightarrow> 'w \<Rightarrow> 'w \<times> unit result"
  ge_Mkdir :: "string \<Rightarrow> 'w \<Rightarrow> 'w \<times> unit result"
  ge_MkdirAll :: "string \<Rightarrow> 'w \<Rightarrow> 'w \<times> unit result"
  ge_MountTmpfs :: "string \<Rightarrow> nat \<Rightarrow> 'w \<Rightarrow> 'w \<times> unit result"
  ge_Symlink :: "string \<Rightarrow> string \<Rightarrow> 'w \<Rightarrow> 'w \<times> unit result"
  ge_marshal :: "ProxyConfig \<Rightarrow> bytes result"
  ge_unmarshal :: "bytes \<Rightarrow> ProxyConfig result"
  ge_unmarshalName :: "bytes \<Rightarrow> GatewayNameProxy result"
  ge_unmarshalFQDN :: "bytes \<Rightarrow> GatewayFQDNProxy result"
  ge_base58 :: "bytes \<Rightarrow> string"
  ge_GetPublicConfig :: "'w \<Rightarrow> PublicConfig result"
  ge_GetNet :: "string \<Rightarrow> 'w \<Rightarrow> unit result"
  ge_Namespace :: "string \<Rightarrow> 'w \<Rightarrow> string"
  ge_HubURL :: string
  ge_JoinPath :: "string \<Rightarrow> string list \<Rightarrow> string result"
  ge_FlistHash :: "string \<Rightarrow> 'w \<Rightarrow> string result"
  ge_FlistMount :: "string \<Rightarrow> string \<Rightarrow> 'w \<Rightarrow> 'w \<times> string result"
  ge_FlistUnmount :: "string \<Rightarrow> 'w \<Rightarrow> 'w \<times> unit result"
  ge_ContractByName :: "string \<Rightarrow> 'w \<Rightarrow> u64 \<times> SubstrateError"
  ge_GetContract :: "u64 \<Rightarrow> 'w \<Rightarrow> Contract \<times> SubstrateError"
  ge_DecommissionCached :: "string \<Rightarrow> string \<Rightarrow> 'w \<Rightarrow> 'w \<times> unit result"
  ge_LookupHost :: "string \<Rightarrow> 'w \<Rightarrow> string list result"
  ge_Intn :: "int \<Rightarrow> 'w \<Rightarrow> 'w \<times> int"
  ge_staticText :: "string \<Rightarrow> string \<Rightarrow> string \<Rightarrow> string"
  ge_certText :: "string \<Rightarrow> string"
  ge_dnsmasqText :: string
  ge_domainOrder :: "(string \<rightharpoonup> string) \<Rightarrow> (string \<times> string) list"

section \<open>Domains of the configuration files (gateway.go)\<close>

text \<open>The expression of \<open>domainRe\<close>: \<open>Host\<close> or \<open>HostSNI\<close> with a name between backquotes.\<close>

definition backquote :: char where "backquote = CHR 0x60"

definition matchHost :: "string \<Rightarrow> string \<Rightarrow> string option" where
  "matchHost name rule = (let pre = name @ ''('' @ [backquote]; post = [backquote] @ '')'';
       d = take (length rule - length pre - length post) (drop (length pre) rule) in
     if HasPrefix rule pre \<and> HasSuffix rule post \<and> length pre + length post < length rule \<and> backquote \<notin> set d
     then Some d else None)"

definition domainFromRule :: "string \<Rightarrow> string result" where
  "domainFromRule rule = (case matchHost ''Host'' rule of
     Some d \<Rightarrow> Ok d
   | None \<Rightarrow> (case matchHost ''HostSNI'' rule of
       Some d \<Rightarrow> Ok d
     | None \<Rightarrow> Err (Errorf (''failed to extract domain from routing rule '' @ squote rule))))"

definition domainOfRouters :: "string \<Rightarrow> (string \<times> Router) list \<Rightarrow> (string \<times> string) result" where
  "domainOfRouters path routers =
     (if length routers > 1 then Err (Errorf (''only one router expected, found more: '' @ path))
      else (case routers of
        (_, router) # _ \<Rightarrow> rmap (\<lambda>domain. (ro_Service router, domain)) (domainFromRule (ro_Rule router))
      | [] \<Rightarrow> Err (Errorf (''no routes defined in: '' @ path))))"

definition domainFromConfig :: "'w GwEnv \<Rightarrow> string \<Rightarrow> 'w \<Rightarrow> (string \<times> string) result" where
  "domainFromConfig E path w =
     rbind (rwrap ''failed to read file'' (zi_ReadFile (ge_zinit E) path w)) (\<lambda>buf.
     rbind (rwrap ''failed to unmarshal yaml file'' (ge_unmarshal E buf)) (\<lambda>c.
     case px_TCP c of
       Some tcp \<Rightarrow> domainOfRouters path (hc_Routers tcp)
     | None \<Rightarrow> (case px_Http c of
         Some http \<Rightarrow> domainOfRouters path (hc_Routers http)
       | None \<Rightarrow> Err (Errorf (''yaml file doesn't contain valid http or tcp config '' @ path)))))"

fun loadEntries :: "'w GwEnv \<Rightarrow> string \<Rightarrow> 'w \<Rightarrow> (string \<times> bool) list \<Rightarrow> (string \<rightharpoonup> string) \<Rightarrow> (string \<rightharpoonup> string)" where
  "loadEntries E dir w [] domains = domains"
| "loadEntries E dir w ((name, isDir) # entries) domains =
     (if \<not> isDir \<and> HasSuffix name ''.yaml'' then
        (case domainFromConfig E (Join [dir, name]) w of
           Inl _ \<Rightarrow> loadEntries E dir w entries domains
         | Inr (wlID, domain) \<Rightarrow> loadEntries E dir w entries (domains(domain \<mapsto> wlID)))
      else loadEntries E dir w entries domains)"

definition loadDomains :: "'w GwEnv \<Rightarrow> string \<Rightarrow> 'w \<Rightarrow> (string \<rightharpoonup> string) result" where
  "loadDomains E dir w =
     rbind (rwrap ''failed to read dir'' (ge_ReadDir E dir w)) (\<lambda>entries. Ok (loadEntries E dir w entries Map.empty))"

section \<open>Start of the module (gateway.go, static.go, flist.go, cache.go)\<close>

text \<open>\<open>volatileDir\<close>: the path, and the error if there is one.\<close>

definition volatileDir :: "'w GwEnv \<Rightarrow> string \<Rightarrow> nat \<Rightarrow> 'w \<Rightarrow> 'w \<times> string \<times> unit result" where
  "volatileDir E name bytes w = (let base = ''/var/run/cache''; name = Join [base, name] in
     case ge_MkdirAll E base w of
       (w, Inl e) \<Rightarrow> (w, name, Err e)
     | (w, Inr _) \<Rightarrow> (case ge_Mkdir E name w of
         (w, Inl e) \<Rightarrow> (w, name, Err e)
       | (w, Inr _) \<Rightarrow> (case ge_MountTmpfs E name bytes w of (w, r) \<Rightarrow> (w, name, r))))"

fun mkdirs :: "'w GwEnv \<Rightarrow> string \<Rightarrow> string list \<Rightarrow> ('w, unit) io" where
  "mkdirs E root [] = iret (Ok ())"
| "mkdirs E root (dir # dirs) = (let dir = Join [root, dir] in
     ibind (iwrap (''failed to create directory '' @ squote dir) (iact (ge_MkdirAll E dir))) (\<lambda>_. mkdirs E root dirs))"

definition moveFile :: "'w GwEnv \<Rightarrow> string \<Rightarrow> string \<Rightarrow> 'w \<Rightarrow> 'w \<times> unit result" where
  "moveFile E source dest w = (case ge_Open E source w of
     Inl e \<Rightarrow> (w, Err e)
   | Inr _ \<Rightarrow> (case ge_Create E dest w of
       (w, Inl e) \<Rightarrow> (w, Err e)
     | (w, Inr _) \<Rightarrow> ge_Copy E dest source w))"

fun migrateEntries :: "'w GwEnv \<Rightarrow> string \<Rightarrow> string \<Rightarrow> (string \<times> bool) list \<Rightarrow> 'w \<Rightarrow> 'w" where
  "migrateEntries E source dest [] w = w"
| "migrateEntries E source dest ((name, isDir) # entries) w =
     (if isDir then migrateEntries E source dest entries w
      else (case moveFile E (Join [source, name]) (Join [dest, name]) w of
        (w, Inl _) \<Rightarrow> migrateEntries E source dest entries w
      | (w, Inr _) \<Rightarrow> migrateEntries E source dest entries (fst (ge_Remove E (Join [source, name]) w))))"

definition migrateFiles :: "'w GwEnv \<Rightarrow> string \<Rightarrow> string \<Rightarrow> 'w \<Rightarrow> 'w \<times> unit result" where
  "migrateFiles E root volatile w = (let source = Join [root, configDir]; dest = Join [volatile, configDir] in
     case ge_ReadDir E source w of
       Inl e \<Rightarrow> (w, if e = ErrNotExist then Ok () else Err e)
     | Inr entries \<Rightarrow> (migrateEntries E source dest entries w, Ok ()))"

definition ensureTraefikBin :: "'w GwEnv \<Rightarrow> ('w, string) io" where
  "ensureTraefikBin E = (let bin = ''traefik'' in
     ibind (iret (rwrap ''failed to constract traefik flist url''
       (ge_JoinPath E (ge_HubURL E) [''tf-autobuilder'', ''traefik-2.9.9.flist'']))) (\<lambda>flist.
     ibind (iwrap ''failed to get traefik flist hash'' (iread (ge_FlistHash E flist))) (\<lambda>hash.
     ibind (iwrap ''failed to mount traefik flist'' (iact (ge_FlistMount E (bin @ '':'' @ hash) flist))) (\<lambda>mnt.
     iret (Ok (Join [mnt, bin]))))))"

definition staticConfig :: "'w GwEnv \<Rightarrow> string \<Rightarrow> string \<Rightarrow> string \<Rightarrow> string \<Rightarrow> ('w, bool) io" where
  "staticConfig E p root volatile email = (let config = ge_staticText E root email volatile in
     itry (iread (zi_ReadFile (ge_zinit E) p)) (\<lambda>r.
     case r of
       Inl e \<Rightarrow> if e = ErrNotExist then ibind (iact (zi_WriteFile (ge_zinit E) p config)) (\<lambda>_. iret (Ok True))
         else iret (Err (Wrap ''failed to read traefik config'' e))
     | Inr oldConfig \<Rightarrow> ibind (iact (zi_WriteFile (ge_zinit E) p config)) (\<lambda>_. iret (Ok (config \<noteq> oldConfig)))))"

definition updateCertScript :: "'w GwEnv \<Rightarrow> string \<Rightarrow> string \<Rightarrow> 'w \<Rightarrow> 'w \<times> unit result" where
  "updateCertScript E p root = zi_WriteFile (ge_zinit E) p (ge_certText E root)"

definition dnsmasqConfig :: "'w GwEnv \<Rightarrow> string \<Rightarrow> 'w \<Rightarrow> 'w \<times> unit result" where
  "dnsmasqConfig E p = zi_WriteFile (ge_zinit E) p (ge_dnsmasqText E)"

section \<open>Traefik (gateway.go)\<close>

definition isTraefikStarted :: "'w GwEnv \<Rightarrow> 'w \<Rightarrow> 'w \<times> bool result" where
  "isTraefikStarted E w = (case Client_Status (ge_zinit E) traefikService w of
     (w, Inl e) \<Rightarrow> (w, if err_is e ErrUnknownService then Ok False else Err (Wrap ''failed to check traefik status'' e))
   | (w, Inr traefikStatus) \<Rightarrow> (w, Ok (ServiceState_Is (ss_State traefikStatus) ServiceStateRunning)))"

text \<open>The matches of \<open>traefikBinRegex\<close>, with the group of each.\<close>

definition traefikRoot :: string where "traefikRoot = ''/var/cache/modules/flistd/mountpoint/''"

definition is_mount :: "char \<Rightarrow> bool" where
  "is_mount c \<longleftrightarrow> c \<in> set ''abcdefghijklmnopqrstuvwxyz0123456789:''"

definition matchTraefik :: "string \<Rightarrow> (string \<times> string) option" where
  "matchTraefik s = (let name = takeWhile is_mount (drop (length traefikRoot) s); m = traefikRoot @ name @ ''/traefik'' in
     if name \<noteq> [] \<and> HasPrefix s m then Some (m, name) else None)"

function findTraefik :: "string \<Rightarrow> (string \<times> string) list" where
  "findTraefik s = (case s of
     [] \<Rightarrow> []
   | c # cs \<Rightarrow> (case matchTraefik s of
       Some (m, name) \<Rightarrow> (m, name) # findTraefik (drop (length m) s)
     | None \<Rightarrow> findTraefik cs))"
  by pat_completeness auto
termination
  by (relation "measure length") (auto simp: matchTraefik_def Let_def split: if_splits)

declare findTraefik.simps [simp del]

text \<open>\<open>errors.Wrapf\<close> of a nil error is nil, so that any other number of matches than one gives
  two empty names and no error.\<close>

definition traefikBinary :: "'w GwEnv \<Rightarrow> 'w \<Rightarrow> 'w \<times> (string \<times> string) result" where
  "traefikBinary E w = (case Client_Get (ge_zinit E) traefikService w of
     (w, r) \<Rightarrow> (w, rbind r (\<lambda>info. case findTraefik (is_Exec info) of
         [m] \<Rightarrow> Ok m
       | _ \<Rightarrow> Ok ([], []))))"

definition startTraefik :: "'w GwEnv \<Rightarrow> gatewayModule \<Rightarrow> ('w, unit) io" where
  "startTraefik E g = (let Z = ge_zinit E; cmd = ''ip netns exec public '' @ gm_binPath g @ '' --configfile '' @ gm_staticConfigPath g in
     ibind (iwrap ''failed to add traefik to zinit'' (iact (AddService Z traefikService
       (noInitService\<lparr>is_Exec := cmd, is_Env := [(''EXEC_PATH'', gm_certScriptPath g)]\<rparr>)))) (\<lambda>_.
     ibind (iwrap ''couldn't monitor traefik service'' (iact (Client_Monitor Z traefikService))) (\<lambda>_.
     iwrap ''waiting for trafik start timed out'' (StartWait Z (20 * second) traefikService))))"

text \<open>The part of \<open>ensureGateway\<close> for a traefik that zinit knows: whether it still runs.\<close>

definition oldTraefik :: "'w GwEnv \<Rightarrow> gatewayModule \<Rightarrow> bool \<Rightarrow> ('w, bool) io" where
  "oldTraefik E g running = (let Z = ge_zinit E in
     ibind (iwrap ''failed to get old traefik binary path'' (iact (traefikBinary E))) (\<lambda>(path, name).
     ibind (if path \<noteq> gm_binPath g then
              ibind (iwrap ''failed to stop old traefik'' (StopWait Z (10 * second) traefikService)) (\<lambda>_.
              itry (iact (ge_FlistUnmount E name)) (\<lambda>_. iret (Ok False)))
            else iret (Ok running)) (\<lambda>running.
     ibind (if \<not> running then iwrap ''failed to forget old traefik'' (iact (Client_Forget Z traefikService)) else iret (Ok ())) (\<lambda>_.
     iret (Ok running)))))"

definition ensureGateway :: "'w GwEnv \<Rightarrow> gatewayModule \<Rightarrow> bool \<Rightarrow> ('w, PublicConfig) io" where
  "ensureGateway E g forceRestart = (let Z = ge_zinit E in
     ibind (iwrap ''gateway is not supported on this node'' (iread (ge_GetPublicConfig E))) (\<lambda>cfg.
     ibind (iwrap ''failed to check traefik status'' (iact (isTraefikStarted E))) (\<lambda>running.
     ibind (iwrap ''couldn't get traefik service status'' (iact (Client_Exists Z traefikService))) (\<lambda>known.
     ibind (if known then oldTraefik E g running else iret (Ok running)) (\<lambda>running.
     ibind (if running \<and> forceRestart then iwrap ''failed to restart traefik'' (iact (Client_Kill Z traefikService SIGTERM))
            else iret (Ok ())) (\<lambda>_.
     if running then iret (Ok cfg)
     else ibind (startTraefik E g) (\<lambda>_. iret (Ok cfg))))))))"

text \<open>\<open>New\<close>, up to the goroutine that validates the name contracts: \<open>newIn\<close> is what follows once
  the volatile directory is there. Errors of the migration and of \<open>ensureGateway\<close> are logged.\<close>

definition newIn :: "'w GwEnv \<Rightarrow> string \<Rightarrow> string \<Rightarrow> ('w, gatewayModule) io" where
  "newIn E root volatile =
     ibind (mkdirs E root [metaDir]) (\<lambda>_.
     ibind (mkdirs E volatile [configDir, zinitDir]) (\<lambda>_.
     itry (iact (migrateFiles E root volatile)) (\<lambda>_.
     ibind (iwrap ''failed to ensure traefik binary'' (ensureTraefikBin E)) (\<lambda>bin.
     ibind (iwrap ''failed to create dnsmasq config'' (iact (dnsmasqConfig E (Join [root, ''dnsmasq.conf''])))) (\<lambda>_.
     let certScriptPath = Join [root, ''cert.sh''] in
     ibind (iwrap ''failed to create cert script'' (iact (updateCertScript E certScriptPath root))) (\<lambda>_.
     let staticCfgPath = Join [root, ''traefik.yaml''] in
     ibind (iwrap ''failed to create static config'' (staticConfig E staticCfgPath root volatile letsEncryptEmail)) (\<lambda>updated.
     ibind (iwrap ''failed to load old domains'' (iread (loadDomains E (Join [volatile, configDir])))) (\<lambda>domains.
     let gw = \<lparr>gm_volatile = volatile, gm_reservedDomains = domains, gm_staticConfigPath = staticCfgPath, gm_binPath = bin,
       gm_certScriptPath = certScriptPath\<rparr> in
     itry (ensureGateway E gw updated) (\<lambda>_. iret (Ok gw))))))))))"

definition New :: "'w GwEnv \<Rightarrow> string \<Rightarrow> ('w, gatewayModule) io" where
  "New E root w = (case volatileDir E ''gateway'' (10 * 1024 * 1024) w of
     (w, volatile, Inl e) \<Rightarrow> if e \<noteq> ErrExist then Some (w, Err (Wrap ''failed to create gateway cache directory'' e))
       else newIn E root volatile w
   | (w, volatile, Inr _) \<Rightarrow> newIn E root volatile w)"

section \<open>Forwarders (nnc.go)\<close>

definition nncServicePrefix :: string where "nncServicePrefix = ''nnc-''"
definition nncStartPort :: int where "nncStartPort = 2000"

record NNC =
  nnc_ID :: WorkloadID
  nnc_Exec :: string

text \<open>The loop of \<open>arg\<close>; \<open>parts[i+1]\<close> panics when the key is the last word.\<close>

fun argAfter :: "string \<Rightarrow> string list \<Rightarrow> string result" where
  "argAfter key [] = Err (Errorf ''not found'')"
| "argAfter key (part # parts) = (if part = key then (case parts of
       [] \<Rightarrow> Err (Panic ''runtime error: index out of range'')
     | x # _ \<Rightarrow> Ok x)
     else argAfter key parts)"

definition NNC_arg :: "'w GwEnv \<Rightarrow> NNC \<Rightarrow> string \<Rightarrow> string result" where
  "NNC_arg E n key = rbind (zi_shlex (ge_zinit E) (nnc_Exec n)) (argAfter key)"

text \<open>\<open>strconv.Atoi\<close>.\<close>

definition Atoi :: "string \<Rightarrow> int result" where
  "Atoi s = (let digits = (if s \<noteq> [] \<and> (hd s = CHR ''-'' \<or> hd s = CHR ''+'') then tl s else s);
       n = int (undec digits); i = (if s \<noteq> [] \<and> hd s = CHR ''-'' then - n else n) in
     if digits = [] \<or> \<not> list_all is_digit digits then Err (Errorf (''parsing '' @ s @ '': invalid syntax''))
     else if i < - (2 ^ 63) \<or> 2 ^ 63 \<le> i then Err (Errorf (''parsing '' @ s @ '': value out of range''))
     else Ok i)"

definition NNC_port :: "'w GwEnv \<Rightarrow> NNC \<Rightarrow> u16 result" where
  "NNC_port E n =
     rbind (NNC_arg E n ''--listen'') (\<lambda>listen.
     rbind (lib_splitHostPort (ge_lib E) listen) (\<lambda>(_, port).
     rbind (Atoi port) (\<lambda>value. Ok (word_of_int value))))"

definition nncZinitPath :: "gatewayModule \<Rightarrow> string \<Rightarrow> string" where
  "nncZinitPath g name = Join [gm_volatile g, zinitDir, name @ ''.yaml'']"

fun listNNCs :: "'w GwEnv \<Rightarrow> string list \<Rightarrow> (u16 \<rightharpoonup> NNC) \<Rightarrow> 'w \<Rightarrow> 'w \<times> (u16 \<rightharpoonup> NNC) result" where
  "listNNCs E [] nncs w = (w, Ok nncs)"
| "listNNCs E (name # names) nncs w =
     (if \<not> HasPrefix name nncServicePrefix then listNNCs E names nncs w
      else (case Client_Get (ge_zinit E) name w of
        (w, Inl e) \<Rightarrow> (w, Err e)
      | (w, Inr cfg) \<Rightarrow>
          let nnc = \<lparr>nnc_ID = TrimPrefix name nncServicePrefix, nnc_Exec = is_Exec cfg\<rparr> in
          (case NNC_port E nnc of
             Inl e \<Rightarrow> (w, Err e)
           | Inr port \<Rightarrow> listNNCs E names (nncs(port \<mapsto> nnc)) w)))"

definition nncList :: "'w GwEnv \<Rightarrow> 'w \<Rightarrow> 'w \<times> (u16 \<rightharpoonup> NNC) result" where
  "nncList E w = (case Client_List (ge_zinit E) w of
     (w, Inl e) \<Rightarrow> (w, Err e)
   | (w, Inr services) \<Rightarrow> listNNCs E (zi_order (ge_zinit E) (map fst services)) Map.empty w)"

definition nncGet :: "'w GwEnv \<Rightarrow> string \<Rightarrow> 'w \<Rightarrow> 'w \<times> NNC result" where
  "nncGet E name w = (case Client_Get (ge_zinit E) name w of
     (w, r) \<Rightarrow> (w, rmap (\<lambda>cfg. \<lparr>nnc_ID = TrimPrefix name nncServicePrefix, nnc_Exec = is_Exec cfg\<rparr>) r))"

definition nncName :: "string \<Rightarrow> string" where
  "nncName i = nncServicePrefix @ i"

partial_function (option) freePortLoop :: "'w GwEnv \<Rightarrow> (u16 \<rightharpoonup> NNC) \<Rightarrow> 'w \<Rightarrow> ('w \<times> u16 result) option" where
  "freePortLoop E current w = (case ge_Intn E (65535 - nncStartPort) w of
     (w, n) \<Rightarrow> let port = word_of_int (n + nncStartPort) in
       if current port = None then Some (w, Ok port) else freePortLoop E current w)"

definition nncFreePort :: "'w GwEnv \<Rightarrow> ('w, u16) io" where
  "nncFreePort E = ibind (iact (nncList E)) (\<lambda>current. freePortLoop E current)"

definition nncCreateService :: "'w GwEnv \<Rightarrow> gatewayModule \<Rightarrow> string \<Rightarrow> InitService \<Rightarrow> ('w, unit) io" where
  "nncCreateService E g name service = (let path = nncZinitPath g name; Z = ge_zinit E in
     ibind (iret (zi_yamlMarshal Z service)) (\<lambda>data.
     ibind (iwrap ''failed to create nnc service file'' (iact (zi_WriteFile Z path data))) (\<lambda>_.
     iwrap ''failed to create nnc service symlink'' (iact (ge_Symlink E path (Join [''/etc/zinit'', name @ ''.yaml'']))))))"

definition destroyNNC :: "'w GwEnv \<Rightarrow> gatewayModule \<Rightarrow> string \<Rightarrow> ('w, unit) io" where
  "destroyNNC E g wlID = (let name = nncName wlID; path = nncZinitPath g name in
     itry (Destroy (ge_zinit E) (10 * second) [name]) (\<lambda>_.
     itry (iact (ge_Remove E path)) (\<lambda>_. iret (Ok ()))))"

text \<open>The port of \<open>nncEnsure\<close>: that of a service of the same name, which is destroyed, or a free
  one. A panic leaves the function at once.\<close>

definition nncReusePort :: "'w GwEnv \<Rightarrow> gatewayModule \<Rightarrow> string \<Rightarrow> ('w, u16) io" where
  "nncReusePort E g wlID =
     itry (iact (nncGet E (nncName wlID))) (\<lambda>r.
     case r of
       Inr nnc \<Rightarrow> (case NNC_port E nnc of
           Inl (Panic m) \<Rightarrow> iret (Err (Panic m))
         | free \<Rightarrow> itry (destroyNNC E g wlID) (\<lambda>_. iret free))
     | Inl e \<Rightarrow> if err_is e ErrUnknownService then nncFreePort E else iret (Err e))"

definition nncCommand :: "string \<Rightarrow> string \<Rightarrow> string \<Rightarrow> string list" where
  "nncCommand be namespace target =
     [''ip'', ''netns'', ''exec'', ''public'', ''nnc'', ''--listen'', be, ''--namespace'', Join [''/var/run/netns/'', namespace],
      ''--target'', target]"

definition nncEnsure :: "'w GwEnv \<Rightarrow> gatewayModule \<Rightarrow> string \<Rightarrow> string \<Rightarrow> string \<Rightarrow> ('w, string) io" where
  "nncEnsure E g wlID namespace backend = (let name = nncName wlID in
     ibind (nncReusePort E g wlID) (\<lambda>free.
     ibind (iret (Backend_AsAddress (ge_lib E) backend)) (\<lambda>target.
     let be = ''127.0.0.1:'' @ dec (unat free);
         service = noInitService\<lparr>is_Exec := joinWith '' '' (nncCommand be namespace target)\<rparr> in
     ibind (nncCreateService E g name service) (\<lambda>_.
     itry (iact (Client_Monitor (ge_zinit E) name)) (\<lambda>r.
     case r of
       Inl e \<Rightarrow> itry (destroyNNC E g wlID) (\<lambda>_. iret (Err (Wrap ''failed to start nnc service'' e)))
     | Inr _ \<Rightarrow> iret (Ok be))))))"

section \<open>Name contracts (gateway.go)\<close>

definition subErrOf :: "SubstrateError \<Rightarrow> unit result" where
  "subErrOf e = (case su_Err e of None \<Rightarrow> Ok () | Some x \<Rightarrow> Err x)"

definition validateNameContract :: "'w GwEnv \<Rightarrow> string \<Rightarrow> u32 \<Rightarrow> 'w \<Rightarrow> unit result" where
  "validateNameContract E name twinID w = (case ge_ContractByName E name w of
     (contractID, subErr) \<Rightarrow>
       if SubstrateError_IsCode subErr [CodeNotFound] then Err ErrContractNotReserved
       else if SubstrateError_IsError subErr then subErrOf subErr
       else (case ge_GetContract E contractID w of
         (contract, subErr) \<Rightarrow>
           if SubstrateError_IsCode subErr [CodeNotFound] then
             Err (Errorf (''contract by name returned '' @ dec (unat contractID) @ '', but retrieving it results in 'not found' error''))
           else if SubstrateError_IsError subErr then subErrOf subErr
           else if \<not> cn_IsCreated contract \<and> \<not> cn_IsGracePeriod contract then Err ErrInvalidContractState
           else if cn_TwinID contract \<noteq> twinID then Err ErrTwinIDMismatch
           else Ok ()))"

definition revoked :: "err \<Rightarrow> bool" where
  "revoked e \<longleftrightarrow> err_is e ErrContractNotReserved \<or> err_is e ErrInvalidContractState \<or> err_is e ErrTwinIDMismatch"

fun validateDomains :: "'w GwEnv \<Rightarrow> string \<Rightarrow> (string \<times> string) list \<Rightarrow> 'w \<Rightarrow> 'w" where
  "validateDomains E baseDomain [] w = w"
| "validateDomains E baseDomain ((domain, i) # domains) w = (case WorkloadID_Parts i of
     Inl _ \<Rightarrow> validateDomains E baseDomain domains w
   | Inr (twinID, _, _) \<Rightarrow>
       if \<not> HasSuffix domain baseDomain then validateDomains E baseDomain domains w
       else (case validateNameContract E (TrimSuffix domain (''.'' @ baseDomain)) twinID w of
         Inr _ \<Rightarrow> validateDomains E baseDomain domains w
       | Inl e \<Rightarrow> if revoked e then validateDomains E baseDomain domains (fst (ge_DecommissionCached E i (err_text e) w))
           else validateDomains E baseDomain domains w))"

definition validateNameContracts :: "'w GwEnv \<Rightarrow> gatewayModule \<Rightarrow> 'w \<Rightarrow> 'w" where
  "validateNameContracts E g w = (case ge_GetPublicConfig E w of
     Inl _ \<Rightarrow> w
   | Inr cfg \<Rightarrow> if pc_Domain cfg = [] then w
       else validateDomains E (pc_Domain cfg) (ge_domainOrder E (gm_reservedDomains g)) w)"

section \<open>Proxies (gateway.go)\<close>

definition verifyDomainDestination :: "'w GwEnv \<Rightarrow> PublicConfig \<Rightarrow> string \<Rightarrow> 'w \<Rightarrow> unit result" where
  "verifyDomainDestination E cfg domain w =
     rbind (ge_LookupHost E domain w) (\<lambda>ips.
     if list_ex (\<lambda>ip. ip = IP_String (pc_IPv4 cfg) \<or> ip = IP_String (pc_IPv6 cfg)) ips then Ok ()
     else Err (Errorf ''host doesn't point to the gateway ip''))"

definition configPath :: "gatewayModule \<Rightarrow> string \<Rightarrow> string" where
  "configPath g name = Join [gm_volatile g, configDir, name @ ''.yaml'']"

definition setReservedDomain :: "string \<Rightarrow> string \<Rightarrow> gatewayModule \<Rightarrow> gatewayModule" where
  "setReservedDomain domain wlID g = g\<lparr>gm_reservedDomains := (gm_reservedDomains g)(domain \<mapsto> wlID)\<rparr>"

definition deleteReservedDomain :: "string \<Rightarrow> gatewayModule \<Rightarrow> gatewayModule" where
  "deleteReservedDomain domain g = g\<lparr>gm_reservedDomains := (gm_reservedDomains g)(domain := None)\<rparr>"

text \<open>The configuration that \<open>setupRoutingGeneric\<close> writes.\<close>

definition hostRule :: "bool \<Rightarrow> string \<Rightarrow> string" where
  "hostRule tlsPassthrough fqdn =
     (if tlsPassthrough then ''HostSNI('' else ''Host('') @ [backquote] @ fqdn @ [backquote] @ '')''"

definition serverOf :: "bool \<Rightarrow> string \<Rightarrow> Server" where
  "serverOf tlsPassthrough backend = (if tlsPassthrough then \<lparr>sv_Url = [], sv_Address = backend\<rparr> else \<lparr>sv_Url = backend, sv_Address = []\<rparr>)"

definition proxyConfigOf :: "string \<Rightarrow> string \<Rightarrow> TlsConfig \<Rightarrow> GatewayBase \<Rightarrow> ProxyConfig" where
  "proxyConfigOf wlID fqdn tlsConfig config = (let
       tls = gw_TLSPassthrough config;
       tlsConfig = (if tls then \<lparr>tl_CertResolver = [], tl_Domains = [], tl_Passthrough = ''true''\<rparr> else tlsConfig);
       routing = \<lparr>hc_Routers = [(wlID @ ''-route'', \<lparr>ro_Rule = hostRule tls fqdn, ro_Service = wlID, ro_Tls = Some tlsConfig\<rparr>)],
         hc_Services = [(wlID, \<lparr>se_LoadBalancer = \<lparr>lb_Servers = map (serverOf tls) (gw_Backends config)\<rparr>\<rparr>)]\<rparr> in
     if tls then \<lparr>px_Http = None, px_TCP = Some routing\<rparr> else \<lparr>px_Http = Some routing, px_TCP = None\<rparr>)"

text \<open>An operation returns the new state of the module; every error is returned before the state
  changes.\<close>

definition setupRoutingGeneric :: "'w GwEnv \<Rightarrow> gatewayModule \<Rightarrow> string \<Rightarrow> string \<Rightarrow> TlsConfig \<Rightarrow> GatewayBase \<Rightarrow> ('w, gatewayModule) io" where
  "setupRoutingGeneric E g wlID fqdn tlsConfig config =
     ibind (iret (rwrap ''failed to convert config to yaml'' (ge_marshal E (proxyConfigOf wlID fqdn tlsConfig config)))) (\<lambda>yamlString.
     ibind (iwrap ''couldn't open config file for writing'' (iact (zi_WriteFile (ge_zinit E) (configPath g wlID) yamlString))) (\<lambda>_.
     iret (Ok (setReservedDomain fqdn wlID g))))"

fun processBackends :: "'w GwEnv \<Rightarrow> gatewayModule \<Rightarrow> string \<Rightarrow> string \<Rightarrow> bool \<Rightarrow> string list \<Rightarrow> ('w, string list) io" where
  "processBackends E g wlID ns tlsPassthrough [] = iret (Ok [])"
| "processBackends E g wlID ns tlsPassthrough (backend # backends) =
     ibind (iwrap ''failed to ensure local gateway'' (nncEnsure E g wlID ns backend)) (\<lambda>be.
     ibind (processBackends E g wlID ns tlsPassthrough backends) (\<lambda>processed.
     iret (Ok ((if tlsPassthrough then be else ''http://'' @ be) # processed))))"

definition setupRouting ::
  "'w GwEnv \<Rightarrow> gatewayModule \<Rightarrow> string \<Rightarrow> string \<Rightarrow> TlsConfig \<Rightarrow> GatewayBase \<Rightarrow> bytes list \<Rightarrow> ('w, gatewayModule) io" where
  "setupRouting E g wlID fqdn tlsConfig config nodeIPs =
     ibind (iret (ValidateBackends (ge_lib E) (gw_Backends config) (gw_TLSPassthrough config) nodeIPs)) (\<lambda>_.
     if gm_reservedDomains g fqdn \<noteq> None then iret (Err (Errorf (''domain already registered: '' @ fqdn)))
     else (case gw_Network config of
       None \<Rightarrow> setupRoutingGeneric E g wlID fqdn tlsConfig config
     | Some network \<Rightarrow>
         ibind (iret (rwrap ''invalid workload id'' (WorkloadID_Parts wlID))) (\<lambda>(twinID, _, _).
         let netID = NetworkID (lib_md5 (ge_lib E)) (ge_base58 E) twinID network in
         ibind (iwrap ''failed to get user network'' (iread (ge_GetNet E netID))) (\<lambda>_.
         ibind (iread (\<lambda>w. Ok (ge_Namespace E netID w))) (\<lambda>ns.
         ibind (processBackends E g wlID ns (gw_TLSPassthrough config) (gw_Backends config)) (\<lambda>processed.
         setupRoutingGeneric E g wlID fqdn tlsConfig (config\<lparr>gw_Backends := processed\<rparr>)))))))"

definition noBackends :: "GatewayBase \<Rightarrow> unit result" where
  "noBackends config = fail_if (length (gw_Backends config) = 0)
     (Errorf (''at least one backend is needed got '' @ squote (dec (length (gw_Backends config)))))"

definition SetNamedProxy :: "'w GwEnv \<Rightarrow> gatewayModule \<Rightarrow> string \<Rightarrow> GatewayNameProxy \<Rightarrow> ('w, gatewayModule \<times> string) io" where
  "SetNamedProxy E g wlID config =
     ibind (iret (noBackends (gn_Base config))) (\<lambda>_.
     ibind (iret (rwrap ''invalid workload id'' (WorkloadID_Parts wlID))) (\<lambda>(twinID, _, _).
     ibind (ensureGateway E g False) (\<lambda>cfg.
     if pc_Domain cfg = [] then iret (Err (Errorf ''node doesn't support name proxy (doesn't have a domain)''))
     else ibind (iwrap ''failed to verify name contract'' (iread (validateNameContract E (gn_Name config) twinID))) (\<lambda>_.
     let fqdn = gn_Name config @ ''.'' @ pc_Domain cfg;
         tls = \<lparr>tl_CertResolver = dnsCertResolver, tl_Domains = [\<lparr>do_Sans = [''*.'' @ pc_Domain cfg], do_Main = []\<rparr>], tl_Passthrough = []\<rparr> in
     ibind (setupRouting E g wlID fqdn tls (gn_Base config) [pc_IPv4 cfg, pc_IPv6 cfg]) (\<lambda>g.
     iret (Ok (g, fqdn)))))))"

definition SetFQDNProxy :: "'w GwEnv \<Rightarrow> gatewayModule \<Rightarrow> string \<Rightarrow> GatewayFQDNProxy \<Rightarrow> ('w, gatewayModule) io" where
  "SetFQDNProxy E g wlID config =
     ibind (iret (noBackends (gf_Base config))) (\<lambda>_.
     ibind (ensureGateway E g False) (\<lambda>cfg.
     if pc_Domain cfg \<noteq> [] \<and> HasSuffix (gf_FQDN config) (pc_Domain cfg)
     then iret (Err (Errorf ''can't create a fqdn workload with a subdomain of the gateway's managed domain''))
     else ibind (iwrap ''failed to verify domain dns record'' (iread (verifyDomainDestination E cfg (gf_FQDN config)))) (\<lambda>_.
     let tls = \<lparr>tl_CertResolver = httpCertResolver, tl_Domains = [\<lparr>do_Sans = [], do_Main = gf_FQDN config\<rparr>], tl_Passthrough = []\<rparr> in
     setupRouting E g wlID (gf_FQDN config) tls (gf_Base config) [pc_IPv4 cfg, pc_IPv6 cfg])))"

text \<open>\<open>os.IsNotExist\<close> does not look into a wrapped error, and \<open>domainFromConfig\<close> wraps that of
  \<open>os.ReadFile\<close>; the domain is empty after an error.\<close>

definition DeleteNamedProxy :: "'w GwEnv \<Rightarrow> gatewayModule \<Rightarrow> string \<Rightarrow> ('w, gatewayModule) io" where
  "DeleteNamedProxy E g wlID =
     itry (destroyNNC E g wlID) (\<lambda>_.
     let path = configPath g wlID in
     itry (iread (domainFromConfig E path)) (\<lambda>r.
     if r = Err ErrNotExist then iret (Ok g)
     else itry (iact (ge_Remove E path)) (\<lambda>q.
       case q of
         Inl e \<Rightarrow> if e \<noteq> ErrNotExist then iret (Err (Wrap ''couldn't remove config file'' e))
           else iret (Ok (case r of Inl _ \<Rightarrow> g | Inr (_, domain) \<Rightarrow> if domain \<noteq> [] then deleteReservedDomain domain g else g))
       | Inr _ \<Rightarrow> iret (Ok (case r of Inl _ \<Rightarrow> g | Inr (_, domain) \<Rightarrow> if domain \<noteq> [] then deleteReservedDomain domain g else g)))))"

section \<open>Managers (primitives/gateway)\<close>

definition FQDN_Provision :: "'w GwEnv \<Rightarrow> gatewayModule \<Rightarrow> WorkloadID \<Rightarrow> bytes \<Rightarrow> ('w, gatewayModule) io" where
  "FQDN_Provision E g i data =
     ibind (iret (rwrap ''failed to unmarshal gateway proxy from reservation'' (ge_unmarshalFQDN E data))) (\<lambda>proxy.
     iwrap ''failed to setup fqdn proxy'' (SetFQDNProxy E g i proxy))"

definition FQDN_Deprovision :: "'w GwEnv \<Rightarrow> gatewayModule \<Rightarrow> WorkloadID \<Rightarrow> ('w, gatewayModule) io" where
  "FQDN_Deprovision E g i = iwrap ''failed to delete fqdn proxy'' (DeleteNamedProxy E g i)"

definition Name_Provision :: "'w GwEnv \<Rightarrow> gatewayModule \<Rightarrow> WorkloadID \<Rightarrow> bytes \<Rightarrow> ('w, gatewayModule \<times> string) io" where
  "Name_Provision E g i data =
     ibind (iret (rwrap ''failed to unmarshal gateway proxy from reservation'' (ge_unmarshalName E data))) (\<lambda>proxy.
     iwrap ''failed to setup name proxy'' (SetNamedProxy E g i proxy))"

definition Name_Deprovision :: "'w GwEnv \<Rightarrow> gatewayModule \<Rightarrow> WorkloadID \<Rightarrow> ('w, gatewayModule) io" where
  "Name_Deprovision E g i = iwrap ''failed to delete name proxy'' (DeleteNamedProxy E g i)"

end
