(* ===== verification/ZinitLaws.thy ===== *)
theory ZinitLaws
  imports Zinit
begin

text \<open>
  What the client of zinit promises: its waits return whatever the services do, as soon as the
  clock goes on (the locale \<open>zinit_clock\<close>); what it says of services is what zinit keeps of
  them, services that it reports as stopped are stopped and those it destroys are gone (the
  locale \<open>zinit_server\<close>, what zinit documents of its commands).
\<close>

section \<open>The text of a state\<close>

lemma takeWhile_word: "list_all is_word s \<Longrightarrow> r = [] \<or> \<not> is_word (hd r) \<Longrightarrow> takeWhile is_word (s @ r) = s"
  by (cases r) (auto simp: list_all_iff takeWhile_append2 takeWhile_eq_Nil_iff)

lemma dropWhile_word: "list_all is_word s \<Longrightarrow> r = [] \<or> \<not> is_word (hd r) \<Longrightarrow> dropWhile is_word (s @ r) = r"
  by (cases r) (auto simp: list_all_iff)

text \<open>What \<open>String\<close> writes, \<open>UnmarshalText\<close> reads back.\<close>

lemma service_state_roundtrip:
  assumes "st_state s \<noteq> []" and "list_all is_word (st_state s)" and "CHR 0x0A \<notin> set (st_reason s)"
    and "map toLower (st_state s) = st_state s" and "map toLower (st_reason s) = st_reason s"
  shows "ServiceState_UnmarshalText (ServiceState_String s) = Ok s"
proof (cases "st_reason s")
  case Nil
  have "takeWhile is_word (st_state s) = st_state s" "dropWhile is_word (st_state s) = []"
    using takeWhile_word[of "st_state s" "[]"] dropWhile_word[of "st_state s" "[]"] assms(2) by (simp_all only: append_Nil2 simp_thms)
  then have "matchStatus (st_state s) = Some (st_state s, [])" using assms(1) by (simp only: matchStatus_def Let_def if_False if_True simp_thms)
  then show ?thesis using assms Nil
    by (cases s) (simp add: ServiceState_UnmarshalText_def ServiceState_String_def)
next
  case (Cons c cs)
  let ?r = "CHR ''('' # st_reason s @ '')''"
  have "\<not> is_word (hd ?r)" by (simp add: is_word_def)
  then have "matchStatus (st_state s @ ?r) = Some (st_state s, st_reason s)"
    using assms(1,2,3) Cons takeWhile_word[of "st_state s" ?r] dropWhile_word[of "st_state s" ?r]
    by (simp add: matchStatus_def butlast_append)
  then show ?thesis using assms Cons
    by (cases s) (simp add: ServiceState_UnmarshalText_def ServiceState_String_def)
qed

section \<open>The world after a command\<close>

definition line :: "string \<Rightarrow> string" where "line c = c @ [CHR 0x0A]"

lemma cmd_world: "fst (Client_cmd Z c w) = fst (zi_send Z (line c) w)"
  by (simp add: Client_cmd_def line_def case_prod_beta)

lemma run_world: "fst (Client_run Z c w) = fst (zi_send Z (line c) w)"
  by (simp add: Client_run_def cmd_world case_prod_beta)

lemma list_world: "fst (Client_List Z w) = fst (zi_send Z (line ''list'') w)"
  by (simp add: Client_List_def cmd_world case_prod_beta)

lemma status_world: "fst (Client_Status Z s w) = fst (zi_send Z (line (''status '' @ s)) w)"
  by (simp add: Client_Status_def cmd_world case_prod_beta)

lemma exists_world: "fst (Client_Exists Z s w) = fst (zi_send Z (line (''status '' @ s)) w)"
  unfolding status_world[symmetric] by (simp add: Client_Exists_def split: prod.splits sum.splits)

lemma get_world: "fst (Client_Get Z s w) = fst (zi_send Z (line (''status '' @ s)) w)"
  unfolding status_world[symmetric] by (simp add: Client_Get_def split: prod.splits sum.splits)

lemma monitor_world: "fst (Client_Monitor Z s w) = fst (zi_send Z (line (''monitor '' @ s)) w)"
  unfolding run_world[symmetric] by (simp add: Client_Monitor_def split: prod.splits sum.splits)

lemma command_worlds:
  "fst (Client_Start Z s w) = fst (zi_send Z (line (''start '' @ s)) w)"
  "fst (Client_Stop Z s w) = fst (zi_send Z (line (''stop '' @ s)) w)"
  "fst (Client_Forget Z s w) = fst (zi_send Z (line (''forget '' @ s)) w)"
  "fst (Client_Kill Z s sig w) = fst (zi_send Z (line (''kill '' @ s @ '' '' @ sig)) w)"
  by (simp_all add: Client_Start_def Client_Stop_def Client_Forget_def Client_Kill_def run_world)

lemmas zinit_worlds = cmd_world run_world list_world status_world exists_world get_world monitor_world command_worlds

section \<open>What the client leaves alone\<close>

text \<open>A relation between worlds that single commands, sleeping and the service files keep holds
  before and after every call of the client.\<close>

locale zinit_frame =
  fixes Z :: "'w Zinit" and R :: "'w \<Rightarrow> 'w \<Rightarrow> bool"
  assumes R_refl: "reflp R" and R_trans: "transp R"
    and R_send: "R w (fst (zi_send Z c w))"
    and R_sleep: "R w (zi_sleep Z d w)"
    and R_write: "slash \<notin> set n \<Longrightarrow> R w (fst (zi_WriteFile Z (servicePath n) b w))"
    and R_remove: "slash \<notin> set n \<Longrightarrow> R w (fst (zi_RemoveAll Z (servicePath n) w))"
begin

lemma R_after: "R w1 w2 \<Longrightarrow> R w w1 \<Longrightarrow> R w w2"
  using R_trans by (blast dest: transpD)

lemma R_same [simp, intro]: "R w w"
  using R_refl by (rule reflpD)

lemma R_status: "R w w1 \<Longrightarrow> R w (fst (Client_Status Z s w1))"
  unfolding status_world by (rule R_after[OF R_send])

lemma R_run: "R w w1 \<Longrightarrow> R w (fst (Client_run Z c w1))"
  unfolding run_world by (rule R_after[OF R_send])

lemma R_monitor: "R w w1 \<Longrightarrow> R w (fst (Client_Monitor Z s w1))"
  unfolding monitor_world by (rule R_after[OF R_send])

lemma R_get: "R w w1 \<Longrightarrow> R w (fst (Client_Get Z s w1))"
  unfolding get_world by (rule R_after[OF R_send])

lemma R_exists: "R w w1 \<Longrightarrow> R w (fst (Client_Exists Z s w1))"
  unfolding exists_world by (rule R_after[OF R_send])

lemma R_list: "R w w1 \<Longrightarrow> R w (fst (Client_List Z w1))"
  unfolding list_world by (rule R_after[OF R_send])

lemma R_commands:
  assumes "R w w1"
  shows "R w (fst (Client_Start Z s w1))" "R w (fst (Client_Stop Z s w1))" "R w (fst (Client_Forget Z s w1))" "R w (fst (Client_Kill Z s sig w1))"
  unfolding command_worlds by (rule R_after[OF R_send assms])+

lemma R_slept: "R w w1 \<Longrightarrow> R w (zi_sleep Z d w1)"
  by (rule R_after[OF R_sleep])

lemma R_startLoop: assumes "startLoop Z d s w = Some y" shows "R w (fst y)"
proof -
  from assms have "Z = Z \<longrightarrow> R w (fst y)"
  proof (rule startLoop.raw_induct[where P = "\<lambda>Z' d s w y. Z' = Z \<longrightarrow> R w (fst y)", rotated], goal_cases)
    case (1 loop Z' d s w y)
    show ?case
    proof
      assume Z: "Z' = Z"
      have later: "R w (fst y)" if "R w w1" "loop Z d' s' w1 = Some y" for d' s' w1
        using 1(1)[OF that(2)] that(1) R_after by blast
      obtain w1 r where st: "Client_Status Z s w = (w1, r)" by fastforce
      have w1: "R w w1" using R_status[of w w s] st by simp
      show "R w (fst y)" using 1(2) st w1 later[OF R_slept[OF w1]] unfolding Z
        by (auto simp: Let_def split: if_splits sum.splits)
    qed
  qed
  then show ?thesis by simp
qed

lemma R_stopWaitLoop: assumes "stopWaitLoop Z d s w = Some y" shows "R w (fst y)"
proof -
  from assms have "Z = Z \<longrightarrow> R w (fst y)"
  proof (rule stopWaitLoop.raw_induct[where P = "\<lambda>Z' d s w y. Z' = Z \<longrightarrow> R w (fst y)", rotated], goal_cases)
    case (1 loop Z' d s w y)
    show ?case
    proof
      assume Z: "Z' = Z"
      have later: "R w (fst y)" if "R w w1" "loop Z d' s' w1 = Some y" for d' s' w1
        using 1(1)[OF that(2)] that(1) R_after by blast
      obtain w1 r where st: "Client_Status Z s w = (w1, r)" by fastforce
      have w1: "R w w1" using R_status[of w w s] st by simp
      show "R w (fst y)" using 1(2) st w1 later[OF R_slept[OF w1]] R_commands(4)[of w w s SIGKILL] unfolding Z
        by (auto simp: Let_def split: if_splits sum.splits)
    qed
  qed
  then show ?thesis by simp
qed


lemma R_startScan: "R w w1 \<Longrightarrow> R w (fst (startScan Z ss w1))"
proof (induction ss arbitrary: w1)
  case (Cons s ss)
  obtain w2 r where st: "Client_Status Z s w1 = (w2, r)" by fastforce
  have "R w w2" using R_status[OF Cons.prems, of s] st by simp
  with Cons.IH[of w2] st show ?case by (auto split: sum.splits prod.splits)
qed simp

lemma R_stopScan: "R w w1 \<Longrightarrow> R w (fst (stopScan Z ss w1))"
proof (induction ss arbitrary: w1)
  case (Cons s ss)
  obtain w2 r where st: "Client_Status Z s w1 = (w2, r)" by fastforce
  have "R w w2" using R_status[OF Cons.prems, of s] st by simp
  with Cons.IH[of w2] st show ?case by (auto split: sum.splits prod.splits)
qed simp

lemma R_select: "R w w1 \<Longrightarrow> R w (fst (selectDeadline Z d w1))"
  by (simp add: selectDeadline_def Let_def R_slept)

lemma R_killAll: "R w w1 \<Longrightarrow> R w (killAll Z ss w1)"
  by (induction ss arbitrary: w1) (simp_all add: R_commands)

lemma R_startAll: "R w w1 \<Longrightarrow> R w (fst (startAll Z names ss w1))"
proof (induction names arbitrary: w1 ss)
  case (Cons s names)
  obtain w2 r where m: "Client_Monitor Z s w1 = (w2, r)" by fastforce
  obtain w3 q where st: "Client_Start Z s w2 = (w3, q)" by fastforce
  have "R w w3" using R_commands(1)[OF R_monitor[OF Cons.prems, of s], of s] m st by simp
  with Cons.IH[of w3] m st show ?case by (auto split: sum.splits)
qed simp

lemma R_stopAll: "R w w1 \<Longrightarrow> R w (fst (stopAll Z names ss w1))"
proof (induction names arbitrary: w1 ss)
  case (Cons s names)
  obtain w2 r where st: "Client_Stop Z s w1 = (w2, r)" by fastforce
  have "R w w2" using R_commands(2)[OF Cons.prems, of s] st by simp
  with Cons.IH[of w2] st show ?case by (auto split: sum.splits)
qed simp

lemma R_startManyLoop: assumes "startManyLoop Z d ss w = Some y" shows "R w (fst y)"
proof -
  from assms have "Z = Z \<longrightarrow> R w (fst y)"
  proof (rule startManyLoop.raw_induct[where P = "\<lambda>Z' d ss w y. Z' = Z \<longrightarrow> R w (fst y)", rotated], goal_cases)
    case (1 loop Z' d ss w y)
    show ?case
    proof
      assume Z: "Z' = Z"
      have later: "R w (fst y)" if "R w w1" "loop Z d' ss' w1 = Some y" for d' ss' w1
        using 1(1)[OF that(2)] that(1) R_after by blast
      obtain w1 r where scan: "startScan Z (zi_order Z ss) w = (w1, r)" by fastforce
      obtain w2 due where sel: "selectDeadline Z d w1 = (w2, due)" by fastforce
      have w1: "R w w1" using R_startScan[of w w "zi_order Z ss"] scan by simp
      have w2: "R w w2" using R_select[OF w1, of d] sel by simp
      show "R w (fst y)" using 1(2) scan sel w1 w2 later[OF w2] unfolding Z
        by (auto simp: Let_def split: if_splits sum.splits)
    qed
  qed
  then show ?thesis by simp
qed

lemma R_stopManyLoop: assumes "stopManyLoop Z d k ss w = Some y" shows "R w (fst y)"
proof -
  from assms have "Z = Z \<longrightarrow> R w (fst y)"
  proof (rule stopManyLoop.raw_induct[where P = "\<lambda>Z' d k ss w y. Z' = Z \<longrightarrow> R w (fst y)", rotated], goal_cases)
    case (1 loop Z' d k ss w y)
    show ?case
    proof
      assume Z: "Z' = Z"
      have later: "R w (fst y)" if "R w w1" "loop Z d' k' ss' w1 = Some y" for d' k' ss' w1
        using 1(1)[OF that(2)] that(1) R_after by blast
      obtain w1 r where scan: "stopScan Z (zi_order Z ss) w = (w1, r)" by fastforce
      obtain w2 due where sel: "selectDeadline Z d w1 = (w2, due)" by fastforce
      have w1: "R w w1" using R_stopScan[of w w "zi_order Z ss"] scan by simp
      have w2: "R w w2" using R_select[OF w1, of d] sel by simp
      show "R w (fst y)" using 1(2) scan sel w1 w2 later[OF w2] later[OF R_slept[OF R_killAll[OF w2]]] R_killAll[OF w2] unfolding Z
        by (auto simp: Let_def split: if_splits sum.splits)
    qed
  qed
  then show ?thesis by simp
qed

lemma ikeeps_StartWait [io_intros]: "ikeeps R (StartWait Z timeout s)"
proof -
  have "ikeeps R (\<lambda>w. startLoop Z (zi_now Z w + timeout) s w)" using R_startLoop by (force simp: ikeeps_def)
  then show ?thesis unfolding StartWait_def using R_refl R_trans R_commands(1) by (auto intro!: io_intros)
qed

lemma ikeeps_StopWait [io_intros]: "ikeeps R (StopWait Z timeout s)"
proof -
  have "ikeeps R (\<lambda>w. stopWaitLoop Z (zi_now Z w + timeout) s w)" using R_stopWaitLoop by (force simp: ikeeps_def)
  then show ?thesis unfolding StopWait_def using R_refl R_trans R_commands(2) by (auto intro!: io_intros)
qed

lemma ikeeps_StartMultiple [io_intros]: "ikeeps R (StartMultiple Z timeout names)"
  unfolding ikeeps_def StartMultiple_def
proof (intro allI impI)
  fix w w' r assume run: "(case startAll Z names [] w of (w, ss) \<Rightarrow> startManyLoop Z (zi_now Z w + timeout) ss w) = Some (w', r)"
  obtain w1 ss where all: "startAll Z names [] w = (w1, ss)" by fastforce
  with R_startAll[of w w names "[]"] R_startManyLoop[of _ ss w1] run show "R w w'" by (fastforce intro: R_after)
qed

lemma ikeeps_StopMultiple [io_intros]: "ikeeps R (StopMultiple Z timeout names)"
  unfolding ikeeps_def StopMultiple_def
proof (intro allI impI)
  fix w w' r assume run: "(case stopAll Z names [] w of (w, ss) \<Rightarrow> stopManyLoop Z (zi_now Z w + timeout) 0 ss w) = Some (w', r)"
  obtain w1 ss where all: "stopAll Z names [] w = (w1, ss)" by fastforce
  with R_stopAll[of w w names "[]"] R_stopManyLoop[of _ 0 ss w1] run show "R w w'" by (fastforce intro: R_after)
qed

lemma R_forgetAll: "\<forall>n \<in> set names. slash \<notin> set n \<Longrightarrow> R w w1 \<Longrightarrow> R w (fst (forgetAll Z names w1))"
proof (induction names arbitrary: w1)
  case (Cons n names)
  obtain w2 r where f: "Client_Forget Z n w1 = (w2, r)" by fastforce
  obtain w3 q where rm: "RemoveService Z n w2 = (w3, q)" by fastforce
  have w2: "R w w2" using R_commands(3)[OF Cons.prems(2), of n] f by simp
  have "R w w3" using R_after[OF R_remove[of n w2] w2] rm Cons.prems(1) by (simp add: RemoveService_def)
  with Cons.IH[of w3] Cons.prems(1) f rm w2 show ?case by (auto split: sum.splits)
qed simp

lemma ikeeps_Destroy [io_intros]: "\<forall>n \<in> set names. slash \<notin> set n \<Longrightarrow> ikeeps R (Destroy Z timeout names)"
  unfolding Destroy_def using R_refl R_trans R_forgetAll by (auto intro!: io_intros)

end

section \<open>Waits return\<close>

locale zinit_clock =
  fixes Z :: "'w Zinit"
  assumes send_clock: "zi_now Z w \<le> zi_now Z (fst (zi_send Z c w))"
    and sleep_clock: "0 \<le> d \<Longrightarrow> zi_now Z w + d \<le> zi_now Z (zi_sleep Z d w)"
begin

lemma status_clock: "zi_now Z w \<le> zi_now Z (fst (Client_Status Z s w))"
  by (simp add: status_world send_clock)

lemma startScan_clock: "zi_now Z w \<le> zi_now Z (fst (startScan Z ss w))"
proof (induction ss arbitrary: w)
  case (Cons s ss)
  have "zi_now Z w \<le> zi_now Z w1" if "Client_Status Z s w = (w1, r)" for w1 r using status_clock[of w s] that by simp
  moreover have "zi_now Z w \<le> zi_now Z (fst (startScan Z ss w))" for w by (rule Cons.IH)
  ultimately show ?case by (auto split: prod.splits sum.splits) (metis fst_conv order.trans)
qed simp

lemma stopScan_clock: "zi_now Z w \<le> zi_now Z (fst (stopScan Z ss w))"
proof (induction ss arbitrary: w)
  case (Cons s ss)
  have "zi_now Z w \<le> zi_now Z w1" if "Client_Status Z s w = (w1, r)" for w1 r using status_clock[of w s] that by simp
  moreover have "zi_now Z w \<le> zi_now Z (fst (stopScan Z ss w))" for w by (rule Cons.IH)
  ultimately show ?case by (auto split: prod.splits sum.splits) (metis fst_conv order.trans)
qed simp

lemma select_clock: "selectDeadline Z deadline w = (w', False) \<Longrightarrow> zi_now Z w + second \<le> zi_now Z w' \<and> zi_now Z w + second \<le> deadline"
  using sleep_clock[of second w] by (auto simp: selectDeadline_def Let_def second_def split: if_splits)

text \<open>A round of a wait that does not end leaves less time to the deadline.\<close>

lemma startLoop_returns: "\<exists>p. startLoop Z deadline s w = Some p"
proof (induction "nat (deadline - zi_now Z w)" arbitrary: w rule: less_induct)
  case less
  show ?case
  proof (cases "Client_Status Z s w")
    case (Pair w1 r)
    have c: "zi_now Z w \<le> zi_now Z w1" using status_clock[of w s] Pair by simp
    have "nat (deadline - zi_now Z (zi_sleep Z second w1)) < nat (deadline - zi_now Z w)" if "\<not> deadline \<le> zi_now Z w"
      using sleep_clock[of second w1] c that by (simp add: second_def)
    then show ?thesis using less[of "zi_sleep Z second w1"] Pair
      by (subst startLoop.simps) (auto split: sum.splits)
  qed
qed

lemma stopWaitLoop_returns: "\<exists>p. stopWaitLoop Z deadline s w = Some p"
proof (induction "nat (deadline - zi_now Z w)" arbitrary: w rule: less_induct)
  case less
  show ?case
  proof (cases "Client_Status Z s w")
    case (Pair w1 r)
    have c: "zi_now Z w \<le> zi_now Z w1" using status_clock[of w s] Pair by simp
    have "nat (deadline - zi_now Z (zi_sleep Z second w1)) < nat (deadline - zi_now Z w)" if "\<not> deadline \<le> zi_now Z w"
      using sleep_clock[of second w1] c that by (simp add: second_def)
    then show ?thesis using less[of "zi_sleep Z second w1"] Pair
      by (subst stopWaitLoop.simps) (auto split: sum.splits)
  qed
qed

lemma startManyLoop_returns: "\<exists>p. startManyLoop Z deadline ss w = Some p"
proof (induction "nat (deadline - zi_now Z w)" arbitrary: ss w rule: less_induct)
  case less
  obtain w1 r where scan: "startScan Z (zi_order Z ss) w = (w1, r)" by fastforce
  obtain w2 due where sel: "selectDeadline Z deadline w1 = (w2, due)" by fastforce
  have c: "zi_now Z w \<le> zi_now Z w1" using startScan_clock[of w "zi_order Z ss"] scan by simp
  have "\<not> due \<Longrightarrow> nat (deadline - zi_now Z w2) < nat (deadline - zi_now Z w)"
    using select_clock[of deadline w1 w2] sel c by (simp add: second_def)
  then show ?case using less[of w2] scan sel
    by (subst startManyLoop.simps) (auto simp: Let_def split: sum.splits)
qed

text \<open>A round of \<open>StopMultiple\<close> either kills once more or leaves less time to the deadline.\<close>

lemma stopMany_induct [consumes 1, case_names step]:
  assumes "k < 10"
    and step: "\<And>k ss w. k < 10 \<Longrightarrow> (\<And>ss' w'. Suc k < 10 \<Longrightarrow> P (Suc k) ss' w') \<Longrightarrow>
      (\<And>ss' w'. zi_now Z w < zi_now Z w' \<Longrightarrow> zi_now Z w < deadline \<Longrightarrow> P k ss' w') \<Longrightarrow> P k ss w"
  shows "P k ss w"
  using \<open>k < 10\<close>
proof (induction "(10 - k, nat (deadline - zi_now Z w))" arbitrary: k ss w rule: wf_induct_rule[OF wf_lex_prod[OF wf_less wf_less]])
  case 1
  have lt: "10 - Suc k < 10 - k" using 1(2) by arith
  show ?case
  proof (rule step[OF 1(2)])
    show "P (Suc k) ss' w'" if "Suc k < 10" for ss' w' using 1(1)[of "Suc k" w' ss'] that lt by simp
    show "P k ss' w'" if "zi_now Z w < zi_now Z w'" "zi_now Z w < deadline" for ss' w' using 1(1)[of k w' ss'] 1(2) that by simp
  qed
qed

lemma stopManyLoop_returns: assumes "k < 10" shows "\<exists>p. stopManyLoop Z deadline k ss w = Some p"
  using assms
proof (induction k ss w rule: stopMany_induct[where deadline = deadline])
  case (step k ss w)
  obtain w1 r where scan: "stopScan Z (zi_order Z ss) w = (w1, r)" by fastforce
  obtain w2 due where sel: "selectDeadline Z deadline w1 = (w2, due)" by fastforce
  have c: "zi_now Z w \<le> zi_now Z w1" using stopScan_clock[of w "zi_order Z ss"] scan by simp
  have later: "\<exists>p. stopManyLoop Z deadline k ss' w2 = Some p" if "\<not> due" for ss'
    using select_clock[of deadline w1 w2] sel c that by (intro step.IH(2)) (auto simp: second_def)
  have killed: "\<exists>p. stopManyLoop Z deadline (Suc k) ss' w' = Some p" if "Suc k \<noteq> 10" for ss' w'
    using step.IH(1)[of ss' w'] step.hyps that by simp
  show ?case using scan sel later killed
    by (subst stopManyLoop.simps) (auto simp: Let_def split: sum.splits)
qed

lemma StartWait_returns [io_intros]: "ireturns (StartWait Z timeout s)"
proof -
  have "ireturns (\<lambda>w. startLoop Z (zi_now Z w + timeout) s w)" using startLoop_returns by (simp add: ireturns_def)
  then show ?thesis unfolding StartWait_def by (auto intro!: io_intros)
qed

lemma StopWait_returns [io_intros]: "ireturns (StopWait Z timeout s)"
proof -
  have "ireturns (\<lambda>w. stopWaitLoop Z (zi_now Z w + timeout) s w)" using stopWaitLoop_returns by (simp add: ireturns_def)
  then show ?thesis unfolding StopWait_def by (auto intro!: io_intros)
qed

lemma StartMultiple_returns [io_intros]: "ireturns (StartMultiple Z timeout ss)"
  using startManyLoop_returns by (fastforce simp: StartMultiple_def ireturns_def split: prod.splits)

lemma StopMultiple_returns [io_intros]: "ireturns (StopMultiple Z timeout ss)"
  using stopManyLoop_returns[of 0] by (fastforce simp: StopMultiple_def ireturns_def split: prod.splits)

lemma Destroy_returns [io_intros]: "ireturns (Destroy Z timeout ss)"
  unfolding Destroy_def by (auto intro!: io_intros)

end

section \<open>What zinit keeps of services\<close>

text \<open>A service zinit does not know, or one that was asked to stop and has exited.\<close>

definition halted :: "(ServiceState \<times> string) option \<Rightarrow> bool" where
  "halted s \<longleftrightarrow> (case s of None \<Rightarrow> True | Some (state, target) \<Rightarrow> target = ServiceTargetDown \<and> Exited state)"

locale zinit_server = zinit_clock Z for Z :: "'w Zinit" +
  fixes svc :: "'w \<Rightarrow> string \<Rightarrow> (ServiceState \<times> string) option"
  assumes status_svc: "Client_Status Z s w = (w', Ok st) \<Longrightarrow> svc w' s = Some (ss_State st, ss_Target st)"
    and send_gone: "svc w s = None \<Longrightarrow> c \<noteq> ''monitor '' @ s \<Longrightarrow> svc (fst (zi_send Z (line c) w)) s = None"
    and send_halted: "halted (svc w s) \<Longrightarrow> c \<noteq> ''monitor '' @ s \<Longrightarrow> c \<noteq> ''start '' @ s \<Longrightarrow> halted (svc (fst (zi_send Z (line c) w)) s)"
    and sleep_halted: "halted (svc w s) \<Longrightarrow> halted (svc (zi_sleep Z d w) s)"
    and forget_gone: "Client_Forget Z s w = (w', r) \<Longrightarrow> r = Ok () \<or> (\<exists>e. r = Err e \<and> err_is e ErrUnknownService) \<Longrightarrow> svc w' s = None"
    and remove_svc: "svc (fst (zi_RemoveAll Z p w)) = svc w"
    and remove_file: "zi_RemoveAll Z p w = (w', Ok ()) \<Longrightarrow> zi_ReadFile Z p w' = Err ErrNotExist"
    and remove_absent: "zi_ReadFile Z p w = Err ErrNotExist \<Longrightarrow> zi_ReadFile Z p (fst (zi_RemoveAll Z q w)) = Err ErrNotExist"
    and send_files: "zi_ReadFile Z p (fst (zi_send Z c w)) = zi_ReadFile Z p w"
    and order_set: "set (zi_order Z xs) = set xs"
begin

lemma status_halted: "halted (svc w s) \<Longrightarrow> halted (svc (fst (Client_Status Z t w)) s)"
  unfolding status_world by (rule send_halted) simp_all

lemma stopScan_halted:
  "stopScan Z ss w = (w', r) \<Longrightarrow> (\<forall>xs. r = Ok xs \<longrightarrow> (\<forall>s \<in> set xs. halted (svc w' s))) \<and> (\<forall>s. halted (svc w s) \<longrightarrow> halted (svc w' s))"
proof (induction ss arbitrary: w w' r)
  case (Cons t ss)
  obtain w1 q where st: "Client_Status Z t w = (w1, q)" by fastforce
  have keep: "halted (svc w s) \<Longrightarrow> halted (svc w1 s)" for s using status_halted[of w s t] st by simp
  show ?case
  proof (cases "\<exists>status. q = Ok status \<and> ss_Target status = ServiceTargetDown")
    case True
    then obtain status where q: "q = Ok status" and down: "ss_Target status = ServiceTargetDown" by blast
    obtain w2 r2 where rest: "stopScan Z ss w1 = (w2, r2)" by fastforce
    then have "w' = w2" "r = rmap (\<lambda>xs. if Exited (ss_State status) then t # xs else xs) r2"
      using Cons.prems st q down by auto
    moreover have "Exited (ss_State status) \<Longrightarrow> halted (svc w1 t)"
      using status_svc[of t w w1 status] st q down by (simp add: halted_def)
    ultimately show ?thesis using Cons.IH[OF rest] keep by (auto simp: rmap_Ok_iff)
  next
    case False
    then have "w' = w1" "\<not> is_ok r" using Cons.prems st by (auto split: sum.splits if_splits)
    then show ?thesis using keep by (auto simp: is_ok_iff)
  qed
qed simp

lemma killAll_halted: "halted (svc w s) \<Longrightarrow> halted (svc (killAll Z ss w) s)"
proof (induction ss arbitrary: w)
  case (Cons t ss)
  have "halted (svc (fst (Client_Kill Z t SIGKILL w)) s)"
    using Cons.prems unfolding command_worlds by (intro send_halted) simp_all
  then show ?case using Cons.IH by simp
qed simp

lemma select_halted: "halted (svc w s) \<Longrightarrow> selectDeadline Z d w = (w', due) \<Longrightarrow> halted (svc w' s)"
  by (auto simp: selectDeadline_def Let_def sleep_halted split: if_splits)

lemma stopManyLoop_halted:
  assumes "k < 10" and "stopManyLoop Z deadline k services w = Some (w', Ok u)" and "s \<in> set services \<or> halted (svc w s)"
  shows "halted (svc w' s)"
  using assms
proof (induction k services w rule: stopMany_induct[where deadline = deadline])
  case (step k services w)
  obtain w1 r where scan: "stopScan Z (zi_order Z services) w = (w1, r)" by fastforce
  obtain w2 due where sel: "selectDeadline Z deadline w1 = (w2, due)" by fastforce
  have c: "zi_now Z w \<le> zi_now Z w1" using stopScan_clock[of w "zi_order Z services"] scan by simp
  note loop = step.prems(1)[unfolded stopManyLoop.simps[of Z deadline k services w] scan prod.case]
  show ?case
  proof (cases "services = []")
    case True
    then show ?thesis using loop step.prems(2) by simp
  next
    case False
    then obtain stopped where r: "r = Ok stopped" using loop by (cases r) auto
    define left where "left = filter (\<lambda>s. s \<notin> set stopped) services"
    have s1: "s \<in> set left \<or> halted (svc w1 s)"
      using stopScan_halted[OF scan] r step.prems(2) by (auto simp: left_def)
    then have s2: "s \<in> set left \<or> halted (svc w2 s)" using select_halted sel by blast
    let ?w3 = "zi_sleep Z second (killAll Z (zi_order Z left) w2)"
    have s3: "s \<in> set left \<or> halted (svc ?w3 s)" using s2 killAll_halted sleep_halted by blast
    note loop' = loop[simplified False r if_False sum.case Let_def left_def[symmetric] sel prod.case]
    consider "left = []" "w' = w1" | "due" "Suc k \<noteq> 10" "stopManyLoop Z deadline (Suc k) left ?w3 = Some (w', Ok u)"
      | "\<not> due" "stopManyLoop Z deadline k left w2 = Some (w', Ok u)"
      using loop' by (auto split: if_splits)
    then show ?thesis
    proof cases
      case 1
      then show ?thesis using s1 by simp
    next
      case 2
      then show ?thesis using step.IH(1)[of left ?w3] s3 step.hyps by simp
    next
      case 3
      then show ?thesis using step.IH(2)[of w2 left] s2 select_clock[of deadline w1 w2] sel c by (simp add: second_def)
    qed
  qed
qed

lemma StopMultiple_halts:
  assumes "StopMultiple Z timeout names w = Some (w', Ok u)" and "stopAll Z names [] w = (w1, accepted)" and "s \<in> set accepted"
  shows "halted (svc w' s)"
  using assms stopManyLoop_halted[of 0 _ accepted w1 w' u s] by (simp add: StopMultiple_def)

definition removed :: "'w \<Rightarrow> string \<Rightarrow> bool" where
  "removed w s \<longleftrightarrow> svc w s = None \<and> zi_ReadFile Z (servicePath s) w = Err ErrNotExist"

lemma forget_removed: "removed w s \<Longrightarrow> removed (fst (Client_Forget Z t w)) s"
  unfolding removed_def command_worlds using send_gone[of w s "''forget '' @ t"] by (simp add: send_files)

lemma remove_removed: "removed w s \<Longrightarrow> removed (fst (RemoveService Z t w)) s"
  unfolding removed_def RemoveService_def by (simp add: remove_svc remove_absent)

lemma forgetAll_removed:
  "forgetAll Z names w = (w', Ok u) \<Longrightarrow> s \<in> set names \<or> removed w s \<Longrightarrow> removed w' s"
proof (induction names arbitrary: w)
  case (Cons t names)
  obtain w1 r where f: "Client_Forget Z t w = (w1, r)" by fastforce
  obtain w2 q where rm: "RemoveService Z t w1 = (w2, q)" by fastforce
  have gone: "r = Ok () \<or> (\<exists>e. r = Err e \<and> err_is e ErrUnknownService)" and q: "q = Ok ()" and rest: "forgetAll Z names w2 = (w', Ok u)"
    using Cons.prems(1) f rm by (auto split: sum.splits if_splits)
  have "removed w2 t"
    using forget_gone[OF f gone] rm q remove_svc[of "servicePath t" w1] remove_file[of "servicePath t" w1 w2]
    by (simp add: removed_def RemoveService_def)
  moreover have "removed w2 s" if "removed w s"
    using remove_removed[OF forget_removed[OF that, of t], of t] f rm by simp
  ultimately show ?case using Cons.IH[OF rest] Cons.prems(2) by auto
qed simp

lemma Destroy_removes:
  "Destroy Z timeout names w = Some (w', Ok u) \<Longrightarrow> s \<in> set names \<Longrightarrow> removed w' s"
  using forgetAll_removed by (auto simp: Destroy_def ibind_Ok_iff split: if_splits)

end

end
