(* ===== verification/GatewayLaws.thy ===== *)
theory GatewayLaws
  imports Gateway ZinitLaws
begin

text \<open>
  The reserved domains of the gateway and the configuration files agree, whatever proxies are
  set and deleted (the locale \<open>proxy_files\<close>, what the file system and YAML promise), and how
  the forwarders of one workload relate to its backends (the locale \<open>forwarders\<close>, what zinit, the
  links of the file system and the shell words promise).
\<close>

section \<open>Rules and paths\<close>

lemma matchHost_rule:
  "backquote \<notin> set fqdn \<Longrightarrow> fqdn \<noteq> [] \<Longrightarrow> matchHost name (name @ ''('' @ [backquote] @ fqdn @ [backquote] @ '')'') = Some fqdn"
proof -
  assume f: "backquote \<notin> set fqdn" "fqdn \<noteq> []"
  let ?pre = "name @ ''('' @ [backquote]" and ?post = "[backquote] @ '')''" and ?rule = "name @ ''('' @ [backquote] @ fqdn @ [backquote] @ '')''"
  have "HasPrefix ?rule ?pre" using HasPrefix_append[of ?pre "fqdn @ ?post"] by simp
  moreover have "HasSuffix ?rule ?post" using HasSuffix_append[of "?pre @ fqdn" ?post] by simp
  ultimately show ?thesis using f by (simp add: matchHost_def)
qed

text \<open>The domain of the rule that is written is the domain.\<close>

lemma domainFromRule_hostRule:
  assumes "backquote \<notin> set fqdn" and "fqdn \<noteq> []"
  shows "domainFromRule (hostRule tls fqdn) = Ok fqdn"
proof (cases tls)
  case True
  have "matchHost ''Host'' (hostRule True fqdn) = None" by (simp add: matchHost_def hostRule_def HasPrefix_def)
  then show ?thesis using True matchHost_rule[OF assms, of "''HostSNI''"] by (simp add: domainFromRule_def hostRule_def)
next
  case False
  then show ?thesis using matchHost_rule[OF assms, of "''Host''"] by (simp add: domainFromRule_def hostRule_def)
qed

lemma domain_not_empty: "domainFromRule rule = Ok d \<Longrightarrow> d \<noteq> []"
  by (auto simp: domainFromRule_def matchHost_def Let_def HasPrefix_iff split: option.splits if_splits)

lemma Join3:
  assumes "\<forall>p \<in> set ps. element p" and "ps \<noteq> []" and "element m" and "element n"
  shows "Join [abspath ps, m, n] = abspath (ps @ [m, n])"
proof -
  have j: "joinWith [slash] [abspath ps, m, n] = abspath (ps @ [m, n])"
    using assms(2) by (simp add: abspath_def joinWith_append)
  have "dropWhile (\<lambda>e. e = []) [abspath ps, m, n] = [abspath ps, m, n]" by (simp add: abspath_def)
  then have "Join [abspath ps, m, n] = Clean (joinWith [slash] [abspath ps, m, n])" by (simp only: Join_def Let_def list.distinct if_False)
  also have "\<dots> = abspath (ps @ [m, n])" unfolding j by (rule Clean_abspath) (use assms in auto)
  finally show ?thesis .
qed

lemma element_yaml: "slash \<notin> set n \<Longrightarrow> element (n @ ''.yaml'')"
  by (auto simp: element_def slash_def append_eq_Cons_conv)

lemma dirs_element [simp]: "element configDir" "element zinitDir" "element ''etc''" "element ''zinit''"
  by (simp_all add: element_def configDir_def zinitDir_def slash_def)

lemma servicePath_abspath: "slash \<notin> set n \<Longrightarrow> servicePath n = abspath [''etc'', ''zinit'', n @ ''.yaml'']"
  using Join_element[of "[''etc'', ''zinit'']" "n @ ''.yaml''"] element_yaml[of n]
  by (simp add: servicePath_def abspath_def slash_def)

definition proxyFile :: "string list \<Rightarrow> string \<Rightarrow> string" where
  "proxyFile vs n = abspath (vs @ [configDir, n])"

lemma elsewhere:
  assumes "\<forall>p \<in> set vs. element p" and "element n" and "\<forall>p \<in> set qs. element p" and "element d" and "element m" and "d \<noteq> configDir"
  shows "abspath (qs @ [d, m]) \<noteq> proxyFile vs n"
proof
  assume "abspath (qs @ [d, m]) = proxyFile vs n"
  then have "qs @ [d, m] = vs @ [configDir, n]"
    unfolding proxyFile_def using abspath_inject[of "qs @ [d, m]" "vs @ [configDir, n]"] assms by auto
  then show False using assms(6) by auto
qed

section \<open>Steps of the module\<close>

text \<open>A workload that has no domain yet, with a name that is one element of a path and a domain that
  a rule can hold.\<close>

definition accepted :: "gatewayModule \<Rightarrow> string \<Rightarrow> string \<Rightarrow> bool" where
  "accepted g wlID fqdn \<longleftrightarrow> slash \<notin> set wlID \<and> backquote \<notin> set fqdn \<and> fqdn \<noteq> [] \<and> wlID \<notin> ran (gm_reservedDomains g)"

text \<open>A configuration file that could not be written may be left half written.\<close>

definition unwritten :: "err \<Rightarrow> bool" where
  "unwritten e \<longleftrightarrow> (\<exists>e'. e = Wrap ''couldn't open config file for writing'' e')"

inductive gw_step :: "'w GwEnv \<Rightarrow> gatewayModule \<times> 'w \<Rightarrow> gatewayModule \<times> 'w \<Rightarrow> bool" for E where
  fqdn: "SetFQDNProxy E g wlID c w = Some (w', Ok g') \<Longrightarrow> accepted g wlID (gf_FQDN c) \<Longrightarrow> gw_step E (g, w) (g', w')"
| name: "SetNamedProxy E g wlID n w = Some (w', Ok (g', fqdn)) \<Longrightarrow> accepted g wlID fqdn \<Longrightarrow> gw_step E (g, w) (g', w')"
| delete: "DeleteNamedProxy E g wlID w = Some (w', Ok g') \<Longrightarrow> slash \<notin> set wlID \<Longrightarrow> gw_step E (g, w) (g', w')"
| fqdn_failed: "SetFQDNProxy E g wlID c w = Some (w', Err e) \<Longrightarrow> slash \<notin> set wlID \<Longrightarrow> \<not> unwritten e \<Longrightarrow> gw_step E (g, w) (g, w')"
| name_failed: "SetNamedProxy E g wlID n w = Some (w', Err e) \<Longrightarrow> slash \<notin> set wlID \<Longrightarrow> \<not> unwritten e \<Longrightarrow> gw_step E (g, w) (g, w')"
| delete_failed: "DeleteNamedProxy E g wlID w = Some (w', Err e) \<Longrightarrow> slash \<notin> set wlID \<Longrightarrow> gw_step E (g, w) (g, w')"
| validate: "gw_step E (g, w) (g, validateNameContracts E g w)"

inductive_cases gw_stepE: "gw_step E gw gw'"

section \<open>Domains and files\<close>

locale proxy_files =
  fixes E :: "'w GwEnv" and files :: "'w \<Rightarrow> string \<rightharpoonup> bytes" and vs :: "string list"
  assumes volatile: "\<forall>p \<in> set vs. element p" "vs \<noteq> []"
    and read_file: "element n \<Longrightarrow> zi_ReadFile (ge_zinit E) (proxyFile vs n) w = (case files w n of None \<Rightarrow> Err ErrNotExist | Some b \<Rightarrow> Ok b)"
    and write_file: "element n \<Longrightarrow> zi_WriteFile (ge_zinit E) (proxyFile vs n) b w = (w', Ok ()) \<Longrightarrow> files w' = (files w)(n \<mapsto> b)"
    and remove_file: "element n \<Longrightarrow> ge_Remove E (proxyFile vs n) w = (w', r) \<Longrightarrow>
      (case r of Inr _ \<Rightarrow> files w' = (files w)(n := None) | Inl e \<Rightarrow> files w' = files w \<and> (e = ErrNotExist \<longrightarrow> files w n = None))"
    and read_dir: "\<exists>es. ge_ReadDir E (abspath (vs @ [configDir])) w = Ok es \<and> (\<forall>n. (n, False) \<in> set es \<longleftrightarrow> element n \<and> files w n \<noteq> None)"
    and yaml: "ge_marshal E c = Ok b \<Longrightarrow> ge_unmarshal E b = Ok c"
    and other_files: "(\<And>n. element n \<Longrightarrow> p \<noteq> proxyFile vs n) \<Longrightarrow>
      files (fst (zi_WriteFile (ge_zinit E) p b w)) = files w \<and> files (fst (zi_RemoveAll (ge_zinit E) p w)) = files w \<and>
      files (fst (ge_Remove E p w)) = files w \<and> files (fst (ge_Symlink E q p w)) = files w"
    and quiet: "files (fst (zi_send (ge_zinit E) cmd w)) = files w" "files (zi_sleep (ge_zinit E) d w) = files w"
      "files (fst (ge_FlistUnmount E mnt w)) = files w" "files (fst (ge_Intn E k w)) = files w"
      "files (fst (ge_DecommissionCached E i m w)) = files w"
begin

lemma service_elsewhere: "slash \<notin> set n \<Longrightarrow> element m \<Longrightarrow> servicePath n \<noteq> proxyFile vs m"
  using elsewhere[of vs m "[''etc'']" "''zinit''" "n @ ''.yaml''"] volatile element_yaml[of n]
  by (simp add: servicePath_abspath configDir_def element_def slash_def)

lemma nnc_elsewhere: "gm_volatile g = abspath vs \<Longrightarrow> slash \<notin> set n \<Longrightarrow> element m \<Longrightarrow> nncZinitPath g n \<noteq> proxyFile vs m"
  using elsewhere[of vs m vs zinitDir "n @ ''.yaml''"] volatile element_yaml[of n] Join3[of vs zinitDir "n @ ''.yaml''"]
  by (simp add: nncZinitPath_def) (simp add: configDir_def zinitDir_def)

lemma configPath_file: "gm_volatile g = abspath vs \<Longrightarrow> slash \<notin> set n \<Longrightarrow> configPath g n = proxyFile vs (n @ ''.yaml'')"
  using Join3[of vs configDir "n @ ''.yaml''"] volatile element_yaml[of n] by (simp add: configPath_def proxyFile_def)

definition same :: "'w \<Rightarrow> 'w \<Rightarrow> bool" where
  "same w w' \<longleftrightarrow> files w' = files w"

lemma same_equiv: "reflp same" "transp same"
  by (auto simp: same_def reflp_def transp_def)

end

sublocale proxy_files \<subseteq> zc: zinit_frame "ge_zinit E" same
  using same_equiv service_elsewhere other_files quiet(1,2)
  by unfold_locales (auto simp: same_def)

context proxy_files
begin

lemmas keeps = io_intros same_equiv zc.ikeeps_StartWait zc.ikeeps_StopWait zc.ikeeps_Destroy

lemma keeps_act: "(\<And>w. files (fst (f w)) = files w) \<Longrightarrow> ikeeps same (iact f)"
  by (rule ikeeps_iact) (simp add: same_def)

text \<open>Everything but the configuration files themselves: traefik and the forwarders.\<close>

lemma same_calls:
  "files (fst (Client_Status (ge_zinit E) s w)) = files w" "files (fst (Client_Get (ge_zinit E) s w)) = files w"
  "files (fst (Client_Exists (ge_zinit E) s w)) = files w" "files (fst (Client_Monitor (ge_zinit E) s w)) = files w"
  "files (fst (Client_List (ge_zinit E) w)) = files w" "files (fst (Client_Forget (ge_zinit E) s w)) = files w"
  "files (fst (Client_Kill (ge_zinit E) s sig w)) = files w"
  by (simp_all add: zinit_worlds quiet)

lemma same_traefik: "files (fst (isTraefikStarted E w)) = files w" "files (fst (traefikBinary E w)) = files w"
  "files (fst (AddService (ge_zinit E) traefikService s w)) = files w"
proof -
  show "files (fst (isTraefikStarted E w)) = files w"
    using same_calls(1)[of traefikService w] by (auto simp: isTraefikStarted_def split: prod.splits sum.splits)
  show "files (fst (traefikBinary E w)) = files w"
    using same_calls(2)[of traefikService w] by (auto simp: traefikBinary_def split: prod.splits)
  have "slash \<notin> set traefikService" by (simp add: traefikService_def slash_def)
  then show "files (fst (AddService (ge_zinit E) traefikService s w)) = files w"
    using other_files[of "servicePath traefikService"] service_elsewhere by (simp add: AddService_def split: sum.splits)
qed

lemma keeps_startTraefik: "ikeeps same (startTraefik E g)"
  unfolding startTraefik_def Let_def by (intro keeps keeps_act) (simp_all add: same_traefik same_calls)

lemma keeps_oldTraefik: "ikeeps same (oldTraefik E g running)"
  unfolding oldTraefik_def Let_def case_prod_beta
  by (intro keeps keeps_act) (simp_all add: same_traefik same_calls quiet)

lemma keeps_ensureGateway: "ikeeps same (ensureGateway E g force)"
  unfolding ensureGateway_def Let_def
  by (intro keeps keeps_act keeps_startTraefik keeps_oldTraefik) (simp_all add: same_traefik same_calls)

lemma keeps_destroyNNC:
  "gm_volatile g = abspath vs \<Longrightarrow> slash \<notin> set wlID \<Longrightarrow> ikeeps same (destroyNNC E g wlID)"
proof -
  assume g: "gm_volatile g = abspath vs" and s: "slash \<notin> set wlID"
  then have n: "slash \<notin> set (nncName wlID)" by (simp add: nncName_def nncServicePrefix_def slash_def)
  show ?thesis unfolding destroyNNC_def Let_def
    by (intro keeps keeps_act) (use n other_files[OF nnc_elsewhere[OF g n]] in simp_all)
qed

lemma same_listNNCs: "files (fst (listNNCs E names nncs w)) = files w"
proof (induction names arbitrary: nncs w)
  case (Cons n names)
  obtain w1 r where "Client_Get (ge_zinit E) n w = (w1, r)" by fastforce
  with same_calls(2)[of n w] Cons.IH show ?case by (auto simp: Let_def split: sum.splits)
qed simp

lemma same_nncList: "files (fst (nncList E w)) = files w"
  using same_calls(5)[of w] same_listNNCs by (auto simp: nncList_def split: prod.splits sum.splits)

lemma same_freePortLoop: assumes "freePortLoop E current w = Some y" shows "same w (fst y)"
proof -
  from assms have "E = E \<longrightarrow> same w (fst y)"
  proof (rule freePortLoop.raw_induct[where P = "\<lambda>E' c w y. E' = E \<longrightarrow> same w (fst y)", rotated], goal_cases)
    case (1 loop E' c w y)
    show ?case
    proof
      assume E: "E' = E"
      obtain w1 n where d: "ge_Intn E (65535 - nncStartPort) w = (w1, n)" by fastforce
      have "same w w1" using quiet(4)[of "65535 - nncStartPort" w] d by (simp add: same_def)
      then show "same w (fst y)" using 1(2) 1(1)[of E c w1 y] d unfolding E
        by (auto simp: Let_def same_def split: if_splits)
    qed
  qed
  then show ?thesis by simp
qed

lemma keeps_nncFreePort: "ikeeps same (nncFreePort E)"
proof -
  have "ikeeps same (freePortLoop E c)" for c using same_freePortLoop by (fastforce simp: ikeeps_def)
  then show ?thesis unfolding nncFreePort_def by (intro keeps keeps_act) (simp_all add: same_nncList)
qed

lemma keeps_nncReusePort:
  "gm_volatile g = abspath vs \<Longrightarrow> slash \<notin> set wlID \<Longrightarrow> ikeeps same (nncReusePort E g wlID)"
  unfolding nncReusePort_def
  by (intro keeps keeps_act keeps_nncFreePort keeps_destroyNNC)
     (auto simp: nncGet_def same_calls case_prod_beta intro!: keeps keeps_destroyNNC split: sum.split err.split)

lemma keeps_nncCreateService:
  assumes "gm_volatile g = abspath vs" and "slash \<notin> set name"
  shows "ikeeps same (nncCreateService E g name service)"
proof -
  have link: "Join [''/etc/zinit'', name @ ''.yaml''] = servicePath name" by (simp add: servicePath_def)
  show ?thesis unfolding nncCreateService_def Let_def link
    by (intro keeps keeps_act) (use other_files[OF nnc_elsewhere[OF assms]] other_files[OF service_elsewhere[OF assms(2)]] in simp_all)
qed

lemma keeps_nncEnsure:
  assumes "gm_volatile g = abspath vs" and "slash \<notin> set wlID"
  shows "ikeeps same (nncEnsure E g wlID ns backend)"
proof -
  have n: "slash \<notin> set (nncName wlID)" using assms(2) by (simp add: nncName_def nncServicePrefix_def slash_def)
  show ?thesis unfolding nncEnsure_def Let_def
    by (intro keeps keeps_act keeps_nncReusePort keeps_nncCreateService keeps_destroyNNC assms n)
       (simp_all add: same_calls)
qed

lemma keeps_processBackends:
  "gm_volatile g = abspath vs \<Longrightarrow> slash \<notin> set wlID \<Longrightarrow> ikeeps same (processBackends E g wlID ns tls bs)"
  by (induction bs) (simp_all add: keeps keeps_nncEnsure)

text \<open>The workload and the domain of a configuration file.\<close>

definition conf :: "'w \<Rightarrow> string \<Rightarrow> (string \<times> string) option" where
  "conf w n = (case domainFromConfig E (proxyFile vs (n @ ''.yaml'')) w of Inl _ \<Rightarrow> None | Inr p \<Rightarrow> Some p)"

lemma domainFromConfig_files:
  "slash \<notin> set n \<Longrightarrow> files w' (n @ ''.yaml'') = files w (n @ ''.yaml'') \<Longrightarrow>
   domainFromConfig E (proxyFile vs (n @ ''.yaml'')) w' = domainFromConfig E (proxyFile vs (n @ ''.yaml'')) w"
  by (simp add: domainFromConfig_def read_file element_yaml)

lemma conf_files:
  "slash \<notin> set n \<Longrightarrow> files w' (n @ ''.yaml'') = files w (n @ ''.yaml'') \<Longrightarrow> conf w' n = conf w n"
  using domainFromConfig_files[of n w' w] by (simp add: conf_def)

lemma conf_absent: "slash \<notin> set n \<Longrightarrow> files w (n @ ''.yaml'') = None \<Longrightarrow> conf w n = None"
  by (simp add: conf_def domainFromConfig_def read_file element_yaml)

lemma domainOfRouters_domain: "domainOfRouters path rs = Ok (s, d) \<Longrightarrow> d \<noteq> []"
  by (auto simp: domainOfRouters_def rmap_Ok_iff split: if_splits list.splits dest: domain_not_empty)

lemma conf_domain: "conf w n = Some (s, d) \<Longrightarrow> d \<noteq> []"
  unfolding conf_def domainFromConfig_def
  by (auto simp: rbind_Ok_iff split: sum.splits option.splits dest!: domainOfRouters_domain)

lemma conf_written:
  assumes "slash \<notin> set n" and "files w (n @ ''.yaml'') = Some b" and "ge_unmarshal E b = Ok (proxyConfigOf n fqdn tls config)"
    and "backquote \<notin> set fqdn" and "fqdn \<noteq> []"
  shows "conf w n = Some (n, fqdn)"
  using assms domainFromRule_hostRule[OF assms(4,5)]
  by (simp add: conf_def domainFromConfig_def read_file element_yaml domainOfRouters_def proxyConfigOf_def Let_def split: if_splits)

text \<open>The reserved domains are those of the configuration files, each under its workload.\<close>

definition synced :: "gatewayModule \<Rightarrow> 'w \<Rightarrow> bool" where
  "synced g w \<longleftrightarrow> gm_volatile g = abspath vs \<and>
     (\<forall>n s d. slash \<notin> set n \<longrightarrow> conf w n = Some (s, d) \<longrightarrow> s = n \<and> gm_reservedDomains g d = Some n) \<and>
     (\<forall>d n. gm_reservedDomains g d = Some n \<longrightarrow> slash \<notin> set n \<and> conf w n = Some (n, d))"

lemma syncedD:
  assumes "synced g w"
  shows "gm_volatile g = abspath vs" "slash \<notin> set n \<Longrightarrow> conf w n = Some (s, d) \<Longrightarrow> s = n \<and> gm_reservedDomains g d = Some n"
    "gm_reservedDomains g d = Some n \<Longrightarrow> slash \<notin> set n \<and> conf w n = Some (n, d)"
  using assms unfolding synced_def by blast+

lemma synced_same: assumes "synced g w" and "same w w'" shows "synced g w'"
proof -
  have "conf w' n = conf w n" if "slash \<notin> set n" for n using conf_files[OF that, of w' w] assms(2) by (simp add: same_def)
  then show ?thesis using assms(1) unfolding synced_def by metis
qed

lemma loadEntries_le:
  assumes "\<And>n s d. (n, False) \<in> set es \<Longrightarrow> HasSuffix n ''.yaml'' \<Longrightarrow> domainFromConfig E (Join [dir, n]) w = Ok (s, d) \<Longrightarrow> res d = Some s"
    and "\<And>d s. domains d = Some s \<Longrightarrow> res d = Some s" and "loadEntries E dir w es domains d = Some s"
  shows "res d = Some s"
  using assms
proof (induction es arbitrary: domains)
  case (Cons e es)
  obtain name isDir where e: "e = (name, isDir)" by fastforce
  obtain ds where ds: "loadEntries E dir w es ds d = Some s" "\<And>d s. ds d = Some s \<Longrightarrow> res d = Some s"
  proof (cases "\<not> isDir \<and> HasSuffix name ''.yaml'' \<and> is_ok (domainFromConfig E (Join [dir, name]) w)")
    case True
    then obtain s' d' where c: "domainFromConfig E (Join [dir, name]) w = Ok (s', d')" by (auto simp: is_ok_iff)
    with True Cons.prems(1)[of name s' d'] e have "res d' = Some s'" by simp
    with that[of "domains(d' \<mapsto> s')"] True c Cons.prems(2,3) e show ?thesis by (auto split: if_splits)
  next
    case False
    then show ?thesis using that[of domains] Cons.prems(2,3) e by (auto split: if_splits sum.splits)
  qed
  show ?case by (rule Cons.IH[OF _ ds(2,1)]) (use Cons.prems(1) in auto)
qed simp

lemma loadEntries_mono: "domains d \<noteq> None \<Longrightarrow> loadEntries E dir w es domains d \<noteq> None"
  by (induction E dir w es domains rule: loadEntries.induct) (auto split: sum.splits)

lemma loadEntries_dom:
  "(n, False) \<in> set es \<Longrightarrow> HasSuffix n ''.yaml'' \<Longrightarrow> domainFromConfig E (Join [dir, n]) w = Ok (s, d) \<Longrightarrow>
   loadEntries E dir w es domains d \<noteq> None"
proof (induction es arbitrary: domains)
  case (Cons e es)
  obtain name isDir where e: "e = (name, isDir)" by fastforce
  show ?case
  proof (cases "e = (n, False)")
    case True
    then show ?thesis using Cons.prems(2,3) loadEntries_mono[of "domains(d \<mapsto> s)" d] by simp
  next
    case False
    then have "loadEntries E dir w es ds d \<noteq> None" for ds using Cons by auto
    then show ?thesis unfolding e by (simp split: sum.split prod.split)
  qed
qed simp

lemma synced_load:
  assumes "synced g w"
  shows "loadDomains E (Join [gm_volatile g, configDir]) w = Ok (gm_reservedDomains g)"
proof -
  let ?res = "gm_reservedDomains g" and ?dir = "abspath (vs @ [configDir])"
  have dir: "Join [gm_volatile g, configDir] = ?dir" using syncedD(1)[OF assms] Join_element[of vs configDir] volatile by simp
  have path: "element n \<Longrightarrow> Join [?dir, n] = proxyFile vs n" for n
    using Join_element[of "vs @ [configDir]" n] volatile by (auto simp: proxyFile_def)
  obtain es where es: "ge_ReadDir E ?dir w = Ok es" and names: "\<And>n. (n, False) \<in> set es \<longleftrightarrow> element n \<and> files w n \<noteq> None"
    using read_dir by blast
  have "?res d = Some s" if "loadEntries E ?dir w es Map.empty d = Some s" for d s
  proof (rule loadEntries_le[OF _ _ that])
    fix m s d assume e: "(m, False) \<in> set es" "HasSuffix m ''.yaml''" and c: "domainFromConfig E (Join [?dir, m]) w = Ok (s, d)"
    obtain n where n: "m = n @ ''.yaml''" using e(2) by (auto simp: HasSuffix_iff)
    have el: "element m" using e(1) names by blast
    then have "slash \<notin> set n" "conf w n = Some (s, d)" using n c path[OF el] by (auto simp: element_def conf_def)
    then show "?res d = Some s" using syncedD(2)[OF assms] by blast
  qed simp
  moreover have "loadEntries E ?dir w es Map.empty d \<noteq> None" if "?res d = Some n" for d n
  proof (rule loadEntries_dom)
    have n: "slash \<notin> set n" "conf w n = Some (n, d)" using syncedD(3)[OF assms that] by auto
    show "domainFromConfig E (Join [?dir, n @ ''.yaml'']) w = Ok (n, d)"
      using n path[OF element_yaml[OF n(1)]] by (auto simp: conf_def split: sum.splits)
    show "(n @ ''.yaml'', False) \<in> set es" using names n conf_absent[OF n(1), of w] element_yaml by auto
    show "HasSuffix (n @ ''.yaml'') ''.yaml''" by simp
  qed
  ultimately have "loadEntries E ?dir w es Map.empty = ?res"
    by (intro ext) (metis not_None_eq)
  then show ?thesis using es dir by (simp add: loadDomains_def)
qed

lemma synced_inj: assumes "synced g w" shows "inj_on (gm_reservedDomains g) (dom (gm_reservedDomains g))"
proof (rule inj_onI)
  fix d d' assume "d \<in> dom (gm_reservedDomains g)" and eq: "gm_reservedDomains g d = gm_reservedDomains g d'"
  then obtain n where "gm_reservedDomains g d = Some n" "gm_reservedDomains g d' = Some n" by (metis domD)
  then show "d = d'" using syncedD(3)[OF assms, of d n] syncedD(3)[OF assms, of d' n] by simp
qed

lemma setupRoutingGeneric_files:
  assumes "setupRoutingGeneric E g wlID fqdn tls config w = Some (w', r)" and "gm_volatile g = abspath vs" and "slash \<notin> set wlID"
  shows "case r of
      Inr g' \<Rightarrow> g' = setReservedDomain fqdn wlID g \<and>
        (\<exists>b. files w' = (files w)(wlID @ ''.yaml'' \<mapsto> b) \<and> ge_unmarshal E b = Ok (proxyConfigOf wlID fqdn tls config))
    | Inl e \<Rightarrow> same w w' \<or> unwritten e"
proof (cases "ge_marshal E (proxyConfigOf wlID fqdn tls config)")
  case (Inl e)
  then have "w' = w" "r = Err (Wrap ''failed to convert config to yaml'' e)" using assms(1) by (simp_all add: setupRoutingGeneric_def io_defs)
  then show ?thesis by (simp add: same_def)
next
  case (Inr b)
  obtain w1 q where wr: "zi_WriteFile (ge_zinit E) (proxyFile vs (wlID @ ''.yaml'')) b w = (w1, q)" by fastforce
  have run: "w1 = w'" "r = rmap (\<lambda>_. setReservedDomain fqdn wlID g) (rwrap ''couldn't open config file for writing'' q)"
    using assms wr Inr by (auto simp: setupRoutingGeneric_def io_defs configPath_file split: sum.splits)
  show ?thesis
  proof (cases q)
    case (Inl e)
    then show ?thesis using run by (auto simp: unwritten_def)
  next
    case (Inr u)
    then show ?thesis using run yaml[OF \<open>ge_marshal E _ = Ok b\<close>] write_file[OF element_yaml[OF assms(3)], of b w w'] wr by auto
  qed
qed

lemma setupRouting_files:
  assumes "setupRouting E g wlID fqdn tls config ips w = Some (w', r)" and "gm_volatile g = abspath vs" and "slash \<notin> set wlID"
  shows "(\<exists>e. r = Err e \<and> same w w') \<or> gm_reservedDomains g fqdn = None \<and>
    (\<exists>w1 config'. same w w1 \<and> setupRoutingGeneric E g wlID fqdn tls config' w1 = Some (w', r))"
proof (cases "is_ok (ValidateBackends (ge_lib E) (gw_Backends config) (gw_TLSPassthrough config) ips) \<and> gm_reservedDomains g fqdn = None")
  case False
  then have "w' = w \<and> (\<exists>e. r = Err e)"
    using assms(1) by (cases "ValidateBackends (ge_lib E) (gw_Backends config) (gw_TLSPassthrough config) ips") (auto simp: setupRouting_def io_defs)
  then show ?thesis by (auto simp: same_def)
next
  case True
  then obtain u where v: "ValidateBackends (ge_lib E) (gw_Backends config) (gw_TLSPassthrough config) ips = Ok u" by (auto simp: is_ok_iff)
  show ?thesis
  proof (cases "gw_Network config")
    case None
    then show ?thesis using assms(1) v True same_equiv(1) by (auto simp: setupRouting_def io_defs reflpD)
  next
    case (Some network)
    let ?process = "\<lambda>ns. processBackends E g wlID ns (gw_TLSPassthrough config) (gw_Backends config)"
    have "(\<exists>e. r = Err e \<and> w' = w) \<or> (\<exists>ns e. ?process ns w = Some (w', Err e) \<and> r = Err e) \<or>
        (\<exists>ns w1 config'. (\<exists>processed. ?process ns w = Some (w1, Ok processed)) \<and> setupRoutingGeneric E g wlID fqdn tls config' w1 = Some (w', r))"
      using assms(1) v True Some
      by (fastforce simp: setupRouting_def io_defs Let_def split: option.splits sum.splits prod.splits)
    moreover have "?process ns w = Some (w1, q) \<Longrightarrow> same w w1" for ns w1 q
      using keeps_processBackends[OF assms(2,3)] by (rule ikeepsD)
    ultimately show ?thesis using True same_equiv(1) by (metis reflpD)
  qed
qed

lemma synced_written:
  assumes "synced g w" and "accepted g wlID fqdn" and "gm_reservedDomains g fqdn = None"
    and "files w' = (files w)(wlID @ ''.yaml'' \<mapsto> b)" and "ge_unmarshal E b = Ok (proxyConfigOf wlID fqdn tls config)"
  shows "synced (setReservedDomain fqdn wlID g) w'"
proof -
  let ?g = "setReservedDomain fqdn wlID g"
  have acc: "slash \<notin> set wlID" "backquote \<notin> set fqdn" "fqdn \<noteq> []" "\<And>d. gm_reservedDomains g d \<noteq> Some wlID"
    using assms(2) by (auto simp: accepted_def ran_def)
  have own: "conf w' wlID = Some (wlID, fqdn)" using conf_written[OF acc(1) _ assms(5) acc(2,3)] assms(4) by simp
  have rest: "conf w' n = conf w n" if "slash \<notin> set n" "n \<noteq> wlID" for n using conf_files[OF that(1), of w' w] assms(4) that(2) by simp
  have res: "gm_reservedDomains ?g = (gm_reservedDomains g)(fqdn \<mapsto> wlID)" "gm_volatile ?g = gm_volatile g"
    by (simp_all add: setReservedDomain_def)
  show ?thesis unfolding synced_def res
  proof (intro conjI allI impI)
    fix n s d assume n: "slash \<notin> set n" and c: "conf w' n = Some (s, d)"
    show "s = n" "((gm_reservedDomains g)(fqdn \<mapsto> wlID)) d = Some n"
      using c own rest[OF n] syncedD(2)[OF assms(1) n, of s d] assms(3) by (cases "n = wlID"; auto)+
  next
    fix d n assume d: "((gm_reservedDomains g)(fqdn \<mapsto> wlID)) d = Some n"
    then show "slash \<notin> set n" "conf w' n = Some (n, d)"
      using acc own rest[of n] syncedD(3)[OF assms(1), of d n] by (auto split: if_splits)
  qed (rule syncedD(1)[OF assms(1)])
qed

lemma setupRouting_synced:
  assumes "synced g w" and "setupRouting E g wlID fqdn tls config ips w = Some (w', r)" and "slash \<notin> set wlID"
  shows "case r of Inr g' \<Rightarrow> accepted g wlID fqdn \<longrightarrow> synced g' w' | Inl e \<Rightarrow> unwritten e \<or> synced g w'"
  using setupRouting_files[OF assms(2) syncedD(1)[OF assms(1)] assms(3)]
proof
  assume "gm_reservedDomains g fqdn = None \<and> (\<exists>w1 config'. same w w1 \<and> setupRoutingGeneric E g wlID fqdn tls config' w1 = Some (w', r))"
  then obtain w1 config' where w1: "same w w1" and free: "gm_reservedDomains g fqdn = None"
    and gen: "setupRoutingGeneric E g wlID fqdn tls config' w1 = Some (w', r)" by blast
  have "synced g w1" using synced_same assms(1) w1 by blast
  then show ?thesis
    using setupRoutingGeneric_files[OF gen syncedD(1)[OF assms(1)] assms(3)] synced_written[OF _ _ free] synced_same[of g w1 w']
    by (auto split: sum.splits)
qed (auto intro: synced_same[OF assms(1)])

lemma SetFQDNProxy_setup:
  assumes "SetFQDNProxy E g wlID c w = Some (w', r)"
  shows "(\<exists>e. r = Err e \<and> same w w') \<or> (\<exists>w1 tls ips. same w w1 \<and> setupRouting E g wlID (gf_FQDN c) tls (gf_Base c) ips w1 = Some (w', r))"
proof -
  have "(\<exists>e. r = Err e \<and> w' = w) \<or> (\<exists>w1 q. ensureGateway E g False w = Some (w1, q) \<and>
      ((\<exists>e. r = Err e \<and> w' = w1) \<or> (\<exists>tls ips. setupRouting E g wlID (gf_FQDN c) tls (gf_Base c) ips w1 = Some (w', r))))"
    using assms by (fastforce simp: SetFQDNProxy_def io_defs Let_def split: option.splits sum.splits prod.splits if_splits)
  then show ?thesis using ikeepsD[OF keeps_ensureGateway] same_equiv(1) by (metis reflpD)
qed

lemma SetNamedProxy_setup:
  assumes "SetNamedProxy E g wlID n w = Some (w', r)"
  shows "(\<exists>e. r = Err e \<and> same w w') \<or> (\<exists>w1 fqdn tls ips q. same w w1 \<and> setupRouting E g wlID fqdn tls (gn_Base n) ips w1 = Some (w', q) \<and>
    r = rmap (\<lambda>g. (g, fqdn)) q)"
proof -
  have "(\<exists>e. r = Err e \<and> w' = w) \<or> (\<exists>w1 p. ensureGateway E g False w = Some (w1, p) \<and>
      ((\<exists>e. r = Err e \<and> w' = w1) \<or> (\<exists>fqdn tls ips q. setupRouting E g wlID fqdn tls (gn_Base n) ips w1 = Some (w', q) \<and> r = rmap (\<lambda>g. (g, fqdn)) q)))"
    using assms by (fastforce simp: SetNamedProxy_def io_defs Let_def rmap_def split: option.splits sum.splits prod.splits if_splits)
  then show ?thesis using ikeepsD[OF keeps_ensureGateway] same_equiv(1) by (metis reflpD)
qed

lemma domainFromConfig_wrapped: "domainFromConfig E path w \<noteq> Err ErrNotExist"
proof -
  have "domainFromRule rule \<noteq> Err ErrNotExist" for rule by (simp add: domainFromRule_def split: option.splits)
  then have "domainOfRouters path rs \<noteq> Err ErrNotExist" for rs
    by (auto simp: domainOfRouters_def rmap_def split: if_splits list.splits sum.splits)
  then show ?thesis
    by (auto simp: domainFromConfig_def rbind_Err_iff rwrap_def split: sum.splits option.splits)
qed

definition freed :: "gatewayModule \<Rightarrow> 'w \<Rightarrow> string \<Rightarrow> gatewayModule" where
  "freed g w wlID = (case conf w wlID of None \<Rightarrow> g | Some (_, d) \<Rightarrow> deleteReservedDomain d g)"

lemma freed_domains:
  assumes "synced g w" and "slash \<notin> set wlID"
  shows "gm_reservedDomains (freed g w wlID) d = (if gm_reservedDomains g d = Some wlID then None else gm_reservedDomains g d)"
proof (cases "conf w wlID")
  case None
  then show ?thesis using syncedD(3)[OF assms(1), of d wlID] by (auto simp: freed_def)
next
  case (Some p)
  obtain s d' where p: "p = (s, d')" by fastforce
  with Some have c: "conf w wlID = Some (wlID, d')" and r: "gm_reservedDomains g d' = Some wlID"
    using syncedD(2)[OF assms, of s d'] by simp_all
  have "gm_reservedDomains g d = Some wlID \<longleftrightarrow> d = d'" using c r syncedD(3)[OF assms(1), of d wlID] by auto
  then show ?thesis using c by (simp add: freed_def deleteReservedDomain_def)
qed

lemma synced_removed:
  assumes "synced g w" and "slash \<notin> set wlID" and "files w' = (files w)(wlID @ ''.yaml'' := None)"
  shows "synced (freed g w wlID) w'"
proof -
  have own: "conf w' wlID = None" using conf_absent[OF assms(2)] assms(3) by simp
  have rest: "conf w' n = conf w n" if "slash \<notin> set n" "n \<noteq> wlID" for n using conf_files[OF that(1), of w' w] assms(3) that(2) by simp
  have "gm_volatile (freed g w wlID) = abspath vs"
    using syncedD(1)[OF assms(1)] by (simp add: freed_def deleteReservedDomain_def split: option.splits prod.splits)
  then show ?thesis unfolding synced_def freed_domains[OF assms(1,2)]
  proof (intro conjI allI impI)
    fix n s d assume n: "slash \<notin> set n" and c: "conf w' n = Some (s, d)"
    show "s = n" "(if gm_reservedDomains g d = Some wlID then None else gm_reservedDomains g d) = Some n"
      using c own rest[OF n] syncedD(2)[OF assms(1) n, of s d] by (cases "n = wlID"; auto)+
  next
    fix d n assume "(if gm_reservedDomains g d = Some wlID then None else gm_reservedDomains g d) = Some n"
    then have "gm_reservedDomains g d = Some n" "n \<noteq> wlID" by (auto split: if_splits)
    then show "slash \<notin> set n" "conf w' n = Some (n, d)" using rest[of n] syncedD(3)[OF assms(1), of d n] by auto
  qed
qed

lemma DeleteNamedProxy_files:
  assumes "synced g w" and "DeleteNamedProxy E g wlID w = Some (w', r)" and "slash \<notin> set wlID"
  shows "case r of
      Inr g' \<Rightarrow> synced g' w' \<and> files w' (wlID @ ''.yaml'') = None \<and>
        (\<forall>d. gm_reservedDomains g' d = (if gm_reservedDomains g d = Some wlID then None else gm_reservedDomains g d))
    | Inl e \<Rightarrow> synced g w'"
proof -
  obtain w1 q where des: "destroyNNC E g wlID w = Some (w1, q)" using assms(2) by (auto simp: DeleteNamedProxy_def itry_Some_iff)
  have s1: "synced g w1" using synced_same[OF assms(1)] ikeepsD[OF keeps_destroyNNC[OF syncedD(1)[OF assms(1)] assms(3)] des] by blast
  let ?n = "wlID @ ''.yaml''"
  obtain w2 p where rm: "ge_Remove E (proxyFile vs ?n) w1 = (w2, p)" by fastforce
  have path: "configPath g wlID = proxyFile vs ?n" by (rule configPath_file[OF syncedD(1)[OF assms(1)] assms(3)])
  have g': "(case domainFromConfig E (proxyFile vs ?n) w1 of Inl _ \<Rightarrow> g | Inr (_, d) \<Rightarrow> if d \<noteq> [] then deleteReservedDomain d g else g) = freed g w1 wlID"
    using conf_domain[of w1 wlID] by (auto simp: freed_def conf_def split: sum.splits)
  have run: "w' = w2" "r = (case p of Inl e \<Rightarrow> if e \<noteq> ErrNotExist then Err (Wrap ''couldn't remove config file'' e) else Ok (freed g w1 wlID)
      | Inr _ \<Rightarrow> Ok (freed g w1 wlID))"
    using assms(2) des rm domainFromConfig_wrapped[of "proxyFile vs ?n" w1] unfolding g'[symmetric]
    by (auto simp: DeleteNamedProxy_def io_defs path Let_def split: sum.splits if_splits)
  note rf = remove_file[OF element_yaml[OF assms(3)] rm]
  show ?thesis
  proof (cases "is_ok r")
    case True
    then have fs: "files w' = (files w1)(?n := None)" and g: "r = Ok (freed g w1 wlID)"
      using run rf by (auto simp: is_ok_iff fun_upd_idem split: sum.splits if_splits)
    then show ?thesis using synced_removed[OF s1 assms(3) fs] freed_domains[OF s1 assms(3)] by simp
  next
    case False
    then obtain e where "r = Err e" "files w' = files w1" using run rf by (cases r) (auto split: sum.splits if_splits)
    then show ?thesis using synced_same[OF s1] by (simp add: same_def)
  qed
qed

lemma validate_same: "same w (validateNameContracts E g w)"
proof -
  have "files (validateDomains E base ds w) = files w" for base ds w
    by (induction ds arbitrary: w) (auto simp: quiet split: sum.splits)
  then show ?thesis by (auto simp: validateNameContracts_def same_def split: sum.splits)
qed

lemma step_synced:
  assumes "gw_step E gw gw'" and "synced (fst gw) (snd gw)"
  shows "synced (fst gw') (snd gw')"
  using assms
proof cases
  case (fqdn g wlID c w w' g')
  from SetFQDNProxy_setup[OF fqdn(3)] obtain w1 tls ips where "same w w1" "setupRouting E g wlID (gf_FQDN c) tls (gf_Base c) ips w1 = Some (w', Ok g')" by auto
  then show ?thesis using setupRouting_synced[of g w1] synced_same assms(2) fqdn by (fastforce simp: accepted_def)
next
  case (name g wlID n w w' g' fq)
  from SetNamedProxy_setup[OF name(3)] obtain w1 f tls ips q where w1: "same w w1" and q: "setupRouting E g wlID f tls (gn_Base n) ips w1 = Some (w', q)"
    "Ok (g', fq) = rmap (\<lambda>g. (g, f)) q" by auto
  from q have set: "setupRouting E g wlID fq tls (gn_Base n) ips w1 = Some (w', Ok g')" by (cases q) auto
  have "synced g w1" using synced_same[OF _ w1] assms(2) name(1) by simp
  from setupRouting_synced[OF this set] name show ?thesis by (simp add: accepted_def)
next
  case (delete g wlID w w' g')
  then show ?thesis using DeleteNamedProxy_files[of g w wlID w' "Ok g'"] assms(2) by simp
next
  case (fqdn_failed g wlID c w w' e)
  from SetFQDNProxy_setup[OF fqdn_failed(3)] show ?thesis
    using setupRouting_synced[of g _ wlID "gf_FQDN c"] synced_same assms(2) fqdn_failed by fastforce
next
  case (name_failed g wlID n w w' e)
  from SetNamedProxy_setup[OF name_failed(3)] show ?thesis
  proof
    assume "\<exists>w1 fqdn tls ips q. same w w1 \<and> setupRouting E g wlID fqdn tls (gn_Base n) ips w1 = Some (w', q) \<and> Err e = rmap (\<lambda>g. (g, fqdn)) q"
    then obtain w1 f tls ips q where "same w w1" "setupRouting E g wlID f tls (gn_Base n) ips w1 = Some (w', q)" "Err e = rmap (\<lambda>g. (g, f)) q"
      by blast
    then have "same w w1" "setupRouting E g wlID f tls (gn_Base n) ips w1 = Some (w', Err e)" by (cases q; simp)+
    then show ?thesis using setupRouting_synced[of g w1 wlID f] synced_same[of g w w1] assms(2) name_failed by fastforce
  qed (use synced_same assms(2) name_failed in auto)
next
  case (delete_failed g wlID w w' e)
  then show ?thesis using DeleteNamedProxy_files[of g w wlID w' "Err e"] assms(2) by simp
next
  case (validate g w)
  then show ?thesis using synced_same[OF _ validate_same] assms(2) by simp
qed

lemma steps_synced:
  assumes "rtranclp (gw_step E) gw gw'" and "synced (fst gw) (snd gw)"
  shows "synced (fst gw') (snd gw')"
  using assms by (induction rule: rtranclp_induct) (auto intro: step_synced)

lemma synced_boot: "gm_volatile g = abspath vs \<Longrightarrow> gm_reservedDomains g = Map.empty \<Longrightarrow> files w = Map.empty \<Longrightarrow> synced g w"
  by (simp add: synced_def conf_absent)

end

section \<open>Forwarders of a workload\<close>

text \<open>A word that the shell leaves as it is.\<close>

definition plainWord :: "string \<Rightarrow> bool" where
  "plainWord s \<longleftrightarrow> s \<noteq> [] \<and> list_all (\<lambda>c. \<not> is_space c \<and> c \<notin> {CHR 0x22, CHR 0x27, CHR 0x5C, CHR ''#''}) s"

lemma plainWord_append: "plainWord s \<Longrightarrow> plainWord t \<Longrightarrow> plainWord (s @ t)"
  by (simp add: plainWord_def)

lemma plainWord_dec: "plainWord (dec n)"
proof -
  have "list_all is_digit (dec n)" by (simp add: list_all_iff dec_digits)
  moreover have "\<not> is_space c \<and> c \<notin> {CHR 0x22, CHR 0x27, CHR 0x5C, CHR ''#''}" if "is_digit c" for c
    using that by (auto simp: is_digit_def is_space_def)
  ultimately show ?thesis by (auto simp: plainWord_def list_all_iff)
qed

lemma Atoi_dec: "int n < 2 ^ 63 \<Longrightarrow> Atoi (dec n) = Ok (int n)"
proof -
  assume n: "int n < 2 ^ 63"
  have "is_digit (hd (dec n))" by (rule dec_digits[of _ n]) simp
  then have "hd (dec n) \<noteq> CHR ''-''" "hd (dec n) \<noteq> CHR ''+''" by (auto simp: is_digit_def)
  moreover have "list_all is_digit (dec n)" by (simp add: list_all_iff dec_digits)
  ultimately show ?thesis using n by (simp add: Atoi_def)
qed

definition nncExec :: "string \<Rightarrow> string \<Rightarrow> string \<Rightarrow> string" where
  "nncExec be ns target = joinWith '' '' (nncCommand be ns target)"

definition localAddr :: "u16 \<Rightarrow> string" where
  "localAddr port = ''127.0.0.1:'' @ dec (unat port)"

definition linkPath :: "string \<Rightarrow> string" where
  "linkPath name = ''/etc/zinit/'' @ name @ ''.yaml''"

locale forwarders =
  fixes E :: "'w GwEnv" and known :: "'w \<Rightarrow> string \<Rightarrow> bool"
  assumes send_files: "zi_ReadFile (ge_zinit E) p (fst (zi_send (ge_zinit E) c w)) = zi_ReadFile (ge_zinit E) p w"
    and write_read: "zi_WriteFile (ge_zinit E) p b w = (w', Ok ()) \<Longrightarrow> zi_ReadFile (ge_zinit E) p w' = Ok b"
    and link_read: "ge_Symlink E p l w = (w', Ok ()) \<Longrightarrow> zi_ReadFile (ge_zinit E) l w' = zi_ReadFile (ge_zinit E) p w"
    and service_yaml: "zi_yamlMarshal (ge_zinit E) s = Ok b \<Longrightarrow> zi_yamlDecode (ge_zinit E) b = Ok s"
    and shell_words: "list_all plainWord ws \<Longrightarrow> zi_shlex (ge_zinit E) (joinWith '' '' ws) = Ok ws"
    and split_port: "lib_splitHostPort (ge_lib E) (localAddr port) = Ok (''127.0.0.1'', dec (unat port))"
    and monitor_known: "Client_Monitor (ge_zinit E) n w = (w', Ok ()) \<Longrightarrow> known w' n"
    and status_known: "known w n \<Longrightarrow> Client_Status (ge_zinit E) n w = (w', Err e) \<Longrightarrow> \<not> err_is e ErrUnknownService"
begin

text \<open>The service of a workload forwards an address to a target.\<close>

definition forwarding :: "'w \<Rightarrow> string \<Rightarrow> u16 \<Rightarrow> string \<Rightarrow> string \<Rightarrow> bool" where
  "forwarding w wlID port ns target \<longleftrightarrow> known w (nncName wlID) \<and>
     rbind (zi_ReadFile (ge_zinit E) (linkPath (nncName wlID)) w) (zi_yamlDecode (ge_zinit E)) =
       Ok (noInitService\<lparr>is_Exec := nncExec (localAddr port) ns target\<rparr>)"

lemma port_of_exec:
  assumes "plainWord (Join [''/var/run/netns/'', ns])" and "plainWord target"
  shows "NNC_port E \<lparr>nnc_ID = i, nnc_Exec = nncExec (localAddr port) ns target\<rparr> = Ok port"
proof -
  have be: "plainWord (localAddr port)"
    unfolding localAddr_def by (rule plainWord_append[OF _ plainWord_dec]) (simp add: plainWord_def is_space_def)
  have "list_all plainWord (nncCommand (localAddr port) ns target)"
    using be assms by (simp add: nncCommand_def) (simp add: plainWord_def is_space_def)
  then have "NNC_arg E \<lparr>nnc_ID = i, nnc_Exec = nncExec (localAddr port) ns target\<rparr> ''--listen'' = Ok (localAddr port)"
    using shell_words by (simp add: NNC_arg_def nncExec_def) (simp add: nncCommand_def)
  moreover have "Atoi (dec (unat port)) = Ok (int (unat port))"
    using uint_lt2p[of port] by (intro Atoi_dec) simp
  ultimately show ?thesis by (simp add: NNC_port_def split_port)
qed

lemma linkPath_service: "slash \<notin> set n \<Longrightarrow> linkPath n = Join [''/etc/zinit'', n @ ''.yaml'']"
  using servicePath_abspath[of n] by (simp add: servicePath_def linkPath_def abspath_def slash_def)

lemma nncEnsure_forwards:
  assumes "nncEnsure E g wlID ns backend w = Some (w', Ok be)" and "slash \<notin> set wlID"
  shows "\<exists>port target. be = localAddr port \<and> Backend_AsAddress (ge_lib E) backend = Ok target \<and> forwarding w' wlID port ns target \<and>
    (\<exists>w1. nncReusePort E g wlID w = Some (w1, Ok port))"
proof -
  let ?Z = "ge_zinit E" and ?n = "nncName wlID"
  let ?s = "\<lambda>port target. noInitService\<lparr>is_Exec := nncExec (localAddr port) ns target\<rparr>"
  obtain w1 port target w2 w4 r where port: "nncReusePort E g wlID w = Some (w1, Ok port)" and target: "Backend_AsAddress (ge_lib E) backend = Ok target"
    and create: "nncCreateService E g ?n (?s port target) w1 = Some (w2, Ok ())" and mon': "Client_Monitor ?Z ?n w2 = (w4, r)"
    and fin: "(case r of Inl e \<Rightarrow> itry (destroyNNC E g wlID) (\<lambda>_. iret (Err (Wrap ''failed to start nnc service'' e))) | Inr _ \<Rightarrow> iret (Ok (localAddr port))) w4 = Some (w', Ok be)"
    using assms(1)[unfolded nncEnsure_def Let_def nncExec_def[symmetric] localAddr_def[symmetric]]
    unfolding ibind_Ok_iff itry_Some_iff by auto
  then have mon: "Client_Monitor ?Z ?n w2 = (w', Ok ())" and be: "be = localAddr port" by (cases r; auto simp: itry_Some_iff)+
  obtain b w3 where b: "zi_yamlMarshal ?Z (?s port target) = Ok b" "zi_WriteFile ?Z (nncZinitPath g ?n) b w1 = (w3, Ok ())"
    "ge_Symlink E (nncZinitPath g ?n) (linkPath ?n) w3 = (w2, Ok ())"
    using create linkPath_service[of ?n] assms(2)
    by (auto simp: nncCreateService_def Let_def ibind_Ok_iff nncName_def nncServicePrefix_def slash_def)
  have "zi_ReadFile ?Z (linkPath ?n) w2 = Ok b" using link_read[OF b(3)] write_read[OF b(2)] by simp
  then have "zi_ReadFile ?Z (linkPath ?n) w' = Ok b" using send_files[of "linkPath ?n" "line (''monitor '' @ ?n)" w2] monitor_world[of ?Z ?n w2] mon by simp
  then have "forwarding w' wlID port ns target" using monitor_known[OF mon] service_yaml[OF b(1)] by (simp add: forwarding_def)
  then show ?thesis using be target port by blast
qed

lemma reuse_forwarding:
  assumes "forwarding w wlID port ns target" and "plainWord (Join [''/var/run/netns/'', ns])" and "plainWord target"
    and "nncReusePort E g wlID w = Some (w', Ok port')"
  shows "port' = port"
proof -
  let ?Z = "ge_zinit E" and ?n = "nncName wlID"
  obtain w1 r where st: "Client_Status ?Z ?n w = (w1, r)" by fastforce
  have content: "zi_ReadFile ?Z (linkPath ?n) w1 = zi_ReadFile ?Z (linkPath ?n) w"
    using send_files[of "linkPath ?n" "line (''status '' @ ?n)" w] status_world[of ?Z ?n w] st by simp
  show ?thesis
  proof (cases r)
    case (Inl e)
    then have "nncGet E ?n w = (w1, Err e)" using st by (simp add: nncGet_def Client_Get_def)
    moreover have "\<not> err_is e ErrUnknownService" using status_known assms(1) st Inl by (auto simp: forwarding_def)
    ultimately show ?thesis using assms(4) by (simp add: nncReusePort_def io_defs)
  next
    case (Inr status)
    have "Client_Get ?Z ?n w = (w1, Ok (LogType_UnmarshalYAML (noInitService\<lparr>is_Exec := nncExec (localAddr port) ns target\<rparr>)))"
      using assms(1) content st Inr by (auto simp: Client_Get_def forwarding_def linkPath_def rbind_Ok_iff)
    then have "nncGet E ?n w = (w1, Ok \<lparr>nnc_ID = TrimPrefix ?n nncServicePrefix, nnc_Exec = nncExec (localAddr port) ns target\<rparr>)"
      by (simp add: nncGet_def LogType_UnmarshalYAML_def)
    then show ?thesis using assms(4) port_of_exec[OF assms(2,3)]
      by (auto simp: nncReusePort_def io_defs split: option.splits)
  qed
qed

text \<open>Every backend after the first gets the address of the first, and takes its service over.\<close>

lemma processBackends_forwarding:
  assumes "processBackends E g wlID ns tls bs w = Some (w', Ok ps)" and "slash \<notin> set wlID" and "plainWord (Join [''/var/run/netns/'', ns])"
    and "\<forall>b \<in> set bs. \<forall>t. Backend_AsAddress (ge_lib E) b = Ok t \<longrightarrow> plainWord t"
    and "forwarding w wlID port ns target" and "plainWord target"
  shows "ps = replicate (length bs) (if tls then localAddr port else ''http://'' @ localAddr port) \<and>
    (bs \<noteq> [] \<longrightarrow> (\<exists>t. Backend_AsAddress (ge_lib E) (last bs) = Ok t \<and> forwarding w' wlID port ns t)) \<and> (bs = [] \<longrightarrow> w' = w)"
  using assms
proof (induction bs arbitrary: w ps target)
  case (Cons b bs)
  obtain w1 be qs where ens: "nncEnsure E g wlID ns b w = Some (w1, Ok be)" and rest: "processBackends E g wlID ns tls bs w1 = Some (w', Ok qs)"
    and ps: "ps = (if tls then be else ''http://'' @ be) # qs"
    using Cons.prems(1) by (auto simp: ibind_Ok_iff)
  from nncEnsure_forwards[OF ens Cons.prems(2)] obtain port' t w2 where be: "be = localAddr port'" and t: "Backend_AsAddress (ge_lib E) b = Ok t"
    and fw: "forwarding w1 wlID port' ns t" and reuse: "nncReusePort E g wlID w = Some (w2, Ok port')" by blast
  have same: "port' = port" by (rule reuse_forwarding[OF Cons.prems(5,3,6) reuse])
  have pt: "plainWord t" using Cons.prems(4) t by simp
  show ?case using Cons.IH[OF rest Cons.prems(2,3) _ fw[unfolded same] pt] Cons.prems(4) ps be same t fw by auto
qed simp

lemma private_backends:
  assumes "processBackends E g wlID ns tls bs w = Some (w', Ok ps)" and "slash \<notin> set wlID" and "plainWord (Join [''/var/run/netns/'', ns])"
    and "\<forall>b \<in> set bs. \<forall>t. Backend_AsAddress (ge_lib E) b = Ok t \<longrightarrow> plainWord t" and "bs \<noteq> []"
  shows "\<exists>port t. ps = replicate (length bs) (if tls then localAddr port else ''http://'' @ localAddr port) \<and>
    Backend_AsAddress (ge_lib E) (last bs) = Ok t \<and> forwarding w' wlID port ns t"
proof -
  obtain b bs' where bs: "bs = b # bs'" using assms(5) by (cases bs) auto
  then obtain w1 be qs where ens: "nncEnsure E g wlID ns b w = Some (w1, Ok be)" and rest: "processBackends E g wlID ns tls bs' w1 = Some (w', Ok qs)"
    and ps: "ps = (if tls then be else ''http://'' @ be) # qs"
    using assms(1) by (auto simp: ibind_Ok_iff)
  from nncEnsure_forwards[OF ens assms(2)] obtain port t where be: "be = localAddr port" and t: "Backend_AsAddress (ge_lib E) b = Ok t"
    and fw: "forwarding w1 wlID port ns t" by blast
  have "plainWord t" using assms(4) t bs by simp
  from processBackends_forwarding[OF rest assms(2,3) _ fw this] assms(4) bs ps be t fw show ?thesis by (cases "bs' = []") auto
qed

end

end
