(* ===== verification/GatewaySim.thy ===== *)
theory GatewaySim
  imports GatewayLaws "HOL-Library.AList"
begin

text \<open>
  A simulated node for the gateway: files, links and a zinit, in which services start and stop at
  once. The laws of the locales hold for it, so that they can hold, and concrete runs are
  evaluated on it.
\<close>

section \<open>The world\<close>

text \<open>The files of the proxy directory in the order they are listed, the other files, the links,
  the services with whether they are up, the clock and the next random number.\<close>

record SimW =
  sw_proxy :: "(string \<times> bytes) list"
  sw_files :: "string \<rightharpoonup> bytes"
  sw_links :: "string \<rightharpoonup> string"
  sw_svcs :: "(string \<times> bool) list"
  sw_clock :: int
  sw_draw :: int

definition simVol :: "string list" where "simVol = [''var'', ''run'', ''cache'', ''gateway'']"

definition simDir :: string where "simDir = ''/var/run/cache/gateway/proxy''"

definition proxyName :: "string \<Rightarrow> string option" where
  "proxyName p = (if HasPrefix p (simDir @ ''/'') \<and> element (drop (length simDir + 1) p) then Some (drop (length simDir + 1) p) else None)"

definition simRead :: "string \<Rightarrow> SimW \<Rightarrow> bytes result" where
  "simRead p w = (case (case proxyName p of
       Some n \<Rightarrow> map_of (sw_proxy w) n
     | None \<Rightarrow> (case sw_links w p of Some t \<Rightarrow> sw_files w t | None \<Rightarrow> sw_files w p)) of
     None \<Rightarrow> Err ErrNotExist | Some b \<Rightarrow> Ok b)"

definition simWrite :: "string \<Rightarrow> bytes \<Rightarrow> SimW \<Rightarrow> SimW \<times> unit result" where
  "simWrite p b w = (case proxyName p of
     Some n \<Rightarrow> w\<lparr>sw_proxy := AList.update n b (sw_proxy w)\<rparr>
   | None \<Rightarrow> (case sw_links w p of
       Some t \<Rightarrow> w\<lparr>sw_files := (sw_files w)(t \<mapsto> b)\<rparr>
     | None \<Rightarrow> w\<lparr>sw_files := (sw_files w)(p \<mapsto> b)\<rparr>), Ok ())"

definition simRemoveAll :: "string \<Rightarrow> SimW \<Rightarrow> SimW \<times> unit result" where
  "simRemoveAll p w = (case proxyName p of
     Some n \<Rightarrow> w\<lparr>sw_proxy := AList.delete n (sw_proxy w)\<rparr>
   | None \<Rightarrow> w\<lparr>sw_files := (sw_files w)(p := None), sw_links := (sw_links w)(p := None)\<rparr>, Ok ())"

definition simRemove :: "string \<Rightarrow> SimW \<Rightarrow> SimW \<times> unit result" where
  "simRemove p w = (if is_ok (simRead p w) then simRemoveAll p w else (w, Err ErrNotExist))"

definition simSymlink :: "string \<Rightarrow> string \<Rightarrow> SimW \<Rightarrow> SimW \<times> unit result" where
  "simSymlink p l w = (if proxyName p = None \<and> proxyName l = None \<and> sw_links w p = None \<and> p \<noteq> l \<and> \<not> is_ok (simRead l w)
     then (w\<lparr>sw_links := (sw_links w)(l \<mapsto> p)\<rparr>, Ok ()) else (w, Err ErrExist))"

definition simReadDir :: "string \<Rightarrow> SimW \<Rightarrow> (string \<times> bool) list result" where
  "simReadDir d w = (if d = simDir then Ok (map (\<lambda>n. (n, False)) (filter element (map fst (sw_proxy w)))) else Err ErrNotExist)"

section \<open>Zinit\<close>

definition unknownBody :: "string \<Rightarrow> string \<times> bytes" where
  "unknownBody n = (''error'', ''service name \"'' @ n @ ''\" unknown'')"

definition simCommand :: "string \<Rightarrow> (string \<times> bool) list \<Rightarrow> (string \<times> bool) list \<times> string \<times> bytes" where
  "simCommand c s =
     (if c = ''list'' then (s, ''ok'', joinWith [CHR 0x0A] (map fst s))
      else if HasPrefix c ''status '' then let n = drop 7 c in
        (s, case map_of s n of None \<Rightarrow> unknownBody n | Some up \<Rightarrow> (''ok'', if up then ''U'' else ''D''))
      else if HasPrefix c ''monitor '' then let n = drop 8 c in
        (if map_of s n = None then (s @ [(n, True)], ''ok'', []) else (s, ''error'', ''already monitored''))
      else if HasPrefix c ''start '' then let n = drop 6 c in
        (if map_of s n = None then (s, unknownBody n) else (AList.update n True s, ''ok'', []))
      else if HasPrefix c ''stop '' then let n = drop 5 c in
        (if map_of s n = None then (s, unknownBody n) else (AList.update n False s, ''ok'', []))
      else if HasPrefix c ''forget '' then let n = drop 7 c in
        (case map_of s n of None \<Rightarrow> (s, unknownBody n) | Some up \<Rightarrow> if up then (s, ''error'', ''service is up'') else (AList.delete n s, ''ok'', []))
      else if HasPrefix c ''kill '' then (s, ''ok'', [])
      else (s, ''error'', ''unknown command''))"

definition simSend :: "string \<Rightarrow> SimW \<Rightarrow> SimW \<times> (string \<times> bytes) result" where
  "simSend l w = (case simCommand (butlast l) (sw_svcs w) of (s, r) \<Rightarrow> (w\<lparr>sw_svcs := s, sw_clock := sw_clock w + 1\<rparr>, Ok r))"

definition simSleep :: "int \<Rightarrow> SimW \<Rightarrow> SimW" where
  "simSleep d w = w\<lparr>sw_clock := sw_clock w + d\<rparr>"

definition simStatus :: "bytes \<Rightarrow> (string \<times> int \<times> string option \<times> string \<times> (string \<times> string) list) result" where
  "simStatus b = Ok (if b = ''U'' then ([], 1, Some ''Running'', ''Up'', []) else ([], 0, Some ''Success'', ''Down'', []))"

definition sim_zinit :: "SimW Zinit" where
  "sim_zinit = \<lparr>zi_send = simSend, zi_jsonString = Ok,
     zi_jsonList = (\<lambda>b. Ok (if b = [] then [] else map (\<lambda>n. (n, Some ''Running'')) (splitOn CHR 0x0A b))),
     zi_jsonStatus = simStatus,
     zi_yamlDecode = (\<lambda>b. Ok (noInitService\<lparr>is_Exec := b\<rparr>)), zi_yamlUnmarshal = (\<lambda>b. Ok (noInitService\<lparr>is_Exec := b\<rparr>)),
     zi_yamlMarshal = (\<lambda>s. if s = noInitService\<lparr>is_Exec := is_Exec s\<rparr> then Ok (is_Exec s) else Err (Errorf ''not simulated'')),
     zi_shlex = (\<lambda>s. Ok (filter (\<lambda>x. x \<noteq> []) (splitOn CHR '' '' s))), zi_regexp = (\<lambda>r. Some (\<lambda>s. s = r)),
     zi_ReadFile = simRead, zi_WriteFile = simWrite, zi_RemoveAll = simRemoveAll,
     zi_now = sw_clock, zi_sleep = simSleep, zi_order = (\<lambda>x. x)\<rparr>"

definition simSvc :: "SimW \<Rightarrow> string \<Rightarrow> (ServiceState \<times> string) option" where
  "simSvc w n = map_option (\<lambda>up. if up then (\<lparr>st_state = ''running'', st_reason = []\<rparr>, ''Up'') else (\<lparr>st_state = ''success'', st_reason = []\<rparr>, ''Down''))
     (map_of (sw_svcs w) n)"

lemmas sim_defs = sim_zinit_def simSend_def simRead_def simWrite_def simRemoveAll_def simSleep_def simRemove_def simSymlink_def

lemma simRead_cong:
  "sw_proxy w' = sw_proxy w \<Longrightarrow> sw_files w' = sw_files w \<Longrightarrow> sw_links w' = sw_links w \<Longrightarrow> simRead p w' = simRead p w"
  by (simp add: simRead_def split: option.split)

lemma simRead_send: "simRead p (fst (simSend c w)) = simRead p w"
  by (rule simRead_cong) (simp_all add: simSend_def case_prod_beta)

lemma sim_status:
  "Client_Status sim_zinit n w = (w\<lparr>sw_clock := sw_clock w + 1\<rparr>, case map_of (sw_svcs w) n of
     None \<Rightarrow> (if unknownService (snd (unknownBody n)) then Err ErrUnknownService else Err (Errorf (snd (unknownBody n))))
   | Some up \<Rightarrow> Ok \<lparr>ss_Name = [], ss_Pid = (if up then 1 else 0), ss_State = fst (the (simSvc w n)), ss_Target = snd (the (simSvc w n)), ss_After = []\<rparr>)"
proof -
  have "stateOf (Some ''Running'') = Ok \<lparr>st_state = ''running'', st_reason = []\<rparr>" "stateOf (Some ''Success'') = Ok \<lparr>st_state = ''success'', st_reason = []\<rparr>"
    by code_simp+
  then show ?thesis
    by (simp add: Client_Status_def Client_cmd_def sim_zinit_def simSend_def simCommand_def HasPrefix_def unknownBody_def simStatus_def simSvc_def split: option.splits)
qed

lemma sim_status_svc:
  assumes "Client_Status sim_zinit n w = (w', Ok st)"
  shows "simSvc w' n = Some (ss_State st, ss_Target st)"
proof -
  have w': "w' = fst (Client_Status sim_zinit n w)" and r: "snd (Client_Status sim_zinit n w) = Ok st" using assms by simp_all
  have "simSvc w' n = simSvc w n" unfolding w' sim_status by (simp add: simSvc_def)
  moreover obtain up where up: "map_of (sw_svcs w) n = Some up"
    using r unfolding sim_status by (cases "map_of (sw_svcs w) n") (auto split: if_splits)
  moreover have "ss_State st = fst (the (simSvc w n))" "ss_Target st = snd (the (simSvc w n))"
    using r up unfolding sim_status by (auto simp: up)
  ultimately show ?thesis by (simp add: simSvc_def)
qed

lemma simCommand_simps:
  "simCommand ''list'' s = (s, ''ok'', joinWith [CHR 0x0A] (map fst s))"
  "simCommand (''status '' @ n) s = (s, case map_of s n of None \<Rightarrow> unknownBody n | Some up \<Rightarrow> (''ok'', if up then ''U'' else ''D''))"
  "simCommand (''monitor '' @ n) s = (if map_of s n = None then (s @ [(n, True)], ''ok'', []) else (s, ''error'', ''already monitored''))"
  "simCommand (''start '' @ n) s = (if map_of s n = None then (s, unknownBody n) else (AList.update n True s, ''ok'', []))"
  "simCommand (''stop '' @ n) s = (if map_of s n = None then (s, unknownBody n) else (AList.update n False s, ''ok'', []))"
  "simCommand (''forget '' @ n) s = (case map_of s n of None \<Rightarrow> (s, unknownBody n)
     | Some up \<Rightarrow> if up then (s, ''error'', ''service is up'') else (AList.delete n s, ''ok'', []))"
  "simCommand (''kill '' @ n) s = (s, ''ok'', [])"
  by (simp_all add: simCommand_def HasPrefix_def)

lemma simCommand_cases:
  obtains "c = ''list''" | n where "c = ''status '' @ n" | n where "c = ''monitor '' @ n" | n where "c = ''start '' @ n"
    | n where "c = ''stop '' @ n" | n where "c = ''forget '' @ n" | n where "c = ''kill '' @ n"
    | "\<And>s. simCommand c s = (s, ''error'', ''unknown command'')" "\<And>n. c \<noteq> ''monitor '' @ n" "\<And>n. c \<noteq> ''start '' @ n"
      "\<And>n. c \<noteq> ''stop '' @ n" "\<And>n. c \<noteq> ''forget '' @ n"
proof -
  let ?pre = "[''status '', ''monitor '', ''start '', ''stop '', ''forget '', ''kill '']"
  show thesis
  proof (cases "c = ''list'' \<or> (\<exists>p \<in> set ?pre. HasPrefix c p)")
    case True
    then show thesis using that(1-7) by (auto simp only: HasPrefix_iff set_simps insert_iff empty_iff)
  next
    case False
    then have "simCommand c s = (s, ''error'', ''unknown command'')" for s by (simp add: simCommand_def)
    moreover have "c \<noteq> p @ n" if "p \<in> set ?pre" for p n using False that HasPrefix_append by blast
    from this[of "''monitor ''"] this[of "''start ''"] this[of "''stop ''"] this[of "''forget ''"]
    have "c \<noteq> ''monitor '' @ n" "c \<noteq> ''start '' @ n" "c \<noteq> ''stop '' @ n" "c \<noteq> ''forget '' @ n" for n by simp_all
    ultimately show thesis by (rule that(8))
  qed
qed

lemma simCommand_svc:
  "map_of (fst (simCommand c s)) n =
     (if c = ''monitor '' @ n \<and> map_of s n = None then Some True
      else if c = ''start '' @ n \<and> map_of s n \<noteq> None then Some True
      else if c = ''stop '' @ n \<and> map_of s n \<noteq> None then Some False
      else if c = ''forget '' @ n \<and> map_of s n = Some False then None
      else map_of s n)"
proof (cases c rule: simCommand_cases)
  case 1
  then show ?thesis by (simp add: simCommand_simps(1))
next
  case (2 m)
  then show ?thesis by (simp add: simCommand_simps(2)[unfolded append.simps])
next
  case (3 m)
  then show ?thesis unfolding 3 simCommand_simps by (simp add: map_add_def split: option.split)
next
  case (4 m)
  then show ?thesis unfolding 4 simCommand_simps by (simp add: update_conv')
next
  case (5 m)
  then show ?thesis unfolding 5 simCommand_simps by (simp add: update_conv')
next
  case (6 m)
  then show ?thesis unfolding 6 simCommand_simps by (auto simp: delete_conv' split: option.split)
next
  case (7 m)
  then show ?thesis unfolding 7 simCommand_simps by simp
next
  case 8
  then show ?thesis by simp
qed

lemma sim_svc_send: "map_of (sw_svcs (fst (zi_send sim_zinit (line c) w))) = map_of (fst (simCommand c (sw_svcs w)))"
  by (simp add: sim_defs line_def split: prod.splits)

lemma halted_sim: "halted (simSvc w n) \<longleftrightarrow> map_of (sw_svcs w) n \<noteq> Some True"
proof -
  have "Exited \<lparr>st_state = ''success'', st_reason = []\<rparr>" "\<not> (''Up'' = ServiceTargetDown)" "''Down'' = ServiceTargetDown"
    by (simp_all add: ServiceTargetDown_def Exited_def ServiceState_Any_def ServiceState_Is_def EqualFold_def service_state_defs)
  then show ?thesis by (auto simp: halted_def simSvc_def split: option.splits)
qed

lemma simRead_absent: "simRead p w = Err ErrNotExist \<Longrightarrow> simRead p (fst (simRemoveAll q w)) = Err ErrNotExist"
  by (auto simp: simRead_def simRemoveAll_def delete_conv' split: option.splits if_splits)

lemma sim_forget:
  assumes "Client_Forget sim_zinit n w = (w', r)" and "r = Ok () \<or> (\<exists>e. r = Err e \<and> err_is e ErrUnknownService)"
  shows "map_of (sw_svcs w') n = None"
proof -
  have w': "map_of (sw_svcs w') n = map_of (fst (simCommand (''forget '' @ n) (sw_svcs w))) n"
    using assms(1) command_worlds(3)[of sim_zinit n w] sim_svc_send[of "''forget '' @ n" w] by simp
  show ?thesis
  proof (cases "map_of (sw_svcs w) n = Some True")
    case True
    then have "r = Err (Errorf ''service is up'')" using assms(1)
      by (auto simp: Client_Forget_def Client_run_def Client_cmd_def sim_zinit_def simSend_def simCommand_def HasPrefix_def unknownService_def)
    then show ?thesis using assms(2) by simp
  next
    case False
    then have "map_of (sw_svcs w) n = None \<or> map_of (sw_svcs w) n = Some False" by (cases "map_of (sw_svcs w) n") auto
    then show ?thesis using w' by (auto simp: simCommand_svc)
  qed
qed

interpretation sim_zi: zinit_server sim_zinit simSvc
proof unfold_locales
  fix w w' :: SimW and s c p q and d :: int and st r and xs :: "string list"
  show "zi_now sim_zinit w \<le> zi_now sim_zinit (fst (zi_send sim_zinit c w))" by (simp add: sim_zinit_def simSend_def case_prod_beta)
  show "0 \<le> d \<Longrightarrow> zi_now sim_zinit w + d \<le> zi_now sim_zinit (zi_sleep sim_zinit d w)" by (simp add: sim_defs)
  show "Client_Status sim_zinit s w = (w', Ok st) \<Longrightarrow> simSvc w' s = Some (ss_State st, ss_Target st)"
    by (rule sim_status_svc)
  show "simSvc w s = None \<Longrightarrow> c \<noteq> ''monitor '' @ s \<Longrightarrow> simSvc (fst (zi_send sim_zinit (line c) w)) s = None"
    by (simp add: simSvc_def sim_svc_send simCommand_svc)
  show "halted (simSvc w s) \<Longrightarrow> c \<noteq> ''monitor '' @ s \<Longrightarrow> c \<noteq> ''start '' @ s \<Longrightarrow> halted (simSvc (fst (zi_send sim_zinit (line c) w)) s)"
    by (simp add: halted_sim sim_svc_send simCommand_svc)
  show "halted (simSvc w s) \<Longrightarrow> halted (simSvc (zi_sleep sim_zinit d w) s)" by (simp add: halted_sim sim_defs)
  show "Client_Forget sim_zinit s w = (w', r) \<Longrightarrow> r = Ok () \<or> (\<exists>e. r = Err e \<and> err_is e ErrUnknownService) \<Longrightarrow> simSvc w' s = None"
    using sim_forget by (simp add: simSvc_def)
  show "simSvc (fst (zi_RemoveAll sim_zinit p w)) = simSvc w" by (auto simp: simSvc_def sim_defs split: option.splits)
  show "zi_RemoveAll sim_zinit p w = (w', Ok ()) \<Longrightarrow> zi_ReadFile sim_zinit p w' = Err ErrNotExist"
    by (auto simp: sim_defs delete_conv' split: option.splits)
  show "zi_ReadFile sim_zinit p w = Err ErrNotExist \<Longrightarrow> zi_ReadFile sim_zinit p (fst (zi_RemoveAll sim_zinit q w)) = Err ErrNotExist"
    using simRead_absent by (simp add: sim_zinit_def)
  show "zi_ReadFile sim_zinit p (fst (zi_send sim_zinit c w)) = zi_ReadFile sim_zinit p w"
    by (simp add: sim_zinit_def simRead_send)
  show "set (zi_order sim_zinit xs) = set xs" by (simp add: sim_zinit_def)
qed

section \<open>The gateway's calls\<close>

text \<open>A text for the configurations that the gateway writes: the kind, the fields of the route and
  the servers, one per line. A configuration that has no such text is not written.\<close>

definition simEncode :: "ProxyConfig \<Rightarrow> bytes" where
  "simEncode c = (case (px_TCP c, px_Http c) of
     (Some h, None) \<Rightarrow> joinWith [CHR 0x0A] ([''tcp'', ro_Rule (snd (hd (hc_Routers h))), ro_Service (snd (hd (hc_Routers h)))]
       @ map sv_Address (lb_Servers (se_LoadBalancer (snd (hd (hc_Services h))))))
   | (None, Some h) \<Rightarrow> joinWith [CHR 0x0A] ([''http'', ro_Rule (snd (hd (hc_Routers h))), ro_Service (snd (hd (hc_Routers h)))]
       @ map sv_Url (lb_Servers (se_LoadBalancer (snd (hd (hc_Services h))))))
   | _ \<Rightarrow> [])"

definition simDecode :: "bytes \<Rightarrow> ProxyConfig result" where
  "simDecode b = (case splitOn CHR 0x0A b of
     kind # rule # service # servers \<Rightarrow>
       let tls = (if kind = ''tcp'' then \<lparr>tl_CertResolver = [], tl_Domains = [], tl_Passthrough = ''true''\<rparr>
             else \<lparr>tl_CertResolver = httpCertResolver, tl_Domains = [\<lparr>do_Sans = [], do_Main = drop 6 (take (length rule - 2) rule)\<rparr>], tl_Passthrough = []\<rparr>);
           h = \<lparr>hc_Routers = [(service @ ''-route'', \<lparr>ro_Rule = rule, ro_Service = service, ro_Tls = Some tls\<rparr>)],
             hc_Services = [(service, \<lparr>se_LoadBalancer = \<lparr>lb_Servers = map (serverOf (kind = ''tcp'')) servers\<rparr>\<rparr>)]\<rparr> in
       Ok (if kind = ''tcp'' then \<lparr>px_Http = None, px_TCP = Some h\<rparr> else \<lparr>px_Http = Some h, px_TCP = None\<rparr>)
   | _ \<Rightarrow> Err (Errorf ''not simulated''))"

definition simSplitHostPort :: "string \<Rightarrow> (string \<times> string) result" where
  "simSplitHostPort s = (case splitOn CHR '':'' s of [h, p] \<Rightarrow> Ok (h, p) | _ \<Rightarrow> Err (Errorf ''too many colons in address''))"

definition simParseIP :: "string \<Rightarrow> bytes" where
  "simParseIP s = (let ps = splitOn CHR ''.'' s in
     if length ps = 4 \<and> list_all (\<lambda>p. p \<noteq> [] \<and> list_all is_digit p \<and> undec p < 256) ps
     then replicate 10 (char_of (0 :: nat)) @ replicate 2 (char_of (255 :: nat)) @ map (\<lambda>p. char_of (undec p)) ps else [])"

definition sim_lib :: Lib where
  "sim_lib = \<lparr>lib_unmarshal = (\<lambda>_ _. Err (Errorf ''not simulated'')), lib_unmarshalZMachine = (\<lambda>_. Err (Errorf ''not simulated'')),
     lib_urlParse = (\<lambda>_. Err (Errorf ''not simulated'')), lib_splitHostPort = simSplitHostPort, lib_parseIP = simParseIP, lib_md5 = (\<lambda>b. b),
     lib_ed25519Verify = (\<lambda>_ _ _. False), lib_srKeyDecode = (\<lambda>_. Ok ()), lib_srSigDecode = (\<lambda>_. Ok ()), lib_srVerify = (\<lambda>_ _ _. Ok False)\<rparr>"

definition simNothing :: "SimW \<Rightarrow> SimW \<times> unit result" where
  "simNothing w = (w, Ok ())"

definition sim_gw :: "SimW GwEnv" where
  "sim_gw = \<lparr>ge_zinit = sim_zinit, ge_lib = sim_lib, ge_ReadDir = simReadDir, ge_Remove = simRemove,
     ge_Open = (\<lambda>p w. rmap (\<lambda>_. ()) (simRead p w)), ge_Create = (\<lambda>p. simWrite p []),
     ge_Copy = (\<lambda>dst src w. case simRead src w of Inl e \<Rightarrow> (w, Err e) | Inr b \<Rightarrow> simWrite dst b w),
     ge_Mkdir = (\<lambda>_ w. (w, Err ErrExist)), ge_MkdirAll = (\<lambda>_. simNothing), ge_MountTmpfs = (\<lambda>_ _. simNothing), ge_Symlink = simSymlink,
     ge_marshal = (\<lambda>c. if simDecode (simEncode c) = Ok c then Ok (simEncode c) else Err (Errorf ''not simulated'')), ge_unmarshal = simDecode,
     ge_unmarshalName = (\<lambda>_. Err (Errorf ''not simulated'')), ge_unmarshalFQDN = (\<lambda>_. Err (Errorf ''not simulated'')), ge_base58 = (\<lambda>b. b),
     ge_GetPublicConfig = (\<lambda>_. Ok \<lparr>pc_IPv4 = simParseIP ''185.1.1.1'', pc_IPv6 = [], pc_Domain = ''gent01.grid.tf''\<rparr>),
     ge_GetNet = (\<lambda>_ _. Ok ()), ge_Namespace = (\<lambda>n _. ''n-'' @ n), ge_HubURL = ''https://hub.grid.tf'',
     ge_JoinPath = (\<lambda>u ps. Ok (joinWith ''/'' (u # ps))), ge_FlistHash = (\<lambda>_ _. Ok ''abc''),
     ge_FlistMount = (\<lambda>n _ w. (w, Ok (traefikRoot @ n))), ge_FlistUnmount = (\<lambda>_. simNothing),
     ge_ContractByName = (\<lambda>_ _. (7, \<lparr>su_Err = None, su_Code = 0\<rparr>)),
     ge_GetContract = (\<lambda>_ _. (\<lparr>cn_IsCreated = True, cn_IsGracePeriod = False, cn_TwinID = 7\<rparr>, \<lparr>su_Err = None, su_Code = 0\<rparr>)),
     ge_DecommissionCached = (\<lambda>_ _. simNothing), ge_LookupHost = (\<lambda>_ _. Ok [''185.1.1.1'']),
     ge_Intn = (\<lambda>n w. (w\<lparr>sw_draw := sw_draw w + 1\<rparr>, sw_draw w mod n)),
     ge_staticText = (\<lambda>root email volatile. root @ email @ volatile), ge_certText = (\<lambda>root. root), ge_dnsmasqText = [],
     ge_domainOrder = (\<lambda>_. [])\<rparr>"

lemma simDir_abspath: "abspath (simVol @ [configDir]) = simDir" "proxyFile simVol n = simDir @ ''/'' @ n"
  by (simp_all add: abspath_def simVol_def configDir_def simDir_def proxyFile_def slash_def)

lemma proxyName_file: "element n \<Longrightarrow> proxyName (proxyFile simVol n) = Some n"
  by (simp add: proxyName_def simDir_abspath HasPrefix_def)

lemma proxyName_None: "(\<And>n. element n \<Longrightarrow> p \<noteq> proxyFile simVol n) \<Longrightarrow> proxyName p = None"
  unfolding proxyName_def simDir_abspath HasPrefix_iff by force

lemma sim_gw_sel:
  "ge_zinit sim_gw = sim_zinit" "ge_lib sim_gw = sim_lib" "ge_ReadDir sim_gw = simReadDir" "ge_Remove sim_gw = simRemove"
  "ge_Symlink sim_gw = simSymlink" "ge_unmarshal sim_gw = simDecode"
  by (simp_all add: sim_gw_def)

lemma sim_zinit_sel:
  "zi_ReadFile sim_zinit = simRead" "zi_WriteFile sim_zinit = simWrite" "zi_RemoveAll sim_zinit = simRemoveAll" "zi_send sim_zinit = simSend"
  by (simp_all add: sim_zinit_def)

interpretation sim_px: proxy_files sim_gw "\<lambda>w. map_of (sw_proxy w)" simVol
proof unfold_locales
  fix w w' :: SimW and n b r p q c d cmd mnt k i m
  show "\<forall>p \<in> set simVol. element p" "simVol \<noteq> []" by (simp_all add: simVol_def element_def slash_def)
  show "element n \<Longrightarrow> zi_ReadFile (ge_zinit sim_gw) (proxyFile simVol n) w = (case map_of (sw_proxy w) n of None \<Rightarrow> Err ErrNotExist | Some b \<Rightarrow> Ok b)"
    by (simp add: sim_gw_sel sim_zinit_sel simRead_def proxyName_file)
  show "element n \<Longrightarrow> zi_WriteFile (ge_zinit sim_gw) (proxyFile simVol n) b w = (w', Ok ()) \<Longrightarrow> map_of (sw_proxy w') = (map_of (sw_proxy w))(n \<mapsto> b)"
    by (auto simp: sim_gw_sel sim_zinit_sel simWrite_def proxyName_file update_conv')
  show "element n \<Longrightarrow> ge_Remove sim_gw (proxyFile simVol n) w = (w', r) \<Longrightarrow> (case r of Inr _ \<Rightarrow> map_of (sw_proxy w') = (map_of (sw_proxy w))(n := None)
      | Inl e \<Rightarrow> map_of (sw_proxy w') = map_of (sw_proxy w) \<and> (e = ErrNotExist \<longrightarrow> map_of (sw_proxy w) n = None))"
    by (auto simp: sim_gw_sel simRemove_def simRemoveAll_def simRead_def proxyName_file delete_conv' split: option.splits if_splits)
  show "\<exists>es. ge_ReadDir sim_gw (abspath (simVol @ [configDir])) w = Ok es \<and> (\<forall>n. (n, False) \<in> set es \<longleftrightarrow> element n \<and> map_of (sw_proxy w) n \<noteq> None)"
    by (auto simp: sim_gw_sel simReadDir_def simDir_abspath map_of_eq_None_iff image_iff)
  show "ge_marshal sim_gw c = Ok b \<Longrightarrow> ge_unmarshal sim_gw b = Ok c" by (simp add: sim_gw_def split: if_splits)
  show "(\<And>n. element n \<Longrightarrow> p \<noteq> proxyFile simVol n) \<Longrightarrow>
      map_of (sw_proxy (fst (zi_WriteFile (ge_zinit sim_gw) p b w))) = map_of (sw_proxy w) \<and>
      map_of (sw_proxy (fst (zi_RemoveAll (ge_zinit sim_gw) p w))) = map_of (sw_proxy w) \<and>
      map_of (sw_proxy (fst (ge_Remove sim_gw p w))) = map_of (sw_proxy w) \<and> map_of (sw_proxy (fst (ge_Symlink sim_gw q p w))) = map_of (sw_proxy w)"
    using proxyName_None[of p]
    by (auto simp: sim_gw_sel sim_zinit_sel simWrite_def simRemoveAll_def simRemove_def simSymlink_def split: option.splits)
  show "map_of (sw_proxy (fst (zi_send (ge_zinit sim_gw) cmd w))) = map_of (sw_proxy w)"
    by (simp add: sim_gw_sel sim_zinit_sel simSend_def case_prod_beta)
  show "map_of (sw_proxy (zi_sleep (ge_zinit sim_gw) d w)) = map_of (sw_proxy w)" by (simp add: sim_gw_sel sim_zinit_def simSleep_def)
qed (simp_all add: sim_gw_def simNothing_def)

interpretation sim_fw: forwarders sim_gw "\<lambda>w n. map_of (sw_svcs w) n \<noteq> None"
proof unfold_locales
  fix w w' :: SimW and p c b l s ws port n e
  show "zi_ReadFile (ge_zinit sim_gw) p (fst (zi_send (ge_zinit sim_gw) c w)) = zi_ReadFile (ge_zinit sim_gw) p w"
    by (simp add: sim_gw_sel sim_zinit_sel simRead_send)
  show "zi_WriteFile (ge_zinit sim_gw) p b w = (w', Ok ()) \<Longrightarrow> zi_ReadFile (ge_zinit sim_gw) p w' = Ok b"
    by (auto simp: sim_gw_sel sim_zinit_sel simWrite_def simRead_def update_conv' split: option.splits)
  show "ge_Symlink sim_gw p l w = (w', Ok ()) \<Longrightarrow> zi_ReadFile (ge_zinit sim_gw) l w' = zi_ReadFile (ge_zinit sim_gw) p w"
    by (auto simp: sim_gw_sel sim_zinit_sel simSymlink_def simRead_def split: if_splits)
  show "zi_yamlMarshal (ge_zinit sim_gw) s = Ok b \<Longrightarrow> zi_yamlDecode (ge_zinit sim_gw) b = Ok s"
    by (auto simp: sim_gw_sel sim_zinit_def split: if_splits)
  show "list_all plainWord ws \<Longrightarrow> zi_shlex (ge_zinit sim_gw) (joinWith '' '' ws) = Ok ws"
  proof (cases "ws = []")
    case False
    assume ws: "list_all plainWord ws"
    have "CHR '' '' \<notin> set x \<and> x \<noteq> []" if "plainWord x" for x
    proof -
      have "is_space CHR '' ''" by (simp add: is_space_def)
      then show ?thesis using that unfolding plainWord_def list_all_iff by blast
    qed
    with ws have "\<forall>x \<in> set ws. CHR '' '' \<notin> set x \<and> x \<noteq> []" by (simp add: list_all_iff)
    then show ?thesis using split_join[OF False, of "CHR '' ''"] by (simp add: sim_gw_sel sim_zinit_def filter_id_conv)
  qed (simp add: sim_gw_sel sim_zinit_def)
  have "CHR '':'' \<notin> set (dec k)" for k using dec_digits[of "CHR '':''" k] by (auto simp: is_digit_def)
  then show "lib_splitHostPort (ge_lib sim_gw) (localAddr port) = Ok (''127.0.0.1'', dec (unat port))"
    using split_join[of "[''127.0.0.1'', dec (unat port)]" "CHR '':''"]
    by (simp add: sim_gw_sel sim_lib_def simSplitHostPort_def localAddr_def)
  show "Client_Monitor (ge_zinit sim_gw) n w = (w', Ok ()) \<Longrightarrow> map_of (sw_svcs w') n \<noteq> None"
  proof -
    assume m: "Client_Monitor (ge_zinit sim_gw) n w = (w', Ok ())"
    have "map_of (sw_svcs w') = map_of (fst (simCommand (''monitor '' @ n) (sw_svcs w)))"
      using m monitor_world[of sim_zinit n w] sim_svc_send[of "''monitor '' @ n" w] by (simp add: sim_gw_sel)
    then show ?thesis by (auto simp: simCommand_svc)
  qed
  show "map_of (sw_svcs w) n \<noteq> None \<Longrightarrow> Client_Status (ge_zinit sim_gw) n w = (w', Err e) \<Longrightarrow> \<not> err_is e ErrUnknownService"
    unfolding sim_gw_sel sim_status by (auto split: option.splits)
qed

end
