(* ===== verification/GatewayProps.thy ===== *)
theory GatewayProps
  imports GatewaySim
begin

text \<open>
  Properties of the gateway and of the zinit client: who may have a domain, that the reserved
  domains are those of the configuration files, what happens to the backends of a proxy in a
  private network, and that waiting for services ends.
\<close>

section \<open>Proxies that are set\<close>

lemma setupRouting_Ok:
  assumes "setupRouting E g wlID fqdn tls config ips w = Some (w', Ok g')"
  shows "gm_reservedDomains g fqdn = None \<and> g' = setReservedDomain fqdn wlID g \<and>
    ValidateBackends (ge_lib E) (gw_Backends config) (gw_TLSPassthrough config) ips = Ok ()"
  using assms
  by (auto simp: setupRouting_def setupRoutingGeneric_def ibind_Ok_iff Let_def split: if_splits option.splits)

lemma validateNameContract_Ok:
  assumes "validateNameContract E name twin w = Ok ()"
    and "\<And>n w. SubstrateError_IsError (snd (ge_ContractByName E n w)) \<Longrightarrow> su_Err (snd (ge_ContractByName E n w)) \<noteq> None"
    and "\<And>i w. SubstrateError_IsError (snd (ge_GetContract E i w)) \<Longrightarrow> su_Err (snd (ge_GetContract E i w)) \<noteq> None"
  shows "\<exists>i c. ge_ContractByName E name w = (i, c) \<and> \<not> SubstrateError_IsError c \<and>
    (\<exists>contract e. ge_GetContract E i w = (contract, e) \<and> \<not> SubstrateError_IsError e \<and>
      (cn_IsCreated contract \<or> cn_IsGracePeriod contract) \<and> cn_TwinID contract = twin)"
proof -
  obtain i c where c: "ge_ContractByName E name w = (i, c)" by fastforce
  obtain contract e where g: "ge_GetContract E i w = (contract, e)" by fastforce
  show ?thesis using assms(1) assms(2)[of name w] assms(3)[of i w] c g
    by (auto simp: validateNameContract_def subErrOf_def split: if_splits option.splits)
qed

definition sample_gw :: gatewayModule where
  "sample_gw = \<lparr>gm_volatile = ''/var/run/cache/gateway'', gm_reservedDomains = Map.empty, gm_staticConfigPath = ''/root/traefik.yaml'',
     gm_binPath = traefikRoot @ ''traefik:abc/traefik'', gm_certScriptPath = ''/root/cert.sh''\<rparr>"

definition sample_sim :: SimW where
  "sample_sim = \<lparr>sw_proxy = [], sw_files = [''/etc/zinit/traefik.yaml'' \<mapsto>
       ''ip netns exec public '' @ gm_binPath sample_gw @ '' --configfile /root/traefik.yaml''],
     sw_links = Map.empty, sw_svcs = [(''traefik'', True)], sw_clock = 0, sw_draw = 5\<rparr>"

definition sample_base :: GatewayBase where
  "sample_base = \<lparr>gw_TLSPassthrough = True, gw_Backends = [''10.1.2.3:443''], gw_Network = None\<rparr>"

text \<open>C10: a name on the domain of the node goes only to the twin that has reserved it. When
  \<open>SetNamedProxy\<close> succeeds, the name is registered with a contract that is created or in its grace
  period and belongs to the twin of the workload; the domain was free and is reserved for the
  workload, no other reservation changes, and no backend is an address of the node itself.\<close>

theorem named_proxy_authorized:
  assumes "SetNamedProxy E g wlID config w = Some (w', Ok (g', fqdn))"
    and "\<And>n w. SubstrateError_IsError (snd (ge_ContractByName E n w)) \<Longrightarrow> su_Err (snd (ge_ContractByName E n w)) \<noteq> None"
    and "\<And>i w. SubstrateError_IsError (snd (ge_GetContract E i w)) \<Longrightarrow> su_Err (snd (ge_GetContract E i w)) \<noteq> None"
  shows "\<exists>twin dl name cfg w1 i c contract e. WorkloadID_Parts wlID = Ok (twin, dl, name) \<and> ensureGateway E g False w = Some (w1, Ok cfg) \<and>
    pc_Domain cfg \<noteq> [] \<and> fqdn = gn_Name config @ ''.'' @ pc_Domain cfg \<and>
    ge_ContractByName E (gn_Name config) w1 = (i, c) \<and> \<not> SubstrateError_IsError c \<and>
    ge_GetContract E i w1 = (contract, e) \<and> \<not> SubstrateError_IsError e \<and>
    (cn_IsCreated contract \<or> cn_IsGracePeriod contract) \<and> cn_TwinID contract = twin \<and>
    gm_reservedDomains g fqdn = None \<and> gm_reservedDomains g' = (gm_reservedDomains g)(fqdn \<mapsto> wlID) \<and>
    ValidateBackends (ge_lib E) (gw_Backends (gn_Base config)) (gw_TLSPassthrough (gn_Base config)) [pc_IPv4 cfg, pc_IPv6 cfg] = Ok ()"
proof -
  obtain twin dl name cfg w1 tls where parts: "WorkloadID_Parts wlID = Ok (twin, dl, name)" and gw: "ensureGateway E g False w = Some (w1, Ok cfg)"
    and dom: "pc_Domain cfg \<noteq> []" and contract: "validateNameContract E (gn_Name config) twin w1 = Ok ()"
    and set: "setupRouting E g wlID fqdn tls (gn_Base config) [pc_IPv4 cfg, pc_IPv6 cfg] w1 = Some (w', Ok g')"
    and fqdn: "fqdn = gn_Name config @ ''.'' @ pc_Domain cfg"
    using assms(1) unfolding SetNamedProxy_def Let_def
    by (force simp: ibind_Ok_iff split: if_splits prod.splits)
  from validateNameContract_Ok[OF contract assms(2,3)] setupRouting_Ok[OF set] parts gw dom fqdn show ?thesis
    by (auto simp: setReservedDomain_def)
qed

theorem named_proxy_authorized_witness:
  "\<exists>w' g'. SetNamedProxy sim_gw sample_gw ''7-9-www'' \<lparr>gn_Base = sample_base, gn_Name = ''www''\<rparr> sample_sim = Some (w', Ok (g', ''www.gent01.grid.tf'')) \<and>
     gm_reservedDomains g' = [''www.gent01.grid.tf'' \<mapsto> ''7-9-www'']"
proof -
  let ?c = "\<lparr>gn_Base = sample_base, gn_Name = ''www''\<rparr> :: GatewayNameProxy"
  have "map_option (\<lambda>(w, r). rmap snd r) (SetNamedProxy sim_gw sample_gw ''7-9-www'' ?c sample_sim) = Some (Ok ''www.gent01.grid.tf'')" by code_simp
  then obtain w' g' where run: "SetNamedProxy sim_gw sample_gw ''7-9-www'' ?c sample_sim = Some (w', Ok (g', ''www.gent01.grid.tf''))"
    by (auto simp: rmap_Ok_iff)
  have "gm_reservedDomains g' = (gm_reservedDomains sample_gw)(''www.gent01.grid.tf'' \<mapsto> ''7-9-www'')"
    using named_proxy_authorized[OF run] by (auto simp: sim_gw_def SubstrateError_IsError_def CodeNoError_def)
  then show ?thesis using run by (simp add: sample_gw_def)
qed

text \<open>C12: a domain of a user's own is checked before it is served. When \<open>SetFQDNProxy\<close> succeeds,
  the domain does not end in the domain of the node, it resolves to an address of the node, it was free
  and is reserved for the workload, no other reservation changes, and no backend is an address of
  the node itself.\<close>

theorem fqdn_proxy_checked:
  assumes "SetFQDNProxy E g wlID config w = Some (w', Ok g')"
  shows "\<exists>cfg w1 ips. ensureGateway E g False w = Some (w1, Ok cfg) \<and>
    (pc_Domain cfg = [] \<or> \<not> HasSuffix (gf_FQDN config) (pc_Domain cfg)) \<and>
    ge_LookupHost E (gf_FQDN config) w1 = Ok ips \<and> (\<exists>ip \<in> set ips. ip = IP_String (pc_IPv4 cfg) \<or> ip = IP_String (pc_IPv6 cfg)) \<and>
    gm_reservedDomains g (gf_FQDN config) = None \<and> gm_reservedDomains g' = (gm_reservedDomains g)(gf_FQDN config \<mapsto> wlID) \<and>
    ValidateBackends (ge_lib E) (gw_Backends (gf_Base config)) (gw_TLSPassthrough (gf_Base config)) [pc_IPv4 cfg, pc_IPv6 cfg] = Ok ()"
proof -
  obtain cfg w1 tls where gw: "ensureGateway E g False w = Some (w1, Ok cfg)" and dom: "pc_Domain cfg = [] \<or> \<not> HasSuffix (gf_FQDN config) (pc_Domain cfg)"
    and dns: "verifyDomainDestination E cfg (gf_FQDN config) w1 = Ok ()"
    and set: "setupRouting E g wlID (gf_FQDN config) tls (gf_Base config) [pc_IPv4 cfg, pc_IPv6 cfg] w1 = Some (w', Ok g')"
    using assms unfolding SetFQDNProxy_def Let_def by (force simp: ibind_Ok_iff split: if_splits)
  from dns obtain ips where "ge_LookupHost E (gf_FQDN config) w1 = Ok ips" "\<exists>ip \<in> set ips. ip = IP_String (pc_IPv4 cfg) \<or> ip = IP_String (pc_IPv6 cfg)"
    by (auto simp: verifyDomainDestination_def rbind_Ok_iff list_ex_iff split: if_splits)
  with setupRouting_Ok[OF set] gw dom show ?thesis by (auto simp: setReservedDomain_def)
qed

definition sample_fqdn :: GatewayFQDNProxy where
  "sample_fqdn = \<lparr>gf_Base = sample_base, gf_FQDN = ''example.com''\<rparr>"

lemma sample_fqdn_run:
  "\<exists>w' g'. SetFQDNProxy sim_gw sample_gw ''7-9-www'' sample_fqdn sample_sim = Some (w', Ok g')"
proof -
  have "map_option (\<lambda>(w, r). is_ok r) (SetFQDNProxy sim_gw sample_gw ''7-9-www'' sample_fqdn sample_sim) = Some True" by code_simp
  then show ?thesis by (auto simp: is_ok_iff)
qed

theorem fqdn_proxy_checked_witness:
  "\<exists>w' g'. SetFQDNProxy sim_gw sample_gw ''7-9-www'' sample_fqdn sample_sim = Some (w', Ok g') \<and>
     gm_reservedDomains g' = [''example.com'' \<mapsto> ''7-9-www'']"
proof -
  obtain w' g' where run: "SetFQDNProxy sim_gw sample_gw ''7-9-www'' sample_fqdn sample_sim = Some (w', Ok g')" using sample_fqdn_run by blast
  from fqdn_proxy_checked[OF run] have "gm_reservedDomains g' = [''example.com'' \<mapsto> ''7-9-www'']" by (auto simp: sample_gw_def sample_fqdn_def)
  with run show ?thesis by blast
qed

section \<open>Restart\<close>

text \<open>C9: a restart of the gateway finds the reserved domains. From a fresh volatile directory, whatever
  proxies are set, refused and deleted and whatever names are validated, loading the
  configuration files gives exactly the domains that are reserved, each for the same workload, and
  no workload has two. (A workload is set once until it is deleted, identifiers have no slash, domains are not
  empty and have no backquote, and a failed write of a configuration file is not among the
  steps: it may leave half a file.)\<close>

theorem reserved_domains_survive_restart:
  assumes "proxy_files E files vs" and "gm_volatile g0 = abspath vs" and "gm_reservedDomains g0 = Map.empty" and "files w0 = Map.empty"
    and "rtranclp (gw_step E) (g0, w0) (g, w)"
  shows "loadDomains E (Join [gm_volatile g, configDir]) w = Ok (gm_reservedDomains g) \<and>
    inj_on (gm_reservedDomains g) (dom (gm_reservedDomains g))"
proof -
  have "proxy_files.synced E vs g w"
    using proxy_files.steps_synced[OF assms(1,5)] proxy_files.synced_boot[OF assms(1-4)] by simp
  then show ?thesis using proxy_files.synced_load[OF assms(1)] proxy_files.synced_inj[OF assms(1)] by blast
qed

lemma sample_steps:
  "\<exists>w' g'. gw_step sim_gw (sample_gw, sample_sim) (g', w') \<and> gm_volatile g' = gm_volatile sample_gw \<and>
     gm_reservedDomains g' = [''example.com'' \<mapsto> ''7-9-www'']"
proof -
  obtain w' g' where run: "SetFQDNProxy sim_gw sample_gw ''7-9-www'' sample_fqdn sample_sim = Some (w', Ok g')" using sample_fqdn_run by blast
  have "accepted sample_gw ''7-9-www'' (gf_FQDN sample_fqdn)"
    by (simp add: accepted_def sample_gw_def sample_fqdn_def slash_def backquote_def)
  from gw_step.fqdn[OF run this] have step: "gw_step sim_gw (sample_gw, sample_sim) (g', w')" .
  have "g' = setReservedDomain ''example.com'' ''7-9-www'' sample_gw"
    using run setupRouting_Ok unfolding SetFQDNProxy_def Let_def
    by (force simp: ibind_Ok_iff sample_fqdn_def split: if_splits)
  then have "gm_volatile g' = gm_volatile sample_gw" "gm_reservedDomains g' = [''example.com'' \<mapsto> ''7-9-www'']"
    by (simp_all add: setReservedDomain_def sample_gw_def)
  then show ?thesis using step by blast
qed

theorem reserved_domains_survive_restart_witness:
  "\<exists>w' g'. gw_step sim_gw (sample_gw, sample_sim) (g', w') \<and>
     loadDomains sim_gw (Join [''/var/run/cache/gateway'', configDir]) w' = Ok [''example.com'' \<mapsto> ''7-9-www'']"
proof -
  obtain w' g' where step: "gw_step sim_gw (sample_gw, sample_sim) (g', w')" "gm_volatile g' = gm_volatile sample_gw"
    "gm_reservedDomains g' = [''example.com'' \<mapsto> ''7-9-www'']" using sample_steps by blast
  have vol: "gm_volatile sample_gw = abspath simVol" by (simp add: sample_gw_def simVol_def abspath_def slash_def)
  from reserved_domains_survive_restart[OF sim_px.proxy_files_axioms vol _ _ r_into_rtranclp[of "gw_step sim_gw", OF step(1)]] step
  show ?thesis by (auto simp: sample_gw_def sample_sim_def)
qed

text \<open>C13: deleting a proxy frees its domain and nothing else, for a workload that was set once. The gateway
  starts with a fresh volatile directory and no reserved domain; proxies are set, refused and
  deleted and names validated in any order, where a workload is set once until it is deleted,
  identifiers have no slash, domains are not empty and have no backquote, and no configuration file is left half written. Then,
  after \<open>DeleteNamedProxy\<close> without an error, no domain is reserved for the workload, every domain of another
  workload still is, and the workload has no configuration file, so that a restart does not find the domain
  either. (Of a workload that is set again with another domain only the last domain is freed.)\<close>

theorem proxy_delete_frees:
  assumes "proxy_files E files vs" and "gm_volatile g0 = abspath vs" and "gm_reservedDomains g0 = Map.empty" and "files w0 = Map.empty"
    and "rtranclp (gw_step E) (g0, w0) (g, w)" and "slash \<notin> set wlID" and "DeleteNamedProxy E g wlID w = Some (w', Ok g')"
  shows "(\<forall>d. gm_reservedDomains g' d = (if gm_reservedDomains g d = Some wlID then None else gm_reservedDomains g d)) \<and>
    files w' (wlID @ ''.yaml'') = None \<and> loadDomains E (Join [gm_volatile g', configDir]) w' = Ok (gm_reservedDomains g')"
proof -
  have "proxy_files.synced E vs g w"
    using proxy_files.steps_synced[OF assms(1,5)] proxy_files.synced_boot[OF assms(1-4)] by simp
  from proxy_files.DeleteNamedProxy_files[OF assms(1) this assms(7,6)] show ?thesis
    using proxy_files.synced_load[OF assms(1)] by simp
qed

declare startLoop.simps [code] stopWaitLoop.simps [code] startManyLoop.simps [code] stopManyLoop.simps [code] freePortLoop.simps [code]

theorem proxy_delete_frees_witness:
  "\<exists>w g w' g'. gw_step sim_gw (sample_gw, sample_sim) (g, w) \<and> gm_reservedDomains g = [''example.com'' \<mapsto> ''7-9-www''] \<and>
     DeleteNamedProxy sim_gw g ''7-9-www'' w = Some (w', Ok g') \<and> gm_reservedDomains g' = Map.empty"
proof -
  have two: "map_option (\<lambda>(w, r). case r of Inl _ \<Rightarrow> False | Inr g \<Rightarrow> (case DeleteNamedProxy sim_gw g ''7-9-www'' w of Some (_, q) \<Rightarrow> is_ok q | None \<Rightarrow> False))
      (SetFQDNProxy sim_gw sample_gw ''7-9-www'' sample_fqdn sample_sim) = Some True" by code_simp
  obtain w g where run: "SetFQDNProxy sim_gw sample_gw ''7-9-www'' sample_fqdn sample_sim = Some (w, Ok g)" using sample_fqdn_run by blast
  obtain w' g' where del: "DeleteNamedProxy sim_gw g ''7-9-www'' w = Some (w', Ok g')"
    using two run by (auto simp: is_ok_iff split: option.splits)
  have acc: "accepted sample_gw ''7-9-www'' (gf_FQDN sample_fqdn)"
    by (simp add: accepted_def sample_gw_def sample_fqdn_def slash_def backquote_def)
  have vol: "gm_volatile sample_gw = abspath simVol" by (simp add: sample_gw_def simVol_def abspath_def slash_def)
  have g: "gm_reservedDomains g = [''example.com'' \<mapsto> ''7-9-www'']"
    using run setupRouting_Ok unfolding SetFQDNProxy_def Let_def
    by (force simp: ibind_Ok_iff sample_fqdn_def setReservedDomain_def sample_gw_def split: if_splits)
  have "gm_reservedDomains g' d = None" for d
    using proxy_delete_frees[OF sim_px.proxy_files_axioms vol _ _ r_into_rtranclp[of "gw_step sim_gw", OF gw_step.fqdn[OF run acc]] _ del] g
    by (auto simp: sample_gw_def sample_sim_def slash_def)
  then have "gm_reservedDomains g' = Map.empty" by blast
  with gw_step.fqdn[OF run acc] g del show ?thesis by blast
qed

section \<open>Private networks\<close>

text \<open>C37: the backends of a proxy in a private network all become one. \<open>setupRouting\<close> makes one
  forwarder per backend, but all of them are the same service of zinit: every call destroys the forwarder of the
  call before and takes its port over. The configuration of traefik names one local address as
  often as there are backends, and what listens there forwards to the last backend only.\<close>

theorem private_backends_share_forwarder:
  assumes "forwarders E known" and "setupRouting E g wlID fqdn tls config ips w = Some (w', Ok g')" and "gw_Network config = Some network"
    and "slash \<notin> set wlID" and "gw_Backends config \<noteq> []" and "WorkloadID_Parts wlID = Ok (twin, dl, name)" and "ns = ge_Namespace E (NetworkID (lib_md5 (ge_lib E)) (ge_base58 E) twin network) w"
    and "plainWord (Join [''/var/run/netns/'', ns])"
    and "\<forall>b \<in> set (gw_Backends config). \<forall>t. Backend_AsAddress (ge_lib E) b = Ok t \<longrightarrow> plainWord t"
  shows "\<exists>port t w1 address yaml. address = (if gw_TLSPassthrough config then localAddr port else ''http://'' @ localAddr port) \<and>
    ge_marshal E (proxyConfigOf wlID fqdn tls (config\<lparr>gw_Backends := replicate (length (gw_Backends config)) address\<rparr>)) = Ok yaml \<and>
    zi_WriteFile (ge_zinit E) (configPath g wlID) yaml w1 = (w', Ok ()) \<and>
    Backend_AsAddress (ge_lib E) (last (gw_Backends config)) = Ok t \<and>
    rbind (zi_ReadFile (ge_zinit E) (linkPath (nncName wlID)) w1) (zi_yamlDecode (ge_zinit E)) =
      Ok (noInitService\<lparr>is_Exec := nncExec (localAddr port) ns t\<rparr>)"
proof -
  obtain processed w1 where ps: "processBackends E g wlID ns (gw_TLSPassthrough config) (gw_Backends config) w = Some (w1, Ok processed)"
    and gen: "setupRoutingGeneric E g wlID fqdn tls (config\<lparr>gw_Backends := processed\<rparr>) w1 = Some (w', Ok g')"
    using assms(2,3,6,7) unfolding setupRouting_def Let_def by (force simp: ibind_Ok_iff split: if_splits)
  from forwarders.private_backends[OF assms(1) ps assms(4,8,9,5)] obtain port t where
    "processed = replicate (length (gw_Backends config)) (if gw_TLSPassthrough config then localAddr port else ''http://'' @ localAddr port)"
    "Backend_AsAddress (ge_lib E) (last (gw_Backends config)) = Ok t" "forwarders.forwarding E known w1 wlID port ns t" by blast
  then show ?thesis using gen unfolding setupRoutingGeneric_def forwarders.forwarding_def[OF assms(1)]
    by (auto simp: ibind_Ok_iff intro!: exI)
qed

definition sample_private :: GatewayBase where
  "sample_private = \<lparr>gw_TLSPassthrough = True, gw_Backends = [''10.1.2.3:80'', ''10.1.2.4:80''], gw_Network = Some ''n''\<rparr>"

definition sample_tls :: TlsConfig where
  "sample_tls = \<lparr>tl_CertResolver = [], tl_Domains = [], tl_Passthrough = []\<rparr>"

theorem private_backends_share_forwarder_witness:
  "\<exists>w' g' port w1 yaml. setupRouting sim_gw sample_gw ''7-9-w'' ''x.y'' sample_tls sample_private [] sample_sim = Some (w', Ok g') \<and>
     ge_marshal sim_gw (proxyConfigOf ''7-9-w'' ''x.y'' sample_tls (sample_private\<lparr>gw_Backends := [localAddr port, localAddr port]\<rparr>)) = Ok yaml \<and>
     simWrite (configPath sample_gw ''7-9-w'') yaml w1 = (w', Ok ()) \<and>
     simRead (linkPath ''nnc-7-9-w'') w1 = Ok (nncExec (localAddr port) ''n-7:n'' ''10.1.2.4:80'')"
proof -
  let ?run = "setupRouting sim_gw sample_gw ''7-9-w'' ''x.y'' sample_tls sample_private [] sample_sim"
  have "map_option (\<lambda>(w, r). is_ok r) ?run = Some True" by code_simp
  then obtain w' g' where run: "?run = Some (w', Ok g')" by (auto simp: is_ok_iff)
  have net: "gw_Network sample_private = Some ''n''" "gw_Backends sample_private \<noteq> []" by (simp_all add: sample_private_def)
  have sl: "slash \<notin> set ''7-9-w''" by (simp add: slash_def)
  have parts: "WorkloadID_Parts ''7-9-w'' = Ok (7, 9, ''w'')" by code_simp
  have ns: "''n-7:n'' = ge_Namespace sim_gw (NetworkID (lib_md5 (ge_lib sim_gw)) (ge_base58 sim_gw) 7 ''n'') sample_sim" by code_simp
  have plain: "plainWord (Join [''/var/run/netns/'', ''n-7:n''])" by code_simp
  have adr: "Backend_AsAddress (ge_lib sim_gw) ''10.1.2.3:80'' = Ok ''10.1.2.3:80''" "Backend_AsAddress (ge_lib sim_gw) ''10.1.2.4:80'' = Ok ''10.1.2.4:80''" by code_simp+
  have "plainWord ''10.1.2.3:80''" "plainWord ''10.1.2.4:80''" by code_simp+
  then have targets: "\<forall>b \<in> set (gw_Backends sample_private). \<forall>t. Backend_AsAddress (ge_lib sim_gw) b = Ok t \<longrightarrow> plainWord t"
    using adr by (simp add: sample_private_def)
  have decode: "zi_yamlDecode sim_zinit b = Ok (noInitService\<lparr>is_Exec := x\<rparr>) \<Longrightarrow> b = x" for b x by (simp add: sim_zinit_def noInitService_def)
  from private_backends_share_forwarder[OF sim_fw.forwarders_axioms run net(1) sl net(2) parts ns plain targets] run adr(2)
  show ?thesis
    by (auto simp: sim_gw_sel sim_zinit_sel rbind_Ok_iff nncName_def nncServicePrefix_def sample_private_def numeral_2_eq_2 dest!: decode)
qed

lemma freePortLoop_port:
  assumes "freePortLoop E current w = Some y" and "\<And>n w. 0 < n \<Longrightarrow> 0 \<le> snd (ge_Intn E n w) \<and> snd (ge_Intn E n w) < n"
  shows "\<exists>port. snd y = Ok port \<and> current port = None \<and> 2000 \<le> uint port \<and> uint port < 65535"
proof -
  from assms(1) have "E = E \<longrightarrow> (\<exists>port. snd y = Ok port \<and> current port = None \<and> 2000 \<le> uint port \<and> uint port < 65535)"
  proof (rule freePortLoop.raw_induct[where P = "\<lambda>E' c w y. E' = E \<longrightarrow> (\<exists>port. snd y = Ok port \<and> c port = None \<and> 2000 \<le> uint port \<and> uint port < 65535)",
      rotated], goal_cases)
    case (1 loop E' c w y)
    show ?case
    proof
      assume E: "E' = E"
      obtain w1 n where d: "ge_Intn E (65535 - nncStartPort) w = (w1, n)" by fastforce
      let ?port = "word_of_int (n + nncStartPort) :: u16"
      have n: "0 \<le> n" "n < 63535" using assms(2)[of "65535 - nncStartPort" w] d by (auto simp: nncStartPort_def)
      have "uint (word_of_int k :: u16) = k" if "0 \<le> k" "k < 65536" for k using that by (simp add: uint_word_of_int)
      from this[of "n + nncStartPort"] n have "uint ?port = n + 2000" by (simp add: nncStartPort_def)
      then show "\<exists>port. snd y = Ok port \<and> c port = None \<and> 2000 \<le> uint port \<and> uint port < 65535"
        using 1(2) 1(1)[of E c w1 y] d n unfolding E by (auto simp: Let_def split: if_splits)
    qed
  qed
  then show ?thesis by simp
qed

text \<open>A new forwarder listens on a port of its own, between 2000 and 65534: it is not the
  port of a forwarder that zinit lists, and the 16 bits of a port never wrap around.\<close>

lemma forwarder_port_free:
  assumes "nncFreePort E w = Some (w', Ok port)" and "\<And>n w. 0 < n \<Longrightarrow> 0 \<le> snd (ge_Intn E n w) \<and> snd (ge_Intn E n w) < n"
  shows "\<exists>w1 current. nncList E w = (w1, Ok current) \<and> current port = None \<and> 2000 \<le> uint port \<and> uint port < 65535"
proof -
  obtain w1 current where "nncList E w = (w1, Ok current)" and "freePortLoop E current w1 = Some (w', Ok port)"
    using assms(1) by (auto simp: nncFreePort_def ibind_Ok_iff)
  with freePortLoop_port[OF _ assms(2)] show ?thesis by fastforce
qed

lemma forwarder_port_free_witness:
  "\<exists>w' port. nncFreePort sim_gw sample_sim = Some (w', Ok port) \<and> uint port = 2005 \<and> uint port < 65535"
proof -
  have "map_option (\<lambda>(w, r). rmap uint r) (nncFreePort sim_gw sample_sim) = Some (Ok 2005)" by code_simp
  then obtain w' port where run: "nncFreePort sim_gw sample_sim = Some (w', Ok port)" and port: "uint port = 2005" by (auto simp: rmap_Ok_iff)
  have "0 < n \<Longrightarrow> 0 \<le> snd (ge_Intn sim_gw n w) \<and> snd (ge_Intn sim_gw n w) < n" for n w by (simp add: sim_gw_def)
  from forwarder_port_free[OF run this] run port show ?thesis by auto
qed

section \<open>Waiting for services\<close>

text \<open>C11: waiting for services ends. Whatever zinit answers, however the services behave and
  however long the commands take: starting and stopping one or more services, and destroying them,
  return, as soon as the clock does not run backwards and a sleep takes its time. (Services that do not
  stop are killed ten times before \<open>StopMultiple\<close> gives up.)\<close>

theorem zinit_waits_return:
  assumes "zinit_clock Z"
  shows "(\<exists>w' r. StartWait Z timeout name w = Some (w', r)) \<and> (\<exists>w' r. StopWait Z timeout name w = Some (w', r)) \<and>
    (\<exists>w' r. StartMultiple Z timeout names w = Some (w', r)) \<and> (\<exists>w' r. StopMultiple Z timeout names w = Some (w', r)) \<and>
    (\<exists>w' r. Destroy Z timeout names w = Some (w', r))"
  using zinit_clock.StartWait_returns[OF assms] zinit_clock.StopWait_returns[OF assms] zinit_clock.StartMultiple_returns[OF assms]
    zinit_clock.StopMultiple_returns[OF assms] zinit_clock.Destroy_returns[OF assms]
  unfolding ireturns_def by auto

text \<open>A zinit whose services never stop: every status is a running service that was asked to stop.\<close>

definition stubborn :: "int Zinit" where
  "stubborn = \<lparr>zi_send = (\<lambda>_ w. (w, Ok (''ok'', []))), zi_jsonString = Ok, zi_jsonList = (\<lambda>_. Ok []),
     zi_jsonStatus = (\<lambda>_. Ok ([], 1, Some ''Running'', ''Down'', [])), zi_yamlDecode = (\<lambda>_. Ok noInitService), zi_yamlUnmarshal = (\<lambda>_. Ok noInitService),
     zi_yamlMarshal = (\<lambda>_. Ok []), zi_shlex = (\<lambda>s. Ok [s]), zi_regexp = (\<lambda>_. None), zi_ReadFile = (\<lambda>_ _. Err ErrNotExist),
     zi_WriteFile = (\<lambda>_ _ w. (w, Ok ())), zi_RemoveAll = (\<lambda>_ w. (w, Ok ())), zi_now = (\<lambda>w. w), zi_sleep = (\<lambda>d w. w + d), zi_order = (\<lambda>x. x)\<rparr>"

theorem zinit_waits_return_witness:
  "(\<exists>w' r. Destroy stubborn (10 * second) [''a''] 0 = Some (w', r)) \<and>
   map_option snd (StopMultiple stubborn second [''a''] 0) = Some (Err (Errorf ''not all services are dead in time''))"
proof -
  have "zinit_clock stubborn" by unfold_locales (simp_all add: stubborn_def)
  from zinit_waits_return[OF this, of "10 * second" _ 0 "[''a'']"]
  have "\<exists>w' r. Destroy stubborn (10 * second) [''a''] 0 = Some (w', r)" by blast
  moreover have "map_option snd (StopMultiple stubborn second [''a''] 0) = Some (Err (Errorf ''not all services are dead in time''))" by code_simp
  ultimately show ?thesis by blast
qed

text \<open>C14: destroyed services are gone. When \<open>Destroy\<close> succeeds, zinit does not know any of the
  services any more and none of them has a service file, also when some of them were unknown before.\<close>

theorem destroyed_services_gone:
  assumes "zinit_server Z svc" and "Destroy Z timeout names w = Some (w', Ok u)" and "s \<in> set names"
  shows "svc w' s = None \<and> zi_ReadFile Z (servicePath s) w' = Err ErrNotExist"
  using zinit_server.Destroy_removes[OF assms] zinit_server.removed_def[OF assms(1)] by simp

theorem destroyed_services_gone_witness:
  "\<exists>w'. Destroy sim_zinit second [''traefik'', ''x''] sample_sim = Some (w', Ok ()) \<and> simSvc w' ''traefik'' = None \<and>
     simRead (servicePath ''traefik'') w' = Err ErrNotExist"
proof -
  have "map_option (\<lambda>(w, r). is_ok r) (Destroy sim_zinit second [''traefik'', ''x''] sample_sim) = Some True" by code_simp
  then obtain w' where run: "Destroy sim_zinit second [''traefik'', ''x''] sample_sim = Some (w', Ok ())" by (auto simp: is_ok_iff)
  from destroyed_services_gone[OF sim_zi.zinit_server_axioms run, of "''traefik''"] run show ?thesis by (simp add: sim_zinit_sel)
qed

end
