(* ===== verification/VDisks.thy ===== *)
theory VDisks
  imports StorageModule
begin

text \<open>
  Virtual disks, \<open>pkg/storage/disk.go\<close>: files in the volume \<open>vdisks\<close> of a pool. The calls to the
  operating system and to mkfs.btrfs and blkid are a record of functions on the node.
\<close>

record VDisk =
  vd_Path :: string
  vd_Size :: int

text \<open>
  \<open>os_mkfs\<close> returns no error, an exit code, or another error, together with its output;
  \<open>os_ReadDir\<close> lists names, whether they are directories, and the size (an error when it
  cannot be read).
\<close>

record 'w Os =
  os_Stat :: "string \<Rightarrow> 'w \<Rightarrow> int result"
  os_Open :: "string \<Rightarrow> 'w \<Rightarrow> int result result"
  os_OpenWrite :: "string \<Rightarrow> 'w \<Rightarrow> int result result"
  os_Create :: "string \<Rightarrow> 'w \<Rightarrow> 'w \<times> unit result"
  os_SetNoCow :: "string \<Rightarrow> 'w \<Rightarrow> 'w \<times> unit result"
  os_Fallocate :: "string \<Rightarrow> int \<Rightarrow> 'w \<Rightarrow> 'w \<times> unit result"
  os_Copy :: "string \<Rightarrow> string \<Rightarrow> 'w \<Rightarrow> 'w \<times> unit result"
  os_RemoveAll :: "string \<Rightarrow> 'w \<Rightarrow> 'w"
  os_Remove :: "string \<Rightarrow> 'w \<Rightarrow> 'w \<times> unit result"
  os_ReadDir :: "string \<Rightarrow> 'w \<Rightarrow> (string \<times> bool \<times> int result) list result"
  os_mkfs :: "string \<Rightarrow> 'w \<Rightarrow> 'w \<times> (int + err) option \<times> string"
  os_blkid :: "string \<Rightarrow> 'w \<Rightarrow> bool"


section \<open>Where disks are\<close>

text \<open>The paths of the \<open>vdisks\<close> volumes of the mounted pools.\<close>

fun vdiskPaths :: "'w \<Rightarrow> 'w FsPool list \<Rightarrow> string list result" where
  "vdiskPaths w [] = Ok []"
| "vdiskPaths w (pool # ps) =
     (if \<not> is_ok (fp_Mounted pool w) then vdiskPaths w ps
      else rbind (rwrap (''failed to list pool '' @ squote (fp_Path pool) @ '' volumes'') (fp_Volumes pool w)) (\<lambda>volumes.
        rmap (\<lambda>rest. map fv_Path (filter (\<lambda>v. fv_Name v = vdiskVolumeName) volumes) @ rest) (vdiskPaths w ps)))"

definition diskPools :: "'w Host \<Rightarrow> ('w, string list) op" where
  "diskPools H mw = (case pools H PolicySSDFirst mw of (m, ps) \<Rightarrow> ((m, snd mw), vdiskPaths (snd mw) ps))"

text \<open>\<open>diskFindCandidate\<close>: the first candidate that has a \<open>vdisks\<close> volume, or a new volume on the
  first candidate.\<close>

fun vdiskCandidate :: "'w \<Rightarrow> 'w candidate list \<Rightarrow> string option" where
  "vdiskCandidate w [] = None"
| "vdiskCandidate w (c # cs) = (case fp_Volumes (cand_Pool c) w of
     Inl _ \<Rightarrow> vdiskCandidate w cs
   | Inr volumes \<Rightarrow> (case find (\<lambda>v. fv_Name v = vdiskVolumeName) volumes of
       None \<Rightarrow> vdiskCandidate w cs
     | Some v \<Rightarrow> Some (fv_Path v)))"

definition diskFindCandidate :: "'w Host \<Rightarrow> Unit \<Rightarrow> ('w, string) op" where
  "diskFindCandidate H sz mw = (case findCandidates H sz PolicySSDFirst mw of
     (mw, Inl e) \<Rightarrow> (mw, Err e)
   | ((m, w), Inr candidates) \<Rightarrow>
       (case vdiskCandidate w candidates of
          Some path \<Rightarrow> ((m, w), Ok path)
        | None \<Rightarrow>
            (case fp_AddVolume (cand_Pool (hd candidates)) vdiskVolumeName w of (w, r) \<Rightarrow>
             ((m, w), rmap fv_Path (rwrap ''failed to create vdisk pool'' r)))))"

definition safePath :: "string \<Rightarrow> string \<Rightarrow> string result" where
  "safePath base i =
     (let path = Join [base, i]; location = Dir path in
      if Clean location \<noteq> base then Err (Errorf (''invalid disk id: '' @ squote i)) else Ok path)"

fun findIn :: "'w Os \<Rightarrow> string \<Rightarrow> 'w \<Rightarrow> string list \<Rightarrow> string result" where
  "findIn F i w [] = Err ErrNotExist"
| "findIn F i w (volumePath # vs) = rbind (safePath volumePath i) (\<lambda>path.
     if is_ok (os_Stat F path w) then Ok path else findIn F i w vs)"

definition findDisk :: "'w Host \<Rightarrow> 'w Os \<Rightarrow> string \<Rightarrow> ('w, string) op" where
  "findDisk H F i mw = (case diskPools H mw of
     (mw, Inl e) \<Rightarrow> (mw, Err (Wrap (''failed to find disk with id '' @ squote i) e))
   | (mw, Inr vdiskVolumes) \<Rightarrow> (mw, findIn F i (snd mw) vdiskVolumes))"


section \<open>Operations on disks\<close>

text \<open>The file of a new disk; when it cannot be made, what there is of it is removed.\<close>

definition createFile :: "'w Os \<Rightarrow> string \<Rightarrow> Unit \<Rightarrow> 'w \<Rightarrow> 'w \<times> VDisk result" where
  "createFile F path sz w =
     (let cleanUp = (\<lambda>w e. (os_RemoveAll F path w, Err e)) in
      case os_Create F path w of
        (w, Inl e) \<Rightarrow> cleanUp w e
      | (w, Inr _) \<Rightarrow>
          (case os_SetNoCow F path w of
             (w, Inl e) \<Rightarrow> cleanUp w e
           | (w, Inr _) \<Rightarrow>
               (case os_Fallocate F path (sint sz) w of
                  (w, Inl e) \<Rightarrow> cleanUp w (Wrap ''failed to truncate disk to size'' e)
                | (w, Inr _) \<Rightarrow> (w, Ok \<lparr>vd_Path = path, vd_Size = sint sz\<rparr>))))"

definition DiskCreate :: "'w Host \<Rightarrow> 'w Os \<Rightarrow> string \<Rightarrow> Unit \<Rightarrow> ('w, VDisk) op" where
  "DiskCreate H F name sz mw = (case findDisk H F name mw of
     (mw, Inr _) \<Rightarrow> (mw, Err (Wrap (''disk with id '' @ squote name @ '' already exists'') ErrExist))
   | (mw, Inl _) \<Rightarrow>
       (case diskFindCandidate H sz mw of
          (mw, Inl e) \<Rightarrow> (mw, Err (Wrap (''failed to find a candidate to host vdisk of size '' @ squote (dec (unat sz))) e))
        | ((m, w), Inr base) \<Rightarrow>
            (case safePath base name of
               Inl e \<Rightarrow> ((m, w), Err e)
             | Inr path \<Rightarrow> (case createFile F path sz w of (w, r) \<Rightarrow> ((m, w), r)))))"

definition DiskResize :: "'w Host \<Rightarrow> 'w Os \<Rightarrow> string \<Rightarrow> Unit \<Rightarrow> ('w, VDisk) op" where
  "DiskResize H F name sz mw = (case findDisk H F name mw of
     (mw, Inl _) \<Rightarrow> (mw, Err (Wrap (''disk with id '' @ squote name @ '' does not exists'') ErrNotExist))
   | ((m, w), Inr path) \<Rightarrow>
       (case os_OpenWrite F path w of
          Inl e \<Rightarrow> ((m, w), Err e)
        | Inr _ \<Rightarrow>
            (case os_Fallocate F path (sint sz) w of
               (w, Inl e) \<Rightarrow> ((m, w), Err (Wrap ''failed to truncate disk to size'' e))
             | (w, Inr _) \<Rightarrow> ((m, w), Ok \<lparr>vd_Path = path, vd_Size = sint sz\<rparr>))))"

definition ensureFS :: "'w Os \<Rightarrow> string \<Rightarrow> 'w \<Rightarrow> 'w \<times> unit result" where
  "ensureFS F disk w = (case os_mkfs F disk w of
     (w, None, _) \<Rightarrow> (w, Ok ())
   | (w, Some (Inr e), output) \<Rightarrow> (w, Err (Wrap (''failed to format disk '' @ squote output) e))
   | (w, Some (Inl code), output) \<Rightarrow>
       if code = 1 \<and> Contains output ''ERROR: use the -f option to force overwrite'' then (w, Ok ())
       else (w, Err (Wrap (''unknown btrfs error '' @ squote output) (Errorf ''exit status''))))"

definition DiskFormat :: "'w Host \<Rightarrow> 'w Os \<Rightarrow> string \<Rightarrow> ('w, unit) op" where
  "DiskFormat H F name mw = (case findDisk H F name mw of
     (mw, Inl e) \<Rightarrow> (mw, Err (Wrap (''couldn't find disk with id: '' @ name) e))
   | ((m, w), Inr path) \<Rightarrow> (case ensureFS F path w of (w, r) \<Rightarrow> ((m, w), r)))"

definition isEmptyDisk :: "'w Os \<Rightarrow> string \<Rightarrow> 'w \<Rightarrow> bool" where
  "isEmptyDisk F disk w \<longleftrightarrow> \<not> os_blkid F disk w"

definition writeImage :: "'w Os \<Rightarrow> string \<Rightarrow> string \<Rightarrow> 'w \<Rightarrow> 'w \<times> unit result" where
  "writeImage F img path w =
     (case rbind (rwrap ''failed to open image'' (os_Open F img w)) (\<lambda>imgStat.
           rbind (os_OpenWrite F path w) (\<lambda>fileStat.
           rbind (rwrap ''failed to stat image'' imgStat) (\<lambda>imgSize.
           rbind (rwrap ''failed to state disk'' fileStat) (\<lambda>fileSize.
           fail_if (imgSize > fileSize) (Errorf ''image size is bigger than disk''))))) of
        Inl e \<Rightarrow> (w, Err e)
      | Inr _ \<Rightarrow> (case os_Copy F img path w of (w, r) \<Rightarrow> (w, rwrap ''failed to write disk image'' r)))"

definition DiskWrite :: "'w Host \<Rightarrow> 'w Os \<Rightarrow> string \<Rightarrow> string \<Rightarrow> ('w, unit) op" where
  "DiskWrite H F name img mw = (case findDisk H F name mw of
     (mw, Inl e) \<Rightarrow> (mw, Err (Wrap (''couldn't find disk with id: '' @ name) e))
   | ((m, w), Inr path) \<Rightarrow>
       if \<not> isEmptyDisk F path w then ((m, w), Ok ())
       else (case writeImage F img path w of (w, r) \<Rightarrow> ((m, w), r)))"

text \<open>\<open>DiskDelete\<close> (\<open>os.IsNotExist\<close> does not look into wrapped errors).\<close>

definition DiskDelete :: "'w Host \<Rightarrow> 'w Os \<Rightarrow> string \<Rightarrow> ('w, unit) op" where
  "DiskDelete H F name mw = (case findDisk H F name mw of
     (mw, Inl e) \<Rightarrow> (mw, if e = ErrNotExist then Ok () else Err e)
   | ((m, w), Inr path) \<Rightarrow> (case os_Remove F path w of
       (w, Inl e) \<Rightarrow> ((m, w), if e = ErrNotExist then Ok () else Err e)
     | (w, Inr _) \<Rightarrow> ((m, w), Ok ())))"

definition DiskExists :: "'w Host \<Rightarrow> 'w Os \<Rightarrow> string \<Rightarrow> 'w Module \<times> 'w \<Rightarrow> ('w Module \<times> 'w) \<times> bool" where
  "DiskExists H F i mw = (case findDisk H F i mw of (mw, r) \<Rightarrow> (mw, is_ok r))"

definition DiskLookup :: "'w Host \<Rightarrow> 'w Os \<Rightarrow> string \<Rightarrow> ('w, VDisk) op" where
  "DiskLookup H F i mw = (case findDisk H F i mw of
     (mw, Inl e) \<Rightarrow> (mw, Err e)
   | (mw, Inr path) \<Rightarrow> (mw, rmap (\<lambda>sz. \<lparr>vd_Path = path, vd_Size = sz\<rparr>) (os_Stat F path (snd mw))))"

text \<open>\<open>DiskList\<close>: the loop over the pools returns at the end of its first iteration.\<close>

definition listDir :: "'w Os \<Rightarrow> string \<Rightarrow> 'w \<Rightarrow> VDisk list result" where
  "listDir F pool w = rbind (rwrap ''failed to list virtual disks'' (os_ReadDir F pool w)) (\<lambda>items.
     rlist (\<lambda>(name, _, info). rbind (rwrap (''failed to get file info for '' @ squote name) info) (\<lambda>sz.
         Ok \<lparr>vd_Path = Join [pool, name], vd_Size = sz\<rparr>))
       (filter (\<lambda>(_, isDir, _). \<not> isDir) items))"

definition DiskList :: "'w Host \<Rightarrow> 'w Os \<Rightarrow> ('w, VDisk list) op" where
  "DiskList H F mw = (case diskPools H mw of
     (mw, Inl e) \<Rightarrow> (mw, Err e)
   | (mw, Inr ps) \<Rightarrow> (mw, case ps of [] \<Rightarrow> Ok [] | pool # _ \<Rightarrow> listDir F pool (snd mw)))"

end
