(* ===== verification/Managers.thy ===== *)
theory Managers
  imports ZdbManager
begin

text \<open>
  The managers of networks (\<open>pkg/primitives/network\<close>, \<open>network-light\<close>), of the streams of logs of
  a machine (\<open>zlogs\<close>) and of quantum safe file systems (\<open>qsfs\<close>): they decode the data of a
  workload and call the daemon that serves it.
\<close>

section \<open>What the managers call\<close>

record Stream =
  str_ID :: string
  str_Namespace :: string
  str_Output :: string

text \<open>
  \<open>json.Unmarshal\<close> into the structures of the workloads, hash and base-58 text, the operations of
  networkd, vmd and qsfsd, and \<open>json.Marshal\<close> of what a mount returns (path and endpoint).
\<close>

record 'w ManagersEnv =
  me_Network :: "bytes \<Rightarrow> Network result"
  me_NetworkLight :: "bytes \<Rightarrow> NetworkLight result"
  me_ZLogs :: "bytes \<Rightarrow> ZLogs result"
  me_ZMachine :: "bytes \<Rightarrow> ZMachine result"
  me_QuantumSafeFS :: "bytes \<Rightarrow> QuantumSafeFS result"
  me_md5 :: "bytes \<Rightarrow> bytes"
  me_base58 :: "bytes \<Rightarrow> string"
  me_CreateNR :: "WorkloadID \<Rightarrow> Network \<times> string \<Rightarrow> 'w \<Rightarrow> 'w \<times> string result"
  me_DeleteNR :: "WorkloadID \<Rightarrow> 'w \<Rightarrow> 'w \<times> unit result"
  me_CreateLight :: "string \<Rightarrow> WorkloadID \<Rightarrow> NetworkLight \<Rightarrow> 'w \<Rightarrow> 'w \<times> unit result"
  me_DeleteLight :: "string \<Rightarrow> 'w \<Rightarrow> 'w \<times> unit result"
  me_Namespace :: "string \<Rightarrow> 'w \<Rightarrow> string"
  me_StreamCreate :: "string \<Rightarrow> Stream \<Rightarrow> 'w \<Rightarrow> 'w \<times> unit result"
  me_StreamDelete :: "string \<Rightarrow> 'w \<Rightarrow> 'w \<times> unit result"
  me_Mount :: "string \<Rightarrow> QuantumSafeFS \<Rightarrow> 'w \<Rightarrow> 'w \<times> (string \<times> string) result"
  me_UpdateMount :: "string \<Rightarrow> QuantumSafeFS \<Rightarrow> 'w \<Rightarrow> 'w \<times> (string \<times> string) result"
  me_SignalDelete :: "string \<Rightarrow> 'w \<Rightarrow> 'w \<times> unit result"
  me_marshalMount :: "string \<times> string \<Rightarrow> bytes result"

text \<open>A manager that returns nil as its data, with an error or not.\<close>

definition nothing :: "'w \<times> unit result \<Rightarrow> (bytes result \<times> err option) \<times> 'w" where
  "nothing wr = (case wr of (w, r) \<Rightarrow> ((Ok ''null'', errOf r), w))"

definition wrapped :: "string \<Rightarrow> 'w \<times> 'a result \<Rightarrow> 'w \<times> unit result" where
  "wrapped msg wr = (case wr of (w, r) \<Rightarrow> (w, rwrap msg (rmap (\<lambda>_. ()) r)))"


section \<open>Networks (network.go)\<close>

definition networkProvisionImpl :: "'w ManagersEnv \<Rightarrow> Ctx \<Rightarrow> WorkloadWithID \<Rightarrow> 'w \<Rightarrow> 'w \<times> unit result" where
  "networkProvisionImpl E ctx wl w =
     (case rbind (GetDeploymentID ctx) (\<lambda>(twin, _).
           rmap (\<lambda>network. (twin, network))
             (rwrap ''failed to unmarshal network from reservation'' (me_Network E (wl_Data (wi_Workload wl))))) of
        Inl e \<Rightarrow> (w, Err e)
      | Inr (twin, network) \<Rightarrow>
          wrapped (''failed to create network resource for network '' @ wi_ID wl)
            (me_CreateNR E (wi_ID wl) (network, NetworkID (me_md5 E) (me_base58 E) twin (wl_Name (wi_Workload wl))) w))"

definition network_Provision :: "'w ManagersEnv \<Rightarrow> ('s, 'w) provide" where
  "network_Provision E ctx s wl w = nothing (networkProvisionImpl E ctx wl w)"

definition network_Update :: "'w ManagersEnv \<Rightarrow> ('s, 'w) provide" where
  "network_Update E ctx s wl w = nothing (networkProvisionImpl E ctx wl w)"

definition network_Deprovision :: "'w ManagersEnv \<Rightarrow> ('s, 'w) action" where
  "network_Deprovision E ctx s wl w =
     (case wrapped ''failed to delete network resource'' (me_DeleteNR E (wi_ID wl) w) of (w, r) \<Rightarrow> (errOf r, w))"

definition networkManager :: "'w ManagersEnv \<Rightarrow> ('s, 'w) Manager" where
  "networkManager E = \<lparr>mgr_Provision = network_Provision E, mgr_Deprovision = network_Deprovision E,
     mgr_Initializer = None, mgr_Updater = Some (network_Update E), mgr_Pauser = None\<rparr>"


section \<open>Networks of light nodes (network-light/network.go)\<close>

definition networkLightProvisionImpl :: "'w ManagersEnv \<Rightarrow> Ctx \<Rightarrow> WorkloadWithID \<Rightarrow> 'w \<Rightarrow> 'w \<times> unit result" where
  "networkLightProvisionImpl E ctx wl w =
     (case rbind (GetDeploymentID ctx) (\<lambda>(twin, _).
           rmap (\<lambda>network. (twin, network))
             (rwrap ''failed to unmarshal network from reservation'' (me_NetworkLight E (wl_Data (wi_Workload wl))))) of
        Inl e \<Rightarrow> (w, Err e)
      | Inr (twin, network) \<Rightarrow>
          wrapped (''failed to create network resource for network '' @ wi_ID wl)
            (me_CreateLight E (NetworkID (me_md5 E) (me_base58 E) twin (wl_Name (wi_Workload wl))) (wi_ID wl) network w))"

definition networkLight_Provision :: "'w ManagersEnv \<Rightarrow> ('s, 'w) provide" where
  "networkLight_Provision E ctx s wl w = nothing (networkLightProvisionImpl E ctx wl w)"

definition networkLight_Update :: "'w ManagersEnv \<Rightarrow> ('s, 'w) provide" where
  "networkLight_Update E ctx s wl w = nothing (networkLightProvisionImpl E ctx wl w)"

definition networkLight_Deprovision :: "'w ManagersEnv \<Rightarrow> ('s, 'w) action" where
  "networkLight_Deprovision E ctx s wl w = (case GetDeploymentID ctx of
     Inl e \<Rightarrow> (Some e, w)
   | Inr (twin, _) \<Rightarrow>
       (case wrapped ''failed to delete network resource''
          (me_DeleteLight E (NetworkID (me_md5 E) (me_base58 E) twin (wl_Name (wi_Workload wl))) w) of (w, r) \<Rightarrow> (errOf r, w)))"


section \<open>Streams of logs (zlogs.go)\<close>

text \<open>\<open>errors.Wrapf\<close> of no error is no error: so is the answer for a workload that is no machine, or
  for a machine that is not in order.\<close>

definition zlogs_Provision :: "'w ManagersEnv \<Rightarrow> 's Storage \<Rightarrow> ('s, 'w) provide" where
  "zlogs_Provision E S ctx s wl w =
     (let done = (\<lambda>err w. ((Ok ''null'', err), w)) in
      case rwrap ''failed to decode zlogs config'' (me_ZLogs E (wl_Data (wi_Workload wl))) of
        Inl e \<Rightarrow> done (Some e) w
      | Inr cfg \<Rightarrow>
          (case GetWorkload S ctx s (zl_ZMachine cfg) of
             Inl e \<Rightarrow> done (Some (Wrap (''no zmachine with name '' @ squote (zl_ZMachine cfg)) e)) w
           | Inr machine \<Rightarrow>
               if wl_Type (wi_Workload machine) \<noteq> ZMachineType then done None w
               else if \<not> IsOkay (State (wl_Result (wi_Workload machine))) then done None w
               else (case rbind (rwrap ''failed to decode zlogs config'' (me_ZMachine E (wl_Data (wi_Workload machine)))) (\<lambda>machineCfg.
                          case mn_Interfaces (vm_Network machineCfg) of
                            [] \<Rightarrow> Err (Errorf ''invalid zmachine network configuration'')
                          | i # _ \<Rightarrow> rmap (\<lambda>(twin, _). (twin, mi_Network i)) (GetDeploymentID ctx)) of
                 Inl e \<Rightarrow> done (Some e) w
               | Inr (twin, net) \<Rightarrow>
                   nothing (me_StreamCreate E (wi_ID machine) \<lparr>str_ID = wi_ID wl,
                     str_Namespace = me_Namespace E (NetworkID (me_md5 E) (me_base58 E) twin net) w, str_Output = zl_Output cfg\<rparr> w))))"

definition zlogs_Deprovision :: "'w ManagersEnv \<Rightarrow> ('s, 'w) action" where
  "zlogs_Deprovision E ctx s wl w = (case me_StreamDelete E (wi_ID wl) w of (w, r) \<Rightarrow> (errOf r, w))"

definition zlogsManager :: "'w ManagersEnv \<Rightarrow> 's Storage \<Rightarrow> ('s, 'w) Manager" where
  "zlogsManager E S = \<lparr>mgr_Provision = zlogs_Provision E S, mgr_Deprovision = zlogs_Deprovision E,
     mgr_Initializer = None, mgr_Updater = None, mgr_Pauser = None\<rparr>"


section \<open>Quantum safe file systems (qsfs.go)\<close>

definition qsfsMounted :: "'w ManagersEnv \<Rightarrow> string \<Rightarrow> (string \<Rightarrow> QuantumSafeFS \<Rightarrow> 'w \<Rightarrow> 'w \<times> (string \<times> string) result) \<Rightarrow>
    WorkloadWithID \<Rightarrow> 'w \<Rightarrow> (bytes result \<times> err option) \<times> 'w" where
  "qsfsMounted E msg call wl w = (case me_QuantumSafeFS E (wl_Data (wi_Workload wl)) of
     Inl e \<Rightarrow> ((Ok ''null'', Some (Wrap ''failed to unmarshal qsfs data from reservation'' e)), w)
   | Inr proxy \<Rightarrow> (case call (wi_ID wl) proxy w of
       (w, Inl e) \<Rightarrow> ((Ok ''null'', Some (Wrap msg e)), w)
     | (w, Inr info) \<Rightarrow> ((me_marshalMount E info, None), w)))"

definition qsfs_Provision :: "'w ManagersEnv \<Rightarrow> ('s, 'w) provide" where
  "qsfs_Provision E ctx s wl w = qsfsMounted E ''failed to create qsfs mount'' (me_Mount E) wl w"

definition qsfs_Update :: "'w ManagersEnv \<Rightarrow> ('s, 'w) provide" where
  "qsfs_Update E ctx s wl w = qsfsMounted E ''failed to update qsfs mount'' (me_UpdateMount E) wl w"

definition qsfs_Deprovision :: "'w ManagersEnv \<Rightarrow> ('s, 'w) action" where
  "qsfs_Deprovision E ctx s wl w = (case me_SignalDelete E (wi_ID wl) w of (w, r) \<Rightarrow> (errOf (rwrap ''failed to delete qsfs'' r), w))"

definition qsfsManager :: "'w ManagersEnv \<Rightarrow> ('s, 'w) Manager" where
  "qsfsManager E = \<lparr>mgr_Provision = qsfs_Provision E, mgr_Deprovision = qsfs_Deprovision E,
     mgr_Initializer = None, mgr_Updater = Some (qsfs_Update E), mgr_Pauser = None\<rparr>"


section \<open>Sample data\<close>

text \<open>A storage that answers queries for deployments and workloads.\<close>

definition sampleStorage :: "(u32 \<Rightarrow> u64 \<Rightarrow> Deployment result) \<Rightarrow> (Name \<Rightarrow> Workload result) \<Rightarrow> unit Storage" where
  "sampleStorage get current = \<lparr>st_Create = (\<lambda>_ _. Ok), st_Update = (\<lambda>_ _ _. Ok), st_Delete = (\<lambda>_ _. Ok),
     st_Get = (\<lambda>twin contract _. get twin contract), st_Error = (\<lambda>_ _ _ _. Ok), st_Add = (\<lambda>_ _ _ _. Ok), st_Remove = (\<lambda>_ _ _. Ok),
     st_Transaction = (\<lambda>_ _ _. Ok), st_Changes = (\<lambda>_ _ _. Ok []), st_Current = (\<lambda>_ _ name _. current name),
     st_Twins = (\<lambda>_. Ok []), st_ByTwin = (\<lambda>_ _. Ok []), st_Capacity = (\<lambda>_ _. Err ErrDeploymentNotExists)\<rparr>"

definition sampleWorkload :: "WorkloadType \<Rightarrow> Name \<Rightarrow> bytes \<Rightarrow> Workload" where
  "sampleWorkload t name d = \<lparr>wl_Version = 0, wl_Name = name, wl_Type = t, wl_Data = d, wl_Metadata = [], wl_Description = [],
     wl_Result = noResult\<lparr>State := StateOk\<rparr>\<rparr>"

text \<open>A node that counts its streams of logs.\<close>

definition sampleManagers :: "nat ManagersEnv" where
  "sampleManagers = \<lparr>me_Network = (\<lambda>_. Err (Errorf [])), me_NetworkLight = (\<lambda>_. Err (Errorf [])),
     me_ZLogs = (\<lambda>d. Ok \<lparr>zl_ZMachine = d, zl_Output = ''redis://10.1.0.2''\<rparr>), me_ZMachine = (\<lambda>_. Err (Errorf [])),
     me_QuantumSafeFS = (\<lambda>_. Err (Errorf [])), me_md5 = (\<lambda>b. b), me_base58 = (\<lambda>b. b), me_CreateNR = (\<lambda>_ _ w. (w, Ok [])),
     me_DeleteNR = (\<lambda>_ w. (w, Ok ())), me_CreateLight = (\<lambda>_ _ _ w. (w, Ok ())), me_DeleteLight = (\<lambda>_ w. (w, Ok ())),
     me_Namespace = (\<lambda>n _. n), me_StreamCreate = (\<lambda>_ _ w. (w + 1, Ok ())), me_StreamDelete = (\<lambda>_ w. (w - 1, Ok ())),
     me_Mount = (\<lambda>_ _ w. (w, Ok ([], []))), me_UpdateMount = (\<lambda>_ _ w. (w, Ok ([], []))), me_SignalDelete = (\<lambda>_ w. (w, Ok ())),
     me_marshalMount = (\<lambda>_. Ok [])\<rparr>"


section \<open>Claims\<close>

text \<open>A stream of logs is only created for a machine in order, but an answer without error says
  nothing. When provisioning changes the node, the workload it names is a machine in the state
  ok or paused with a network interface. For
  a workload that is no machine, or a machine in another state, nothing is done, and the
  provisioner records the stream of logs as ok.\<close>

lemma zlogs_unattached_ok:
  assumes "me_ZLogs E (wl_Data (wi_Workload wl)) = Ok cfg" and "GetWorkload S ctx s (zl_ZMachine cfg) = Ok machine"
    and "managers (wl_Type (wi_Workload wl)) = Some (zlogsManager E S)"
    and "mapProvisioner_Provision now managers ctx s wl w = ((result, err), w')"
  shows "(wl_Type (wi_Workload machine) \<noteq> ZMachineType \<or> \<not> IsOkay (State (wl_Result (wi_Workload machine))) \<longrightarrow>
      w' = w \<and> err = None \<and> State result = StateOk) \<and>
    (w' \<noteq> w \<longrightarrow> wl_Type (wi_Workload machine) = ZMachineType \<and> IsOkay (State (wl_Result (wi_Workload machine))) \<and>
      (\<exists>machineCfg i is. me_ZMachine E (wl_Data (wi_Workload machine)) = Ok machineCfg \<and> mn_Interfaces (vm_Network machineCfg) = i # is))"
proof -
  let ?bad = "wl_Type (wi_Workload machine) \<noteq> ZMachineType \<or> \<not> IsOkay (State (wl_Result (wi_Workload machine)))"
  have prov: "provide_result now (zlogs_Provision E S ctx s wl w) = ((result, err), w')"
    using assms(3,4) by (simp add: mapProvisioner_Provision_def zlogsManager_def)
  have bad: "zlogs_Provision E S ctx s wl w = ((Ok ''null'', None), w)" if ?bad
    using that assms(1,2) by (auto simp: zlogs_Provision_def)
  have world: "w' = snd (zlogs_Provision E S ctx s wl w)"
    using prov by (auto simp: provide_result_def split: prod.splits option.splits if_splits)
  have nets: "snd (zlogs_Provision E S ctx s wl w) = w"
    if "\<not> ?bad" "\<forall>m i is. me_ZMachine E (wl_Data (wi_Workload machine)) = Ok m \<longrightarrow> mn_Interfaces (vm_Network m) \<noteq> i # is"
    using that assms(1,2)
    by (cases "me_ZMachine E (wl_Data (wi_Workload machine))") (auto simp: zlogs_Provision_def Let_def split: list.splits)
  show ?thesis
  proof (intro conjI impI)
    assume ?bad
    with prov bad show "w' = w" "err = None" "State result = StateOk"
      by (auto simp: provide_result_def buildResult_def setState_def Let_def)
  next
    assume "w' \<noteq> w"
    with bad world have "\<not> ?bad" by (metis snd_conv)
    then show "wl_Type (wi_Workload machine) = ZMachineType" "IsOkay (State (wl_Result (wi_Workload machine)))" by simp_all
    show "\<exists>machineCfg i is. me_ZMachine E (wl_Data (wi_Workload machine)) = Ok machineCfg \<and> mn_Interfaces (vm_Network machineCfg) = i # is"
      using nets[OF \<open>\<not> ?bad\<close>] \<open>w' \<noteq> w\<close> world by blast
  qed
qed

lemma zlogs_unattached_ok_witness:
  "\<exists>result. mapProvisioner_Provision (\<lambda>_. 0) [ZLogsType \<mapsto> zlogsManager sampleManagers (sampleStorage (\<lambda>_ _. Err ErrDeploymentNotExists)
       (\<lambda>n. Ok (sampleWorkload ZMachineLightType n [])))] (withDeployment background 7 9) ()
     \<lparr>wi_Workload = sampleWorkload ZLogsType ''logs'' ''vm'', wi_ID = ''7-9-logs''\<rparr> 0 = ((result, None), 0) \<and> State result = StateOk"
proof -
  let ?S = "sampleStorage (\<lambda>_ _. Err ErrDeploymentNotExists) (\<lambda>n. Ok (sampleWorkload ZMachineLightType n []))"
  let ?ms = "[ZLogsType \<mapsto> zlogsManager sampleManagers ?S]" and ?ctx = "withDeployment background 7 9"
  let ?wl = "\<lparr>wi_Workload = sampleWorkload ZLogsType ''logs'' ''vm'', wi_ID = ''7-9-logs''\<rparr>"
  let ?m = "\<lparr>wi_Workload = sampleWorkload ZMachineLightType ''vm'' [], wi_ID = NewUncheckedWorkloadID 7 9 ''vm''\<rparr>"
  have cfg: "me_ZLogs sampleManagers (wl_Data (wi_Workload ?wl)) = Ok \<lparr>zl_ZMachine = ''vm'', zl_Output = ''redis://10.1.0.2''\<rparr>"
    by (simp add: sampleManagers_def sampleWorkload_def)
  have cur: "GetWorkload ?S ?ctx () (zl_ZMachine \<lparr>zl_ZMachine = ''vm'', zl_Output = ''redis://10.1.0.2''\<rparr>) = Ok ?m"
    by (simp add: GetWorkload_def sampleStorage_def GetDeploymentID_def withDeployment_def)
  have mgr: "?ms (wl_Type (wi_Workload ?wl)) = Some (zlogsManager sampleManagers ?S)" by (simp add: sampleWorkload_def)
  obtain result err w' where run: "mapProvisioner_Provision (\<lambda>_. 0) ?ms ?ctx () ?wl 0 = ((result, err), w')" by (metis surj_pair)
  have "wl_Type (wi_Workload ?m) \<noteq> ZMachineType" by (simp add: sampleWorkload_def type_defs)
  with zlogs_unattached_ok[where managers = ?ms and wl = ?wl and E = sampleManagers, OF cfg cur mgr run] run show ?thesis by auto
qed

end
