(* ===== verification/StorageManagers.thy ===== *)
theory StorageManagers
  imports VDisks Managers
begin

text \<open>
  The managers of disks and volumes, \<open>pkg/primitives/zmount/zmount.go\<close> and
  \<open>pkg/primitives/volume/volume.go\<close>: they serve the workloads of these two types with the
  operations of the storage module. The node they act on is the module with its pools.
\<close>

text \<open>
  What the managers call outside the package: the storage module (over zbus, whose own failure
  is a panic of the stub and not modelled), \<open>json.Unmarshal\<close> into the structures of the three
  workload types, and \<open>json.Marshal\<close> of a result (the identifier in it, or no result at all).
\<close>

record 'w StorageEnv =
  se_host :: "'w Host"
  se_os :: "'w Os"
  se_ZMount :: "bytes \<Rightarrow> ZMount result"
  se_Volume :: "bytes \<Rightarrow> Volume result"
  se_ZMachine :: "bytes \<Rightarrow> ZMachine result"
  se_marshal :: "string option \<Rightarrow> bytes result"

type_synonym 'w storage_world = "'w Module \<times> 'w"

text \<open>\<open>provision.GetDeployment\<close> (engine.go): the current deployment with its latest state.\<close>

definition GetDeployment :: "'s Storage \<Rightarrow> Ctx \<Rightarrow> 's \<Rightarrow> Deployment result" where
  "GetDeployment S ctx s = rbind (GetDeploymentID ctx) (\<lambda>(twin, deployment). st_Get S twin deployment s)"


section \<open>Disks (zmount.go)\<close>

definition volumeProvisionImpl ::
    "'w StorageEnv \<Rightarrow> WorkloadWithID \<Rightarrow> 'w storage_world \<Rightarrow> (string \<times> err option) \<times> 'w storage_world" where
  "volumeProvisionImpl E wl mw = (case se_ZMount E (wl_Data (wi_Workload wl)) of
     Inl e \<Rightarrow> (([], Some e), mw)
   | Inr config \<Rightarrow>
       (case DiskExists (se_host E) (se_os E) (wi_ID wl) mw of (mw, exists) \<Rightarrow>
          if exists then ((wi_ID wl, None), mw)
          else (case DiskCreate (se_host E) (se_os E) (wi_ID wl) (zm_Size config) mw of (mw, r) \<Rightarrow>
            ((wi_ID wl, errOf r), mw))))"

text \<open>The loop over the machines of the deployment: one that runs must not mount the disk.\<close>

fun checkMounts :: "(bytes \<Rightarrow> ZMachine result) \<Rightarrow> Name \<Rightarrow> WorkloadWithID list \<Rightarrow> unit result" where
  "checkMounts unmarshal name [] = Ok ()"
| "checkMounts unmarshal name (vm # vms) =
     (if \<not> IsOkay (State (wl_Result (wi_Workload vm))) then checkMounts unmarshal name vms
      else case unmarshal (wl_Data (wi_Workload vm)) of
        Inl e \<Rightarrow> Err (response_UnChanged (Wrap ''failed to load vm information'' e))
      | Inr data \<Rightarrow>
          if list_ex (\<lambda>mnt. mm_Name mnt = name) (vm_Mounts data)
          then Err (response_UnChanged (Errorf ''disk is mounted, please delete the VM first''))
          else checkMounts unmarshal name vms)"

text \<open>The checks of \<open>zMountUpdateImpl\<close>, up to the call of \<open>DiskResize\<close>.\<close>

definition checkResize :: "'w StorageEnv \<Rightarrow> 's Storage \<Rightarrow> Ctx \<Rightarrow> 's \<Rightarrow> WorkloadWithID \<Rightarrow> ZMount result" where
  "checkResize E S ctx s wl =
     (let name = wl_Name (wi_Workload wl) in
      rbind (rwrap (''no zmount workload with name '' @ squote name @ '' is deployed'') (GetWorkload S ctx s name)) (\<lambda>current.
      rbind (rwrap ''failed to decode reservation schema'' (se_ZMount E (wl_Data (wi_Workload current)))) (\<lambda>old.
      rbind (rwrap ''failed to decode reservation schema'' (se_ZMount E (wl_Data (wi_Workload wl)))) (\<lambda>new.
      rbind (fail_if (zm_Size new = zm_Size old) ErrNoActionNeeded) (\<lambda>_.
      rbind (fail_if (zm_Size new < zm_Size old) (response_UnChanged (Errorf ''not safe to shrink a disk''))) (\<lambda>_.
      case GetDeployment S ctx s of
        Inl e \<Rightarrow> Err (response_UnChanged (Wrap ''failed to get deployment'' e))
      | Inr deployment \<Rightarrow>
          rmap (\<lambda>_. new) (checkMounts (se_ZMachine E) name (Deployment_ByType deployment [ZMachineType]))))))))"

definition zMountUpdateImpl ::
    "'w StorageEnv \<Rightarrow> 's Storage \<Rightarrow> Ctx \<Rightarrow> 's \<Rightarrow> WorkloadWithID \<Rightarrow> 'w storage_world
     \<Rightarrow> (string \<times> err option) \<times> 'w storage_world" where
  "zMountUpdateImpl E S ctx s wl mw = (case checkResize E S ctx s wl of
     Inl e \<Rightarrow> (([], Some e), mw)
   | Inr new \<Rightarrow>
       (case DiskResize (se_host E) (se_os E) (wi_ID wl) (zm_Size new) mw of
          (mw, Inl e) \<Rightarrow> ((wi_ID wl, Some (response_UnChanged e)), mw)
        | (mw, Inr _) \<Rightarrow> ((wi_ID wl, None), mw)))"

definition returned ::
    "'w StorageEnv \<Rightarrow> (string \<times> err option) \<times> 'v \<Rightarrow> (bytes result \<times> err option) \<times> 'v" where
  "returned E r = (case r of ((i, err), mw) \<Rightarrow> ((se_marshal E (Some i), err), mw))"

definition zmount_Provision :: "'w StorageEnv \<Rightarrow> ('s, 'w storage_world) provide" where
  "zmount_Provision E ctx s wl mw = returned E (volumeProvisionImpl E wl mw)"

definition zmount_Deprovision :: "'w StorageEnv \<Rightarrow> ('s, 'w storage_world) action" where
  "zmount_Deprovision E ctx s wl mw =
     (case DiskDelete (se_host E) (se_os E) (wi_ID wl) mw of (mw, r) \<Rightarrow> (errOf r, mw))"

definition zmount_Update :: "'w StorageEnv \<Rightarrow> 's Storage \<Rightarrow> ('s, 'w storage_world) provide" where
  "zmount_Update E S ctx s wl mw = returned E (zMountUpdateImpl E S ctx s wl mw)"

definition zmountManager :: "'w StorageEnv \<Rightarrow> 's Storage \<Rightarrow> ('s, 'w storage_world) Manager" where
  "zmountManager E S = \<lparr>mgr_Provision = zmount_Provision E, mgr_Deprovision = zmount_Deprovision E,
     mgr_Initializer = None, mgr_Updater = Some (zmount_Update E S), mgr_Pauser = None\<rparr>"


section \<open>Volumes (volume.go)\<close>

text \<open>\<open>%q\<close> of an identifier of a workload, which has no characters to escape.\<close>

definition qquote :: "string \<Rightarrow> string" where
  "qquote s = CHR 0x22 # s @ [CHR 0x22]"


text \<open>An error that says there is no such volume; it wraps the nil error of the lookup.\<close>

definition missingVolume :: "string \<Rightarrow> err" where
  "missingVolume name = Errorf (''no volume with name '' @ qquote name @ '' found: %!w(<nil>)'')"

definition volume_Provision :: "'w StorageEnv \<Rightarrow> ('s, 'w storage_world) provide" where
  "volume_Provision E ctx s wl mw =
     (let failed = (\<lambda>msg e mw. ((se_marshal E None, Some (Wrap msg e)), mw)); volumeName = wi_ID wl in
      case se_Volume E (wl_Data (wi_Workload wl)) of
        Inl e \<Rightarrow> failed ''failed to parse workload data as volume'' e mw
      | Inr volume \<Rightarrow>
          (case VolumeExists (se_host E) volumeName mw of
             (mw, Inl e) \<Rightarrow> failed (''failed to lookup volume with name '' @ qquote volumeName) e mw
           | (mw, Inr True) \<Rightarrow> ((se_marshal E (Some volumeName), Some ErrNoActionNeeded), mw)
           | (mw, Inr False) \<Rightarrow>
               (case VolumeCreate (se_host E) volumeName (vol_Size volume) mw of
                  (mw, Inl e) \<Rightarrow> failed (''failed to create new volume with name '' @ qquote volumeName) e mw
                | (mw, Inr vol) \<Rightarrow> ((se_marshal E (Some (vi_Name vol)), None), mw))))"

definition volume_Deprovision :: "'w StorageEnv \<Rightarrow> ('s, 'w storage_world) action" where
  "volume_Deprovision E ctx s wl mw =
     (let volumeName = wi_ID wl in
      case se_Volume E (wl_Data (wi_Workload wl)) of
        Inl e \<Rightarrow> (Some (Wrap ''failed to parse workload data as volume'' e), mw)
      | Inr _ \<Rightarrow>
          (case VolumeExists (se_host E) volumeName mw of
             (mw, Inl e) \<Rightarrow> (Some (Wrap (''failed to lookup volume '' @ qquote volumeName) e), mw)
           | (mw, Inr False) \<Rightarrow> (Some (missingVolume volumeName), mw)
           | (mw, Inr True) \<Rightarrow>
               (case VolumeDelete (se_host E) volumeName mw of (mw, r) \<Rightarrow> (errOf r, mw))))"

definition volume_Update :: "'w StorageEnv \<Rightarrow> ('s, 'w storage_world) provide" where
  "volume_Update E ctx s wl mw =
     (let failed = (\<lambda>e mw. ((se_marshal E None, Some e), mw)); volumeName = wi_ID wl;
          lookup = Wrap (''failed to lookup volume '' @ qquote volumeName) in
      case se_Volume E (wl_Data (wi_Workload wl)) of
        Inl e \<Rightarrow> failed (Wrap ''failed to parse workload data as volume'' e) mw
      | Inr volume \<Rightarrow>
          (case VolumeExists (se_host E) volumeName mw of
             (mw, Inl e) \<Rightarrow> failed (lookup e) mw
           | (mw, Inr False) \<Rightarrow> failed (missingVolume volumeName) mw
           | (mw, Inr True) \<Rightarrow>
               (case VolumeLookup (se_host E) volumeName mw of
                  (mw, Inl e) \<Rightarrow> failed (lookup e) mw
                | (mw, Inr vol) \<Rightarrow>
                    if vol_Size volume < us_Size (vi_Usage vol) then
                      failed (Errorf (''cannot shrink volume to be less than provisioned space. old: ''
                        @ dec (unat (us_Size (vi_Usage vol))) @ '', requested: '' @ dec (unat (vol_Size volume)))) mw
                    else (case VolumeUpdate (se_host E) volumeName (vol_Size volume) mw of
                      (mw, Inl e) \<Rightarrow> failed (Wrap (''failed to update volume '' @ qquote volumeName) e) mw
                    | (mw, Inr _) \<Rightarrow> ((se_marshal E (Some volumeName), None), mw)))))"

definition volumeManager :: "'w StorageEnv \<Rightarrow> ('s, 'w storage_world) Manager" where
  "volumeManager E = \<lparr>mgr_Provision = volume_Provision E, mgr_Deprovision = volume_Deprovision E,
     mgr_Initializer = None, mgr_Updater = Some (volume_Update E), mgr_Pauser = None\<rparr>"

end
