(* ===== verification/PublicIPs.thy ===== *)
theory PublicIPs
  imports StorageManagers
begin

text \<open>
  Public addresses, \<open>pkg/primitives/pubip/public_ip.go\<close>: a workload gets one of the addresses the
  contract reserves, and its interface a hardware address made from its name
  (\<open>pkg/network/ifaceutil/mac.go\<close>).
\<close>

unbundle bit_operations_syntax

section \<open>Hardware addresses (mac.go)\<close>

definition macPUR1 :: bytes where "macPUR1 = map char_of [0x00, 0x51, 0xff :: nat]"
definition macPLR1 :: bytes where "macPLR1 = map char_of [0x00, 0x03 :: nat]"
definition macPUR2 :: bytes where "macPUR2 = map char_of [0x90, 0x00, 0xff :: nat]"
definition macPR2EL :: bytes where "macPR2EL = map char_of [0x33, 0x33 :: nat]"
definition macPLR2 :: bytes where "macPLR2 = map char_of [0x00, 0x54 :: nat]"
definition macPUR3 :: bytes where "macPUR3 = map char_of [0xff, 0xff, 0xff, 0xff, 0xff, 0xfe :: nat]"
definition macPLR3 :: bytes where "macPLR3 = map char_of [0x90, 0x02 :: nat]"

text \<open>The upper bounds are compared with the last bytes of the address, the lower ones with the first.\<close>

definition isHardwareAddrInValidRange :: "bytes \<Rightarrow> bool" where
  "isHardwareAddrInValidRange addr =
     (if drop 3 addr \<le> macPUR1 then macPLR1 \<le> take 2 addr
      else if drop 3 addr \<le> macPUR2 then macPLR2 \<le> take 2 addr \<and> macPR2EL \<noteq> take 2 addr
      else addr \<le> macPUR3 \<and> macPLR3 \<le> take 2 addr)"

text \<open>\<open>(b | 2) & 0xfe\<close>: the local bit is set, the multicast bit is cleared.\<close>

definition localUnicast :: "char \<Rightarrow> char" where
  "localUnicast c = char_of ((of_char c OR 2) AND 0xfe :: nat)"

text \<open>The inner loop, which changes the hash in place; the first argument is the number of offsets
  that are left, up to \<open>hwMaxHashOffset\<close>.\<close>

fun scanHash :: "nat \<Rightarrow> bytes \<Rightarrow> nat \<Rightarrow> bytes \<times> bytes option" where
  "scanHash left hs offset =
     (let hs = hs[offset := localUnicast (hs ! offset)]; addr = take 6 (drop offset hs) in
      if isHardwareAddrInValidRange addr then (hs, Some addr)
      else case left of 0 \<Rightarrow> (hs, None) | Suc k \<Rightarrow> scanHash k hs (offset + 1))"

declare scanHash.simps [simp del]

partial_function (option) HardwareAddrFromInputBytes :: "(bytes \<Rightarrow> bytes) \<Rightarrow> bytes \<Rightarrow> bytes option" where
  [code]: "HardwareAddrFromInputBytes md5 b = (case scanHash 10 (md5 b) 0 of (hs, found) \<Rightarrow>
     (case found of Some addr \<Rightarrow> Some addr | None \<Rightarrow> HardwareAddrFromInputBytes md5 hs))"

text \<open>\<open>HardwareAddr.String\<close>.\<close>

definition HardwareAddr_String :: "bytes \<Rightarrow> string" where
  "HardwareAddr_String a = joinWith '':'' (map (\<lambda>c. hex_encode [c]) a)"


section \<open>What the manager calls\<close>

text \<open>
  Hash and base-58 text, \<open>json.Unmarshal\<close> and \<open>json.Marshal\<close>, \<open>net.ParseCIDR\<close> (the address and
  the network), \<open>net.ParseIP\<close> (\<open>[]\<close> for nil), and the operations of networkd.
\<close>

record 'w PubEnv =
  pi_md5 :: "bytes \<Rightarrow> bytes"
  pi_base58 :: "bytes \<Rightarrow> string"
  pi_unmarshal :: "bytes \<Rightarrow> PublicIP result"
  pi_unmarshalResult :: "bytes \<Rightarrow> PublicIPResult result"
  pi_ParseCIDR :: "string \<Rightarrow> (bytes \<times> IPNet) result"
  pi_parseIP :: "string \<Rightarrow> bytes"
  pi_PubIPFilterExists :: "string \<Rightarrow> 'w \<Rightarrow> bool"
  pi_GetPublicIPv6Subnet :: "'w \<Rightarrow> IPNet result"
  pi_SetupPubIPFilter :: "string \<Rightarrow> string \<Rightarrow> bytes \<Rightarrow> bytes \<Rightarrow> string \<Rightarrow> 'w \<Rightarrow> 'w \<times> unit result"
  pi_RemovePubIPFilter :: "string \<Rightarrow> 'w \<Rightarrow> 'w \<times> unit result"
  pi_DisconnectPubTap :: "string \<Rightarrow> 'w \<Rightarrow> 'w \<times> unit result"

definition noIPNet :: IPNet where
  "noIPNet = \<lparr>net_IP = [], net_Mask = []\<rparr>"

definition noPublicIPResult :: PublicIPResult where
  "noPublicIPResult = \<lparr>pir_IP = noIPNet, pir_IPv6 = noIPNet, pir_Gateway = []\<rparr>"

text \<open>\<open>gridtypes.ParseIPNet\<close> (common.go).\<close>

definition ParseIPNet :: "'w PubEnv \<Rightarrow> string \<Rightarrow> IPNet result" where
  "ParseIPNet E txt = (if txt = [] then Ok noIPNet
     else rbind (pi_ParseCIDR E txt) (\<lambda>(ip, net). Ok (net\<lparr>net_IP := ip\<rparr>)))"


section \<open>The address of a workload\<close>

definition getPublicIPData :: "'w PubEnv \<Rightarrow> WorkloadWithID \<Rightarrow> PublicIP result" where
  "getPublicIPData E wl =
     (let t = wl_Type (wi_Workload wl) in
      if t = PublicIPv4Type then Ok \<lparr>pip_V4 = True, pip_V6 = False\<rparr>
      else if t = PublicIPType then pi_unmarshal E (wl_Data (wi_Workload wl))
      else Err (Errorf (''invalid workload type expecting ('' @ PublicIPv4Type @ '' or '' @ PublicIPType @ '') got '' @ squote t)))"

definition GetPubIPConfig :: "'w PubEnv \<Rightarrow> WorkloadWithID \<Rightarrow> PublicIPResult result" where
  "GetPubIPConfig E wl =
     (let t = wl_Type (wi_Workload wl); result = wl_Result (wi_Workload wl) in
      rbind (fail_if (t \<noteq> PublicIPv4Type \<and> t \<noteq> PublicIPType) (Errorf ''workload for public IP is of wrong type'')) (\<lambda>_.
      rbind (fail_if (State result \<noteq> StateOk) (Errorf ''public ip workload is not okay'')) (\<lambda>_.
      rwrap ''failed to load ip result'' (pi_unmarshalResult E (Data result)))))"

text \<open>The addresses the other workloads of the deployment use.\<close>

fun usedIPs :: "'w PubEnv \<Rightarrow> Name \<Rightarrow> WorkloadWithID list \<Rightarrow> string list result" where
  "usedIPs E name [] = Ok []"
| "usedIPs E name (ipWl # wls) =
     (if name = wl_Name (wi_Workload ipWl) then usedIPs E name wls
      else if Result_IsNil (wl_Result (wi_Workload ipWl)) \<or> State (wl_Result (wi_Workload ipWl)) \<noteq> StateOk then usedIPs E name wls
      else rbind (GetPubIPConfig E ipWl) (\<lambda>used. rmap (\<lambda>us. IPNet_String (pir_IP used) # us) (usedIPs E name wls)))"

fun pickReserved :: "'w PubEnv \<Rightarrow> string list \<Rightarrow> (string \<times> string) list \<Rightarrow> (IPNet \<times> bytes) result" where
  "pickReserved E used [] = Err (Errorf ''could not allocate public IP address to workload'')"
| "pickReserved E used ((reservedIP, gateway) # rest) =
     (if reservedIP \<in> set used then pickReserved E used rest
      else case ParseIPNet E reservedIP of
        Inl _ \<Rightarrow> Err (Errorf (''found a malformed ip address in contract object '' @ squote ''<nil>''))
      | Inr ip \<Rightarrow>
          let gw = pi_parseIP E gateway in
          if gw = [] then Err (Errorf (''found a malformed gateway address in farm object '' @ squote gateway))
          else Ok (ip, gw))"

definition assigned :: "Result \<Rightarrow> bool" where
  "assigned r \<longleftrightarrow> \<not> Result_IsNil r \<and> State r = StateOk"

definition getAssignedPublicIP :: "'w PubEnv \<Rightarrow> 's Storage \<Rightarrow> Ctx \<Rightarrow> 's \<Rightarrow> WorkloadWithID \<Rightarrow> (IPNet \<times> bytes) result" where
  "getAssignedPublicIP E S ctx s wl =
     (let result = wl_Result (wi_Workload wl) in
      if assigned result then
        rbind (rwrap ''failed to load public ip result'' (pi_unmarshalResult E (Data result))) (\<lambda>r. Ok (pir_IP r, pir_Gateway r))
      else
        rbind (rwrap ''failed to get deployment'' (GetDeployment S ctx s)) (\<lambda>deployment.
        rbind (GetContract ctx) (\<lambda>contract.
        let reserved = nc_PublicIPs contract; ipWorkloads = Deployment_ByType deployment [PublicIPv4Type, PublicIPType] in
        rbind (rlist (getPublicIPData E) ipWorkloads) (\<lambda>configs.
        rbind (fail_if (length (filter pip_V4 configs) > length reserved)
          (Errorf (''required '' @ dec (length ipWorkloads) @ '' ips while contract has '' @ dec (length reserved) @ '' ip reserved''))) (\<lambda>_.
        rbind (usedIPs E (wl_Name (wi_Workload wl)) ipWorkloads) (\<lambda>used. pickReserved E used reserved))))))"

text \<open>\<open>predictedSlaac\<close>: the address an interface gives itself, from the prefix and the hardware address.\<close>

definition predictedSlaac :: "IPNet \<Rightarrow> string \<Rightarrow> IPNet result" where
  "predictedSlaac base mac = (case hex_decode (filter (\<lambda>c. c \<noteq> CHR '':'') mac) of
     Inl _ \<Rightarrow> Err (Errorf (''Could not parse MAC address '' @ mac))
   | Inr hw \<Rightarrow>
       if length hw < 6 \<or> length (net_IP base) < 16 then Err (Panic ''index out of range'')
       else Ok (base\<lparr>net_IP := (net_IP base)[8 := char_of (of_char (hw ! 0) XOR 2 :: nat), 9 := hw ! 1, 10 := hw ! 2,
         11 := char_of (0xff :: nat), 12 := char_of (0xfe :: nat), 13 := hw ! 3, 14 := hw ! 4, 15 := hw ! 5]\<rparr>))"


section \<open>The manager\<close>

definition pubTap :: "'w PubEnv \<Rightarrow> WorkloadWithID \<Rightarrow> string" where
  "pubTap E wl = WorkloadID_Unique (pi_md5 E) (pi_base58 E) (wi_ID wl) ''pub''"

definition filterName :: "string \<Rightarrow> string" where
  "filterName reservationID = ''r-'' @ reservationID"

text \<open>\<open>publicIPProvisionImpl\<close>: it does not return when the search for a hardware address does not end.\<close>

definition publicIPProvisionImpl ::
    "'w PubEnv \<Rightarrow> 's Storage \<Rightarrow> Ctx \<Rightarrow> 's \<Rightarrow> WorkloadWithID \<Rightarrow> 'w \<Rightarrow> ('w \<times> PublicIPResult \<times> err option) option" where
  "publicIPProvisionImpl E S ctx s wl w =
     (let tapName = pubTap E wl; fName = filterName tapName; failed = (\<lambda>e. Some (w, noPublicIPResult, Some e)) in
      case getPublicIPData E wl of
        Inl e \<Rightarrow> failed e
      | Inr config \<Rightarrow>
          if pi_PubIPFilterExists E fName w then failed ErrNoActionNeeded
          else (case HardwareAddrFromInputBytes (pi_md5 E) tapName of
            None \<Rightarrow> None
          | Some mac \<Rightarrow>
              (case (if pip_V6 config then
                       rbind (rwrap ''could not look up ipv6 prefix'' (pi_GetPublicIPv6Subnet E w)) (\<lambda>base.
                       rwrap ''could not compute ipv6 valu'' (predictedSlaac base (HardwareAddr_String mac)))
                     else Ok noIPNet) of
                 Inl e \<Rightarrow> failed e
               | Inr ipv6 \<Rightarrow>
                   (case (if pip_V4 config then getAssignedPublicIP E S ctx s wl else Ok (noIPNet, [])) of
                      Inl e \<Rightarrow> failed e
                    | Inr (ipv4, gw4) \<Rightarrow>
                        (case pi_SetupPubIPFilter E fName (''p-'' @ tapName) (net_IP ipv4) (net_IP ipv6) (HardwareAddr_String mac) w of
                           (w, r) \<Rightarrow> Some (w, \<lparr>pir_IP = ipv4, pir_IPv6 = ipv6, pir_Gateway = gw4\<rparr>, errOf r))))))"

definition pubip_Deprovision :: "'w PubEnv \<Rightarrow> ('s, 'w) action" where
  "pubip_Deprovision E ctx s wl w =
     (case pi_DisconnectPubTap E (pubTap E wl) (fst (pi_RemovePubIPFilter E (filterName (pubTap E wl)) w)) of (w, r) \<Rightarrow> (errOf r, w))"

end
