(* ===== verification/PublicIPProps.thy ===== *)
theory PublicIPProps
  imports PublicIPs
begin

text \<open>
  The properties of public addresses: hardware addresses are local unicast addresses, the
  address of an interface is made from its prefix and hardware address, and workloads of a
  deployment do not share an address of the contract.
\<close>

unbundle bit_operations_syntax

section \<open>Hardware addresses\<close>

lemma localUnicast_bits: "(of_char (localUnicast c) :: nat) mod 4 = 2"
proof -
  let ?n = "(of_char c OR 2) AND 254 :: nat"
  have "bit ?n 1" by (simp add: bit_and_iff bit_or_iff bit_simps)
  then have "odd (?n div 2)" by (simp add: bit_iff_odd)
  moreover have "even ?n" by (simp add: even_and_iff)
  ultimately have "?n mod 4 = 2" by presburger
  then show ?thesis by (simp add: localUnicast_def mod_mod_cancel)
qed

definition localMac :: "bytes \<Rightarrow> bool" where
  "localMac a \<longleftrightarrow> length a = 6 \<and> (of_char (hd a) :: nat) mod 4 = 2 \<and> isHardwareAddrInValidRange a"

lemma scanHash_local:
  assumes "scanHash left hs offset = (hs', Some a)" and "offset + left + 6 \<le> length hs"
  shows "localMac a"
  using assms
proof (induction left arbitrary: hs offset)
  case 0
  let ?hs = "hs[offset := localUnicast (hs ! offset)]"
  have "take 6 (drop offset ?hs) \<noteq> []" "hd (take 6 (drop offset ?hs)) = localUnicast (hs ! offset)"
    using 0(2) by (auto simp: hd_drop_conv_nth)
  then show ?case
    using 0 by (auto simp: scanHash.simps[of 0] localMac_def Let_def localUnicast_bits split: if_splits)
next
  case (Suc k)
  let ?hs = "hs[offset := localUnicast (hs ! offset)]"
  have "hd (take 6 (drop offset ?hs)) = localUnicast (hs ! offset)" using Suc.prems(2) by (auto simp: hd_drop_conv_nth)
  then show ?case
    using Suc.prems Suc.IH[of ?hs "offset + 1"]
    by (auto simp: scanHash.simps[of "Suc k"] localMac_def Let_def localUnicast_bits split: if_splits)
qed

lemma hardware_addr_local:
  assumes "\<And>b. length (md5 b) = 16" and "HardwareAddrFromInputBytes md5 b = Some a"
  shows "localMac a"
proof -
  have "(\<forall>b. length (md5 b) = 16) \<longrightarrow> localMac a"
  proof (rule HardwareAddrFromInputBytes.raw_induct[where P = "\<lambda>md5 b a. (\<forall>b. length (md5 b) = 16) \<longrightarrow> localMac a", OF _ assms(2)],
      intro impI)
    fix f md5 b y
    assume ih: "\<And>md5 b y. f md5 b = Some y \<Longrightarrow> (\<forall>b. length (md5 b) = 16) \<longrightarrow> localMac y" and len: "\<forall>b. length (md5 b) = 16"
      and run: "(case scanHash 10 (md5 b) 0 of (hs, found) \<Rightarrow> case found of None \<Rightarrow> f md5 hs | Some addr \<Rightarrow> Some addr) = Some y"
    obtain hs found where sc: "scanHash 10 (md5 b) 0 = (hs, found)" by (meson surj_pair)
    show "localMac y"
    proof (cases found)
      case None
      with run sc ih len show ?thesis by simp
    next
      case (Some addr)
      with run sc len scanHash_local[of 10 "md5 b" 0 hs addr] show ?thesis by simp
    qed
  qed
  with assms(1) show ?thesis by simp
qed

section \<open>Addresses of interfaces\<close>

lemma hex_no_colon: "filter (\<lambda>c. c \<noteq> CHR '':'') (hex_encode bs) = hex_encode bs"
proof (induction bs)
  case (Cons c cs)
  have "hex_val CHR '':'' = None" by code_simp
  then have "hex_digit n \<noteq> CHR '':''" if "n < 16" for n using hex_val_hex_digit[OF that] by auto
  moreover have "of_char c div 16 < (16 :: nat)" "of_char c mod 16 < (16 :: nat)" using nat_of_char_less_256[of c] by linarith+
  ultimately show ?case using Cons by simp
qed simp

lemma mac_text: "filter (\<lambda>c. c \<noteq> CHR '':'') (HardwareAddr_String a) = hex_encode a"
proof -
  have one: "filter (\<lambda>c. c \<noteq> CHR '':'') [hex_digit (of_char c div 16), hex_digit (of_char c mod 16)] =
      [hex_digit (of_char c div 16), hex_digit (of_char c mod 16)]" for c :: char
    using hex_no_colon[of "[c]"] by simp
  have "filter (\<lambda>c. c \<noteq> CHR '':'') (joinWith '':'' (map (\<lambda>c. hex_encode [c]) a)) = hex_encode a"
  proof (induction a rule: induct_list012)
    case (3 x y zs)
    then show ?case using one[of x] by (simp split: if_splits)
  qed (use one in \<open>simp_all split: if_splits\<close>)
  then show ?thesis by (simp add: HardwareAddr_String_def)
qed

lemma slaac_value:
  assumes "length (net_IP base) = 16" and "length mac = 6"
  shows "predictedSlaac base (HardwareAddr_String mac) = Ok (base\<lparr>net_IP := take 8 (net_IP base) @
    [char_of (of_char (mac ! 0) XOR 2 :: nat), mac ! 1, mac ! 2, char_of (0xff :: nat), char_of (0xfe :: nat), mac ! 3, mac ! 4, mac ! 5]\<rparr>)"
  using assms by (simp add: predictedSlaac_def mac_text list_eq_iff_nth_eq nth_list_update nth_append less_Suc_eq_le)

lemma flip_local:
  assumes "(of_char c :: nat) mod 4 = 2"
  shows "(of_char (char_of (of_char c XOR 2 :: nat)) :: nat) mod 4 = 0"
proof -
  let ?n = "of_char c :: nat"
  have "even ?n" "odd (?n div 2)" using assms by presburger+
  then have "bit ?n 1" by (simp add: bit_iff_odd)
  then have "\<not> bit (?n XOR 2) 1" by (simp add: bit_xor_iff bit_simps)
  then have "even ((?n XOR 2) div 2)" by (simp add: bit_iff_odd)
  moreover have "even (?n XOR 2)" using \<open>even ?n\<close> by (simp add: even_xor_iff)
  ultimately have "(?n XOR 2) mod 4 = 0" by presburger
  then show ?thesis by (simp add: mod_mod_cancel)
qed

section \<open>Reserved addresses\<close>

text \<open>A workload, other than one of a name, whose address is in use.\<close>

definition othersUse :: "Name \<Rightarrow> WorkloadWithID \<Rightarrow> bool" where
  "othersUse name w \<longleftrightarrow> wl_Name (wi_Workload w) \<noteq> name \<and> assigned (wl_Result (wi_Workload w))"

lemma pubip_config:
  "GetPubIPConfig E w = Ok used \<Longrightarrow> pi_unmarshalResult E (Data (wl_Result (wi_Workload w))) = Ok used"
  by (auto simp: GetPubIPConfig_def Let_def rbind_Ok_iff)

lemma used_step:
  "usedIPs E name (w # wls) = (if othersUse name w
     then rbind (GetPubIPConfig E w) (\<lambda>used. rmap (\<lambda>us. IPNet_String (pir_IP used) # us) (usedIPs E name wls))
     else usedIPs E name wls)"
  by (auto simp: othersUse_def assigned_def)

definition usedOf :: "'w PubEnv \<Rightarrow> Name \<Rightarrow> WorkloadWithID list \<Rightarrow> string set" where
  "usedOf E name wls = {t. \<exists>w u. w \<in> set wls \<and> othersUse name w \<and> GetPubIPConfig E w = Ok u \<and> t = IPNet_String (pir_IP u)}"

lemma usedOf_Cons:
  "usedOf E name (w # wls) = (case GetPubIPConfig E w of
     Inl _ \<Rightarrow> usedOf E name wls | Inr u \<Rightarrow> if othersUse name w then insert (IPNet_String (pir_IP u)) (usedOf E name wls) else usedOf E name wls)"
  by (cases "GetPubIPConfig E w") (auto simp: usedOf_def)

lemma used_Ok:
  "usedIPs E name wls = Ok used \<Longrightarrow>
     set used = usedOf E name wls \<and> (\<forall>w \<in> set wls. othersUse name w \<longrightarrow> is_ok (GetPubIPConfig E w))"
proof (induction wls arbitrary: used)
  case (Cons w wls)
  show ?case
  proof (cases "othersUse name w")
    case True
    with Cons.prems obtain u us where "GetPubIPConfig E w = Ok u" "usedIPs E name wls = Ok us" "used = IPNet_String (pir_IP u) # us"
      unfolding used_step by (auto simp: rbind_Ok_iff rmap_Ok_iff)
    with Cons.IH[of us] True show ?thesis by (simp add: usedOf_Cons)
  next
    case False
    with Cons.prems Cons.IH[of used] show ?thesis unfolding used_step by (simp add: usedOf_Cons split: sum.splits)
  qed
qed (simp add: usedOf_def)

lemma pick_Ok:
  "pickReserved E used reserved = Ok (ip, gw) \<Longrightarrow>
     \<exists>addr g. (addr, g) \<in> set reserved \<and> addr \<notin> set used \<and> ParseIPNet E addr = Ok ip \<and> pi_parseIP E g = gw \<and> gw \<noteq> []"
  by (induction E used reserved rule: pickReserved.induct) (auto simp: Let_def split: if_splits sum.splits)

lemma pick_free:
  assumes "\<exists>(addr, g) \<in> set reserved. addr \<notin> set used"
    and "\<forall>(addr, g) \<in> set reserved. is_ok (ParseIPNet E addr) \<and> pi_parseIP E g \<noteq> []"
  shows "is_ok (pickReserved E used reserved)"
  using assms by (induction E used reserved rule: pickReserved.induct) (auto simp: Let_def split: sum.splits)

text \<open>There is a free address: fewer addresses are in use than are reserved.\<close>

lemma free_reserved:
  assumes "distinct (map fst reserved)" and "card (set used \<inter> fst ` set reserved) < length reserved"
  shows "\<exists>(addr, g) \<in> set reserved. addr \<notin> set used"
proof (rule ccontr)
  assume "\<not> ?thesis"
  then have "fst ` set reserved \<subseteq> set used" by auto
  then have "set used \<inter> fst ` set reserved = fst ` set reserved" by blast
  moreover have "card (fst ` set reserved) = length reserved" using distinct_card[OF assms(1)] by simp
  ultimately show False using assms(2) by simp
qed

lemma used_bound:
  assumes "usedIPs E name wls = Ok used" and "rlist (getPublicIPData E) wls = Ok configs"
    and "w0 \<in> set wls" and "wl_Name (wi_Workload w0) = name" and "getPublicIPData E w0 = Ok c0" and "pip_V4 c0"
    and "\<And>w c u. w \<in> set wls \<Longrightarrow> getPublicIPData E w = Ok c \<Longrightarrow> \<not> pip_V4 c \<Longrightarrow> GetPubIPConfig E w = Ok u \<Longrightarrow> IPNet_String (pir_IP u) \<notin> R"
  shows "card (set used \<inter> R) < length (filter pip_V4 configs)"
proof -
  let ?v4 = "\<lambda>w. case getPublicIPData E w of Inl _ \<Rightarrow> False | Inr c \<Rightarrow> pip_V4 c"
  have all2: "list_all2 (\<lambda>w c. getPublicIPData E w = Ok c) wls configs" using assms(2) by (simp add: rlist_Ok_iff)
  then have len: "length (filter pip_V4 configs) = length (filter ?v4 wls)"
    by (induction rule: list_all2_induct) auto
  let ?S = "{w \<in> set wls. ?v4 w \<and> othersUse name w}"
  have ok: "\<exists>c. getPublicIPData E w = Ok c" if "w \<in> set wls" for w
    using all2 that by (induction rule: list_all2_induct) auto
  have "set used \<inter> R \<subseteq> (\<lambda>w. case GetPubIPConfig E w of Inl _ \<Rightarrow> [] | Inr u \<Rightarrow> IPNet_String (pir_IP u)) ` ?S"
  proof
    fix t assume t: "t \<in> set used \<inter> R"
    then obtain u w where w: "t = IPNet_String (pir_IP u)" "w \<in> set wls" "othersUse name w" "GetPubIPConfig E w = Ok u"
      using used_Ok[OF assms(1)] by (auto simp: usedOf_def)
    obtain c where c: "getPublicIPData E w = Ok c" using ok[OF w(2)] by blast
    with assms(7)[OF w(2) c _ w(4)] t w(1) have "pip_V4 c" by auto
    with w c show "t \<in> (\<lambda>w. case GetPubIPConfig E w of Inl _ \<Rightarrow> [] | Inr u \<Rightarrow> IPNet_String (pir_IP u)) ` ?S"
      by (intro image_eqI[of _ _ w]) simp_all
  qed
  then have "card (set used \<inter> R) \<le> card ?S" by (rule surj_card_le[rotated]) simp
  also have "card ?S < card (set (filter ?v4 wls))"
  proof (rule psubset_card_mono)
    have "w0 \<in> set (filter ?v4 wls)" "w0 \<notin> ?S" using assms(3-6) by (simp_all add: othersUse_def)
    then show "?S \<subset> set (filter ?v4 wls)" by fastforce
  qed simp
  also have "\<dots> \<le> length (filter ?v4 wls)" by (rule card_length)
  finally show ?thesis using len by simp
qed

section \<open>Sample data\<close>

text \<open>A contract with two addresses, and a deployment with two address workloads: \<open>aaa\<close> has the first
  address, in a given state, \<open>bbb\<close> has none yet.\<close>

definition sampleNet :: "nat \<Rightarrow> IPNet" where
  "sampleNet n = \<lparr>net_IP = map char_of [185, 69, 166, n], net_Mask = map char_of [255, 255, 255, 0 :: nat]\<rparr>"

definition samplePub :: "unit PubEnv" where
  "samplePub = \<lparr>pi_md5 = (\<lambda>b. replicate 16 (char_of (0x94 :: nat))), pi_base58 = (\<lambda>b. ''tap''),
     pi_unmarshal = (\<lambda>d. Ok \<lparr>pip_V4 = True, pip_V6 = False\<rparr>),
     pi_unmarshalResult = (\<lambda>d. Ok \<lparr>pir_IP = sampleNet (if d = ''1'' then 1 else 2), pir_IPv6 = noIPNet, pir_Gateway = ''g''\<rparr>),
     pi_ParseCIDR = (\<lambda>t. if t = ''185.69.166.1/24'' then Ok (net_IP (sampleNet 1), sampleNet 0)
       else if t = ''185.69.166.2/24'' then Ok (net_IP (sampleNet 2), sampleNet 0) else Err (Errorf ''invalid CIDR address'')),
     pi_parseIP = (\<lambda>t. map char_of [185, 69, 166, 254 :: nat]), pi_PubIPFilterExists = (\<lambda>n w. False),
     pi_GetPublicIPv6Subnet = (\<lambda>w. Err (Errorf ''no public ipv6'')), pi_SetupPubIPFilter = (\<lambda>f i a b m w. (w, Ok ())),
     pi_RemovePubIPFilter = (\<lambda>f w. (w, Ok ())), pi_DisconnectPubTap = (\<lambda>t w. (w, Ok ()))\<rparr>"

definition sampleAddr :: "Name \<Rightarrow> ResultState \<Rightarrow> bytes \<Rightarrow> Workload" where
  "sampleAddr name st d = \<lparr>wl_Version = 0, wl_Name = name, wl_Type = PublicIPType, wl_Data = [], wl_Metadata = [], wl_Description = [],
     wl_Result = noResult\<lparr>State := st, Data := d\<rparr>\<rparr>"

definition samplePubCtx :: Ctx where
  "samplePubCtx = withContract (withDeployment background 7 9) \<lparr>nc_Node = 3, nc_DeploymentHash = [],
     nc_PublicIPs = [(''185.69.166.1/24'', ''185.69.166.254''), (''185.69.166.2/24'', ''185.69.166.254'')]\<rparr>"

definition sampleHolding :: "ResultState \<Rightarrow> unit Storage" where
  "sampleHolding st = sampleStorage (\<lambda>twin contract. Ok (sample_net\<lparr>dl_TwinID := twin, dl_ContractID := contract,
     dl_Workloads := [sampleAddr ''aaa'' st ''1'', sampleAddr ''bbb'' [] []]\<rparr>)) (\<lambda>_. Err ErrWorkloadNotExist)"

definition sampleNew :: WorkloadWithID where
  "sampleNew = \<lparr>wi_Workload = sampleAddr ''bbb'' [] [], wi_ID = ''7-9-bbb''\<rparr>"

section \<open>Claims\<close>

text \<open>C8: workloads do not share a public address. The address that is chosen for a workload that has
  none is one that the contract reserves, with its gateway, and no other address workload of
  the deployment that is in the state ok has an address with the same text; so none has the same address,
  where the contract has addresses the way they are printed.\<close>

theorem public_ip_exclusive:
  assumes "getAssignedPublicIP E S ctx s wl = Ok (ip, gw)" and "\<not> assigned (wl_Result (wi_Workload wl))"
  shows "\<exists>dl nc addr g. GetDeployment S ctx s = Ok dl \<and> GetContract ctx = Ok nc \<and> (addr, g) \<in> set (nc_PublicIPs nc) \<and>
    ParseIPNet E addr = Ok ip \<and> pi_parseIP E g = gw \<and> gw \<noteq> [] \<and>
    (\<forall>w \<in> set (Deployment_ByType dl [PublicIPv4Type, PublicIPType]). othersUse (wl_Name (wi_Workload wl)) w \<longrightarrow>
      (\<exists>used. pi_unmarshalResult E (Data (wl_Result (wi_Workload w))) = Ok used \<and> IPNet_String (pir_IP used) \<noteq> addr \<and>
        (IPNet_String ip = addr \<longrightarrow> pir_IP used \<noteq> ip)))"
proof -
  obtain dl nc configs used where d: "GetDeployment S ctx s = Ok dl" "GetContract ctx = Ok nc"
    "usedIPs E (wl_Name (wi_Workload wl)) (Deployment_ByType dl [PublicIPv4Type, PublicIPType]) = Ok used"
    "pickReserved E used (nc_PublicIPs nc) = Ok (ip, gw)"
    using assms by (auto simp: getAssignedPublicIP_def Let_def rbind_Ok_iff)
  obtain addr g where t: "(addr, g) \<in> set (nc_PublicIPs nc)" "addr \<notin> set used" "ParseIPNet E addr = Ok ip" "pi_parseIP E g = gw" "gw \<noteq> []"
    using pick_Ok[OF d(4)] by blast
  have "\<exists>u. pi_unmarshalResult E (Data (wl_Result (wi_Workload w))) = Ok u \<and> IPNet_String (pir_IP u) \<noteq> addr \<and> (IPNet_String ip = addr \<longrightarrow> pir_IP u \<noteq> ip)"
    if w: "w \<in> set (Deployment_ByType dl [PublicIPv4Type, PublicIPType])" "othersUse (wl_Name (wi_Workload wl)) w" for w
  proof -
    obtain u where u: "GetPubIPConfig E w = Ok u" using used_Ok[OF d(3)] w by (auto simp: is_ok_iff)
    with w have "IPNet_String (pir_IP u) \<in> set used" using used_Ok[OF d(3)] by (auto simp: usedOf_def)
    with t(2) pubip_config[OF u] show ?thesis by auto
  qed
  with d(1,2) t(1,3-5) show ?thesis by blast
qed

theorem public_ip_exclusive_witness:
  "getAssignedPublicIP samplePub (sampleHolding StateOk) samplePubCtx () sampleNew = Ok (sampleNet 2, map char_of [185, 69, 166, 254 :: nat]) \<and>
   (\<exists>dl nc addr g. GetDeployment (sampleHolding StateOk) samplePubCtx () = Ok dl \<and> GetContract samplePubCtx = Ok nc \<and>
     (addr, g) \<in> set (nc_PublicIPs nc) \<and> ParseIPNet samplePub addr = Ok (sampleNet 2))"
proof -
  have run: "getAssignedPublicIP samplePub (sampleHolding StateOk) samplePubCtx () sampleNew = Ok (sampleNet 2, map char_of [185, 69, 166, 254 :: nat])"
    by code_simp
  have "\<not> assigned (wl_Result (wi_Workload sampleNew))" by code_simp
  from public_ip_exclusive[OF run this] run show ?thesis by blast
qed

text \<open>C15: a reserved address is found. When the contract reserves at least as many addresses as the
  deployment has workloads that want one, all different and well formed, the workload is one of
  these, the data and the results of the workloads decode, and a workload that wants no IPv4
  address has no reserved one in its result, then a workload that has no address gets one.\<close>

theorem public_ip_available:
  assumes "\<not> assigned (wl_Result (wi_Workload wl))" and "GetDeployment S ctx s = Ok dl" and "GetContract ctx = Ok nc"
    and "ips = Deployment_ByType dl [PublicIPv4Type, PublicIPType]" and "rlist (getPublicIPData E) ips = Ok configs"
    and "length (filter pip_V4 configs) \<le> length (nc_PublicIPs nc)" and "distinct (map fst (nc_PublicIPs nc))"
    and "\<forall>(addr, g) \<in> set (nc_PublicIPs nc). is_ok (ParseIPNet E addr) \<and> pi_parseIP E g \<noteq> []"
    and "w0 \<in> set ips" and "wl_Name (wi_Workload w0) = wl_Name (wi_Workload wl)" and "getPublicIPData E w0 = Ok c0" and "pip_V4 c0"
    and "usedIPs E (wl_Name (wi_Workload wl)) ips = Ok used"
    and "\<And>w c u. w \<in> set ips \<Longrightarrow> getPublicIPData E w = Ok c \<Longrightarrow> \<not> pip_V4 c \<Longrightarrow> GetPubIPConfig E w = Ok u \<Longrightarrow>
      IPNet_String (pir_IP u) \<notin> fst ` set (nc_PublicIPs nc)"
  shows "\<exists>ip gw. getAssignedPublicIP E S ctx s wl = Ok (ip, gw)"
proof -
  have "card (set used \<inter> fst ` set (nc_PublicIPs nc)) < length (filter pip_V4 configs)"
    by (rule used_bound[OF assms(13,5,9,10,11,12)]) (rule assms(14))
  with assms(6) have "card (set used \<inter> fst ` set (nc_PublicIPs nc)) < length (nc_PublicIPs nc)" by simp
  from pick_free[OF free_reserved[OF assms(7) this] assms(8)]
  obtain ip gw where "pickReserved E used (nc_PublicIPs nc) = Ok (ip, gw)" by (auto simp: is_ok_iff)
  with assms(1-6,13) show ?thesis by (simp add: getAssignedPublicIP_def Let_def fail_if_def)
qed

theorem public_ip_available_witness:
  "\<exists>ip gw. getAssignedPublicIP samplePub (sampleHolding StateOk) samplePubCtx () sampleNew = Ok (ip, gw)"
proof -
  let ?S = "sampleHolding StateOk" and ?c = "\<lparr>pip_V4 = True, pip_V6 = False\<rparr>"
  let ?w = "\<lambda>n st d. \<lparr>wi_Workload = sampleAddr n st d, wi_ID = ''7-9-'' @ n\<rparr>"
  let ?dl = "sample_net\<lparr>dl_TwinID := 7, dl_ContractID := 9, dl_Workloads := [sampleAddr ''aaa'' StateOk ''1'', sampleAddr ''bbb'' [] []]\<rparr>"
  let ?nc = "\<lparr>nc_Node = 3, nc_DeploymentHash = [],
     nc_PublicIPs = [(''185.69.166.1/24'', ''185.69.166.254''), (''185.69.166.2/24'', ''185.69.166.254'')]\<rparr>"
  have new: "\<not> assigned (wl_Result (wi_Workload sampleNew))" "wl_Name (wi_Workload sampleNew) = ''bbb''" by code_simp+
  have ctx: "GetDeployment ?S samplePubCtx () = Ok ?dl" "GetContract samplePubCtx = Ok ?nc"
    by (simp_all add: GetDeployment_def samplePubCtx_def GetDeploymentID_def GetContract_def withContract_def withDeployment_def sampleHolding_def sampleStorage_def)
  have ips: "[?w ''aaa'' StateOk ''1'', ?w ''bbb'' [] []] = Deployment_ByType ?dl [PublicIPv4Type, PublicIPType]" by code_simp
  have data: "rlist (getPublicIPData samplePub) [?w ''aaa'' StateOk ''1'', ?w ''bbb'' [] []] = Ok [?c, ?c]"
    "getPublicIPData samplePub (?w ''bbb'' [] []) = Ok ?c" by code_simp+
  have used: "usedIPs samplePub (wl_Name (wi_Workload sampleNew)) [?w ''aaa'' StateOk ''1'', ?w ''bbb'' [] []] = Ok [''185.69.166.1/24'']" by code_simp
  have parse: "\<forall>(addr, g) \<in> set (nc_PublicIPs ?nc). is_ok (ParseIPNet samplePub addr) \<and> pi_parseIP samplePub g \<noteq> []" by code_simp
  have v4: "pip_V4 c" if "getPublicIPData samplePub w = Ok c" for w c
    using that by (auto simp: getPublicIPData_def samplePub_def Let_def split: if_splits)
  show ?thesis
    by (rule public_ip_available[OF new(1) ctx ips data(1) _ _ parse _ _ data(2) _ used]) (use new(2) v4 in \<open>auto simp: sampleAddr_def\<close>)
qed

text \<open>C38: the IPv6 address of a workload. For a hash of 16 bytes and a network of IPv6 (16 bytes): when the search for a hardware address ends, the address has
  six bytes, with the local bit set and the multicast bit clear, and the IPv6 address keeps the 64 bit
  prefix of the network and ends in the interface identifier of the hardware address: the bytes
  ff fe in its middle, and its first byte that of the hardware address with the local bit flipped, so
  that the bit is clear.\<close>

theorem ipv6_interface_identifier:
  assumes "\<And>b. length (md5 b) = 16" and "HardwareAddrFromInputBytes md5 b = Some mac" and "length (net_IP base) = 16"
  shows "length mac = 6 \<and> (of_char (mac ! 0) :: nat) mod 4 = 2 \<and> (\<exists>ip. predictedSlaac base (HardwareAddr_String mac) = Ok (base\<lparr>net_IP := ip\<rparr>) \<and>
    length ip = 16 \<and> take 8 ip = take 8 (net_IP base) \<and> (of_char (ip ! 8) :: nat) mod 4 = 0 \<and>
    ip ! 8 = char_of (of_char (mac ! 0) XOR 2 :: nat) \<and>
    drop 9 ip = [mac ! 1, mac ! 2, char_of (0xff :: nat), char_of (0xfe :: nat), mac ! 3, mac ! 4, mac ! 5])"
proof -
  have m: "length mac = 6" "(of_char (mac ! 0) :: nat) mod 4 = 2"
    using hardware_addr_local[OF assms(1,2)] by (cases mac; simp add: localMac_def)+
  show ?thesis
    using m assms(3) flip_local[OF m(2)] slaac_value[OF assms(3) m(1)] by (auto simp: nth_append)
qed

theorem ipv6_interface_identifier_witness:
  "\<exists>mac. HardwareAddrFromInputBytes (\<lambda>b. replicate 16 (char_of (0x94 :: nat))) ''tap'' = Some mac \<and> length mac = 6 \<and>
     (\<exists>ip. predictedSlaac \<lparr>net_IP = replicate 16 (char_of (0x20 :: nat)), net_Mask = []\<rparr> (HardwareAddr_String mac) =
       Ok \<lparr>net_IP = ip, net_Mask = []\<rparr> \<and> ip ! 8 = char_of (0x94 :: nat))"
proof -
  let ?md5 = "\<lambda>b :: bytes. replicate 16 (char_of (0x94 :: nat))" and ?base = "\<lparr>net_IP = replicate 16 (char_of (0x20 :: nat)), net_Mask = []\<rparr>"
  have "snd (scanHash 10 (replicate 16 (char_of (0x94 :: nat))) 0) = Some (char_of (0x96 :: nat) # replicate 5 (char_of (0x94 :: nat)))" by code_simp
  then have mac: "HardwareAddrFromInputBytes ?md5 ''tap'' = Some (char_of (0x96 :: nat) # replicate 5 (char_of (0x94 :: nat)))"
    by (subst HardwareAddrFromInputBytes.simps) (simp only: case_prod_unfold option.case)
  have "length (?md5 b) = 16" for b by simp
  moreover have "char_of (of_char (char_of (0x96 :: nat) :: char) XOR 2 :: nat) = (char_of (0x94 :: nat) :: char)" by code_simp
  ultimately show ?thesis using ipv6_interface_identifier[OF _ mac, of ?base] mac by fastforce
qed

text \<open>Addresses of workloads that are paused count as free: when no other address workload is in the
  state ok, the first address of the contract is chosen, whatever the paused ones have.\<close>

lemma paused_addresses_free:
  assumes "\<not> assigned (wl_Result (wi_Workload wl))" and "GetDeployment S ctx s = Ok dl" and "GetContract ctx = Ok nc"
    and "rlist (getPublicIPData E) (Deployment_ByType dl [PublicIPv4Type, PublicIPType]) = Ok configs"
    and "length (filter pip_V4 configs) \<le> length (nc_PublicIPs nc)"
    and "\<forall>w \<in> set (Deployment_ByType dl [PublicIPv4Type, PublicIPType]). State (wl_Result (wi_Workload w)) \<noteq> StateOk"
  shows "getAssignedPublicIP E S ctx s wl = pickReserved E [] (nc_PublicIPs nc)"
proof -
  have "usedIPs E n wls = Ok []" if "\<forall>w \<in> set wls. State (wl_Result (wi_Workload w)) \<noteq> StateOk" for n wls
    using that by (induction wls) auto
  with assms show ?thesis by (simp add: getAssignedPublicIP_def Let_def fail_if_def)
qed

lemma paused_address_shared:
  "getAssignedPublicIP samplePub (sampleHolding StatePaused) samplePubCtx () sampleNew = Ok (sampleNet 1, map char_of [185, 69, 166, 254 :: nat])"
  "pi_unmarshalResult samplePub (Data (wl_Result (sampleAddr ''aaa'' StatePaused ''1''))) = Ok r \<Longrightarrow> pir_IP r = sampleNet 1"
  by code_simp (auto simp: samplePub_def sampleAddr_def)

text \<open>The address 02:00:00:ff:00:00 is in the second range, 00:54: to 90:00:ff:, and is refused.\<close>

lemma mac_range_other_bytes:
  "\<not> isHardwareAddrInValidRange (map char_of [0x02, 0x00, 0x00, 0xff, 0x00, 0x00 :: nat])"
  "macPLR2 \<le> map char_of [0x02, 0x00 :: nat]" "map char_of [0x02, 0x00, 0x00 :: nat] \<le> macPUR2"
  by code_simp+

end
