(* ===== verification/NodePower.thy ===== *)
theory NodePower
  imports Zinit
begin

text \<open>
  Power management of a node, \<open>pkg/power\<close>: wake-on-lan (\<open>ethtool.go\<close>), reports of the uptime
  (\<open>uptime.go\<close>), and the server that follows the power target the chain has for the node
  (\<open>power.go\<close>).
\<close>

section \<open>The settings of a network interface (ethtool.go)\<close>

definition SupportsWakeOn :: string where "SupportsWakeOn = ''Supports Wake-on''"
definition MagicPacket :: string where "MagicPacket = ''g''"
definition ErrFlagNotFound :: err where "ErrFlagNotFound = Errorf ''flag not found''"

text \<open>
  The lines of a \<open>bufio.Scanner\<close>: without their line ends, up to the first line that does not
  fit the buffer of the scanner, where \<open>Scan\<close> returns false.
\<close>

definition dropCR :: "string \<Rightarrow> string" where
  "dropCR l = (if l \<noteq> [] \<and> last l = CHR 0x0D then butlast l else l)"

definition scannedLines :: "string \<Rightarrow> string list" where
  "scannedLines output =
     (let lines = splitOn CHR 0x0A output in
      map dropCR (takeWhile (\<lambda>l. int (length l) < 65536) (if last lines = [] then butlast lines else lines)))"

fun flagIn :: "string \<Rightarrow> string list \<Rightarrow> string result" where
  "flagIn flag [] = Err ErrFlagNotFound"
| "flagIn flag (l # ls) =
     (let line = TrimSpace l; parts = splitOn CHR '':'' line in
      if hd parts \<noteq> flag then flagIn flag ls
      else if length parts \<noteq> 2 then Err (Errorf (''invalid ethtool output format ('' @ line @ '')''))
      else Ok (TrimSpace (parts ! 1)))"

definition valueOfFlag :: "string \<Rightarrow> string \<Rightarrow> string result" where
  "valueOfFlag output flag = flagIn flag (scannedLines output)"


section \<open>What the server calls\<close>

text \<open>
  The power of a node on the chain: its target (\<open>substrate.Power\<close>) and its state
  (\<open>substrate.PowerState\<close>); a node of the chain with its interfaces (name and MAC address).
\<close>

record NodePower =
  np_TargetIsUp :: bool
  np_TargetIsDown :: bool
  np_StateIsUp :: bool

record ChainNode =
  cn_ID :: u32
  cn_Interfaces :: "(string \<times> string) list"

text \<open>
  The gateway to the chain, flags of the node, its uptime and clock, the commands ethtool (its
  output, or the error of running it) and ether-wake, the network interfaces of the bridge
  \<open>zos\<close> (type and name), a wait of half a second, zinit, and the connection to the stream of events.
\<close>

record ('w, 'v) PowerEnv =
  pe_GetPowerTarget :: "u32 \<Rightarrow> 'w \<Rightarrow> NodePower result"
  pe_SetNodePowerState :: "bool \<Rightarrow> 'w \<Rightarrow> 'w \<times> unit result"
  pe_GetNode :: "u32 \<Rightarrow> 'w \<Rightarrow> ChainNode result"
  pe_UpdateNodeUptimeV2 :: "u64 \<Rightarrow> u64 \<Rightarrow> 'w \<Rightarrow> 'w \<times> string result"
  pe_CheckFlag :: "string \<Rightarrow> 'w \<Rightarrow> bool"
  pe_Uptime :: "'w \<Rightarrow> u64 result"
  pe_now :: "'w \<Rightarrow> u64"
  pe_ethtool :: "string list \<Rightarrow> 'w \<Rightarrow> 'w \<times> string result"
  pe_etherWake :: "string \<Rightarrow> 'w \<Rightarrow> 'w \<times> unit result"
  pe_wait :: "'w \<Rightarrow> 'w"
  pe_bridge :: "string \<Rightarrow> 'w \<Rightarrow> unit result"
  pe_ListNics :: "'w \<Rightarrow> (string \<times> string) list result"
  pe_zinit :: "'w Zinit"
  pe_semver :: "('w, 'v) Semver"
  pe_events :: "'w \<Rightarrow> 'w \<times> unit result"

record PowerServer =
  ps_enabled :: bool
  ps_farm :: u32
  ps_node :: u32

record PowerTargetChangeEvent =
  ev_FarmID :: u32
  ev_NodeID :: u32
  ev_TargetIsUp :: bool
  ev_TargetIsDown :: bool

definition ValueOfFlag :: "('w, 'v) PowerEnv \<Rightarrow> string \<Rightarrow> string \<Rightarrow> 'w \<Rightarrow> 'w \<times> string result" where
  "ValueOfFlag E nic flag w = (case pe_ethtool E [nic] w of (w, r) \<Rightarrow> (w, rbind r (\<lambda>output. valueOfFlag output flag)))"

definition SetWol :: "('w, 'v) PowerEnv \<Rightarrow> string \<Rightarrow> string \<Rightarrow> 'w \<Rightarrow> 'w \<times> unit result" where
  "SetWol E nic mode w = (case pe_ethtool E [''-s'', nic, ''wol'', mode] w of
     (w, r) \<Rightarrow> (w, rwrap ''failed to set nic wol'' (rmap (\<lambda>_. ()) r)))"

text \<open>\<open>EnsureWakeOnLan\<close>: whether the node can be woken up, with an error.\<close>

definition EnsureWakeOnLan :: "('w, 'v) PowerEnv \<Rightarrow> 'w \<Rightarrow> 'w \<times> bool \<times> err option" where
  "EnsureWakeOnLan E w =
     (case rbind (rwrap ''failed to get zos bridge'' (pe_bridge E ''zos'' w)) (\<lambda>_.
           rwrap ''failed to list attached nics to zos bridge'' (pe_ListNics E w)) of
        Inl e \<Rightarrow> (w, False, Some e)
      | Inr nics \<Rightarrow>
          (case filter (\<lambda>(typ, _). typ = ''device'') nics of
             [(_, nic)] \<Rightarrow>
               (case ValueOfFlag E nic SupportsWakeOn w of
                  (w, Inl e) \<Rightarrow>
                    if err_is e ErrFlagNotFound then (w, False, None)
                    else (w, False, Some (Wrap ''failed to detect support for wake on lan'' e))
                | (w, Inr support) \<Rightarrow>
                    if \<not> Contains support MagicPacket then (w, False, None)
                    else (case SetWol E nic MagicPacket w of
                      (w, r) \<Rightarrow> (w, True, case r of Inl e \<Rightarrow> Some e | Inr _ \<Rightarrow> None)))
           | _ \<Rightarrow> (w, False, Some (Errorf ''zos bridge has multiple interfaces''))))"


section \<open>Uptime (uptime.go)\<close>

definition isNodeHealthy :: "('w, 'v) PowerEnv \<Rightarrow> 'w \<Rightarrow> bool" where
  "isNodeHealthy E w \<longleftrightarrow> \<not> pe_CheckFlag E ''readonly-cache'' w \<and> \<not> pe_CheckFlag E ''limited-cache'' w"

definition SendNow :: "('w, 'v) PowerEnv \<Rightarrow> 'w \<Rightarrow> 'w \<times> string result" where
  "SendNow E w =
     (if \<not> isNodeHealthy E w then (w, Ok [])
      else case pe_Uptime E w of
        Inl e \<Rightarrow> (w, Err (Wrap ''failed to get uptime'' e))
      | Inr uptime \<Rightarrow> pe_UpdateNodeUptimeV2 E uptime (pe_now E w) w)"


section \<open>The power server (power.go)\<close>

definition setNodePowerState :: "('w, 'v) PowerEnv \<Rightarrow> PowerServer \<Rightarrow> bool \<Rightarrow> 'w \<Rightarrow> 'w \<times> unit result" where
  "setNodePowerState E p up w =
     (let up = (\<not> ps_enabled p \<or> up) in
      case pe_GetPowerTarget E (ps_node p) w of
        Inl e \<Rightarrow> (w, Err (Wrap ''failed to check power state'' e))
      | Inr pw \<Rightarrow> if np_StateIsUp pw = up then (w, Ok ()) else pe_SetNodePowerState E up w)"

definition shutdown :: "('w, 'v) PowerEnv \<Rightarrow> PowerServer \<Rightarrow> 'w \<Rightarrow> 'w \<times> unit result" where
  "shutdown E p w =
     (if \<not> ps_enabled p then (w, Ok ())
      else case SendNow E w of (w, _) \<Rightarrow>
        (case Client_Shutdown (pe_zinit E) (pe_semver E) w of
           (w, Inl e) \<Rightarrow> if err_is e ErrNotSupported then Client_Reboot (pe_zinit E) (pe_semver E) w else (w, Err e)
         | (w, Inr _) \<Rightarrow> (w, Ok ())))"

definition syncSelf :: "('w, 'v) PowerEnv \<Rightarrow> PowerServer \<Rightarrow> 'w \<Rightarrow> 'w \<times> unit result" where
  "syncSelf E p w = (case pe_GetPowerTarget E (ps_node p) w of
     Inl e \<Rightarrow> (w, Err e)
   | Inr pw \<Rightarrow>
       if np_TargetIsUp pw then
         (case setNodePowerState E p True w of (w, r) \<Rightarrow> (w, rwrap ''failed to set state to up'' r))
       else (case setNodePowerState E p False w of
         (w, Inl e) \<Rightarrow> (w, Err (Wrap ''failed to set state to down'' e))
       | (w, Inr _) \<Rightarrow> (case shutdown E p w of (w, r) \<Rightarrow> (w, rwrap ''failed to issue shutdown'' r))))"

fun wake :: "('w, 'v) PowerEnv \<Rightarrow> string \<Rightarrow> nat \<Rightarrow> 'w \<Rightarrow> 'w" where
  "wake E mac 0 w = w"
| "wake E mac (Suc n) w = wake E mac n (pe_wait E (fst (pe_etherWake E mac w)))"

definition powerUp :: "('w, 'v) PowerEnv \<Rightarrow> ChainNode \<Rightarrow> 'w \<Rightarrow> 'w \<times> unit result" where
  "powerUp E node w =
     (let mac = (case find (\<lambda>(name, _). name = ''zos'') (cn_Interfaces node) of None \<Rightarrow> [] | Some (_, m) \<Rightarrow> m) in
      if mac = [] then (w, Err (Errorf (''can't find mac address of node '' @ squote (dec (unat (cn_ID node))))))
      else (wake E mac 10 w, Ok ()))"

definition power_event :: "('w, 'v) PowerEnv \<Rightarrow> PowerServer \<Rightarrow> PowerTargetChangeEvent \<Rightarrow> 'w \<Rightarrow> 'w \<times> unit result" where
  "power_event E p ev w =
     (if ev_FarmID ev \<noteq> ps_farm p then (w, Ok ())
      else case pe_GetNode E (ev_NodeID ev) w of
        Inl e \<Rightarrow> (w, Err e)
      | Inr node \<Rightarrow>
          if ev_NodeID ev = ps_node p \<and> ev_TargetIsDown ev then
            (case setNodePowerState E p False w of
               (w, Inl e) \<Rightarrow> (w, Err (Wrap ''failed to set node power state to down'' e))
             | (w, Inr _) \<Rightarrow> shutdown E p w)
          else if ev_TargetIsDown ev then (w, Ok ())
          else if ev_TargetIsUp ev then powerUp E node w
          else (w, Ok ()))"

text \<open>\<open>recv\<close> on the events that arrive before the stream ends.\<close>

fun processEvents :: "('w, 'v) PowerEnv \<Rightarrow> PowerServer \<Rightarrow> PowerTargetChangeEvent list \<Rightarrow> 'w \<Rightarrow> 'w \<times> unit result" where
  "processEvents E p [] w = (w, Ok ())"
| "processEvents E p (ev # evs) w = (case power_event E p ev w of
     (w, Inl e) \<Rightarrow> (w, Err (Wrap ''failed to process power event'' e))
   | (w, Inr _) \<Rightarrow> processEvents E p evs w)"

definition recv :: "('w, 'v) PowerEnv \<Rightarrow> PowerServer \<Rightarrow> PowerTargetChangeEvent list \<Rightarrow> 'w \<Rightarrow> 'w \<times> unit result" where
  "recv E p stream w = (case syncSelf E p w of
     (w, Inl e) \<Rightarrow> (w, Err (Wrap ''failed to synchronize power status'' e))
   | (w, Inr _) \<Rightarrow> (case pe_events E w of
       (w, Inl e) \<Rightarrow> (w, Err (Wrap ''failed to connect to zbus events'' e))
     | (w, Inr _) \<Rightarrow> processEvents E p stream w))"


section \<open>The order to power off\<close>

lemma is_ok_rwrap [simp]: "is_ok (rwrap msg r) = is_ok r"
  by (cases r) simp_all

text \<open>
  What the server relies on: \<open>down w\<close> says that the state of the node on the chain is down, and
  \<open>off w\<close> that zinit was told to power the node off or reboot it. Setting the state on the
  chain sets it; nothing else the server calls changes it, or powers the node off.
\<close>

locale power_chain =
  fixes E :: "('w, 'v) PowerEnv" and node :: u32 and down :: "'w \<Rightarrow> bool" and off :: "'w \<Rightarrow> bool"
  assumes state: "pe_GetPowerTarget E node w = Ok pw \<Longrightarrow> np_StateIsUp pw = (\<not> down w)"
    and set_state: "pe_SetNodePowerState E up w = (w', r) \<Longrightarrow> off w' = off w \<and> (is_ok r \<longrightarrow> down w' = (\<not> up))"
    and report: "pe_UpdateNodeUptimeV2 E u t w = (w', rh) \<Longrightarrow> down w' = down w \<and> off w' = off w"
    and wakes: "pe_etherWake E mac w = (w', r) \<Longrightarrow> down w' = down w \<and> off w' = off w"
    and waits: "down (pe_wait E w) = down w \<and> off (pe_wait E w) = off w"
    and connects: "pe_events E w = (w', r) \<Longrightarrow> down w' = down w \<and> off w' = off w"
    and zinit: "zi_send (pe_zinit E) cmd w = (w', rz) \<Longrightarrow> down w' = down w \<and> (\<forall>e. rz = Err e \<longrightarrow> \<not> err_is e ErrNotSupported)"
    and message: "zi_jsonString (pe_zinit E) body = Err e \<Longrightarrow> \<not> err_is e ErrNotSupported"
begin

text \<open>A step that powers the node off, or reboots it, leaves it down on the chain, and only runs on a node
  that takes part in power management.\<close>

definition announced :: "PowerServer \<Rightarrow> 'w \<Rightarrow> 'w \<Rightarrow> bool" where
  "announced p w w' \<longleftrightarrow> off w' \<noteq> off w \<longrightarrow> ps_enabled p \<and> down w'"

lemma set_state_result:
  assumes "setNodePowerState E p up w = (w', r)" and "ps_node p = node"
  shows "off w' = off w \<and> (is_ok r \<longrightarrow> down w' = (ps_enabled p \<and> \<not> up))"
  using assms state[of w] set_state[of _ w w' r]
  by (auto simp: setNodePowerState_def Let_def split: sum.splits if_splits)

lemma send_keeps: "SendNow E w = (w', r) \<Longrightarrow> down w' = down w \<and> off w' = off w"
  using report by (auto simp: SendNow_def split: if_splits sum.splits)

lemma run_keeps: "Client_run (pe_zinit E) cmd w = (w', r) \<Longrightarrow> down w' = down w"
  using zinit by (auto simp: Client_run_def Client_cmd_def split: prod.splits sum.splits)

lemma run_supported:
  assumes "Client_run (pe_zinit E) cmd w = (w', Err e)"
  shows "\<not> err_is e ErrNotSupported"
proof -
  obtain w1 r1 where s: "zi_send (pe_zinit E) (cmd @ [CHR 0x0A]) w = (w1, r1)" by (meson surj_pair)
  then show ?thesis
    using assms zinit[OF s] message
    by (cases r1; cases "zi_jsonString (pe_zinit E) (snd (projr r1))")
       (auto simp: Client_run_def Client_cmd_def split: if_splits)
qed

lemma shutdown_keeps:
  assumes "shutdown E p w = (w', r)"
  shows "down w' = down w \<and> (\<not> ps_enabled p \<longrightarrow> w' = w)"
  using assms send_keeps[of w] run_keeps
  by (auto simp: shutdown_def Client_Shutdown_def Client_Reboot_def split: if_splits prod.splits sum.splits)

lemma sync_announced:
  assumes "syncSelf E p w = (w', r)" and "ps_node p = node"
  shows "announced p w w' \<and> (off w' \<noteq> off w \<longrightarrow> (\<exists>pw. pe_GetPowerTarget E node w = Ok pw \<and> \<not> np_TargetIsUp pw)) \<and>
    (is_ok r \<longrightarrow> (\<exists>pw. pe_GetPowerTarget E node w = Ok pw \<and> down w' = (ps_enabled p \<and> \<not> np_TargetIsUp pw)))"
proof (cases "pe_GetPowerTarget E node w")
  case (Inr pw)
  obtain w1 r1 where s: "setNodePowerState E p (np_TargetIsUp pw) w = (w1, r1)" by (meson surj_pair)
  note l = set_state_result[OF s assms(2)]
  obtain w2 r2 where h: "shutdown E p w1 = (w2, r2)" by (meson surj_pair)
  note k = shutdown_keeps[OF h]
  show ?thesis
    using assms s l h k Inr by (auto simp: syncSelf_def announced_def split: if_splits sum.splits prod.splits)
qed (use assms in \<open>auto simp: syncSelf_def announced_def\<close>)

lemma wake_keeps: "down (wake E mac n w) = down w \<and> off (wake E mac n w) = off w"
proof (induction n arbitrary: w)
  case (Suc n)
  then show ?case using wakes[of mac w] waits by (metis prod.collapse wake.simps(2))
qed simp

lemma event_announced:
  assumes "power_event E p ev w = (w', r)" and "ps_node p = node"
  shows "announced p w w' \<and> (off w' \<noteq> off w \<longrightarrow> ev_FarmID ev = ps_farm p \<and> ev_NodeID ev = node \<and> ev_TargetIsDown ev)"
proof -
  obtain w1 r1 where s: "setNodePowerState E p False w = (w1, r1)" by (meson surj_pair)
  note l = set_state_result[OF s assms(2)]
  obtain w2 r2 where h: "shutdown E p w1 = (w2, r2)" by (meson surj_pair)
  note k = shutdown_keeps[OF h]
  show ?thesis
    using assms s l h k wake_keeps[of _ 10 w]
    by (auto simp: power_event_def powerUp_def announced_def Let_def split: if_splits sum.splits prod.splits)
qed

text \<open>A node with power management whose target is not up is told to power off: whatever the
  version of zinit, by the command \<open>shutdown\<close>, once the chain says that it is down.\<close>

lemma client_shutdown:
  assumes "shutdown E p w = (w', Ok ())" and "ps_enabled p"
  shows "\<exists>w1. down w1 = down w \<and> off w1 = off w \<and> Client_run (pe_zinit E) ''shutdown'' w1 = (w', Ok ())"
proof -
  obtain w1 r1 where s: "SendNow E w = (w1, r1)" by (meson surj_pair)
  have "Client_run (pe_zinit E) ''shutdown'' w1 = (w', Ok ())"
    using assms s by (auto simp: shutdown_def Client_Shutdown_def Client_Reboot_def split: sum.splits prod.splits if_splits dest: run_supported)
  with send_keeps[OF s] show ?thesis by blast
qed

lemma sync_issues:
  assumes "syncSelf E p w = (w', Ok ())" and "ps_node p = node" and "ps_enabled p"
    and "pe_GetPowerTarget E node w = Ok pw" and "\<not> np_TargetIsUp pw"
  shows "\<exists>w1. down w1 \<and> off w1 = off w \<and> Client_run (pe_zinit E) ''shutdown'' w1 = (w', Ok ())"
proof -
  obtain w1 r1 where s: "setNodePowerState E p False w = (w1, r1)" by (meson surj_pair)
  note l = set_state_result[OF s assms(2)]
  have "is_ok r1" and h: "shutdown E p w1 = (w', Ok ())"
    using assms s by (auto simp: syncSelf_def split: sum.splits prod.splits)
  with l assms(3) client_shutdown[OF h assms(3)] show ?thesis by auto
qed

end

section \<open>A simulated node\<close>

text \<open>The chain's target and state for node 1, the commands zinit got, and the reported uptimes.\<close>

record PowerWorld =
  pw_targetUp :: bool
  pw_stateUp :: bool
  pw_off :: bool
  pw_reports :: nat

definition simInit :: "PowerWorld Zinit" where
  "simInit = \<lparr>zi_send = (\<lambda>cmd w. (if cmd = ''shutdown'' @ [CHR 0x0A] then w\<lparr>pw_off := True\<rparr> else w, Ok (''ok'', []))),
     zi_jsonString = (\<lambda>_. Ok []), zi_jsonList = (\<lambda>_. Ok []), zi_jsonStatus = (\<lambda>_. Err (Errorf [])), zi_yamlDecode = (\<lambda>_. Err (Errorf [])),
     zi_yamlUnmarshal = (\<lambda>_. Err (Errorf [])), zi_yamlMarshal = (\<lambda>_. Ok []), zi_shlex = (\<lambda>_. Ok []), zi_regexp = (\<lambda>_. None),
     zi_ReadFile = (\<lambda>_ _. Err ErrNotExist), zi_WriteFile = (\<lambda>_ _ w. (w, Ok ())), zi_RemoveAll = (\<lambda>_ w. (w, Ok ())),
     zi_now = (\<lambda>_. 0), zi_sleep = (\<lambda>_ w. w), zi_order = (\<lambda>x. x)\<rparr>"

definition simSemver :: "nat \<Rightarrow> (PowerWorld, nat) Semver" where
  "simSemver version = \<lparr>sv_output = (\<lambda>w. Ok (''zinit v0.2.'' @ dec version)),
     sv_Parse = (\<lambda>v. Ok (undec (drop 4 v))), sv_LT = (<)\<rparr>"

definition simPower :: "nat \<Rightarrow> (PowerWorld, nat) PowerEnv" where
  "simPower version = \<lparr>
     pe_GetPowerTarget = (\<lambda>n w. Ok \<lparr>np_TargetIsUp = pw_targetUp w, np_TargetIsDown = \<not> pw_targetUp w, np_StateIsUp = pw_stateUp w\<rparr>),
     pe_SetNodePowerState = (\<lambda>up w. (w\<lparr>pw_stateUp := up\<rparr>, Ok ())),
     pe_GetNode = (\<lambda>n w. Ok \<lparr>cn_ID = n, cn_Interfaces = [(''zos'', ''54:43:07:7c:09:0f'')]\<rparr>),
     pe_UpdateNodeUptimeV2 = (\<lambda>u t w. (w\<lparr>pw_reports := pw_reports w + 1\<rparr>, Ok [])), pe_CheckFlag = (\<lambda>f w. False),
     pe_Uptime = (\<lambda>w. Ok 60), pe_now = (\<lambda>w. 0), pe_ethtool = (\<lambda>args w. (w, Ok [])), pe_etherWake = (\<lambda>mac w. (w, Ok ())),
     pe_wait = (\<lambda>w. w), pe_bridge = (\<lambda>n w. Ok ()), pe_ListNics = (\<lambda>w. Ok []), pe_zinit = simInit, pe_semver = simSemver version,
     pe_events = (\<lambda>w. (w, Ok ()))\<rparr>"

interpretation sim_power: power_chain "simPower version" node "\<lambda>w. \<not> pw_stateUp w" pw_off
  by unfold_locales (auto simp: simPower_def simInit_def split: if_splits)

definition sim_server :: "bool \<Rightarrow> PowerServer" where
  "sim_server enabled = \<lparr>ps_enabled = enabled, ps_farm = 1, ps_node = 1\<rparr>"

section \<open>Claims\<close>

text \<open>C16: a node only goes down when it was asked to, and says so first. Where the calls of the
  chain set the state they are given, when \<open>syncSelf\<close> or the processing of an event tells zinit to power the node
  off or to reboot it, then power management is enabled, the chain has the node down, and the chain's
  target for the node is not up (or the event is one of this farm that sets this node's target
  down). A synchronization without error on an enabled node whose target is not up ends by sending
  zinit the command \<open>shutdown\<close>, whatever its version: from 0.2.9 on this powers the node off, before it is the
  command that reboots the node, which \<open>shutdown\<close> of the power server falls back to so that the node updates.\<close>

theorem power_off_announced:
  assumes "power_chain E (ps_node p) down off"
  shows "(\<forall>w w' r. syncSelf E p w = (w', r) \<and> off w' \<noteq> off w \<longrightarrow>
      ps_enabled p \<and> down w' \<and> (\<exists>pw. pe_GetPowerTarget E (ps_node p) w = Ok pw \<and> \<not> np_TargetIsUp pw)) \<and>
    (\<forall>ev w w' r. power_event E p ev w = (w', r) \<and> off w' \<noteq> off w \<longrightarrow>
      ps_enabled p \<and> down w' \<and> ev_FarmID ev = ps_farm p \<and> ev_NodeID ev = ps_node p \<and> ev_TargetIsDown ev) \<and>
    (\<forall>w w' pw. syncSelf E p w = (w', Ok ()) \<and> ps_enabled p \<and> pe_GetPowerTarget E (ps_node p) w = Ok pw \<and> \<not> np_TargetIsUp pw \<longrightarrow>
      (\<exists>w1. down w1 \<and> off w1 = off w \<and> Client_run (pe_zinit E) ''shutdown'' w1 = (w', Ok ())))"
proof (intro conjI allI impI)
  fix w w' r assume run: "syncSelf E p w = (w', r) \<and> off w' \<noteq> off w"
  with power_chain.sync_announced[OF assms conjunct1[OF run] refl]
  show "ps_enabled p" "down w'" "\<exists>pw. pe_GetPowerTarget E (ps_node p) w = Ok pw \<and> \<not> np_TargetIsUp pw"
    by (simp_all add: power_chain.announced_def[OF assms])
next
  fix ev w w' r assume run: "power_event E p ev w = (w', r) \<and> off w' \<noteq> off w"
  with power_chain.event_announced[OF assms conjunct1[OF run] refl]
  show "ps_enabled p" "down w'" "ev_FarmID ev = ps_farm p" "ev_NodeID ev = ps_node p" "ev_TargetIsDown ev"
    by (simp_all add: power_chain.announced_def[OF assms])
qed (use power_chain.sync_issues[OF assms] in blast)

theorem power_off_announced_witness:
  "\<exists>w'. syncSelf (simPower 14) (sim_server True) \<lparr>pw_targetUp = False, pw_stateUp = True, pw_off = False, pw_reports = 0\<rparr> = (w', Ok ()) \<and>
     pw_off w' \<and> \<not> pw_stateUp w'"
proof -
  let ?w = "\<lparr>pw_targetUp = False, pw_stateUp = True, pw_off = False, pw_reports = 0\<rparr>"
  let ?w' = "\<lparr>pw_targetUp = False, pw_stateUp = False, pw_off = True, pw_reports = 1\<rparr>"
  have "syncSelf (simPower 14) (sim_server True) ?w = (?w', Ok ())" by code_simp
  moreover have "pw_off ?w' \<and> \<not> pw_stateUp ?w'"
    using conjunct1[OF power_off_announced[OF sim_power.power_chain_axioms, of 14 "sim_server True"]] calculation by simp
  ultimately show ?thesis by blast
qed

text \<open>C18: the state of the node on the chain follows its target. After a synchronization without error
  the chain has the node down exactly when power management is enabled and the target of the
  node is not up: a node without power management always ends up.\<close>

theorem power_state_synchronized:
  assumes "power_chain E (ps_node p) down off" and "syncSelf E p w = (w', Ok ())"
  shows "\<exists>pw. pe_GetPowerTarget E (ps_node p) w = Ok pw \<and> down w' = (ps_enabled p \<and> \<not> np_TargetIsUp pw)"
  using power_chain.sync_announced[OF assms(1,2) refl] by simp

theorem power_state_synchronized_witness:
  "\<exists>w'. syncSelf (simPower 14) (sim_server False) \<lparr>pw_targetUp = False, pw_stateUp = False, pw_off = False, pw_reports = 0\<rparr> = (w', Ok ()) \<and>
     pw_stateUp w' \<and> \<not> pw_off w'"
proof -
  let ?w = "\<lparr>pw_targetUp = False, pw_stateUp = False, pw_off = False, pw_reports = 0\<rparr>"
  have run: "syncSelf (simPower 14) (sim_server False) ?w = (?w\<lparr>pw_stateUp := True\<rparr>, Ok ())" by code_simp
  from power_state_synchronized[OF sim_power.power_chain_axioms run] run show ?thesis by (auto simp: sim_server_def)
qed

end
