(* ===== verification/Machines.thy ===== *)
theory Machines
  imports PublicIPs "HOL-Library.AList"
begin

text \<open>
  Virtual machines: the manager \<open>pkg/primitives/vm\<close> (vm.go, utils.go), with the data it hands to the
  virtual machine daemon (\<open>pkg/vm.go\<close>) and the choice of GPUs (\<open>pkg/primitives/vmgpu\<close>). A machine
  uses the workloads of its deployment: its networks, public address, disks, volumes and file
  systems. The manager works on the storage module and on the daemons of the node; what a
  call of the manager assigns to its variables is a record of local values beside the node.
\<close>

unbundle bit_operations_syntax

section \<open>Data (pkg/vm.go)\<close>

record Route =
  rt_Net :: IPNet
  rt_Gateway :: bytes

record VMIface =
  if_Tap :: string
  if_MAC :: string
  if_IPs :: "IPNet list"
  if_Routes :: "Route list"
  if_IP4DefaultGateway :: bytes
  if_IP6DefaultGateway :: bytes
  if_PublicIPv4 :: bool
  if_PublicIPv6 :: bool
  if_NetID :: string

record VMDisk =
  disk_Path :: string
  disk_Target :: string

record SharedDir =
  sh_ID :: string
  sh_Path :: string
  sh_Target :: string

datatype BootType = BootDisk | BootVirtioFS

record Boot =
  boot_Type :: BootType
  boot_Path :: string

text \<open>Of \<open>VMNetworkInfo\<close> the interfaces; the name servers are constants, and nothing sets \<open>NoKeepAlive\<close>.\<close>

record VM =
  m_Name :: string
  m_CPU :: u8
  m_Memory :: Unit
  m_Ifaces :: "VMIface list"
  m_KernelImage :: string
  m_InitrdImage :: string
  m_KernelArgs :: "(string \<times> string) list"
  m_Entrypoint :: string
  m_Disks :: "VMDisk list"
  m_Shared :: "SharedDir list"
  m_Boot :: Boot
  m_Environment :: "(string \<times> string) list"
  m_Hostname :: string
  m_Devices :: "string list"

text \<open>\<open>VM.Validate\<close>; the number of CPUs is a parameter.\<close>

definition VM_Validate :: "int result \<Rightarrow> VM \<Rightarrow> unit result" where
  "VM_Validate counts vm =
     rbind (fail_if (m_Name vm = []) (Errorf ''name is required'')) (\<lambda>_.
     rbind (fail_if (m_KernelImage vm = []) (Errorf ''kernel-image is required'')) (\<lambda>_.
     rbind (fail_if (m_Memory vm < 250 * Megabyte) (Errorf ''invalid memory must not be less than 250M'')) (\<lambda>_.
     case counts of
       Inl _ \<Rightarrow> Err (Errorf ''failed to get count of cpus'')
     | Inr cpus \<Rightarrow>
         rbind (fail_if (m_CPU vm = 0 \<or> m_CPU vm > word_of_int cpus)
           (Errorf (if cpus = 1 then ''invalid cpu must be 1'' else ''invalid cpu must be between 1 and '' @ dec_int cpus))) (\<lambda>_.
         rbind (rcheck (\<lambda>sh. fail_if (Clean (sh_Target sh) = ''/'')
           (Errorf (''validating virtiofs '' @ sh_Target sh @ '': mount target can't be /''))) (m_Shared vm)) (\<lambda>_.
         rcheck (\<lambda>d. fail_if (Clean (disk_Target d) = ''/'')
           (Errorf (''validating disk '' @ disk_Target d @ '': mount target can't be /''))) (m_Disks vm))))))"

record ZMachineResult =
  mr_ID :: string
  mr_IP :: string
  mr_PlanetaryIP :: string
  mr_MyceliumIP :: string
  mr_ConsoleURL :: string

definition noZMachineResult :: ZMachineResult where
  "noZMachineResult = \<lparr>mr_ID = [], mr_IP = [], mr_PlanetaryIP = [], mr_MyceliumIP = [], mr_ConsoleURL = []\<rparr>"

record Tap =
  tap_Name :: string
  tap_HW :: bytes
  tap_IP :: IPNet
  tap_Gateway :: bytes

record PCI =
  pci_Slot :: string
  pci_Vendor :: u16
  pci_Device :: u16
  pci_Class :: u32
  pci_SubsystemVendor :: u16
  pci_SubsystemDevice :: u16

definition hex4 :: "u16 \<Rightarrow> string" where
  "hex4 n = map (\<lambda>i. hex_digit (unat n div 16 ^ i mod 16)) [3, 2, 1, 0]"

definition PCI_ShortID :: "PCI \<Rightarrow> string" where
  "PCI_ShortID p = pci_Slot p @ ''/'' @ hex4 (pci_Vendor p) @ ''/'' @ hex4 (pci_Device p)"

text \<open>The type of a file as \<open>os.Stat\<close> reports it.\<close>

datatype FileType = RegularFile | Directory | SymbolicLink | OtherFile string

record FListInfo =
  fl_ImagePath :: string
  fl_KernelPath :: string
  fl_InitrdPath :: string

definition FListInfo_IsContainer :: "FListInfo \<Rightarrow> bool" where
  "FListInfo_IsContainer t \<longleftrightarrow> length (fl_ImagePath t) = 0"

text \<open>An entry of a startup file: its name, and the name, arguments and environment of its \<open>args\<close>.\<close>

record StartupEntry =
  su_Name :: string
  su_ArgsName :: string
  su_Args :: "string list"
  su_Env :: "(string \<times> string) list"


section \<open>What the manager calls\<close>

text \<open>
  The storage module; hash, base-58 text and decoding of addresses (as for public addresses); PCI
  devices; the daemons of machines, flists and networks; the file system (in the order in
  which a Go map is visited); the decoding of a startup file.
\<close>

record 'w VmEnv =
  ve_storage :: "'w StorageEnv"
  ve_pub :: "'w PubEnv"
  ve_params :: Params
  ve_ListGPUs :: "'w \<Rightarrow> PCI list result"
  ve_IoMMUGroup :: "PCI \<Rightarrow> 'w \<Rightarrow> PCI list result"
  ve_Exists :: "string \<Rightarrow> 'w \<Rightarrow> bool"
  ve_Inspect :: "string \<Rightarrow> 'w \<Rightarrow> unit result"
  ve_Run :: "VM \<Rightarrow> 'w \<Rightarrow> 'w \<times> string result"
  ve_Delete :: "string \<Rightarrow> 'w \<Rightarrow> 'w \<times> unit result"
  ve_FlistMount :: "string \<Rightarrow> string \<Rightarrow> string option \<Rightarrow> 'w \<Rightarrow> 'w \<times> string result"
  ve_FlistUnmount :: "string \<Rightarrow> 'w \<Rightarrow> 'w \<times> unit result"
  ve_FlistHash :: "string \<Rightarrow> 'w \<Rightarrow> string result"
  ve_cloudFlist :: "string result"
  ve_PublicIPv4Support :: "'w \<Rightarrow> bool"
  ve_GetSubnet :: "string \<Rightarrow> 'w \<Rightarrow> IPNet result"
  ve_GetNet :: "string \<Rightarrow> 'w \<Rightarrow> IPNet result"
  ve_GetDefaultGwIP :: "string \<Rightarrow> 'w \<Rightarrow> (bytes \<times> bytes) result"
  ve_GetIPv6From4 :: "string \<Rightarrow> bytes \<Rightarrow> 'w \<Rightarrow> IPNet result"
  ve_GetPublicIPV6Gateway :: "'w \<Rightarrow> bytes result"
  ve_SetupPrivTap :: "string \<Rightarrow> string \<Rightarrow> 'w \<Rightarrow> 'w \<times> string result"
  ve_SetupPubTap :: "string \<Rightarrow> 'w \<Rightarrow> 'w \<times> string result"
  ve_SetupYggTap :: "string \<Rightarrow> 'w \<Rightarrow> 'w \<times> Tap result"
  ve_SetupMyceliumTap :: "string \<Rightarrow> string \<Rightarrow> MyceliumIP \<Rightarrow> 'w \<Rightarrow> 'w \<times> Tap result"
  ve_RemoveTap :: "string \<Rightarrow> 'w \<Rightarrow> 'w \<times> unit result"
  ve_RemovePubTap :: "string \<Rightarrow> 'w \<Rightarrow> 'w \<times> unit result"
  ve_DisconnectPubTap :: "string \<Rightarrow> 'w \<Rightarrow> 'w \<times> unit result"
  ve_order :: "string list \<Rightarrow> string list"
  ve_Stat :: "string \<Rightarrow> 'w \<Rightarrow> FileType result"
  ve_Readlink :: "string \<Rightarrow> 'w \<Rightarrow> string result"
  ve_Glob :: "string \<Rightarrow> 'w \<Rightarrow> string list"
  ve_Remove :: "string \<Rightarrow> 'w \<Rightarrow> 'w \<times> unit result"
  ve_Open :: "string \<Rightarrow> 'w \<Rightarrow> unit result"
  ve_OpenFile :: "string \<Rightarrow> 'w \<Rightarrow> 'w \<times> unit result"
  ve_Copy :: "string \<Rightarrow> string \<Rightarrow> 'w \<Rightarrow> 'w \<times> unit result"
  ve_decodeStartup :: "string \<Rightarrow> 'w \<Rightarrow> StartupEntry option result"
  ve_unmarshalQsfs :: "bytes \<Rightarrow> string result"
  ve_marshal :: "ZMachineResult \<Rightarrow> bytes result"

record Locals =
  lc_result :: ZMachineResult
  lc_machine :: VM
  lc_config :: ZMachine
  lc_ifaces :: "VMIface list"
  lc_ifs :: "string list"
  lc_pubIf :: string

type_synonym 'w vm_state = "'w storage_world \<times> Locals"
type_synonym ('w, 'a) vmop = "('w vm_state, 'a) io"

text \<open>Calls of a daemon, queries, calls of the storage module, and the local values.\<close>

definition onNode :: "('w \<Rightarrow> 'w \<times> 'a result) \<Rightarrow> ('w, 'a) vmop" where
  "onNode f = iact (\<lambda>((m, w), l). case f w of (w, r) \<Rightarrow> (((m, w), l), r))"

definition ask :: "('w \<Rightarrow> 'a result) \<Rightarrow> ('w, 'a) vmop" where
  "ask f = iread (\<lambda>((m, w), l). f w)"

definition onModule :: "('w, 'a) op \<Rightarrow> ('w, 'a) vmop" where
  "onModule f = iact (\<lambda>(mw, l). case f mw of (mw, r) \<Rightarrow> ((mw, l), r))"

definition setLocals :: "(Locals \<Rightarrow> Locals) \<Rightarrow> ('w, unit) vmop" where
  "setLocals g = iact (\<lambda>(mw, l). ((mw, g l), Ok ()))"

definition localOf :: "(Locals \<Rightarrow> 'a) \<Rightarrow> ('w, 'a) vmop" where
  "localOf g = iread (\<lambda>(mw, l). Ok (g l))"

text \<open>An error that is only logged, a loop, and a deferred function that runs when there is an error.\<close>

definition logged :: "('x, 'a) io \<Rightarrow> ('x, unit) io" where
  "logged m = itry m (\<lambda>_. iret (Ok ()))"

fun each :: "('i \<Rightarrow> ('x, unit) io) \<Rightarrow> 'i list \<Rightarrow> ('x, unit) io" where
  "each f [] = iret (Ok ())"
| "each f (i # is) = ibind (f i) (\<lambda>_. each f is)"

definition onError :: "('x, unit) io \<Rightarrow> ('x, 'a) io \<Rightarrow> ('x, 'a) io" where
  "onError cleanup m = itry m (\<lambda>r. case r of
     Inl e \<Rightarrow> itry cleanup (\<lambda>_. iret (Err e))
   | Inr x \<Rightarrow> iret (Ok x))"

definition unique :: "'w VmEnv \<Rightarrow> WorkloadID \<Rightarrow> string \<Rightarrow> string" where
  "unique E i n = WorkloadID_Unique (pi_md5 (ve_pub E)) (pi_base58 (ve_pub E)) i n"

definition netIDOf :: "'w VmEnv \<Rightarrow> u32 \<Rightarrow> Name \<Rightarrow> string" where
  "netIDOf E twin network = NetworkID (pi_md5 (ve_pub E)) (pi_base58 (ve_pub E)) twin network"

definition macOf :: "'w VmEnv \<Rightarrow> string \<Rightarrow> ('w, string) vmop" where
  "macOf E tapName st = (case HardwareAddrFromInputBytes (pi_md5 (ve_pub E)) tapName of
     None \<Rightarrow> None
   | Some mac \<Rightarrow> Some (st, Ok (HardwareAddr_String mac)))"

text \<open>\<open>IPNet.Contains\<close>.\<close>

definition IPNet_Contains :: "IPNet \<Rightarrow> bytes \<Rightarrow> bool" where
  "IPNet_Contains n ip =
     (let (nn, m) = (case networkNumberAndMask n of None \<Rightarrow> ([], []) | Some p \<Rightarrow> p);
          ip = (case To4 ip of Some x \<Rightarrow> x | None \<Rightarrow> ip) in
      length ip = length nn \<and> list_all (\<lambda>i. (of_char (nn ! i) AND of_char (m ! i) :: nat) = of_char (ip ! i) AND of_char (m ! i)) [0..<length ip])"


section \<open>GPUs (vmgpu.go)\<close>

fun groupDevices :: "'w VmEnv \<Rightarrow> PCI list \<Rightarrow> string list \<Rightarrow> 'w \<Rightarrow> PCI list result" where
  "groupDevices E all [] w = Ok []"
| "groupDevices E all (gpu # gpus) w =
     (case find (\<lambda>d. PCI_ShortID d = gpu) (rev all) of
        None \<Rightarrow> Err (Errorf (''unknown GPU id '' @ squote gpu))
      | Some device \<Rightarrow>
          rbind (rwrap (''failed to list all devices belonging to '' @ squote (pci_Slot device)) (ve_IoMMUGroup E device w)) (\<lambda>sub.
          rmap (\<lambda>rest. (if HasSuffix (pci_Slot device) ''.1'' then [] else sub) @ rest) (groupDevices E all gpus w)))"

definition ExpandGPUs :: "'w VmEnv \<Rightarrow> string list \<Rightarrow> 'w \<Rightarrow> PCI list result" where
  "ExpandGPUs E gpus w =
     (if IsGPUDisabled (ve_params E) then Err (Errorf ''GPU is disabled on this node'')
      else rbind (rwrap ''failed to list available GPUs'' (ve_ListGPUs E w)) (\<lambda>all. groupDevices E all gpus w))"


section \<open>Interfaces (utils.go)\<close>

definition networkResourceNet :: IPNet where
  "networkResourceNet = \<lparr>net_IP = map char_of (replicate 10 0 @ [255, 255, 100, 64, 0, 0 :: nat]), net_Mask = map char_of [255, 255, 0, 0 :: nat]\<rparr>"

text \<open>The networks 400::/7 and 200::/7.\<close>

definition overlayNet :: "nat \<Rightarrow> IPNet" where
  "overlayNet b = \<lparr>net_IP = char_of b # replicate 15 (char_of (0 :: nat)), net_Mask = char_of (0xfe :: nat) # replicate 15 (char_of (0 :: nat))\<rparr>"

definition overlayIface :: "nat \<Rightarrow> Tap \<Rightarrow> VMIface" where
  "overlayIface b iface = \<lparr>if_Tap = tap_Name iface, if_MAC = HardwareAddr_String (tap_HW iface), if_IPs = [tap_IP iface],
     if_Routes = [\<lparr>rt_Net = overlayNet b, rt_Gateway = tap_Gateway iface\<rparr>], if_IP4DefaultGateway = [], if_IP6DefaultGateway = [],
     if_PublicIPv4 = False, if_PublicIPv6 = False, if_NetID = []\<rparr>"

definition newMyceliumNetworkInterface :: "'w VmEnv \<Rightarrow> Deployment \<Rightarrow> WorkloadWithID \<Rightarrow> MyceliumIP \<Rightarrow> ('w, VMIface) vmop" where
  "newMyceliumNetworkInterface E dl wl config =
     ibind (iwrap ''could not set up tap device''
       (onNode (ve_SetupMyceliumTap E (unique E (wi_ID wl) ''mycelium'') (netIDOf E (dl_TwinID dl) (mip_Network config)) config))) (\<lambda>iface.
     iret (Ok (overlayIface 0x04 iface)))"

definition newYggNetworkInterface :: "'w VmEnv \<Rightarrow> WorkloadWithID \<Rightarrow> ('w, VMIface) vmop" where
  "newYggNetworkInterface E wl =
     ibind (iwrap ''could not set up tap device'' (onNode (ve_SetupYggTap E (unique E (wi_ID wl) ''ygg'')))) (\<lambda>iface.
     iret (Ok (overlayIface 0x02 iface)))"

definition newPrivNetworkInterface :: "'w VmEnv \<Rightarrow> Deployment \<Rightarrow> WorkloadWithID \<Rightarrow> MachineInterface \<Rightarrow> ('w, VMIface) vmop" where
  "newPrivNetworkInterface E dl wl ifc =
     (let netID = netIDOf E (dl_TwinID dl) (mi_Network ifc); tapName = unique E (wi_ID wl) (mi_Network ifc) in
      ibind (iwrap ''could not get network resource subnet'' (ask (ve_GetSubnet E netID))) (\<lambda>subnet.
      case To4 (mi_IP ifc) of
        None \<Rightarrow> iret (Err (Errorf ''invalid IPv4 supplied to wg interface''))
      | Some ip \<Rightarrow>
          ibind (iret (fail_if (\<not> IPNet_Contains subnet ip)
            (Errorf (''IP '' @ IP_String ip @ '' is not part of local nr subnet '' @ IPNet_String subnet)))) (\<lambda>_.
          ibind (iret (fail_if (ip ! 3 = char_of (1 :: nat)) (Errorf (''ip '' @ IP_String ip @ '' is reserved'')))) (\<lambda>_.
          ibind (iwrap ''could not get network range'' (ask (ve_GetNet E netID))) (\<lambda>privNet.
          ibind (iwrap ''could not get network resource default gateway'' (ask (ve_GetDefaultGwIP E netID))) (\<lambda>(gw4, gw6).
          ibind (iwrap ''could not convert private ipv4 to ipv6'' (ask (ve_GetIPv6From4 E netID ip))) (\<lambda>privIP6.
          ibind (iwrap ''could not set up tap device'' (onNode (ve_SetupPrivTap E netID tapName))) (\<lambda>iface.
          ibind (macOf E tapName) (\<lambda>mac.
          iret (Ok \<lparr>if_Tap = iface, if_MAC = mac, if_IPs = [\<lparr>net_IP = ip, net_Mask = net_Mask subnet\<rparr>, privIP6],
            if_Routes = [\<lparr>rt_Net = privNet, rt_Gateway = gw4\<rparr>, \<lparr>rt_Net = networkResourceNet, rt_Gateway = gw4\<rparr>],
            if_IP4DefaultGateway = gw4, if_IP6DefaultGateway = gw6, if_PublicIPv4 = False, if_PublicIPv6 = False,
            if_NetID = netID\<rparr>))))))))))"

definition newPubNetworkInterface :: "'w VmEnv \<Rightarrow> Deployment \<Rightarrow> ZMachine \<Rightarrow> ('w, VMIface) vmop" where
  "newPubNetworkInterface E deployment cfg =
     ibind (iret (Deployment_Get deployment (mn_PublicIP (vm_Network cfg)))) (\<lambda>ipWl.
     let tapName = unique E (wi_ID ipWl) ''pub'' in
     ibind (iret (rwrap ''could not get public ip config'' (GetPubIPConfig (ve_pub E) ipWl))) (\<lambda>config.
     ibind (iwrap ''could not set up tap device for public network'' (onNode (ve_SetupPubTap E tapName))) (\<lambda>pubIface.
     ibind (macOf E tapName) (\<lambda>mac.
     let v4 = \<not> IPNet_Nil (pir_IP config); v6 = \<not> IPNet_Nil (pir_IPv6 config) in
     ibind (if v6 then iwrap ''failed to get the default gateway for ipv6'' (ask (ve_GetPublicIPV6Gateway E)) else iret (Ok [])) (\<lambda>gw6.
     iret (Ok \<lparr>if_Tap = pubIface, if_MAC = mac,
       if_IPs = (if v4 then [pir_IP config] else []) @ (if v6 then [pir_IPv6 config] else []), if_Routes = [],
       if_IP4DefaultGateway = (if v4 then pir_Gateway config else []), if_IP6DefaultGateway = gw6,
       if_PublicIPv4 = HasIPv4 config, if_PublicIPv6 = HasIPv6 config, if_NetID = []\<rparr>))))))"


section \<open>Flists (utils.go)\<close>

text \<open>The three files of an flist that are looked for, in the order of a map iteration.\<close>

definition checkFile :: "'w VmEnv \<Rightarrow> string \<Rightarrow> string \<Rightarrow> 'w \<Rightarrow> string option result" where
  "checkFile E flistPath rel w =
     (let path = Join [flistPath, rel]; found = Ok (Some path) in
      case ve_Stat E path w of
        Inl e \<Rightarrow> if e = ErrNotExist then Ok None else Err (Wrap (''couldn't stat '' @ rel) e)
      | Inr RegularFile \<Rightarrow> found
      | Inr Directory \<Rightarrow> Err (Errorf (''path '' @ squote rel @ '' cannot be a directory''))
      | Inr SymbolicLink \<Rightarrow>
          rbind (rwrap (''failed to read link at '' @ CHR 0x27 # rel) (ve_Readlink E path w)) (\<lambda>link.
          if HasPrefix (Clean (Join [flistPath, link])) flistPath then found
          else Err (Errorf (''path '' @ squote rel @ '' points to invalid location'')))
      | Inr (OtherFile t) \<Rightarrow> Err (Errorf (''path '' @ squote rel @ '' is of invalid type: '' @ t)))"

definition setFile :: "string \<Rightarrow> string \<Rightarrow> FListInfo \<Rightarrow> FListInfo" where
  "setFile rel path info = (if rel = ''/image.raw'' then info\<lparr>fl_ImagePath := path\<rparr>
     else if rel = ''/boot/vmlinuz'' then info\<lparr>fl_KernelPath := path\<rparr> else info\<lparr>fl_InitrdPath := path\<rparr>)"

fun checkFiles :: "'w VmEnv \<Rightarrow> string \<Rightarrow> string list \<Rightarrow> FListInfo \<Rightarrow> 'w \<Rightarrow> FListInfo result" where
  "checkFiles E flistPath [] info w = Ok info"
| "checkFiles E flistPath (rel # rels) info w =
     rbind (checkFile E flistPath rel w) (\<lambda>found.
     checkFiles E flistPath rels (case found of None \<Rightarrow> info | Some path \<Rightarrow> setFile rel path info) w)"

definition getFlistInfo :: "'w VmEnv \<Rightarrow> string \<Rightarrow> 'w \<Rightarrow> FListInfo result" where
  "getFlistInfo E flistPath w =
     checkFiles E flistPath (ve_order E [''/image.raw'', ''/boot/vmlinuz'', ''/boot/initrd.img''])
       \<lparr>fl_ImagePath = [], fl_KernelPath = [], fl_InitrdPath = []\<rparr> w"

text \<open>\<open>Entrypoint\<close>: the command with its arguments in double quotes.\<close>

definition StartupEntry_Entrypoint :: "StartupEntry \<Rightarrow> string" where
  "StartupEntry_Entrypoint e =
     (if su_Name e = ''core.system'' \<or> su_Name e = ''core.base'' \<and> su_ArgsName e \<noteq> [] then
        su_ArgsName e @ concat (map (\<lambda>arg. '' \"'' @ concat (map (\<lambda>c. if c = CHR 0x22 then [CHR 0x5C, c] else [c]) arg) @ ''\"'') (su_Args e))
      else [])"

definition mergeEnvs :: "(string \<times> string) list \<Rightarrow> (string \<times> string) list \<Rightarrow> (string \<times> string) list" where
  "mergeEnvs base new = (if base = [] then new else fold (\<lambda>(k, v) m. AList.update k v m) new base)"

text \<open>\<open>fListStartup\<close> changes the configuration of the machine, not the machine that was made from it.\<close>

definition fListStartup :: "'w VmEnv \<Rightarrow> string \<Rightarrow> ('w, unit) vmop" where
  "fListStartup E path =
     itry (ask (ve_Open E path)) (\<lambda>r. case r of
       Inl e \<Rightarrow> iret (if e = ErrNotExist then Ok () else Err (Wrap (''failed to load startup file '' @ squote path) e))
     | Inr _ \<Rightarrow>
         ibind (ask (ve_decodeStartup E path)) (\<lambda>entry. case entry of
           None \<Rightarrow> iret (Ok ())
         | Some entry \<Rightarrow> setLocals (\<lambda>l. let data = lc_config l in
             l\<lparr>lc_config := data\<lparr>vm_Env := mergeEnvs (su_Env entry) (vm_Env data),
               vm_Entrypoint := (if vm_Entrypoint data = [] \<and> StartupEntry_Entrypoint entry \<noteq> [] then StartupEntry_Entrypoint entry
                 else vm_Entrypoint data)\<rparr>\<rparr>)))"


section \<open>Mounts (vm.go)\<close>

definition addDisk :: "string \<Rightarrow> string \<Rightarrow> ('w, unit) vmop" where
  "addDisk path target = setLocals (\<lambda>l. l\<lparr>lc_machine := (lc_machine l)\<lparr>m_Disks := m_Disks (lc_machine l) @ [\<lparr>disk_Path = path, disk_Target = target\<rparr>]\<rparr>\<rparr>)"

definition addShared :: "string \<Rightarrow> string \<Rightarrow> string \<Rightarrow> ('w, unit) vmop" where
  "addShared i path target = setLocals (\<lambda>l. l\<lparr>lc_machine := (lc_machine l)\<lparr>m_Shared := m_Shared (lc_machine l) @
     [\<lparr>sh_ID = i, sh_Path = path, sh_Target = target\<rparr>]\<rparr>\<rparr>)"

definition mountDisk :: "'w VmEnv \<Rightarrow> WorkloadWithID \<Rightarrow> MachineMount \<Rightarrow> bool \<Rightarrow> ('w, unit) vmop" where
  "mountDisk E wl mount format =
     (let H = se_host (ve_storage E); F = se_os (ve_storage E) in
      ibind (iwrap (''failed to inspect disk '' @ squote (mm_Name mount)) (onModule (DiskLookup H F (wi_ID wl)))) (\<lambda>info.
      ibind (if format then iwrap ''failed to prepare mount'' (onModule (DiskFormat H F (wi_ID wl))) else iret (Ok ())) (\<lambda>_.
      addDisk (vd_Path info) (mm_Mountpoint mount))))"

definition mountVolume :: "'w VmEnv \<Rightarrow> WorkloadWithID \<Rightarrow> MachineMount \<Rightarrow> ('w, unit) vmop" where
  "mountVolume E wl mount =
     ibind (iwrap (''failed to lookup volume '' @ qquote (wi_ID wl)) (onModule (VolumeLookup (se_host (ve_storage E)) (wi_ID wl)))) (\<lambda>volume.
     addShared (wl_Name (wi_Workload wl)) (vi_Path volume) (mm_Mountpoint mount))"

definition mountQsfs :: "'w VmEnv \<Rightarrow> WorkloadWithID \<Rightarrow> MachineMount \<Rightarrow> ('w, unit) vmop" where
  "mountQsfs E wl mount =
     ibind (iret (rwrap (''invalid qsfs result '' @ squote (mm_Name mount)) (ve_unmarshalQsfs E (Data (wl_Result (wi_Workload wl)))))) (\<lambda>path.
     addShared (wl_Name (wi_Workload wl)) path (mm_Mountpoint mount))"

definition vmMount :: "'w VmEnv \<Rightarrow> Deployment \<Rightarrow> bool \<Rightarrow> MachineMount \<Rightarrow> ('w, unit) vmop" where
  "vmMount E deployment format mount =
     ibind (iret (rwrap (''failed to get mount '' @ squote (mm_Name mount) @ '' workload'') (Deployment_Get deployment (mm_Name mount)))) (\<lambda>wl.
     let t = wl_Type (wi_Workload wl) in
     if State (wl_Result (wi_Workload wl)) \<noteq> StateOk then iret (Err (Errorf (''invalid disk '' @ squote (mm_Name mount) @ '' state'')))
     else if t = ZMountType then mountDisk E wl mount format
     else if t = QuantumSafeFSType then mountQsfs E wl mount
     else if t = VolumeType then mountVolume E wl mount
     else iret (Err (Errorf (''expecting a reservation of type '' @ squote ZMountType @ '' or '' @ squote QuantumSafeFSType
       @ '' for disk '' @ squote (mm_Name mount)))))"

definition vmMounts :: "'w VmEnv \<Rightarrow> Deployment \<Rightarrow> MachineMount list \<Rightarrow> bool \<Rightarrow> ('w, unit) vmop" where
  "vmMounts E deployment mounts format = each (vmMount E deployment format) mounts"

definition copyFile :: "'w VmEnv \<Rightarrow> string \<Rightarrow> string \<Rightarrow> ('w, unit) vmop" where
  "copyFile E srcPath destPath =
     ibind (iwrap (''Coludn't find '' @ srcPath @ '' on the node'') (ask (ve_Open E srcPath))) (\<lambda>_.
     ibind (iwrap (''Coludn't create '' @ destPath @ '' file'') (onNode (ve_OpenFile E destPath))) (\<lambda>_.
     iwrap (''Couldn't copy to '' @ destPath) (onNode (ve_Copy E srcPath destPath))))"


section \<open>Boot (utils.go)\<close>

definition setMachine :: "(VM \<Rightarrow> VM) \<Rightarrow> ('w, unit) vmop" where
  "setMachine f = setLocals (\<lambda>l. l\<lparr>lc_machine := f (lc_machine l)\<rparr>)"

definition prepVirtualMachine :: "'w VmEnv \<Rightarrow> string \<Rightarrow> FListInfo \<Rightarrow> Deployment \<Rightarrow> ('w, unit) vmop" where
  "prepVirtualMachine E cloudImage imageInfo deployment =
     (let H = se_host (ve_storage E); F = se_os (ve_storage E) in
      ibind (localOf (\<lambda>l. vm_Mounts (lc_config l))) (\<lambda>mounts. case mounts of
        [] \<Rightarrow> iret (Err (Errorf ''at least one mount has to be attached for Vm mode''))
      | first # rest \<Rightarrow>
          ibind (setMachine (\<lambda>m. m\<lparr>m_KernelImage := Join [cloudImage, ''hypervisor-fw'']\<rparr>)) (\<lambda>_.
          ibind (iret (Deployment_Get deployment (mm_Name first))) (\<lambda>disk.
          ibind (iret (fail_if (wl_Type (wi_Workload disk) \<noteq> ZMountType) (Errorf ''mount is not a valid disk workload''))) (\<lambda>_.
          ibind (iret (fail_if (State (wl_Result (wi_Workload disk)) \<noteq> StateOk) (Errorf ''boot disk was not deployed correctly''))) (\<lambda>_.
          ibind (iwrap ''disk does not exist'' (onModule (DiskLookup H F (wi_ID disk)))) (\<lambda>info.
          ibind (iwrap ''failed to write image to disk'' (onModule (DiskWrite H F (wi_ID disk) (fl_ImagePath imageInfo)))) (\<lambda>_.
          ibind (setMachine (\<lambda>m. m\<lparr>m_Boot := \<lparr>boot_Type = BootDisk, boot_Path = vd_Path info\<rparr>\<rparr>)) (\<lambda>_.
          vmMounts E deployment rest False)))))))))"

definition rootfsName :: "WorkloadWithID \<Rightarrow> string" where
  "rootfsName wl = ''rootfs:'' @ wi_ID wl"

text \<open>The flist is mounted again, with a volume of its own to write to; when that fails, the deferred
  function deletes the volume (the errors after it are in variables of their own).\<close>

definition mountRootfs :: "'w VmEnv \<Rightarrow> WorkloadWithID \<Rightarrow> ('w, string \<times> bool) vmop" where
  "mountRootfs E wl =
     (let H = se_host (ve_storage E); volName = rootfsName wl in
      ibind (iwrap (''failed to unmount flist: '' @ wi_ID wl) (onNode (ve_FlistUnmount E (wi_ID wl)))) (\<lambda>_.
      ibind (iwrap ''failed to check if vm rootfs exists'' (onModule (VolumeExists H volName))) (\<lambda>volumeExists.
      ibind (localOf lc_config) (\<lambda>config.
      ibind (iwrap ''failed to create vm rootfs'' (onModule (VolumeCreate H volName (ZMachine_RootSize config)))) (\<lambda>volume.
      ibind (onError (logged (onModule (VolumeDelete H volName)))
        (iwrap (''failed to mount flist: '' @ wi_ID wl) (onNode (ve_FlistMount E (wi_ID wl) (vm_FList config) (Some (vi_Path volume)))))) (\<lambda>mnt.
      iret (Ok (mnt, volumeExists))))))))"

definition removeHostKeys :: "'w VmEnv \<Rightarrow> string \<Rightarrow> ('w, unit) vmop" where
  "removeHostKeys E mnt =
     ibind (ask (\<lambda>w. Ok (ve_Glob E (Join [mnt, ''etc'', ''ssh'', ''ssh_host_*'']) w))) (\<lambda>files.
     each (\<lambda>f. logged (onNode (ve_Remove E f))) files)"

definition setKernel :: "string \<Rightarrow> FListInfo \<Rightarrow> string \<Rightarrow> ('w, unit) vmop" where
  "setKernel cloudImage imageInfo mnt = setLocals (\<lambda>l. l\<lparr>lc_machine := (let m = lc_machine l; entry = vm_Entrypoint (lc_config l) in
     if length (fl_KernelPath imageInfo) \<noteq> 0
     then m\<lparr>m_KernelImage := fl_KernelPath imageInfo, m_InitrdImage := fl_InitrdPath imageInfo,
       m_KernelArgs := (if length entry \<noteq> 0 then AList.update ''init'' entry (m_KernelArgs m) else m_KernelArgs m)\<rparr>
     else m\<lparr>m_KernelImage := Join [cloudImage, ''kernel''], m_InitrdImage := Join [cloudImage, ''initramfs-linux.img'']\<rparr>)
       \<lparr>m_Boot := \<lparr>boot_Type = BootVirtioFS, boot_Path = mnt\<rparr>\<rparr>\<rparr>)"

definition prepContainer :: "'w VmEnv \<Rightarrow> string \<Rightarrow> FListInfo \<Rightarrow> Deployment \<Rightarrow> WorkloadWithID \<Rightarrow> ('w, unit) vmop" where
  "prepContainer E cloudImage imageInfo deployment wl =
     ibind (mountRootfs E wl) (\<lambda>(mnt, volumeExists).
     ibind (if volumeExists then iret (Ok ()) else removeHostKeys E mnt) (\<lambda>_.
     ibind (setKernel cloudImage imageInfo mnt) (\<lambda>_.
     ibind (iwrap ''failed to apply startup config from flist'' (fListStartup E (Join [mnt, ''.startup.toml'']))) (\<lambda>_.
     ibind (localOf lc_config) (\<lambda>config.
     ibind (vmMounts E deployment (vm_Mounts config) True) (\<lambda>_.
     if vm_Corex config then
       ibind (iwrap ''failed to inject corex binary'' (copyFile E ''/usr/bin/corex'' (Join [mnt, ''corex'']))) (\<lambda>_.
       setMachine (\<lambda>m. m\<lparr>m_Entrypoint := ''/corex --ipv6 -d 7 --interface eth0''\<rparr>))
     else iret (Ok ())))))))"


section \<open>Provisioning (vm.go)\<close>

definition noVM :: VM where
  "noVM = \<lparr>m_Name = [], m_CPU = 0, m_Memory = 0, m_Ifaces = [], m_KernelImage = [], m_InitrdImage = [], m_KernelArgs = [],
     m_Entrypoint = [], m_Disks = [], m_Shared = [], m_Boot = \<lparr>boot_Type = BootDisk, boot_Path = []\<rparr>, m_Environment = [],
     m_Hostname = [], m_Devices = []\<rparr>"

definition noZMachine :: ZMachine where
  "noZMachine = \<lparr>vm_FList = [], vm_Network = \<lparr>mn_PublicIP = [], mn_Planetary = False, mn_Mycelium = None, mn_Interfaces = []\<rparr>,
     vm_Size = 0, vm_ComputeCapacity = \<lparr>mc_CPU = 0, mc_Memory = 0\<rparr>, vm_Mounts = [], vm_Entrypoint = [], vm_Env = [],
     vm_Corex = False, vm_GPU = []\<rparr>"

definition noLocals :: Locals where
  "noLocals = \<lparr>lc_result = noZMachineResult, lc_machine = noVM, lc_config = noZMachine, lc_ifaces = [], lc_ifs = [], lc_pubIf = []\<rparr>"

text \<open>What is checked before anything is set up; it returns the deployment.\<close>

definition vmChecks :: "'w VmEnv \<Rightarrow> 's Storage \<Rightarrow> Ctx \<Rightarrow> 's \<Rightarrow> WorkloadWithID \<Rightarrow> ('w, Deployment) vmop" where
  "vmChecks E S ctx s wl =
     ibind (ask (\<lambda>w. fail_if (ve_Exists E (wi_ID wl) w) ErrNoActionNeeded)) (\<lambda>_.
     ibind (iret (rwrap ''failed to decode reservation schema'' (se_ZMachine (ve_storage E) (wl_Data (wi_Workload wl))))) (\<lambda>config.
     ibind (iret (fail_if (length (vm_GPU config) \<noteq> 0 \<and> \<not> IsRentedNode ctx)
       (Errorf ''usage of GPU is not allowed unless node is rented''))) (\<lambda>_.
     ibind (setLocals (\<lambda>l. l\<lparr>lc_config := config, lc_machine := noVM\<lparr>m_Name := wi_ID wl,
       m_CPU := mc_CPU (vm_ComputeCapacity config), m_Memory := mc_Memory (vm_ComputeCapacity config),
       m_Entrypoint := vm_Entrypoint config\<rparr>\<rparr>)) (\<lambda>_.
     ibind (iwrap ''failed to prepare requested gpu device(s)'' (ask (ExpandGPUs E (vm_GPU config)))) (\<lambda>devices.
     ibind (setMachine (\<lambda>m. m\<lparr>m_Devices := map pci_Slot devices\<rparr>)) (\<lambda>_.
     case mn_Interfaces (vm_Network config) of
       [netConfig] \<Rightarrow>
         ibind (ask (\<lambda>w. fail_if (mn_PublicIP (vm_Network config) \<noteq> [] \<and> \<not> ve_PublicIPv4Support E w)
           (Errorf ''public ipv4 is requested, but not supported on this node''))) (\<lambda>_.
         ibind (setLocals (\<lambda>l. l\<lparr>lc_result := (lc_result l)\<lparr>mr_ID := wi_ID wl, mr_IP := IP_String (mi_IP netConfig)\<rparr>\<rparr>)) (\<lambda>_.
         iret (rwrap ''failed to get deployment'' (GetDeployment S ctx s))))
     | _ \<Rightarrow> iret (Err (Errorf ''only one private network is support''))))))))"

text \<open>The interfaces, with the name of each tap for the clean up.\<close>

definition addIface :: "VMIface \<Rightarrow> string \<Rightarrow> ('w, unit) vmop" where
  "addIface ifc tap = setLocals (\<lambda>l. l\<lparr>lc_ifs := lc_ifs l @ [tap], lc_ifaces := lc_ifaces l @ [ifc]\<rparr>)"

definition firstIP :: "VMIface \<Rightarrow> string" where
  "firstIP ifc = IP_String (net_IP (hd (if_IPs ifc)))"

definition privInterfaces :: "'w VmEnv \<Rightarrow> Deployment \<Rightarrow> WorkloadWithID \<Rightarrow> ('w, unit) vmop" where
  "privInterfaces E deployment wl =
     ibind (localOf (\<lambda>l. mn_Interfaces (vm_Network (lc_config l)))) (\<lambda>nics.
     each (\<lambda>nic. ibind (newPrivNetworkInterface E deployment wl nic) (\<lambda>ifc.
       addIface ifc (unique E (wi_ID wl) (mi_Network nic)))) nics)"

definition pubInterface :: "'w VmEnv \<Rightarrow> Deployment \<Rightarrow> ('w, unit) vmop" where
  "pubInterface E deployment =
     ibind (localOf lc_config) (\<lambda>config.
     if mn_PublicIP (vm_Network config) = [] then iret (Ok ())
     else
       ibind (newPubNetworkInterface E deployment config) (\<lambda>ifc.
       ibind (iret (Deployment_Get deployment (mn_PublicIP (vm_Network config)))) (\<lambda>ipWl.
       let tap = unique E (wi_ID ipWl) ''pub'' in
       ibind (setLocals (\<lambda>l. l\<lparr>lc_pubIf := tap\<rparr>)) (\<lambda>_. addIface ifc tap))))"

definition yggInterface :: "'w VmEnv \<Rightarrow> WorkloadWithID \<Rightarrow> ('w, unit) vmop" where
  "yggInterface E wl =
     ibind (localOf (\<lambda>l. mn_Planetary (vm_Network (lc_config l)))) (\<lambda>planetary.
     if \<not> planetary then iret (Ok ())
     else
       ibind (newYggNetworkInterface E wl) (\<lambda>ifc.
       ibind (addIface ifc (unique E (wi_ID wl) ''ygg'')) (\<lambda>_.
       setLocals (\<lambda>l. l\<lparr>lc_result := (lc_result l)\<lparr>mr_PlanetaryIP := firstIP ifc\<rparr>\<rparr>))))"

definition myceliumInterface :: "'w VmEnv \<Rightarrow> Deployment \<Rightarrow> WorkloadWithID \<Rightarrow> ('w, unit) vmop" where
  "myceliumInterface E deployment wl =
     ibind (localOf (\<lambda>l. mn_Mycelium (vm_Network (lc_config l)))) (\<lambda>mycelium. case mycelium of
       None \<Rightarrow> iret (Ok ())
     | Some config \<Rightarrow>
         ibind (newMyceliumNetworkInterface E deployment wl config) (\<lambda>ifc.
         ibind (addIface ifc (unique E (wi_ID wl) ''mycelium'')) (\<lambda>_.
         setLocals (\<lambda>l. l\<lparr>lc_result := (lc_result l)\<lparr>mr_MyceliumIP := firstIP ifc\<rparr>\<rparr>))))"

definition vmInterfaces :: "'w VmEnv \<Rightarrow> Deployment \<Rightarrow> WorkloadWithID \<Rightarrow> ('w, unit) vmop" where
  "vmInterfaces E deployment wl =
     ibind (privInterfaces E deployment wl) (\<lambda>_.
     ibind (pubInterface E deployment) (\<lambda>_.
     ibind (yggInterface E wl) (\<lambda>_. myceliumInterface E deployment wl)))"

definition cloudContainerName :: string where "cloudContainerName = ''cloud-container''"

definition vmBoot :: "'w VmEnv \<Rightarrow> Deployment \<Rightarrow> WorkloadWithID \<Rightarrow> ('w, unit) vmop" where
  "vmBoot E deployment wl =
     (let reset = setLocals (\<lambda>l. l\<lparr>lc_result := noZMachineResult\<rparr>) in
      ibind (localOf (\<lambda>l. vm_FList (lc_config l))) (\<lambda>flist.
      ibind (iwrap (''failed to mount flist: '' @ wi_ID wl) (onNode (ve_FlistMount E (wi_ID wl) flist None))) (\<lambda>mnt.
      ibind (ask (getFlistInfo E mnt)) (\<lambda>imageInfo.
      ibind (onError reset (iret (rwrap ''failed to construct cloud-container flist url'' (ve_cloudFlist E)))) (\<lambda>cloudContainerFlist.
      ibind (onError reset (iwrap ''failed to get cloud-container flist hash'' (ask (ve_FlistHash E cloudContainerFlist)))) (\<lambda>hash.
      ibind (iwrap ''failed to mount cloud container base image''
        (onNode (ve_FlistMount E (cloudContainerName @ '':'' @ hash) cloudContainerFlist None))) (\<lambda>cloudImage.
      if FListInfo_IsContainer imageInfo then prepContainer E cloudImage imageInfo deployment wl
      else prepVirtualMachine E cloudImage imageInfo deployment)))))))"

definition vmRun :: "'w VmEnv \<Rightarrow> WorkloadWithID \<Rightarrow> ('w, unit) vmop" where
  "vmRun E wl =
     ibind (setLocals (\<lambda>l. l\<lparr>lc_machine := (lc_machine l)\<lparr>m_Ifaces := lc_ifaces l, m_Environment := vm_Env (lc_config l),
       m_Hostname := wl_Name (wi_Workload wl)\<rparr>\<rparr>)) (\<lambda>_.
     ibind (localOf lc_machine) (\<lambda>machine.
     ibind (onError (logged (onNode (ve_Delete E (wi_ID wl)))) (onNode (ve_Run E machine))) (\<lambda>url.
     setLocals (\<lambda>l. l\<lparr>lc_result := (lc_result l)\<lparr>mr_ConsoleURL := url\<rparr>\<rparr>))))"

definition vmCleanUp :: "'w VmEnv \<Rightarrow> ('w, unit) vmop" where
  "vmCleanUp E =
     ibind (localOf lc_ifs) (\<lambda>ifs.
     ibind (each (\<lambda>nic. logged (onNode (ve_RemoveTap E nic))) ifs) (\<lambda>_.
     ibind (localOf lc_pubIf) (\<lambda>pubIf.
     if pubIf = [] then iret (Ok ()) else logged (onNode (ve_DisconnectPubTap E pubIf)))))"

definition virtualMachineProvisionImpl :: "'w VmEnv \<Rightarrow> 's Storage \<Rightarrow> Ctx \<Rightarrow> 's \<Rightarrow> WorkloadWithID \<Rightarrow> ('w, unit) vmop" where
  "virtualMachineProvisionImpl E S ctx s wl =
     ibind (vmChecks E S ctx s wl) (\<lambda>deployment.
     onError (vmCleanUp E)
       (ibind (vmInterfaces E deployment wl) (\<lambda>_.
        ibind (vmBoot E deployment wl) (\<lambda>_. vmRun E wl))))"

definition vm_Provision :: "'w VmEnv \<Rightarrow> 's Storage \<Rightarrow> Ctx \<Rightarrow> 's \<Rightarrow> WorkloadWithID \<Rightarrow> 'w storage_world \<Rightarrow>
    ((bytes result \<times> err option) \<times> 'w storage_world) option" where
  "vm_Provision E S ctx s wl mw = (case virtualMachineProvisionImpl E S ctx s wl (mw, noLocals) of
     None \<Rightarrow> None
   | Some ((mw, l), r) \<Rightarrow> Some ((ve_marshal E (lc_result l), errOf r), mw))"


section \<open>Deprovisioning (vm.go)\<close>

definition removeTap :: "'w VmEnv \<Rightarrow> string \<Rightarrow> ('w, unit) vmop" where
  "removeTap E tap = iwrap ''could not clean up tap device'' (onNode (ve_RemoveTap E tap))"

definition deleteMachine :: "'w VmEnv \<Rightarrow> WorkloadWithID \<Rightarrow> ('w, unit) vmop" where
  "deleteMachine E wl =
     itry (ask (ve_Inspect E (wi_ID wl))) (\<lambda>r. case r of
       Inl _ \<Rightarrow> iret (Ok ())
     | Inr _ \<Rightarrow> iwrap (''failed to delete vm '' @ wi_ID wl) (onNode (ve_Delete E (wi_ID wl))))"

definition vmDeprovisionImpl :: "'w VmEnv \<Rightarrow> 's Storage \<Rightarrow> Ctx \<Rightarrow> 's \<Rightarrow> WorkloadWithID \<Rightarrow> ('w, unit) vmop" where
  "vmDeprovisionImpl E S ctx s wl =
     ibind (iret (rwrap ''failed to decode reservation schema'' (se_ZMachine (ve_storage E) (wl_Data (wi_Workload wl))))) (\<lambda>cfg.
     let network = vm_Network cfg; tap = unique E (wi_ID wl) in
     ibind (deleteMachine E wl) (\<lambda>_.
     ibind (logged (onNode (ve_FlistUnmount E (wi_ID wl)))) (\<lambda>_.
     ibind (logged (onModule (VolumeDelete (se_host (ve_storage E)) (rootfsName wl)))) (\<lambda>_.
     ibind (each (\<lambda>ifc. removeTap E (tap (mi_Network ifc))) (mn_Interfaces network)) (\<lambda>_.
     ibind (if mn_Planetary network then removeTap E (tap ''ygg'') else iret (Ok ())) (\<lambda>_.
     ibind (if mn_Mycelium network \<noteq> None then removeTap E (tap ''mycelium'') else iret (Ok ())) (\<lambda>_.
     if length (mn_PublicIP network) > 0 then
       ibind (iret (GetWorkload S ctx s (mn_PublicIP network))) (\<lambda>ipWl.
       iwrap ''could not clean up public tap device'' (onNode (ve_RemovePubTap E (unique E (wi_ID ipWl) ''pub''))))
     else iret (Ok ()))))))))"

definition vm_Deprovision :: "'w VmEnv \<Rightarrow> 's Storage \<Rightarrow> Ctx \<Rightarrow> 's \<Rightarrow> WorkloadWithID \<Rightarrow> 'w storage_world \<Rightarrow>
    (err option \<times> 'w storage_world) option" where
  "vm_Deprovision E S ctx s wl mw = (case vmDeprovisionImpl E S ctx s wl (mw, noLocals) of
     None \<Rightarrow> None
   | Some ((mw, l), r) \<Rightarrow> Some (errOf r, mw))"

end
