(* ===== verification/BtrfsText.thy ===== *)
theory BtrfsText
  imports Paths GridTypes
begin

text \<open>
  The output of the btrfs command, \<open>pkg/storage/filesystem/btrfs_utils.go\<close>: scanning with
  \<open>fmt.Sscanf\<close>, the two regular expressions, and the parsers. What a parser returns on text
  that the tool prints for given data is that data.
\<close>

section \<open>Sscanf\<close>

text \<open>
  A format is a list of literal characters, blanks, \<open>%d\<close> (for an \<open>int\<close>) and \<open>%s\<close>. A blank in
  the format stands for at least one blank of the input, or its end; \<open>%d\<close> and \<open>%s\<close> skip blanks
  before the value. A newline is not skipped.
\<close>

datatype FmtItem = FLit char | FBlank | FInt | FStr

datatype ScanVal = VInt int | VStr string

definition scanBlank :: "string \<Rightarrow> string result" where
  "scanBlank s = (case s of
     [] \<Rightarrow> Ok []
   | c # cs \<Rightarrow> if is_newline c then Err (Errorf ''newline in input does not match format'')
       else if \<not> is_blank c then Err (Errorf ''expected space in input to match format'')
       else Ok (dropWhile is_blank cs))"

definition scanInt :: "string \<Rightarrow> (int \<times> string) result" where
  "scanInt s = rbind (skipSpace s) (\<lambda>s.
     if s = [] then Err (Errorf ''unexpected EOF'')
     else let sign = (hd s = CHR ''-'' \<or> hd s = CHR ''+''); t = (if sign then tl s else s);
              tok = takeWhile is_digit t; n = int (undec tok); i = (if hd s = CHR ''-'' then - n else n) in
       if t = [] then Err (Errorf ''unexpected EOF'')
       else if tok = [] then Err (Errorf ''expected integer'')
       else if i < - (2 ^ 63) \<or> 2 ^ 63 \<le> i then Err (Errorf ''value out of range'')
       else Ok (i, dropWhile is_digit t))"

definition scanToken :: "string \<Rightarrow> (string \<times> string) result" where
  "scanToken s = rbind (skipSpace s) (\<lambda>s.
     if s = [] then Err (Errorf ''unexpected EOF'')
     else Ok (takeWhile (\<lambda>c. \<not> is_blank c \<and> \<not> is_newline c) s, dropWhile (\<lambda>c. \<not> is_blank c \<and> \<not> is_newline c) s))"

fun sscanf :: "FmtItem list \<Rightarrow> string \<Rightarrow> ScanVal list result" where
  "sscanf [] s = Ok []"
| "sscanf (FLit c # fs) s = rbind (scanLit c s) (sscanf fs)"
| "sscanf (FBlank # fs) s = rbind (scanBlank s) (sscanf fs)"
| "sscanf (FInt # fs) s = rbind (scanInt s) (\<lambda>(i, s). rmap (\<lambda>vs. VInt i # vs) (sscanf fs s))"
| "sscanf (FStr # fs) s = rbind (scanToken s) (\<lambda>(t, s). rmap (\<lambda>vs. VStr t # vs) (sscanf fs s))"

text \<open>A format as it is written in the code: \<open>#\<close> stands for \<open>%d\<close> and \<open>@\<close> for \<open>%s\<close>; a run of
  blanks counts as one.\<close>

fun compileFmt :: "string \<Rightarrow> FmtItem list" where
  "compileFmt [] = []"
| "compileFmt (c # cs) =
     (if c = CHR '' '' then
        (case compileFmt cs of FBlank # fs \<Rightarrow> FBlank # fs | fs \<Rightarrow> FBlank # fs)
      else (if c = CHR ''#'' then FInt else if c = CHR ''@'' then FStr else FLit c) # compileFmt cs)"

definition newline :: char where "newline = CHR 0x0A"

section \<open>Subvolumes\<close>

record BtrfsVolume =
  bv_Path :: string
  bv_ID :: int
  bv_Generation :: int
  bv_ParentID :: int

definition noVolume :: BtrfsVolume where
  "noVolume = \<lparr>bv_Path = [], bv_ID = 0, bv_Generation = 0, bv_ParentID = 0\<rparr>"

text \<open>\<open>strings.SplitN(line, ":", 2)\<close>.\<close>

definition splitColon :: "string \<Rightarrow> (string \<times> string) option" where
  "splitColon line = (case dropWhile (\<lambda>c. c \<noteq> CHR '':'') line of
     [] \<Rightarrow> None | _ # v \<Rightarrow> Some (takeWhile (\<lambda>c. c \<noteq> CHR '':'') line, v))"

definition addValue :: "string \<Rightarrow> (string \<rightharpoonup> string) \<Rightarrow> (string \<rightharpoonup> string)" where
  "addValue line values = (case splitColon line of
     None \<Rightarrow> values
   | Some (k, v) \<Rightarrow> if TrimSpace v = ''-'' then values else values(TrimSpace k \<mapsto> TrimSpace v))"

definition scanField :: "(string \<rightharpoonup> string) \<Rightarrow> string \<Rightarrow> int result" where
  "scanField values k = rbind (sscanf [FInt] (case values k of None \<Rightarrow> [] | Some v \<Rightarrow> v)) (\<lambda>vs.
     case vs of [VInt i] \<Rightarrow> Ok i | _ \<Rightarrow> Err (Errorf []))"

definition parseSubvolInfo :: "string \<Rightarrow> BtrfsVolume result" where
  "parseSubvolInfo output =
     (let values = fold addValue (splitOn newline output) (\<lambda>_. None) in
      rbind (scanField values ''Subvolume ID'') (\<lambda>i.
      rbind (scanField values ''Parent ID'') (\<lambda>parent.
      rbind (scanField values ''Generation'') (\<lambda>gen.
      Ok \<lparr>bv_Path = [], bv_ID = i, bv_Generation = gen, bv_ParentID = parent\<rparr>))))"

definition subvolFormat :: "FmtItem list" where
  "subvolFormat = compileFmt ''ID # gen # top level # path @''"

definition parseSubvolLine :: "string \<Rightarrow> BtrfsVolume result" where
  "parseSubvolLine line = rbind (sscanf subvolFormat line) (\<lambda>vs.
     case vs of
       [VInt i, VInt gen, VInt parent, VStr path] \<Rightarrow>
         Ok \<lparr>bv_Path = path, bv_ID = i, bv_Generation = gen, bv_ParentID = parent\<rparr>
     | _ \<Rightarrow> Err (Errorf []))"

definition parseSubvolList :: "string \<Rightarrow> BtrfsVolume list result" where
  "parseSubvolList output =
     rlist parseSubvolLine (filter (\<lambda>line. line \<noteq> []) (map TrimSpace (splitOn newline output)))"


section \<open>Quota groups\<close>

record BtrfsQGroup =
  qg_ID :: string
  qg_Rfer :: u64
  qg_Excl :: u64
  qg_MaxRfer :: u64
  qg_MaxExcl :: u64

text \<open>\<open>strconv.ParseUint(s, 10, 64)\<close> of digits: a value that does not fit is an error that comes with
  the largest value, and here the error is dropped.\<close>

definition parseUintSat :: "string \<Rightarrow> u64" where
  "parseUintSat s = (if int (undec s) < 2 ^ 64 then of_nat (undec s) else - 1)"

text \<open>
  A match of \<open>^(\d+/\d+)\s+(\d+)\s+(\d+)\s+(\d+|none)\s+(\d+|none).*$\<close> at the start of a line: the
  groups and what follows the match. The classes of neighbouring parts are disjoint, so that
  taking as much as possible never has to be undone; \<open>\s\<close> includes the newline.
\<close>

definition matchDigits :: "string \<Rightarrow> (string \<times> string) option" where
  "matchDigits s = (if takeWhile is_digit s = [] then None else Some (takeWhile is_digit s, dropWhile is_digit s))"

definition matchSpaces :: "string \<Rightarrow> string option" where
  "matchSpaces s = (if s \<noteq> [] \<and> is_space (hd s) then Some (dropWhile is_space s) else None)"

definition matchLimit :: "string \<Rightarrow> (string \<times> string) option" where
  "matchLimit s = (if HasPrefix s ''none'' then Some (''none'', drop 4 s) else matchDigits s)"

definition matchQGroup :: "string \<Rightarrow> ((string \<times> string \<times> string \<times> string \<times> string) \<times> string) option" where
  "matchQGroup s =
     Option.bind (matchDigits s) (\<lambda>(level, s).
     if s = [] \<or> hd s \<noteq> CHR ''/'' then None else
     Option.bind (matchDigits (tl s)) (\<lambda>(i, s).
     Option.bind (matchSpaces s) (\<lambda>s. Option.bind (matchDigits s) (\<lambda>(rfer, s).
     Option.bind (matchSpaces s) (\<lambda>s. Option.bind (matchDigits s) (\<lambda>(excl, s).
     Option.bind (matchSpaces s) (\<lambda>s. Option.bind (matchLimit s) (\<lambda>(maxRfer, s).
     Option.bind (matchSpaces s) (\<lambda>s. Option.bind (matchLimit s) (\<lambda>(maxExcl, s).
     Some ((level @ ''/'' @ i, rfer, excl, maxRfer, maxExcl), dropWhile (\<lambda>c. c \<noteq> newline) s)))))))))))"

text \<open>\<open>FindAllStringSubmatch\<close>: from line to line, going on behind a match.\<close>

definition afterLine :: "string \<Rightarrow> string" where
  "afterLine s = drop 1 (dropWhile (\<lambda>c. c \<noteq> newline) s)"

lemma length_drop_line: "length (drop 1 (dropWhile P s)) \<le> length s"
  using length_dropWhile_le[of P s] by simp

lemma length_afterLine: "s \<noteq> [] \<Longrightarrow> length (afterLine s) < length s"
  unfolding afterLine_def by (cases s) (auto simp: le_imp_less_Suc length_dropWhile_le, metis diff_le_self le_imp_less_Suc le_trans length_dropWhile_le)

lemma matchDigits_length: "matchDigits s = Some (t, r) \<Longrightarrow> length r < length s"
proof -
  assume a: "matchDigits s = Some (t, r)"
  then have "takeWhile is_digit s \<noteq> []" "r = dropWhile is_digit s" by (auto simp: matchDigits_def split: if_splits)
  moreover have "length (takeWhile is_digit s) + length (dropWhile is_digit s) = length s"
    by (metis length_append takeWhile_dropWhile_id)
  ultimately show ?thesis by (cases "takeWhile is_digit s") auto
qed

lemma matchSpaces_length: "matchSpaces s = Some r \<Longrightarrow> length r \<le> length s"
  by (auto simp: matchSpaces_def length_dropWhile_le split: if_splits)

lemma matchLimit_length: "matchLimit s = Some (t, r) \<Longrightarrow> length r \<le> length s"
  by (auto simp: matchLimit_def split: if_splits dest: matchDigits_length)

lemma matchQGroup_length:
  assumes "matchQGroup s = Some (g, r)"
  shows "length r < length s"
proof -
  from assms obtain t1 s1 t2 s2 s3 t4 s4 s5 t6 s6 s7 t8 s8 s9 t10 s10 where
    m: "matchDigits s = Some (t1, s1)" "matchDigits (tl s1) = Some (t2, s2)" "matchSpaces s2 = Some s3"
      "matchDigits s3 = Some (t4, s4)" "matchSpaces s4 = Some s5" "matchDigits s5 = Some (t6, s6)"
      "matchSpaces s6 = Some s7" "matchLimit s7 = Some (t8, s8)" "matchSpaces s8 = Some s9" "matchLimit s9 = Some (t10, s10)"
      and r: "r = dropWhile (\<lambda>c. c \<noteq> newline) s10"
    unfolding matchQGroup_def by (auto simp: bind_eq_Some_conv split: if_splits)
  have "length (tl s1) \<le> length s1" by simp
  then show ?thesis
    using m(1,2,4,6)[THEN matchDigits_length] m(3,5,7,9)[THEN matchSpaces_length] m(8,10)[THEN matchLimit_length]
      length_dropWhile_le[of "\<lambda>c. c \<noteq> newline" s10] unfolding r by linarith
qed

function findQGroups :: "string \<Rightarrow> (string \<times> string \<times> string \<times> string \<times> string) list" where
  "findQGroups s = (if s = [] then [] else case matchQGroup s of
     None \<Rightarrow> findQGroups (afterLine s)
   | Some (g, rest) \<Rightarrow> g # findQGroups (drop 1 rest))"
  by pat_completeness auto
termination
  by (relation "measure length") (auto simp: length_afterLine dest: matchQGroup_length)

declare findQGroups.simps [simp del]

definition qgroupOf :: "string \<times> string \<times> string \<times> string \<times> string \<Rightarrow> BtrfsQGroup" where
  "qgroupOf line = (case line of (i, rfer, excl, maxRfer, maxExcl) \<Rightarrow>
     \<lparr>qg_ID = i, qg_Rfer = parseUintSat rfer, qg_Excl = parseUintSat excl,
      qg_MaxRfer = (if maxRfer = ''none'' then 0 else parseUintSat maxRfer),
      qg_MaxExcl = (if maxExcl = ''none'' then 0 else parseUintSat maxExcl)\<rparr>)"

definition parseQGroups :: "string \<Rightarrow> (string \<rightharpoonup> BtrfsQGroup)" where
  "parseQGroups output = fold (\<lambda>line m. m(qg_ID (qgroupOf line) \<mapsto> qgroupOf line)) (findQGroups output) (\<lambda>_. None)"


section \<open>Filesystems\<close>

record BtrfsDevice =
  bd_Missing :: bool
  bd_DevID :: int
  bd_Size :: int
  bd_Used :: int
  bd_Path :: string

record Btrfs =
  bt_Label :: string
  bt_UUID :: string
  bt_TotalDevices :: int
  bt_Used :: int
  bt_Devices :: "BtrfsDevice list"
  bt_Warnings :: string

definition deviceFormat :: "FmtItem list" where
  "deviceFormat = compileFmt ''devid    # size # used # path @''"

definition parseDevice :: "string \<Rightarrow> BtrfsDevice list" where
  "parseDevice line = (if line = [] then [] else case sscanf deviceFormat (TrimSpace line) of
     Inr [VInt i, VInt sz, VInt used, VStr path] \<Rightarrow>
       [\<lparr>bd_Missing = False, bd_DevID = i, bd_Size = sz, bd_Used = used, bd_Path = path\<rparr>]
   | _ \<Rightarrow> [])"

definition parseDevices :: "string list \<Rightarrow> BtrfsDevice list" where
  "parseDevices lines = concat (map parseDevice lines)"

text \<open>\<open>label[1 : len(label)-1]\<close> panics for a label of less than two bytes.\<close>

definition stripQuotes :: "string \<Rightarrow> string result" where
  "stripQuotes label = (if label = ''none'' then Ok label
     else if length label < 2 then Err (Panic ''slice bounds out of range'')
     else Ok (butlast (tl label)))"

definition parseFS :: "string list \<Rightarrow> Btrfs result" where
  "parseFS lines =
     rbind (sscanf (compileFmt ''Label: @ uuid: @'') (lines ! 0)) (\<lambda>vs. case vs of
       [VStr label, VStr uuid] \<Rightarrow>
         rbind (stripQuotes label) (\<lambda>label.
         rbind (sscanf (compileFmt ''Total devices # FS bytes used #'') (TrimSpace (lines ! 1))) (\<lambda>vs. case vs of
           [VInt totDevice, VInt used] \<Rightarrow>
             let rest = drop 2 lines; warning = (\<lambda>line. HasPrefix (TrimSpace line) ''**'') in
             Ok \<lparr>bt_Label = label, bt_UUID = uuid, bt_TotalDevices = totDevice, bt_Used = used,
               bt_Devices = parseDevices (filter (\<lambda>line. \<not> warning line) rest),
               bt_Warnings = concat (map TrimSpace (filter warning rest))\<rparr>
         | _ \<Rightarrow> Err (Errorf [])))
     | _ \<Rightarrow> Err (Errorf []))"

text \<open>\<open>strings.Index\<close>.\<close>

fun indexOfString :: "string \<Rightarrow> string \<Rightarrow> nat option" where
  "indexOfString sub [] = (if sub = [] then Some 0 else None)"
| "indexOfString sub (c # cs) = (if HasPrefix (c # cs) sub then Some 0 else map_option Suc (indexOfString sub cs))"

text \<open>\<open>block[labelIdx:]\<close> panics when the block has no \<open>Label:\<close> (the index is then -1).\<close>

definition parseBlock :: "string \<Rightarrow> Btrfs option result" where
  "parseBlock block =
     (case indexOfString ''Label:'' block of
        None \<Rightarrow> Err (Panic ''slice bounds out of range'')
      | Some labelIdx \<Rightarrow>
          let fsLines = splitOn newline (drop labelIdx block) in
          if length fsLines < 3 then Ok None else rmap Some (parseFS fsLines))"

fun parseBlocks :: "string list \<Rightarrow> Btrfs list result" where
  "parseBlocks [] = Ok []"
| "parseBlocks (block # blocks) =
     (if TrimSpace block = [] then parseBlocks blocks
      else rbind (parseBlock block) (\<lambda>fs. rmap (\<lambda>fss. (case fs of None \<Rightarrow> [] | Some f \<Rightarrow> [f]) @ fss) (parseBlocks blocks)))"

definition parseList :: "string \<Rightarrow> Btrfs list result" where
  "parseList output = parseBlocks (splitString [newline, newline] [] output)"

text \<open>\<open>btrfs filesystem df\<close>: matches of \<open>(\w+),\s(\w+):\s+total=(\d+),\s+used=(\d+)\<close>.\<close>

record DiskUsage =
  du_Total :: u64
  du_Used :: u64

record BtrfsDiskUsage =
  bu_Data :: DiskUsage
  bu_System :: DiskUsage
  bu_Metadata :: DiskUsage
  bu_GlobalReserve :: DiskUsage

definition matchText :: "string \<Rightarrow> string \<Rightarrow> string option" where
  "matchText t s = (if HasPrefix s t then Some (drop (length t) s) else None)"

definition matchWord :: "string \<Rightarrow> (string \<times> string) option" where
  "matchWord s = (if takeWhile is_word s = [] then None else Some (takeWhile is_word s, dropWhile is_word s))"

definition matchDF :: "string \<Rightarrow> ((string \<times> string \<times> string) \<times> string) option" where
  "matchDF s =
     Option.bind (matchWord s) (\<lambda>(name, s). Option.bind (matchText '','' s) (\<lambda>s.
     if s = [] \<or> \<not> is_space (hd s) then None else
     Option.bind (matchWord (tl s)) (\<lambda>(profile, s). Option.bind (matchText '':'' s) (\<lambda>s.
     Option.bind (matchSpaces s) (\<lambda>s. Option.bind (matchText ''total='' s) (\<lambda>s.
     Option.bind (matchDigits s) (\<lambda>(tot, s). Option.bind (matchText '','' s) (\<lambda>s.
     Option.bind (matchSpaces s) (\<lambda>s. Option.bind (matchText ''used='' s) (\<lambda>s.
     Option.bind (matchDigits s) (\<lambda>(used, s). Some ((name, tot, used), s))))))))))))"

text \<open>The matches from left to right; a match takes at least one character.\<close>

function findDF :: "string \<Rightarrow> (string \<times> string \<times> string) list" where
  "findDF s = (case s of [] \<Rightarrow> [] | c # cs \<Rightarrow> (case matchDF s of
     None \<Rightarrow> findDF cs
   | Some (g, rest) \<Rightarrow> g # findDF (if length rest < length s then rest else cs)))"
  by pat_completeness auto
termination by (relation "measure length") auto

declare findDF.simps [simp del]

definition parseUint :: "string \<Rightarrow> u64 result" where
  "parseUint s = (if int (undec s) < 2 ^ 64 then Ok (of_nat (undec s)) else Err (Errorf ''value out of range''))"

definition addDF :: "string \<times> string \<times> string \<Rightarrow> BtrfsDiskUsage \<Rightarrow> BtrfsDiskUsage result" where
  "addDF line usage = (case line of (name, tot, used) \<Rightarrow>
     (let put = (if name = ''Data'' then Some (\<lambda>u. usage\<lparr>bu_Data := u\<rparr>)
          else if name = ''System'' then Some (\<lambda>u. usage\<lparr>bu_System := u\<rparr>)
          else if name = ''Metadata'' then Some (\<lambda>u. usage\<lparr>bu_Metadata := u\<rparr>)
          else if name = ''GlobalReserve'' then Some (\<lambda>u. usage\<lparr>bu_GlobalReserve := u\<rparr>) else None) in
      case put of
        None \<Rightarrow> Ok usage
      | Some f \<Rightarrow> rbind (parseUint tot) (\<lambda>t. rbind (parseUint used) (\<lambda>u. Ok (f \<lparr>du_Total = t, du_Used = u\<rparr>)))))"

definition parseFilesystemDF :: "string \<Rightarrow> BtrfsDiskUsage result" where
  "parseFilesystemDF output = (let none = \<lparr>du_Total = 0, du_Used = 0\<rparr> in
     rfold addDF (findDF output) \<lparr>bu_Data = none, bu_System = none, bu_Metadata = none, bu_GlobalReserve = none\<rparr>)"


section \<open>What the command prints\<close>

lemma skipSpace_start: "s \<noteq> [] \<Longrightarrow> \<not> is_blank (hd s) \<Longrightarrow> \<not> is_newline (hd s) \<Longrightarrow> skipSpace s = Ok s"
  by (cases s) (auto simp: skipSpace_def)

lemma digit_plain: "is_digit c \<Longrightarrow> \<not> is_blank c \<and> \<not> is_newline c \<and> \<not> is_space c \<and> c \<noteq> CHR ''-'' \<and> c \<noteq> CHR ''+''"
  by (auto simp: is_digit_def is_blank_def is_newline_def is_space_def)

lemma dec_hd: "is_digit (hd (dec n))"
  by (rule dec_digits[of _ n]) (simp add: hd_in_set)

lemma takeWhile_dec': "r = [] \<or> \<not> is_digit (hd r) \<Longrightarrow> takeWhile is_digit (dec n @ r) = dec n"
  by (cases r) (auto simp: takeWhile_dec takeWhile_append2 dec_digits)

lemma dropWhile_dec': "r = [] \<or> \<not> is_digit (hd r) \<Longrightarrow> dropWhile is_digit (dec n @ r) = r"
  by (cases r) (auto simp: dropWhile_dec dropWhile_append2 dec_digits)

lemma scanInt_dec:
  assumes "n < 2 ^ 63" and "r = [] \<or> \<not> is_digit (hd r)"
  shows "scanInt (dec n @ r) = Ok (int n, r)"
proof -
  have hd: "hd (dec n @ r) = hd (dec n)" by simp
  note d = digit_plain[OF dec_hd[of n]]
  have "skipSpace (dec n @ r) = Ok (dec n @ r)" using d hd by (intro skipSpace_start) auto
  then show ?thesis
    using d hd assms by (simp add: scanInt_def Let_def takeWhile_dec' dropWhile_dec')
qed

lemma scanBlank_one: "s \<noteq> [] \<Longrightarrow> \<not> is_blank (hd s) \<Longrightarrow> scanBlank (CHR '' '' # s) = Ok s"
  by (cases s) (auto simp: scanBlank_def is_newline_def is_blank_def)

lemma scanToken_all:
  assumes "t \<noteq> []" and "\<forall>c \<in> set t. \<not> is_blank c \<and> \<not> is_newline c"
  shows "scanToken t = Ok (t, [])"
  using assms skipSpace_start[of t] by (auto simp: scanToken_def takeWhile_eq_all_conv dropWhile_eq_Nil_conv)

definition printSubvol :: "BtrfsVolume \<Rightarrow> string" where
  "printSubvol v = ''ID '' @ dec (nat (bv_ID v)) @ '' gen '' @ dec (nat (bv_Generation v))
     @ '' top level '' @ dec (nat (bv_ParentID v)) @ '' path '' @ bv_Path v"

definition printable :: "BtrfsVolume \<Rightarrow> bool" where
  "printable v \<longleftrightarrow> (\<forall>i \<in> {bv_ID v, bv_Generation v, bv_ParentID v}. 0 \<le> i \<and> i < 2 ^ 63) \<and>
     bv_Path v \<noteq> [] \<and> (\<forall>c \<in> set (bv_Path v). \<not> is_space c)"

lemma space_blank: "\<not> is_space c \<Longrightarrow> \<not> is_blank c \<and> \<not> is_newline c"
  by (auto simp: is_space_def is_blank_def is_newline_def)

lemma parse_printSubvol:
  assumes "printable v"
  shows "parseSubvolLine (printSubvol v) = Ok v"
proof -
  have fmt: "subvolFormat = [FLit CHR ''I'', FLit CHR ''D'', FBlank, FInt, FBlank, FLit CHR ''g'', FLit CHR ''e'', FLit CHR ''n'',
      FBlank, FInt, FBlank, FLit CHR ''t'', FLit CHR ''o'', FLit CHR ''p'', FBlank, FLit CHR ''l'', FLit CHR ''e'', FLit CHR ''v'',
      FLit CHR ''e'', FLit CHR ''l'', FBlank, FInt, FBlank, FLit CHR ''p'', FLit CHR ''a'', FLit CHR ''t'', FLit CHR ''h'', FBlank, FStr]"
    by (simp add: subvolFormat_def)
  have path: "bv_Path v \<noteq> []" "\<forall>c \<in> set (bv_Path v). \<not> is_blank c \<and> \<not> is_newline c"
    using assms space_blank by (auto simp: printable_def)
  have blank: "scanBlank (CHR '' '' # dec n @ r) = Ok (dec n @ r)" for n r
    using digit_plain[OF dec_hd[of n]] by (intro scanBlank_one) auto
  have lit: "scanBlank (CHR '' '' # c # r) = Ok (c # r)" if "\<not> is_blank c" for c r using that by (intro scanBlank_one) auto
  have pblank: "scanBlank (CHR '' '' # bv_Path v) = Ok (bv_Path v)" using path by (intro scanBlank_one) auto
  have num: "scanInt (dec (nat i) @ CHR '' '' # r) = Ok (i, CHR '' '' # r)" if "0 \<le> i" "i < 2 ^ 63" for i r
    using that scanInt_dec[of "nat i" "CHR '' '' # r"] by (simp add: is_digit_def nat_less_iff)
  have "\<not> is_blank CHR ''g''" "\<not> is_blank CHR ''t''" "\<not> is_blank CHR ''l''" "\<not> is_blank CHR ''p''" by (simp_all add: is_blank_def)
  with assms path scanToken_all[OF path] show ?thesis
    by (simp add: parseSubvolLine_def fmt printSubvol_def scanLit_def blank lit pblank num printable_def)
qed


lemma TrimSpace_id: "s \<noteq> [] \<Longrightarrow> \<not> is_space (hd s) \<Longrightarrow> \<not> is_space (last s) \<Longrightarrow> TrimSpace s = s"
proof -
  assume "s \<noteq> []" "\<not> is_space (hd s)" "\<not> is_space (last s)"
  then have "dropWhile is_space s = s" "dropWhile is_space (rev s) = rev s"
    by (cases s; simp) (cases s rule: rev_cases; use \<open>s \<noteq> []\<close> \<open>\<not> is_space (last s)\<close> in simp)
  then show ?thesis by (simp add: TrimSpace_def)
qed

lemma splitOn_lines:
  "\<forall>x \<in> set xs. sep \<notin> set x \<Longrightarrow> splitOn sep (concat (map (\<lambda>x. x @ [sep]) xs)) = xs @ [[]]"
  by (induction xs) (auto simp: split_append)

lemma newline_space: "is_space newline" "is_newline newline" "\<not> is_digit newline"
  by (simp_all add: newline_def is_space_def is_newline_def is_digit_def)

lemma printSubvol_line:
  assumes "printable v"
  shows "newline \<notin> set (printSubvol v)" "TrimSpace (printSubvol v) = printSubvol v" "printSubvol v \<noteq> []"
proof -
  have path: "bv_Path v \<noteq> []" "\<forall>c \<in> set (bv_Path v). \<not> is_space c" using assms by (auto simp: printable_def)
  then have "newline \<notin> set (bv_Path v)" using newline_space by auto
  moreover have "newline \<notin> set (dec n)" for n using dec_digits newline_space by blast
  ultimately show "newline \<notin> set (printSubvol v)" by (auto simp: printSubvol_def newline_def)
  show "TrimSpace (printSubvol v) = printSubvol v" "printSubvol v \<noteq> []"
    using path by (auto intro!: TrimSpace_id simp: printSubvol_def is_space_def)
qed

lemma parse_subvol_list:
  assumes "\<forall>v \<in> set vs. printable v"
  shows "parseSubvolList (concat (map (\<lambda>v. printSubvol v @ [newline]) vs)) = Ok vs"
proof -
  have "splitOn newline (concat (map (\<lambda>x. x @ [newline]) (map printSubvol vs))) = map printSubvol vs @ [[]]"
    by (rule splitOn_lines) (use assms printSubvol_line(1) in auto)
  then have "splitOn newline (concat (map (\<lambda>v. printSubvol v @ [newline]) vs)) = map printSubvol vs @ [[]]" by (simp add: comp_def)
  moreover have "map TrimSpace (map printSubvol vs) = map printSubvol vs" using assms printSubvol_line(2) by auto
  moreover have "filter (\<lambda>line. line \<noteq> []) (map printSubvol vs) = map printSubvol vs"
    using assms printSubvol_line(3) by (auto simp: filter_id_conv)
  moreover have "rlist parseSubvolLine (map printSubvol vs) = Ok vs"
    using assms by (induction vs) (auto simp: parse_printSubvol)
  moreover have "TrimSpace [] = []" by (simp add: TrimSpace_def)
  ultimately show ?thesis by (simp add: parseSubvolList_def del: map_map)
qed

text \<open>A line of \<open>btrfs qgroup show -re --raw\<close>; \<open>pads\<close> are the blanks between the columns.\<close>

definition printLimit :: "u64 \<Rightarrow> string" where
  "printLimit n = (if n = 0 then ''none'' else dec (unat n))"

definition printQGroup :: "string \<times> string \<times> string \<times> string \<Rightarrow> BtrfsQGroup \<Rightarrow> string" where
  "printQGroup pads q = (case pads of (a, b, c, d) \<Rightarrow> qg_ID q @ a @ dec (unat (qg_Rfer q)) @ b @ dec (unat (qg_Excl q))
     @ c @ printLimit (qg_MaxRfer q) @ d @ printLimit (qg_MaxExcl q))"

definition blanks :: "string \<Rightarrow> bool" where
  "blanks p \<longleftrightarrow> p \<noteq> [] \<and> (\<forall>c \<in> set p. c = CHR '' '')"

lemma matchDigits_dec: "r = [] \<or> \<not> is_digit (hd r) \<Longrightarrow> matchDigits (dec n @ r) = Some (dec n, r)"
  by (simp add: matchDigits_def takeWhile_dec' dropWhile_dec')

lemma matchSpaces_blanks: "blanks p \<Longrightarrow> r \<noteq> [] \<Longrightarrow> \<not> is_space (hd r) \<Longrightarrow> matchSpaces (p @ r) = Some r"
proof -
  assume p: "blanks p" and r: "r \<noteq> []" "\<not> is_space (hd r)"
  have blank: "is_space CHR '' ''" by (simp add: is_space_def)
  have sp: "\<forall>c \<in> set p. is_space c" using p blank unfolding blanks_def by metis
  moreover have "p \<noteq> []" using p unfolding blanks_def by blast
  moreover from sp have "dropWhile is_space (p @ r) = dropWhile is_space r" by (simp add: dropWhile_append2)
  moreover have "dropWhile is_space r = r" using r by (cases r) simp_all
  ultimately show ?thesis by (simp add: matchSpaces_def)
qed

lemma HasPrefix_hd: "HasPrefix s (c # cs) \<Longrightarrow> hd s = c"
  by (cases s) (simp_all add: HasPrefix_def)

lemma matchLimit_print:
  assumes "r = [] \<or> \<not> is_digit (hd r)"
  shows "matchLimit (printLimit n @ r) = Some (printLimit n, r)"
proof (cases "n = 0")
  case False
  have "\<not> HasPrefix (dec (unat n) @ r) ''none''"
  proof
    assume "HasPrefix (dec (unat n) @ r) ''none''"
    then have "hd (dec (unat n)) = CHR ''n''" using HasPrefix_hd by fastforce
    then show False using dec_hd[of "unat n"] by (simp add: is_digit_def)
  qed
  with False assms show ?thesis by (simp add: matchLimit_def printLimit_def matchDigits_dec)
qed (simp add: matchLimit_def printLimit_def HasPrefix_def)

lemma printLimit_hd: "printLimit n @ r \<noteq> []" "\<not> is_space (hd (printLimit n @ r))"
  using digit_plain[OF dec_hd[of "unat n"]] by (auto simp: printLimit_def is_space_def)

lemma match_printQGroup:
  assumes "qg_ID q = dec level @ ''/'' @ dec i" and "blanks a" "blanks b" "blanks c" "blanks d" and "r = [] \<or> hd r = newline"
  shows "matchQGroup (printQGroup (a, b, c, d) q @ r) =
    Some ((qg_ID q, dec (unat (qg_Rfer q)), dec (unat (qg_Excl q)), printLimit (qg_MaxRfer q), printLimit (qg_MaxExcl q)), r)"
proof -
  have nd: "p \<noteq> []" "\<not> is_digit (hd p)" if "blanks p" for p
    using that by (cases p; auto simp: blanks_def is_digit_def)+
  have r: "r = [] \<or> \<not> is_digit (hd r)" "dropWhile (\<lambda>c. c \<noteq> newline) r = r" using assms(6) newline_space by (cases r; auto)+
  have sp: "matchSpaces (p @ dec n @ s) = Some (dec n @ s)" if "blanks p" for p n s
    using that digit_plain[OF dec_hd[of n]] by (intro matchSpaces_blanks) auto
  have spl: "matchSpaces (p @ printLimit n @ s) = Some (printLimit n @ s)" if "blanks p" for p n s
    using that printLimit_hd[of n s] by (intro matchSpaces_blanks) auto
  have "\<not> is_digit CHR ''/''" by (simp add: is_digit_def)
  then show ?thesis
    using assms(1-5) r nd[OF assms(2)] nd[OF assms(3)] nd[OF assms(4)] nd[OF assms(5)]
    by (simp add: matchQGroup_def printQGroup_def matchDigits_dec sp spl matchLimit_print)
qed

lemma parseUintSat_dec: "parseUintSat (dec (unat n)) = n"
  using uint_lt2p[of n] by (simp add: parseUintSat_def)

lemma qgroupOf_print:
  "qgroupOf (qg_ID q, dec (unat (qg_Rfer q)), dec (unat (qg_Excl q)), printLimit (qg_MaxRfer q), printLimit (qg_MaxExcl q)) = q"
proof -
  have "dec n \<noteq> ''none''" for n
  proof
    assume "dec n = ''none''"
    then have "hd (dec n) = CHR ''n''" by simp
    then show False using dec_hd[of n] by (simp add: is_digit_def)
  qed
  then have "(if printLimit n = ''none'' then 0 else parseUintSat (printLimit n)) = n" for n
    by (simp add: printLimit_def parseUintSat_dec)
  then show ?thesis by (simp add: qgroupOf_def parseUintSat_dec)
qed

lemma findQGroups_header:
  assumes "newline \<notin> set h" and "h = [] \<or> \<not> is_digit (hd h)"
  shows "findQGroups (h @ newline # s) = findQGroups s"
proof -
  have "matchDigits (h @ newline # s) = None"
    using assms newline_space(3) by (cases h) (auto simp: matchDigits_def)
  then have "matchQGroup (h @ newline # s) = None" by (simp add: matchQGroup_def)
  moreover have "afterLine (h @ newline # s) = s" using assms(1) by (induction h) (auto simp: afterLine_def)
  ultimately show ?thesis by (subst findQGroups.simps) simp
qed


definition qgroupLine :: "(string \<times> string \<times> string \<times> string) \<times> BtrfsQGroup \<Rightarrow> bool" where
  "qgroupLine pq = (case pq of ((a, b, c, d), q) \<Rightarrow> blanks a \<and> blanks b \<and> blanks c \<and> blanks d \<and>
     (\<exists>level i. qg_ID q = dec level @ ''/'' @ dec i))"

lemma findQGroups_lines:
  assumes "\<forall>pq \<in> set lines. qgroupLine pq"
  shows "map qgroupOf (findQGroups (concat (map (\<lambda>(pads, q). printQGroup pads q @ [newline]) lines))) = map snd lines"
  using assms
proof (induction lines)
  case (Cons pq lines)
  obtain a b c d q where pq: "pq = ((a, b, c, d), q)" by (metis surj_pair)
  let ?rest = "concat (map (\<lambda>(pads, q). printQGroup pads q @ [newline]) lines)"
  from Cons.prems pq obtain level i where q: "qg_ID q = dec level @ ''/'' @ dec i" "blanks a" "blanks b" "blanks c" "blanks d"
    by (auto simp: qgroupLine_def)
  have m: "matchQGroup (printQGroup (a, b, c, d) q @ newline # ?rest) = Some ((qg_ID q, dec (unat (qg_Rfer q)),
      dec (unat (qg_Excl q)), printLimit (qg_MaxRfer q), printLimit (qg_MaxExcl q)), newline # ?rest)"
    by (rule match_printQGroup[OF q]) simp
  have "map qgroupOf (findQGroups (printQGroup (a, b, c, d) q @ newline # ?rest)) = q # map qgroupOf (findQGroups ?rest)"
    by (subst findQGroups.simps) (simp add: m qgroupOf_print)
  with Cons pq show ?case by simp
qed (simp add: findQGroups.simps)

lemma fold_update_map_of:
  "distinct (map f xs) \<Longrightarrow> fold (\<lambda>x m. m(f x \<mapsto> x)) xs m = m ++ map_of (map (\<lambda>x. (f x, x)) xs)"
proof (induction xs arbitrary: m)
  case (Cons x xs)
  have "map_of (map (\<lambda>x. (f x, x)) xs) (f x) = None" using Cons.prems by (simp add: map_of_eq_None_iff image_image comp_def)
  then have "m(f x \<mapsto> x) ++ map_of (map (\<lambda>x. (f x, x)) xs) = m ++ (map_of (map (\<lambda>x. (f x, x)) xs))(f x \<mapsto> x)"
    by (auto simp: map_add_def fun_eq_iff split: option.splits)
  with Cons show ?case by (simp del: fun_upd_apply)
qed simp

lemma findQGroups_headers:
  "\<forall>h \<in> set hs. newline \<notin> set h \<and> (h = [] \<or> \<not> is_digit (hd h)) \<Longrightarrow>
     findQGroups (concat (map (\<lambda>h. h @ [newline]) hs) @ s) = findQGroups s"
  by (induction hs) (auto simp: findQGroups_header)

lemma parse_qgroups:
  assumes "\<forall>h \<in> set hs. newline \<notin> set h \<and> (h = [] \<or> \<not> is_digit (hd h))" and "\<forall>pq \<in> set lines. qgroupLine pq"
    and "distinct (map (qg_ID \<circ> snd) lines)"
  shows "parseQGroups (concat (map (\<lambda>h. h @ [newline]) hs) @ concat (map (\<lambda>(pads, q). printQGroup pads q @ [newline]) lines)) =
    map_of (map (\<lambda>(pads, q). (qg_ID q, q)) lines)"
proof -
  let ?t = "concat (map (\<lambda>h. h @ [newline]) hs) @ concat (map (\<lambda>(pads, q). printQGroup pads q @ [newline]) lines)"
  have groups: "map qgroupOf (findQGroups ?t) = map snd lines"
    using findQGroups_headers[OF assms(1)] findQGroups_lines[OF assms(2)] by simp
  have "parseQGroups ?t = fold (\<lambda>q m. m(qg_ID q \<mapsto> q)) (map qgroupOf (findQGroups ?t)) (\<lambda>_. None)"
    by (simp add: parseQGroups_def fold_map comp_def)
  also have "\<dots> = map_of (map (\<lambda>q. (qg_ID q, q)) (map snd lines))"
    unfolding groups using assms(3) by (subst fold_update_map_of) (simp_all add: map_add_def[symmetric])
  finally show ?thesis by (simp add: comp_def split_def)
qed

section \<open>Claims\<close>

text \<open>C32: what btrfs prints is read back, where paths hold no blanks. A list of subvolumes, each with a path
  that is not empty and has no white space (the format \<open>%s\<close> would cut it there) and with numbers
  of at most 63 bits, printed as \<open>btrfs subvolume list\<close> does, is parsed into the same list; a table of quota groups
  with distinct identifiers \<open>level/id\<close>, printed under any header lines that do not start with a digit
  and with columns any number of spaces apart, is parsed into the map from their identifiers, where a limit
  of \<open>none\<close> is 0.\<close>

theorem btrfs_output_roundtrip:
  assumes "\<forall>v \<in> set vs. printable v"
    and "\<forall>h \<in> set hs. newline \<notin> set h \<and> (h = [] \<or> \<not> is_digit (hd h))" and "\<forall>pq \<in> set lines. qgroupLine pq"
    and "distinct (map (qg_ID \<circ> snd) lines)"
  shows "parseSubvolList (concat (map (\<lambda>v. printSubvol v @ [newline]) vs)) = Ok vs \<and>
    parseQGroups (concat (map (\<lambda>h. h @ [newline]) hs) @ concat (map (\<lambda>(pads, q). printQGroup pads q @ [newline]) lines)) =
      map_of (map (\<lambda>(pads, q). (qg_ID q, q)) lines)"
  using parse_subvol_list[OF assms(1)] parse_qgroups[OF assms(2-4)] by blast

theorem btrfs_output_roundtrip_witness:
  "parseSubvolList (''ID 263 gen 45 top level 261 path home'' @ [newline]) =
      Ok [\<lparr>bv_Path = ''home'', bv_ID = 263, bv_Generation = 45, bv_ParentID = 261\<rparr>] \<and>
   parseQGroups (''qgroupid rfer'' @ [newline] @ ''0/5 1 2 none 7'' @ [newline]) =
      [''0/5'' \<mapsto> \<lparr>qg_ID = ''0/5'', qg_Rfer = 1, qg_Excl = 2, qg_MaxRfer = 0, qg_MaxExcl = 7\<rparr>]"
proof -
  let ?v = "\<lparr>bv_Path = ''home'', bv_ID = 263, bv_Generation = 45, bv_ParentID = 261\<rparr>"
  let ?q = "\<lparr>qg_ID = ''0/5'', qg_Rfer = 1, qg_Excl = 2, qg_MaxRfer = 0, qg_MaxExcl = 7\<rparr> :: BtrfsQGroup"
  let ?pads = "('' '', '' '', '' '', '' '')"
  have v: "printable ?v" "printSubvol ?v = ''ID 263 gen 45 top level 261 path home''" by code_simp+
  have "''0/5'' = dec 0 @ ''/'' @ dec 5" by code_simp
  then have "qgroupLine (?pads, ?q)" by (auto simp: qgroupLine_def blanks_def)
  moreover have "printQGroup ?pads ?q = ''0/5 1 2 none 7''" by code_simp
  ultimately show ?thesis
    using btrfs_output_roundtrip[of "[?v]" "[''qgroupid rfer'']" "[(?pads, ?q)]"] v
    by (simp add: newline_def is_digit_def)
qed

text \<open>The list of filesystems is not read when a part of the output has no label. \<open>parseList\<close>
  slices a block of text at the position of \<open>Label:\<close>, which is -1 when there is none, and
  panics, whatever the parts before and after it are.\<close>

lemma parse_list_panics:
  assumes "\<forall>b \<in> set before. TrimSpace b = []" and "TrimSpace block \<noteq> []" and "indexOfString ''Label:'' block = None"
    and "splitString [newline, newline] [] output = before @ block # after"
  shows "parseList output = Err (Panic ''slice bounds out of range'')"
proof -
  have "parseBlocks (before @ block # after) = parseBlocks (block # after)" using assms(1) by (induction before) auto
  then show ?thesis using assms(2-4) by (simp add: parseList_def parseBlock_def)
qed

lemma parse_list_panics_witness:
  "parseList ''warning, device 2 is missing'' = Err (Panic ''slice bounds out of range'')"
proof -
  have "splitString [newline, newline] [] ''warning, device 2 is missing'' = [] @ ''warning, device 2 is missing'' # []"
    by (simp add: splitString.simps HasPrefix_def newline_def)
  from parse_list_panics[OF _ _ _ this] show ?thesis by (simp add: TrimSpace_def is_space_def HasPrefix_def)
qed

end
