(* ===== verification/BtrfsPool.thy ===== *)
theory BtrfsPool
  imports BtrfsText StorageModule
begin

text \<open>
  Pools on btrfs, \<open>pkg/storage/filesystem\<close> (btrfs.go, the commands of btrfs_utils.go, utils.go and
  device.go). The node runs commands: some only read (\<open>nd_query\<close>), some change it (\<open>nd_run\<close>).
\<close>

section \<open>The node\<close>

text \<open>Files under a path: a file with its size, or a directory.\<close>

datatype FTree = FFile u64 | FDir "(string \<times> FTree) list"

text \<open>
  \<open>nd_unmarshalMounts\<close> and \<open>nd_unmarshalSeektime\<close> decode the JSON of findmnt (source, target,
  options) and seektime; \<open>nd_Walk\<close> is what \<open>filepath.Walk\<close> finds, or its error;
  \<open>nd_zdbReserved\<close> reads the index of a 0-db; \<open>nd_order\<close> is the order of an iteration over a
  map; \<open>nd_mounts\<close> are the lines of /proc/mounts.
\<close>

record 'w Node =
  nd_query :: "string \<Rightarrow> string list \<Rightarrow> 'w \<Rightarrow> string result"
  nd_run :: "string \<Rightarrow> string list \<Rightarrow> 'w \<Rightarrow> 'w \<times> string result"
  nd_unmarshalMounts :: "bytes \<Rightarrow> (string \<times> string \<times> string) list result"
  nd_unmarshalSeektime :: "bytes \<Rightarrow> string result"
  nd_unmarshalDevices :: "bytes \<Rightarrow> DeviceInfo list result"
  nd_uuid :: "'w \<Rightarrow> string"
  nd_MkdirAll :: "string \<Rightarrow> 'w \<Rightarrow> 'w \<times> unit result"
  nd_Mount :: "string \<Rightarrow> string \<Rightarrow> 'w \<Rightarrow> 'w \<times> unit result"
  nd_Unmount :: "string \<Rightarrow> 'w \<Rightarrow> 'w \<times> unit result"
  nd_mounts :: "'w \<Rightarrow> string list"
  nd_Walk :: "string \<Rightarrow> 'w \<Rightarrow> FTree result"
  nd_zdbReserved :: "string \<Rightarrow> 'w \<Rightarrow> u64 result"
  nd_ReadFile :: "string \<Rightarrow> 'w \<Rightarrow> bytes result"
  nd_WriteFile :: "string \<Rightarrow> bytes \<Rightarrow> 'w \<Rightarrow> 'w \<times> unit result"
  nd_order :: "string list \<Rightarrow> string list"

definition runUnit :: "'w Node \<Rightarrow> string \<Rightarrow> string list \<Rightarrow> 'w \<Rightarrow> 'w \<times> unit result" where
  "runUnit N name args w = (case nd_run N name args w of (w, r) \<Rightarrow> (w, rmap (\<lambda>_. ()) r))"

text \<open>\<open>strings.Fields\<close>.\<close>

definition fields :: "string \<Rightarrow> string list" where
  "fields s = filter (\<lambda>x. x \<noteq> []) (splitOn CHR '' '' (map (\<lambda>c. if is_space c then CHR '' '' else c) s))"

definition getMountTarget :: "string list \<Rightarrow> string \<Rightarrow> string option" where
  "getMountTarget lines device =
     map_option (\<lambda>line. fields line ! 1)
       (find (\<lambda>line. TrimSpace line \<noteq> [] \<and> fields line ! 0 = device) lines)"

definition IsMountPoint :: "'w Node \<Rightarrow> string \<Rightarrow> 'w \<Rightarrow> bool" where
  "IsMountPoint N path w \<longleftrightarrow> (\<exists>line \<in> set (nd_mounts N w). fields line ! 1 = path)"

text \<open>\<open>FilesUsage\<close>: the sizes of the files, without directories that are mount points.\<close>

fun filesSize :: "(string \<Rightarrow> bool) \<Rightarrow> string \<Rightarrow> FTree \<Rightarrow> u64" where
  "filesSize isMount path (FFile n) = n"
| "filesSize isMount path (FDir es) =
     (if isMount path then 0 else sum_list (map (\<lambda>(name, t). filesSize isMount (Join [path, name]) t) es))"

definition FilesUsage :: "'w Node \<Rightarrow> string \<Rightarrow> 'w \<Rightarrow> u64 result" where
  "FilesUsage N path w = rmap (filesSize (\<lambda>p. IsMountPoint N p w) path) (nd_Walk N path w)"

definition volumeUsage :: "'w Node \<Rightarrow> string \<Rightarrow> 'w \<Rightarrow> u64 result" where
  "volumeUsage N path w =
     (if Base path \<noteq> zdbVolume then FilesUsage N path w
      else case nd_zdbReserved N path w of Inr usage \<Rightarrow> Ok usage | Inl _ \<Rightarrow> FilesUsage N path w)"

definition Partprobe :: "'w Node \<Rightarrow> 'w \<Rightarrow> 'w \<times> unit result" where
  "Partprobe N w = (case nd_run N ''partprobe'' [] w of
     (w, Inl e) \<Rightarrow> (w, Err (Wrap ''partprobe failed'' e))
   | (w, Inr _) \<Rightarrow> (case nd_run N ''udevadm'' [''settle''] w of
       (w, Inl e) \<Rightarrow> (w, Err (Wrap ''failed to wait for udev settle'' e))
     | (w, Inr _) \<Rightarrow> (w, Ok ())))"


section \<open>Devices (device.go)\<close>

text \<open>The option \<open>subvol=/\<close> is matched by \<open>(^|,)subvol=/($|,)\<close>.\<close>

definition Mountpoint :: "'w Node \<Rightarrow> string \<Rightarrow> 'w \<Rightarrow> string result" where
  "Mountpoint N device w = (case nd_query N ''findmnt'' [''-J'', ''-S'', device] w of
     Inl _ \<Rightarrow> Ok []
   | Inr out \<Rightarrow> rbind (if out = [] then Ok [] else nd_unmarshalMounts N out) (\<lambda>filesystems.
       Ok (case find (\<lambda>(_, _, options). ''subvol=/'' \<in> set (splitOn CHR '','' options)) filesystems of
         None \<Rightarrow> [] | Some (_, target, _) \<Rightarrow> target)))"

definition Seektime :: "'w Node \<Rightarrow> string \<Rightarrow> 'w \<Rightarrow> string result" where
  "Seektime N device w =
     rbind (rwrap ''failed to check device seektime'' (nd_query N ''seektime'' [''-j'', device] w)) (\<lambda>out.
     rbind (rwrap ''failed to load seektime data'' (nd_unmarshalSeektime N out)) (\<lambda>t. Ok (map toLower t)))"

text \<open>\<open>None\<close> is the nil slice, which lsblk gives for no output; the manager keeps the first answer
  that is not nil.\<close>

definition lsblk :: "'w Node \<Rightarrow> 'w \<Rightarrow> DeviceInfo list option result" where
  "lsblk N w =
     rbind (nd_query N ''lsblk'' [''--json'', ''-o'', ''PATH,NAME,SIZE,SUBSYSTEMS,FSTYPE,LABEL,ROTA'', ''--bytes'',
       ''--exclude'', ''1,2,11'', ''--path''] w) (\<lambda>out.
     if out = [] then Ok None else rmap Some (nd_unmarshalDevices N out))"

definition rawDevices :: "'w Node \<Rightarrow> 'w \<Rightarrow> DeviceInfo list option result" where
  "rawDevices N w = rmap (map_option (filter (\<lambda>d. di_Subsystems d \<noteq> ''block:scsi:usb:pci''))) (lsblk N w)"

definition scan :: "'w Node \<Rightarrow> 'w \<Rightarrow> DeviceInfo list option \<Rightarrow> DeviceInfo list option \<times> DeviceInfo list result" where
  "scan N w cache = (case cache of
     Some devs \<Rightarrow> (cache, Ok devs)
   | None \<Rightarrow> (case rwrap ''failed to scan devices'' (rawDevices N w) of
       Inl e \<Rightarrow> (None, Err e)
     | Inr devs \<Rightarrow> (devs, Ok (case devs of None \<Rightarrow> [] | Some ds \<Rightarrow> ds))))"

definition ByLabel :: "'w Node \<Rightarrow> string \<Rightarrow> 'w \<Rightarrow> DeviceInfo list option \<Rightarrow> DeviceInfo list option \<times> DeviceInfo list result" where
  "ByLabel N label w cache = (case scan N w cache of (cache, r) \<Rightarrow> (cache, rmap (filter (\<lambda>d. di_Label d = label)) r))"

definition manager_Device :: "'w Node \<Rightarrow> string \<Rightarrow> 'w \<Rightarrow> DeviceInfo list option \<Rightarrow> DeviceInfo list option \<times> DeviceInfo result" where
  "manager_Device N path w cache = (case scan N w cache of (cache, r) \<Rightarrow> (cache, rbind r (\<lambda>devices.
     case find (\<lambda>dev. di_Path dev = path) devices of
       None \<Rightarrow> Err (Errorf ''device not found'') | Some dev \<Rightarrow> Ok dev)))"


section \<open>btrfs commands (btrfs_utils.go)\<close>

definition SubvolumeList :: "'w Node \<Rightarrow> string \<Rightarrow> 'w \<Rightarrow> BtrfsVolume list result" where
  "SubvolumeList N root w = rbind (nd_query N ''btrfs'' [''subvolume'', ''list'', ''-o'', root] w) parseSubvolList"

definition SubvolumeInfo :: "'w Node \<Rightarrow> string \<Rightarrow> 'w \<Rightarrow> BtrfsVolume result" where
  "SubvolumeInfo N path w = rbind (nd_query N ''btrfs'' [''subvolume'', ''show'', path] w) (\<lambda>output.
     rmap (\<lambda>volume. volume\<lparr>bv_Path := path\<rparr>) (parseSubvolInfo output))"

definition SubvolumeAdd :: "'w Node \<Rightarrow> string \<Rightarrow> 'w \<Rightarrow> 'w \<times> unit result" where
  "SubvolumeAdd N root = runUnit N ''btrfs'' [''subvolume'', ''create'', root]"

definition SubvolumeRemove :: "'w Node \<Rightarrow> string \<Rightarrow> 'w \<Rightarrow> 'w \<times> unit result" where
  "SubvolumeRemove N root = runUnit N ''btrfs'' [''subvolume'', ''delete'', root]"

definition DeviceAdd :: "'w Node \<Rightarrow> string \<Rightarrow> string \<Rightarrow> 'w \<Rightarrow> 'w \<times> unit result" where
  "DeviceAdd N dev root = runUnit N ''btrfs'' [''device'', ''add'', dev, root]"

definition DeviceRemove :: "'w Node \<Rightarrow> string \<Rightarrow> string \<Rightarrow> 'w \<Rightarrow> 'w \<times> unit result" where
  "DeviceRemove N dev root = runUnit N ''btrfs'' [''device'', ''remove'', dev, root]"

definition QGroupEnable :: "'w Node \<Rightarrow> string \<Rightarrow> 'w \<Rightarrow> 'w \<times> unit result" where
  "QGroupEnable N root = runUnit N ''btrfs'' [''quota'', ''enable'', root]"

definition showQGroups :: "'w Node \<Rightarrow> string \<Rightarrow> 'w \<Rightarrow> string result" where
  "showQGroups N path w = nd_query N ''btrfs'' [''qgroup'', ''show'', ''-re'', ''--raw'', path] w"

definition QGroupList :: "'w Node \<Rightarrow> string \<Rightarrow> 'w \<Rightarrow> (string \<rightharpoonup> BtrfsQGroup) result" where
  "QGroupList N path w = rmap parseQGroups (showQGroups N path w)"

definition QGroupLimit :: "'w Node \<Rightarrow> u64 \<Rightarrow> string \<Rightarrow> 'w \<Rightarrow> 'w \<times> unit result" where
  "QGroupLimit N sz path = runUnit N ''btrfs'' [''qgroup'', ''limit'', if sz > 0 then dec (unat sz) else ''none'', path]"

definition QGroupDestroy :: "'w Node \<Rightarrow> string \<Rightarrow> string \<Rightarrow> 'w \<Rightarrow> 'w \<times> unit result" where
  "QGroupDestroy N i path = runUnit N ''btrfs'' [''qgroup'', ''destroy'', i, path]"

definition GetDiskUsage :: "'w Node \<Rightarrow> string \<Rightarrow> 'w \<Rightarrow> BtrfsDiskUsage result" where
  "GetDiskUsage N path w = rbind (nd_query N ''btrfs'' [''filesystem'', ''df'', ''--raw'', path] w) parseFilesystemDF"

definition BtrfsUtil_List :: "'w Node \<Rightarrow> string \<Rightarrow> bool \<Rightarrow> 'w \<Rightarrow> Btrfs list result" where
  "BtrfsUtil_List N label mounted w =
     rbind (nd_query N ''btrfs'' ([''filesystem'', ''show'', ''--raw''] @ (if mounted then [''-m''] else [])
       @ (if label \<noteq> [] then [label] else [])) w) parseList"


section \<open>Volumes and pools (btrfs.go)\<close>

definition qgroupID :: "int \<Rightarrow> string" where
  "qgroupID i = ''0/'' @ dec_int i"

definition btrfsVolume_Usage :: "'w Node \<Rightarrow> string \<Rightarrow> 'w \<Rightarrow> FsUsage result" where
  "btrfsVolume_Usage N path w =
     rbind (SubvolumeInfo N path w) (\<lambda>info.
     rbind (QGroupList N path w) (\<lambda>groups.
     case groups (qgroupID (bv_ID info)) of
       None \<Rightarrow> Ok noUsage
     | Some grp \<Rightarrow>
         rbind (if qg_MaxRfer grp = 0 then rwrap ''failed to get subvolume usage'' (volumeUsage N path w)
                else Ok (qg_MaxRfer grp)) (\<lambda>used.
         Ok \<lparr>fu_Size = qg_MaxRfer grp, fu_Used = used, fu_Excl = qg_Excl grp\<rparr>)))"

definition newBtrfsVolume :: "'w Node \<Rightarrow> int \<Rightarrow> string \<Rightarrow> 'w FsVolume" where
  "newBtrfsVolume N i path = \<lparr>fv_ID = i, fv_Path = path, fv_Name = Base path,
     fv_Usage = btrfsVolume_Usage N path, fv_Limit = (\<lambda>sz. QGroupLimit N sz path)\<rparr>"

definition btrfs_Mounted :: "'w Node \<Rightarrow> DeviceInfo \<Rightarrow> 'w \<Rightarrow> string result" where
  "btrfs_Mounted N device w = rbind (Mountpoint N (di_Path device) w) (\<lambda>mnt.
     if mnt \<noteq> [] then Ok mnt else Err ErrDeviceNotMounted)"

definition btrfs_Path :: "string \<Rightarrow> string" where
  "btrfs_Path name = Join [''/mnt'', name]"

definition btrfs_Volumes :: "'w Node \<Rightarrow> DeviceInfo \<Rightarrow> 'w \<Rightarrow> 'w FsVolume list result" where
  "btrfs_Volumes N device w =
     rbind (btrfs_Mounted N device w) (\<lambda>mnt.
     rmap (map (\<lambda>sub. newBtrfsVolume N (bv_ID sub) (Join [mnt, bv_Path sub]))) (SubvolumeList N mnt w))"

text \<open>\<open>maintenance\<close>: quota groups that belong to no volume are removed; errors are logged.\<close>

definition maintenance :: "'w Node \<Rightarrow> DeviceInfo \<Rightarrow> string \<Rightarrow> 'w \<Rightarrow> 'w \<times> unit result" where
  "maintenance N device name w =
     (case rbind (btrfs_Volumes N device w) (\<lambda>volumes.
           rmap (\<lambda>out. (map (qgroupID \<circ> fv_ID) volumes, map fst (findQGroups out))) (showQGroups N (btrfs_Path name) w)) of
        Inl e \<Rightarrow> (w, Err e)
      | Inr (subVolsIDs, qgroups) \<Rightarrow>
          (fold (\<lambda>i w. fst (QGroupDestroy N i (btrfs_Path name) w))
             (filter (\<lambda>i. i \<notin> set subVolsIDs) (nd_order N (remdups qgroups))) w, Ok ()))"

definition btrfs_Mount :: "'w Node \<Rightarrow> DeviceInfo \<Rightarrow> string \<Rightarrow> 'w \<Rightarrow> 'w \<times> string result" where
  "btrfs_Mount N device name w = (case btrfs_Mounted N device w of
     Inr mnt \<Rightarrow> (w, Ok mnt)
   | Inl e \<Rightarrow>
       if \<not> err_is e ErrDeviceNotMounted then (w, Err (Wrap ''failed to check device mount status'' e))
       else let mnt = btrfs_Path name in
         (case nd_MkdirAll N mnt w of
            (w, Inl e) \<Rightarrow> (w, Err e)
          | (w, Inr _) \<Rightarrow>
              (case nd_Mount N (di_Path device) mnt w of
                 (w, Inl e) \<Rightarrow> (w, Err e)
               | (w, Inr _) \<Rightarrow>
                   (case QGroupEnable N mnt w of
                      (w, Inl e) \<Rightarrow> (w, Err (Wrap ''failed to enable qgroup'' e))
                    | (w, Inr _) \<Rightarrow>
                        (case maintenance N device name w of (w, r) \<Rightarrow> (w, rmap (\<lambda>_. mnt) r))))))"

definition btrfs_UnMount :: "'w Node \<Rightarrow> DeviceInfo \<Rightarrow> 'w \<Rightarrow> 'w \<times> unit result" where
  "btrfs_UnMount N device w = (case btrfs_Mounted N device w of
     Inl e \<Rightarrow> (w, if err_is e ErrDeviceNotMounted then Ok () else Err e)
   | Inr mnt \<Rightarrow> nd_Unmount N mnt w)"

definition addVolume :: "'w Node \<Rightarrow> string \<Rightarrow> 'w \<Rightarrow> 'w \<times> 'w FsVolume result" where
  "addVolume N root w = (case SubvolumeAdd N root w of
     (w, Inl e) \<Rightarrow> (w, Err e)
   | (w, Inr _) \<Rightarrow> (w, rmap (\<lambda>volume. newBtrfsVolume N (bv_ID volume) root) (SubvolumeInfo N root w)))"

definition btrfs_AddVolume :: "'w Node \<Rightarrow> DeviceInfo \<Rightarrow> string \<Rightarrow> 'w \<Rightarrow> 'w \<times> 'w FsVolume result" where
  "btrfs_AddVolume N device name w = (case btrfs_Mounted N device w of
     Inl e \<Rightarrow> (w, Err e)
   | Inr mnt \<Rightarrow> addVolume N (Join [mnt, name]) w)"

definition removeVolume :: "'w Node \<Rightarrow> string \<Rightarrow> string \<Rightarrow> 'w \<Rightarrow> 'w \<times> unit result" where
  "removeVolume N poolName root w = (case SubvolumeInfo N root w of
     Inl e \<Rightarrow> (w, Err e)
   | Inr info \<Rightarrow> (case SubvolumeRemove N root w of
       (w, Inl e) \<Rightarrow> (w, Err e)
     | (w, Inr _) \<Rightarrow> (fst (QGroupDestroy N (qgroupID (bv_ID info)) (btrfs_Path poolName) w), Ok ())))"

definition btrfs_RemoveVolume :: "'w Node \<Rightarrow> DeviceInfo \<Rightarrow> string \<Rightarrow> string \<Rightarrow> 'w \<Rightarrow> 'w \<times> unit result" where
  "btrfs_RemoveVolume N device poolName name w = (case btrfs_Mounted N device w of
     Inl e \<Rightarrow> (w, Err e)
   | Inr mnt \<Rightarrow> removeVolume N poolName (Join [mnt, name]) w)"

fun addUsages :: "'w \<Rightarrow> 'w FsVolume list \<Rightarrow> FsUsage \<Rightarrow> FsUsage result" where
  "addUsages w [] usage = Ok usage"
| "addUsages w (volume # vs) usage =
     rbind (rwrap (''failed to calculate volume '' @ squote (fv_Path volume) @ '' usage'') (fv_Usage volume w)) (\<lambda>vol.
     addUsages w vs (usage\<lparr>fu_Used := fu_Used usage + fu_Used vol, fu_Excl := fu_Excl usage + fu_Excl vol\<rparr>))"

definition btrfs_Usage :: "'w Node \<Rightarrow> DeviceInfo \<Rightarrow> 'w \<Rightarrow> FsUsage result" where
  "btrfs_Usage N device w =
     rbind (btrfs_Mounted N device w) (\<lambda>mnt.
     rbind (rwrap (''failed to list pool '' @ squote mnt @ '' volumes'') (btrfs_Volumes N device w)) (\<lambda>volumes.
     addUsages w volumes (noUsage\<lparr>fu_Size := di_Size device\<rparr>)))"

definition btrfs_Shutdown :: "'w Node \<Rightarrow> DeviceInfo \<Rightarrow> 'w \<Rightarrow> 'w \<times> unit result" where
  "btrfs_Shutdown N device w = (case runUnit N ''hdparm'' [''-y'', di_Path device] w of
     (w, r) \<Rightarrow> (w, rwrap (''failed to shutdown device '' @ squote (di_Path device)) r))"

definition btrfs_SetType :: "'w Node \<Rightarrow> DeviceInfo \<Rightarrow> string \<Rightarrow> string \<Rightarrow> 'w \<Rightarrow> 'w \<times> unit result" where
  "btrfs_SetType N device name t w = (case btrfs_Mounted N device w of
     Inl e \<Rightarrow> (w, Err e)
   | Inr path \<Rightarrow> (let diskTypePath = Join [path, ''.seektime''] in
       case nd_WriteFile N diskTypePath t w of (w, r) \<Rightarrow>
         (w, rwrap (''failed to store device type for '' @ squote name @ '' in '' @ squote diskTypePath) r)))"

definition btrfs_Type :: "'w Node \<Rightarrow> DeviceInfo \<Rightarrow> 'w \<Rightarrow> string option result" where
  "btrfs_Type N device w = rbind (btrfs_Mounted N device w) (\<lambda>path.
     case nd_ReadFile N (Join [path, ''.seektime'']) w of
       Inl e \<Rightarrow> if e = ErrNotExist then Ok None else Err e
     | Inr diskType \<Rightarrow> Ok (if diskType = [] then None else Some diskType))"

definition btrfsPool :: "'w Node \<Rightarrow> DeviceInfo \<Rightarrow> string \<Rightarrow> 'w FsPool" where
  "btrfsPool N device name = \<lparr>fp_Name = name, fp_Path = btrfs_Path name, fp_Device = device,
     fp_Mounted = btrfs_Mounted N device, fp_Mount = btrfs_Mount N device name, fp_UnMount = btrfs_UnMount N device,
     fp_Volumes = btrfs_Volumes N device, fp_AddVolume = btrfs_AddVolume N device,
     fp_RemoveVolume = btrfs_RemoveVolume N device name, fp_Usage = btrfs_Usage N device,
     fp_Shutdown = btrfs_Shutdown N device, fp_SetType = btrfs_SetType N device name, fp_Type = btrfs_Type N device\<rparr>"

definition btrfs_format :: "'w Node \<Rightarrow> DeviceInfo \<Rightarrow> string \<Rightarrow> 'w \<Rightarrow> 'w \<times> unit result" where
  "btrfs_format N device name w = (case runUnit N ''mkfs.btrfs'' [''-L'', name, di_Path device] w of
     (w, r) \<Rightarrow> (w, rwrap (''failed to format device '' @ squote (di_Path device)) r))"

text \<open>\<open>NewBtrfsPool\<close>: a disk that has no label and no filesystem is formatted, with a new name.\<close>

definition NewBtrfsPool :: "'w Node \<Rightarrow> DeviceInfo \<Rightarrow> 'w \<Rightarrow> 'w \<times> 'w FsPool result" where
  "NewBtrfsPool N device w =
     (if DeviceInfo_Used device then (w, Ok (btrfsPool N device (di_Label device)))
      else let name = nd_uuid N w in
        (case btrfs_format N device name w of
           (w, Inl e) \<Rightarrow> (w, Err e)
         | (w, Inr _) \<Rightarrow> (case Partprobe N w of (w, r) \<Rightarrow> (w, rmap (\<lambda>_. btrfsPool N device name) r))))"

end
