(* ===== verification/DiskProps.thy ===== *)
theory DiskProps
  imports VDisks
begin

text \<open>
  Claims about the storage module: which pools a volume may go to, how the cache is sized, and
  where the files of virtual disks are.
\<close>

section \<open>Candidates\<close>

definition mountedIn :: "'w \<Rightarrow> 'w FsPool \<Rightarrow> bool" where
  "mountedIn w p \<longleftrightarrow> is_ok (fp_Mounted p w)"

text \<open>The check of \<open>checkForCandidates\<close> on a mounted pool, and the candidate it makes.\<close>

definition fitsIn :: "Unit \<Rightarrow> 'w \<Rightarrow> 'w FsPool \<Rightarrow> bool" where
  "fitsIn sz w p \<longleftrightarrow> (\<exists>u. fp_Usage p w = Ok u \<and> fu_Used u + sz \<le> fu_Size u)"

definition candidateFor :: "Unit \<Rightarrow> 'w \<Rightarrow> 'w FsPool \<Rightarrow> 'w candidate" where
  "candidateFor sz w p = \<lparr>cand_Pool = p, cand_Available = (case fp_Usage p w of
     Inr u \<Rightarrow> fu_Size u - (fu_Used u + sz) | Inl _ \<Rightarrow> 0)\<rparr>"

lemma checkPools_mounted:
  assumes "\<forall>p \<in> set ps. mountedIn w p"
  shows "checkPools sz (ps @ qs) cs w = checkPools sz qs (cs @ map (candidateFor sz w) (filter (fitsIn sz w) ps)) w"
  using assms
proof (induction ps arbitrary: cs)
  case (Cons p ps)
  then show ?case
    by (auto simp: mountedIn_def fitsIn_def candidateFor_def SSDOverProvisionFactor_def not_less split: sum.split)
qed simp

lemma checkPools_stops:
  assumes "\<forall>p \<in> set qs. \<not> mountedIn w p" and "cs \<noteq> []"
  shows "checkPools sz qs cs w = (w, Ok cs)"
  using assms by (cases qs) (auto simp: mountedIn_def)

text \<open>Pools sorted with \<open>poolCmp\<close> are the mounted ones and then the others.\<close>

definition sortsPools :: "'w Host \<Rightarrow> bool" where
  "sortsPools H \<longleftrightarrow> (\<forall>w ps. mset (h_sortPools H (poolCmp w) ps) = mset ps \<and>
     sorted_wrt (\<lambda>a b. poolCmp w a b \<le> 0) (h_sortPools H (poolCmp w) ps))"

definition sortsCandidates :: "'w Host \<Rightarrow> bool" where
  "sortsCandidates H \<longleftrightarrow> (\<forall>cs. mset (h_sortCandidates H (\<lambda>a b. cand_Available a > cand_Available b) cs) = mset cs \<and>
     sorted_wrt (\<lambda>a b. cand_Available a \<ge> cand_Available b) (h_sortCandidates H (\<lambda>a b. cand_Available a > cand_Available b) cs))"

lemma mounted_first:
  assumes "sorted_wrt (\<lambda>a b. poolCmp w a b \<le> 0) ps"
  shows "ps = filter (mountedIn w) ps @ filter (\<lambda>p. \<not> mountedIn w p) ps"
  using assms
proof (induction ps)
  case (Cons p ps)
  then have eq: "ps = filter (mountedIn w) ps @ filter (\<lambda>p. \<not> mountedIn w p) ps" by simp
  show ?case
  proof (cases "mountedIn w p")
    case False
    then have "filter (mountedIn w) ps = []"
      using Cons.prems by (auto simp: poolCmp_def mountedIn_def filter_empty_conv)
    with False eq show ?thesis by simp
  qed (use eq in simp)
qed simp

lemma sortsPools_order:
  assumes "sortsPools H"
  shows "set (h_sortPools H (poolCmp w) ps) = set ps"
    "h_sortPools H (poolCmp w) ps = filter (mountedIn w) (h_sortPools H (poolCmp w) ps)
       @ filter (\<lambda>p. \<not> mountedIn w p) (h_sortPools H (poolCmp w) ps)"
proof -
  note sorts = assms[unfolded sortsPools_def, rule_format, of w ps]
  note m = conjunct1[OF sorts] and s = conjunct2[OF sorts]
  show "set (h_sortPools H (poolCmp w) ps) = set ps" by (rule mset_eq_setD[OF m])
  show "h_sortPools H (poolCmp w) ps = filter (mountedIn w) (h_sortPools H (poolCmp w) ps)
       @ filter (\<lambda>p. \<not> mountedIn w p) (h_sortPools H (poolCmp w) ps)"
    by (rule mounted_first[OF s])
qed

lemma check_sorted:
  assumes "ps = filter (mountedIn w) ps @ filter (\<lambda>p. \<not> mountedIn w p) ps" and "\<exists>p \<in> set ps. mountedIn w p \<and> fitsIn sz w p"
  shows "checkPools sz ps [] w = (w, Ok (map (candidateFor sz w) (filter (\<lambda>p. mountedIn w p \<and> fitsIn sz w p) ps)))"
proof -
  let ?m = "filter (mountedIn w) ps" and ?u = "filter (\<lambda>p. \<not> mountedIn w p) ps"
  have "checkPools sz (?m @ ?u) [] w = checkPools sz ?u (map (candidateFor sz w) (filter (fitsIn sz w) ?m)) w"
    using checkPools_mounted[of ?m w sz ?u "[]"] by simp
  also have "\<dots> = (w, Ok (map (candidateFor sz w) (filter (fitsIn sz w) ?m)))"
    using assms(2) by (intro checkPools_stops) (auto simp: filter_empty_conv)
  also have "filter (fitsIn sz w) ?m = filter (\<lambda>p. mountedIn w p \<and> fitsIn sz w p) ps" by (simp add: conj_commute)
  finally show ?thesis unfolding assms(1)[symmetric] .
qed

lemma findCandidates_mounted:
  assumes "sortsPools H" and "sortsCandidates H" and "\<not> Params_Exists (h_params H) MissingSSD"
    and "p \<in> set (m_ssds m)" and "mountedIn w p" and "fitsIn sz w p"
  shows "\<exists>m' cs. findCandidates H sz PolicySSDFirst (m, w) = ((m', w), Ok cs) \<and> set (m_ssds m') = set (m_ssds m) \<and>
    set cs = candidateFor sz w ` {q \<in> set (m_ssds m). mountedIn w q \<and> fitsIn sz w q} \<and>
    sorted_wrt (\<lambda>a b. cand_Available a \<ge> cand_Available b) cs"
proof -
  let ?ps = "h_sortPools H (poolCmp w) (m_ssds m)" and ?m = "m\<lparr>m_ssds := h_sortPools H (poolCmp w) (m_ssds m)\<rparr>"
  let ?sort = "h_sortCandidates H (\<lambda>a b. cand_Available a > cand_Available b)"
  let ?cs = "map (candidateFor sz w) (filter (\<lambda>p. mountedIn w p \<and> fitsIn sz w p) ?ps)"
  note order = sortsPools_order[OF assms(1), of w "m_ssds m"]
  have "\<exists>q \<in> set ?ps. mountedIn w q \<and> fitsIn sz w q" using order(1) assms(4-6) by blast
  note check = check_sorted[OF order(2) this]
  from \<open>\<exists>q \<in> set ?ps. mountedIn w q \<and> fitsIn sz w q\<close> have ne: "?cs \<noteq> []" by (simp add: filter_empty_conv)
  have perm: "mset (?sort ?cs) = mset ?cs" and sorted: "sorted_wrt (\<lambda>a b. cand_Available a \<ge> cand_Available b) (?sort ?cs)"
    using assms(2)[unfolded sortsCandidates_def, rule_format, of ?cs] by blast+
  have "set (?sort ?cs) = set ?cs" by (rule mset_eq_setD[OF perm])
  moreover from perm ne have "?sort ?cs \<noteq> []" using mset_zero_iff_right by fastforce
  moreover have "findCandidates H sz PolicySSDFirst (m, w) = ((?m, w), if ?sort ?cs = [] then Err ErrNotEnoughSpace else Ok (?sort ?cs))"
    using assms(3) check by (simp add: findCandidates_def checkForCandidates_def ssdFirst_def ssdOnly_def)
  moreover have "set ?cs = candidateFor sz w ` {q \<in> set (m_ssds m). mountedIn w q \<and> fitsIn sz w q}" using order(1) by auto
  ultimately show ?thesis using sorted order(1) by (intro exI[of _ ?m] exI[of _ "?sort ?cs"]) simp
qed


section \<open>The size of the cache\<close>

text \<open>\<open>resizedCache\<close> on numbers: it grows by one step at 60 percent or more in use; below 20
  percent it becomes twice the space in use and at most one step more.\<close>

definition cacheStep :: "nat \<Rightarrow> nat \<Rightarrow> nat \<Rightarrow> nat" where
  "cacheStep k e s =
     (let t = (if 60 \<le> e * 100 div s then s + k
            else if e * 100 div s < 20 \<and> k < s then e * 2 div k * k + k else s) in
      if t < k then k else t)"

lemma div_round: "0 < k \<Longrightarrow> e < e div k * k + (k :: nat)"
  by (metis add.commute dividend_less_times_div mult.commute mult_Suc)

lemma cacheStep_bounds:
  assumes "0 < k" and "0 < s"
  shows "k \<le> cacheStep k e s" "cacheStep k e s \<le> max s (2 * e + k)"
proof -
  have "s * 60 \<le> e * 100" if "60 \<le> e * 100 div s"
    using that assms(2) by (metis mult.commute div_le_mono2 less_eq_div_iff_mult_less_eq)
  moreover have "e * 2 div k * k \<le> 2 * e" by (metis div_times_less_eq_dividend mult.commute)
  ultimately show "k \<le> cacheStep k e s" "cacheStep k e s \<le> max s (2 * e + k)"
    by (auto simp: cacheStep_def Let_def le_max_iff_disj)
qed

lemma cacheStep_shrunk:
  assumes "0 < k" and "t = e * 2 div k * k + k"
  shows "cacheStep k e t = t" "e * 100 div t < 60"
proof -
  have "2 * e < t" using div_round[OF assms(1), of "e * 2"] assms(2) by simp
  then have "e * 100 < 60 * t" by linarith
  then show p: "e * 100 div t < 60" using \<open>2 * e < t\<close> by (simp add: less_mult_imp_div_less)
  show "cacheStep k e t = t" using p assms by (simp add: cacheStep_def Let_def)
qed

lemma cacheStep_settles:
  assumes "0 < k" and "0 < s"
  shows "\<exists>n. cacheStep k e ((cacheStep k e ^^ n) s) = (cacheStep k e ^^ n) s \<and> e * 100 div ((cacheStep k e ^^ n) s) < 60"
  using assms(2)
proof (induction "2 * e + 1 - s" arbitrary: s rule: less_induct)
  case less
  show ?case
  proof (cases "60 \<le> e * 100 div s")
    case True
    then have grow: "cacheStep k e s = s + k" by (simp add: cacheStep_def)
    have "s * 60 \<le> e * 100"
      using True less.prems by (metis mult.commute less_eq_div_iff_mult_less_eq)
    then have "2 * e + 1 - (s + k) < 2 * e + 1 - s" using assms(1) by simp
    from less.hyps[OF this] less.prems obtain n where
      "cacheStep k e ((cacheStep k e ^^ n) (s + k)) = (cacheStep k e ^^ n) (s + k)"
      "e * 100 div ((cacheStep k e ^^ n) (s + k)) < 60" by auto
    then show ?thesis using grow by (intro exI[of _ "Suc n"]) (simp add: funpow_swap1)
  next
    case small: False
    show ?thesis
    proof (cases "e * 100 div s < 20 \<and> k < s")
      case True
      then have "cacheStep k e s = e * 2 div k * k + k" using small by (simp add: cacheStep_def Let_def)
      with cacheStep_shrunk[OF assms(1) refl, of e] show ?thesis by (intro exI[of _ 1]) simp
    next
      case False
      show ?thesis
      proof (cases "s < k")
        case True
        then have "cacheStep k e s = k" using small False by (simp add: cacheStep_def)
        moreover have "e * 100 div k \<le> e * 100 div s" using True less.prems by (intro div_le_mono2) auto
        then have "e * 100 div k < 60" "cacheStep k e k = k" using small by (simp_all add: cacheStep_def)
        ultimately show ?thesis by (intro exI[of _ 1]) simp
      next
        case le: False
        then have "cacheStep k e s = s" using small False by (auto simp: cacheStep_def)
        then show ?thesis using small by (intro exI[of _ 0]) simp
      qed
    qed
  qed
qed

lemma unat_resizedCache:
  assumes "unat e < 2 ^ 56" and "unat s < 2 ^ 60" and "0 < s" and "unat k < 2 ^ 60" and "0 < k"
  shows "unat (resizedCache k e s) = cacheStep (unat k) (unat e) (unat s)"
proof -
  have pos: "0 < unat s" "0 < unat k" using assms(3,5) by (simp_all add: word_less_nat_alt)
  have m: "unat (e * 100) = unat e * 100" "unat (e * 2) = unat e * 2" using assms(1) by (simp_all add: unat_word_ariths)
  have a: "unat (s + k) = unat s + unat k" using assms(2,4) by (simp add: unat_word_ariths)
  have d: "unat (e * 2 div k) = unat e * 2 div unat k" "unat (e * 100 div s) = unat e * 100 div unat s"
    using m by (simp_all add: unat_div)
  have le: "unat e * 2 div unat k * unat k \<le> unat e * 2" by simp
  have "unat e * 2 < 18446744073709551616" using assms(1) by simp
  with le have "unat e * 2 div unat k * unat k < 18446744073709551616" by (rule le_less_trans)
  then have prod: "unat (e * 2 div k * k) = unat e * 2 div unat k * unat k"
    by (simp add: unat_word_ariths(2)[of "e * 2 div k"] d(1))
  have t: "unat (e * 2 div k * k + k) = unat e * 2 div unat k * unat k + unat k"
  proof -
    have "unat e * 2 + unat k < 18446744073709551616" using assms(1,4) by simp
    with le have "unat e * 2 div unat k * unat k + unat k < 18446744073709551616" by linarith
    then show ?thesis using prod by (simp add: unat_word_ariths(1))
  qed
  show ?thesis
    by (simp add: resizedCache_def cacheStep_def Let_def word_le_nat_alt word_less_nat_alt d a t
      cacheGrowPercent_def cacheShrinkPercent_def)
qed


text \<open>The check on a volume whose limit can be set and whose use does not change.\<close>

lemma checkAndResize_step:
  assumes usage: "\<And>w. \<exists>u. fv_Usage cache w = Ok u \<and> fu_Excl u = e"
    and limit: "\<And>s w. \<exists>w' u. fv_Limit cache s w = (w', Ok ()) \<and> fv_Usage cache w' = Ok u \<and> fu_Size u = s"
    and "fv_Usage cache w = Ok u" and "fu_Size u \<noteq> 0"
  shows "\<exists>w' u'. checkAndResizeCache cache k w = (w', Ok ()) \<and> fv_Usage cache w' = Ok u' \<and>
    fu_Size u' = resizedCache k e (fu_Size u) \<and> (resizedCache k e (fu_Size u) = fu_Size u \<longrightarrow> w' = w)"
proof -
  have "fu_Excl u = e" using usage[of w] assms(3) by auto
  moreover obtain w' u' where "fv_Limit cache (resizedCache k e (fu_Size u)) w = (w', Ok ())" "fv_Usage cache w' = Ok u'"
    "fu_Size u' = resizedCache k e (fu_Size u)" using limit by blast
  ultimately show ?thesis using assms(3,4) by (auto simp: checkAndResizeCache_def Let_def)
qed

lemma checkAndResize_first:
  assumes "\<And>w. \<exists>u. fv_Usage cache w = Ok u \<and> fu_Excl u = e"
    and "\<And>s w. \<exists>w' u. fv_Limit cache s w = (w', Ok ()) \<and> fv_Usage cache w' = Ok u \<and> fu_Size u = s"
    and "fv_Usage cache w = Ok u" and "fu_Size u = 0"
  shows "\<exists>w' u'. fst (checkAndResizeCache cache k w) = w' \<and> fv_Usage cache w' = Ok u' \<and>
    fu_Size u' = resizedCache k e (max k (e * 2))"
proof -
  have e: "fu_Excl u = e" using assms(1)[of w] assms(3) by auto
  obtain w1 u1 where w1: "fv_Limit cache (max k (e * 2)) w = (w1, Ok ())" "fv_Usage cache w1 = Ok u1" "fu_Size u1 = max k (e * 2)"
    using assms(2) by blast
  obtain w2 u2 where w2: "fv_Limit cache (resizedCache k e (max k (e * 2))) w1 = (w2, Ok ())" "fv_Usage cache w2 = Ok u2"
    "fu_Size u2 = resizedCache k e (max k (e * 2))" using assms(2) by blast
  show ?thesis using w1 w2 assms(3,4) e by (auto simp: checkAndResizeCache_def Let_def)
qed

lemma cacheSize_nat: "unat cacheSize = 5368709120"
  by (simp add: cacheSize_def gib_def)

lemma cache_settles_from:
  assumes "\<And>w. \<exists>u. fv_Usage cache w = Ok u \<and> fu_Excl u = e"
    and "\<And>s w. \<exists>w' u. fv_Limit cache s w = (w', Ok ()) \<and> fv_Usage cache w' = Ok u \<and> fu_Size u = s"
    and "unat e < 2 ^ 56" and "fv_Usage cache w = Ok u" and "0 < fu_Size u" and "unat (fu_Size u) < 2 ^ 59"
  shows "\<exists>n w' u'. ((\<lambda>w. fst (checkAndResizeCache cache cacheSize w)) ^^ n) w = w' \<and>
    checkAndResizeCache cache cacheSize w' = (w', Ok ()) \<and> fv_Usage cache w' = Ok u' \<and>
    cacheSize \<le> fu_Size u' \<and> unat e * 100 div unat (fu_Size u') < 60"
proof -
  let ?f = "\<lambda>w. fst (checkAndResizeCache cache cacheSize w)" and ?k = "unat cacheSize" and ?e = "unat e" and ?s = "unat (fu_Size u)"
  have k: "0 < ?k" "?k < 2 ^ 60" "0 < cacheSize" by (simp_all add: cacheSize_nat word_less_nat_alt)
  have s: "0 < ?s" using assms(5) by (simp add: word_less_nat_alt)
  have track: "\<exists>u'. fv_Usage cache ((?f ^^ n) w) = Ok u' \<and> unat (fu_Size u') = (cacheStep ?k ?e ^^ n) ?s \<and>
      0 < fu_Size u' \<and> unat (fu_Size u') \<le> max ?s (2 * ?e + ?k)" for n
  proof (induction n)
    case (Suc n)
    then obtain u1 where u1: "fv_Usage cache ((?f ^^ n) w) = Ok u1" "unat (fu_Size u1) = (cacheStep ?k ?e ^^ n) ?s"
      "0 < fu_Size u1" "unat (fu_Size u1) \<le> max ?s (2 * ?e + ?k)" by blast
    have "unat (fu_Size u1) < 2 ^ 60" using u1(4) assms(3,6) by (simp add: cacheSize_nat max_def split: if_splits)
    note step = unat_resizedCache[OF assms(3) this u1(3) k(2,3)]
    have pos: "0 < unat (fu_Size u1)" using u1(3) by (simp add: word_less_nat_alt)
    obtain w' u' where w': "checkAndResizeCache cache cacheSize ((?f ^^ n) w) = (w', Ok ())" "fv_Usage cache w' = Ok u'"
      "fu_Size u' = resizedCache cacheSize e (fu_Size u1)"
      using checkAndResize_step[OF assms(1,2) u1(1), of cacheSize] u1(3) by (auto simp: word_gt_0)
    have "0 < fu_Size u'" "unat (fu_Size u') \<le> max ?s (2 * ?e + ?k)"
      using cacheStep_bounds[OF k(1) pos, of ?e] u1(4) k(1) w'(3) step by (auto simp: word_less_nat_alt)
    with w' u1(2) step show ?case by simp
  qed (use assms(4,5) in simp)
  obtain n where n: "cacheStep ?k ?e ((cacheStep ?k ?e ^^ n) ?s) = (cacheStep ?k ?e ^^ n) ?s"
    "?e * 100 div ((cacheStep ?k ?e ^^ n) ?s) < 60" using cacheStep_settles[OF k(1) s] by blast
  from track[of n] obtain u' where u': "fv_Usage cache ((?f ^^ n) w) = Ok u'" "unat (fu_Size u') = (cacheStep ?k ?e ^^ n) ?s"
    "0 < fu_Size u'" "unat (fu_Size u') \<le> max ?s (2 * ?e + ?k)" by blast
  have small: "unat (fu_Size u') < 2 ^ 60" using u'(4) assms(3,6) by (simp add: cacheSize_nat max_def split: if_splits)
  have fixp: "resizedCache cacheSize e (fu_Size u') = fu_Size u'"
    using unat_resizedCache[OF assms(3) small u'(3) k(2,3)] n(1) u'(2) by (simp add: word_unat_eq_iff)
  have "checkAndResizeCache cache cacheSize ((?f ^^ n) w) = ((?f ^^ n) w, Ok ())"
    using checkAndResize_step[OF assms(1,2) u'(1), of cacheSize] u'(3) fixp by (auto simp: word_gt_0)
  moreover have "cacheSize \<le> fu_Size u'"
    using cacheStep_bounds(1)[OF k(1), of "unat (fu_Size u')" ?e] u'(2,3) n(1) by (simp add: word_le_nat_alt word_less_nat_alt)
  ultimately show ?thesis using u' n(2) by auto
qed


section \<open>Files of disks\<close>

lemma safePath_iff:
  assumes "\<forall>p \<in> set ps. element p"
  shows "safePath (abspath ps) i = Ok path \<longleftrightarrow>
    (\<exists>n. element n \<and> Join [abspath ps, i] = abspath (ps @ [n]) \<and> path = abspath (ps @ [n])) \<or>
    (ps = [] \<and> Join [abspath ps, i] = abspath [] \<and> path = abspath [])"
proof -
  have "hd (joinWith [slash] [abspath ps, i]) = slash" by (simp add: abspath_def)
  then obtain qs where qs: "Join [abspath ps, i] = abspath qs" "\<forall>q \<in> set qs. element q"
    using Clean_rooted[of "joinWith [slash] [abspath ps, i]"] by (auto simp: Join_def abspath_def)
  have dir: "Clean (Dir (abspath qs)) = (if qs = [] then abspath [] else abspath (butlast qs))"
  proof (cases "qs = []")
    case True
    then show ?thesis by (simp add: Dir_def Clean_def abspath_def)
  next
    case False
    then have "Dir (abspath qs) = abspath (butlast qs)"
      using Dir_abspath[of "butlast qs" "last qs"] qs(2) by (simp add: in_set_butlastD)
    then show ?thesis using False Clean_abspath[of "butlast qs"] qs(2) by (simp add: in_set_butlastD)
  qed
  show ?thesis
  proof (cases "qs = []")
    case True
    have "abspath [] = abspath ps \<longleftrightarrow> ps = []" using abspath_inject[of "[]" ps] assms by auto
    moreover have "abspath [] \<noteq> abspath (ps @ [n])" if "element n" for n
      using abspath_inject[of "[]" "ps @ [n]"] assms that by auto
    ultimately show ?thesis using qs(1) dir True unfolding safePath_def Let_def by auto
  next
    case False
    then obtain rs n where rs: "qs = rs @ [n]" by (metis rev_exhaust)
    then have n: "element n" and "\<forall>q \<in> set rs. element q" using qs(2) by simp_all
    then have "abspath rs = abspath ps \<longleftrightarrow> rs = ps" using abspath_inject[of rs ps] assms by blast
    then have "safePath (abspath ps) i = Ok path \<longleftrightarrow> rs = ps \<and> path = abspath (rs @ [n])"
      using qs(1) dir rs unfolding safePath_def Let_def by auto
    moreover have "abspath qs \<noteq> abspath []" using abspath_inject[of qs "[]"] qs(2) False by simp
    moreover have "abspath (rs @ [n]) = abspath (ps @ [n']) \<longleftrightarrow> rs = ps \<and> n = n'" if "element n'" for n'
      using abspath_inject[of "rs @ [n]" "ps @ [n']"] qs(2) rs assms that by simp
    ultimately show ?thesis using qs(1) rs n by auto
  qed
qed


lemma rlist_member: "rlist f xs = Ok ys \<Longrightarrow> y \<in> set ys \<Longrightarrow> \<exists>x \<in> set xs. f x = Ok y"
  by (induction xs arbitrary: ys) (auto simp: rbind_Ok_iff rmap_Ok_iff)

lemma abspath_snoc: "ps \<noteq> [] \<Longrightarrow> abspath (ps @ [n]) = abspath ps @ slash # n"
  by (simp add: abspath_def joinWith_append)


section \<open>Claims\<close>

subsection \<open>Sample data\<close>

text \<open>A node whose state is the list of mounted pools; a pool has a size, a used space and
  volumes that do not change.\<close>

definition sample_volume :: "string \<Rightarrow> string list FsVolume" where
  "sample_volume path = \<lparr>fv_ID = 1, fv_Path = path, fv_Name = Base path, fv_Usage = (\<lambda>w. Ok noUsage), fv_Limit = (\<lambda>s w. (w, Ok ()))\<rparr>"

definition sample_pool :: "string \<Rightarrow> u64 \<Rightarrow> u64 \<Rightarrow> string list \<Rightarrow> string list FsPool" where
  "sample_pool name sz used vols = \<lparr>fp_Name = name, fp_Path = ''/mnt/'' @ name,
     fp_Device = \<lparr>di_Path = name, di_Label = name, di_Size = sz, di_Filesystem = ''btrfs'', di_Rota = False, di_Subsystems = []\<rparr>,
     fp_Mounted = (\<lambda>w. if name \<in> set w then Ok (''/mnt/'' @ name) else Err ErrDeviceNotMounted),
     fp_Mount = (\<lambda>w. (name # w, Ok (''/mnt/'' @ name))), fp_UnMount = (\<lambda>w. (removeAll name w, Ok ())),
     fp_Volumes = (\<lambda>w. Ok (map sample_volume vols)), fp_AddVolume = (\<lambda>n w. (w, Ok (sample_volume n))),
     fp_RemoveVolume = (\<lambda>n w. (w, Ok ())), fp_Usage = (\<lambda>w. Ok \<lparr>fu_Size = sz, fu_Used = used, fu_Excl = 0\<rparr>),
     fp_Shutdown = (\<lambda>w. (w, Ok ())), fp_SetType = (\<lambda>t w. (w, Ok ())), fp_Type = (\<lambda>w. Ok None)\<rparr>"

definition sample_host :: "'w Host" where
  "sample_host = \<lparr>h_params = (\<lambda>_. None), h_Devices = (\<lambda>w. Ok []), h_NewPool = (\<lambda>d w. (w, Err (Errorf []))),
     h_readType = (\<lambda>n w. Err ErrNotExist), h_DetectType = (\<lambda>d w. Ok SSDDevice), h_Partprobe = (\<lambda>w. (w, Ok ())),
     h_SetFlag = (\<lambda>f w. (w, Ok ())), h_DeleteFlag = (\<lambda>f w. (w, Ok ())), h_mountTmpfs = (\<lambda>t n w. (w, Ok ())),
     h_IsMountPoint = (\<lambda>t w. True), h_BindMount = (\<lambda>v t w. (w, Ok ())), h_smartctl = (\<lambda>p w. Inr []),
     h_sortPools = (\<lambda>cmp ps. filter (\<lambda>p. \<forall>q \<in> set ps. cmp p q \<le> 0) ps @ filter (\<lambda>p. \<not> (\<forall>q \<in> set ps. cmp p q \<le> 0)) ps),
     h_sortCandidates = (\<lambda>lt cs. sort_key (\<lambda>c. - int (unat (cand_Available c))) cs)\<rparr>"

definition sample_module :: "'w FsPool list \<Rightarrow> 'w FsPool list \<Rightarrow> 'w Module" where
  "sample_module ssds hdds = \<lparr>m_ssds = ssds, m_hdds = hdds, m_brokenPools = [], m_brokenDevices = [],
     m_totalSSD = 0, m_totalHDD = 0, m_watched = None\<rparr>"

lemma sorted_wrt_all: "(\<And>a b. a \<in> set xs \<Longrightarrow> b \<in> set xs \<Longrightarrow> P a b) \<Longrightarrow> sorted_wrt P xs"
  by (induction xs) auto

lemma sample_sorts: "sortsPools (sample_host :: 'w Host)" "sortsCandidates (sample_host :: 'w Host)"
proof -
  show "sortsPools (sample_host :: 'w Host)"
    unfolding sortsPools_def sample_host_def
    by (auto simp: sorted_wrt_append intro!: sorted_wrt_all) (auto simp: poolCmp_def split: if_splits)
  have "sorted_wrt (\<lambda>a b. cand_Available a \<ge> cand_Available b) (sort_key (\<lambda>c. - int (unat (cand_Available c))) cs)" for cs :: "'w candidate list"
    using sorted_sort_key[of "\<lambda>c. - int (unat (cand_Available c))" cs] by (simp add: sorted_map word_le_def)
  then show "sortsCandidates (sample_host :: 'w Host)" by (simp add: sortsCandidates_def sample_host_def)
qed

lemma sample_no_missing: "\<not> Params_Exists (h_params sample_host) MissingSSD"
  by (simp add: sample_host_def Params_Exists_def)


subsection \<open>Where volumes go\<close>

text \<open>C35: disks that sleep are left asleep, on a node that was not started with the parameter
  \<open>missing-ssd\<close> (with it the mounted HDDs are candidates as well). When a mounted SSD passes the
  check for room, the candidates are exactly the mounted SSDs that pass it, the one with the most
  space left comes first, and nothing is mounted: the node does not change. The check for room is the one the code
  makes: the used space plus the size of the volume, as an unsigned sum of 64 bits that may wrap around, is at most the size
  of the pool; the space left is their difference.\<close>

theorem mounted_pools_first:
  assumes "sortsPools H" and "sortsCandidates H" and "\<not> Params_Exists (h_params H) MissingSSD"
    and "p \<in> set (m_ssds m)" and "is_ok (fp_Mounted p w)" and "fp_Usage p w = Ok u" and "fu_Used u + sz \<le> fu_Size u"
  shows "\<exists>m' cs. findCandidates H sz PolicySSDFirst (m, w) = ((m', w), Ok cs) \<and>
    cand_Pool ` set cs = {q \<in> set (m_ssds m). is_ok (fp_Mounted q w) \<and>
      (\<exists>v. fp_Usage q w = Ok v \<and> fu_Used v + sz \<le> fu_Size v)} \<and>
    (\<forall>c \<in> set cs. \<exists>v. fp_Usage (cand_Pool c) w = Ok v \<and> cand_Available c = fu_Size v - (fu_Used v + sz)) \<and>
    sorted_wrt (\<lambda>a b. cand_Available a \<ge> cand_Available b) cs"
proof -
  have "mountedIn w p" "fitsIn sz w p" using assms(5-7) by (auto simp: mountedIn_def fitsIn_def)
  from findCandidates_mounted[OF assms(1-4) this] obtain m' cs where
    cs: "findCandidates H sz PolicySSDFirst (m, w) = ((m', w), Ok cs)"
      "set cs = candidateFor sz w ` {q \<in> set (m_ssds m). mountedIn w q \<and> fitsIn sz w q}"
      "sorted_wrt (\<lambda>a b. cand_Available a \<ge> cand_Available b) cs" by blast
  have "cand_Pool ` set cs = {q \<in> set (m_ssds m). mountedIn w q \<and> fitsIn sz w q}"
    unfolding cs(2) by (force simp: candidateFor_def)
  moreover have "\<exists>v. fp_Usage (cand_Pool c) w = Ok v \<and> cand_Available c = fu_Size v - (fu_Used v + sz)" if "c \<in> set cs" for c
    using that unfolding cs(2) by (auto simp: candidateFor_def fitsIn_def)
  ultimately show ?thesis using cs(1,3) unfolding mountedIn_def fitsIn_def by blast
qed

theorem mounted_pools_first_witness:
  "\<exists>m' cs. findCandidates sample_host 3 PolicySSDFirst
     (sample_module [sample_pool ''a'' 10 9 [], sample_pool ''b'' 10 5 [], sample_pool ''c'' 10 0 []] [], [''a'', ''b'']) =
       ((m', [''a'', ''b'']), Ok cs) \<and> cand_Pool ` set cs = {sample_pool ''b'' 10 5 []}"
proof -
  let ?p = "sample_pool ''b'' 10 5 []"
  let ?m = "sample_module [sample_pool ''a'' 10 9 [], ?p, sample_pool ''c'' 10 0 []] []"
  have "{q \<in> set (m_ssds ?m). is_ok (fp_Mounted q [''a'', ''b'']) \<and>
      (\<exists>v. fp_Usage q [''a'', ''b''] = Ok v \<and> fu_Used v + 3 \<le> fu_Size v)} = {?p}"
    by (auto simp: sample_module_def) (auto simp: sample_pool_def)
  with mounted_pools_first[OF sample_sorts sample_no_missing, of ?p ?m "[''a'', ''b'']" "\<lparr>fu_Size = 10, fu_Used = 5, fu_Excl = 0\<rparr>" 3]
  show ?thesis by (simp add: sample_module_def) (auto simp: sample_pool_def)
qed

text \<open>A request for an impossible size is accepted. The space needed is the used space plus
  the size in 64 bits: when the sum wraps around, a mounted pool that is not overfull is a
  candidate, although the size is larger than the pool.\<close>

lemma oversized_volume_accepted:
  assumes "sortsPools H" and "sortsCandidates H" and "\<not> Params_Exists (h_params H) MissingSSD"
    and "p \<in> set (m_ssds m)" and "is_ok (fp_Mounted p w)" and "fp_Usage p w = Ok u" and "fu_Used u \<le> fu_Size u"
    and "2 ^ 64 \<le> unat (fu_Used u) + unat sz"
  shows "\<exists>m' cs. findCandidates H sz PolicySSDFirst (m, w) = ((m', w), Ok cs) \<and> p \<in> cand_Pool ` set cs \<and>
    unat (fu_Size u) < unat (fu_Used u) + unat sz"
proof -
  have "unat (fu_Used u + sz) = unat (fu_Used u) + unat sz - 2 ^ 64"
  proof -
    have "unat (fu_Used u) + unat sz < 2 * 2 ^ 64" using unat64_less[of "fu_Used u"] unat64_less[of sz] by linarith
    then have "(unat (fu_Used u) + unat sz) mod 2 ^ 64 = unat (fu_Used u) + unat sz - 2 ^ 64"
      using assms(8) by (simp add: mod_if)
    then show ?thesis by (simp add: unat_word_ariths)
  qed
  then have "fu_Used u + sz \<le> fu_Used u" using unat64_less[of sz] by (simp add: word_le_nat_alt)
  then have "mountedIn w p" "fitsIn sz w p" using assms(5-7) by (auto simp: mountedIn_def fitsIn_def)
  from findCandidates_mounted[OF assms(1-4) this] this assms(4) obtain m' cs where
    "findCandidates H sz PolicySSDFirst (m, w) = ((m', w), Ok cs)" "candidateFor sz w p \<in> set cs" by blast
  moreover from this(2) have "p \<in> cand_Pool ` set cs" by (rule rev_image_eqI) (simp add: candidateFor_def)
  moreover have "unat (fu_Size u) < unat (fu_Used u) + unat sz" using assms(8) unat64_less[of "fu_Size u"] by linarith
  ultimately show ?thesis by blast
qed

lemma oversized_volume_accepted_witness:
  "\<exists>m' cs. findCandidates sample_host (- 4) PolicySSDFirst (sample_module [sample_pool ''a'' 10 5 []] [], [''a'']) =
     ((m', [''a'']), Ok cs) \<and> sample_pool ''a'' 10 5 [] \<in> cand_Pool ` set cs"
  using oversized_volume_accepted[OF sample_sorts sample_no_missing, of "sample_pool ''a'' 10 5 []" "sample_module [sample_pool ''a'' 10 5 []] []"
      "[''a'']" "\<lparr>fu_Size = 10, fu_Used = 5, fu_Excl = 0\<rparr>" "- 4"]
  by (auto simp: sample_module_def sample_pool_def)

subsection \<open>The cache\<close>

text \<open>C36: the size of the cache settles. When the space in use no longer changes, the periodic check
  changes the limit of the cache volume only finitely often, whatever the limit was (none
  included); the limit it ends with is at least \<open>cacheSize\<close>, and less than 60 percent of it
  is in use.\<close>

theorem cache_size_settles:
  assumes "\<And>w. \<exists>u. fv_Usage cache w = Ok u \<and> fu_Excl u = e"
    and "\<And>s w. \<exists>w' u. fv_Limit cache s w = (w', Ok ()) \<and> fv_Usage cache w' = Ok u \<and> fu_Size u = s"
    and "unat e < 2 ^ 56" and "fv_Usage cache w = Ok u" and "unat (fu_Size u) < 2 ^ 59"
  shows "\<exists>n w' u'. ((\<lambda>w. fst (checkAndResizeCache cache cacheSize w)) ^^ n) w = w' \<and>
    checkAndResizeCache cache cacheSize w' = (w', Ok ()) \<and> fv_Usage cache w' = Ok u' \<and>
    cacheSize \<le> fu_Size u' \<and> unat (fu_Excl u') * 100 div unat (fu_Size u') < 60"
proof -
  let ?f = "\<lambda>w. fst (checkAndResizeCache cache cacheSize w)"
  have excl: "fv_Usage cache w' = Ok u' \<Longrightarrow> fu_Excl u' = e" for w' u' using assms(1)[of w'] by auto
  show ?thesis
  proof (cases "fu_Size u = 0")
    case False
    then have "0 < fu_Size u" by (simp add: word_gt_0)
    from cache_settles_from[OF assms(1-4) this assms(5)] excl show ?thesis by metis
  next
    case True
    from checkAndResize_first[OF assms(1,2,4) True, of cacheSize] obtain u1 where u1: "fv_Usage cache (?f w) = Ok u1"
      "fu_Size u1 = resizedCache cacheSize e (max cacheSize (e * 2))" by blast
    have e2: "unat (e * 2) = unat e * 2" using assms(3) by (simp add: unat_word_ariths)
    then have m: "unat (max cacheSize (e * 2)) = max (unat cacheSize) (unat e * 2)" by (simp add: max_def word_le_nat_alt)
    then have r: "unat (fu_Size u1) = cacheStep (unat cacheSize) (unat e) (max (unat cacheSize) (unat e * 2))"
      unfolding u1(2) using assms(3) by (subst unat_resizedCache) (auto simp: cacheSize_nat word_less_nat_alt max_def)
    have b: "unat cacheSize \<le> unat (fu_Size u1)" "unat (fu_Size u1) \<le> max (max (unat cacheSize) (unat e * 2)) (2 * unat e + unat cacheSize)"
      unfolding r by (rule cacheStep_bounds; simp add: cacheSize_nat)+
    have "0 < fu_Size u1" "unat (fu_Size u1) < 2 ^ 59"
      using b assms(3) by (auto simp: cacheSize_nat word_less_nat_alt max_def split: if_splits)
    from cache_settles_from[OF assms(1-3) u1(1) this] obtain n w' u' where "(?f ^^ n) (?f w) = w'"
      "checkAndResizeCache cache cacheSize w' = (w', Ok ())" "fv_Usage cache w' = Ok u'" "cacheSize \<le> fu_Size u'"
      "unat e * 100 div unat (fu_Size u') < 60" by blast
    then show ?thesis using excl[of w' u'] by (intro exI[of _ "Suc n"] exI[of _ w'] exI[of _ u'])
      (simp add: funpow_Suc_right del: funpow.simps)
  qed
qed

text \<open>A cache volume on a node that is its limit; 20 GiB are in use.\<close>

definition sample_cache :: "u64 FsVolume" where
  "sample_cache = \<lparr>fv_ID = 1, fv_Path = ''/mnt/a/zos-cache'', fv_Name = cacheLabel,
     fv_Usage = (\<lambda>w. Ok \<lparr>fu_Size = w, fu_Used = w, fu_Excl = 20 * gib\<rparr>), fv_Limit = (\<lambda>s w. (s, Ok ()))\<rparr>"

theorem cache_size_settles_witness:
  "\<exists>n w'. ((\<lambda>w. fst (checkAndResizeCache sample_cache cacheSize w)) ^^ n) 0 = w' \<and>
    checkAndResizeCache sample_cache cacheSize w' = (w', Ok ()) \<and> cacheSize \<le> w' \<and> unat (20 * gib) * 100 div unat w' < 60"
  using cache_size_settles[of sample_cache "20 * gib" 0 "\<lparr>fu_Size = 0, fu_Used = 0, fu_Excl = 20 * gib\<rparr>"]
  by (auto simp: sample_cache_def gib_def)

subsection \<open>Files and devices\<close>

text \<open>The file of a disk is in its volume. For a volume at a clean absolute path other than the
  root, \<open>safePath\<close> only returns the path of an entry of that directory, whatever the name
  contains, and for a plain name it returns it.\<close>

lemma safe_path_confined:
  assumes "Clean base = base" and "hd base = CHR ''/''" and "base \<noteq> ''/''" and "base \<noteq> []"
  shows "(\<forall>path. safePath base i = Ok path \<longrightarrow> (\<exists>n. path = base @ ''/'' @ n \<and>
      n \<noteq> [] \<and> n \<noteq> ''.'' \<and> n \<noteq> ''..'' \<and> CHR ''/'' \<notin> set n)) \<and>
    (i \<noteq> [] \<and> i \<noteq> ''.'' \<and> i \<noteq> ''..'' \<and> CHR ''/'' \<notin> set i \<longrightarrow> safePath base i = Ok (base @ ''/'' @ i))"
proof -
  from Clean_rooted[OF assms(4)] assms(1,2) obtain ps where ps: "base = abspath ps" "\<forall>p \<in> set ps. element p"
    by (auto simp: slash_def)
  have ne: "ps \<noteq> []" using ps(1) assms(3) by (auto simp: abspath_def slash_def)
  have "\<exists>n. path = base @ slash # n \<and> element n" if "safePath base i = Ok path" for path
    using that ne abspath_snoc[OF ne] unfolding ps(1) safePath_iff[OF ps(2)] by metis
  moreover have "safePath base i = Ok (base @ slash # i)" if "element i"
    using that Join_element[OF ps(2) that] abspath_snoc[OF ne, of i] unfolding ps(1) safePath_iff[OF ps(2)] by metis
  ultimately show ?thesis by (auto simp: element_def slash_def)
qed

lemma safe_path_confined_witness:
  "safePath ''/mnt/a'' ''7-9-d'' = Ok ''/mnt/a/7-9-d'' \<and> \<not> is_ok (safePath ''/mnt/a'' ''../b/x'')"
proof -
  have "Clean ''/mnt/a'' = ''/mnt/a''" by (simp add: Clean_def slash_def)
  from safe_path_confined[OF this, of "''7-9-d''"] show ?thesis
    by (simp add: safePath_def Join_def Clean_def Dir_def slash_def)
qed

text \<open>\<open>DiskList\<close> lists the disks of one pool only. Its loop over the pools with virtual disks
  returns after the first, so that the disks of the others are missing.\<close>

lemma disk_list_first_pool:
  assumes "\<not> Params_Exists (h_params H) MissingSSD"
    and "vdiskPaths w (h_sortPools H (poolCmp w) (m_ssds m)) = Ok (abspath ps # rest)" and "\<forall>p \<in> set ps. element p"
    and "\<And>items n d r. os_ReadDir F (abspath ps) w = Ok items \<Longrightarrow> (n, d, r) \<in> set items \<Longrightarrow> element n"
    and "DiskList H F (m, w) = (mw, Ok disks)"
  shows "\<forall>disk \<in> set disks. Dir (vd_Path disk) = abspath ps"
proof -
  from assms(1,2,5) have "listDir F (abspath ps) w = Ok disks" by (auto simp: DiskList_def diskPools_def ssdFirst_def ssdOnly_def)
  then obtain items where items: "os_ReadDir F (abspath ps) w = Ok items"
    "rlist (\<lambda>(name, _, info). rbind (rwrap (''failed to get file info for '' @ squote name) info) (\<lambda>sz.
         Ok \<lparr>vd_Path = Join [abspath ps, name], vd_Size = sz\<rparr>)) (filter (\<lambda>(_, isDir, _). \<not> isDir) items) = Ok disks"
    by (auto simp: listDir_def rbind_Ok_iff)
  have "Dir (vd_Path disk) = abspath ps" if "disk \<in> set disks" for disk
  proof -
    from rlist_member[OF items(2) that] obtain n d r where n: "(n, d, r) \<in> set items" "vd_Path disk = Join [abspath ps, n]"
      by (auto simp: rbind_Ok_iff)
    have "element n" by (rule assms(4)[OF items(1) n(1)])
    with n(2) assms(3) show ?thesis by (simp add: Join_element Dir_abspath)
  qed
  then show ?thesis by blast
qed

definition sample_os :: "string list Os" where
  "sample_os = \<lparr>os_Stat = (\<lambda>p w. Ok 1), os_Open = (\<lambda>p w. Ok (Ok 1)), os_OpenWrite = (\<lambda>p w. Ok (Ok 1)),
     os_Create = (\<lambda>p w. (w, Ok ())), os_SetNoCow = (\<lambda>p w. (w, Ok ())), os_Fallocate = (\<lambda>p n w. (w, Ok ())),
     os_Copy = (\<lambda>a b w. (w, Ok ())), os_RemoveAll = (\<lambda>p w. w), os_Remove = (\<lambda>p w. (w, Ok ())),
     os_ReadDir = (\<lambda>p w. Ok [(if p = ''/mnt/a/vdisks'' then ''x'' else ''y'', False, Ok 1)]),
     os_mkfs = (\<lambda>p w. (w, None, [])), os_blkid = (\<lambda>p w. False)\<rparr>"

lemma disk_list_first_pool_witness:
  "\<exists>mw disks. DiskList sample_host sample_os
     (sample_module [sample_pool ''a'' 9 0 [''/mnt/a/vdisks''], sample_pool ''b'' 9 0 [''/mnt/b/vdisks'']] [], [''a'', ''b'']) =
       (mw, Ok disks) \<and> (\<forall>disk \<in> set disks. Dir (vd_Path disk) = ''/mnt/a/vdisks'') \<and>
     os_ReadDir sample_os ''/mnt/b/vdisks'' [''a'', ''b''] = Ok [(''y'', False, Ok 1)]"
proof -
  let ?m = "sample_module [sample_pool ''a'' 9 0 [''/mnt/a/vdisks''], sample_pool ''b'' 9 0 [''/mnt/b/vdisks'']] []"
  let ?ps = "[''mnt'', ''a'', ''vdisks'']"
  have ps: "abspath ?ps = ''/mnt/a/vdisks''" "\<forall>p \<in> set ?ps. element p" by (simp_all add: abspath_def element_def slash_def)
  have v: "vdiskPaths [''a'', ''b''] (h_sortPools sample_host (poolCmp [''a'', ''b'']) (m_ssds ?m)) = Ok [abspath ?ps, ''/mnt/b/vdisks'']"
    by (simp add: sample_module_def sample_host_def sample_pool_def poolCmp_def sample_volume_def vdiskVolumeName_def Base_def
      slash_def abspath_def)
  have no: "\<not> Params_Exists (h_params (sample_host :: string list Host)) MissingSSD" by (rule sample_no_missing)
  with v obtain mw disks where d: "DiskList sample_host sample_os (?m, [''a'', ''b'']) = (mw, Ok disks)"
    by (auto simp: DiskList_def diskPools_def ssdFirst_def ssdOnly_def listDir_def sample_os_def)
  have "element n" if "os_ReadDir sample_os (abspath ?ps) [''a'', ''b''] = Ok items" "(n, k, r) \<in> set items" for items n k r
    using that by (auto simp: sample_os_def element_def slash_def split: if_splits)
  from disk_list_first_pool[OF no v ps(2) this d] d ps(1) show ?thesis by (auto simp: sample_os_def)
qed

text \<open>Looking up a device that is not allocated succeeds. For a mounted disk with no volume for
  0-db, \<open>DeviceLookup\<close> wraps an error that is nil, so it returns no error and an empty device.\<close>

lemma device_lookup_unallocated:
  assumes "find (\<lambda>hdd. fp_Name hdd = name) (h_sortPools H (poolCmp w) (m_hdds m)) = Some p"
    and "is_ok (fp_Mounted p w)" and "fp_Volumes p w = Ok vs" and "is_ok (fp_Usage p w)"
    and "\<forall>v \<in> set vs. fv_Name v \<noteq> zdbVolume"
  shows "\<exists>m'. DeviceLookup H name (m, w) = ((m', w), Ok noDevice)"
proof -
  have "find (\<lambda>vol. fv_Name vol = zdbVolume) vs = None" using assms(5) by (simp add: find_None_iff)
  with assms show ?thesis
    by (auto simp: DeviceLookup_def hddOnly_def lookupDevice_def is_ok_iff Let_def)
qed

lemma device_lookup_unallocated_witness:
  "\<exists>mw. DeviceLookup sample_host ''h'' (sample_module [] [sample_pool ''h'' 9 0 []], [''h'']) = (mw, Ok noDevice)"
  using device_lookup_unallocated[of "''h''" sample_host "[''h'']" "sample_module [] [sample_pool ''h'' 9 0 []]" "sample_pool ''h'' 9 0 []" "[]"]
  by (auto simp: sample_module_def sample_host_def sample_pool_def poolCmp_def)

end
