(* ===== verification/PoolLaws.thy ===== *)
theory PoolLaws
  imports DiskProps
begin

text \<open>
  What the storage module relies on of the pools of a node, as a locale, and what its operations
  on volumes do on such pools.
\<close>

text \<open>The pools that hold volumes.\<close>

definition volumePools :: "'w Host \<Rightarrow> 'w Module \<Rightarrow> 'w FsPool set" where
  "volumePools H m = set (m_ssds m) \<union> (if Params_Exists (h_params H) MissingSSD then set (m_hdds m) else {})"

lemma pools_set:
  assumes "sortsPools H" and "pools H PolicySSDFirst (m, w) = (m', ps)"
  shows "set ps = volumePools H m" "volumePools H m' = volumePools H m"
  using assms(2) sortsPools_order(1)[OF assms(1)]
  by (auto simp: volumePools_def ssdFirst_def ssdOnly_def hddOnly_def Let_def split: if_splits)

locale node_pools =
  fixes Ps :: "'w FsPool set" and wf :: "'w \<Rightarrow> bool" and vols :: "'w FsPool \<Rightarrow> 'w \<Rightarrow> 'w FsVolume list"
    and plain :: "string \<Rightarrow> bool"
  assumes volumes: "wf w \<Longrightarrow> p \<in> Ps \<Longrightarrow> mountedIn w p \<Longrightarrow> fp_Volumes p w = Ok (vols p w)"
    and usage: "wf w \<Longrightarrow> p \<in> Ps \<Longrightarrow> mountedIn w p \<Longrightarrow> v \<in> set (vols p w) \<Longrightarrow> is_ok (fv_Usage v w)"
    and names: "wf w \<Longrightarrow> p \<in> Ps \<Longrightarrow> distinct (map fv_Name (vols p w))"
    and mount: "wf w \<Longrightarrow> p \<in> Ps \<Longrightarrow> fp_Mount p w = (w', rm) \<Longrightarrow> wf w' \<and> (\<forall>q \<in> Ps. vols q w' = vols q w) \<and>
      (\<forall>q \<in> Ps. q \<noteq> p \<longrightarrow> mountedIn w' q = mountedIn w q) \<and> (is_ok rm \<longrightarrow> mountedIn w' p)"
    and unmount: "wf w \<Longrightarrow> p \<in> Ps \<Longrightarrow> fp_UnMount p w = (w', r) \<Longrightarrow> wf w' \<and> (\<forall>q \<in> Ps. vols q w' = vols q w) \<and>
      (\<forall>q \<in> Ps. q \<noteq> p \<longrightarrow> mountedIn w' q = mountedIn w q) \<and> (is_ok r \<longrightarrow> \<not> mountedIn w' p)"
    and shutdown: "wf w \<Longrightarrow> p \<in> Ps \<Longrightarrow> fp_Shutdown p w = (w', r) \<Longrightarrow> wf w' \<and> (\<forall>q \<in> Ps. vols q w' = vols q w) \<and>
      (\<forall>q \<in> Ps. mountedIn w' q = mountedIn w q)"
    and add: "wf w \<Longrightarrow> p \<in> Ps \<Longrightarrow> plain n \<Longrightarrow> n \<notin> fv_Name ` set (vols p w) \<Longrightarrow> fp_AddVolume p n w = (w', ra) \<Longrightarrow>
      wf w' \<and> (\<forall>q \<in> Ps. mountedIn w' q = mountedIn w q) \<and> (\<forall>q \<in> Ps. q \<noteq> p \<longrightarrow> vols q w' = vols q w) \<and>
      (\<forall>e. ra = Err e \<longrightarrow> vols p w' = vols p w) \<and>
      (\<forall>v. ra = Ok v \<longrightarrow> mountedIn w p \<and> fv_Name v = n \<and> vols p w' = vols p w @ [v])"
    and limit: "wf w \<Longrightarrow> p \<in> Ps \<Longrightarrow> mountedIn w p \<Longrightarrow> v \<in> set (vols p w) \<Longrightarrow> fv_Limit v s w = (w', r) \<Longrightarrow>
      wf w' \<and> (\<forall>q \<in> Ps. vols q w' = vols q w) \<and> (\<forall>q \<in> Ps. mountedIn w' q = mountedIn w q) \<and>
      (is_ok r \<longrightarrow> (\<exists>u. fv_Usage v w' = Ok u \<and> fu_Size u = s))"
    and remove: "wf w \<Longrightarrow> p \<in> Ps \<Longrightarrow> mountedIn w p \<Longrightarrow> n \<in> fv_Name ` set (vols p w) \<Longrightarrow> fp_RemoveVolume p n w = (w', r) \<Longrightarrow>
      wf w' \<and> (\<forall>q \<in> Ps. mountedIn w' q = mountedIn w q) \<and> (\<forall>q \<in> Ps. q \<noteq> p \<longrightarrow> vols q w' = vols q w) \<and>
      (is_ok r \<longrightarrow> vols p w' = filter (\<lambda>v. fv_Name v \<noteq> n) (vols p w))"
begin

definition onPool :: "string \<Rightarrow> 'w FsPool \<Rightarrow> 'w \<Rightarrow> bool" where
  "onPool n p w \<longleftrightarrow> n \<in> fv_Name ` set (vols p w)"

subsection \<open>Lookup\<close>

lemma find_missing:
  assumes "wf w" and "set ps \<subseteq> Ps" and "\<And>p. p \<in> set ps \<Longrightarrow> mountedIn w p \<Longrightarrow> \<not> onPool n p w"
  shows "\<exists>e. findVolume n w ps = Err e \<and> err_is e ErrNotExist"
  using assms(2,3)
proof (induction ps)
  case (Cons p ps)
  show ?case
  proof (cases "mountedIn w p")
    case True
    then have "find (\<lambda>fs. fv_Name fs = n) (vols p w) = None" using Cons.prems(2)[of p] by (auto simp: onPool_def find_None_iff)
    then show ?thesis using Cons True volumes[OF assms(1) _ True] by (simp add: mountedIn_def)
  qed (use Cons in \<open>simp add: mountedIn_def\<close>)
qed simp

lemma find_present:
  assumes "wf w" and "set ps \<subseteq> Ps" and "p \<in> set ps" and "mountedIn w p" and "v \<in> set (vols p w)" and "fv_Name v = n"
    and "fv_Usage v w = Ok u" and "\<And>q. q \<in> set ps \<Longrightarrow> mountedIn w q \<Longrightarrow> onPool n q w \<Longrightarrow> q = p"
  shows "findVolume n w ps = Ok (p, v, reportVolume v u)"
  using assms(2,3,8)
proof (induction ps)
  case (Cons q ps)
  have one: "v' = v" if "v' \<in> set (vols p w)" "fv_Name v' = n" for v'
    using names[OF assms(1), of p] Cons.prems(1,2) assms(5,6) that by (auto simp: distinct_map inj_on_def)
  show ?case
  proof (cases "q = p")
    case True
    have "find (\<lambda>fs. fv_Name fs = n) (vols p w) = Some v"
    proof (cases "find (\<lambda>fs. fv_Name fs = n) (vols p w)")
      case None
      then show ?thesis using assms(5,6) by (auto simp: find_None_iff)
    next
      case (Some v')
      then show ?thesis using one[of v'] by (auto simp: find_Some_iff dest: nth_mem)
    qed
    then show ?thesis using True Cons.prems(1) assms(4,7) volumes[OF assms(1) _ assms(4)] by (simp add: mountedIn_def)
  next
    case False
    then have IH: "findVolume n w ps = Ok (p, v, reportVolume v u)" using Cons by simp
    show ?thesis
    proof (cases "mountedIn w q")
      case True
      then have "\<not> onPool n q w" using Cons.prems(3)[of q] False by auto
      then have "find (\<lambda>fs. fv_Name fs = n) (vols q w) = None" by (auto simp: onPool_def find_None_iff)
      then show ?thesis using IH True Cons.prems(1) volumes[OF assms(1) _ True] by (simp add: mountedIn_def)
    qed (use IH in \<open>simp add: mountedIn_def\<close>)
  qed
qed simp

subsection \<open>Search for space\<close>

lemma check_keeps:
  assumes "wf w" and "set ps \<subseteq> Ps" and "checkPools sz ps cs w = (w', r)"
  shows "wf w' \<and> (\<forall>q \<in> Ps. vols q w' = vols q w) \<and> (\<forall>cs'. r = Ok cs' \<longrightarrow> cand_Pool ` set cs' \<subseteq> cand_Pool ` set cs \<union> set ps)"
  using assms
proof (induction ps arbitrary: cs w)
  case (Cons p ps)
  have p: "p \<in> Ps" "set ps \<subseteq> Ps" using Cons.prems(2) by simp_all
  have stepped: ?case if "wf w1" "\<forall>q \<in> Ps. vols q w1 = vols q w" "checkPools sz ps cs1 w1 = (w', r)"
      "\<forall>c \<in> set cs1. c \<in> set cs \<or> cand_Pool c = p" for w1 cs1
  proof -
    note IH = Cons.IH[OF that(1) p(2) that(3)]
    have "\<forall>q \<in> Ps. vols q w' = vols q w" using IH that(2) by simp
    moreover have "cand_Pool ` set cs' \<subseteq> cand_Pool ` set cs \<union> set (p # ps)" if "r = Ok cs'" for cs'
      using IH that \<open>\<forall>c \<in> set cs1. c \<in> set cs \<or> cand_Pool c = p\<close> by (simp; blast)
    ultimately show ?thesis using IH by blast
  qed
  show ?case
  proof (cases "mountedIn w p")
    case True
    then have m: "is_ok (fp_Mounted p w)" by (simp add: mountedIn_def)
    show ?thesis
    proof (cases "fp_Usage p w")
      case (Inl e)
      then show ?thesis using Cons.prems(1,3) m stepped[of w cs] by simp
    next
      case (Inr u)
      let ?c = "\<lparr>cand_Pool = p, cand_Available = fu_Size u * SSDOverProvisionFactor - (fu_Used u + sz)\<rparr>"
      show ?thesis
        using Inr Cons.prems(1,3) m stepped[of w cs] stepped[of w "cs @ [?c]"]
        by (cases "fu_Used u + sz > fu_Size u * SSDOverProvisionFactor") simp_all
    qed
  next
    case False
    then have nm: "\<not> is_ok (fp_Mounted p w)" by (simp add: mountedIn_def)
    obtain w1 r1 where w1: "fp_Mount p w = (w1, r1)" by (meson surj_pair)
    note m = mount[OF Cons.prems(1) p(1) w1]
    obtain w2 r2 where w2: "fp_UnMount p w1 = (w2, r2)" by (meson surj_pair)
    note u = unmount[OF conjunct1[OF m] p(1) w2]
    obtain w3 r3 where w3: "fp_Shutdown p w2 = (w3, r3)" by (meson surj_pair)
    note s = shutdown[OF conjunct1[OF u] p(1) w3]
    show ?thesis
    proof (cases "cs \<noteq> [] \<or> sz > di_Size (fp_Device p)")
      case True
      then show ?thesis using Cons.prems(1,3) nm stepped[of w cs] by (cases "cs = []") auto
    next
      case room: False
      show ?thesis
      proof (cases r1)
        case (Inl e)
        then show ?thesis using room Cons.prems(3) nm w1 m by auto
      next
        case (Inr path)
        show ?thesis
        proof (cases "fp_Usage p w1")
          case (Inl e)
          then show ?thesis using room Cons.prems(3) nm w1 m Inr stepped[of w1 cs] by simp
        next
          case usage: (Inr us)
          let ?c = "\<lparr>cand_Pool = p, cand_Available = fu_Size us * SSDOverProvisionFactor - (fu_Used us + sz)\<rparr>"
          show ?thesis
            using room Cons.prems(3) nm w1 w2 w3 m u s Inr usage stepped[of w3 cs] stepped[of w1 "cs @ [?c]"]
            by (cases "fu_Used us + sz > fu_Size us * SSDOverProvisionFactor") simp_all
        qed
      qed
    qed
  qed
qed auto

subsection \<open>Creating volumes\<close>

lemma add_first:
  assumes "wf w" and "cand_Pool ` set cs \<subseteq> Ps" and "plain n" and "\<forall>p \<in> Ps. \<not> onPool n p w" and "addToFirst n cs w = (w', Ok v)"
  shows "\<exists>p \<in> cand_Pool ` set cs. wf w' \<and> mountedIn w' p \<and> v \<in> set (vols p w') \<and> fv_Name v = n \<and>
    (\<forall>q \<in> Ps. q \<noteq> p \<longrightarrow> vols q w' = vols q w)"
  using assms
proof (induction cs arbitrary: w)
  case (Cons c cs)
  let ?p = "cand_Pool c"
  obtain w1 r1 where w1: "fp_AddVolume ?p n w = (w1, r1)" by (meson surj_pair)
  have p: "?p \<in> Ps" "n \<notin> fv_Name ` set (vols ?p w)" using Cons.prems(2,4) by (auto simp: onPool_def)
  note a = add[OF Cons.prems(1) p(1) Cons.prems(3) p(2) w1]
  show ?case
  proof (cases r1)
    case (Inl e)
    then have same: "vols q w1 = vols q w" if "q \<in> Ps" for q using a that by (cases "q = ?p") auto
    have "addToFirst n cs w1 = (w', Ok v)" using Cons.prems(5) w1 Inl by simp
    moreover have "\<forall>p \<in> Ps. \<not> onPool n p w1" using Cons.prems(4) same by (simp add: onPool_def)
    ultimately obtain p where "p \<in> cand_Pool ` set cs" "wf w'" "mountedIn w' p" "v \<in> set (vols p w')" "fv_Name v = n"
      "\<forall>q \<in> Ps. q \<noteq> p \<longrightarrow> vols q w' = vols q w1"
      using Cons.IH[of w1] a Cons.prems(2,3) by auto
    then show ?thesis using same by (intro bexI[of _ p]) auto
  next
    case (Inr v')
    then have "w' = w1" "v' = v" using Cons.prems(5) w1 by simp_all
    then show ?thesis using a Inr p(1) by (intro bexI[of _ ?p]) auto
  qed
qed simp

lemma create_quota:
  assumes "sortsPools H" and "sortsCandidates H" and "wf w" and "volumePools H m \<subseteq> Ps" and "plain n"
    and "\<forall>p \<in> Ps. \<not> onPool n p w" and "createSubvolWithQuota H sz n PolicySSDFirst (m, w) = ((m', w'), Ok v)"
  shows "\<exists>p \<in> volumePools H m. wf w' \<and> volumePools H m' = volumePools H m \<and> mountedIn w' p \<and> v \<in> set (vols p w') \<and>
    fv_Name v = n \<and> (\<exists>u. fv_Usage v w' = Ok u \<and> fu_Size u = sz) \<and> (\<forall>q \<in> Ps. q \<noteq> p \<longrightarrow> vols q w' = vols q w)"
proof -
  obtain m1 ps where ps: "pools H PolicySSDFirst (m, w) = (m1, ps)" by (meson surj_pair)
  note set_ps = pools_set[OF assms(1) ps]
  obtain w1 r1 where check: "checkPools sz ps [] w = (w1, r1)" by (meson surj_pair)
  note keeps = check_keeps[OF assms(3) _ check, unfolded set_ps(1), OF assms(4)]
  from assms(7) ps check obtain cs0 cs w2 where cs: "r1 = Ok cs0" "cs = h_sortCandidates H (\<lambda>a b. cand_Available a > cand_Available b) cs0"
    and add: "addToFirst n cs w1 = (w2, Ok v)" and lim: "fv_Limit v sz w2 = (w', Ok ())" and "m' = m1"
    by (auto simp: createSubvolWithQuota_def createSubvol_def findCandidates_def checkForCandidates_def rmap_Ok_iff
      split: sum.splits prod.splits if_splits)
  have "mset cs = mset cs0" using assms(2)[unfolded sortsCandidates_def, rule_format, of cs0] cs(2) by blast
  then have "set cs = set cs0" by (rule mset_eq_setD)
  then have sub: "cand_Pool ` set cs \<subseteq> volumePools H m" using keeps cs(1) by simp
  have "\<forall>p \<in> Ps. \<not> onPool n p w1" using keeps assms(6) by (simp add: onPool_def)
  from add_first[OF conjunct1[OF keeps] subset_trans[OF sub assms(4)] assms(5) this add] sub
  obtain p where p: "p \<in> volumePools H m" "wf w2" "mountedIn w2 p" "v \<in> set (vols p w2)" "fv_Name v = n"
    "\<forall>q \<in> Ps. q \<noteq> p \<longrightarrow> vols q w2 = vols q w1" by blast
  with assms(4) have "p \<in> Ps" by blast
  note l = limit[OF p(2) this p(3,4) lim]
  show ?thesis
    using p l keeps set_ps(2) \<open>m' = m1\<close> \<open>p \<in> Ps\<close> by (intro bexI[OF _ p(1)]) auto
qed

text \<open>Where a new volume is: on one pool, with the quota that was asked for.\<close>

definition holds :: "'w Host \<Rightarrow> 'w Module \<Rightarrow> string \<Rightarrow> Unit \<Rightarrow> VolumeInfo \<Rightarrow> 'w \<Rightarrow> bool" where
  "holds H m n sz info w \<longleftrightarrow> wf w \<and> (\<exists>p v u. p \<in> volumePools H m \<and> mountedIn w p \<and> v \<in> set (vols p w) \<and> fv_Name v = n \<and>
     fv_Usage v w = Ok u \<and> fu_Size u = sz \<and> info = reportVolume v u \<and> (\<forall>q \<in> Ps. onPool n q w \<longrightarrow> q = p))"

lemma create_holds:
  assumes "sortsPools H" and "sortsCandidates H" and "wf w" and "volumePools H m \<subseteq> Ps" and "plain n"
    and "\<forall>p \<in> Ps. \<not> onPool n p w" and "VolumeCreate H n sz (m, w) = ((m', w'), Ok info)"
  shows "holds H m n sz info w' \<and> volumePools H m' = volumePools H m"
proof -
  obtain m1 ps where ps: "pools H PolicySSDFirst (m, w) = (m1, ps)" by (meson surj_pair)
  note set_ps = pools_set[OF assms(1) ps]
  obtain e where e: "findVolume n w ps = Err e" "err_is e ErrNotExist"
    using find_missing[OF assms(3), of ps n] set_ps(1) assms(4,6) by auto
  have prefix: "\<not> HasPrefix n ''zdb''" using assms(7) by (auto simp: VolumeCreate_def split: if_splits)
  have "VolumeLookup H n (m, w) = ((m1, w), Err e)" using ps e(1) by (simp add: VolumeLookup_def module_path_def)
  with assms(7) e(2) prefix obtain v where
    v: "createSubvolWithQuota H sz n PolicySSDFirst (m1, w) = ((m', w'), Ok v)" and info: "rmap (reportVolume v) (fv_Usage v w') = Ok info"
    by (auto simp: VolumeCreate_def split: sum.splits prod.splits)
  have "volumePools H m1 \<subseteq> Ps" using set_ps(2) assms(4) by simp
  from create_quota[OF assms(1-3) this assms(5,6) v] obtain p u where p: "p \<in> volumePools H m1" "wf w'"
    "volumePools H m' = volumePools H m1" "mountedIn w' p" "v \<in> set (vols p w')" "fv_Name v = n" "fv_Usage v w' = Ok u" "fu_Size u = sz"
    "\<forall>q \<in> Ps. q \<noteq> p \<longrightarrow> vols q w' = vols q w" by blast
  have "\<forall>q \<in> Ps. onPool n q w' \<longrightarrow> q = p" using p(9) assms(6) unfolding onPool_def by metis
  with p info set_ps(2) show ?thesis unfolding holds_def by auto
qed

lemma holds_lookup:
  assumes "sortsPools H" and "volumePools H m \<subseteq> Ps" and "holds H m n sz info w"
  shows "\<exists>m'. VolumeLookup H n (m, w) = ((m', w), Ok info) \<and> vi_Name info = n \<and> us_Size (vi_Usage info) = sz \<and>
    volumePools H m' = volumePools H m"
proof -
  obtain m2 ps where ps: "pools H PolicySSDFirst (m, w) = (m2, ps)" by (meson surj_pair)
  note set_ps = pools_set[OF assms(1) ps]
  obtain p v u where p: "wf w" "p \<in> volumePools H m" "mountedIn w p" "v \<in> set (vols p w)" "fv_Name v = n" "fv_Usage v w = Ok u"
    "fu_Size u = sz" "info = reportVolume v u" "\<forall>q \<in> Ps. onPool n q w \<longrightarrow> q = p" using assms(3) unfolding holds_def by blast
  have "findVolume n w ps = Ok (p, v, reportVolume v u)"
    using set_ps(1) assms(2) p by (intro find_present[OF p(1) _ _ p(3-6)]) auto
  then show ?thesis using ps p(5,7,8) set_ps(2) by (simp add: VolumeLookup_def module_path_def reportVolume_def reportUsage_def)
qed

lemma holds_unique: "holds H m n sz info w \<Longrightarrow> p \<in> Ps \<Longrightarrow> q \<in> Ps \<Longrightarrow> onPool n p w \<Longrightarrow> onPool n q w \<Longrightarrow> p = q"
  unfolding holds_def by metis

lemma holds_module: "volumePools H m' = volumePools H m \<Longrightarrow> holds H m' = holds H m"
  by (simp add: holds_def fun_eq_iff)

lemma create_lookup:
  assumes "sortsPools H" and "sortsCandidates H" and "wf w" and "volumePools H m \<subseteq> Ps" and "plain n"
    and "\<forall>p \<in> Ps. \<not> onPool n p w" and "VolumeCreate H n sz (m, w) = ((m', w'), Ok info)"
  shows "\<exists>m''. VolumeLookup H n (m', w') = ((m'', w'), Ok info) \<and> vi_Name info = n \<and> us_Size (vi_Usage info) = sz"
proof -
  note c = create_holds[OF assms]
  with assms(4) have "volumePools H m' \<subseteq> Ps" "holds H m' n sz info w'" using holds_module[of H m' m] by simp_all
  from holds_lookup[OF assms(1) this] show ?thesis by blast
qed

subsection \<open>Deleting volumes\<close>

lemma delete_forgets:
  assumes "wf w" and "set ps \<subseteq> Ps" and "deleteVolume n ps w = (w', Ok ())"
    and "\<And>p q. p \<in> Ps \<Longrightarrow> q \<in> Ps \<Longrightarrow> onPool n p w \<Longrightarrow> onPool n q w \<Longrightarrow> p = q"
  shows "wf w' \<and> (\<forall>p \<in> Ps. mountedIn w' p \<longrightarrow> mountedIn w p) \<and>
    (w' = w \<and> (\<forall>p \<in> set ps. mountedIn w p \<longrightarrow> \<not> onPool n p w) \<or> (\<forall>p \<in> Ps. \<not> onPool n p w'))"
  using assms(2,3)
proof (induction ps)
  case (Cons p ps)
  have sub: "p \<in> Ps" "set ps \<subseteq> Ps" using Cons.prems(1) by simp_all
  show ?case
  proof (cases "mountedIn w p \<and> onPool n p w")
    case True
    then obtain v where v: "find (\<lambda>vol. fv_Name vol = n) (vols p w) = Some v" "fv_Name v = n"
      by (cases "find (\<lambda>vol. fv_Name vol = n) (vols p w)") (auto simp: onPool_def find_None_iff find_Some_iff)
    let ?only = "length (vols p w) = 1"
    have del: "removeFrom p n ?only w = (w', Ok ())"
      using Cons.prems(2) True v volumes[OF assms(1) sub(1)] by (auto simp: mountedIn_def)
    obtain w1 r1 where w1: "fp_RemoveVolume p n w = (w1, r1)" by (meson surj_pair)
    have on: "n \<in> fv_Name ` set (vols p w)" using True by (simp add: onPool_def)
    note r = remove[OF assms(1) sub(1) conjunct1[OF True] on w1]
    obtain w2 r2 where w2: "fp_UnMount p w1 = (w2, r2)" by (meson surj_pair)
    note u = unmount[OF conjunct1[OF r] sub(1) w2]
    obtain w3 r3 where w3: "fp_Shutdown p w2 = (w3, r3)" by (meson surj_pair)
    note s = shutdown[OF conjunct1[OF u] sub(1) w3]
    have r1: "is_ok r1" and w': "w' = (if ?only then w3 else w1)" and r2: "?only \<Longrightarrow> is_ok r2"
      using del w1 w2 w3 by (auto simp: removeFrom_def split: sum.splits if_splits)
    have "vols q w' = vols q w1" if "q \<in> Ps" for q using that u s by (simp add: w')
    moreover have "\<not> onPool n q w1" if "q \<in> Ps" for q
      using r r1 that assms(4)[OF that sub(1)] True by (cases "q = p") (auto simp: onPool_def)
    moreover have "mountedIn w q" if "q \<in> Ps" "mountedIn w' q" for q
      using that r u s r2 by (cases "q = p") (auto simp: w' split: if_splits)
    moreover have "wf w'" using u s r by (simp add: w')
    ultimately show ?thesis by (simp add: onPool_def)
  next
    case False
    have rest: "deleteVolume n ps w = (w', Ok ())"
    proof (cases "mountedIn w p")
      case True
      then have "find (\<lambda>vol. fv_Name vol = n) (vols p w) = None" using False by (auto simp: onPool_def find_None_iff)
      then show ?thesis using Cons.prems(2) True volumes[OF assms(1) sub(1) True] by (simp add: mountedIn_def)
    qed (use Cons.prems(2) in \<open>simp add: mountedIn_def\<close>)
    show ?thesis using Cons.IH[OF sub(2) rest] False by auto
  qed
qed (use assms(1) in simp)

lemma delete_lookup:
  assumes "sortsPools H" and "wf w" and "volumePools H m \<subseteq> Ps"
    and "\<And>p q. p \<in> Ps \<Longrightarrow> q \<in> Ps \<Longrightarrow> onPool n p w \<Longrightarrow> onPool n q w \<Longrightarrow> p = q"
    and "VolumeDelete H n (m, w) = ((m', w'), Ok ())"
  shows "\<exists>m'' e. VolumeLookup H n (m', w') = ((m'', w'), Err e) \<and> err_is e ErrNotExist"
proof -
  obtain m1 ps where ps: "pools H PolicySSDFirst (m, w) = (m1, ps)" by (meson surj_pair)
  note set_ps = pools_set[OF assms(1) ps]
  have del: "deleteVolume n ps w = (w', Ok ())" "m' = m1" using assms(5) ps by (auto simp: VolumeDelete_def split: prod.splits)
  have "set ps \<subseteq> Ps" using set_ps(1) assms(3) by simp
  note d = delete_forgets[OF assms(2) this del(1) assms(4)]
  obtain m2 ps2 where ps2: "pools H PolicySSDFirst (m', w') = (m2, ps2)" by (meson surj_pair)
  note set_ps2 = pools_set[OF assms(1) ps2]
  have sub: "set ps2 = set ps" "set ps2 \<subseteq> Ps" using set_ps2(1) set_ps del(2) assms(3) by simp_all
  have "\<not> onPool n p w'" if "p \<in> set ps2" "mountedIn w' p" for p using d that sub by auto
  from find_missing[OF conjunct1[OF d] sub(2) this] ps2 show ?thesis by (auto simp: VolumeLookup_def module_path_def)
qed

subsection \<open>Unused disks\<close>

lemma shutdown_unused:
  assumes "wf w" and "set ps \<subseteq> Ps" and "distinct ps" and "shutdownUnused vm ps w = (w', Ok ())"
  shows "wf w' \<and> (\<forall>q \<in> Ps. vols q w' = vols q w) \<and>
    (\<forall>q \<in> Ps. mountedIn w' q \<longleftrightarrow> mountedIn w q \<and> (q \<in> set ps \<longrightarrow> vols q w \<noteq> []))"
  using assms
proof (induction ps arbitrary: w)
  case (Cons p ps)
  have p: "p \<in> Ps" "set ps \<subseteq> Ps" "p \<notin> set ps" "distinct ps" using Cons.prems(2,3) by simp_all
  obtain w1 r1 where w1: "fp_UnMount p w = (w1, r1)" by (meson surj_pair)
  note u = unmount[OF Cons.prems(1) p(1) w1]
  have off: "wf (fst (fp_Shutdown p x)) \<and> (\<forall>q \<in> Ps. vols q (fst (fp_Shutdown p x)) = vols q x) \<and>
      (\<forall>q \<in> Ps. mountedIn (fst (fp_Shutdown p x)) q = mountedIn x q)" if "wf x" for x
    using shutdown[OF that p(1)] by (metis prod.collapse)
  have step: ?case if "shutdownUnused vm ps x = (w', Ok ())" "wf x" "\<forall>q \<in> Ps. vols q x = vols q w"
      "\<forall>q \<in> Ps. mountedIn x q \<longleftrightarrow> mountedIn w q \<and> (q = p \<longrightarrow> vols q w \<noteq> [])" for x
    using Cons.IH[OF that(2) p(2,4) that(1)] that(3,4) p(3) by auto
  show ?case
  proof (cases "mountedIn w p \<and> vols p w \<noteq> []")
    case True
    then show ?thesis using step[of w] Cons.prems(1,4) volumes[OF Cons.prems(1) p(1)] by (auto simp: mountedIn_def)
  next
    case False
    let ?x = "if mountedIn w p then w1 else w"
    have x: "wf ?x \<and> (\<forall>q \<in> Ps. vols q ?x = vols q w)" using u Cons.prems(1) by simp
    have r1: "mountedIn w p \<Longrightarrow> is_ok r1" and run: "shutdownUnused vm ps (if vm then ?x else fst (fp_Shutdown p ?x)) = (w', Ok ())"
      using Cons.prems(4) False volumes[OF Cons.prems(1) p(1)] w1 by (auto simp: mountedIn_def Let_def split: sum.splits if_splits)
    have m: "\<forall>q \<in> Ps. mountedIn ?x q \<longleftrightarrow> mountedIn w q \<and> (q = p \<longrightarrow> vols q w \<noteq> [])"
      using u r1 False p(1) by auto
    show ?thesis by (rule step[OF run]) (use off[OF conjunct1[OF x]] x m in simp_all)
  qed
qed simp

end

end
