(* ===== verification/BtrfsNode.thy ===== *)
theory BtrfsNode
  imports BtrfsPool PoolLaws
begin

text \<open>
  The pools on btrfs meet what the storage module relies on (\<open>node_pools\<close>), for a node whose
  commands do what btrfs documents: this is the locale \<open>btrfs_node\<close>. A simulated node that
  answers the commands with text meets it.
\<close>

section \<open>What btrfs does\<close>

text \<open>
  \<open>mnt d w\<close>: the disk is mounted, at the path of its pool. \<open>subs d w\<close>: its subvolumes with their
  identifiers; \<open>lim d w i\<close>: the limit of the quota group of a subvolume, 0 when it has none.
\<close>

definition poolPath :: "DeviceInfo \<Rightarrow> string" where
  "poolPath d = btrfs_Path (di_Label d)"

definition volumePath :: "DeviceInfo \<Rightarrow> string \<Rightarrow> string" where
  "volumePath d n = Join [poolPath d, n]"

definition plainName :: "string \<Rightarrow> bool" where
  "plainName n \<longleftrightarrow> element n \<and> (\<forall>c \<in> set n. \<not> is_space c)"

lemma pool_paths:
  assumes "element (di_Label d)"
  shows "poolPath d = abspath [''mnt'', di_Label d]" "poolPath d \<noteq> []"
    "element n \<Longrightarrow> volumePath d n = abspath [''mnt'', di_Label d, n]" "element n \<Longrightarrow> Base (volumePath d n) = n"
proof -
  have mnt: "''/mnt'' = abspath [''mnt'']" "element ''mnt''" by (simp_all add: abspath_def element_def slash_def)
  show p: "poolPath d = abspath [''mnt'', di_Label d]"
    using Join_element[of "[''mnt'']" "di_Label d"] assms mnt by (simp add: poolPath_def btrfs_Path_def)
  then show "poolPath d \<noteq> []" by (simp add: abspath_def)
  assume "element n"
  then show v: "volumePath d n = abspath [''mnt'', di_Label d, n]"
    using Join_element[of "[''mnt'', di_Label d]" n] assms mnt p by (simp add: volumePath_def)
  show "Base (volumePath d n) = n" using Base_abspath[OF \<open>element n\<close>, of "[''mnt'', di_Label d]"] v by simp
qed

text \<open>Nothing changed, but for the disks in \<open>C\<close>.\<close>

definition sameBut :: "DeviceInfo set \<Rightarrow> ('w \<Rightarrow> bool) \<Rightarrow> (DeviceInfo \<Rightarrow> 'w \<Rightarrow> bool) \<Rightarrow> (DeviceInfo \<Rightarrow> 'w \<Rightarrow> (string \<times> nat) list)
    \<Rightarrow> (DeviceInfo \<Rightarrow> 'w \<Rightarrow> nat \<Rightarrow> u64) \<Rightarrow> DeviceInfo set \<Rightarrow> 'w \<Rightarrow> 'w \<Rightarrow> bool" where
  "sameBut D good mnt subs lim C w w' \<longleftrightarrow> good w' \<and> (\<forall>d \<in> D - C. mnt d w' = mnt d w \<and> subs d w' = subs d w \<and> lim d w' = lim d w)"

locale btrfs_node =
  fixes N :: "'w Node" and D :: "DeviceInfo set" and good :: "'w \<Rightarrow> bool" and mnt :: "DeviceInfo \<Rightarrow> 'w \<Rightarrow> bool"
    and subs :: "DeviceInfo \<Rightarrow> 'w \<Rightarrow> (string \<times> nat) list" and lim :: "DeviceInfo \<Rightarrow> 'w \<Rightarrow> nat \<Rightarrow> u64"
  assumes label: "d \<in> D \<Longrightarrow> element (di_Label d)"
    and subvolumes: "good w \<Longrightarrow> d \<in> D \<Longrightarrow> distinct (map fst (subs d w)) \<and> distinct (map snd (subs d w)) \<and>
      (\<forall>(n, i) \<in> set (subs d w). plainName n)"
    and mountpoint: "good w \<Longrightarrow> d \<in> D \<Longrightarrow> Mountpoint N (di_Path d) w = Ok (if mnt d w then poolPath d else [])"
    and list: "good w \<Longrightarrow> d \<in> D \<Longrightarrow> mnt d w \<Longrightarrow> \<exists>vs.
      nd_query N ''btrfs'' [''subvolume'', ''list'', ''-o'', poolPath d] w = Ok (concat (map (\<lambda>v. printSubvol v @ [newline]) vs)) \<and>
      (\<forall>v \<in> set vs. printable v) \<and> map (\<lambda>v. (bv_Path v, bv_ID v)) vs = map (\<lambda>(n, i). (n, int i)) (subs d w)"
    and info: "good w \<Longrightarrow> d \<in> D \<Longrightarrow> mnt d w \<Longrightarrow> (n, i) \<in> set (subs d w) \<Longrightarrow> \<exists>out v.
      nd_query N ''btrfs'' [''subvolume'', ''show'', volumePath d n] w = Ok out \<and> parseSubvolInfo out = Ok v \<and> bv_ID v = int i"
    and qgroups: "good w \<Longrightarrow> d \<in> D \<Longrightarrow> mnt d w \<Longrightarrow> path = poolPath d \<or> path \<in> volumePath d ` fst ` set (subs d w) \<Longrightarrow> \<exists>hs lines.
      nd_query N ''btrfs'' [''qgroup'', ''show'', ''-re'', ''--raw'', path] w =
        Ok (concat (map (\<lambda>h. h @ [newline]) hs) @ concat (map (\<lambda>(pads, q). printQGroup pads q @ [newline]) lines)) \<and>
      (\<forall>h \<in> set hs. newline \<notin> set h \<and> (h = [] \<or> \<not> is_digit (hd h))) \<and> (\<forall>pq \<in> set lines. qgroupLine pq) \<and>
      distinct (map (qg_ID \<circ> snd) lines) \<and>
      (\<forall>(n, i) \<in> set (subs d w). \<exists>pads q. (pads, q) \<in> set lines \<and> qg_ID q = qgroupID (int i) \<and> qg_MaxRfer q = lim d w i)"
    and walk: "good w \<Longrightarrow> d \<in> D \<Longrightarrow> mnt d w \<Longrightarrow> n \<in> fst ` set (subs d w) \<Longrightarrow> is_ok (nd_Walk N (volumePath d n) w)"
    and mkdir: "good w \<Longrightarrow> d \<in> D \<Longrightarrow> nd_MkdirAll N (poolPath d) w = (w', r) \<Longrightarrow> sameBut D good mnt subs lim {} w w'"
    and domount: "good w \<Longrightarrow> d \<in> D \<Longrightarrow> nd_Mount N (di_Path d) (poolPath d) w = (w', r) \<Longrightarrow>
      sameBut D good mnt subs lim {d} w w' \<and> subs d w' = subs d w \<and> lim d w' = lim d w \<and> (is_ok r \<longrightarrow> mnt d w')"
    and dounmount: "good w \<Longrightarrow> d \<in> D \<Longrightarrow> mnt d w \<Longrightarrow> nd_Unmount N (poolPath d) w = (w', r) \<Longrightarrow>
      sameBut D good mnt subs lim {d} w w' \<and> subs d w' = subs d w \<and> lim d w' = lim d w \<and> (is_ok r \<longrightarrow> \<not> mnt d w')"
    and enable: "good w \<Longrightarrow> d \<in> D \<Longrightarrow> nd_run N ''btrfs'' [''quota'', ''enable'', poolPath d] w = (w', rs) \<Longrightarrow>
      sameBut D good mnt subs lim {} w w'"
    and poweroff: "good w \<Longrightarrow> d \<in> D \<Longrightarrow> nd_run N ''hdparm'' [''-y'', di_Path d] w = (w', rs) \<Longrightarrow> sameBut D good mnt subs lim {} w w'"
    and destroy: "good w \<Longrightarrow> d \<in> D \<Longrightarrow> (\<forall>(n, i) \<in> set (subs d w). x \<noteq> qgroupID (int i)) \<Longrightarrow>
      nd_run N ''btrfs'' [''qgroup'', ''destroy'', x, poolPath d] w = (w', rs) \<Longrightarrow> sameBut D good mnt subs lim {} w w'"
    and create: "good w \<Longrightarrow> d \<in> D \<Longrightarrow> mnt d w \<Longrightarrow> plainName n \<Longrightarrow> n \<notin> fst ` set (subs d w) \<Longrightarrow>
      nd_run N ''btrfs'' [''subvolume'', ''create'', volumePath d n] w = (w', rs) \<Longrightarrow>
      sameBut D good mnt subs lim {d} w w' \<and> mnt d w' = mnt d w \<and> (\<not> is_ok rs \<longrightarrow> subs d w' = subs d w) \<and>
      (is_ok rs \<longrightarrow> (\<exists>i. subs d w' = subs d w @ [(n, i)]))"
    and delete: "good w \<Longrightarrow> d \<in> D \<Longrightarrow> mnt d w \<Longrightarrow> n \<in> fst ` set (subs d w) \<Longrightarrow>
      nd_run N ''btrfs'' [''subvolume'', ''delete'', volumePath d n] w = (w', rs) \<Longrightarrow>
      sameBut D good mnt subs lim {d} w w' \<and> mnt d w' = mnt d w \<and>
      (is_ok rs \<longrightarrow> subs d w' = filter (\<lambda>(m, i). m \<noteq> n) (subs d w))"
    and setlimit: "good w \<Longrightarrow> d \<in> D \<Longrightarrow> mnt d w \<Longrightarrow> (n, i) \<in> set (subs d w) \<Longrightarrow>
      nd_run N ''btrfs'' [''qgroup'', ''limit'', if s > 0 then dec (unat s) else ''none'', volumePath d n] w = (w', rs) \<Longrightarrow>
      sameBut D good mnt subs lim {d} w w' \<and> mnt d w' = mnt d w \<and> subs d w' = subs d w \<and>
      (is_ok rs \<longrightarrow> lim d w' i = s)"
    and order: "set (nd_order N xs) = set xs"
begin

definition pool :: "DeviceInfo \<Rightarrow> 'w FsPool" where
  "pool d = btrfsPool N d (di_Label d)"

definition volume :: "DeviceInfo \<Rightarrow> string \<times> nat \<Rightarrow> 'w FsVolume" where
  "volume d ni = newBtrfsVolume N (int (snd ni)) (volumePath d (fst ni))"

definition volsOf :: "'w FsPool \<Rightarrow> 'w \<Rightarrow> 'w FsVolume list" where
  "volsOf p w = map (volume (fp_Device p)) (subs (fp_Device p) w)"

abbreviation same :: "DeviceInfo set \<Rightarrow> 'w \<Rightarrow> 'w \<Rightarrow> bool" where
  "same \<equiv> sameBut D good mnt subs lim"

lemma pool_simps [simp]: "fp_Device (pool d) = d" "pool d = pool d' \<longleftrightarrow> d = d'"
proof -
  show dev: "fp_Device (pool d) = d" for d by (simp add: pool_def btrfsPool_def)
  show "pool d = pool d' \<longleftrightarrow> d = d'" by (metis dev)
qed

lemmas paths = pool_paths[OF label]

lemma mounted_eq:
  assumes "good w" and "d \<in> D"
  shows "btrfs_Mounted N d w = (if mnt d w then Ok (poolPath d) else Err ErrDeviceNotMounted)"
  using mountpoint[OF assms] paths(2)[OF assms(2)] by (simp add: btrfs_Mounted_def)

lemma mounted_pool: "good w \<Longrightarrow> d \<in> D \<Longrightarrow> mountedIn w (pool d) = mnt d w"
  by (simp add: mountedIn_def pool_def btrfsPool_def mounted_eq)

lemma volumes_eq:
  assumes "good w" and "d \<in> D" and "mnt d w"
  shows "btrfs_Volumes N d w = Ok (volsOf (pool d) w)"
proof -
  from list[OF assms] obtain vs where vs:
    "nd_query N ''btrfs'' [''subvolume'', ''list'', ''-o'', poolPath d] w = Ok (concat (map (\<lambda>v. printSubvol v @ [newline]) vs))"
    "\<forall>v \<in> set vs. printable v" "map (\<lambda>v. (bv_Path v, bv_ID v)) vs = map (\<lambda>(n, i). (n, int i)) (subs d w)" by blast
  have "map (\<lambda>sub. newBtrfsVolume N (bv_ID sub) (Join [poolPath d, bv_Path sub])) vs =
      map (\<lambda>(n, i). newBtrfsVolume N i (Join [poolPath d, n])) (map (\<lambda>v. (bv_Path v, bv_ID v)) vs)" by simp
  also have "\<dots> = volsOf (pool d) w" unfolding vs(3) by (simp add: volsOf_def volume_def volumePath_def split_def)
  finally show ?thesis
    using assms vs(1) parse_subvol_list[OF vs(2)] by (simp add: btrfs_Volumes_def mounted_eq SubvolumeList_def)
qed

lemma info_eq:
  assumes "good w" and "d \<in> D" and "mnt d w" and "(n, i) \<in> set (subs d w)"
  shows "\<exists>v. SubvolumeInfo N (volumePath d n) w = Ok v \<and> bv_ID v = int i"
  using info[OF assms] by (auto simp: SubvolumeInfo_def)

lemma usage_eq:
  assumes "good w" and "d \<in> D" and "mnt d w" and "(n, i) \<in> set (subs d w)"
  shows "\<exists>u. fv_Usage (volume d (n, i)) w = Ok u \<and> fu_Size u = lim d w i"
proof -
  from info_eq[OF assms] obtain v where v: "SubvolumeInfo N (volumePath d n) w = Ok v" "bv_ID v = int i" by blast
  have "volumePath d n \<in> volumePath d ` fst ` set (subs d w)" using assms(4) by force
  from qgroups[OF assms(1-3) disjI2[OF this]] obtain hs lines where q:
    "nd_query N ''btrfs'' [''qgroup'', ''show'', ''-re'', ''--raw'', volumePath d n] w =
        Ok (concat (map (\<lambda>h. h @ [newline]) hs) @ concat (map (\<lambda>(pads, q). printQGroup pads q @ [newline]) lines))"
    "\<forall>h \<in> set hs. newline \<notin> set h \<and> (h = [] \<or> \<not> is_digit (hd h))" "\<forall>pq \<in> set lines. qgroupLine pq"
    "distinct (map (qg_ID \<circ> snd) lines)"
    "\<forall>(n, i) \<in> set (subs d w). \<exists>pads q. (pads, q) \<in> set lines \<and> qg_ID q = qgroupID (int i) \<and> qg_MaxRfer q = lim d w i" by blast
  from q(5) assms(4) obtain pads g where g: "(pads, g) \<in> set lines" "qg_ID g = qgroupID (int i)" "qg_MaxRfer g = lim d w i" by fastforce
  have "QGroupList N (volumePath d n) w = Ok (map_of (map (\<lambda>(pads, q). (qg_ID q, q)) lines))"
    using q(1) parse_qgroups[OF q(2-4)] by (simp add: QGroupList_def showQGroups_def)
  moreover have "map_of (map (\<lambda>(pads, q). (qg_ID q, q)) lines) (qgroupID (int i)) = Some g"
  proof (rule map_of_is_SomeI)
    show "distinct (map fst (map (\<lambda>(pads, q). (qg_ID q, q)) lines))" using q(4) by (simp add: comp_def split_def)
    show "(qgroupID (int i), g) \<in> set (map (\<lambda>(pads, q). (qg_ID q, q)) lines)" using g(1,2) by force
  qed
  moreover have "is_ok (volumeUsage N (volumePath d n) w)"
  proof -
    have "is_ok (FilesUsage N (volumePath d n) w)"
      using walk[OF assms(1-3), of n] assms(4) by (force simp: FilesUsage_def is_ok_iff)
    then show ?thesis by (auto simp: volumeUsage_def split: sum.split)
  qed
  ultimately show ?thesis
    using v g(3) by (auto simp: volume_def newBtrfsVolume_def btrfsVolume_Usage_def is_ok_iff)
qed

lemma same_trans: "same C w w1 \<Longrightarrow> same C' w1 w2 \<Longrightarrow> C \<subseteq> C'' \<Longrightarrow> C' \<subseteq> C'' \<Longrightarrow> same C'' w w2"
proof -
  assume a: "same C w w1" "same C' w1 w2" "C \<subseteq> C''" "C' \<subseteq> C''"
  have "mnt d w2 = mnt d w \<and> subs d w2 = subs d w \<and> lim d w2 = lim d w" if "d \<in> D - C''" for d
  proof -
    have "d \<in> D - C" "d \<in> D - C'" using that a(3,4) by auto
    then show ?thesis using a(1,2) by (simp add: sameBut_def)
  qed
  then show ?thesis using a(2) by (simp add: sameBut_def)
qed

lemma same_vols: "same {} w w' \<Longrightarrow> d \<in> D \<Longrightarrow> volsOf (pool d) w' = volsOf (pool d) w \<and> mnt d w' = mnt d w \<and> subs d w' = subs d w"
  by (auto simp: sameBut_def volsOf_def)

lemma destroy_all:
  assumes "good w" and "d \<in> D" and "\<forall>x \<in> set xs. \<forall>(n, i) \<in> set (subs d w). x \<noteq> qgroupID (int i)"
  shows "same {} w (fold (\<lambda>i w. fst (QGroupDestroy N i (poolPath d) w)) xs w)"
  using assms(1,3)
proof (induction xs arbitrary: w)
  case (Cons x xs)
  obtain w1 r where w1: "nd_run N ''btrfs'' [''qgroup'', ''destroy'', x, poolPath d] w = (w1, r)" by (meson surj_pair)
  have s: "same {} w w1" by (rule destroy[OF Cons.prems(1) assms(2) _ w1]) (use Cons.prems(2) in auto)
  then have "same {} w1 (fold (\<lambda>i w. fst (QGroupDestroy N i (poolPath d) w)) xs w1)"
    using Cons.IH[of w1] Cons.prems(2) same_vols[OF s assms(2)] by (simp add: sameBut_def)
  from same_trans[OF s this] w1 show ?case by (simp add: QGroupDestroy_def runUnit_def)
qed (simp add: sameBut_def)

lemma maintenance_keeps:
  assumes "good w" and "d \<in> D" and "mnt d w" and "maintenance N d (di_Label d) w = (w', r)"
  shows "same {} w w'"
proof -
  let ?ids = "map (qgroupID \<circ> fv_ID) (volsOf (pool d) w)"
  from qgroups[OF assms(1-3) disjI1[OF refl]] obtain out where
    out: "nd_query N ''btrfs'' [''qgroup'', ''show'', ''-re'', ''--raw'', poolPath d] w = Ok out" by blast
  have ids: "set ?ids = qgroupID ` int ` snd ` set (subs d w)"
    by (force simp: volsOf_def volume_def newBtrfsVolume_def)
  let ?xs = "filter (\<lambda>i. i \<notin> set ?ids) (nd_order N (remdups (map fst (findQGroups out))))"
  have "w' = fold (\<lambda>i w. fst (QGroupDestroy N i (poolPath d) w)) ?xs w"
    using assms(4) out volumes_eq[OF assms(1-3)] unfolding maintenance_def by (simp add: showQGroups_def poolPath_def)
  moreover have "\<forall>x \<in> set ?xs. \<forall>(n, i) \<in> set (subs d w). x \<noteq> qgroupID (int i)" unfolding ids by force
  ultimately show ?thesis using destroy_all[OF assms(1,2)] by blast
qed

lemma mount_law:
  assumes "good w" and "d \<in> D" and "btrfs_Mount N d (di_Label d) w = (w', r)"
  shows "same {d} w w' \<and> subs d w' = subs d w \<and> (is_ok r \<longrightarrow> mnt d w')"
proof (cases "mnt d w")
  case True
  then show ?thesis using assms by (auto simp: btrfs_Mount_def mounted_eq sameBut_def)
next
  case False
  obtain w1 r1 where w1: "nd_MkdirAll N (poolPath d) w = (w1, r1)" by (meson surj_pair)
  note s1 = mkdir[OF assms(1,2) w1]
  have g1: "good w1" using s1 by (simp add: sameBut_def)
  obtain w2 r2 where w2: "nd_Mount N (di_Path d) (poolPath d) w1 = (w2, r2)" by (meson surj_pair)
  note s2 = domount[OF g1 assms(2) w2]
  have g2: "good w2" using s2 by (simp add: sameBut_def)
  obtain w3 r3 where w3: "nd_run N ''btrfs'' [''quota'', ''enable'', poolPath d] w2 = (w3, r3)" by (meson surj_pair)
  note s3 = enable[OF g2 assms(2) w3]
  have g3: "good w3" using s3 by (simp add: sameBut_def)
  obtain w4 r4 where w4: "maintenance N d (di_Label d) w3 = (w4, r4)" by (meson surj_pair)
  have m3: "is_ok r2 \<Longrightarrow> mnt d w3" using s2 same_vols[OF s3 assms(2)] by simp
  have s4: "is_ok r2 \<Longrightarrow> same {} w3 w4" using maintenance_keeps[OF g3 assms(2) _ w4] m3 by simp
  have w12: "same {d} w w2" using same_trans[OF s1 conjunct1[OF s2], of "{d}"] by simp
  have w13: "same {d} w w3" using same_trans[OF w12 s3, of "{d}"] by simp
  have w14: "is_ok r2 \<Longrightarrow> same {d} w w4" using same_trans[OF w13 s4, of "{d}"] by simp
  have w11: "same {d} w w1" using s1 by (simp add: sameBut_def)
  have sub: "subs d w1 = subs d w" "subs d w2 = subs d w" "subs d w3 = subs d w" "is_ok r2 \<Longrightarrow> subs d w4 = subs d w \<and> mnt d w4"
    using same_vols[OF s1 assms(2)] s2 same_vols[OF s3 assms(2)] same_vols[OF s4 assms(2)] m3 by simp_all
  show ?thesis
    using assms(3) False w1 w2 w3 w4 w11 w12 w13 w14 sub
    by (auto simp: btrfs_Mount_def mounted_eq[OF assms(1,2)] poolPath_def[symmetric] QGroupEnable_def runUnit_def Let_def
      split: sum.splits)
qed

lemma add_law:
  assumes "good w" and "d \<in> D" and "plainName n" and "n \<notin> fst ` set (subs d w)" and "btrfs_AddVolume N d n w = (w', r)"
  shows "same {d} w w' \<and> mnt d w' = mnt d w \<and> (\<forall>e. r = Err e \<longrightarrow> subs d w' = subs d w) \<and>
    (\<forall>v. r = Ok v \<longrightarrow> mnt d w \<and> fv_Name v = n \<and> (\<exists>i. subs d w' = subs d w @ [(n, i)] \<and> v = volume d (n, i)))"
proof (cases "mnt d w")
  case False
  then show ?thesis using assms by (auto simp: btrfs_AddVolume_def mounted_eq sameBut_def)
next
  case True
  obtain w1 rs where w1: "nd_run N ''btrfs'' [''subvolume'', ''create'', volumePath d n] w = (w1, rs)" by (meson surj_pair)
  note c = create[OF assms(1,2) True assms(3,4) w1]
  have add: "addVolume N (volumePath d n) w = (w', r)"
    using assms(5) True by (simp add: btrfs_AddVolume_def mounted_eq[OF assms(1,2)] volumePath_def)
  show ?thesis
  proof (cases rs)
    case (Inl e)
    then have "w' = w1" "r = Err e" using add w1 by (auto simp: addVolume_def SubvolumeAdd_def runUnit_def)
    then show ?thesis using c Inl by simp
  next
    case (Inr out)
    then obtain i where i: "subs d w1 = subs d w @ [(n, i)]" using c by auto
    have "good w1" "mnt d w1" "(n, i) \<in> set (subs d w1)" using c True i by (simp_all add: sameBut_def)
    from info_eq[OF this(1) assms(2) this(2,3)] obtain v where v: "SubvolumeInfo N (volumePath d n) w1 = Ok v" "bv_ID v = int i" by blast
    have "w' = w1" "r = Ok (volume d (n, i))"
      using add w1 Inr v by (auto simp: addVolume_def SubvolumeAdd_def runUnit_def volume_def)
    then show ?thesis
      using c Inr i True assms(3) paths(4)[OF assms(2)] by (simp add: volume_def newBtrfsVolume_def plainName_def)
  qed
qed

lemma limit_law:
  assumes "good w" and "d \<in> D" and "mnt d w" and "(n, i) \<in> set (subs d w)" and "fv_Limit (volume d (n, i)) s w = (w', r)"
  shows "same {d} w w' \<and> mnt d w' = mnt d w \<and> subs d w' = subs d w \<and>
    (is_ok r \<longrightarrow> (\<exists>u. fv_Usage (volume d (n, i)) w' = Ok u \<and> fu_Size u = s))"
proof -
  obtain w1 rs where w1: "nd_run N ''btrfs'' [''qgroup'', ''limit'', if s > 0 then dec (unat s) else ''none'', volumePath d n] w = (w1, rs)"
    by (meson surj_pair)
  have "w' = w1" "is_ok r = is_ok rs"
    using assms(5) w1 by (auto simp: volume_def newBtrfsVolume_def QGroupLimit_def runUnit_def rmap_def is_ok_def split: sum.splits)
  moreover note l = setlimit[OF assms(1-4) w1]
  moreover have "is_ok rs \<longrightarrow> (\<exists>u. fv_Usage (volume d (n, i)) w1 = Ok u \<and> fu_Size u = s)"
    using usage_eq[OF _ assms(2), of w1 n i] l assms(3,4) by (auto simp: sameBut_def)
  ultimately show ?thesis by simp
qed

lemma remove_law:
  assumes "good w" and "d \<in> D" and "mnt d w" and "n \<in> fst ` set (subs d w)" and "btrfs_RemoveVolume N d (di_Label d) n w = (w', r)"
  shows "same {d} w w' \<and> mnt d w' = mnt d w \<and> (is_ok r \<longrightarrow> subs d w' = filter (\<lambda>(m, i). m \<noteq> n) (subs d w))"
proof -
  from assms(4) obtain i where i: "(n, i) \<in> set (subs d w)" by force
  from info_eq[OF assms(1-3) i] obtain v where v: "SubvolumeInfo N (volumePath d n) w = Ok v" "bv_ID v = int i" by blast
  obtain w1 rs where w1: "nd_run N ''btrfs'' [''subvolume'', ''delete'', volumePath d n] w = (w1, rs)" by (meson surj_pair)
  note c = delete[OF assms(1-4) w1]
  have rem: "removeVolume N (di_Label d) (volumePath d n) w = (w', r)"
    using assms(3,5) by (simp add: btrfs_RemoveVolume_def mounted_eq[OF assms(1,2)] volumePath_def)
  show ?thesis
  proof (cases rs)
    case (Inl e)
    then have "w' = w1" "r = Err e" using rem w1 v by (auto simp: removeVolume_def SubvolumeRemove_def runUnit_def)
    then show ?thesis using c by simp
  next
    case (Inr out)
    then have subs1: "subs d w1 = filter (\<lambda>(m, i). m \<noteq> n) (subs d w)" using c by simp
    obtain w2 r2 where w2: "nd_run N ''btrfs'' [''qgroup'', ''destroy'', qgroupID (int i), poolPath d] w1 = (w2, r2)" by (meson surj_pair)
    have "distinct (map snd (subs d w))" using subvolumes[OF assms(1,2)] by blast
    then have "inj_on snd (set (subs d w))" by (simp add: distinct_map)
    then have "j \<noteq> i" if "(m, j) \<in> set (subs d w1)" for m j
      using that i subs1 inj_onD[of snd "set (subs d w)" "(m, j)" "(n, i)"] by auto
    then have "\<forall>(m, j) \<in> set (subs d w1). qgroupID (int i) \<noteq> qgroupID (int j)" by (fastforce simp: qgroupID_def dec_int_def)
    then have s2: "same {} w1 w2" using destroy[OF _ assms(2) _ w2] c by (simp add: sameBut_def)
    have "w' = w2" "r = Ok ()"
      using rem w1 w2 v Inr by (auto simp: removeVolume_def SubvolumeRemove_def QGroupDestroy_def runUnit_def poolPath_def)
    then show ?thesis
      using same_trans[OF conjunct1[OF c] s2, of "{d}"] same_vols[OF s2 assms(2)] c subs1 by simp
  qed
qed

lemma same_pools:
  assumes "good w" and "same {d} w w'" and "d \<in> D"
  shows "\<forall>q \<in> pool ` D. q \<noteq> pool d \<longrightarrow> mountedIn w' q = mountedIn w q" "\<forall>q \<in> pool ` D. q \<noteq> pool d \<longrightarrow> volsOf q w' = volsOf q w"
proof -
  have "good w'" using assms(2) by (simp add: sameBut_def)
  then show "\<forall>q \<in> pool ` D. q \<noteq> pool d \<longrightarrow> mountedIn w' q = mountedIn w q"
    using assms by (auto simp: sameBut_def mounted_pool)
  show "\<forall>q \<in> pool ` D. q \<noteq> pool d \<longrightarrow> volsOf q w' = volsOf q w"
    using assms by (auto simp: sameBut_def volsOf_def)
qed

lemma same_all:
  assumes "good w" and "same {d} w w'" and "d \<in> D"
  shows "subs d w' = subs d w \<Longrightarrow> \<forall>q \<in> pool ` D. volsOf q w' = volsOf q w"
    "mnt d w' = mnt d w \<Longrightarrow> \<forall>q \<in> pool ` D. mountedIn w' q = mountedIn w q"
proof -
  have rest: "mnt q w' = mnt q w \<and> subs q w' = subs q w" if "q \<in> D" "q \<noteq> d" for q using assms(2) that by (simp add: sameBut_def)
  assume "subs d w' = subs d w"
  then have "subs q w' = subs q w" if "q \<in> D" for q using rest that by (cases "q = d") auto
  then show "\<forall>q \<in> pool ` D. volsOf q w' = volsOf q w" by (simp add: volsOf_def)
next
  have g: "good w'" using assms(2) by (simp add: sameBut_def)
  have rest: "mnt q w' = mnt q w" if "q \<in> D" "q \<noteq> d" for q using assms(2) that by (simp add: sameBut_def)
  assume "mnt d w' = mnt d w"
  then have "mnt q w' = mnt q w" if "q \<in> D" for q using rest that by (cases "q = d") auto
  then show "\<forall>q \<in> pool ` D. mountedIn w' q = mountedIn w q" using g assms(1) by (simp add: mounted_pool)
qed

lemma vols_names: "d \<in> D \<Longrightarrow> good w \<Longrightarrow> map fv_Name (volsOf (pool d) w) = map fst (subs d w)"
  using subvolumes[of w d] paths(4)[of d] by (auto simp: volsOf_def volume_def newBtrfsVolume_def plainName_def)

lemma vols_filter:
  "d \<in> D \<Longrightarrow> good w \<Longrightarrow> map (volume d) (filter (\<lambda>(m, i). m \<noteq> n) (subs d w)) = filter (\<lambda>v. fv_Name v \<noteq> n) (volsOf (pool d) w)"
proof -
  assume d: "d \<in> D" "good w"
  have "fv_Name (volume d (m, i)) = m" if "(m, i) \<in> set (subs d w)" for m i
    using that d subvolumes[OF d(2,1)] paths(4)[OF d(1)] by (auto simp: volume_def newBtrfsVolume_def plainName_def)
  then have "\<forall>x \<in> set (subs d w). (case x of (m, i) \<Rightarrow> m \<noteq> n) = (fv_Name (volume d x) \<noteq> n)" by auto
  then have "filter (\<lambda>(m, i). m \<noteq> n) (subs d w) = filter (\<lambda>x. fv_Name (volume d x) \<noteq> n) (subs d w)" by (intro filter_cong) auto
  then show ?thesis by (simp add: volsOf_def filter_map comp_def)
qed

lemma pool_ops:
  "fp_Volumes (pool d) = btrfs_Volumes N d" "fp_Mount (pool d) = btrfs_Mount N d (di_Label d)"
  "fp_UnMount (pool d) = btrfs_UnMount N d" "fp_Shutdown (pool d) = btrfs_Shutdown N d"
  "fp_AddVolume (pool d) = btrfs_AddVolume N d" "fp_RemoveVolume (pool d) = btrfs_RemoveVolume N d (di_Label d)"
  by (simp_all add: pool_def btrfsPool_def)

end

sublocale btrfs_node \<subseteq> fs: node_pools "pool ` D" good volsOf plainName
proof unfold_locales
  fix w p assume "good w" "p \<in> pool ` D" "mountedIn w p"
  then show "fp_Volumes p w = Ok (volsOf p w)" by (auto simp: pool_ops volumes_eq mounted_pool)
next
  fix w p v assume "good w" "p \<in> pool ` D" "mountedIn w p" "v \<in> set (volsOf p w)"
  then obtain d n i where "d \<in> D" "mnt d w" "(n, i) \<in> set (subs d w)" "v = volume d (n, i)"
    by (auto simp: volsOf_def mounted_pool)
  with \<open>good w\<close> usage_eq[of w d n i] show "is_ok (fv_Usage v w)" by (auto simp: is_ok_iff)
next
  fix w p assume "good w" "p \<in> pool ` D"
  then show "distinct (map fv_Name (volsOf p w))" using subvolumes vols_names by auto
next
  fix w p w' r assume a: "good w" "p \<in> pool ` D" "fp_Mount p w = (w', r)"
  then obtain d where d: "d \<in> D" "p = pool d" by blast
  note l = mount_law[OF a(1) d(1), of w' r]
  with a(3) d have s: "same {d} w w' \<and> subs d w' = subs d w \<and> (is_ok r \<longrightarrow> mnt d w')" by (simp add: pool_ops)
  then show "good w' \<and> (\<forall>q \<in> pool ` D. volsOf q w' = volsOf q w) \<and>
      (\<forall>q \<in> pool ` D. q \<noteq> p \<longrightarrow> mountedIn w' q = mountedIn w q) \<and> (is_ok r \<longrightarrow> mountedIn w' p)"
    using same_all(1)[OF a(1) _ d(1)] same_pools(1)[OF a(1) _ d(1)] d by (auto simp: sameBut_def mounted_pool)
next
  fix w p w' r assume a: "good w" "p \<in> pool ` D" "fp_UnMount p w = (w', r)"
  then obtain d where d: "d \<in> D" "p = pool d" by blast
  have s: "same {d} w w' \<and> subs d w' = subs d w \<and> (is_ok r \<longrightarrow> \<not> mnt d w')"
    using a d dounmount[OF a(1) d(1), of w' r]
    by (cases "mnt d w") (auto simp: pool_ops btrfs_UnMount_def mounted_eq sameBut_def)
  then show "good w' \<and> (\<forall>q \<in> pool ` D. volsOf q w' = volsOf q w) \<and>
      (\<forall>q \<in> pool ` D. q \<noteq> p \<longrightarrow> mountedIn w' q = mountedIn w q) \<and> (is_ok r \<longrightarrow> \<not> mountedIn w' p)"
    using same_all(1)[OF a(1) _ d(1)] same_pools(1)[OF a(1) _ d(1)] d by (auto simp: sameBut_def mounted_pool)
next
  fix w p w' r assume a: "good w" "p \<in> pool ` D" "fp_Shutdown p w = (w', r)"
  then obtain d where d: "d \<in> D" "p = pool d" by blast
  obtain r1 where "nd_run N ''hdparm'' [''-y'', di_Path d] w = (w', r1)"
    using a(3) d by (auto simp: pool_ops btrfs_Shutdown_def runUnit_def split: prod.splits)
  from poweroff[OF a(1) d(1) this] have "same {} w w'" .
  then show "good w' \<and> (\<forall>q \<in> pool ` D. volsOf q w' = volsOf q w) \<and> (\<forall>q \<in> pool ` D. mountedIn w' q = mountedIn w q)"
    using a(1) by (auto simp: sameBut_def mounted_pool volsOf_def)
next
  fix w p n w' r assume a: "good w" "p \<in> pool ` D" "plainName n" "n \<notin> fv_Name ` set (volsOf p w)" "fp_AddVolume p n w = (w', r)"
  then obtain d where d: "d \<in> D" "p = pool d" by blast
  have "n \<notin> fst ` set (subs d w)" using a(4) d vols_names[OF d(1) a(1)] by (metis list.set_map)
  note l = add_law[OF a(1) d(1) a(3) this, of w' r]
  with a(5) d have s: "same {d} w w' \<and> mnt d w' = mnt d w \<and> (\<forall>e. r = Err e \<longrightarrow> subs d w' = subs d w) \<and>
    (\<forall>v. r = Ok v \<longrightarrow> mnt d w \<and> fv_Name v = n \<and> (\<exists>i. subs d w' = subs d w @ [(n, i)] \<and> v = volume d (n, i)))" by (simp add: pool_ops)
  then have vs: "volsOf p w' = volsOf p w @ [v]" if "r = Ok v" for v using that d(2) by (auto simp: volsOf_def)
  have es: "volsOf p w' = volsOf p w" if "r = Err e" for e using s that d(2) by (simp add: volsOf_def)
  have g: "good w'" using s by (simp add: sameBut_def)
  have ms: "\<forall>q \<in> pool ` D. mountedIn w' q = mountedIn w q" using same_all(2)[OF a(1) conjunct1[OF s] d(1)] s by blast
  have qs: "\<forall>q \<in> pool ` D. q \<noteq> p \<longrightarrow> volsOf q w' = volsOf q w" using same_pools(2)[OF a(1) conjunct1[OF s] d(1)] unfolding d(2) .
  have ok: "mountedIn w p \<and> fv_Name v = n" if "r = Ok v" for v using s that mounted_pool[OF a(1) d(1)] unfolding d(2) by blast
  show "good w' \<and> (\<forall>q \<in> pool ` D. mountedIn w' q = mountedIn w q) \<and> (\<forall>q \<in> pool ` D. q \<noteq> p \<longrightarrow> volsOf q w' = volsOf q w) \<and>
      (\<forall>e. r = Err e \<longrightarrow> volsOf p w' = volsOf p w) \<and>
      (\<forall>v. r = Ok v \<longrightarrow> mountedIn w p \<and> fv_Name v = n \<and> volsOf p w' = volsOf p w @ [v])"
    using g ms qs es vs ok by blast
next
  fix w p v s w' r assume a: "good w" "p \<in> pool ` D" "mountedIn w p" "v \<in> set (volsOf p w)" "fv_Limit v s w = (w', r)"
  then obtain d n i where d: "d \<in> D" "p = pool d" "(n, i) \<in> set (subs d w)" "v = volume d (n, i)" by (auto simp: volsOf_def)
  have "mnt d w" using a d by (simp add: mounted_pool)
  from limit_law[OF a(1) d(1) this d(3), of s w' r] a(5) d
  have s: "same {d} w w' \<and> mnt d w' = mnt d w \<and> subs d w' = subs d w \<and> (is_ok r \<longrightarrow> (\<exists>u. fv_Usage v w' = Ok u \<and> fu_Size u = s))" by simp
  then show "good w' \<and> (\<forall>q \<in> pool ` D. volsOf q w' = volsOf q w) \<and> (\<forall>q \<in> pool ` D. mountedIn w' q = mountedIn w q) \<and>
      (is_ok r \<longrightarrow> (\<exists>u. fv_Usage v w' = Ok u \<and> fu_Size u = s))"
    using same_all[OF a(1) _ d(1)] by (auto simp: sameBut_def)
next
  fix w p n w' r assume a: "good w" "p \<in> pool ` D" "mountedIn w p" "n \<in> fv_Name ` set (volsOf p w)" "fp_RemoveVolume p n w = (w', r)"
  then obtain d where d: "d \<in> D" "p = pool d" by blast
  have m: "mnt d w" "n \<in> fst ` set (subs d w)" using a d vols_names[OF d(1) a(1)] by (auto simp: mounted_pool) (metis imageI list.set_map)
  from remove_law[OF a(1) d(1) m, of w' r] a(5) d
  have s: "same {d} w w' \<and> mnt d w' = mnt d w \<and> (is_ok r \<longrightarrow> subs d w' = filter (\<lambda>(m, i). m \<noteq> n) (subs d w))" by (simp add: pool_ops)
  then show "good w' \<and> (\<forall>q \<in> pool ` D. mountedIn w' q = mountedIn w q) \<and> (\<forall>q \<in> pool ` D. q \<noteq> p \<longrightarrow> volsOf q w' = volsOf q w) \<and>
      (is_ok r \<longrightarrow> volsOf p w' = filter (\<lambda>v. fv_Name v \<noteq> n) (volsOf p w))"
    using same_all(2)[OF a(1) _ d(1)] same_pools(2)[OF a(1) _ d(1)] vols_filter[OF d(1) a(1), of n] d
    by (auto simp: sameBut_def volsOf_def)
qed

end
