(* ===== verification/BtrfsSim.thy ===== *)
theory BtrfsSim
  imports BtrfsNode
begin

text \<open>
  A node that answers the commands with the text btrfs prints, and the proof that it meets the
  laws of \<open>btrfs_node\<close>: the hypotheses of the properties of the pools can hold. The world maps
  the path of a pool to its disk.
\<close>

record Disk =
  dk_mounted :: bool
  dk_subs :: "(string \<times> nat) list"
  dk_limit :: "nat \<Rightarrow> u64"

type_synonym world = "string \<Rightarrow> Disk"

definition simSubvol :: "string \<times> nat \<Rightarrow> BtrfsVolume" where
  "simSubvol ni = \<lparr>bv_Path = fst ni, bv_ID = int (snd ni), bv_Generation = 7, bv_ParentID = 5\<rparr>"

definition simQGroup :: "Disk \<Rightarrow> string \<times> nat \<Rightarrow> (string \<times> string \<times> string \<times> string) \<times> BtrfsQGroup" where
  "simQGroup d ni = (('' '', '' '', '' '', '' ''),
     \<lparr>qg_ID = qgroupID (int (snd ni)), qg_Rfer = 0, qg_Excl = 0, qg_MaxRfer = dk_limit d (snd ni), qg_MaxExcl = 0\<rparr>)"

definition simShow :: "nat \<Rightarrow> string" where
  "simShow i = ''Subvolume ID:'' @ dec i @ newline # ''Generation:7'' @ newline # ''Parent ID:5''"

definition simLines :: "string list \<Rightarrow> string" where
  "simLines ls = concat (map (\<lambda>l. l @ [newline]) ls)"

text \<open>The path of a subvolume is the path of the pool and its name.\<close>

definition simQuery :: "DeviceInfo list \<Rightarrow> string \<Rightarrow> string list \<Rightarrow> world \<Rightarrow> string result" where
  "simQuery devs name args w =
     (if name = ''findmnt'' then
        (case find (\<lambda>d. di_Path d = last args) devs of
           None \<Rightarrow> Err (Errorf ''no such device'')
         | Some d \<Rightarrow> Ok (if dk_mounted (w (poolPath d)) then poolPath d else []))
      else if take 2 args = [''subvolume'', ''list''] then
        Ok (simLines (map (printSubvol \<circ> simSubvol) (dk_subs (w (last args)))))
      else if take 2 args = [''subvolume'', ''show''] then
        (case map_of (dk_subs (w (Dir (last args)))) (Base (last args)) of
           None \<Rightarrow> Err (Errorf ''not a subvolume'') | Some i \<Rightarrow> Ok (simShow i))
      else if take 2 args = [''qgroup'', ''show''] then
        (let d = (if dk_mounted (w (last args)) then w (last args) else w (Dir (last args))) in
         Ok (simLines [''qgroupid rfer excl max_rfer max_excl''] @
           simLines (map ((\<lambda>(pads, q). printQGroup pads q) \<circ> simQGroup d) (dk_subs d))))
      else Err (Errorf ''unknown command''))"

text \<open>The identifier of a new subvolume is larger than all others.\<close>

definition freshID :: "(string \<times> nat) list \<Rightarrow> nat" where
  "freshID subs = Suc (fold max (map snd subs) 255)"

definition simRun :: "string \<Rightarrow> string list \<Rightarrow> world \<Rightarrow> world \<times> string result" where
  "simRun name args w =
     (if name = ''btrfs'' \<and> take 2 args = [''subvolume'', ''create''] then
        (let p = Dir (last args); i = freshID (dk_subs (w p)) in
         if int i < 2 ^ 63 then (w(p := (w p)\<lparr>dk_subs := dk_subs (w p) @ [(Base (last args), i)]\<rparr>), Ok [])
         else (w, Err (Errorf ''no identifier left'')))
      else if name = ''btrfs'' \<and> take 2 args = [''subvolume'', ''delete''] then
        (let p = Dir (last args) in
         (w(p := (w p)\<lparr>dk_subs := filter (\<lambda>(m, i). m \<noteq> Base (last args)) (dk_subs (w p))\<rparr>), Ok []))
      else if name = ''btrfs'' \<and> take 2 args = [''qgroup'', ''limit''] then
        (let p = Dir (last args); s = (if args ! 2 = ''none'' then 0 else of_nat (undec (args ! 2))) in
         (case map_of (dk_subs (w p)) (Base (last args)) of
            None \<Rightarrow> (w, Err (Errorf ''not a subvolume''))
          | Some i \<Rightarrow> (w(p := (w p)\<lparr>dk_limit := (dk_limit (w p))(i := s)\<rparr>), Ok [])))
      else (w, Ok []))"

definition simNode :: "DeviceInfo list \<Rightarrow> world Node" where
  "simNode devs = \<lparr>nd_query = simQuery devs, nd_run = simRun,
     nd_unmarshalMounts = (\<lambda>out. Ok [([], out, ''rw,subvol=/'')]), nd_unmarshalSeektime = (\<lambda>_. Ok ''SSD''),
     nd_unmarshalDevices = (\<lambda>_. Ok devs), nd_uuid = (\<lambda>_. ''new''), nd_MkdirAll = (\<lambda>_ w. (w, Ok ())),
     nd_Mount = (\<lambda>_ p w. (w(p := (w p)\<lparr>dk_mounted := True\<rparr>), Ok ())),
     nd_Unmount = (\<lambda>p w. (w(p := (w p)\<lparr>dk_mounted := False\<rparr>), Ok ())),
     nd_mounts = (\<lambda>_. []), nd_Walk = (\<lambda>_ _. Ok (FDir [])), nd_zdbReserved = (\<lambda>_ _. Err ErrNotExist),
     nd_ReadFile = (\<lambda>_ _. Err ErrNotExist), nd_WriteFile = (\<lambda>_ _ w. (w, Ok ())), nd_order = (\<lambda>xs. xs)\<rparr>"

definition simSubs :: "DeviceInfo \<Rightarrow> world \<Rightarrow> (string \<times> nat) list" where
  "simSubs d w = dk_subs (w (poolPath d))"

definition simMounted :: "DeviceInfo \<Rightarrow> world \<Rightarrow> bool" where
  "simMounted d w = dk_mounted (w (poolPath d))"

definition simLimit :: "DeviceInfo \<Rightarrow> world \<Rightarrow> nat \<Rightarrow> u64" where
  "simLimit d w = dk_limit (w (poolPath d))"

definition goodSubs :: "(string \<times> nat) list \<Rightarrow> bool" where
  "goodSubs subs \<longleftrightarrow> distinct (map fst subs) \<and> distinct (map snd subs) \<and>
     (\<forall>(n, i) \<in> set subs. plainName n \<and> i < 2 ^ 63)"

text \<open>Only the disks of the node are mounted.\<close>

definition simGood :: "DeviceInfo list \<Rightarrow> world \<Rightarrow> bool" where
  "simGood devs w \<longleftrightarrow> (\<forall>d \<in> set devs. goodSubs (simSubs d w)) \<and> (\<forall>p. dk_mounted (w p) \<longrightarrow> p \<in> poolPath ` set devs)"

definition simDevices :: "DeviceInfo list \<Rightarrow> bool" where
  "simDevices devs \<longleftrightarrow> (\<forall>d \<in> set devs. element (di_Label d)) \<and> distinct (map di_Label devs) \<and> distinct (map di_Path devs)"


section \<open>The laws\<close>

lemma sim_paths:
  assumes "element (di_Label d)" and "element n"
  shows "Dir (volumePath d n) = poolPath d" "Base (volumePath d n) = n"
proof -
  have m: "element ''mnt''" by (simp add: element_def slash_def)
  show "Dir (volumePath d n) = poolPath d"
    using Dir_abspath[of "[''mnt'', di_Label d]" n] assms m pool_paths(1,3)[OF assms(1)] by simp
  show "Base (volumePath d n) = n" using pool_paths(4)[OF assms(1)] assms(2) by blast
qed

lemma sim_path_parts:
  assumes "element (di_Label d)" and "element (di_Label d')" and "element n"
  shows "volumePath d n \<noteq> poolPath d'" "poolPath d = poolPath d' \<longleftrightarrow> di_Label d = di_Label d'"
proof -
  have m: "element ''mnt''" by (simp add: element_def slash_def)
  have v: "splitOn slash (volumePath d n) = [[], ''mnt'', di_Label d, n]"
    using split_abspath[of "[''mnt'', di_Label d, n]"] m assms pool_paths(3)[OF assms(1)] by simp
  have p: "splitOn slash (poolPath x) = [[], ''mnt'', di_Label x]" if "element (di_Label x)" for x
    using split_abspath[of "[''mnt'', di_Label x]"] m that pool_paths(1)[OF that] by simp
  show "volumePath d n \<noteq> poolPath d'"
  proof
    assume "volumePath d n = poolPath d'"
    then have "[[], ''mnt'', di_Label d, n] = [[], ''mnt'', di_Label d']" unfolding v[symmetric] p[OF assms(2), symmetric] by simp
    then show False by simp
  qed
  show "poolPath d = poolPath d' \<longleftrightarrow> di_Label d = di_Label d'"
  proof
    assume "poolPath d = poolPath d'"
    then have "[[], ''mnt'', di_Label d] = [[], ''mnt'', di_Label d']" using p[OF assms(1)] p[OF assms(2)] by metis
    then show "di_Label d = di_Label d'" by simp
  qed (simp add: poolPath_def)
qed

lemma pool_path_inj:
  assumes "simDevices devs" and "d \<in> set devs" and "d' \<in> set devs"
  shows "poolPath d = poolPath d' \<longleftrightarrow> d = d'"
proof -
  have "element (di_Label d)" "element (di_Label d')" "inj_on di_Label (set devs)"
    using assms by (simp_all add: simDevices_def distinct_map)
  then show ?thesis using sim_path_parts(2)[of d d' "''x''"] assms(2,3) by (auto simp: element_def slash_def inj_on_def)
qed

lemma fresh_id: "(n, i) \<in> set subs \<Longrightarrow> i < freshID subs"
proof -
  have "x \<le> fold max xs (a :: nat) \<and> a \<le> fold max xs a" if "x \<in> set xs" for x xs a
    using that
  proof (induction xs arbitrary: a)
    case (Cons y ys)
    have mono: "a \<le> fold max zs a" for zs :: "nat list" and a by (induction zs arbitrary: a) (auto intro: order_trans[OF max.cobounded2])
    show ?case using Cons mono[of "max y a" ys] by auto
  qed simp
  moreover assume "(n, i) \<in> set subs"
  then have "i \<in> set (map snd subs)" by force
  ultimately show ?thesis by (simp add: freshID_def less_Suc_eq_le)
qed

lemma good_add: "goodSubs subs \<Longrightarrow> plainName n \<Longrightarrow> n \<notin> fst ` set subs \<Longrightarrow> freshID subs < 2 ^ 63 \<Longrightarrow>
    goodSubs (subs @ [(n, freshID subs)])"
  using fresh_id[of _ _ subs] by (fastforce simp: goodSubs_def)

lemma good_filter: "goodSubs subs \<Longrightarrow> goodSubs (filter P subs)"
  by (auto simp: goodSubs_def distinct_map inj_on_def)

text \<open>A change of one disk.\<close>

lemma sim_same:
  assumes "simDevices devs" and "simGood devs w" and "d \<in> set devs" and "goodSubs (dk_subs k)"
  shows "sameBut (set devs) (simGood devs) simMounted simSubs simLimit {d} w (w(poolPath d := k))"
proof -
  have other: "(w(poolPath d := k)) (poolPath x) = (if x = d then k else w (poolPath x))" if "x \<in> set devs" for x
    using pool_path_inj[OF assms(1) that assms(3)] by simp
  have "simGood devs (w(poolPath d := k))"
    using assms(2,3,4) other by (auto simp: simGood_def simSubs_def)
  then show ?thesis using other by (simp add: sameBut_def simMounted_def simSubs_def simLimit_def)
qed

lemma sim_refl: "simGood devs w \<Longrightarrow> sameBut (set devs) (simGood devs) simMounted simSubs simLimit C w w"
  by (simp add: sameBut_def)

lemma subs_good: "simGood devs w \<Longrightarrow> d \<in> set devs \<Longrightarrow> goodSubs (dk_subs (w (poolPath d)))"
  by (simp add: simGood_def simSubs_def)

lemma subs_map_of: "goodSubs subs \<Longrightarrow> (n, i) \<in> set subs \<Longrightarrow> map_of subs n = Some i"
  by (simp add: goodSubs_def)

lemma subs_plain: "goodSubs subs \<Longrightarrow> (n, i) \<in> set subs \<Longrightarrow> plainName n \<and> element n"
  by (auto simp: goodSubs_def plainName_def)


text \<open>What \<open>btrfs subvolume show\<close> prints is read.\<close>

lemma sim_show:
  assumes "i < 2 ^ 63"
  shows "\<exists>v. parseSubvolInfo (simShow i) = Ok v \<and> bv_ID v = int i"
proof -
  have digits: "\<forall>c \<in> set (dec i). c \<noteq> CHR '':'' \<and> c \<noteq> newline \<and> \<not> is_space c"
  proof -
    have "c \<noteq> CHR '':'' \<and> c \<noteq> newline \<and> \<not> is_space c" if "is_digit c" for c
      using that by (auto simp: is_digit_def newline_def is_space_def)
    then show ?thesis using dec_digits by blast
  qed
  then have nl: "newline \<notin> set (''Subvolume ID:'' @ dec i)" by (auto simp: newline_def)
  have lines: "splitOn newline (simShow i) = [''Subvolume ID:'' @ dec i, ''Generation:7'', ''Parent ID:5'']"
  proof -
    have "simShow i = (''Subvolume ID:'' @ dec i) @ newline # ''Generation:7'' @ newline # ''Parent ID:5''" by (simp add: simShow_def)
    then show ?thesis using split_append[OF nl] split_append[of newline "''Generation:7''"] split_one[of newline "''Parent ID:5''"]
      by (simp add: newline_def)
  qed
  have "dropWhile is_space (dec i) = dec i" "dropWhile is_space (rev (dec i)) = rev (dec i)"
    using digits by (cases "dec i"; simp) (cases "dec i" rule: rev_cases; use digits in simp)
  then have trim: "TrimSpace (dec i) = dec i" by (simp add: TrimSpace_def)
  have dash: "dec i \<noteq> ''-''" using dec_hd[of i] by (auto simp: is_digit_def)
  have key: "splitColon (''Subvolume ID:'' @ dec i) = Some (''Subvolume ID'', dec i)" by (simp add: splitColon_def)
  have tk: "TrimSpace ''Subvolume ID'' = ''Subvolume ID''" "TrimSpace ''Generation'' = ''Generation''" "TrimSpace ''Parent ID'' = ''Parent ID''"
    "TrimSpace ''7'' = ''7''" "TrimSpace ''5'' = ''5''"
    by (simp_all add: TrimSpace_def is_space_def)
  have rest: "splitColon ''Generation:7'' = Some (''Generation'', ''7'')" "splitColon ''Parent ID:5'' = Some (''Parent ID'', ''5'')"
    by (simp_all add: splitColon_def)
  let ?m = "fold addValue [''Subvolume ID:'' @ dec i, ''Generation:7'', ''Parent ID:5''] (\<lambda>_. None)"
  have m: "?m = [''Subvolume ID'' \<mapsto> dec i, ''Generation'' \<mapsto> ''7'', ''Parent ID'' \<mapsto> ''5'']"
    using dash by (simp add: addValue_def key rest trim tk del: append_Cons append_Nil)
  have scan: "scanInt (dec i) = Ok (int i, [])" "scanInt ''7'' = Ok (7, [])" "scanInt ''5'' = Ok (5, [])"
    using scanInt_dec[OF assms, of "[]"] by (simp, code_simp, code_simp)
  have "parseSubvolInfo (simShow i) = Ok \<lparr>bv_Path = [], bv_ID = int i, bv_Generation = 7, bv_ParentID = 5\<rparr>"
    unfolding parseSubvolInfo_def lines m Let_def by (simp add: scanField_def scan)
  then show ?thesis by simp
qed


lemma sim_subvols:
  "simLines (map (printSubvol \<circ> simSubvol) subs) = concat (map (\<lambda>v. printSubvol v @ [newline]) (map simSubvol subs))"
  by (simp add: simLines_def comp_def)

lemma sim_printable: "goodSubs subs \<Longrightarrow> \<forall>v \<in> set (map simSubvol subs). printable v"
  by (fastforce simp: goodSubs_def simSubvol_def printable_def plainName_def element_def)

lemma sim_qgroups:
  assumes "goodSubs (dk_subs k)"
  shows "\<forall>pq \<in> set (map (simQGroup k) (dk_subs k)). qgroupLine pq"
    "distinct (map (qg_ID \<circ> snd) (map (simQGroup k) (dk_subs k)))"
    "simLines (map ((\<lambda>(pads, q). printQGroup pads q) \<circ> simQGroup k) (dk_subs k)) =
       concat (map (\<lambda>(pads, q). printQGroup pads q @ [newline]) (map (simQGroup k) (dk_subs k)))"
    "\<forall>(n, i) \<in> set (dk_subs k). \<exists>pads q. (pads, q) \<in> set (map (simQGroup k) (dk_subs k)) \<and> qg_ID q = qgroupID (int i) \<and> qg_MaxRfer q = dk_limit k i"
proof -
  have "dec 0 = ''0''" by code_simp
  then have "qgroupID (int i) = dec 0 @ ''/'' @ dec i" for i by (simp add: qgroupID_def dec_int_def)
  then show "\<forall>pq \<in> set (map (simQGroup k) (dk_subs k)). qgroupLine pq"
    unfolding simQGroup_def qgroupLine_def blanks_def by auto
  have "inj_on (\<lambda>i. qgroupID (int i)) A" for A by (rule inj_onI) (simp add: qgroupID_def dec_int_def dec_inject)
  moreover have "map (qg_ID \<circ> snd) (map (simQGroup k) (dk_subs k)) = map (\<lambda>i. qgroupID (int i)) (map snd (dk_subs k))"
    by (simp add: simQGroup_def)
  ultimately show "distinct (map (qg_ID \<circ> snd) (map (simQGroup k) (dk_subs k)))"
    using assms by (simp add: distinct_map goodSubs_def del: map_map)
  show "simLines (map ((\<lambda>(pads, q). printQGroup pads q) \<circ> simQGroup k) (dk_subs k)) =
       concat (map (\<lambda>(pads, q). printQGroup pads q @ [newline]) (map (simQGroup k) (dk_subs k)))"
    by (simp add: simLines_def comp_def split_def)
  show "\<forall>(n, i) \<in> set (dk_subs k). \<exists>pads q. (pads, q) \<in> set (map (simQGroup k) (dk_subs k)) \<and> qg_ID q = qgroupID (int i) \<and> qg_MaxRfer q = dk_limit k i"
    by (auto simp: simQGroup_def image_def)
qed

lemma sim_disk:
  assumes "simDevices devs" and "simGood devs w" and "d \<in> set devs" and "simMounted d w"
    and "path = poolPath d \<or> path \<in> volumePath d ` fst ` set (simSubs d w)"
  shows "(if dk_mounted (w path) then w path else w (Dir path)) = w (poolPath d)"
proof (cases "path = poolPath d")
  case True
  then show ?thesis using assms(4) by (simp add: simMounted_def)
next
  case False
  then obtain n i where n: "path = volumePath d n" "(n, i) \<in> set (simSubs d w)" using assms(5) by auto
  then have "element n" using subs_plain subs_good[OF assms(2,3)] by (simp add: simSubs_def)
  have label: "element (di_Label x)" if "x \<in> set devs" for x using assms(1) that by (simp add: simDevices_def)
  have "path \<noteq> poolPath x" if "x \<in> set devs" for x
    using sim_path_parts(1)[OF label[OF assms(3)] label[OF that] \<open>element n\<close>] n(1) by simp
  then have "\<not> dk_mounted (w path)" using assms(2) by (auto simp: simGood_def)
  then show ?thesis using sim_paths(1)[OF label[OF assms(3)] \<open>element n\<close>] n(1) by simp
qed

lemma sim_find:
  assumes "simDevices devs" and "d \<in> set devs"
  shows "find (\<lambda>x. di_Path x = di_Path d) devs = Some d"
  using assms
proof (induction devs)
  case (Cons x xs)
  then show ?case by (auto simp: simDevices_def)
qed simp


lemma sim_node:
  assumes "simDevices devs"
  shows "btrfs_node (simNode devs) (set devs) (simGood devs) simMounted simSubs simLimit"
proof unfold_locales
  note same = sim_same[OF assms]
  have label: "element (di_Label d)" if "d \<in> set devs" for d using assms that by (simp add: simDevices_def)
  then show "d \<in> set devs \<Longrightarrow> element (di_Label d)" for d .
  show "distinct (map fst (simSubs d w)) \<and> distinct (map snd (simSubs d w)) \<and> (\<forall>(n, i) \<in> set (simSubs d w). plainName n)"
    if "simGood devs w" "d \<in> set devs" for w d
    using subs_good[OF that] by (auto simp: goodSubs_def simSubs_def)
  show "Mountpoint (simNode devs) (di_Path d) w = Ok (if simMounted d w then poolPath d else [])" if "simGood devs w" "d \<in> set devs" for w d
    using pool_paths(2)[OF label[OF that(2)]] sim_find[OF assms that(2)]
    by (simp add: Mountpoint_def simNode_def simQuery_def simMounted_def)
  show "\<exists>vs. nd_query (simNode devs) ''btrfs'' [''subvolume'', ''list'', ''-o'', poolPath d] w =
      Ok (concat (map (\<lambda>v. printSubvol v @ [newline]) vs)) \<and> (\<forall>v \<in> set vs. printable v) \<and>
      map (\<lambda>v. (bv_Path v, bv_ID v)) vs = map (\<lambda>(n, i). (n, int i)) (simSubs d w)" if "simGood devs w" "d \<in> set devs" for w d
  proof (intro exI[of _ "map simSubvol (simSubs d w)"] conjI)
    show "\<forall>v \<in> set (map simSubvol (simSubs d w)). printable v" using sim_printable[OF subs_good[OF that]] by (simp add: simSubs_def)
  qed (simp_all add: simNode_def simQuery_def sim_subvols simSubs_def, auto simp: simSubvol_def)
  fix w d n i assume g: "simGood devs w" "d \<in> set devs" and mnt: "simMounted d w" and n: "(n, i) \<in> set (simSubs d w)"
  have good: "goodSubs (simSubs d w)" using subs_good[OF g] by (simp add: simSubs_def)
  note p = sim_paths[OF label[OF g(2)] conjunct2[OF subs_plain[OF good n]]]
  have i: "map_of (dk_subs (w (poolPath d))) n = Some i" "i < 2 ^ 63"
    using subs_map_of[OF good n] good n by (auto simp: simSubs_def goodSubs_def)
  show "\<exists>out v. nd_query (simNode devs) ''btrfs'' [''subvolume'', ''show'', volumePath d n] w = Ok out \<and>
      parseSubvolInfo out = Ok v \<and> bv_ID v = int i"
    using sim_show[OF i(2)] i(1) p by (simp add: simNode_def simQuery_def)
next
  fix w d path assume g: "simGood devs w" "d \<in> set devs" "simMounted d w" "path = poolPath d \<or> path \<in> volumePath d ` fst ` set (simSubs d w)"
  let ?k = "w (poolPath d)" and ?h = "''qgroupid rfer excl max_rfer max_excl''"
  note q = sim_qgroups[OF subs_good[OF g(1,2)]]
  have "nd_query (simNode devs) ''btrfs'' [''qgroup'', ''show'', ''-re'', ''--raw'', path] w =
      Ok (concat (map (\<lambda>h. h @ [newline]) [?h]) @ concat (map (\<lambda>(pads, q). printQGroup pads q @ [newline]) (map (simQGroup ?k) (dk_subs ?k))))"
    unfolding q(3)[symmetric] using sim_disk[OF assms g] by (cases "dk_mounted (w path)") (simp_all add: simNode_def simQuery_def Let_def simLines_def)
  moreover have "\<forall>h \<in> set [?h]. newline \<notin> set h \<and> (h = [] \<or> \<not> is_digit (hd h))" by (simp add: newline_def is_digit_def)
  moreover have "\<forall>(n, i) \<in> set (simSubs d w). \<exists>pads q. (pads, q) \<in> set (map (simQGroup ?k) (dk_subs ?k)) \<and> qg_ID q = qgroupID (int i) \<and> qg_MaxRfer q = simLimit d w i"
    using q(4) by (simp add: simSubs_def simLimit_def)
  ultimately show "\<exists>hs lines. nd_query (simNode devs) ''btrfs'' [''qgroup'', ''show'', ''-re'', ''--raw'', path] w =
        Ok (concat (map (\<lambda>h. h @ [newline]) hs) @ concat (map (\<lambda>(pads, q). printQGroup pads q @ [newline]) lines)) \<and>
      (\<forall>h \<in> set hs. newline \<notin> set h \<and> (h = [] \<or> \<not> is_digit (hd h))) \<and> (\<forall>pq \<in> set lines. qgroupLine pq) \<and>
      distinct (map (qg_ID \<circ> snd) lines) \<and>
      (\<forall>(n, i) \<in> set (simSubs d w). \<exists>pads q. (pads, q) \<in> set lines \<and> qg_ID q = qgroupID (int i) \<and> qg_MaxRfer q = simLimit d w i)"
    using q(1,2) by blast
next
  fix w d w' and r :: "unit result" assume g: "simGood devs w" "d \<in> set devs"
  note s = sim_same[OF assms g] and r = sim_refl[OF g(1)] and subs = subs_good[OF g]
  show "nd_MkdirAll (simNode devs) (poolPath d) w = (w', r) \<Longrightarrow> sameBut (set devs) (simGood devs) simMounted simSubs simLimit {} w w'"
    using r by (auto simp: simNode_def)
  show "nd_Mount (simNode devs) (di_Path d) (poolPath d) w = (w', r) \<Longrightarrow> sameBut (set devs) (simGood devs) simMounted simSubs simLimit {d} w w' \<and>
      simSubs d w' = simSubs d w \<and> simLimit d w' = simLimit d w \<and> (is_ok r \<longrightarrow> simMounted d w')"
    using s subs by (auto simp: simNode_def simSubs_def simLimit_def simMounted_def)
  show "nd_Unmount (simNode devs) (poolPath d) w = (w', r) \<Longrightarrow> sameBut (set devs) (simGood devs) simMounted simSubs simLimit {d} w w' \<and>
      simSubs d w' = simSubs d w \<and> simLimit d w' = simLimit d w \<and> (is_ok r \<longrightarrow> \<not> simMounted d w')"
    using s subs by (auto simp: simNode_def simSubs_def simLimit_def simMounted_def)
next
  fix w d w' and rs :: "string result" and x assume g: "simGood devs w" "d \<in> set devs"
  note r = sim_refl[OF g(1)]
  show "nd_run (simNode devs) ''btrfs'' [''quota'', ''enable'', poolPath d] w = (w', rs) \<Longrightarrow> sameBut (set devs) (simGood devs) simMounted simSubs simLimit {} w w'"
    "nd_run (simNode devs) ''hdparm'' [''-y'', di_Path d] w = (w', rs) \<Longrightarrow> sameBut (set devs) (simGood devs) simMounted simSubs simLimit {} w w'"
    "nd_run (simNode devs) ''btrfs'' [''qgroup'', ''destroy'', x, poolPath d] w = (w', rs) \<Longrightarrow> sameBut (set devs) (simGood devs) simMounted simSubs simLimit {} w w'"
    using r by (auto simp: simNode_def simRun_def)
next
  fix w d n w' and rs :: "string result" assume g: "simGood devs w" "d \<in> set devs" and n: "plainName n" "n \<notin> fst ` set (simSubs d w)"
    and run: "nd_run (simNode devs) ''btrfs'' [''subvolume'', ''create'', volumePath d n] w = (w', rs)"
  let ?k = "w (poolPath d)"
  have "element (di_Label d)" "element n" using assms g(2) n(1) by (auto simp: simDevices_def plainName_def)
  note p = sim_paths[OF this]
  have good: "goodSubs (dk_subs ?k @ [(n, freshID (dk_subs ?k))])" if "freshID (dk_subs ?k) < 2 ^ 63"
    using good_add[OF subs_good[OF g] n(1) _ that] n(2) by (simp add: simSubs_def)
  show "sameBut (set devs) (simGood devs) simMounted simSubs simLimit {d} w w' \<and> simMounted d w' = simMounted d w \<and>
      (\<not> is_ok rs \<longrightarrow> simSubs d w' = simSubs d w) \<and> (is_ok rs \<longrightarrow> (\<exists>i. simSubs d w' = simSubs d w @ [(n, i)]))"
    using run p sim_refl[OF g(1)] sim_same[OF assms g] good
    by (cases "freshID (dk_subs ?k) < 2 ^ 63") (auto simp: simNode_def simRun_def Let_def simSubs_def simMounted_def)
next
  fix w d n w' and rs :: "string result" assume g: "simGood devs w" "d \<in> set devs" and n: "n \<in> fst ` set (simSubs d w)"
    and run: "nd_run (simNode devs) ''btrfs'' [''subvolume'', ''delete'', volumePath d n] w = (w', rs)"
  have "element (di_Label d)" "element n"
    using assms g(2) n subs_plain[OF subs_good[OF g]] by (auto simp: simDevices_def simSubs_def)
  note p = sim_paths[OF this]
  show "sameBut (set devs) (simGood devs) simMounted simSubs simLimit {d} w w' \<and> simMounted d w' = simMounted d w \<and>
      (is_ok rs \<longrightarrow> simSubs d w' = filter (\<lambda>(m, i). m \<noteq> n) (simSubs d w))"
    using run p sim_same[OF assms g] good_filter[OF subs_good[OF g]]
    by (auto simp: simNode_def simRun_def Let_def simSubs_def simMounted_def)
next
  fix w d n i w' and s :: u64 and rs :: "string result" assume g: "simGood devs w" "d \<in> set devs" and n: "(n, i) \<in> set (simSubs d w)"
    and run: "nd_run (simNode devs) ''btrfs'' [''qgroup'', ''limit'', if s > 0 then dec (unat s) else ''none'', volumePath d n] w = (w', rs)"
  have good: "goodSubs (simSubs d w)" using subs_good[OF g] by (simp add: simSubs_def)
  have "element (di_Label d)" "element n" using assms g(2) subs_plain[OF good n] by (simp_all add: simDevices_def)
  note p = sim_paths[OF this]
  have i: "map_of (dk_subs (w (poolPath d))) n = Some i" using subs_map_of[OF good n] by (simp add: simSubs_def)
  have "dec m \<noteq> ''none''" for m using dec_hd[of m] by (auto simp: is_digit_def)
  then have lim: "(if (if s > 0 then dec (unat s) else ''none'') = ''none'' then 0 else of_nat (undec (if s > 0 then dec (unat s) else ''none''))) = s"
    by (auto simp: word_gt_0)
  let ?k = "w (poolPath d)"
  have "w' = w(poolPath d := ?k\<lparr>dk_limit := (dk_limit ?k)(i := s)\<rparr>)"
    using run p i lim by (simp add: simNode_def simRun_def Let_def split: if_splits)
  then show "sameBut (set devs) (simGood devs) simMounted simSubs simLimit {d} w w' \<and> simMounted d w' = simMounted d w \<and>
      simSubs d w' = simSubs d w \<and> (is_ok rs \<longrightarrow> simLimit d w' i = s)"
    using sim_same[OF assms g] subs_good[OF g] by (simp add: simSubs_def simMounted_def simLimit_def)
qed (auto simp: simNode_def)

end
