(* ===== verification/BtrfsProps.thy ===== *)
theory BtrfsProps
  imports BtrfsSim
begin

text \<open>
  The properties of the storage module on btrfs pools: for every node whose commands meet the
  laws of btrfs, creating, finding and deleting volumes and the shutdown of unused disks.
\<close>

definition simDiskA :: DeviceInfo where
  "simDiskA = \<lparr>di_Path = ''/dev/sda'', di_Label = ''a'', di_Size = 100, di_Filesystem = ''btrfs'', di_Rota = False, di_Subsystems = []\<rparr>"

definition simDiskB :: DeviceInfo where
  "simDiskB = \<lparr>di_Path = ''/dev/sdb'', di_Label = ''b'', di_Size = 50, di_Filesystem = ''btrfs'', di_Rota = False, di_Subsystems = []\<rparr>"

definition simDisks :: "DeviceInfo list" where
  "simDisks = [simDiskA, simDiskB]"

definition simWorld :: world where
  "simWorld p = (if p = ''/mnt/a'' then \<lparr>dk_mounted = True, dk_subs = [(''keep'', 256)], dk_limit = (\<lambda>i. if i = 256 then 60 else 0)\<rparr>
     else if p = ''/mnt/b'' then \<lparr>dk_mounted = True, dk_subs = [], dk_limit = (\<lambda>_. 0)\<rparr>
     else \<lparr>dk_mounted = False, dk_subs = [], dk_limit = (\<lambda>_. 0)\<rparr>)"

lemma sim_disks: "simDevices simDisks"
  by (simp add: simDevices_def simDisks_def simDiskA_def simDiskB_def element_def slash_def)

interpretation sim: btrfs_node "simNode simDisks" "set simDisks" "simGood simDisks" simMounted simSubs simLimit
  by (rule sim_node[OF sim_disks])

text \<open>The pools of the node.\<close>

abbreviation poolsOf :: "'w Node \<Rightarrow> DeviceInfo set \<Rightarrow> 'w FsPool set" where
  "poolsOf N D \<equiv> (\<lambda>d. btrfsPool N d (di_Label d)) ` D"

context btrfs_node
begin

lemma poolsOf_eq: "poolsOf N D = pool ` D"
  by (simp add: pool_def cong: image_cong)

lemma on_pool: "good w \<Longrightarrow> d \<in> D \<Longrightarrow> fs.onPool n (pool d) w \<longleftrightarrow> n \<in> fst ` set (subs d w)"
  using vols_names[of d w] unfolding fs.onPool_def by (metis list.set_map)

lemma create_found:
  assumes "sortsPools H" and "sortsCandidates H" and "good w" and "volumePools H m \<subseteq> poolsOf N D" and "plainName n"
    and "\<forall>d \<in> D. n \<notin> fst ` set (subs d w)" and "VolumeCreate H n sz (m, w) = ((m', w'), Ok info)"
  shows "\<exists>m''. VolumeLookup H n (m', w') = ((m'', w'), Ok info) \<and> vi_Name info = n \<and> us_Size (vi_Usage info) = sz"
  using assms(3,4,6) by (intro fs.create_lookup[OF assms(1,2,3) _ assms(5) _ assms(7)]) (auto simp: poolsOf_eq on_pool)

lemma delete_gone:
  assumes "sortsPools H" and "good w" and "volumePools H m \<subseteq> poolsOf N D"
    and "\<And>d d'. d \<in> D \<Longrightarrow> d' \<in> D \<Longrightarrow> n \<in> fst ` set (subs d w) \<Longrightarrow> n \<in> fst ` set (subs d' w) \<Longrightarrow> d = d'"
    and "VolumeDelete H n (m, w) = ((m', w'), Ok ())"
  shows "\<exists>m'' e. VolumeLookup H n (m', w') = ((m'', w'), Err e) \<and> err_is e ErrNotExist"
  using assms(2,3) by (intro fs.delete_lookup[OF assms(1,2) _ _ assms(5)]) (auto simp: poolsOf_eq on_pool intro!: arg_cong[where f = pool] assms(4))

lemma vols_empty: "volsOf (pool d) w = [] \<longleftrightarrow> subs d w = []"
  by (simp add: volsOf_def)

lemma vols_inj:
  assumes "d \<in> D" and "good w" and "good w'" and "volsOf (pool d) w' = volsOf (pool d) w"
  shows "subs d w' = subs d w"
proof -
  have ids: "map fv_ID (volsOf (pool d) x) = map int (map snd (subs d x))" for x
    by (simp add: volsOf_def volume_def newBtrfsVolume_def)
  have "map fst (subs d w') = map fst (subs d w)"
    using vols_names[OF assms(1,2)] vols_names[OF assms(1,3)] assms(4) by metis
  moreover have "map snd (subs d w') = map snd (subs d w)"
    using ids[of w] ids[of w'] assms(4) inj_map_eq_map[of int] by (simp add: inj_def del: map_map)
  ultimately show ?thesis by (metis zip_map_fst_snd)
qed

lemma unused_unmounted:
  assumes "good w" and "set (m_ssds m @ m_hdds m) = poolsOf N D" and "distinct (m_ssds m @ m_hdds m)"
    and "shutdownUnusedPools vm (m, w) = ((m', w'), Ok ())" and "d \<in> D"
  shows "subs d w' = subs d w \<and> (mnt d w' \<longleftrightarrow> mnt d w \<and> subs d w \<noteq> [])"
proof -
  have run: "shutdownUnused vm (m_ssds m @ m_hdds m) w = (w', Ok ())"
    using assms(4) by (auto simp: shutdownUnusedPools_def split: prod.splits)
  have sub: "set (m_ssds m @ m_hdds m) = pool ` D" using assms(2) by (simp only: poolsOf_eq)
  note s = fs.shutdown_unused[OF assms(1) equalityD1[OF sub] assms(3) run]
  have p: "pool d \<in> pool ` D" using assms(5) by simp
  have "mnt d w' \<longleftrightarrow> mnt d w \<and> subs d w \<noteq> []"
    using s p sub mounted_pool[of w d] mounted_pool[of w' d] assms(1,5) vols_empty[of d w] by blast
  moreover have "volsOf (pool d) w' = volsOf (pool d) w" using s p by blast
  then have "subs d w' = subs d w" using vols_inj[OF assms(5)] s assms(1) by blast
  ultimately show ?thesis by blast
qed

end

section \<open>The sample node\<close>

definition simModule :: "world Module" where
  "simModule = sample_module (map (\<lambda>d. btrfsPool (simNode simDisks) d (di_Label d)) simDisks) []"

lemma sim_pools: "poolPath simDiskA = ''/mnt/a''" "poolPath simDiskB = ''/mnt/b''" "simDiskA \<noteq> simDiskB"
  by (code_simp, code_simp) (simp add: simDiskA_def simDiskB_def)

lemma sim_world: "simGood simDisks simWorld"
  by (simp add: simGood_def simDisks_def simSubs_def sim_pools simWorld_def goodSubs_def plainName_def element_def slash_def is_space_def)

lemma sim_module: "set (m_ssds simModule @ m_hdds simModule) = poolsOf (simNode simDisks) (set simDisks)" "distinct (m_ssds simModule @ m_hdds simModule)"
    "volumePools sample_host simModule \<subseteq> poolsOf (simNode simDisks) (set simDisks)"
proof -
  have "btrfsPool N simDiskA x \<noteq> btrfsPool N simDiskB y" for N :: "world Node" and x y
    using sim_pools(3) by (simp add: btrfsPool_def)
  then show "distinct (m_ssds simModule @ m_hdds simModule)" by (simp add: simModule_def sample_module_def simDisks_def)
  show "set (m_ssds simModule @ m_hdds simModule) = poolsOf (simNode simDisks) (set simDisks)"
    by (simp add: simModule_def sample_module_def)
  show "volumePools sample_host simModule \<subseteq> poolsOf (simNode simDisks) (set simDisks)"
    using sample_no_missing by (simp add: volumePools_def simModule_def sample_module_def)
qed

lemma result_cases: "is_ok (snd x) \<Longrightarrow> \<exists>m w v. x = ((m, w), Ok v)"
  by (metis is_ok_iff prod.collapse)

section \<open>Claims\<close>

text \<open>A volume that is created is found. On the btrfs pools of a node, after \<open>VolumeCreate\<close> returns
  a volume of a new name, \<open>VolumeLookup\<close> of the name returns the same volume, with the size
  that was asked for.\<close>

lemma volume_create_then_lookup:
  assumes "btrfs_node N D good mnt subs lim" and "sortsPools H" and "sortsCandidates H" and "good w" and "volumePools H m \<subseteq> poolsOf N D"
    and "plainName n" and "\<forall>d \<in> D. n \<notin> fst ` set (subs d w)" and "VolumeCreate H n sz (m, w) = ((m', w'), Ok info)"
  shows "\<exists>m''. VolumeLookup H n (m', w') = ((m'', w'), Ok info) \<and> vi_Name info = n \<and> us_Size (vi_Usage info) = sz"
  by (rule btrfs_node.create_found[OF assms])

lemma volume_create_then_lookup_witness:
  "\<exists>m w info m'. VolumeCreate sample_host ''vol'' 30 (simModule, simWorld) = ((m, w), Ok info) \<and>
     VolumeLookup sample_host ''vol'' (m, w) = ((m', w), Ok info) \<and> us_Size (vi_Usage info) = 30"
proof -
  have "is_ok (snd (VolumeCreate sample_host ''vol'' 30 (simModule, simWorld)))" by code_simp
  from result_cases[OF this] obtain m w info where
    run: "VolumeCreate sample_host ''vol'' 30 (simModule, simWorld) = ((m, w), Ok info)" by blast
  have "plainName ''vol''" "\<forall>d \<in> set simDisks. ''vol'' \<notin> fst ` set (simSubs d simWorld)"
    by (simp_all add: plainName_def element_def slash_def is_space_def simDisks_def simSubs_def sim_pools simWorld_def)
  from volume_create_then_lookup[OF sim.btrfs_node_axioms sample_sorts sim_world sim_module(3) this run] run show ?thesis by blast
qed

text \<open>A volume that is deleted is not found. On the btrfs pools of a node where the name is on at most
  one disk, after \<open>VolumeDelete\<close> returns no error, \<open>VolumeLookup\<close> of the name fails with
  \<open>ErrNotExist\<close>.\<close>

lemma volume_delete_then_lookup:
  assumes "btrfs_node N D good mnt subs lim" and "sortsPools H" and "good w" and "volumePools H m \<subseteq> poolsOf N D"
    and "\<And>d d'. d \<in> D \<Longrightarrow> d' \<in> D \<Longrightarrow> n \<in> fst ` set (subs d w) \<Longrightarrow> n \<in> fst ` set (subs d' w) \<Longrightarrow> d = d'"
    and "VolumeDelete H n (m, w) = ((m', w'), Ok ())"
  shows "\<exists>m'' e. VolumeLookup H n (m', w') = ((m'', w'), Err e) \<and> err_is e ErrNotExist"
  by (rule btrfs_node.delete_gone[OF assms(1-4) _ assms(6)]) (rule assms(5))

lemma volume_delete_then_lookup_witness:
  "\<exists>m w m' e. VolumeDelete sample_host ''keep'' (simModule, simWorld) = ((m, w), Ok ()) \<and>
     VolumeLookup sample_host ''keep'' (m, w) = ((m', w), Err e) \<and> err_is e ErrNotExist"
proof -
  have "is_ok (snd (VolumeDelete sample_host ''keep'' (simModule, simWorld)))" by code_simp
  from result_cases[OF this] obtain m w where
    run: "VolumeDelete sample_host ''keep'' (simModule, simWorld) = ((m, w), Ok ())" by auto
  have "d = d'" if "d \<in> set simDisks" "d' \<in> set simDisks" "''keep'' \<in> fst ` set (simSubs d simWorld)" "''keep'' \<in> fst ` set (simSubs d' simWorld)" for d d'
    using that by (auto simp: simDisks_def simSubs_def sim_pools simWorld_def)
  from volume_delete_then_lookup[OF sim.btrfs_node_axioms sample_sorts(1) sim_world sim_module(3) this run] run show ?thesis by blast
qed

text \<open>C31: disks that are not used sleep. After \<open>shutdownUnusedPools\<close> returns no error, a disk is mounted
  exactly when it was mounted before and holds volumes, and no volume is lost.\<close>

theorem unused_disks_unmounted:
  assumes "btrfs_node N D good mnt subs lim" and "good w" and "set (m_ssds m @ m_hdds m) = poolsOf N D" and "distinct (m_ssds m @ m_hdds m)"
    and "shutdownUnusedPools vm (m, w) = ((m', w'), Ok ())" and "d \<in> D"
  shows "subs d w' = subs d w \<and> (mnt d w' \<longleftrightarrow> mnt d w \<and> subs d w \<noteq> [])"
  by (rule btrfs_node.unused_unmounted[OF assms])

theorem unused_disks_unmounted_witness:
  "\<exists>m w. shutdownUnusedPools True (simModule, simWorld) = ((m, w), Ok ()) \<and> simMounted simDiskA w \<and> \<not> simMounted simDiskB w \<and>
     simSubs simDiskA w = [(''keep'', 256)]"
proof -
  have "is_ok (snd (shutdownUnusedPools True (simModule, simWorld)))" by code_simp
  from result_cases[OF this] obtain m w where run: "shutdownUnusedPools True (simModule, simWorld) = ((m, w), Ok ())" by auto
  have "simDiskA \<in> set simDisks" "simDiskB \<in> set simDisks" by (simp_all add: simDisks_def)
  then show ?thesis
    using unused_disks_unmounted[OF sim.btrfs_node_axioms sim_world sim_module(1,2) run, of simDiskA]
      unused_disks_unmounted[OF sim.btrfs_node_axioms sim_world sim_module(1,2) run, of simDiskB] run
    by (auto simp: simMounted_def simSubs_def sim_pools simWorld_def)
qed

end
