(* ===== verification/VolumeProps.thy ===== *)
theory VolumeProps
  imports StorageManagers BtrfsProps
begin

text \<open>
  The properties of the managers of disks and volumes, on the storage module: when a disk may
  be resized, and the life of a volume on btrfs pools.
\<close>

section \<open>Resizing a disk\<close>

text \<open>A machine of the deployment does not stand in the way of a resize.\<close>

definition leavesDisk :: "'w StorageEnv \<Rightarrow> Name \<Rightarrow> Workload \<Rightarrow> bool" where
  "leavesDisk E name vm \<longleftrightarrow> (IsOkay (State (wl_Result vm)) \<longrightarrow>
     (\<exists>data. se_ZMachine E (wl_Data vm) = Ok data \<and> name \<notin> mm_Name ` set (vm_Mounts data)))"

lemma checkMounts_Ok:
  "checkMounts (se_ZMachine E) name vms = Ok () \<longleftrightarrow> (\<forall>vm \<in> set vms. leavesDisk E name (wi_Workload vm))"
  by (induction vms) (auto simp: leavesDisk_def list_ex_iff split: sum.splits if_splits)

lemma checkMounts_Err:
  "checkMounts unmarshal name vms = Err e \<Longrightarrow> err_as_response e = Some StateUnChanged"
  by (induction vms) (auto simp: response_UnChanged_def split: sum.splits if_splits)

lemma checkResize_Ok:
  assumes "checkResize E S ctx s wl = Ok new"
  shows "\<exists>current old dl. GetWorkload S ctx s (wl_Name (wi_Workload wl)) = Ok current \<and>
    se_ZMount E (wl_Data (wi_Workload current)) = Ok old \<and> se_ZMount E (wl_Data (wi_Workload wl)) = Ok new \<and>
    zm_Size old < zm_Size new \<and> GetDeployment S ctx s = Ok dl \<and>
    (\<forall>vm \<in> set (Deployment_ByType dl [ZMachineType]). leavesDisk E (wl_Name (wi_Workload wl)) (wi_Workload vm))"
  using assms
  by (auto simp: checkResize_def Let_def rbind_Ok_iff fail_if_def rmap_Ok_iff checkMounts_Ok split: if_splits sum.splits)

lemma rmap_Err_iff: "rmap f r = Err e \<longleftrightarrow> r = Err e"
  by (cases r) simp_all

text \<open>What is recorded of a refused update.\<close>

lemma checkResize_Err:
  assumes "checkResize E S ctx s wl = Err e" and "GetWorkload S ctx s (wl_Name (wi_Workload wl)) = Ok current"
    and "se_ZMount E (wl_Data (wi_Workload current)) = Ok old" and "se_ZMount E (wl_Data (wi_Workload wl)) = Ok new"
  shows "e = ErrNoActionNeeded \<and> zm_Size new = zm_Size old \<or> err_as_response e = Some StateUnChanged"
  using assms
  by (auto simp: checkResize_def Let_def fail_if_def response_UnChanged_def rmap_Err_iff split: if_splits sum.splits dest: checkMounts_Err)

section \<open>Lookups of the module\<close>

lemma exists_of_lookup:
  "VolumeLookup H n mw = (mw', Ok info) \<Longrightarrow> VolumeExists H n mw = (mw', Ok True)"
  "VolumeLookup H n mw = (mw', Err e) \<Longrightarrow> err_is e ErrNotExist \<Longrightarrow> VolumeExists H n mw = (mw', Ok False)"
  by (simp_all add: VolumeExists_def)

lemma exists_Ok:
  assumes "VolumeExists H n mw = (mw', Ok b)"
  shows "b \<longleftrightarrow> (\<exists>info. VolumeLookup H n mw = (mw', Ok info))"
  using assms by (auto simp: VolumeExists_def split: prod.splits sum.splits if_splits)

text \<open>Looking a volume up again, after the first lookup has sorted the pools.\<close>

lemma lookup_keeps:
  assumes "VolumeLookup H n mw = (mw', r)"
  shows "snd mw' = snd mw"
  using assms by (auto simp: VolumeLookup_def module_path_def split: prod.splits)

lemma provision_created:
  assumes "volume_Provision E ctx s wl mw = ((data, None), mw2)"
  shows "\<exists>volume mw1 info. se_Volume E (wl_Data (wi_Workload wl)) = Ok volume \<and> VolumeExists (se_host E) (wi_ID wl) mw = (mw1, Ok False) \<and>
    VolumeCreate (se_host E) (wi_ID wl) (vol_Size volume) mw1 = (mw2, Ok info) \<and> data = se_marshal E (Some (vi_Name info))"
  using assms by (auto simp: volume_Provision_def Let_def split: sum.splits prod.splits bool.splits)

section \<open>The life of a volume\<close>

context node_pools
begin

lemma pools_sub: "sortsPools H \<Longrightarrow> VolumeLookup H n (m, w) = ((m', w'), r) \<Longrightarrow> volumePools H m' = volumePools H m"
  using pools_set(2)[of H m w] by (auto simp: VolumeLookup_def module_path_def split: prod.splits)

lemma holds_exists:
  assumes "sortsPools H" and "volumePools H m \<subseteq> Ps" and "holds H m n sz info w"
  shows "\<exists>m'. VolumeExists H n (m, w) = ((m', w), Ok True) \<and> volumePools H m' = volumePools H m \<and> holds H m' n sz info w"
proof -
  obtain m' where l: "VolumeLookup H n (m, w) = ((m', w), Ok info)" "volumePools H m' = volumePools H m"
    using holds_lookup[OF assms] by blast
  with exists_of_lookup(1)[OF l(1)] holds_module[OF l(2)] assms(3) show ?thesis by simp
qed

lemma provision_holds:
  assumes "sortsPools (se_host E)" and "sortsCandidates (se_host E)" and "wf w" and "volumePools (se_host E) m \<subseteq> Ps"
    and "plain (wi_ID wl)" and "\<forall>p \<in> Ps. \<not> onPool (wi_ID wl) p w"
    and "volume_Provision E ctx s wl (m, w) = ((data, None), (m', w'))"
  shows "\<exists>volume info. se_Volume E (wl_Data (wi_Workload wl)) = Ok volume \<and> data = se_marshal E (Some (wi_ID wl)) \<and>
    holds (se_host E) m' (wi_ID wl) (vol_Size volume) info w' \<and> volumePools (se_host E) m' \<subseteq> Ps"
proof -
  obtain volume m1 w1 info where v: "se_Volume E (wl_Data (wi_Workload wl)) = Ok volume"
    "VolumeExists (se_host E) (wi_ID wl) (m, w) = ((m1, w1), Ok False)"
    "VolumeCreate (se_host E) (wi_ID wl) (vol_Size volume) (m1, w1) = ((m', w'), Ok info)" "data = se_marshal E (Some (vi_Name info))"
    using provision_created[OF assms(7)] by (metis surj_pair)
  obtain r where l: "VolumeLookup (se_host E) (wi_ID wl) (m, w) = ((m1, w1), r)"
    using v(2) by (auto simp: VolumeExists_def split: prod.splits)
  have same: "w1 = w" "volumePools (se_host E) m1 = volumePools (se_host E) m"
    using lookup_keeps[OF l] pools_sub[OF assms(1) l] by simp_all
  note c = create_holds[OF assms(1-3) _ assms(5,6), of m1, unfolded same(2), OF assms(4) v(3)[unfolded same(1)]]
  then have h: "holds (se_host E) m' (wi_ID wl) (vol_Size volume) info w'" "volumePools (se_host E) m' \<subseteq> Ps"
    using holds_module[of "se_host E" m' m1] same(2) assms(4) by (auto simp: holds_def)
  from holds_lookup[OF assms(1) h(2,1)] v(1,4) h show ?thesis by auto
qed

lemma holds_provision:
  assumes "sortsPools (se_host E)" and "volumePools (se_host E) m \<subseteq> Ps" and "holds (se_host E) m (wi_ID wl) sz info w"
    and "se_Volume E (wl_Data (wi_Workload wl)) = Ok volume"
  shows "\<exists>m'. volume_Provision E ctx s wl (m, w) = ((se_marshal E (Some (wi_ID wl)), Some ErrNoActionNeeded), (m', w))"
  using holds_exists[OF assms(1-3)] assms(4) by (auto simp: volume_Provision_def Let_def)

lemma holds_shrink:
  assumes "sortsPools (se_host E)" and "volumePools (se_host E) m \<subseteq> Ps" and "holds (se_host E) m (wi_ID wl) sz info w"
    and "se_Volume E (wl_Data (wi_Workload wl)) = Ok volume" and "vol_Size volume < sz"
  shows "\<exists>e m'. volume_Update E ctx s wl (m, w) = ((se_marshal E None, Some e), (m', w))"
proof -
  obtain m1 where e: "VolumeExists (se_host E) (wi_ID wl) (m, w) = ((m1, w), Ok True)"
    "volumePools (se_host E) m1 = volumePools (se_host E) m" "holds (se_host E) m1 (wi_ID wl) sz info w"
    using holds_exists[OF assms(1-3)] by blast
  obtain m2 where "VolumeLookup (se_host E) (wi_ID wl) (m1, w) = ((m2, w), Ok info)" "us_Size (vi_Usage info) = sz"
    using holds_lookup[OF assms(1) _ e(3)] e(2) assms(2) by auto
  with e(1) assms(4,5) show ?thesis by (simp add: volume_Update_def Let_def)
qed

lemma holds_delete:
  assumes "sortsPools (se_host E)" and "volumePools (se_host E) m \<subseteq> Ps" and "holds (se_host E) m (wi_ID wl) sz info w"
    and "volume_Deprovision E ctx s wl (m, w) = (None, (m', w'))"
  shows "\<exists>m''. VolumeExists (se_host E) (wi_ID wl) (m', w') = ((m'', w'), Ok False)"
proof -
  obtain m1 where e: "VolumeExists (se_host E) (wi_ID wl) (m, w) = ((m1, w), Ok True)"
    "volumePools (se_host E) m1 = volumePools (se_host E) m" "holds (se_host E) m1 (wi_ID wl) sz info w"
    using holds_exists[OF assms(1-3)] by blast
  have del: "VolumeDelete (se_host E) (wi_ID wl) (m1, w) = ((m', w'), Ok ())"
    using assms(4) e(1) by (auto simp: volume_Deprovision_def Let_def errOf_def split: sum.splits prod.splits)
  have "wf w" using e(3) by (simp add: holds_def)
  from delete_lookup[OF assms(1) this _ holds_unique[OF e(3)] del] e(2) assms(2) show ?thesis
    by (auto intro: exists_of_lookup(2))
qed

lemma module_update:
  assumes "sortsPools H" and "volumePools H m \<subseteq> Ps" and "holds H m n sz info w"
    and "VolumeUpdate H n s (m, w) = ((m', w'), Ok ())"
  shows "\<exists>info'. holds H m' n s info' w' \<and> volumePools H m' \<subseteq> Ps"
proof -
  obtain p v u where p: "wf w" "p \<in> volumePools H m" "mountedIn w p" "v \<in> set (vols p w)" "fv_Name v = n" "fv_Usage v w = Ok u"
    "\<forall>q \<in> Ps. onPool n q w \<longrightarrow> q = p" using assms(3) unfolding holds_def by blast
  obtain m1 ps where ps: "pools H PolicySSDFirst (m, w) = (m1, ps)" by (meson surj_pair)
  note set_ps = pools_set[OF assms(1) ps]
  have "findVolume n w ps = Ok (p, v, reportVolume v u)"
    using set_ps(1) assms(2) p by (intro find_present[OF p(1) _ _ p(3-6)]) auto
  then have lim: "fv_Limit v s w = (w', Ok ())" "m' = m1"
    using assms(4) ps by (auto simp: VolumeUpdate_def module_path_def split: prod.splits)
  have "p \<in> Ps" using p(2) assms(2) by blast
  from limit[OF p(1) this p(3,4) lim(1)] obtain u' where
    "wf w'" "\<forall>q \<in> Ps. vols q w' = vols q w" "\<forall>q \<in> Ps. mountedIn w' q = mountedIn w q" "fv_Usage v w' = Ok u'" "fu_Size u' = s" by auto
  then have "holds H m' n s (reportVolume v u') w'"
    using p \<open>p \<in> Ps\<close> lim(2) set_ps(2) unfolding holds_def onPool_def by (metis (no_types, lifting))
  with lim(2) set_ps(2) assms(2) show ?thesis by auto
qed

lemma holds_update:
  assumes "sortsPools (se_host E)" and "volumePools (se_host E) m \<subseteq> Ps" and "holds (se_host E) m (wi_ID wl) sz info w"
    and "se_Volume E (wl_Data (wi_Workload wl)) = Ok volume" and "volume_Update E ctx s wl (m, w) = ((data, None), (m', w'))"
  shows "sz \<le> vol_Size volume \<and> (\<exists>m'' info'. VolumeLookup (se_host E) (wi_ID wl) (m', w') = ((m'', w'), Ok info') \<and>
    us_Size (vi_Usage info') = vol_Size volume)"
proof -
  obtain m1 where e: "VolumeExists (se_host E) (wi_ID wl) (m, w) = ((m1, w), Ok True)"
    "volumePools (se_host E) m1 = volumePools (se_host E) m" "holds (se_host E) m1 (wi_ID wl) sz info w"
    using holds_exists[OF assms(1-3)] by blast
  obtain m2 where l: "VolumeLookup (se_host E) (wi_ID wl) (m1, w) = ((m2, w), Ok info)" "us_Size (vi_Usage info) = sz"
    "volumePools (se_host E) m2 = volumePools (se_host E) m1"
    using holds_lookup[OF assms(1) _ e(3)] e(2) assms(2) by auto
  have u: "VolumeUpdate (se_host E) (wi_ID wl) (vol_Size volume) (m2, w) = ((m', w'), Ok ())" "sz \<le> vol_Size volume"
    using assms(4,5) e(1) l(1,2) by (auto simp: volume_Update_def Let_def split: sum.splits prod.splits if_splits)
  have "holds (se_host E) m2 (wi_ID wl) sz info w" "volumePools (se_host E) m2 \<subseteq> Ps"
    using e l(3) assms(2) holds_module[of "se_host E" m2 m1] by auto
  from module_update[OF assms(1) this(2,1) u(1)] obtain info' where
    "holds (se_host E) m' (wi_ID wl) (vol_Size volume) info' w'" "volumePools (se_host E) m' \<subseteq> Ps" by blast
  from holds_lookup[OF assms(1) this(2,1)] u(2) show ?thesis by blast
qed

end

context btrfs_node
begin

lemma fresh_pools: "good w \<Longrightarrow> \<forall>d \<in> D. n \<notin> fst ` set (subs d w) \<Longrightarrow> \<forall>p \<in> pool ` D. \<not> fs.onPool n p w"
  by (simp add: on_pool)

lemma volume_life:
  assumes "sortsPools (se_host E)" and "sortsCandidates (se_host E)" and "good w" and "volumePools (se_host E) m \<subseteq> poolsOf N D"
    and "plainName (wi_ID wl)" and "\<forall>d \<in> D. wi_ID wl \<notin> fst ` set (subs d w)"
    and "volume_Provision E ctx s wl (m, w) = ((data, None), (m', w'))"
  obtains volume info where "se_Volume E (wl_Data (wi_Workload wl)) = Ok volume" "data = se_marshal E (Some (wi_ID wl))"
    "fs.holds (se_host E) m' (wi_ID wl) (vol_Size volume) info w'" "volumePools (se_host E) m' \<subseteq> pool ` D"
  using fs.provision_holds[OF assms(1-3) _ assms(5) fresh_pools[OF assms(3,6)] assms(7)] assms(4) unfolding poolsOf_eq by blast

lemma life:
  assumes "sortsPools (se_host E)" and "sortsCandidates (se_host E)" and "good w"
    and "volumePools (se_host E) m \<subseteq> poolsOf N D" and "plainName (wi_ID wl)" and "\<forall>d \<in> D. wi_ID wl \<notin> fst ` set (subs d w)"
    and "wi_ID wl2 = wi_ID wl" and "se_Volume E (wl_Data (wi_Workload wl2)) = Ok new"
    and "volume_Provision E ctx s wl (m, w) = ((data, None), (m1, w1))"
  shows "\<exists>volume. se_Volume E (wl_Data (wi_Workload wl)) = Ok volume \<and> data = se_marshal E (Some (wi_ID wl)) \<and>
    (\<exists>m2. volume_Provision E ctx2 s2 wl (m1, w1) = ((data, Some ErrNoActionNeeded), (m2, w1))) \<and>
    (vol_Size new < vol_Size volume \<longrightarrow> (\<exists>e m2. volume_Update E ctx2 s2 wl2 (m1, w1) = ((se_marshal E None, Some e), (m2, w1)))) \<and>
    (\<forall>d m2 w2. volume_Update E ctx2 s2 wl2 (m1, w1) = ((d, None), (m2, w2)) \<longrightarrow> vol_Size volume \<le> vol_Size new \<and>
      (\<exists>m3 info. VolumeLookup (se_host E) (wi_ID wl) (m2, w2) = ((m3, w2), Ok info) \<and> us_Size (vi_Usage info) = vol_Size new)) \<and>
    (\<forall>m2 w2. volume_Deprovision E ctx2 s2 wl (m1, w1) = (None, (m2, w2)) \<longrightarrow>
      (\<exists>m3. VolumeExists (se_host E) (wi_ID wl) (m2, w2) = ((m3, w2), Ok False)))"
proof -
  obtain volume info where v: "se_Volume E (wl_Data (wi_Workload wl)) = Ok volume" "data = se_marshal E (Some (wi_ID wl))"
    and h: "fs.holds (se_host E) m1 (wi_ID wl) (vol_Size volume) info w1" "volumePools (se_host E) m1 \<subseteq> pool ` D"
    using volume_life[OF assms(1-6,9)] by blast
  have h2: "fs.holds (se_host E) m1 (wi_ID wl2) (vol_Size volume) info w1" using h(1) assms(7) by simp
  note laws = fs.holds_provision[OF assms(1) h(2,1) v(1)] fs.holds_shrink[OF assms(1) h(2) h2 assms(8)]
    fs.holds_update[OF assms(1) h(2) h2 assms(8)] fs.holds_delete[OF assms(1) h(2,1)]
  show ?thesis
    using laws(1,2,4) v laws(3)[THEN conjunct1] laws(3)[THEN conjunct2] unfolding assms(7)
    by (intro exI[of _ volume] conjI impI allI) simp_all
qed

end

section \<open>Sample data\<close>

text \<open>Data of a workload is \<open>old\<close>, \<open>big\<close> or anything else, of three sizes; a machine mounts the disk
  its data names.\<close>

definition sampleSize :: "bytes \<Rightarrow> Unit" where
  "sampleSize d = (if d = ''old'' then 20 else if d = ''big'' then 30 else 10)"

definition sampleMachine :: "bytes \<Rightarrow> ZMachine" where
  "sampleMachine d = \<lparr>vm_FList = [], vm_Network = \<lparr>mn_PublicIP = [], mn_Planetary = False, mn_Mycelium = None, mn_Interfaces = []\<rparr>,
     vm_Size = 0, vm_ComputeCapacity = \<lparr>mc_CPU = 1, mc_Memory = 1\<rparr>, vm_Mounts = [\<lparr>mm_Name = d, mm_Mountpoint = ''/data''\<rparr>],
     vm_Entrypoint = [], vm_Env = [], vm_Corex = False, vm_GPU = []\<rparr>"

definition sampleEnv :: "'w Os \<Rightarrow> 'w StorageEnv" where
  "sampleEnv F = \<lparr>se_host = sample_host, se_os = F, se_ZMount = (\<lambda>d. Ok \<lparr>zm_Size = sampleSize d\<rparr>),
     se_Volume = (\<lambda>d. Ok \<lparr>vol_Size = sampleSize d\<rparr>), se_ZMachine = (\<lambda>d. Ok (sampleMachine d)),
     se_marshal = (\<lambda>r. Ok (case r of None \<Rightarrow> ''null'' | Some i \<Rightarrow> i))\<rparr>"

definition sampleWl :: "WorkloadType \<Rightarrow> bytes \<Rightarrow> WorkloadWithID" where
  "sampleWl t d = \<lparr>wi_Workload = sampleWorkload t ''disk'' d, wi_ID = ''7-9-disk''\<rparr>"

text \<open>A deployment of a disk and a machine of a type that mounts a disk.\<close>

definition sampleDeployed :: "WorkloadType \<Rightarrow> Name \<Rightarrow> unit Storage" where
  "sampleDeployed t disk = sampleStorage (\<lambda>twin contract. Ok (sample_net\<lparr>dl_TwinID := twin, dl_ContractID := contract,
       dl_Workloads := [sampleWorkload ZMountType ''disk'' ''old'', sampleWorkload t ''vm'' disk]\<rparr>))
     (\<lambda>_. Ok (sampleWorkload ZMountType ''disk'' ''old''))"

definition simOs :: "world Os" where
  "simOs = \<lparr>os_Stat = (\<lambda>p w. Err ErrNotExist), os_Open = (\<lambda>p w. Err ErrNotExist), os_OpenWrite = (\<lambda>p w. Err ErrNotExist),
     os_Create = (\<lambda>p w. (w, Ok ())), os_SetNoCow = (\<lambda>p w. (w, Ok ())), os_Fallocate = (\<lambda>p n w. (w, Ok ())),
     os_Copy = (\<lambda>a b w. (w, Ok ())), os_RemoveAll = (\<lambda>p w. w), os_Remove = (\<lambda>p w. (w, Ok ())), os_ReadDir = (\<lambda>p w. Ok []),
     os_mkfs = (\<lambda>p w. (w, None, [])), os_blkid = (\<lambda>p w. False)\<rparr>"

definition sampleDisks :: "string list Module \<times> string list" where
  "sampleDisks = (sample_module [sample_pool ''a'' 90 0 [''/mnt/a/vdisks'']] [], [''a''])"

section \<open>Claims\<close>

text \<open>C17: a disk that a running machine of the type \<open>zmachine\<close> mounts is not resized. An update of a disk whose data
  decodes either needs no action (the size is the same), or is refused and recorded as unchanged,
  both with nothing done on the node, or the new size is greater than the old one, no machine of the deployment that is of the type
  \<open>zmachine\<close> and in the state ok or paused mounts the disk, and the node does what \<open>DiskResize\<close> does, where a
  failure is recorded as unchanged. (Machines of the type \<open>zmachine-light\<close> are not looked at.)\<close>

theorem zmount_resize_guarded:
  assumes "zmount_Update E S ctx s wl mw = ((data, err), mw')" and "GetWorkload S ctx s (wl_Name (wi_Workload wl)) = Ok current"
    and "se_ZMount E (wl_Data (wi_Workload current)) = Ok old" and "se_ZMount E (wl_Data (wi_Workload wl)) = Ok new"
  shows "(err = Some ErrNoActionNeeded \<and> zm_Size new = zm_Size old \<and> mw' = mw) \<or>
    (\<exists>e. err = Some e \<and> err_as_response e = Some StateUnChanged \<and> mw' = mw) \<or>
    (zm_Size old < zm_Size new \<and> (\<exists>dl. GetDeployment S ctx s = Ok dl \<and>
        (\<forall>vm \<in> set (Deployment_ByType dl [ZMachineType]). leavesDisk E (wl_Name (wi_Workload wl)) (wi_Workload vm))) \<and>
      (\<exists>r. DiskResize (se_host E) (se_os E) (wi_ID wl) (zm_Size new) mw = (mw', r) \<and>
        (case r of Inl e \<Rightarrow> err = Some (response_UnChanged e) | Inr _ \<Rightarrow> err = None)))"
proof (cases "checkResize E S ctx s wl")
  case (Inl e)
  with assms(1) have "err = Some e" "mw' = mw" by (simp_all add: zmount_Update_def zMountUpdateImpl_def returned_def)
  then show ?thesis using checkResize_Err[OF _ assms(2-4)] Inl by auto
next
  case (Inr new')
  then have "new' = new" using checkResize_Ok[OF Inr] assms(4) by auto
  obtain mw1 r where r: "DiskResize (se_host E) (se_os E) (wi_ID wl) (zm_Size new) mw = (mw1, r)" by (meson surj_pair)
  with assms(1) Inr \<open>new' = new\<close> have "mw1 = mw'" "case r of Inl e \<Rightarrow> err = Some (response_UnChanged e) | Inr _ \<Rightarrow> err = None"
    by (auto simp: zmount_Update_def zMountUpdateImpl_def returned_def split: sum.splits)
  with r checkResize_Ok[OF Inr] assms(2,3) \<open>new' = new\<close> show ?thesis by auto
qed

theorem zmount_resize_guarded_witness:
  "\<exists>mw'. zmount_Update (sampleEnv sample_os) (sampleDeployed ZMachineType ''other'') (withDeployment background 7 9) () (sampleWl ZMountType ''big'') sampleDisks =
     ((Ok ''7-9-disk'', None), mw') \<and> (\<exists>dl. GetDeployment (sampleDeployed ZMachineType ''other'') (withDeployment background 7 9) () = Ok dl \<and>
     (\<forall>vm \<in> set (Deployment_ByType dl [ZMachineType]). leavesDisk (sampleEnv sample_os) ''disk'' (wi_Workload vm)))"
proof -
  let ?S = "sampleDeployed ZMachineType ''other''" and ?ctx = "withDeployment background 7 9" and ?wl = "sampleWl ZMountType ''big''"
  let ?run = "zmount_Update (sampleEnv sample_os) ?S ?ctx () ?wl sampleDisks"
  have "fst ?run = (Ok ''7-9-disk'', None)" by code_simp
  then obtain mw' where run: "?run = ((Ok ''7-9-disk'', None), mw')" by (metis prod.collapse)
  have cur: "GetWorkload ?S ?ctx () (wl_Name (wi_Workload ?wl)) = Ok (sampleWl ZMountType ''old'')" by code_simp
  have dec: "se_ZMount (sampleEnv sample_os) (wl_Data (wi_Workload (sampleWl ZMountType ''old''))) = Ok \<lparr>zm_Size = 20\<rparr>"
    "se_ZMount (sampleEnv sample_os) (wl_Data (wi_Workload ?wl)) = Ok \<lparr>zm_Size = 30\<rparr>"
    by (simp_all add: sampleEnv_def sampleWl_def sampleWorkload_def sampleSize_def)
  have name: "wl_Name (wi_Workload ?wl) = ''disk''" by (simp add: sampleWl_def sampleWorkload_def)
  from zmount_resize_guarded[OF run cur dec] run show ?thesis unfolding name by blast
qed

text \<open>Only machines of the type \<open>zmachine\<close> are looked at: a disk that a running machine of the type
  \<open>zmachine-light\<close> mounts is resized under it.\<close>

lemma light_machines_not_checked:
  assumes "GetWorkload S ctx s (wl_Name (wi_Workload wl)) = Ok current" and "se_ZMount E (wl_Data (wi_Workload current)) = Ok old"
    and "se_ZMount E (wl_Data (wi_Workload wl)) = Ok new" and "zm_Size old < zm_Size new" and "GetDeployment S ctx s = Ok dl"
    and "\<forall>vm \<in> set (dl_Workloads dl). wl_Type vm \<noteq> ZMachineType"
  shows "snd (zmount_Update E S ctx s wl mw) = fst (DiskResize (se_host E) (se_os E) (wi_ID wl) (zm_Size new) mw)"
proof -
  have "Deployment_ByType dl [ZMachineType] = []"
    using ByType_identified[of _ dl "[ZMachineType]"] assms(6) by (cases "Deployment_ByType dl [ZMachineType]") force+
  with assms(1-5) have "checkResize E S ctx s wl = Ok new" by (auto simp: checkResize_def Let_def fail_if_def)
  then show ?thesis by (simp add: zmount_Update_def zMountUpdateImpl_def returned_def split: prod.splits sum.splits)
qed

lemma light_machine_disk_resized:
  "fst (zmount_Update (sampleEnv sample_os) (sampleDeployed ZMachineLightType ''disk'') (withDeployment background 7 9) () (sampleWl ZMountType ''big'') sampleDisks) =
     (Ok ''7-9-disk'', None)"
  "\<exists>e. fst (zmount_Update (sampleEnv sample_os) (sampleDeployed ZMachineType ''disk'') (withDeployment background 7 9) () (sampleWl ZMountType ''big'') sampleDisks) =
     (Ok [], Some (response_UnChanged e))"
proof -
  show "fst (zmount_Update (sampleEnv sample_os) (sampleDeployed ZMachineLightType ''disk'') (withDeployment background 7 9) () (sampleWl ZMountType ''big'') sampleDisks) =
     (Ok ''7-9-disk'', None)" by code_simp
  have "fst (zmount_Update (sampleEnv sample_os) (sampleDeployed ZMachineType ''disk'') (withDeployment background 7 9) () (sampleWl ZMountType ''big'') sampleDisks) =
     (Ok [], Some (response_UnChanged (Errorf ''disk is mounted, please delete the VM first'')))" by code_simp
  then show "\<exists>e. fst (zmount_Update (sampleEnv sample_os) (sampleDeployed ZMachineType ''disk'') (withDeployment background 7 9) () (sampleWl ZMountType ''big'') sampleDisks) =
     (Ok [], Some (response_UnChanged e))" by blast
qed

text \<open>C6: the life of a volume. On the btrfs pools of a node, after a volume of a new name is provisioned,
  provisioning it again needs no action and does nothing on the node, an update to a smaller
  size is refused with nothing done on the node, after an update without error the volume has the
  new size, and after the volume is deprovisioned without error it does not exist.\<close>

theorem volume_lifecycle:
  assumes "btrfs_node N D good mnt subs lim" and "sortsPools (se_host E)" and "sortsCandidates (se_host E)" and "good w"
    and "volumePools (se_host E) m \<subseteq> poolsOf N D" and "plainName (wi_ID wl)" and "\<forall>d \<in> D. wi_ID wl \<notin> fst ` set (subs d w)"
    and "wi_ID wl2 = wi_ID wl" and "se_Volume E (wl_Data (wi_Workload wl2)) = Ok new"
    and "volume_Provision E ctx s wl (m, w) = ((data, None), (m1, w1))"
  shows "\<exists>volume. se_Volume E (wl_Data (wi_Workload wl)) = Ok volume \<and> data = se_marshal E (Some (wi_ID wl)) \<and>
    (\<exists>m2. volume_Provision E ctx2 s2 wl (m1, w1) = ((data, Some ErrNoActionNeeded), (m2, w1))) \<and>
    (vol_Size new < vol_Size volume \<longrightarrow> (\<exists>e m2. volume_Update E ctx2 s2 wl2 (m1, w1) = ((se_marshal E None, Some e), (m2, w1)))) \<and>
    (\<forall>d m2 w2. volume_Update E ctx2 s2 wl2 (m1, w1) = ((d, None), (m2, w2)) \<longrightarrow> vol_Size volume \<le> vol_Size new \<and>
      (\<exists>m3 info. VolumeLookup (se_host E) (wi_ID wl) (m2, w2) = ((m3, w2), Ok info) \<and> us_Size (vi_Usage info) = vol_Size new)) \<and>
    (\<forall>m2 w2. volume_Deprovision E ctx2 s2 wl (m1, w1) = (None, (m2, w2)) \<longrightarrow>
      (\<exists>m3. VolumeExists (se_host E) (wi_ID wl) (m2, w2) = ((m3, w2), Ok False)))"
  by (rule btrfs_node.life[OF assms])

theorem volume_lifecycle_witness:
  "\<exists>m w. volume_Provision (sampleEnv simOs) background () (sampleWl VolumeType ''old'') (simModule, simWorld) = ((Ok ''7-9-disk'', None), (m, w)) \<and>
     (\<exists>m2. volume_Provision (sampleEnv simOs) background () (sampleWl VolumeType ''old'') (m, w) =
       ((Ok ''7-9-disk'', Some ErrNoActionNeeded), (m2, w))) \<and>
     (\<exists>e m2. volume_Update (sampleEnv simOs) background () (sampleWl VolumeType ''small'') (m, w) = ((Ok ''null'', Some e), (m2, w)))"
proof -
  let ?E = "sampleEnv simOs" and ?wl = "sampleWl VolumeType ''old''" and ?wl2 = "sampleWl VolumeType ''small''"
  have "fst (volume_Provision ?E background () ?wl (simModule, simWorld)) = (Ok ''7-9-disk'', None)" by code_simp
  then obtain m w where run: "volume_Provision ?E background () ?wl (simModule, simWorld) = ((Ok ''7-9-disk'', None), (m, w))"
    by (metis prod.collapse)
  have env: "se_host ?E = sample_host" "se_marshal ?E None = Ok ''null''" by (simp_all add: sampleEnv_def)
  have ids: "wi_ID ?wl = ''7-9-disk''" "wi_ID ?wl2 = wi_ID ?wl" by (simp_all add: sampleWl_def)
  have sizes: "se_Volume ?E (wl_Data (wi_Workload ?wl2)) = Ok \<lparr>vol_Size = 10\<rparr>" "se_Volume ?E (wl_Data (wi_Workload ?wl)) = Ok \<lparr>vol_Size = 20\<rparr>"
    by (simp_all add: sampleEnv_def sampleWl_def sampleWorkload_def sampleSize_def)
  have fresh: "plainName (wi_ID ?wl)" "\<forall>d \<in> set simDisks. wi_ID ?wl \<notin> fst ` set (simSubs d simWorld)"
    by (simp_all add: ids plainName_def element_def slash_def is_space_def simDisks_def simSubs_def sim_pools simWorld_def)
  have host: "sortsPools (se_host ?E)" "sortsCandidates (se_host ?E)" "volumePools (se_host ?E) simModule \<subseteq> poolsOf (simNode simDisks) (set simDisks)"
    using sample_sorts sim_module(3) by (simp_all add: env(1))
  note life = volume_lifecycle[OF sim.btrfs_node_axioms host(1,2) sim_world host(3) fresh ids(2) sizes(1) run, of background "()"]
  then show ?thesis using run sizes(2) env(2) by auto
qed

text \<open>C40: a volume that is asked to shrink is recorded as failed. Through the provisioner, an update of a
  volume to less than its size changes nothing on the node, and the result that is returned for
  the storage has the state error (the managers of disks and 0-db namespaces return
  unchanged), although the volume goes on as before.\<close>

theorem volume_shrink_marked_failed:
  assumes "managers (wl_Type (wi_Workload wl)) = Some (volumeManager E)" and "se_Volume E (wl_Data (wi_Workload wl)) = Ok volume"
    and "VolumeExists (se_host E) (wi_ID wl) mw = (mw1, Ok True)" and "VolumeLookup (se_host E) (wi_ID wl) mw1 = (mw2, Ok info)"
    and "vol_Size volume < us_Size (vi_Usage info)" and "se_marshal E None = Ok br"
  shows "\<exists>result. mapProvisioner_Update now managers ctx s wl mw = ((result, None), mw2) \<and> State result = StateError \<and>
    Data result = br \<and> snd mw2 = snd mw"
proof -
  have "snd mw1 = snd mw"
    using assms(3) by (auto simp: VolumeExists_def split: prod.splits dest: lookup_keeps)
  moreover have "snd mw2 = snd mw1" by (rule lookup_keeps[OF assms(4)])
  ultimately show ?thesis
    using assms
    by (auto simp: mapProvisioner_Update_def volumeManager_def volume_Update_def Let_def provide_result_def buildResult_def setState_def)
qed

theorem volume_shrink_marked_failed_witness:
  "\<exists>result mw. mapProvisioner_Update (\<lambda>_. 0) [VolumeType \<mapsto> volumeManager (sampleEnv simOs)] background ()
     \<lparr>wi_Workload = sampleWorkload VolumeType ''keep'' ''small'', wi_ID = ''keep''\<rparr> (simModule, simWorld) = ((result, None), mw) \<and>
     State result = StateError \<and> snd mw = simWorld"
proof -
  let ?E = "sampleEnv simOs" and ?wl = "\<lparr>wi_Workload = sampleWorkload VolumeType ''keep'' ''small'', wi_ID = ''keep''\<rparr>"
  let ?run = "VolumeExists (se_host ?E) (wi_ID ?wl) (simModule, simWorld)"
  let ?run2 = "VolumeLookup (se_host ?E) (wi_ID ?wl) (fst ?run)"
  have "snd ?run = Ok True" by code_simp
  then have ex: "?run = (fst ?run, Ok True)" by (metis prod.collapse)
  have "rmap (\<lambda>i. us_Size (vi_Usage i)) (snd ?run2) = Ok 60" by code_simp
  then obtain info where "snd ?run2 = Ok info" and sz: "us_Size (vi_Usage info) = 60" by (auto simp: rmap_Ok_iff)
  then have lk: "?run2 = (fst ?run2, Ok info)" by (metis prod.collapse)
  have small: "se_Volume ?E (wl_Data (wi_Workload ?wl)) = Ok \<lparr>vol_Size = 10\<rparr>" "se_marshal ?E None = Ok ''null''"
    by (simp_all add: sampleEnv_def sampleWorkload_def sampleSize_def)
  have "[VolumeType \<mapsto> volumeManager ?E] (wl_Type (wi_Workload ?wl)) = Some (volumeManager ?E :: (unit, world storage_world) Manager)" by (simp add: sampleWorkload_def)
  note failed = volume_shrink_marked_failed[where managers = "[VolumeType \<mapsto> volumeManager ?E]" and wl = ?wl and E = ?E and s = "()",
      OF this small(1) ex lk _ small(2)]
  have "vol_Size \<lparr>vol_Size = 10\<rparr> < us_Size (vi_Usage info)" using sz by simp
  from failed[OF this, of "\<lambda>_. 0" background] show ?thesis unfolding snd_conv by blast
qed

end
