(* ===== verification/MachineProps.thy ===== *)
theory MachineProps
  imports Machines VolumeProps
begin

text \<open>
  The properties of the manager of virtual machines: what a machine that runs has, that a failed
  attempt leaves no interface behind, and what goes wrong on nodes without GPUs and with a volume
  that a machine already has.
\<close>

section \<open>Steps and what they keep\<close>

lemma each_Ok:
  "each f xs w = Some (w', Ok u) \<Longrightarrow> x \<in> set xs \<Longrightarrow> \<exists>w1 w2 v. f x w1 = Some (w2, Ok v)"
  by (induction xs arbitrary: w) (auto simp: ibind_Ok_iff)

lemma onError_Ok [simp]: "onError c m w = Some (w', Ok x) \<longleftrightarrow> m w = Some (w', Ok x)"
  by (auto simp: onError_def itry_def iret_def split: option.splits sum.splits)

lemma ikeeps_each [io_intros]:
  "reflp R \<Longrightarrow> transp R \<Longrightarrow> (\<And>x. ikeeps R (f x)) \<Longrightarrow> ikeeps R (each f xs)"
  by (induction xs) (auto intro: ikeeps_iret ikeeps_ibind)

lemma ikeeps_logged [io_intros]: "reflp R \<Longrightarrow> transp R \<Longrightarrow> ikeeps R m \<Longrightarrow> ikeeps R (logged m)"
  unfolding logged_def by (intro ikeeps_itry ikeeps_iret)

lemma ikeeps_onError [io_intros]:
  "reflp R \<Longrightarrow> transp R \<Longrightarrow> ikeeps R c \<Longrightarrow> ikeeps R m \<Longrightarrow> ikeeps R (onError c m)"
  unfolding onError_def by (intro ikeeps_itry ikeeps_case ikeeps_iret)

lemma ikeeps_option [io_intros]:
  "ikeeps R m \<Longrightarrow> (\<And>x. ikeeps R (f x)) \<Longrightarrow> ikeeps R (case v of None \<Rightarrow> m | Some x \<Rightarrow> f x)"
  by (cases v) simp_all

lemma ikeeps_list [io_intros]:
  "ikeeps R m \<Longrightarrow> (\<And>x xs. ikeeps R (f x xs)) \<Longrightarrow> ikeeps R (case v of [] \<Rightarrow> m | x # xs \<Rightarrow> f x xs)"
  by (cases v) simp_all

lemma ikeeps_prod [io_intros]: "(\<And>a b. ikeeps R (f a b)) \<Longrightarrow> ikeeps R (case v of (a, b) \<Rightarrow> f a b)"
  by (cases v) simp


text \<open>A relation of local values, lifted to states of the node.\<close>

definition onLocals :: "(Locals \<Rightarrow> Locals \<Rightarrow> bool) \<Rightarrow> 'w vm_state \<Rightarrow> 'w vm_state \<Rightarrow> bool" where
  "onLocals Q st st' \<longleftrightarrow> Q (snd st) (snd st')"

lemma onLocals_order: "reflp Q \<Longrightarrow> reflp (onLocals Q)" "transp Q \<Longrightarrow> transp (onLocals Q)"
  by (auto simp: onLocals_def reflp_def transp_def)

lemma onLocals_steps:
  assumes "reflp Q"
  shows "ikeeps (onLocals Q) (onNode f)" "ikeeps (onLocals Q) (onModule g)" "ikeeps (onLocals Q) (ask q)"
    "ikeeps (onLocals Q) (localOf v)" "ikeeps (onLocals Q) (macOf E tap)"
  using assms
  by (auto simp: ikeeps_def onLocals_def onNode_def onModule_def ask_def localOf_def macOf_def reflp_def split: prod.splits option.splits)

lemma onLocals_set: "(\<And>l. Q l (g l)) \<Longrightarrow> ikeeps (onLocals Q) (setLocals g)"
  by (auto simp: ikeeps_def onLocals_def setLocals_def)

lemmas vm_mounts_defs = vmMounts_def vmMount_def mountDisk_def mountQsfs_def mountVolume_def addDisk_def addShared_def

lemmas vm_boot_defs = vmBoot_def prepContainer_def prepVirtualMachine_def mountRootfs_def removeHostKeys_def setKernel_def
  fListStartup_def copyFile_def setMachine_def vm_mounts_defs

text \<open>What booting keeps of the machine and its configuration.\<close>

definition corexEntrypoint :: string where
  "corexEntrypoint = ''/corex --ipv6 -d 7 --interface eth0''"

definition bootKeeps :: "Locals \<Rightarrow> Locals \<Rightarrow> bool" where
  "bootKeeps l l' \<longleftrightarrow> lc_ifaces l' = lc_ifaces l \<and> lc_ifs l' = lc_ifs l \<and> lc_pubIf l' = lc_pubIf l \<and>
     vm_Mounts (lc_config l') = vm_Mounts (lc_config l) \<and>
     m_Name (lc_machine l') = m_Name (lc_machine l) \<and> m_CPU (lc_machine l') = m_CPU (lc_machine l) \<and>
     m_Memory (lc_machine l') = m_Memory (lc_machine l) \<and> m_Devices (lc_machine l') = m_Devices (lc_machine l) \<and>
     (m_Entrypoint (lc_machine l') = m_Entrypoint (lc_machine l) \<or> m_Entrypoint (lc_machine l') = corexEntrypoint)"

lemma bootKeeps_order: "reflp bootKeeps" "transp bootKeeps"
  by (auto simp: bootKeeps_def reflp_def transp_def)

lemmas boot_rules = onLocals_order(1)[OF bootKeeps_order(1)] onLocals_order(2)[OF bootKeeps_order(2)] onLocals_steps[OF bootKeeps_order(1)]

lemma boot_keeps: "ikeeps (onLocals bootKeeps) (vmBoot E dl wl)"
  unfolding vm_boot_defs Let_def
  by (intro io_intros boot_rules onLocals_set) (auto simp: bootKeeps_def corexEntrypoint_def Let_def)

lemma locals_simps [simp]:
  "setLocals g st = Some (st', r) \<longleftrightarrow> st' = (fst st, g (snd st)) \<and> r = Ok ()"
  "localOf v st = Some (st', r') \<longleftrightarrow> st' = st \<and> Ok (v (snd st)) = r'"
  "ask q st = Some (st', r'') \<longleftrightarrow> st' = st \<and> q (snd (fst st)) = r''"
  by (auto simp: setLocals_def localOf_def ask_def split: prod.splits)

lemma onNode_Some: "onNode f st = Some (st', r) \<Longrightarrow> snd st' = snd st \<and> (\<exists>w w'. f w = (w', r))"
  by (auto simp: onNode_def split: prod.splits)

lemma onModule_Some: "onModule f st = Some (st', r) \<Longrightarrow> snd st' = snd st"
  by (auto simp: onModule_def split: prod.splits)

lemma macOf_Some: "macOf E tap st = Some (st', r) \<Longrightarrow> st' = st"
  by (auto simp: macOf_def split: option.splits)


section \<open>Interfaces\<close>

text \<open>The private interface of a machine has an address of the subnet that is not the gateway.\<close>

definition privIface :: "'w VmEnv \<Rightarrow> Deployment \<Rightarrow> MachineInterface \<Rightarrow> VMIface \<Rightarrow> bool" where
  "privIface E dl nic ifc \<longleftrightarrow> (\<exists>ip subnet w. To4 (mi_IP nic) = Some ip \<and>
     ve_GetSubnet E (netIDOf E (dl_TwinID dl) (mi_Network nic)) w = Ok subnet \<and> IPNet_Contains subnet ip \<and> ip ! 3 \<noteq> char_of (1 :: nat) \<and>
     hd (if_IPs ifc) = \<lparr>net_IP = ip, net_Mask = net_Mask subnet\<rparr>)"

lemma newPriv_Ok:
  assumes "newPrivNetworkInterface E dl wl nic st = Some (st', Ok ifc)"
  shows "snd st' = snd st \<and> privIface E dl nic ifc"
proof (cases "To4 (mi_IP nic)")
  case None
  then show ?thesis using assms by (auto simp: newPrivNetworkInterface_def Let_def ibind_Ok_iff)
next
  case (Some ip)
  then show ?thesis using assms
    by (auto simp: newPrivNetworkInterface_def Let_def ibind_Ok_iff fail_if_def privIface_def
        split: if_splits dest!: onNode_Some macOf_Some)
qed

lemma newOther_Ok:
  "newPubNetworkInterface E dl config st = Some (st', Ok ifc) \<Longrightarrow> snd st' = snd st"
  "newYggNetworkInterface E wl st = Some (st', Ok ifc) \<Longrightarrow> snd st' = snd st"
  "newMyceliumNetworkInterface E dl wl mconfig st = Some (st', Ok ifc) \<Longrightarrow> snd st' = snd st"
  by (auto simp: newPubNetworkInterface_def newYggNetworkInterface_def newMyceliumNetworkInterface_def Let_def ibind_Ok_iff
      split: if_splits dest!: onNode_Some macOf_Some)

text \<open>What the interfaces leave: the configuration and the machine as they were, and one more interface and tap.\<close>

definition adds :: "nat \<Rightarrow> Locals \<Rightarrow> Locals \<Rightarrow> bool" where
  "adds n l l' \<longleftrightarrow> lc_config l' = lc_config l \<and> lc_machine l' = lc_machine l \<and>
     (\<exists>ifaces taps. lc_ifaces l' = lc_ifaces l @ ifaces \<and> lc_ifs l' = lc_ifs l @ taps \<and> length ifaces = n \<and> length taps = n)"

lemma interfaces_add:
  "pubInterface E dl (mw, l) = Some ((mw', l'), Ok u) \<Longrightarrow> adds (of_bool (mn_PublicIP (vm_Network (lc_config l)) \<noteq> [])) l l'"
  "yggInterface E wl (mw, l) = Some ((mw', l'), Ok u) \<Longrightarrow> adds (of_bool (mn_Planetary (vm_Network (lc_config l)))) l l'"
  "myceliumInterface E dl wl (mw, l) = Some ((mw', l'), Ok u) \<Longrightarrow> adds (of_bool (mn_Mycelium (vm_Network (lc_config l)) \<noteq> None)) l l'"
  by (auto simp: pubInterface_def yggInterface_def myceliumInterface_def addIface_def adds_def Let_def ibind_Ok_iff
      split: if_splits option.splits dest!: newOther_Ok)

lemma adds_trans: "adds m l l1 \<Longrightarrow> adds n l1 l2 \<Longrightarrow> adds (m + n) l l2"
  by (fastforce simp: adds_def)

definition otherIfaces :: "MachineNetwork \<Rightarrow> nat" where
  "otherIfaces net = of_bool (mn_PublicIP net \<noteq> []) + of_bool (mn_Planetary net) + of_bool (mn_Mycelium net \<noteq> None)"

lemma vmInterfaces_Ok:
  assumes "vmInterfaces E dl wl (mw, l) = Some ((mw', l'), Ok u)" "mn_Interfaces (vm_Network (lc_config l)) = [nic]" "lc_ifaces l = []"
  obtains ifc rest where "lc_config l' = lc_config l" "lc_machine l' = lc_machine l" "lc_ifaces l' = ifc # rest" "privIface E dl nic ifc"
    "length rest = otherIfaces (vm_Network (lc_config l))"
proof -
  obtain mw1 l1 mw2 l2 mw3 l3 where p: "privInterfaces E dl wl (mw, l) = Some ((mw1, l1), Ok ())"
    and q: "pubInterface E dl (mw1, l1) = Some ((mw2, l2), Ok ())" "yggInterface E wl (mw2, l2) = Some ((mw3, l3), Ok ())"
      "myceliumInterface E dl wl (mw3, l3) = Some ((mw', l'), Ok ())"
    using assms(1) by (auto simp: vmInterfaces_def ibind_Ok_iff)
  obtain ifc where ifc: "privIface E dl nic ifc" and l1: "lc_config l1 = lc_config l" "lc_machine l1 = lc_machine l" "lc_ifaces l1 = [ifc]"
    using p assms(2,3) by (auto simp: privInterfaces_def ibind_Ok_iff addIface_def dest!: newPriv_Ok)
  note a = interfaces_add(1)[OF q(1)] interfaces_add(2)[OF q(2)] interfaces_add(3)[OF q(3)]
  have c: "lc_config l3 = lc_config l" "lc_config l2 = lc_config l" using a l1 by (auto simp: adds_def)
  have "adds (otherIfaces (vm_Network (lc_config l))) l1 l'"
    using adds_trans[OF adds_trans[OF a(1,2)] a(3)] by (simp add: c l1 otherIfaces_def)
  then show ?thesis using that[OF _ _ _ ifc] l1 by (auto simp: adds_def)
qed

section \<open>Mounts\<close>

text \<open>A workload of the deployment that a machine can mount.\<close>

definition mountable :: "Deployment \<Rightarrow> MachineMount \<Rightarrow> bool" where
  "mountable dl mount \<longleftrightarrow> (\<exists>d. Deployment_Get dl (mm_Name mount) = Ok d \<and> State (wl_Result (wi_Workload d)) = StateOk \<and>
     wl_Type (wi_Workload d) \<in> {ZMountType, QuantumSafeFSType, VolumeType})"

lemma vmMounts_Ok: "vmMounts E dl mounts format st = Some (st', Ok u) \<Longrightarrow> mount \<in> set mounts \<Longrightarrow> mountable dl mount"
  by (auto simp: vmMounts_def vmMount_def ibind_Ok_iff mountable_def Let_def rwrap_Ok_iff dest!: each_Ok split: if_splits)

lemma keeps_at: "ikeeps (onLocals bootKeeps) m \<Longrightarrow> m st = Some (st', r) \<Longrightarrow> vm_Mounts (lc_config (snd st')) = vm_Mounts (lc_config (snd st))"
  by (auto dest!: ikeepsD simp: onLocals_def bootKeeps_def)

lemma prep_keeps:
  "ikeeps (onLocals bootKeeps) (mountRootfs E wl)"
  "ikeeps (onLocals bootKeeps) (removeHostKeys E mnt)"
  "ikeeps (onLocals bootKeeps) (setKernel cloud info mnt)"
  "ikeeps (onLocals bootKeeps) (fListStartup E path)"
  unfolding vm_boot_defs Let_def
  by (intro io_intros boot_rules onLocals_set; auto simp: bootKeeps_def Let_def)+

lemma prepContainer_mounts:
  assumes "prepContainer E cloud info dl wl (mw, l) = Some (st, Ok u)" "mount \<in> set (vm_Mounts (lc_config l))"
  shows "mountable dl mount"
proof -
  obtain st1 mnt old st2 st3 st4 st5 where s: "mountRootfs E wl (mw, l) = Some (st1, Ok (mnt, old))"
    "(if old then iret (Ok ()) else removeHostKeys E mnt) st1 = Some (st2, Ok ())"
    "setKernel cloud info mnt st2 = Some (st3, Ok ())" "fListStartup E (Join [mnt, ''.startup.toml'']) st3 = Some (st4, Ok ())"
    "vmMounts E dl (vm_Mounts (lc_config (snd st4))) True st4 = Some (st5, Ok ())"
    using assms(1) by (force simp: prepContainer_def ibind_Ok_iff)
  have "vm_Mounts (lc_config (snd st2)) = vm_Mounts (lc_config (snd st1))"
    using s(2) keeps_at[OF prep_keeps(2)[of E mnt], of st1 st2 "Ok ()"] by (cases old) simp_all
  then have "vm_Mounts (lc_config (snd st4)) = vm_Mounts (lc_config l)"
    using keeps_at[OF prep_keeps(1) s(1)] keeps_at[OF prep_keeps(3) s(3)] keeps_at[OF prep_keeps(4) s(4)] by simp
  then show ?thesis using vmMounts_Ok[OF s(5)] assms(2) by simp
qed

lemma prepVirtualMachine_mounts:
  assumes "prepVirtualMachine E cloud info dl (mw, l) = Some (st, Ok u)" "mount \<in> set (vm_Mounts (lc_config l))"
  shows "mountable dl mount"
  using assms
  by (auto simp: prepVirtualMachine_def ibind_Ok_iff Let_def setMachine_def fail_if_def mountable_def
      split: list.splits if_splits dest!: vmMounts_Ok)

lemma boot_mounts:
  assumes "vmBoot E dl wl (mw, l) = Some (st, Ok u)" "mount \<in> set (vm_Mounts (lc_config l))"
  shows "mountable dl mount"
  using assms by (fastforce simp: vmBoot_def ibind_Ok_iff Let_def split: if_splits
      dest!: onNode_Some dest: prepContainer_mounts prepVirtualMachine_mounts)


section \<open>The machine that runs\<close>

lemma ExpandGPUs_Ok: "ExpandGPUs E gpus w = Ok devices \<Longrightarrow> \<not> IsGPUDisabled (ve_params E)"
  by (auto simp: ExpandGPUs_def split: if_splits)

lemma vmChecks_Ok:
  assumes "vmChecks E S ctx s wl (mw, noLocals) = Some ((mw', l), Ok dl)"
  obtains config nic devices where "mw' = mw" "se_ZMachine (ve_storage E) (wl_Data (wi_Workload wl)) = Ok config"
    "lc_config l = config" "GetDeployment S ctx s = Ok dl" "mn_Interfaces (vm_Network config) = [nic]" "lc_ifaces l = []" "lc_ifs l = []"
    "vm_GPU config = [] \<or> IsRentedNode ctx" "\<not> ve_Exists E (wi_ID wl) (snd mw)"
    "ExpandGPUs E (vm_GPU config) (snd mw) = Ok devices"
    "mn_PublicIP (vm_Network config) = [] \<or> ve_PublicIPv4Support E (snd mw)"
    "lc_machine l = noVM\<lparr>m_Name := wi_ID wl, m_CPU := mc_CPU (vm_ComputeCapacity config),
       m_Memory := mc_Memory (vm_ComputeCapacity config), m_Entrypoint := vm_Entrypoint config, m_Devices := map pci_Slot devices\<rparr>"
proof -
  obtain config where c: "se_ZMachine (ve_storage E) (wl_Data (wi_Workload wl)) = Ok config"
    using assms by (auto simp: vmChecks_def ibind_Ok_iff rwrap_Ok_iff)
  consider nic where "mn_Interfaces (vm_Network config) = [nic]" | "mn_Interfaces (vm_Network config) = []"
    | n1 n2 ns where "mn_Interfaces (vm_Network config) = n1 # n2 # ns"
    by (metis list.exhaust)
  then show ?thesis
  proof cases
    case 1
    have b: "fail_if bad e = Ok v \<longleftrightarrow> \<not> bad" for bad e v by (simp add: fail_if_def)
    show ?thesis using assms
      apply (simp add: vmChecks_def ibind_Ok_iff rwrap_Ok_iff setMachine_def c 1 b del: split_paired_Ex)
      apply (elim exE conjE)
      apply (rule that[OF _ c _ _ 1])
      apply (simp_all add: noLocals_def)
      done
  qed (use assms c in \<open>auto simp: vmChecks_def ibind_Ok_iff rwrap_Ok_iff\<close>)
qed

lemma vmRun_Ok:
  assumes "vmRun E wl (mw, l) = Some (st, Ok u)"
  obtains w w' url where "ve_Run E ((lc_machine l)\<lparr>m_Ifaces := lc_ifaces l, m_Environment := vm_Env (lc_config l),
    m_Hostname := wl_Name (wi_Workload wl)\<rparr>) w = (w', Ok url)"
  using assms by (auto simp: vmRun_def ibind_Ok_iff dest!: onNode_Some)

lemma provision_None:
  assumes "vm_Provision E S ctx s wl mw = Some ((out, None), mw')"
  obtains l where "virtualMachineProvisionImpl E S ctx s wl (mw, noLocals) = Some ((mw', l), Ok ())"
  using assms by (auto simp: vm_Provision_def errOf_def split: option.splits prod.splits sum.splits)

text \<open>What the machine that is handed to the daemon has, for a workload of a configuration.\<close>

definition runsAs :: "'w VmEnv \<Rightarrow> Deployment \<Rightarrow> WorkloadWithID \<Rightarrow> ZMachine \<Rightarrow> MachineInterface \<Rightarrow> VM \<Rightarrow> bool" where
  "runsAs E dl wl config nic machine \<longleftrightarrow> m_Name machine = wi_ID wl \<and> m_Hostname machine = wl_Name (wi_Workload wl) \<and>
     m_CPU machine = mc_CPU (vm_ComputeCapacity config) \<and> m_Memory machine = mc_Memory (vm_ComputeCapacity config) \<and>
     m_Entrypoint machine \<in> {vm_Entrypoint config, corexEntrypoint} \<and>
     (\<exists>devices w. ExpandGPUs E (vm_GPU config) w = Ok devices \<and> m_Devices machine = map pci_Slot devices) \<and>
     (\<exists>ifc rest. m_Ifaces machine = ifc # rest \<and> privIface E dl nic ifc \<and> length rest = otherIfaces (vm_Network config))"

section \<open>A sample node\<close>

text \<open>A node with one disk, of which a machine boots the image of its flist.\<close>

definition sampleVmPub :: "string list PubEnv" where
  "sampleVmPub = \<lparr>pi_md5 = (\<lambda>b. replicate 16 (char_of (0x94 :: nat))), pi_base58 = (\<lambda>b. ''tap''),
     pi_unmarshal = (\<lambda>d. Err (Errorf ''no address'')), pi_unmarshalResult = (\<lambda>d. Err (Errorf ''no address'')),
     pi_ParseCIDR = (\<lambda>t. Err (Errorf ''invalid CIDR address'')), pi_parseIP = (\<lambda>t. []), pi_PubIPFilterExists = (\<lambda>n w. False),
     pi_GetPublicIPv6Subnet = (\<lambda>w. Err (Errorf ''no public ipv6'')), pi_SetupPubIPFilter = (\<lambda>f i a b m w. (w, Ok ())),
     pi_RemovePubIPFilter = (\<lambda>f w. (w, Ok ())), pi_DisconnectPubTap = (\<lambda>t w. (w, Ok ()))\<rparr>"

definition privNetOf :: "nat \<Rightarrow> IPNet" where
  "privNetOf n = \<lparr>net_IP = map char_of [10, 1, 2, n], net_Mask = map char_of [255, 255, 255, 0 :: nat]\<rparr>"

definition sampleNic :: MachineInterface where
  "sampleNic = \<lparr>mi_Network = ''net'', mi_IP = net_IP (privNetOf 3)\<rparr>"

definition sampleConfig :: ZMachine where
  "sampleConfig = (sampleMachine ''disk'')\<lparr>vm_FList := ''flist'', vm_Entrypoint := ''/init'',
     vm_Network := \<lparr>mn_PublicIP = [], mn_Planetary = False, mn_Mycelium = None, mn_Interfaces = [sampleNic]\<rparr>\<rparr>"

definition sampleTap :: Tap where
  "sampleTap = \<lparr>tap_Name = ''tap'', tap_HW = [], tap_IP = privNetOf 3, tap_Gateway = []\<rparr>"

definition sampleVm :: "Params \<Rightarrow> string list VmEnv" where
  "sampleVm params = \<lparr>ve_storage = (sampleEnv sample_os)\<lparr>se_ZMachine := (\<lambda>d. Ok sampleConfig)\<rparr>, ve_pub = sampleVmPub, ve_params = params,
     ve_ListGPUs = (\<lambda>w. Ok []), ve_IoMMUGroup = (\<lambda>p w. Ok []), ve_Exists = (\<lambda>i w. False), ve_Inspect = (\<lambda>i w. Ok ()),
     ve_Run = (\<lambda>m w. (w, Ok ''console'')), ve_Delete = (\<lambda>i w. (w, Ok ())),
     ve_FlistMount = (\<lambda>i u p w. (w, Ok (''/mnt/'' @ u))), ve_FlistUnmount = (\<lambda>i w. (w, Ok ())), ve_FlistHash = (\<lambda>u w. Ok ''hash''),
     ve_cloudFlist = Ok ''cloud'', ve_PublicIPv4Support = (\<lambda>w. False), ve_GetSubnet = (\<lambda>n w. Ok (privNetOf 0)),
     ve_GetNet = (\<lambda>n w. Ok (privNetOf 0)), ve_GetDefaultGwIP = (\<lambda>n w. Ok (net_IP (privNetOf 1), [])),
     ve_GetIPv6From4 = (\<lambda>n ip w. Ok noIPNet), ve_GetPublicIPV6Gateway = (\<lambda>w. Err (Errorf ''no gateway'')),
     ve_SetupPrivTap = (\<lambda>n t w. (w, Ok t)), ve_SetupPubTap = (\<lambda>t w. (w, Ok t)), ve_SetupYggTap = (\<lambda>t w. (w, Ok sampleTap)),
     ve_SetupMyceliumTap = (\<lambda>t n c w. (w, Ok sampleTap)), ve_RemoveTap = (\<lambda>t w. (w, Ok ())), ve_RemovePubTap = (\<lambda>t w. (w, Ok ())),
     ve_DisconnectPubTap = (\<lambda>t w. (w, Ok ())), ve_order = (\<lambda>xs. xs),
     ve_Stat = (\<lambda>p w. if p = ''/mnt/flist/image.raw'' then Ok RegularFile else Err ErrNotExist),
     ve_Readlink = (\<lambda>p w. Err ErrNotExist), ve_Glob = (\<lambda>p w. []), ve_Remove = (\<lambda>p w. (w, Ok ())), ve_Open = (\<lambda>p w. Err ErrNotExist),
     ve_OpenFile = (\<lambda>p w. (w, Ok ())), ve_Copy = (\<lambda>p q w. (w, Ok ())), ve_decodeStartup = (\<lambda>p w. Ok None),
     ve_unmarshalQsfs = (\<lambda>d. Ok d), ve_marshal = (\<lambda>r. Ok (mr_ID r))\<rparr>"

definition sampleVmWl :: WorkloadWithID where
  "sampleVmWl = \<lparr>wi_Workload = sampleWorkload ZMachineType ''vm'' ''data'', wi_ID = ''7-9-vm''\<rparr>"

definition sampleDl :: Deployment where
  "sampleDl = sample_net\<lparr>dl_TwinID := 7, dl_ContractID := 9,
     dl_Workloads := [sampleWorkload ZMountType ''disk'' ''old'', sampleWorkload ZMachineType ''vm'' ''disk'']\<rparr>"

lemma sample_mac: "macOf (sampleVm params) tap st = Some (st, Ok (HardwareAddr_String (char_of (0x96 :: nat) # replicate 5 (char_of (0x94 :: nat)))))"
proof -
  have "snd (scanHash 10 (replicate 16 (char_of (0x94 :: nat))) 0) = Some (char_of (0x96 :: nat) # replicate 5 (char_of (0x94 :: nat)))" by code_simp
  then have "HardwareAddrFromInputBytes (\<lambda>b. replicate 16 (char_of (0x94 :: nat))) tap = Some (char_of (0x96 :: nat) # replicate 5 (char_of (0x94 :: nat)))"
    by (subst HardwareAddrFromInputBytes.simps) (simp only: case_prod_unfold option.case)
  then show ?thesis by (simp add: macOf_def sampleVm_def sampleVmPub_def)
qed

lemmas run_defs = io_defs onNode_def ask_def onModule_def setLocals_def localOf_def onError_def logged_def setMachine_def fail_if_def rwrap_def

lemma sample_checks:
  "\<exists>l. vmChecks (sampleVm (\<lambda>_. None)) (sampleDeployed ZMachineType ''disk'') (withDeployment background 7 9) () sampleVmWl (sampleDisks, noLocals) =
     Some ((sampleDisks, l), Ok sampleDl) \<and> lc_config l = sampleConfig"
proof -
  have "GetDeployment (sampleDeployed ZMachineType ''disk'') (withDeployment background 7 9) () = Ok sampleDl"
    by (simp add: sampleDl_def GetDeployment_def GetDeploymentID_def withDeployment_def sampleDeployed_def sampleStorage_def)
  moreover have "vm_GPU sampleConfig = []" "mn_Interfaces (vm_Network sampleConfig) = [sampleNic]" "mn_PublicIP (vm_Network sampleConfig) = []"
    by (simp_all add: sampleConfig_def sampleMachine_def)
  ultimately show ?thesis
    by (simp add: vmChecks_def run_defs sampleVm_def ExpandGPUs_def IsGPUDisabled_def Params_Exists_def sampleDisks_def)
qed

lemma sample_interfaces:
  "lc_config l = sampleConfig \<Longrightarrow>
   \<exists>l'. vmInterfaces (sampleVm params) dl wl (mw, l) = Some ((mw, l'), Ok ()) \<and> lc_config l' = sampleConfig \<and> lc_machine l' = lc_machine l"
proof -
  assume "lc_config l = sampleConfig"
  moreover have "IPNet_Contains (privNetOf 0) (net_IP (privNetOf 3))" "To4 (net_IP (privNetOf 3)) = Some (net_IP (privNetOf 3))"
    "net_IP (privNetOf 3) ! 3 \<noteq> char_of (1 :: nat)" by code_simp+
  moreover have "vm_Network sampleConfig = \<lparr>mn_PublicIP = [], mn_Planetary = False, mn_Mycelium = None, mn_Interfaces = [sampleNic]\<rparr>"
    by (simp add: sampleConfig_def)
  moreover have "mi_IP sampleNic = net_IP (privNetOf 3)" by (simp add: sampleNic_def)
  moreover have "ve_GetSubnet (sampleVm params) n w = Ok (privNetOf 0)" "ve_GetNet (sampleVm params) n w = Ok (privNetOf 0)"
    "ve_GetDefaultGwIP (sampleVm params) n w = Ok (net_IP (privNetOf 1), [])" "ve_GetIPv6From4 (sampleVm params) n ip w = Ok noIPNet"
    "ve_SetupPrivTap (sampleVm params) n t w = (w, Ok t)" for n w ip t
    by (simp_all add: sampleVm_def)
  ultimately show ?thesis
    by (cases mw) (simp add: vmInterfaces_def privInterfaces_def pubInterface_def yggInterface_def myceliumInterface_def newPrivNetworkInterface_def
        addIface_def run_defs sample_mac Let_def)
qed

lemma sample_boot:
  assumes "lc_config l = sampleConfig"
  shows "map_option snd (vmBoot (sampleVm params) sampleDl wl (sampleDisks, l)) = Some (Ok ())"
proof -
  define info where "info = \<lparr>fl_ImagePath = ''/mnt/flist/image.raw'', fl_KernelPath = [], fl_InitrdPath = []\<rparr>"
  let ?lookup = "DiskLookup sample_host sample_os ''7-9-disk'' sampleDisks"
  let ?put = "DiskWrite sample_host sample_os ''7-9-disk'' ''/mnt/flist/image.raw'' (fst ?lookup)"
  have "rmap (\<lambda>_. ()) (snd ?lookup) = Ok ()" by code_simp
  then obtain d where d: "snd ?lookup = Ok d" by (auto simp: rmap_Ok_iff)
  have wr: "snd ?put = Ok ()" by code_simp
  have env: "se_host (ve_storage (sampleVm params)) = sample_host" "se_os (ve_storage (sampleVm params)) = sample_os"
    "ve_FlistMount (sampleVm params) i u p w = (w, Ok (''/mnt/'' @ u))" "ve_FlistHash (sampleVm params) u w = Ok ''hash''"
    "ve_cloudFlist (sampleVm params) = Ok ''cloud''" for i u p w
    by (simp_all add: sampleVm_def sampleEnv_def)
  have flist: "getFlistInfo (sampleVm params) ''/mnt/flist'' w = Ok info" for w
    unfolding info_def by code_simp
  have get: "Deployment_Get sampleDl ''disk'' = Ok \<lparr>wi_Workload = sampleWorkload ZMountType ''disk'' ''old'', wi_ID = ''7-9-disk''\<rparr>"
    by code_simp
  have config: "vm_FList sampleConfig = ''flist''" "vm_Mounts sampleConfig = [\<lparr>mm_Name = ''disk'', mm_Mountpoint = ''/data''\<rparr>]"
    by (simp_all add: sampleConfig_def sampleMachine_def)
  show ?thesis using assms d wr
    by (simp add: vmBoot_def prepVirtualMachine_def vmMounts_def FListInfo_IsContainer_def info_def config env flist get run_defs Let_def case_prod_unfold
        sampleWorkload_def)
qed


section \<open>Claims\<close>

text \<open>C7: a machine that runs was checked. When a machine is provisioned without an error, its
  configuration has one private network, GPUs only on a rented node and a public address only where there are
  addresses, and every mount is a disk, volume or file system of the deployment that was deployed
  without an error. The daemon was given a machine with the name, CPUs, memory and GPUs of the configuration, with one
  interface for every network (the address of the private one is in the subnet of the node and is not the gateway's), and
  with the entry point of the configuration or of corex: the one of a startup file in the flist never reaches the machine.\<close>

theorem machine_runs_checked:
  assumes "vm_Provision E S ctx s wl mw = Some ((out, None), mw')"
  shows "\<exists>config dl nic machine w w' url. se_ZMachine (ve_storage E) (wl_Data (wi_Workload wl)) = Ok config \<and>
    GetDeployment S ctx s = Ok dl \<and> mn_Interfaces (vm_Network config) = [nic] \<and> (vm_GPU config = [] \<or> IsRentedNode ctx) \<and>
    (mn_PublicIP (vm_Network config) = [] \<or> ve_PublicIPv4Support E (snd mw)) \<and> (\<forall>mount \<in> set (vm_Mounts config). mountable dl mount) \<and>
    ve_Run E machine w = (w', Ok url) \<and> runsAs E dl wl config nic machine"
proof -
  obtain l where run: "virtualMachineProvisionImpl E S ctx s wl (mw, noLocals) = Some ((mw', l), Ok ())"
    using provision_None[OF assms] by blast
  then obtain mw1 l1 dl mw2 l2 mw3 l3 where c: "vmChecks E S ctx s wl (mw, noLocals) = Some ((mw1, l1), Ok dl)"
    and i: "vmInterfaces E dl wl (mw1, l1) = Some ((mw2, l2), Ok ())" and b: "vmBoot E dl wl (mw2, l2) = Some ((mw3, l3), Ok ())"
    and r: "vmRun E wl (mw3, l3) = Some ((mw', l), Ok ())"
    by (auto simp: virtualMachineProvisionImpl_def ibind_Ok_iff)
  obtain config nic devices where config: "se_ZMachine (ve_storage E) (wl_Data (wi_Workload wl)) = Ok config"
    "lc_config l1 = config" "GetDeployment S ctx s = Ok dl" "mn_Interfaces (vm_Network config) = [nic]" "lc_ifaces l1 = []"
    "vm_GPU config = [] \<or> IsRentedNode ctx" "ExpandGPUs E (vm_GPU config) (snd mw) = Ok devices"
    "mn_PublicIP (vm_Network config) = [] \<or> ve_PublicIPv4Support E (snd mw)"
    "lc_machine l1 = noVM\<lparr>m_Name := wi_ID wl, m_CPU := mc_CPU (vm_ComputeCapacity config),
       m_Memory := mc_Memory (vm_ComputeCapacity config), m_Entrypoint := vm_Entrypoint config, m_Devices := map pci_Slot devices\<rparr>"
    using c by (rule vmChecks_Ok)
  obtain ifc rest where ifs: "lc_config l2 = lc_config l1" "lc_machine l2 = lc_machine l1" "lc_ifaces l2 = ifc # rest" "privIface E dl nic ifc"
    "length rest = otherIfaces (vm_Network (lc_config l1))"
    using vmInterfaces_Ok[OF i] config(2,4,5) by blast
  have keeps: "bootKeeps l2 l3" using ikeepsD[OF boot_keeps b] by (simp add: onLocals_def)
  obtain w w' url where go: "ve_Run E ((lc_machine l3)\<lparr>m_Ifaces := lc_ifaces l3, m_Environment := vm_Env (lc_config l3),
    m_Hostname := wl_Name (wi_Workload wl)\<rparr>) w = (w', Ok url)" (is "ve_Run E ?machine w = _")
    using vmRun_Ok[OF r] by blast
  have "runsAs E dl wl config nic ?machine"
    using keeps ifs config(2,9) config(7) by (auto simp: runsAs_def bootKeeps_def)
  moreover have "\<forall>mount \<in> set (vm_Mounts config). mountable dl mount"
    using boot_mounts[OF b] ifs(1) config(2) by simp
  ultimately show ?thesis using config go by blast
qed

theorem machine_runs_checked_witness:
  "\<exists>out mw' machine. vm_Provision (sampleVm (\<lambda>_. None)) (sampleDeployed ZMachineType ''disk'') (withDeployment background 7 9) () sampleVmWl sampleDisks =
     Some ((out, None), mw') \<and> runsAs (sampleVm (\<lambda>_. None)) sampleDl sampleVmWl sampleConfig sampleNic machine"
proof -
  let ?E = "sampleVm (\<lambda>_. None)" and ?S = "sampleDeployed ZMachineType ''disk''" and ?ctx = "withDeployment background 7 9"
  obtain l where c: "vmChecks ?E ?S ?ctx () sampleVmWl (sampleDisks, noLocals) = Some ((sampleDisks, l), Ok sampleDl)" "lc_config l = sampleConfig"
    using sample_checks by blast
  obtain l2 where i: "vmInterfaces ?E sampleDl sampleVmWl (sampleDisks, l) = Some ((sampleDisks, l2), Ok ())" "lc_config l2 = sampleConfig"
    using sample_interfaces[OF c(2)] by blast
  obtain mw l3 where b: "vmBoot ?E sampleDl sampleVmWl (sampleDisks, l2) = Some ((mw, l3), Ok ())"
    using sample_boot[OF i(2), of "\<lambda>_. None" sampleVmWl] by auto
  have "ve_Run ?E m w = (w, Ok ''console'')" for m w by (simp add: sampleVm_def)
  then have "\<exists>l'. vmRun ?E sampleVmWl (mw, l3) = Some ((mw, l'), Ok ())"
    by (cases mw) (simp add: vmRun_def run_defs)
  then have "\<exists>out. vm_Provision ?E ?S ?ctx () sampleVmWl sampleDisks = Some ((out, None), mw)"
    using c(1) i(1) b by (auto simp: vm_Provision_def virtualMachineProvisionImpl_def run_defs errOf_def)
  then obtain out where run: "vm_Provision ?E ?S ?ctx () sampleVmWl sampleDisks = Some ((out, None), mw)" by blast
  have "se_ZMachine (ve_storage ?E) (wl_Data (wi_Workload sampleVmWl)) = Ok sampleConfig" "mn_Interfaces (vm_Network sampleConfig) = [sampleNic]"
    by (simp_all add: sampleVm_def sampleConfig_def)
  moreover have "GetDeployment ?S ?ctx () = Ok sampleDl"
    by (simp add: sampleDl_def GetDeployment_def GetDeploymentID_def withDeployment_def sampleDeployed_def sampleStorage_def)
  ultimately show ?thesis using machine_runs_checked[OF run] run by force
qed

text \<open>C39: a node on which GPUs are disabled provisions no machine at all. The devices of a machine are looked up
  before it is known whether it asks for any, and the lookup fails on such a node even for an empty list: every machine
  is refused, with nothing done on the node.\<close>

theorem gpu_disabled_refuses_machines:
  assumes "IsGPUDisabled (ve_params E)"
  shows "\<exists>out e. vm_Provision E S ctx s wl mw = Some ((out, Some e), mw) \<and> (e = ErrNoActionNeeded \<longleftrightarrow> ve_Exists E (wi_ID wl) (snd mw))"
proof -
  have gpu: "ExpandGPUs E gpus w = Err (Errorf ''GPU is disabled on this node'')" for gpus w using assms by (simp add: ExpandGPUs_def)
  have "\<exists>l e. vmChecks E S ctx s wl (mw, noLocals) = Some ((mw, l), Err e) \<and> (e = ErrNoActionNeeded \<longleftrightarrow> ve_Exists E (wi_ID wl) (snd mw))"
  proof (cases "se_ZMachine (ve_storage E) (wl_Data (wi_Workload wl))")
    case (Inl e)
    then show ?thesis by (simp add: vmChecks_def run_defs case_prod_unfold)
  next
    case (Inr config)
    then show ?thesis by (simp add: vmChecks_def run_defs case_prod_unfold gpu)
  qed
  then show ?thesis by (auto simp: vm_Provision_def virtualMachineProvisionImpl_def ibind_def itry_def iret_def errOf_def)
qed

theorem gpu_disabled_refuses_machines_witness:
  "\<exists>out e. vm_Provision (sampleVm [DisableGPU \<mapsto> []]) (sampleDeployed ZMachineType ''disk'') (withDeployment background 7 9) () sampleVmWl sampleDisks =
     Some ((out, Some e), sampleDisks) \<and> e \<noteq> ErrNoActionNeeded \<and> vm_GPU sampleConfig = []"
proof -
  let ?E = "sampleVm [DisableGPU \<mapsto> []]"
  have "IsGPUDisabled (ve_params ?E)" by (simp add: sampleVm_def IsGPUDisabled_def Params_Exists_def)
  from gpu_disabled_refuses_machines[OF this, of "sampleDeployed ZMachineType ''disk''" "withDeployment background 7 9" "()" sampleVmWl sampleDisks]
  obtain out e where "vm_Provision ?E (sampleDeployed ZMachineType ''disk'') (withDeployment background 7 9) () sampleVmWl sampleDisks =
     Some ((out, Some e), sampleDisks)" "e = ErrNoActionNeeded \<longleftrightarrow> ve_Exists ?E (wi_ID sampleVmWl) (snd sampleDisks)" by blast
  moreover have "\<not> ve_Exists ?E (wi_ID sampleVmWl) (snd sampleDisks)" by (simp add: sampleVm_def)
  moreover have "vm_GPU sampleConfig = []" by (simp add: sampleConfig_def sampleMachine_def)
  ultimately show ?thesis by simp
qed

text \<open>The volume of the root file system of a machine that ran before is deleted when its flist cannot be
  mounted: the deferred function does not ask whether the volume is new.\<close>

lemma existing_rootfs_deleted:
  assumes "ve_FlistUnmount E (wi_ID wl) w = (w1, Ok ())" and "VolumeExists (se_host (ve_storage E)) (rootfsName wl) (m, w1) = (mw2, Ok True)"
    and "VolumeCreate (se_host (ve_storage E)) (rootfsName wl) (ZMachine_RootSize (lc_config l)) mw2 = ((m3, w3), Ok volume)"
    and "ve_FlistMount E (wi_ID wl) (vm_FList (lc_config l)) (Some (vi_Path volume)) w3 = (w4, Err e)"
  shows "\<exists>e'. mountRootfs E wl ((m, w), l) =
    Some ((fst (VolumeDelete (se_host (ve_storage E)) (rootfsName wl) (m3, w4)), l), Err e')"
  using assms by (auto simp: mountRootfs_def run_defs Let_def case_prod_unfold)

text \<open>The number of CPUs is compared as a byte: on a node with 256 CPUs no machine is valid.\<close>

lemma cpu_count_wraps: "VM_Validate (Ok 256) vm \<noteq> Ok ()"
  by (auto simp: VM_Validate_def fail_if_def word_less_nat_alt unat_eq_zero)

end
