(* ===== verification/Spec2Isabelle.thy ===== *)
theory Spec2Isabelle
  imports EngineStorage ZdbProps GatewayProps PublicIPProps NodePower MachineProps
begin

text \<open>
  A verification development of the zero-os node software (\<open>zos_base\<close>, in Go).

  \<^bold>\<open>The program.\<close> A node runs the workloads of deployments. A request (a message of the owner, or
  an event of the chain) reaches the \<^emph>\<open>provision engine\<close>, which checks it, writes the deployment
  into its \<^emph>\<open>storage\<close> (a bbolt database of transactions) and appends a job to a persistent
  \<^emph>\<open>queue\<close>. A single loop takes the jobs in order, checks the deployment against its contract on
  the chain and calls, for every workload and in the startup order of the types, the
  \<^emph>\<open>provisioner\<close>, which dispatches to the manager of the type and turns what it answers into a
  result; the engine records the result in the storage. The managers work on the modules of the
  node: the \<^emph>\<open>storage module\<close> keeps volumes and virtual disks on btrfs pools, one per disk, and hands
  out whole disks; the manager of \<^emph>\<open>0-db\<close> workloads keeps a 0-db in a container on such a disk and
  a namespace in it for each workload.

  \<^bold>\<open>Theories.\<close> Each opens with what it holds.
  \<^item> \<open>Prelude\<close>: Go's machine types, errors as values (\<open>err\<close>, \<open>errors.Is\<close>, \<open>errors.Wrap\<close>), the
    result monad, decimal and hexadecimal text.
  \<^item> \<open>GridTypes\<close> (\<open>pkg/gridtypes\<close>: common.go, id.go, workload.go, deployment.go): units, names,
    workload identifiers, results, workloads, the registry of types, deployments.
  \<^item> \<open>ZosTypes\<close> (\<open>pkg/gridtypes/zos\<close>): the data of every workload type with its \<open>Valid\<close>,
    \<open>Challenge\<close> and \<open>Capacity\<close>.
  \<^item> \<open>Deployments\<close> (deployment.go): \<open>Valid\<close>, \<open>Challenge\<close>, \<open>ChallengeHash\<close>, \<open>Sign\<close>, \<open>Verify\<close>,
    \<open>Upgrade\<close>.
  \<^item> \<open>Bolt\<close>: the interface of bbolt the storage uses, as a locale, and a database in memory that
    meets it; \<open>BoltStorage\<close> (\<open>pkg/provision/storage/storage.go\<close>): every operation of the storage
    as a function on it; \<open>StorageSpec\<close>: the storage as a map from deployments to their fields,
    active workloads and log, and the refinement of every operation; \<open>StorageProps\<close>: its claims.
  \<^item> \<open>Provisioner\<close> (\<open>pkg/provision/provisiner.go\<close>, \<open>pkg/primitives/statistics.go\<close>,
    \<open>pkg/primitives/vm/pause.go\<close>): managers, results, pause and resume, the memory check.
  \<^item> \<open>Queue\<close>: what the engine relies on of the dque package, as a locale; \<open>Engine\<close>
    (\<open>pkg/provision/engine.go\<close>): the engine's operations, jobs and loop; \<open>EngineQueue\<close>: the loop
    and the requests between its steps as a step relation, and the invariant of the queue;
    \<open>EngineJobs\<close>: the order of operations, authentication, validation; \<open>EngineStorage\<close>: what
    the engine relies on of its storage, as a locale that the storage on bbolt is shown to meet.
  \<^item> \<open>Paths\<close>: strings and paths (\<open>strings\<close>, \<open>filepath\<close>); \<open>Kernel\<close> (\<open>pkg/kernel\<close>): the parameters of
    the kernel.
  \<^item> \<open>StorageModule\<close> (\<open>pkg/storage\<close>: storage.go, pools.go, device.go): pools, volumes, the cache, disks
    for 0-db, over the interface of a pool; \<open>VDisks\<close> (disk.go): virtual disks; \<open>DiskProps\<close>: claims
    that hold for every pool; \<open>PoolLaws\<close>: what the module relies on of pools, as a locale
    (\<open>node_pools\<close>), and what its operations on volumes do on such pools.
  \<^item> \<open>BtrfsText\<close> (\<open>pkg/storage/filesystem/btrfs_utils.go\<close>): the parsers of what btrfs prints, with
    \<open>Sscanf\<close> and the regular expressions; \<open>BtrfsPool\<close> (btrfs.go, device.go, utils.go): pools and
    volumes by btrfs commands; \<open>BtrfsNode\<close>: the laws of the commands as a locale (\<open>btrfs_node\<close>) and
    the proof that the pools meet \<open>node_pools\<close> (a sublocale); \<open>BtrfsSim\<close>: a node that answers the
    commands with text, which meets the laws; \<open>BtrfsProps\<close>: the storage module on btrfs.
  \<^item> \<open>Zdb\<close> (\<open>pkg/zdb\<close>, \<open>pkg/utils/redis.go\<close>): the index of a disk and the client of a 0-db;
    \<open>ZdbManager\<close> (\<open>pkg/primitives/zdb\<close>): every operation of the manager; \<open>ZdbProps\<close>: what a 0-db
    promises, as a locale, a simulated one, and the claims.
  \<^item> \<open>Zinit\<close> (\<open>pkg/zinit\<close>): the client of the service manager; \<open>ZinitLaws\<close>: what it keeps and that its
    waits end, over the locales \<open>zinit_frame\<close>, \<open>zinit_clock\<close> and \<open>zinit_server\<close>; \<open>Gateway\<close>
    (\<open>pkg/gateway\<close>, \<open>pkg/primitives/gateway\<close>, \<open>pkg/cache\<close>): proxies and forwarders; \<open>GatewayLaws\<close>: the steps of
    the module and the agreement of reserved domains and configuration files (\<open>proxy_files\<close>), and
    the forwarders of a workload (\<open>forwarders\<close>); \<open>GatewaySim\<close>: a simulated node that meets these
    laws; \<open>GatewayProps\<close>: the claims.
  \<^item> \<open>Managers\<close> (\<open>pkg/primitives\<close>: network, network-light, zlogs, qsfs): the managers that pass a workload
    on to a daemon; \<open>StorageManagers\<close> (zmount, volume): disks and volumes on the storage module;
    \<open>VolumeProps\<close>: the claims of these, down to btrfs; \<open>PublicIPs\<close> (pubip, \<open>pkg/network/ifaceutil/mac.go\<close>):
    the addresses of workloads, and \<open>PublicIPProps\<close>: their claims; \<open>Machines\<close> (\<open>pkg/vm.go\<close>, vm, vmgpu): the
    manager of virtual machines over all of these, and \<open>MachineProps\<close>: what a machine that runs has.
  \<^item> \<open>NodePower\<close> (\<open>pkg/power\<close>): the power server, uptime reports and wake-on-lan, with what it relies on of
    the chain and zinit as a locale (\<open>power_chain\<close>).
  \<^item> This theory: a deployment followed from the request to its results, over all of these.

  \<^bold>\<open>State.\<close> The storage is threaded explicitly, as is the rest of the engine's state
  (\<open>EngineState\<close>); the node itself is a type \<open>'w\<close> that the managers change. Fallible code
  returns \<open>err + 'a\<close>; a write of the storage that fails leaves it as it was, as a bbolt
  transaction that is rolled back. Integers keep their width where they are computed with.

  \<^bold>\<open>Bounds.\<close> The sequence numbers of a transaction log have 64 bits: \<open>boltInv n\<close> says that \<open>n\<close>
  more records fit, and the claims that add records assume it for as many as they add. The
  loop of the engine has no fuel: one iteration is a total function (\<open>loopStep\<close>), and that the
  queue becomes empty is proved by counting jobs. Calls that are repeated until a time is over
  (\<open>backoff.RetryNotify\<close>) are repeated a number of times that is a parameter. The waits of the
  zinit client, the search for a free port and the search for a hardware address are partial
  functions, \<^const>\<open>None\<close> when they do not return; for the waits it is proved that they do, the
  search for a hardware address ends or not with the hash function.

  \<^bold>\<open>Simplifications.\<close>
  \<^item> A job runs atomically with respect to requests: they come before or after it. The steps of a
    request (\<open>enqueue\<close> marks its key under the lock, releases the lock and then appends the job) and of the loop (peek,
    run, dequeue, forget the key) interleave in any order in \<open>EngineQueue\<close>; the queue may start with
    what it held before a restart. Time is a clock of whole seconds; where a deadline and a timer are
    due at once, the timer is taken.
  \<^item> \<open>Dequeue\<close> of a queue that is not empty succeeds (the locale \<open>fifo\<close>); where it does not, the code logs the
    error and the job runs again. bbolt refuses keys that are empty or too long and values never: its limit for values
    is 2 GB. An update job has the deployment it updates (that this holds in the queue is part of the
    invariant of \<open>EngineQueue\<close>).
  \<^item> What \<open>encoding/json\<close> wrote is read back (\<open>jsonKeeps\<close>), which holds for text in UTF-8, as the
    text of a deployment is, that came as JSON itself; raw data comes back in its compact form.
  \<^item> \<open>btrfs qgroup show\<close> works on every mounted disk (\<open>btrfs_node\<close>): the code enables quotas after it mounted a
    pool; where that fails it reports an error and the disk stays mounted without quota groups. Reads of configuration files of the gateway fail only when the file does not exist
    (\<open>proxy_files\<close>); a domain of a proxy is not empty and has no backquote, and an identifier of a
    workload no slash, as their regular expressions demand.

  \<^bold>\<open>Parameters.\<close> JSON, the signature primitives, the chain gateway, bbolt, dque and the managers
  of the other workloads are arguments of the definitions, with what is relied on as named hypotheses;
  the witnesses instantiate them. So are the commands of the storage module (btrfs, findmnt,
  lsblk, hdparm), the modules the managers and the gateway call over the bus, zinit and the
  file system of the gateway.

  \<^bold>\<open>Not modelled.\<close> The construction of the engine, the HTTP and message bus glue, logging and
  metrics, the monitoring stream and the uploads of the storage module, the copy of the storage
  module for partitioned disks, the manager of light machines (the one of machines over the
  light network daemon), and the modules that drive the kernel and other processes
  (networking, machine processes, containers, flists); the traffic metrics of the gateway, which
  add floating point numbers; the endless loops of the power server and of the uptime reports
  around their steps; generated stubs.
\<close>

section \<open>A deployment from request to result\<close>

lemma installed_workloads:
  assumes "\<And>less xs. mset (en_sortSlice E less xs) = mset xs"
  shows "set (installOrder E dl t) = set (Deployment_ByType dl [t])"
  using assms by (auto simp: installOrder_def sortMountWorkloads_def) (metis set_mset_mset)+

lemma ByType_member:
  assumes "w \<in> set (dl_Workloads dl)" and "IsValidName (wl_Name w) = Ok ()"
  shows "\<exists>wl \<in> set (Deployment_ByType dl [wl_Type w]). wi_Workload wl = w"
proof -
  have "w \<in> set ws \<Longrightarrow> \<exists>wl \<in> set (collectWorkloads t c (\<lambda>wl. wl_Type wl \<in> set [wl_Type w]) ws). wi_Workload wl = w" for t c ws
    using assms(2) by (induction ws) (auto simp: NewWorkloadID_def split: sum.split)
  with assms(1) show ?thesis by (simp add: Deployment_ByType_def)
qed

text \<open>The loop on a queue with one job.\<close>

lemma single_job:
  assumes "fifo (en_queue E) items" and "items (es_queue st) = [job]" and "runJob E job st = (st', callback)"
  shows "\<exists>st2. loopStep E st = Some st2 \<and> items (es_queue st2) = [] \<and> es_storage st2 = es_storage st' \<and>
    (callback \<longrightarrow> en_callback E \<longrightarrow> last (es_callbacks st2) =
       (dl_TwinID (job_Target job), dl_ContractID (job_Target job), job_Op job = opDeprovision))"
proof -
  have "sameQueue st st'" using runJob_sameQueue[of st E job] assms(3) by simp
  then have head: "items (es_queue st') = [job]" using assms(2) by (simp add: sameQueue_def)
  have "loopStep E st = Some (finishJob E job callback st')"
    using assms(2,3) by (simp add: loopStep_def fifo.peek[OF assms(1)])
  with engine_queue.finishJob_queue[OF engine_queueI[OF assms(1)] head, of callback] show ?thesis by auto
qed

lemma bolt_provisions:
  assumes "bolt B \<alpha>" and "bs_db b = B" and "jsonKeeps (bs_json b)"
  shows "bolt_storage B \<alpha> b"
    "provision_storage (boltStorage L ord b) (boltInv \<alpha> b) (\<lambda>w. is_ok (marshalWorkload (bs_json b) w))"
proof -
  show bs: "bolt_storage B \<alpha> b" using assms by (simp add: bolt_storage_def bolt_storage_axioms_def)
  show "provision_storage (boltStorage L ord b) (boltInv \<alpha> b) (\<lambda>w. is_ok (marshalWorkload (bs_json b) w))"
    by (rule bolt_storage.is_provision_storage[OF bs])
qed

text \<open>Installing a deployment whose workloads are all stored with their types.\<close>

lemma install_deployment_settles:
  assumes S: "provision_storage S sinv storable" and "en_storage E = S"
    and sortSlice: "\<And>less xs. mset (en_sortSlice E less xs) = mset xs"
    and "settling ctx (set (dl_Workloads dl)) storable skipped (en_provisioner E)"
    and "Deployment_Valid (en_lib E) (en_registry E) dl = Ok ()"
    and "sinv (length (concat (map (installOrder E dl) (en_order E)))) (es_storage st)"
    and "\<And>w. w \<in> set (dl_Workloads dl) \<Longrightarrow>
      \<exists>w'. st_Current S (dl_TwinID dl) (dl_ContractID dl) (wl_Name w) (es_storage st) = Ok w' \<and> wl_Type w' = wl_Type w"
    and "w \<in> set (dl_Workloads dl)" and "wl_Type w \<in> set (en_order E)" and "\<And>n. en_now E n \<noteq> 0"
  shows "\<exists>w'. st_Current S (dl_TwinID dl) (dl_ContractID dl) (wl_Name w) (es_storage (installDeployment E ctx dl st)) = Ok w' \<and>
    (State (wl_Result w') \<noteq> StateInit \<or> skipped w)"
proof -
  let ?t = "dl_TwinID dl" and ?c = "dl_ContractID dl" and ?wls = "concat (map (installOrder E dl) (en_order E))"
  have ids: "identified ?t ?c wl \<and> wl_Type (wi_Workload wl) \<in> set (en_order E) \<and> wi_Workload wl \<in> set (dl_Workloads dl)"
    if "wl \<in> set ?wls" for wl
    using that by (auto simp: installed_workloads[OF sortSlice] dest!: ByType_identified)
  have "IsValidName (wl_Name w) = Ok ()"
    using assms(5,8) Workload_Valid_name by (auto simp: Deployment_Valid_iff)
  from ByType_member[OF assms(8) this] assms(9) obtain wl where wl: "wl \<in> set ?wls" "wi_Workload wl = w"
    by (auto simp: installed_workloads[OF sortSlice])
  have "sinv (0 + length ?wls) (es_storage st)" using assms(6) by simp
  moreover have "\<forall>wl \<in> set ?wls. provision_storage.typedAt S ?t ?c (es_storage st) (wl_Name (wi_Workload wl)) (wl_Type (wi_Workload wl))"
    using ids assms(7) unfolding provision_storage.typedAt_def[OF S] by blast
  moreover have "\<forall>wl \<in> set ?wls. identified ?t ?c wl \<and> wi_Workload wl \<in> set (dl_Workloads dl)" using ids by blast
  ultimately have "(provision_storage.settledAt S ?t ?c (es_storage (installDeployment E ctx dl st)) (wl_Name w) \<or> skipped w) \<and>
      provision_storage.typedAt S ?t ?c (es_storage (installDeployment E ctx dl st)) (wl_Name w) (wl_Type w)"
    using provision_storage.install_all_settle[OF S assms(2,4) _ _ _ assms(10)] wl assms(7)[OF assms(8)]
    unfolding installDeployment_def provision_storage.typedAt_def[OF S] by blast
  then show ?thesis unfolding provision_storage.settledAt_def[OF S] provision_storage.typedAt_def[OF S] by blast
qed

subsection \<open>Sample data\<close>

definition sample_contract :: NodeContract where
  "sample_contract = \<lparr>nc_Node = 3, nc_DeploymentHash =
     (case ChallengeHash sample_lib sample_registry sample_net of Inr h \<Rightarrow> hex_encode h | Inl _ \<Rightarrow> []), nc_PublicIPs = []\<rparr>"

definition live_engine :: "(Mem, int, engineJob list) NativeEngine" where
  "live_engine = sample_engine\<lparr>en_now := (\<lambda>_. 5),
     en_provisioner := NewMapProvisioner (\<lambda>_. 5) [(ZMountType, sample_manager), (NetworkType, sample_manager)],
     en_substrateGateway := Some \<lparr>gw_GetContract = (\<lambda>c w. Ok (Some sample_contract)),
       gw_GetNodeRentContract = (\<lambda>n w. Inr 0)\<rparr>\<rparr>"

lemma live_engine_fields [simp]:
  "en_storage live_engine = boltStorage sample_lib (\<lambda>ws. ws) sample_storage" "en_queue live_engine = listQueue"
  "en_order live_engine = [NetworkType, ZMountType]" "en_now live_engine = (\<lambda>_. 5)" "en_callback live_engine = True"
  "en_sortSlice live_engine lt xs = xs" "en_lib live_engine = sample_lib" "en_registry live_engine = sample_registry"
  "en_nodeID live_engine = 3"
  by (simp_all add: live_engine_def sample_engine_def)

lemma sample_net_fields [simp]:
  "dl_TwinID sample_net = 7" "dl_ContractID sample_net = 9" "dl_Version sample_net = 0"
  "dl_Workloads sample_net = [sample_wl NetworkType ''net'', sample_wl ZMountType ''a'']"
  by (simp_all add: sample_net_def sample_dl_def)

lemma sample_wl_fields [simp]: "wl_Name (sample_wl t n) = n" "wl_Type (sample_wl t n) = t"
  by (simp_all add: sample_wl_def)

definition live_managers :: "(WorkloadType \<times> (Mem, int) Manager) list" where
  "live_managers = [(ZMountType, sample_manager), (NetworkType, sample_manager)]"

lemma live_managers_answer:
  "en_provisioner live_engine = NewMapProvisioner (en_now live_engine) live_managers"
  "is_ok (marshalWorkload (bs_json sample_storage) w)"
  "answering (\<lambda>w. is_ok (marshalWorkload (bs_json sample_storage) w)) W (map_of live_managers)"
  "\<not> needsNoAction (map_of live_managers) ctx w"
proof -
  show m: "is_ok (marshalWorkload (bs_json sample_storage) w)" for w
    by (simp add: sample_storage_def sample_json_def)
  show "en_provisioner live_engine = NewMapProvisioner (en_now live_engine) live_managers"
    by (simp add: live_engine_def live_managers_def)
  show "answering (\<lambda>w. is_ok (marshalWorkload (bs_json sample_storage) w)) W (map_of live_managers)"
    by (auto simp: answering_def live_managers_def sample_manager_def m split: if_splits)
  show "\<not> needsNoAction (map_of live_managers) ctx w"
    by (auto simp: needsNoAction_def live_managers_def sample_manager_def split: if_splits)
qed

lemma sample_net_valid: "Deployment_Valid sample_lib sample_registry sample_net = Ok ()"
  by (auto simp: Deployment_Valid_iff Workload_Valid_def Workload_WorkloadData_def WorkloadType_Valid_def IsValidName_def
      nameMatch_def name_char_def reservedNames_def sample_wl_def sample_registry_def sample_lib_def
      type_defs ZMount_Valid_def)

lemma live_validate: "\<exists>c. validate live_engine ctx sample_net False w = Ok c \<and> ctx_deadline c = ctx_deadline ctx"
proof -
  have "is_ok (ChallengeHash sample_lib sample_registry sample_net)" 
    by (simp add: ChallengeHash_def Deployment_Challenge_def Workload_Challenge_def Workload_WorkloadData_def
      WorkloadType_Valid_def sample_wl_def sample_lib_def sample_registry_def type_defs)
  then show ?thesis
  by (auto simp: validate_def live_engine_def sample_engine_def sample_contract_def is_ok_iff withContract_def withRented_def Let_def)
qed


lemma sample_boltInv: "n < 2 ^ 64 \<Longrightarrow> boltInv memDb sample_storage n emptyMem"
proof -
  assume n: "n < 2 ^ 64"
  have "storageInv sample_storage (memDb emptyMem)"
    using mem.run_inv[OF sample_storage_fields(1) _ sample_empty storage_run.start] sample_json_keeps
    by (simp add: sample_storage_fields)
  moreover have "abs_storage emptyDb = emptySpec" by (simp add: abs_storage_def emptyDb_def emptySpec_def)
  ultimately show ?thesis using n by (simp add: boltInv_def sample_empty specRoom_def emptySpec_def)
qed

text \<open>An engine whose managers fail to deprovision anything.\<close>

definition stuck_engine :: "(Mem, int, engineJob list) NativeEngine" where
  "stuck_engine = live_engine\<lparr>en_provisioner := NewMapProvisioner (\<lambda>_. 5)
     (map (\<lambda>t. (t, sample_manager\<lparr>mgr_Deprovision := (\<lambda>ctx s wl w. (Some (Errorf ''busy''), w))\<rparr>)) [ZMountType, NetworkType])\<rparr>"

lemma stuck_engine_fields [simp]:
  "en_storage stuck_engine = boltStorage sample_lib (\<lambda>ws. ws) sample_storage" "en_queue stuck_engine = listQueue"
  "en_order stuck_engine = [NetworkType, ZMountType]" "en_now stuck_engine = (\<lambda>_. 5)"
  by (simp_all add: stuck_engine_def)

lemma sample_ByType: "length (Deployment_ByType dl [t]) \<le> length (dl_Workloads dl)"
proof -
  have "length (collectWorkloads tw c P ws) \<le> length ws" for tw c P ws
    by (induction ws) (auto split: sum.split)
  then show ?thesis by (simp add: Deployment_ByType_def)
qed

subsection \<open>Claims\<close>

text \<open>C3: a deployment is provisioned. \<open>Provision\<close> accepted a valid deployment with the queue empty, the
  contract on the chain matches it, the job ends before its timeout, the clock never reads 0 (which is the result that was never set), and the log of the deployment has room. Of the managers it is
  relied on that \<open>Provision\<close> answers with no error, with any plain error, with \<open>ErrNoActionNeeded\<close> or with the responses
  \<open>Ok\<close> and \<open>Paused\<close>, and that workloads with their results can be written as JSON; a type may have no manager at all.
  Then one iteration of the loop takes the job from the queue and calls the callback for the
  deployment, and every workload of a type in the startup order is stored with a result that is no longer \<open>init\<close>,
  unless its manager can answer \<open>ErrNoActionNeeded\<close> for it: the engine records nothing for that
  answer, so that such a workload may stay \<open>init\<close>.\<close>

theorem provision_end_to_end:
  assumes "bolt B \<alpha>" and "bs_db b = B" and "jsonKeeps (bs_json b)"
    and "en_storage E = boltStorage L ord b" and "fifo (en_queue E) items"
    and "\<And>less xs. mset (en_sortSlice E less xs) = mset xs" and "\<And>n. en_now E n \<noteq> 0"
    and "en_provisioner E = NewMapProvisioner (en_now E) managers"
    and "answering (\<lambda>w. is_ok (marshalWorkload (bs_json b) w)) (set (dl_Workloads dl)) (map_of managers)"
    and "\<And>w r. w \<in> set (dl_Workloads dl) \<Longrightarrow> Data r = [] \<Longrightarrow> is_ok (marshalWorkload (bs_json b) (WithResults w r))"
    and "items (es_queue st) = []"
    and "boltInv \<alpha> b (length (concat (map (installOrder E dl) (en_order E))) + length (dl_Workloads dl)) (es_storage st)"
    and "Deployment_Valid (en_lib E) (en_registry E) dl = Ok ()"
    and "Engine_Provision E dl st = (st1, Ok ())"
    and "validate E (withTimeout (withDeployment background (dl_TwinID dl) (dl_ContractID dl))
       (en_now E (es_world st1) + jobTimeout)) dl False (es_world st1) = Ok ctx"
    and "\<not> deadlineExceeded ctx (en_now E (es_world (installDeployment E ctx dl st1)))"
  shows "\<exists>st2. loopStep E st1 = Some st2 \<and> items (es_queue st2) = [] \<and>
    (\<forall>w \<in> set (dl_Workloads dl). wl_Type w \<in> set (en_order E) \<longrightarrow>
       (\<exists>w'. Storage_Current b (dl_TwinID dl) (dl_ContractID dl) (wl_Name w) (es_storage st2) = Ok w' \<and>
          (State (wl_Result w') \<noteq> StateInit \<or> needsNoAction (map_of managers) ctx w))) \<and>
    (en_callback E \<longrightarrow> last (es_callbacks st2) = (dl_TwinID dl, dl_ContractID dl, False))"
proof -
  let ?t = "dl_TwinID dl" and ?c = "dl_ContractID dl" and ?job = "newJob opProvision dl" and ?init = "en_now E (es_world st)"
  note S = bolt_provisions(2)[OF assms(1-3), of L ord]
  from assms(14) obtain s1 where s1: "Storage_Create b (\<lambda>_. ?init) dl (es_storage st) = Ok s1"
    and enq: "enqueue E ?job (st\<lparr>es_storage := s1\<rparr>) = (st1, Ok ())"
    by (auto simp: Engine_Provision_def createAndEnqueue_def commit_def assms(4) split: if_splits sum.splits)
  have st1: "es_storage st1 = s1" "items (es_queue st1) = [?job]"
    using engine_queue.enqueue_effect(1,5)[OF engine_queueI[OF assms(5)] enq] assms(11) by (simp_all add: dedupable_def newJob_def)
  have created: "\<exists>w'. Storage_Current b ?t ?c (wl_Name w) s1 = Ok w' \<and> wl_Type w' = wl_Type w" if "w \<in> set (dl_Workloads dl)" for w
    using provision_storage.create[OF S assms(12), of ?init s1] s1 that by auto
  have inv: "boltInv \<alpha> b (length (concat (map (installOrder E dl) (en_order E)))) s1"
    using provision_storage.create[OF S assms(12), of ?init s1] s1 by simp
  have "runJob E ?job st1 = (installDeployment E ctx dl st1, True)"
    using assms(15,16) by (simp add: runJob_def validated_def newJob_def Let_def)
  from single_job[OF assms(5) st1(2) this] obtain st2 where st2: "loopStep E st1 = Some st2" "items (es_queue st2) = []"
    "es_storage st2 = es_storage (installDeployment E ctx dl st1)"
    "en_callback E \<longrightarrow> last (es_callbacks st2) = (?t, ?c, False)" by (auto simp: newJob_def)
  have settling: "settling ctx (set (dl_Workloads dl)) (\<lambda>w. is_ok (marshalWorkload (bs_json b) w)) (needsNoAction (map_of managers) ctx)
      (en_provisioner E)"
    unfolding assms(8) by (rule map_provisioner_settling[OF assms(9,7,10)])
  have "\<exists>w'. Storage_Current b ?t ?c (wl_Name w) (es_storage st2) = Ok w' \<and>
      (State (wl_Result w') \<noteq> StateInit \<or> needsNoAction (map_of managers) ctx w)"
    if "w \<in> set (dl_Workloads dl)" "wl_Type w \<in> set (en_order E)" for w
    using install_deployment_settles[OF S assms(4,6) settling assms(13), of st1 w] that created inv st1(1) st2(3) assms(7) by simp
  with st2 show ?thesis by blast
qed

theorem provision_end_to_end_witness:
  "\<exists>st1 st2 w. Engine_Provision live_engine sample_net (sample_state0 emptyMem) = (st1, Ok ()) \<and>
     loopStep live_engine st1 = Some st2 \<and> es_queue st2 = [] \<and>
     Storage_Current sample_storage 7 9 ''a'' (es_storage st2) = Ok w \<and> State (wl_Result w) \<noteq> StateInit"
proof -
  let ?init = "sample_state0 emptyMem"
  from sample_created obtain s where s: "Storage_Create sample_storage (\<lambda>_. 5) sample_net emptyMem = Ok s" by blast
  then obtain st1 where p: "Engine_Provision live_engine sample_net ?init = (st1, Ok ())"
    by (auto simp: Engine_Provision_def createAndEnqueue_def commit_def enqueue_eq newJob_def listQueue_def
      dedupable_def sample_state0_def)
  obtain c where c: "validate live_engine (withTimeout (withDeployment background 7 9) (5 + jobTimeout)) sample_net False
      (es_world st1) = Ok c" "ctx_deadline c = Some (5 + jobTimeout)"
    using live_validate[of "withTimeout (withDeployment background 7 9) (5 + jobTimeout)"] by (auto simp: withTimeout_def)
  have "length (concat (map (installOrder live_engine sample_net) [NetworkType, ZMountType])) \<le> 4"
    by (simp add: installOrder_def sortMountWorkloads_def Deployment_ByType_def type_defs split: sum.split)
  then have inv: "boltInv memDb sample_storage (length (concat (map (installOrder live_engine sample_net) (en_order live_engine)))
      + length (dl_Workloads sample_net)) (es_storage ?init)" by (simp add: sample_boltInv)
  have "\<exists>st2. loopStep live_engine st1 = Some st2 \<and> es_queue st2 = [] \<and>
    (\<forall>w \<in> set (dl_Workloads sample_net). wl_Type w \<in> set (en_order live_engine) \<longrightarrow>
       (\<exists>w'. Storage_Current sample_storage (dl_TwinID sample_net) (dl_ContractID sample_net) (wl_Name w) (es_storage st2) = Ok w' \<and>
          (State (wl_Result w') \<noteq> StateInit \<or> needsNoAction (map_of live_managers) c w))) \<and>
    (en_callback live_engine \<longrightarrow> last (es_callbacks st2) = (dl_TwinID sample_net, dl_ContractID sample_net, False))"
    by (rule provision_end_to_end[where items = "\<lambda>q. q", OF mem.bolt_axioms sample_storage_fields(1) _
          live_engine_fields(1) _ _ _ live_managers_answer(1,3) live_managers_answer(2) _ inv _ p, where ctx = c])
      (use c sample_net_valid sample_json_keeps lq.fifo_axioms in \<open>simp_all add: deadlineExceeded_def sample_storage_fields jobTimeout_def\<close>)
  with p live_managers_answer(4) show ?thesis by auto
qed


text \<open>C33: a deprovisioned deployment is forgotten. One iteration of the loop after
  \<open>Deprovision\<close> empties the queue, and the storage no longer knows the deployment, whatever the managers
  did: a workload that could not be deprovisioned is recorded as an error, \<open>uninstallWorkload\<close>
  returns no error for it, and the deployment is deleted all the same.\<close>

theorem deprovision_forgets_deployment:
  assumes "bolt B \<alpha>" and "bs_db b = B" and "jsonKeeps (bs_json b)"
    and "en_storage E = boltStorage L ord b" and "\<And>xs. mset (ord xs) = mset xs" and "fifo (en_queue E) items"
    and "items (es_queue st) = []" and "es_pending st = []"
    and "boltInv \<alpha> b (length (concat (map (\<lambda>t. Deployment_ByType dl [t]) (rev (en_order E))))) (es_storage st)"
    and "\<And>w. en_now E w \<noteq> 0"
    and "\<And>w r. w \<in> set (dl_Workloads dl) \<Longrightarrow> Data r = [] \<Longrightarrow> is_ok (marshalWorkload (bs_json b) (WithResults w r))"
    and "Storage_Get b ord twin cid (es_storage st) = Ok dl"
    and "Engine_Deprovision E twin cid reason st = (st1, Ok ())"
  shows "\<exists>st2 e. loopStep E st1 = Some st2 \<and> items (es_queue st2) = [] \<and>
    Storage_Get b ord twin cid (es_storage st2) = Err e \<and> err_is e ErrDeploymentNotExists \<and>
    (en_callback E \<longrightarrow> last (es_callbacks st2) = (twin, cid, True))"
proof -
  let ?job = "(newJob opDeprovision dl)\<lparr>job_Message := reason\<rparr>"
  let ?wls = "concat (map (\<lambda>t. Deployment_ByType dl [t]) (rev (en_order E)))"
  note bs = bolt_provisions(1)[OF assms(1-3)] and S = bolt_provisions(2)[OF assms(1-3), of L ord]
  have ids: "dl_TwinID dl = twin" "dl_ContractID dl = cid"
    using assms(12) by (auto simp: Storage_Get_def rbind_Ok_iff split: option.splits)
  have enq: "enqueue E ?job st = (st1, Ok ())"
    using assms(4,12,13) by (simp add: Engine_Deprovision_def loadAndEnqueue_def)
  have st1: "es_storage st1 = es_storage st" "items (es_queue st1) = [?job]"
    using engine_queue.enqueue_effect(1,5)[OF engine_queueI[OF assms(6)] enq] assms(7,8) by simp_all
  let ?ctx = "withTimeout (withDeployment background twin cid) (en_now E (es_world st1) + jobTimeout)"
  let ?un = "forEachErr (\<lambda>wl. uninstallWorkload E ?ctx wl reason) ?wls st1"
  have wls: "identified twin cid wl" "wi_Workload wl \<in> set (dl_Workloads dl)" if "wl \<in> set ?wls" for wl
    using that ids by (auto dest!: ByType_identified)
  have cur: "Storage_Current b twin cid (wl_Name w) (es_storage st1) = Ok w" if "w \<in> set (dl_Workloads dl)" for w
    using get_current_inv[OF assms(1,2) bolt_storage.inv_fields(1)[OF bs assms(9)] assms(5,12)] that st1(1) by simp
  have typed: "wl_Type w = wl_Type (wi_Workload wl)"
    if "wl \<in> set ?wls" "Storage_Current b twin cid (wl_Name (wi_Workload wl)) (es_storage st1) = Ok w" for wl w
    using cur[OF wls(2)[OF that(1)]] that(2) by simp
  have all: "\<forall>wl \<in> set ?wls. identified twin cid wl" using wls(1) by blast
  have un: "\<not> snd ?un \<and> boltInv \<alpha> b 0 (es_storage (fst ?un))"
    by (rule provision_storage.uninstall_all[OF S assms(4) all _ assms(10)]) (use assms(9,11) wls(2) typed st1(1) in simp_all)
  from bolt_storage.delete_law[OF bs conjunct2[OF un], of twin cid ord] obtain s e where
    s: "Storage_Delete b twin cid (es_storage (fst ?un)) = Ok s" "Storage_Get b ord twin cid s = Err e" "err_is e ErrDeploymentNotExists"
    by blast
  obtain st' callback where run: "runJob E ?job st1 = (st', callback)" by (meson surj_pair)
  have "es_storage (uninstallDeployment E ?ctx dl reason st1) = s"
    using un s(1) assms(4) ids by (simp add: uninstallDeployment_def commit_def case_prod_beta)
  with run have "es_storage st' = s" "callback"
    using s(2) assms(4) ids by (auto simp: runJob_def validated_def newJob_def Let_def setGlobalError_def commit_def Storage_Error_def)
  with single_job[OF assms(6) st1(2) run] s ids show ?thesis by (auto simp: newJob_def)
qed


theorem deprovision_forgets_deployment_witness:
  "\<exists>s dl st1 st2 e. Storage_Get sample_storage (\<lambda>ws. ws) 7 9 s = Ok dl \<and>
     Engine_Deprovision stuck_engine 7 9 ''r'' (sample_state0 s) = (st1, Ok ()) \<and> loopStep stuck_engine st1 = Some st2 \<and>
     Storage_Get sample_storage (\<lambda>ws. ws) 7 9 (es_storage st2) = Err e"
proof -
  from sample_created obtain s where s: "Storage_Create sample_storage (\<lambda>_. 5) sample_net emptyMem = Ok s" by blast
  from create_get[OF mem.bolt_axioms sample_storage_fields(1) _ sample_empty storage_run.start _ _ s, of "\<lambda>ws. ws" "\<lambda>d. d"]
    sample_json_keeps sample_json_raw
  obtain dl where dl: "Storage_Get sample_storage (\<lambda>ws. ws) 7 9 s = Ok dl"
    "mset (map unresolved (dl_Workloads dl)) = mset (map (stored (\<lambda>d. d)) (dl_Workloads sample_net))" by (auto simp: sample_storage_fields)
  from dl obtain st1 where p: "Engine_Deprovision stuck_engine 7 9 ''r'' (sample_state0 s) = (st1, Ok ())"
    by (auto simp: Engine_Deprovision_def loadAndEnqueue_def enqueue_eq newJob_def listQueue_def dedupable_def sample_state0_def)
  let ?n = "length (concat (map (\<lambda>t. Deployment_ByType dl [t]) (rev (en_order stuck_engine))))"
  have "length (dl_Workloads dl) = 2" using arg_cong[OF dl(2), of size] by simp
  then have "?n \<le> 4" using sample_ByType[of dl NetworkType] sample_ByType[of dl ZMountType] by simp
  then have inv: "boltInv memDb sample_storage ?n (es_storage (sample_state0 s))"
    using sst.create_law(1)[OF sample_boltInv s] by simp
  have m: "is_ok (marshalWorkload (bs_json sample_storage) w)" for w
    by (simp add: sample_storage_def sample_json_def)
  have "\<exists>st2 e. loopStep stuck_engine st1 = Some st2 \<and> es_queue st2 = [] \<and>
    Storage_Get sample_storage (\<lambda>ws. ws) 7 9 (es_storage st2) = Err e \<and> err_is e ErrDeploymentNotExists \<and>
    (en_callback stuck_engine \<longrightarrow> last (es_callbacks st2) = (7, 9, True))"
    by (rule deprovision_forgets_deployment[where items = "\<lambda>q. q", OF mem.bolt_axioms sample_storage_fields(1) _
          stuck_engine_fields(1) _ _ _ _ inv _ _ _ p])
      (use m dl sample_json_keeps lq.fifo_axioms in \<open>simp_all add: sample_storage_fields\<close>)
  with p dl show ?thesis by blast
qed

end
